(* ===== verification/Prelude.thy ===== *)
theory Prelude
  imports Complex_Main "HOL-Library.Multiset"
begin

text \<open>
  Shared vocabulary of the development: the numbers of the source language, the rounding
  functions the code calls on them, the option idioms (\<open>??\<close>, \<open>!= null\<close>), and the theorem
  collections the component theories feed.

  A source \<open>number\<close> is a value of \<^verbatim>\<open>jsnum\<close>: the three non-finite values, or a finite value held
  as an exact rational.  The guards of the code (\<open>Number.isFinite\<close>, comparisons that are false
  on \<open>NaN\<close>, \<open>Math.min\<close> that propagates \<open>NaN\<close>, division by zero) are those of the language.
  What is idealised is the rounding of finite arithmetic to 53 bits, and the sign of zero.
  Timestamps and counters, which the code only takes from the clock or counts up from zero,
  are \<^typ>\<open>int\<close> and \<^typ>\<open>nat\<close>.
\<close>

named_theorems num_simps \<open>evaluation of the number operations on finite values\<close>
named_theorems gate_defs \<open>definitions of the fail-closed gates\<close>

subsection \<open>Numbers\<close>

datatype jsnum = NaN | PosInf | NegInf | Fin rat

fun is_finite :: "jsnum \<Rightarrow> bool" where
  "is_finite (Fin _) = True"
| "is_finite _ = False"

fun rat_of :: "jsnum \<Rightarrow> rat" where
  "rat_of (Fin a) = a"
| "rat_of _ = 0"

text \<open>The sum, difference, product and quotient of two numbers, the non-finite cases first.\<close>

fun js_plus :: "jsnum \<Rightarrow> jsnum \<Rightarrow> jsnum" where
  "js_plus NaN _ = NaN"
| "js_plus _ NaN = NaN"
| "js_plus PosInf NegInf = NaN"
| "js_plus NegInf PosInf = NaN"
| "js_plus PosInf _ = PosInf"
| "js_plus _ PosInf = PosInf"
| "js_plus NegInf _ = NegInf"
| "js_plus _ NegInf = NegInf"
| "js_plus (Fin a) (Fin b) = Fin (a + b)"

fun js_neg :: "jsnum \<Rightarrow> jsnum" where
  "js_neg NaN = NaN"
| "js_neg PosInf = NegInf"
| "js_neg NegInf = PosInf"
| "js_neg (Fin a) = Fin (- a)"

definition js_inf :: "rat \<Rightarrow> jsnum" where
  "js_inf s = (if s = 0 then NaN else if 0 < s then PosInf else NegInf)"

fun js_sgn :: "jsnum \<Rightarrow> rat" where
  "js_sgn PosInf = 1"
| "js_sgn NegInf = -1"
| "js_sgn (Fin a) = sgn a"
| "js_sgn NaN = 0"

fun js_times :: "jsnum \<Rightarrow> jsnum \<Rightarrow> jsnum" where
  "js_times (Fin a) (Fin b) = Fin (a * b)"
| "js_times NaN _ = NaN"
| "js_times _ NaN = NaN"
| "js_times x y = js_inf (js_sgn x * js_sgn y)"

fun js_div :: "jsnum \<Rightarrow> jsnum \<Rightarrow> jsnum" where
  "js_div NaN _ = NaN"
| "js_div _ NaN = NaN"
| "js_div (Fin a) (Fin b) = (if b = 0 then js_inf (sgn a) else Fin (a / b))"
| "js_div (Fin a) _ = Fin 0"
| "js_div x (Fin b) = js_inf (js_sgn x * (if b < 0 then -1 else 1))"
| "js_div _ _ = NaN"

fun js_less :: "jsnum \<Rightarrow> jsnum \<Rightarrow> bool" where
  "js_less NaN _ = False"
| "js_less _ NaN = False"
| "js_less (Fin a) (Fin b) = (a < b)"
| "js_less NegInf y = (y \<noteq> NegInf)"
| "js_less x PosInf = (x \<noteq> PosInf)"
| "js_less _ _ = False"

text \<open>
  The syntactic classes carry these operations, so the models read like the code: \<open>+\<close>, \<open>*\<close>,
  \<open>/\<close>, numerals, \<open><\<close> and \<open>\<le>\<close> on numbers are the operations above.
\<close>

instantiation jsnum :: "{zero, one, plus, minus, uminus, times, inverse, ord}"
begin
definition zero_jsnum :: jsnum where "zero_jsnum = Fin 0"
definition one_jsnum :: jsnum where "one_jsnum = Fin 1"
definition plus_jsnum :: "jsnum \<Rightarrow> jsnum \<Rightarrow> jsnum" where "plus_jsnum = js_plus"
definition uminus_jsnum :: "jsnum \<Rightarrow> jsnum" where "uminus_jsnum = js_neg"
definition minus_jsnum :: "jsnum \<Rightarrow> jsnum \<Rightarrow> jsnum" where
  "minus_jsnum x y = js_plus x (js_neg y)"
definition times_jsnum :: "jsnum \<Rightarrow> jsnum \<Rightarrow> jsnum" where "times_jsnum = js_times"
definition divide_jsnum :: "jsnum \<Rightarrow> jsnum \<Rightarrow> jsnum" where "divide_jsnum = js_div"
definition inverse_jsnum :: "jsnum \<Rightarrow> jsnum" where "inverse_jsnum x = js_div (Fin 1) x"
definition less_jsnum :: "jsnum \<Rightarrow> jsnum \<Rightarrow> bool" where "less_jsnum = js_less"
definition less_eq_jsnum :: "jsnum \<Rightarrow> jsnum \<Rightarrow> bool" where
  "less_eq_jsnum x y \<longleftrightarrow> js_less x y \<or> (x = y \<and> x \<noteq> NaN)"
instance ..
end

instance jsnum :: semigroup_add
proof
  fix a b c :: jsnum
  show "a + b + c = a + (b + c)"
    unfolding plus_jsnum_def by (cases a; cases b; cases c) simp_all
qed

instance jsnum :: numeral ..


lemma fin_arith [simp, num_simps]:
  "0 = Fin 0" "1 = Fin 1"
  "Fin a + Fin b = Fin (a + b)"
  "Fin a - Fin b = Fin (a - b)"
  "- Fin a = Fin (- a)"
  "Fin a * Fin b = Fin (a * b)"
  by (simp_all add: zero_jsnum_def one_jsnum_def plus_jsnum_def minus_jsnum_def
      uminus_jsnum_def times_jsnum_def)

lemma fin_div [simp, num_simps]: "b \<noteq> 0 \<Longrightarrow> Fin a / Fin b = Fin (a / b)"
  by (simp add: divide_jsnum_def)

lemma fin_numeral [simp, num_simps]: "numeral n = Fin (numeral n)"
  by (induction n rule: num.induct) (simp_all only: numeral.simps fin_arith)

lemma fin_order [simp, num_simps]:
  "Fin a < Fin b \<longleftrightarrow> a < b"
  "Fin a \<le> Fin b \<longleftrightarrow> a \<le> b"
  by (auto simp: less_jsnum_def less_eq_jsnum_def)

lemma nan_order [simp, num_simps]:
  "\<not> NaN < x" "\<not> x < NaN" "\<not> NaN \<le> x" "\<not> x \<le> NaN"
  by (cases x; simp add: less_jsnum_def less_eq_jsnum_def)+

lemma inf_order [simp, num_simps]:
  "Fin a < PosInf" "NegInf < Fin a" "\<not> PosInf < Fin a" "\<not> Fin a < NegInf"
  "Fin a \<le> PosInf" "NegInf \<le> Fin a" "\<not> PosInf \<le> Fin a" "\<not> Fin a \<le> NegInf"
  "\<not> PosInf < x" "\<not> x < NegInf" "PosInf \<le> PosInf" "NegInf \<le> NegInf"
  "NegInf < PosInf" "NegInf \<le> PosInf" "\<not> PosInf \<le> NegInf"
  by (cases x; simp add: less_jsnum_def less_eq_jsnum_def)+

lemma nan_plus [simp, num_simps]: "NaN + x = NaN" "x + NaN = NaN"
  by (cases x; simp add: plus_jsnum_def)+

lemma nan_arith [simp, num_simps]:
  "NaN - x = NaN" "x - NaN = NaN" "NaN * x = NaN" "x * NaN = NaN" "NaN / x = NaN" "x / NaN = NaN"
  "- NaN = NaN"
  by (cases x; simp add: minus_jsnum_def plus_jsnum_def times_jsnum_def divide_jsnum_def
      uminus_jsnum_def)+

lemma is_finite_iff: "is_finite x \<longleftrightarrow> (\<exists>a. x = Fin a)"
  by (cases x) auto

lemma is_finiteE [elim?]: "is_finite x \<Longrightarrow> (\<And>a. x = Fin a \<Longrightarrow> thesis) \<Longrightarrow> thesis"
  by (cases x) auto

lemma rat_of_fin [simp]: "is_finite x \<Longrightarrow> Fin (rat_of x) = x"
  by (cases x) auto

lemma between_finite: "Fin a \<le> x \<Longrightarrow> x \<le> Fin b \<Longrightarrow> is_finite x"
  by (cases x) auto

lemma js_less_trans: "x < y \<Longrightarrow> y < z \<Longrightarrow> x < (z :: jsnum)"
  by (cases x; cases y; cases z) auto

lemma js_le_trans: "x \<le> y \<Longrightarrow> y \<le> z \<Longrightarrow> x \<le> (z :: jsnum)"
  by (cases x; cases y; cases z) auto

lemma js_less_imp_le: "x < y \<Longrightarrow> x \<le> (y :: jsnum)"
  by (cases x; cases y) auto

lemma js_not_less: "x \<noteq> NaN \<Longrightarrow> y \<noteq> NaN \<Longrightarrow> \<not> x < y \<longleftrightarrow> y \<le> (x :: jsnum)"
  by (cases x; cases y) auto

lemma js_not_le: "x \<noteq> NaN \<Longrightarrow> y \<noteq> NaN \<Longrightarrow> \<not> x \<le> y \<longleftrightarrow> y < (x :: jsnum)"
  by (cases x; cases y) auto

text \<open>Equality of the language (\<open>===\<close>) is false on \<open>NaN\<close>.\<close>

definition js_eq :: "jsnum \<Rightarrow> jsnum \<Rightarrow> bool" where
  "js_eq x y \<longleftrightarrow> x = y \<and> x \<noteq> NaN"

lemma js_eq_fin [simp, num_simps]: "js_eq (Fin a) (Fin b) \<longleftrightarrow> a = b"
  by (simp add: js_eq_def)

text \<open>\<open>Math.min\<close>, \<open>Math.max\<close>, \<open>Math.abs\<close>: \<open>NaN\<close> if an argument is.\<close>

definition js_min :: "jsnum \<Rightarrow> jsnum \<Rightarrow> jsnum" where
  "js_min x y = (if x = NaN \<or> y = NaN then NaN else if x < y then x else y)"

definition js_max :: "jsnum \<Rightarrow> jsnum \<Rightarrow> jsnum" where
  "js_max x y = (if x = NaN \<or> y = NaN then NaN else if x < y then y else x)"

fun js_abs :: "jsnum \<Rightarrow> jsnum" where
  "js_abs (Fin a) = Fin \<bar>a\<bar>"
| "js_abs NaN = NaN"
| "js_abs _ = PosInf"

lemma js_min_max_fin [simp, num_simps]:
  "js_min (Fin a) (Fin b) = Fin (min a b)" "js_max (Fin a) (Fin b) = Fin (max a b)"
  by (auto simp: js_min_def js_max_def)

lemma js_min_le: "js_min x y \<noteq> NaN \<Longrightarrow> js_min x y \<le> x \<and> js_min x y \<le> y"
  by (cases x; cases y) (auto simp: js_min_def split: if_splits)

lemma js_min_NaN [simp]: "js_min NaN y = NaN" "js_min x NaN = NaN"
  by (simp_all add: js_min_def)

lemma js_max_NaN [simp]: "js_max NaN y = NaN" "js_max x NaN = NaN"
  by (simp_all add: js_max_def)

subsection \<open>Rounding\<close>

text \<open>
  \<open>Math.floor\<close>; \<open>Math.round\<close>, which rounds halves up; \<open>Number(x.toFixed(d))\<close>, which rounds the
  absolute value half up and leaves values of 1e21 and more as they are; \<open>10 ** d\<close>.
\<close>

fun js_floor :: "jsnum \<Rightarrow> jsnum" where
  "js_floor (Fin a) = Fin (of_int \<lfloor>a\<rfloor>)"
| "js_floor x = x"

fun js_ceil :: "jsnum \<Rightarrow> jsnum" where
  "js_ceil (Fin a) = Fin (of_int \<lceil>a\<rceil>)"
| "js_ceil x = x"

lemma floor_frac [simp, num_simps]:
  "\<lfloor>numeral a / numeral b :: rat\<rfloor> = numeral a div numeral b"
  "\<lfloor>1 / numeral b :: rat\<rfloor> = 1 div numeral b"
  "\<lfloor>- (numeral a / numeral b) :: rat\<rfloor> = (- numeral a) div numeral b"
  "\<lfloor>- (1 / numeral b) :: rat\<rfloor> = (- 1) div numeral b"
  using floor_divide_of_int_eq [of "numeral a" "numeral b", where 'a = rat]
    floor_divide_of_int_eq [of 1 "numeral b", where 'a = rat]
    floor_divide_of_int_eq [of "- numeral a" "numeral b", where 'a = rat]
    floor_divide_of_int_eq [of "- 1" "numeral b", where 'a = rat]
  by simp_all

definition round_half_up :: "rat \<Rightarrow> int" where
  "round_half_up a = \<lfloor>a + 1 / 2\<rfloor>"

fun js_round :: "jsnum \<Rightarrow> jsnum" where
  "js_round (Fin a) = Fin (of_int (round_half_up a))"
| "js_round x = x"

definition fixed_rat :: "nat \<Rightarrow> rat \<Rightarrow> rat" where
  "fixed_rat d a =
     (if 10 ^ 21 \<le> \<bar>a\<bar> then a
      else sgn a * of_int (round_half_up (\<bar>a\<bar> * 10 ^ d)) / 10 ^ d)"

fun to_fixed :: "nat \<Rightarrow> jsnum \<Rightarrow> jsnum" where
  "to_fixed d (Fin a) = Fin (fixed_rat d a)"
| "to_fixed d x = x"

lemma round_half_up_of_int [simp]: "round_half_up (of_int n) = n"
  unfolding round_half_up_def by linarith

lemma round_half_up_mono: "a \<le> b \<Longrightarrow> round_half_up a \<le> round_half_up b"
  unfolding round_half_up_def by (rule floor_mono) simp

lemma round_half_up_bounds:
  "of_int (round_half_up a) \<le> a + 1 / 2" "a - 1 / 2 < of_int (round_half_up a)"
  unfolding round_half_up_def by linarith+

lemma round_half_up_nonneg: "0 \<le> a \<Longrightarrow> 0 \<le> round_half_up a"
  unfolding round_half_up_def by simp

lemma round_half_up_pos: "1 / 2 \<le> a \<Longrightarrow> 0 < round_half_up a"
  unfolding round_half_up_def by linarith

lemma fixed_rat_nonneg: "0 \<le> a \<Longrightarrow> 0 \<le> fixed_rat d a"
  by (simp add: fixed_rat_def round_half_up_nonneg sgn_if)

lemma fixed_rat_error: "\<bar>fixed_rat d a - a\<bar> \<le> 1 / (2 * 10 ^ d)"
proof (cases "10 ^ 21 \<le> \<bar>a\<bar>")
  case True
  then show ?thesis by (simp add: fixed_rat_def)
next
  case False
  define r where "r = (of_int (round_half_up (\<bar>a\<bar> * 10 ^ d)) :: rat)"
  have r: "\<bar>r - \<bar>a\<bar> * 10 ^ d\<bar> \<le> 1 / 2"
    using round_half_up_bounds [of "\<bar>a\<bar> * 10 ^ d"] unfolding r_def abs_le_iff by linarith
  have "fixed_rat d a - a = sgn a * ((r - \<bar>a\<bar> * 10 ^ d) / 10 ^ d)"
    using False by (simp add: fixed_rat_def r_def field_simps sgn_if)
  then have "\<bar>fixed_rat d a - a\<bar> \<le> \<bar>r - \<bar>a\<bar> * 10 ^ d\<bar> / 10 ^ d"
    by (simp add: abs_mult sgn_if)
  also have "\<dots> \<le> (1 / 2) / 10 ^ d"
    using r by (intro divide_right_mono) simp_all
  finally show ?thesis by simp
qed

lemma fixed_rat_neg: "fixed_rat d (- a) = - fixed_rat d a"
  by (simp add: fixed_rat_def sgn_if)

lemma fixed_rat_mono_nonneg:
  assumes "0 \<le> a" and "a \<le> b"
  shows "fixed_rat d a \<le> fixed_rat d b"
proof (cases "10 ^ 21 \<le> b")
  case True
  have "fixed_rat d a \<le> 10 ^ 21" if "a < 10 ^ 21"
  proof -
    have "a * 10 ^ d \<le> of_int (10 ^ 21 * 10 ^ d)" using that by simp
    then have "round_half_up (a * 10 ^ d) \<le> round_half_up (of_int (10 ^ 21 * 10 ^ d))"
      by (rule round_half_up_mono)
    then have "round_half_up (a * 10 ^ d) \<le> 10 ^ 21 * 10 ^ d"
      unfolding round_half_up_of_int .
    then have "(of_int (round_half_up (a * 10 ^ d)) :: rat) \<le> of_int (10 ^ 21 * 10 ^ d)"
      by (simp only: of_int_le_iff)
    then show ?thesis
      using assms(1) that by (simp add: fixed_rat_def sgn_if field_simps)
  qed
  with True assms show ?thesis by (force simp: fixed_rat_def)
next
  case False
  have "a * 10 ^ d \<le> b * 10 ^ d" using assms(2) by simp
  then have "round_half_up (a * 10 ^ d) \<le> round_half_up (b * 10 ^ d)"
    by (rule round_half_up_mono)
  then show ?thesis
    using assms False round_half_up_nonneg [of "b * 10 ^ d"]
    by (auto simp: fixed_rat_def sgn_if divide_right_mono)
qed

lemma fixed_rat_mono: "a \<le> b \<Longrightarrow> fixed_rat d a \<le> fixed_rat d b"
proof -
  assume ab: "a \<le> b"
  consider "0 \<le> a" | "a < 0" "0 \<le> b" | "b < 0" by linarith
  then show ?thesis
  proof cases
    case 1
    then show ?thesis using ab by (rule fixed_rat_mono_nonneg)
  next
    case 2
    then show ?thesis
      using fixed_rat_nonneg [of b d] fixed_rat_nonneg [of "- a" d] by (simp add: fixed_rat_neg)
  next
    case 3
    then show ?thesis
      using fixed_rat_mono_nonneg [of "- b" "- a" d] ab by (simp add: fixed_rat_neg)
  qed
qed

text \<open>The remainder \<open>x % y\<close> truncates the quotient toward zero.\<close>

definition trunc_rat :: "rat \<Rightarrow> int" where
  "trunc_rat a = (if 0 \<le> a then \<lfloor>a\<rfloor> else \<lceil>a\<rceil>)"

fun js_rem :: "jsnum \<Rightarrow> jsnum \<Rightarrow> jsnum" where
  "js_rem (Fin a) (Fin b) = (if b = 0 then NaN else Fin (a - b * of_int (trunc_rat (a / b))))"
| "js_rem (Fin a) NaN = NaN"
| "js_rem (Fin a) _ = Fin a"
| "js_rem _ _ = NaN"

fun js_is_integer :: "jsnum \<Rightarrow> bool" where
  "js_is_integer (Fin a) = (of_int \<lfloor>a\<rfloor> = a)"
| "js_is_integer _ = False"

subsection \<open>Optional values\<close>

text \<open>\<open>x ?? d\<close>, and the guard \<open>x != null && p(x)\<close>.\<close>

fun or_default :: "'a option \<Rightarrow> 'a \<Rightarrow> 'a" where
  "or_default (Some x) _ = x"
| "or_default None d = d"

fun some_and :: "'a option \<Rightarrow> ('a \<Rightarrow> bool) \<Rightarrow> bool" where
  "some_and (Some x) p = p x"
| "some_and None _ = False"

text \<open>An empty or missing string is falsy.\<close>

fun truthy :: "string option \<Rightarrow> bool" where
  "truthy (Some (_ # _)) = True"
| "truthy _ = False"

text \<open>\<open>s.trim()\<close>, on strings whose characters are below 256.\<close>

definition is_space :: "char \<Rightarrow> bool" where
  "is_space c \<longleftrightarrow> c \<in> {CHR 0x09, CHR 0x0A, CHR 0x0B, CHR 0x0C, CHR 0x0D, CHR 0x20, CHR 0xA0}"

definition js_trim :: "string \<Rightarrow> string" where
  "js_trim s = rev (dropWhile is_space (rev (dropWhile is_space s)))"

text \<open>\<open>s.includes(t)\<close>, and a whole-word occurrence (\<open>\\b\<close> on both sides) where a word
  character satisfies \<open>w\<close>.\<close>

text \<open>Case conversion, of the ASCII letters.\<close>

definition up_char :: "char \<Rightarrow> char" where
  "up_char c = (let n = (of_char c :: nat) in if 97 \<le> n \<and> n \<le> 122 then char_of (n - 32) else c)"
definition down_char :: "char \<Rightarrow> char" where
  "down_char c = (let n = (of_char c :: nat) in if 65 \<le> n \<and> n \<le> 90 then char_of (n + 32) else c)"

definition to_upper :: "string \<Rightarrow> string" where "to_upper = List.map up_char"
definition to_lower :: "string \<Rightarrow> string" where "to_lower = List.map down_char"

definition prefix_of :: "string \<Rightarrow> string \<Rightarrow> bool" where
  "prefix_of p s \<longleftrightarrow> take (length p) s = p"

fun str_contains :: "string \<Rightarrow> string \<Rightarrow> bool" where
  "str_contains p [] = (p = [])"
| "str_contains p (c # s) = (prefix_of p (c # s) \<or> str_contains p s)"

fun has_word :: "(char \<Rightarrow> bool) \<Rightarrow> bool \<Rightarrow> string \<Rightarrow> string \<Rightarrow> bool" where
  "has_word w before p [] = False"
| "has_word w before p (c # s) =
     ((\<not> before \<and> prefix_of p (c # s) \<and>
        (case drop (length p) (c # s) of [] \<Rightarrow> True | d # _ \<Rightarrow> \<not> w d))
      \<or> has_word w (w c) p s)"

text \<open>The first element of a list with a property, replaced in place: \<open>find\<close> and an assignment to
  the object it returned.\<close>

fun update_first :: "('a \<Rightarrow> bool) \<Rightarrow> ('a \<Rightarrow> 'a) \<Rightarrow> 'a list \<Rightarrow> 'a list" where
  "update_first p f [] = []"
| "update_first p f (x # xs) = (if p x then f x # xs else x # update_first p f xs)"

lemma length_update_first [simp]: "length (update_first p f xs) = length xs"
  by (induction xs) auto

lemma update_first_nth:
  "i < length xs \<Longrightarrow> update_first p f xs ! i = xs ! i \<or>
     (p (xs ! i) \<and> find p xs = Some (xs ! i) \<and> update_first p f xs ! i = f (xs ! i))"
proof (induction xs arbitrary: i)
  case (Cons x xs)
  then show ?case by (cases i) auto
qed simp

lemma find_SomeD: "find p xs = Some x \<Longrightarrow> x \<in> set xs \<and> p x"
  by (auto simp: find_Some_iff)

text \<open>\<open>if (c) reasons.push(r)\<close> as the list it contributes.\<close>

definition push_when :: "bool \<Rightarrow> 'a \<Rightarrow> 'a list" where
  "push_when c r = (if c then [r] else [])"

lemma push_when_simps [simp]: "push_when True r = [r]" "push_when False r = []" "push_when c r = [] \<longleftrightarrow> \<not> c"
  "x \<in> set (push_when c r) \<longleftrightarrow> c \<and> x = r"
  by (auto simp: push_when_def)

subsection \<open>State machines\<close>

text \<open>
  The contract the stateful components share: an operation set acting on a state by a total
  step function, an initial state, and an invariant the initial state satisfies and every
  operation keeps.  What a component gains is that the invariant holds along every run.
\<close>

fun run :: "('s \<Rightarrow> 'o \<Rightarrow> 's) \<Rightarrow> 's \<Rightarrow> 'o list \<Rightarrow> 's" where
  "run step s [] = s"
| "run step s (x # xs) = run step (step s x) xs"

lemma run_append: "run step s (xs @ ys) = run step (run step s xs) ys"
  by (induction xs arbitrary: s) auto

locale invariant_machine =
  fixes step :: "'s \<Rightarrow> 'o \<Rightarrow> 's"
    and start :: "'s \<Rightarrow> bool"
    and inv :: "'s \<Rightarrow> bool"
  assumes inv_start: "start s \<Longrightarrow> inv s"
    and inv_step: "inv s \<Longrightarrow> inv (step s x)"
begin

lemma inv_run_from: "inv s \<Longrightarrow> inv (run step s xs)"
  by (induction xs arbitrary: s) (auto intro: inv_step)

lemma inv_run: "start s \<Longrightarrow> inv (run step s xs)"
  by (rule inv_run_from [OF inv_start])

end

text \<open>
  A machine with a quantity no step decreases (a clock, a counter, a one-way status).
\<close>

locale monotone_machine =
  fixes step :: "'s \<Rightarrow> 'o \<Rightarrow> 's"
    and rank :: "'s \<Rightarrow> 'r::preorder"
  assumes rank_step: "rank s \<le> rank (step s x)"
begin

lemma rank_run: "rank s \<le> rank (run step s xs)"
  by (induction xs arbitrary: s) (auto intro: order_trans rank_step)

end

end
