(* ===== verification/Circuit.thy ===== *)
theory Circuit
  imports Prelude
begin

text \<open>
  The fail-closed circuit breaker in front of the MT5 bridge
  (\<^verbatim>\<open>packages/trading-engine/src/broker/mt5/bridgeCircuit.ts\<close>).  The record holds the private
  fields of the class; each method is a function of the record and of the clock readings it
  makes; the \<^verbatim>\<open>onTransition\<close> callback is the log \<^verbatim>\<open>emitted\<close>, to which every call appends.
\<close>

abbreviation MT5_BRIDGE_UNAVAILABLE :: string where
  "MT5_BRIDGE_UNAVAILABLE \<equiv> ''MT5_BRIDGE_UNAVAILABLE''"
abbreviation MT5_BRIDGE_TIMEOUT :: string where
  "MT5_BRIDGE_TIMEOUT \<equiv> ''MT5_BRIDGE_TIMEOUT''"
abbreviation MT5_BRIDGE_UNHEALTHY :: string where
  "MT5_BRIDGE_UNHEALTHY \<equiv> ''MT5_BRIDGE_UNHEALTHY''"

definition BRIDGE_FAILURE_CODES :: "string list" where
  "BRIDGE_FAILURE_CODES =
     [MT5_BRIDGE_UNAVAILABLE, MT5_BRIDGE_TIMEOUT, MT5_BRIDGE_UNHEALTHY,
      ''MT5_BRIDGE_UNREACHABLE'', ''MT5_BRIDGE_HTTP_ERROR'', ''MT5_MAILBOX_IO_TIMEOUT'']"

fun isMt5BridgeFailureCode :: "string option \<Rightarrow> bool" where
  "isMt5BridgeFailureCode None = False"
| "isMt5BridgeFailureCode (Some code) = (code \<noteq> [] \<and> code \<in> set BRIDGE_FAILURE_CODES)"

datatype circuit_state = CLOSED | OPEN | HALF_OPEN

record circuit_snapshot =
  circuitState :: circuit_state
  snapFailures :: nat
  snapLastFailureAt :: "int option"
  snapLastSuccessAt :: "int option"
  snapNextProbeAt :: "int option"
  snapLastFailureCode :: "string option"

record circuit =
  cstate :: circuit_state
  consecutiveFailures :: nat
  lastFailureAt :: "int option"
  lastSuccessAt :: "int option"
  nextProbeAt :: "int option"
  lastFailureCode :: "string option"
  halfOpenInFlight :: bool
  failureThreshold :: int
  openMs :: int
  emitted :: "(circuit_state \<times> circuit_state \<times> circuit_snapshot) list"

definition new_circuit :: "int option \<Rightarrow> int option \<Rightarrow> circuit" where
  "new_circuit threshold open_ms =
     \<lparr>cstate = CLOSED, consecutiveFailures = 0, lastFailureAt = None, lastSuccessAt = None,
      nextProbeAt = None, lastFailureCode = None, halfOpenInFlight = False,
      failureThreshold = or_default threshold 3, openMs = or_default open_ms 30000,
      emitted = []\<rparr>"

definition snapshot :: "circuit \<Rightarrow> circuit_snapshot" where
  "snapshot c =
     \<lparr>circuitState = cstate c, snapFailures = consecutiveFailures c,
      snapLastFailureAt = lastFailureAt c, snapLastSuccessAt = lastSuccessAt c,
      snapNextProbeAt = nextProbeAt c, snapLastFailureCode = lastFailureCode c\<rparr>"

definition transition :: "circuit_state \<Rightarrow> circuit \<Rightarrow> circuit" where
  "transition nxt c =
     (if cstate c = nxt then c
      else let c' = c\<lparr>cstate := nxt\<rparr>
           in c'\<lparr>emitted := emitted c @ [(cstate c, nxt, snapshot c')]\<rparr>)"

definition allowRequest :: "int \<Rightarrow> circuit \<Rightarrow> bool \<times> circuit" where
  "allowRequest now c =
     (case cstate c of
        CLOSED \<Rightarrow> (True, c)
      | OPEN \<Rightarrow>
          (if some_and (nextProbeAt c) (\<lambda>p. p \<le> now)
           then (True, (transition HALF_OPEN c)\<lparr>halfOpenInFlight := True\<rparr>)
           else (False, c))
      | HALF_OPEN \<Rightarrow>
          (if halfOpenInFlight c then (False, c)
           else (True, c\<lparr>halfOpenInFlight := True\<rparr>)))"

definition recordSuccess :: "int \<Rightarrow> circuit \<Rightarrow> circuit" where
  "recordSuccess now c =
     transition CLOSED
       (c\<lparr>consecutiveFailures := 0, lastSuccessAt := Some now, lastFailureCode := None,
          halfOpenInFlight := False, nextProbeAt := None\<rparr>)"

text \<open>The clock is read twice: for \<^verbatim>\<open>lastFailureAt\<close>, and for the next probe when the circuit trips.\<close>

definition recordFailure :: "string option \<Rightarrow> int \<Rightarrow> int \<Rightarrow> circuit \<Rightarrow> circuit" where
  "recordFailure code now1 now2 c =
     (let c1 = c\<lparr>consecutiveFailures := consecutiveFailures c + 1, lastFailureAt := Some now1,
                 lastFailureCode := code, halfOpenInFlight := False\<rparr>
      in if cstate c1 = HALF_OPEN \<or> failureThreshold c1 \<le> int (consecutiveFailures c1)
         then transition OPEN (c1\<lparr>nextProbeAt := Some (now2 + openMs c1)\<rparr>)
         else c1)"

datatype circuit_op = Allow int | Success int | Failure "string option" int int

fun circuit_step :: "circuit \<Rightarrow> circuit_op \<Rightarrow> circuit" where
  "circuit_step c (Allow now) = snd (allowRequest now c)"
| "circuit_step c (Success now) = recordSuccess now c"
| "circuit_step c (Failure code now1 now2) = recordFailure code now1 now2 c"

subsection \<open>The invariant\<close>

text \<open>
  A closed circuit has no probe scheduled and has counted fewer failures than trip it; an open
  one has its next probe scheduled and none in flight; a half-open one has its single probe in
  flight.
\<close>

fun circuit_ok :: "circuit \<Rightarrow> bool" where
  "circuit_ok c =
     (case cstate c of
        CLOSED \<Rightarrow> nextProbeAt c = None \<and> \<not> halfOpenInFlight c
                   \<and> int (consecutiveFailures c) < failureThreshold c
      | OPEN \<Rightarrow> nextProbeAt c \<noteq> None \<and> \<not> halfOpenInFlight c \<and> lastFailureAt c \<noteq> None
      | HALF_OPEN \<Rightarrow> halfOpenInFlight c \<and> lastFailureAt c \<noteq> None)"

definition fresh_circuit :: "circuit \<Rightarrow> bool" where
  "fresh_circuit c \<longleftrightarrow> (\<exists>k ms. 1 \<le> or_default k 3 \<and> c = new_circuit k ms)"

lemmas circuit_defs = allowRequest_def recordSuccess_def recordFailure_def transition_def Let_def

lemma params_kept [simp]:
  "failureThreshold (snd (allowRequest t c)) = failureThreshold c"
  "failureThreshold (recordSuccess t c) = failureThreshold c"
  "failureThreshold (recordFailure code t u c) = failureThreshold c"
  "openMs (snd (allowRequest t c)) = openMs c"
  "openMs (recordSuccess t c) = openMs c"
  "openMs (recordFailure code t u c) = openMs c"
  by (simp_all add: circuit_defs split: circuit_state.splits)

lemma params_run [simp]:
  "failureThreshold (run circuit_step c xs) = failureThreshold c"
  "openMs (run circuit_step c xs) = openMs c"
proof (induction xs arbitrary: c)
  case (Cons x xs)
  { case 1 then show ?case by (cases x) (simp_all add: Cons) }
  { case 2 then show ?case by (cases x) (simp_all add: Cons) }
qed simp_all

lemma circuit_ok_fresh: "fresh_circuit c \<Longrightarrow> circuit_ok c \<and> 1 \<le> failureThreshold c"
  by (auto simp: fresh_circuit_def new_circuit_def)

lemma circuit_ok_step:
  "circuit_ok c \<and> 1 \<le> failureThreshold c \<Longrightarrow>
   circuit_ok (circuit_step c x) \<and> 1 \<le> failureThreshold (circuit_step c x)"
  by (cases x; cases "cstate c")
    (auto simp: circuit_defs split: circuit_state.splits if_splits)

interpretation circuit: invariant_machine circuit_step fresh_circuit
  "\<lambda>c. circuit_ok c \<and> 1 \<le> failureThreshold c"
  by unfold_locales (fact circuit_ok_fresh, fact circuit_ok_step)

text \<open>In every state a circuit reaches from its constructor (with a failure threshold of at
  least one), whatever calls are made and whatever the clock reads: closed means no scheduled
  probe and fewer failures than the threshold, open means a probe is scheduled, and half-open
  means exactly the one probe is in flight.\<close>

theorem circuit_run_ok:
  assumes "fresh_circuit c"
  shows "circuit_ok (run circuit_step c xs)"
  using circuit.inv_run [OF assms] by blast

theorem circuit_run_ok_witness:
  "circuit_ok (run circuit_step (new_circuit None None)
     [Failure None 1 1, Failure None 2 2, Failure None 3 3, Allow 30003, Allow 30004])"
  by (rule circuit_run_ok) (force simp: fresh_circuit_def)

subsection \<open>How requests are granted\<close>

text \<open>The answers to a sequence of \<^verbatim>\<open>allowRequest\<close> calls with no outcome recorded between them.\<close>

fun grants :: "circuit \<Rightarrow> int list \<Rightarrow> bool list" where
  "grants c [] = []"
| "grants c (t # ts) = fst (allowRequest t c) # grants (snd (allowRequest t c)) ts"

lemma half_open_refuses:
  assumes "circuit_ok c" and "cstate c = HALF_OPEN"
  shows "allowRequest t c = (False, c)"
  using assms by (simp add: allowRequest_def)

lemma half_open_grants:
  assumes "circuit_ok c" and "cstate c = HALF_OPEN"
  shows "grants c ts = replicate (length ts) False"
  using assms by (induction ts) (auto simp: half_open_refuses simp del: circuit_ok.simps)

lemma open_probe_half_open:
  assumes "circuit_ok c" and "cstate c = OPEN" and "nextProbeAt c = Some p" and "p \<le> t"
  shows "fst (allowRequest t c)" "cstate (snd (allowRequest t c)) = HALF_OPEN"
    "circuit_ok (snd (allowRequest t c))"
  using assms by (auto simp: circuit_defs)

lemma open_early_refuses:
  assumes "cstate c = OPEN" and "nextProbeAt c = Some p" and "t < p"
  shows "allowRequest t c = (False, c)"
  using assms by (simp add: circuit_defs)

text \<open>An open circuit whose probe is scheduled for time p grants exactly one request before an
  outcome is recorded: the first one made at p or later.  Everything before p and everything
  after the probe is refused.\<close>

theorem open_grants_one_probe:
  assumes "circuit_ok c" and "cstate c = OPEN" and "nextProbeAt c = Some p"
  shows "grants c ts = replicate (length (takeWhile (\<lambda>t. t < p) ts)) False @
    (case dropWhile (\<lambda>t. t < p) ts of
       [] \<Rightarrow> [] | _ # later \<Rightarrow> True # replicate (length later) False)"
proof (induction ts)
  case Nil
  then show ?case by simp
next
  case (Cons t ts)
  show ?case
  proof (cases "t < p")
    case True
    then have "grants c (t # ts) = False # grants c ts"
      using open_early_refuses [OF assms(2,3)] by simp
    with True Cons.IH show ?thesis by simp
  next
    case False
    then have "p \<le> t" by simp
    note probe = open_probe_half_open [OF assms this]
    with half_open_grants [OF probe(3,2)] False show ?thesis
      by (simp del: circuit_ok.simps)
  qed
qed

theorem open_grants_one_probe_witness:
  "grants (recordFailure None 5 5 (new_circuit (Some 1) (Some 10))) [7, 14, 15, 16, 99]
     = [False, False, True, False, False]"
proof -
  let ?c = "recordFailure None 5 5 (new_circuit (Some 1) (Some 10))"
  have c: "circuit_ok ?c" "cstate ?c = OPEN" "nextProbeAt ?c = Some 15"
    by (simp_all add: circuit_defs new_circuit_def)
  show ?thesis by (subst open_grants_one_probe [OF c]) simp
qed

subsection \<open>Tripping and recovering\<close>

fun fail_times :: "(string option \<times> int \<times> int) list \<Rightarrow> circuit_op list" where
  "fail_times [] = []"
| "fail_times ((code, a, b) # fs) = Failure code a b # fail_times fs"

lemma failures_while_closed:
  assumes "circuit_ok c" and "cstate c = CLOSED"
    and "int (consecutiveFailures c + length fs) < failureThreshold c"
  shows "cstate (run circuit_step c (fail_times fs)) = CLOSED \<and>
     consecutiveFailures (run circuit_step c (fail_times fs)) = consecutiveFailures c + length fs"
  using assms
proof (induction fs arbitrary: c rule: fail_times.induct)
  case 1
  then show ?case by simp
next
  case (2 code a b fs)
  let ?c = "recordFailure code a b c"
  have c: "cstate ?c = CLOSED" "consecutiveFailures ?c = consecutiveFailures c + 1"
    "circuit_ok ?c"
    using "2.prems" by (auto simp: circuit_defs)
  have "int (consecutiveFailures ?c + length fs) < failureThreshold ?c"
    using "2.prems"(3) c(2) by simp
  from "2.IH" [OF c(3,1) this] show ?case using c(2) by simp
qed

text \<open>Starting closed with no failures counted, the k-th consecutive recorded failure trips the
  circuit and no earlier one does, k being the threshold; the probe is then scheduled \<^verbatim>\<open>openMs\<close>
  after the clock reading of the failure that tripped it.\<close>

theorem trips_at_threshold:
  assumes "circuit_ok c" and "cstate c = CLOSED" and "consecutiveFailures c = 0"
    and "int (length fs) + 1 = failureThreshold c"
  shows "(\<forall>n. cstate (run circuit_step c (fail_times (take n fs))) = CLOSED) \<and>
    cstate (run circuit_step c (fail_times fs @ [Failure code a b])) = OPEN \<and>
    nextProbeAt (run circuit_step c (fail_times fs @ [Failure code a b])) = Some (b + openMs c)"
proof (intro conjI allI)
  fix n
  have "int (consecutiveFailures c + length (take n fs)) < failureThreshold c"
    using assms(3,4) by simp
  from failures_while_closed [OF assms(1,2) this]
  show "cstate (run circuit_step c (fail_times (take n fs))) = CLOSED" by blast
next
  have "int (consecutiveFailures c + length fs) < failureThreshold c"
    using assms(3,4) by simp
  note d = failures_while_closed [OF assms(1,2) this]
  show "cstate (run circuit_step c (fail_times fs @ [Failure code a b])) = OPEN"
    and "nextProbeAt (run circuit_step c (fail_times fs @ [Failure code a b])) = Some (b + openMs c)"
    using d assms(3,4) params_run [of c "fail_times fs"]
    by (simp_all add: run_append recordFailure_def transition_def Let_def)
qed

theorem trips_at_threshold_witness:
  "cstate (run circuit_step (new_circuit None None)
     (fail_times [(None, 1, 1), (None, 2, 3)] @ [Failure None 4 5])) = OPEN"
proof -
  let ?c = "new_circuit None None"
  have "circuit_ok ?c" "cstate ?c = CLOSED" "consecutiveFailures ?c = 0"
    "int (length [(None :: string option, 1 :: int, 1 :: int), (None, 2, 3)]) + 1
       = failureThreshold ?c"
    by (simp_all add: new_circuit_def)
  from trips_at_threshold [OF this, of None 4 5] show ?thesis by blast
qed

end
