(* ===== verification/CfdMath.thy ===== *)
theory CfdMath
  imports Prelude
begin

text \<open>
  Money, instrument metadata and the CFD arithmetic every venue shares
  (\<^verbatim>\<open>packages/shared/src/utils/money.ts\<close>, \<^verbatim>\<open>packages/shared/src/types/instrument.ts\<close>,
  \<^verbatim>\<open>packages/trading-engine/src/execution/cfdMath.ts\<close>).
  Rejection reasons are values of a datatype with one constructor per message of the code.
\<close>

subsection \<open>Money\<close>

definition toCents :: "jsnum \<Rightarrow> jsnum" where
  "toCents amount = js_round (amount * 100)"

definition fromCents :: "jsnum \<Rightarrow> jsnum" where
  "fromCents cents = cents / 100"

definition addMoney :: "jsnum \<Rightarrow> jsnum \<Rightarrow> jsnum" where
  "addMoney a b = fromCents (toCents a + toCents b)"

definition subtractMoney :: "jsnum \<Rightarrow> jsnum \<Rightarrow> jsnum" where
  "subtractMoney a b = fromCents (toCents a - toCents b)"

definition multiplyMoney :: "jsnum \<Rightarrow> jsnum \<Rightarrow> jsnum" where
  "multiplyMoney amount factor = fromCents (js_round (toCents amount * factor))"

definition roundMoney :: "jsnum \<Rightarrow> jsnum" where
  "roundMoney amount = fromCents (toCents amount)"

definition roundPrice :: "jsnum \<Rightarrow> nat \<Rightarrow> jsnum" where
  "roundPrice price precision =
     (let f = Fin (10 ^ precision) in js_round (price * f) / f)"

text \<open>A rational number of cents, and rounding to it.\<close>

definition cents :: "rat \<Rightarrow> int" where "cents a = round_half_up (a * 100)"
definition money_rat :: "rat \<Rightarrow> rat" where "money_rat a = of_int (cents a) / 100"
definition is_money :: "jsnum \<Rightarrow> bool" where "is_money x \<longleftrightarrow> (\<exists>n. x = Fin (of_int n / 100))"

lemma roundMoney_fin [simp, num_simps]: "roundMoney (Fin a) = Fin (money_rat a)"
  by (simp add: roundMoney_def toCents_def fromCents_def money_rat_def cents_def)

lemma money_rat_of_cents [simp]: "money_rat (of_int n / 100) = of_int n / 100"
  by (simp add: money_rat_def cents_def)

lemma is_money_round: "is_finite x \<Longrightarrow> is_money (roundMoney x)"
  by (auto simp: is_finite_iff is_money_def money_rat_def)

lemma money_rat_mono: "a \<le> b \<Longrightarrow> money_rat a \<le> money_rat b"
  by (simp add: money_rat_def cents_def divide_right_mono round_half_up_mono)

lemma money_rat_zero [simp]: "money_rat 0 = 0"
  using money_rat_of_cents [of 0] by simp

lemma money_rat_error: "\<bar>money_rat a - a\<bar> \<le> 1 / 200"
  using round_half_up_bounds [of "a * 100"]
  unfolding money_rat_def cents_def abs_le_iff by (simp add: field_simps)

lemma roundMoney_is_money: "is_money x \<Longrightarrow> roundMoney x = x"
  by (auto simp: is_money_def)

lemma is_money_add:
  assumes "is_money x" and "is_money y"
  shows "is_money (x + y)"
proof -
  obtain n m where "x = Fin (of_int n / 100)" "y = Fin (of_int m / 100)"
    using assms by (auto simp: is_money_def)
  then have "x + y = Fin (of_int (n + m) / 100)" by (simp add: add_divide_distrib)
  then show ?thesis unfolding is_money_def by blast
qed

lemma is_money_finite: "is_money x \<Longrightarrow> is_finite x"
  by (auto simp: is_money_def)

subsection \<open>Instrument metadata\<close>

datatype direction = BUY | SELL

record instrument =
  inst_symbol :: string
  enabled :: bool
  verified :: bool
  contractSize :: jsnum
  volumeStep :: jsnum
  minVolume :: jsnum
  maxVolume :: jsnum
  tickSize :: jsnum
  tickValue :: jsnum
  marginRate :: jsnum
  spreadBps :: "jsnum option"
  slippageBps :: "jsnum option"
  pricePrecision :: jsnum
  currency :: string

datatype instrument_field =
  F_contractSize | F_volumeStep | F_minVolume | F_maxVolume | F_tickSize | F_tickValue | F_marginRate

fun field_of :: "instrument_field \<Rightarrow> instrument \<Rightarrow> jsnum" where
  "field_of F_contractSize m = contractSize m"
| "field_of F_volumeStep m = volumeStep m"
| "field_of F_minVolume m = minVolume m"
| "field_of F_maxVolume m = maxVolume m"
| "field_of F_tickSize m = tickSize m"
| "field_of F_tickValue m = tickValue m"
| "field_of F_marginRate m = marginRate m"

definition REQUIRED_INSTRUMENT_FIELDS :: "instrument_field list" where
  "REQUIRED_INSTRUMENT_FIELDS =
     [F_contractSize, F_volumeStep, F_minVolume, F_maxVolume, F_tickSize, F_tickValue, F_marginRate]"

datatype instrument_reason =
    NotEnabled | NotVerified | MinExceedsMax
  | TickSizeNotPositive | TickValueNotPositive | VolumeStepNotPositive
  | MissingFields "instrument_field list" | BadPricePrecision | MinNotAligned

record instrument_validation =
  iv_valid :: bool
  iv_missing :: "instrument_field list"
  iv_reasons :: "instrument_reason list"

definition validateInstrumentMetadata :: "instrument \<Rightarrow> instrument_validation" where
  "validateInstrumentMetadata meta =
     (let missing = filter (\<lambda>f. \<not> is_finite (field_of f meta) \<or> field_of f meta \<le> 0)
                      REQUIRED_INSTRUMENT_FIELDS;
          remainder = js_rem (minVolume meta) (volumeStep meta);
          reasons =
            push_when (\<not> enabled meta) NotEnabled
            @ push_when (\<not> verified meta) NotVerified
            @ push_when (maxVolume meta < minVolume meta) MinExceedsMax
            @ push_when (tickSize meta \<le> 0) TickSizeNotPositive
            @ push_when (tickValue meta \<le> 0) TickValueNotPositive
            @ push_when (volumeStep meta \<le> 0) VolumeStepNotPositive
            @ push_when (missing \<noteq> []) (MissingFields missing)
            @ push_when (\<not> js_is_integer (pricePrecision meta) \<or> pricePrecision meta < 0) BadPricePrecision
            @ push_when (0 < minVolume meta
                    \<and> Fin (1 / 10 ^ 9) < js_abs remainder
                    \<and> Fin (1 / 10 ^ 9) < js_abs (remainder - volumeStep meta)) MinNotAligned
      in \<lparr>iv_valid = (missing = [] \<and> reasons = []), iv_missing = missing, iv_reasons = reasons\<rparr>)"

text \<open>A validated instrument has finite positive fields, and is enabled and verified.\<close>

definition sane_instrument :: "instrument \<Rightarrow> bool" where
  "sane_instrument m \<longleftrightarrow>
     enabled m \<and> verified m \<and>
     (\<forall>f. \<exists>a. field_of f m = Fin a \<and> 0 < a)"

lemma required_all: "f \<in> set REQUIRED_INSTRUMENT_FIELDS"
  by (cases f) (simp_all add: REQUIRED_INSTRUMENT_FIELDS_def)

lemma finite_positive: "is_finite x \<Longrightarrow> \<not> x \<le> 0 \<Longrightarrow> \<exists>a. x = Fin a \<and> 0 < a"
  by (cases x) auto

lemma validate_sane: "iv_valid (validateInstrumentMetadata m) \<Longrightarrow> sane_instrument m"
proof -
  assume v: "iv_valid (validateInstrumentMetadata m)"
  then have "\<forall>f \<in> set REQUIRED_INSTRUMENT_FIELDS. is_finite (field_of f m) \<and> \<not> field_of f m \<le> 0"
    by (simp add: validateInstrumentMetadata_def Let_def filter_empty_conv del: fin_arith)
  then have "\<exists>a. field_of f m = Fin a \<and> 0 < a" for f
    using required_all finite_positive by blast
  with v show ?thesis
    by (simp add: validateInstrumentMetadata_def sane_instrument_def Let_def)
qed

lemma sane_fields:
  assumes "sane_instrument m"
  obtains cs vs mn mx ts tv mr where
    "contractSize m = Fin cs" "0 < cs" "volumeStep m = Fin vs" "0 < vs"
    "minVolume m = Fin mn" "0 < mn" "maxVolume m = Fin mx" "0 < mx"
    "tickSize m = Fin ts" "0 < ts" "tickValue m = Fin tv" "0 < tv"
    "marginRate m = Fin mr" "0 < mr"
proof -
  have f: "\<exists>a. field_of f m = Fin a \<and> 0 < a" for f
    using assms unfolding sane_instrument_def by blast
  show ?thesis
    using f [of F_contractSize] f [of F_volumeStep] f [of F_minVolume] f [of F_maxVolume]
      f [of F_tickSize] f [of F_tickValue] f [of F_marginRate] that by auto
qed

subsection \<open>Profit and loss\<close>

definition pnlPerUnitVolume :: "direction \<Rightarrow> jsnum \<Rightarrow> jsnum \<Rightarrow> instrument \<Rightarrow> jsnum" where
  "pnlPerUnitVolume dir entryPrice currentPrice inst =
     (let ticks = (if dir = BUY then (currentPrice - entryPrice) / tickSize inst
                   else (entryPrice - currentPrice) / tickSize inst)
      in ticks * tickValue inst)"

definition floatingPnl :: "direction \<Rightarrow> jsnum \<Rightarrow> jsnum \<Rightarrow> jsnum \<Rightarrow> instrument \<Rightarrow> jsnum" where
  "floatingPnl dir entryPrice currentPrice volume inst =
     roundMoney (pnlPerUnitVolume dir entryPrice currentPrice inst * volume)"

definition lossAtStopPerUnitVolume :: "direction \<Rightarrow> jsnum \<Rightarrow> jsnum \<Rightarrow> instrument \<Rightarrow> jsnum" where
  "lossAtStopPerUnitVolume dir entryPrice stopLoss inst =
     (let adverse = (if dir = BUY then js_max 0 (entryPrice - stopLoss)
                     else js_max 0 (stopLoss - entryPrice))
      in if adverse \<le> 0 then 0
         else (adverse / tickSize inst) * tickValue inst)"

definition normalizeVolumeDown :: "jsnum \<Rightarrow> instrument \<Rightarrow> jsnum" where
  "normalizeVolumeDown rawVolume inst =
     (let step = volumeStep inst
      in if step \<le> 0 then rawVolume
         else let steps = js_floor (rawVolume / step + Fin (1 / 10 ^ 12))
              in to_fixed 8 (steps * step))"

definition normalizeVolume :: "jsnum \<Rightarrow> instrument \<Rightarrow> jsnum" where
  "normalizeVolume rawVolume inst = normalizeVolumeDown rawVolume inst"

definition estimateMarginRequired :: "jsnum \<Rightarrow> jsnum \<Rightarrow> instrument \<Rightarrow> jsnum" where
  "estimateMarginRequired entryPrice volume inst =
     (let notional = entryPrice * volume * contractSize inst
      in roundMoney (notional * marginRate inst))"

fun oppositeSide :: "direction \<Rightarrow> direction" where
  "oppositeSide BUY = SELL"
| "oppositeSide SELL = BUY"

record fill =
  fillPrice :: jsnum
  appliedSpreadBps :: jsnum
  appliedSlippageBps :: jsnum

definition applyExecutableFill :: "direction \<Rightarrow> jsnum \<Rightarrow> jsnum \<Rightarrow> jsnum \<Rightarrow> fill" where
  "applyExecutableFill side quoteMid spread slippage =
     (let halfSpread = (quoteMid * spread) / 10000 / 2;
          slip = (quoteMid * slippage) / 10000;
          price = (if side = BUY then quoteMid + halfSpread + slip
                   else quoteMid - halfSpread - slip)
      in \<lparr>fillPrice = to_fixed 8 price, appliedSpreadBps = spread, appliedSlippageBps = slippage\<rparr>)"

definition applyEntrySlippage :: "direction \<Rightarrow> jsnum \<Rightarrow> jsnum \<Rightarrow> jsnum \<Rightarrow> fill" where
  "applyEntrySlippage dir quoteMid spread slippage = applyExecutableFill dir quoteMid spread slippage"

definition applyExitFill :: "direction \<Rightarrow> jsnum \<Rightarrow> jsnum \<Rightarrow> jsnum \<Rightarrow> fill" where
  "applyExitFill positionDirection quoteMid spread slippage =
     applyExecutableFill (oppositeSide positionDirection) quoteMid spread slippage"

record r_multiples =
  rm_initialRisk :: jsnum
  rm_grossPnl :: jsnum
  rm_netPnl :: jsnum
  rm_grossR :: "jsnum option"
  rm_netR :: "jsnum option"

definition computeRMultiples :: "jsnum \<Rightarrow> jsnum \<Rightarrow> jsnum \<Rightarrow> r_multiples" where
  "computeRMultiples initialRiskAmount grossPnl netPnl =
     \<lparr>rm_initialRisk = initialRiskAmount, rm_grossPnl = grossPnl, rm_netPnl = netPnl,
      rm_grossR = (if 0 < initialRiskAmount then Some (to_fixed 4 (grossPnl / initialRiskAmount)) else None),
      rm_netR = (if 0 < initialRiskAmount then Some (to_fixed 4 (netPnl / initialRiskAmount)) else None)\<rparr>"

definition isQuoteFresh :: "jsnum option \<Rightarrow> jsnum \<Rightarrow> jsnum \<Rightarrow> bool" where
  "isQuoteFresh quoteTimestampMs nowMs maxAgeMs =
     (case quoteTimestampMs of
        None \<Rightarrow> False
      | Some ts \<Rightarrow>
          (if \<not> is_finite ts then False
           else if maxAgeMs < 0 then True
           else nowMs - ts \<le> maxAgeMs))"

subsection \<open>The paper account's numbers\<close>

record account_numbers =
  an_balance :: jsnum
  an_equity :: jsnum
  an_floatingPnl :: jsnum
  an_realizedPnl :: jsnum
  an_usedMargin :: jsnum
  an_freeMargin :: jsnum

definition derivePaperAccountNumbers :: "jsnum \<Rightarrow> jsnum \<Rightarrow> jsnum \<Rightarrow> jsnum \<Rightarrow> account_numbers" where
  "derivePaperAccountNumbers bal flt used realized =
     (let balance = roundMoney bal;
          floating = roundMoney flt;
          usedMargin = roundMoney used;
          equity = roundMoney (balance + floating);
          freeMargin = roundMoney (js_max 0 (equity - usedMargin))
      in \<lparr>an_balance = balance, an_equity = equity, an_floatingPnl = floating,
          an_realizedPnl = roundMoney realized, an_usedMargin = usedMargin,
          an_freeMargin = freeMargin\<rparr>)"

datatype account_error = EquityMismatch jsnum jsnum | FreeMarginMismatch jsnum jsnum

definition assertPaperAccountInvariants :: "account_numbers \<Rightarrow> jsnum \<Rightarrow> account_error list" where
  "assertPaperAccountInvariants snap tolerance =
     (let expectedEquity = roundMoney (an_balance snap + an_floatingPnl snap);
          expectedFree = roundMoney (js_max 0 (an_equity snap - an_usedMargin snap))
      in push_when (tolerance < js_abs (an_equity snap - expectedEquity))
           (EquityMismatch (an_equity snap) expectedEquity)
         @ push_when (tolerance < js_abs (an_freeMargin snap - expectedFree))
           (FreeMarginMismatch (an_freeMargin snap) expectedFree))"

definition assertInstrumentReady :: "instrument \<Rightarrow> instrument_reason list" where
  "assertInstrumentReady inst = iv_reasons (validateInstrumentMetadata inst)"

subsection \<open>Properties\<close>

lemma tiny_pos: "(0 :: rat) < 1 / 10 ^ k" by simp

text \<open>Rounding a volume down to a validated instrument's step gives a multiple of the step (up to
  the eight decimals the code keeps) that exceeds the raw volume by at most a 1e-12 fraction of one
  step, and is less than one whole step below it: the volume is never rounded up to the next step.\<close>

theorem normalizeVolumeDown_bounds:
  assumes "sane_instrument inst" and "volumeStep inst = Fin s" and "raw = Fin r"
  shows "\<exists>v (n :: int). normalizeVolumeDown raw inst = Fin v \<and>
    \<bar>v - of_int n * s\<bar> \<le> 5 / 10 ^ 9 \<and>
    of_int n * s \<le> r + s / 10 ^ 12 \<and> r < (of_int n + 1) * s"
proof -
  have s: "0 < s" using assms(1,2) by (elim sane_fields) simp
  define n where "n = \<lfloor>r / s + 1 / 10 ^ 12\<rfloor>"
  have lo: "of_int n \<le> r / s + 1 / 10 ^ 12" and hi: "r / s + 1 / 10 ^ 12 < of_int n + 1"
    unfolding n_def by linarith+
  have "of_int n * s \<le> (r / s + 1 / 10 ^ 12) * s"
    using lo s by (intro mult_right_mono) simp_all
  also have "\<dots> = r + s / 10 ^ 12" using s by (simp add: distrib_right)
  finally have up: "of_int n * s \<le> r + s / 10 ^ 12" .
  have "r / s < of_int n + 1" using hi tiny_pos [of 12] by linarith
  then have down: "r < (of_int n + 1) * s" using s by (simp add: pos_divide_less_eq)
  have eq: "normalizeVolumeDown raw inst = Fin (fixed_rat 8 (of_int n * s))"
    using s assms(2,3) by (simp add: normalizeVolumeDown_def n_def)
  have "\<bar>fixed_rat 8 (of_int n * s) - of_int n * s\<bar> \<le> 5 / 10 ^ 9"
    using fixed_rat_error [of 8 "of_int n * s"] by simp
  with eq up down show ?thesis by blast
qed

definition demo_instrument :: instrument where
  "demo_instrument =
     \<lparr>inst_symbol = ''R_10'', enabled = True, verified = True, contractSize = 1,
      volumeStep = Fin (1 / 100), minVolume = Fin (1 / 100), maxVolume = 10,
      tickSize = Fin (1 / 100), tickValue = 1, marginRate = Fin (1 / 100),
      spreadBps = Some 2, slippageBps = Some 1, pricePrecision = 3, currency = ''USD''\<rparr>"

lemma sane_demo: "sane_instrument demo_instrument"
proof -
  have "\<exists>a. field_of f demo_instrument = Fin a \<and> 0 < a" for f
    by (cases f) (simp_all add: demo_instrument_def, (rule exI [of _ "1 / 100"], simp)+)
  then show ?thesis by (simp add: sane_instrument_def demo_instrument_def)
qed

theorem normalizeVolumeDown_bounds_witness:
  "\<exists>v (n :: int). normalizeVolumeDown (Fin (37 / 1000)) demo_instrument = Fin v \<and>
    \<bar>v - of_int n * (1 / 100)\<bar> \<le> 5 / 10 ^ 9 \<and>
    of_int n * (1 / 100) \<le> (37 / 1000 + 1 / 100 / 10 ^ 12 :: rat) \<and> 37 / 1000 < (of_int n + 1) * (1 / 100 :: rat)"
proof -
  have "volumeStep demo_instrument = Fin (1 / 100)" by (simp add: demo_instrument_def)
  from normalizeVolumeDown_bounds [OF sane_demo this refl, of "37 / 1000"] show ?thesis .
qed

lemma fill_rat:
  "applyExecutableFill side (Fin m) (Fin sp) (Fin sl) =
     \<lparr>fillPrice = Fin (fixed_rat 8 (if side = BUY then m + m * sp / 10000 / 2 + m * sl / 10000
                                    else m - m * sp / 10000 / 2 - m * sl / 10000)),
      appliedSpreadBps = Fin sp, appliedSlippageBps = Fin sl\<rparr>"
  by (simp add: applyExecutableFill_def)

lemma floatingPnl_sane:
  assumes "sane_instrument inst"
  obtains k where "0 < k"
    "\<And>dir a b v. floatingPnl dir (Fin a) (Fin b) (Fin v) inst =
       Fin (money_rat ((if dir = BUY then b - a else a - b) * k * v))"
proof -
  obtain ts tv where t: "tickSize inst = Fin ts" "0 < ts" "tickValue inst = Fin tv" "0 < tv"
    using assms by (elim sane_fields)
  show ?thesis
  proof
    show "0 < tv / ts" using t by simp
    show "floatingPnl dir (Fin a) (Fin b) (Fin v) inst =
       Fin (money_rat ((if dir = BUY then b - a else a - b) * (tv / ts) * v))" for dir a b v
      using t by (simp add: floatingPnl_def pnlPerUnitVolume_def)
  qed
qed

lemma buy_fill_above_sell_fill:
  assumes "0 \<le> m" "0 \<le> sp" "0 \<le> sl"
  shows "fixed_rat 8 (m - m * sp / 10000 / 2 - m * sl / 10000)
    \<le> fixed_rat 8 (m + m * sp / 10000 / 2 + m * sl / 10000)"
  by (rule fixed_rat_mono) (use assms in \<open>simp add: add_increasing2 divide_nonneg_nonneg\<close>)

text \<open>With non-negative spread and slippage, opening a position of a validated instrument and
  closing it at an unchanged quote never books a profit, in either direction: the costs embedded in
  the two fills survive the rounding of the prices and of the profit and loss.\<close>

theorem round_trip_never_profits:
  assumes "sane_instrument inst"
    and "0 \<le> m" "0 \<le> sp" "0 \<le> sl" "0 \<le> v"
  shows "floatingPnl dir (fillPrice (applyExecutableFill dir (Fin m) (Fin sp) (Fin sl)))
      (fillPrice (applyExitFill dir (Fin m) (Fin sp) (Fin sl))) (Fin v) inst \<le> 0"
proof -
  obtain k where k: "0 < k" and pnl: "\<And>dir a b v. floatingPnl dir (Fin a) (Fin b) (Fin v) inst =
       Fin (money_rat ((if dir = BUY then b - a else a - b) * k * v))"
    using floatingPnl_sane [OF assms(1)] by blast
  have neg: "money_rat (d * k * v) \<le> 0" if "d \<le> 0" for d
  proof -
    have "d * k * v \<le> 0" using that k assms(5) by (simp add: mult_nonpos_nonneg)
    then show ?thesis using money_rat_mono [of "d * k * v" 0] by simp
  qed
  show ?thesis
    using buy_fill_above_sell_fill [OF assms(2-4)]
    by (cases dir) (simp_all add: applyExitFill_def fill_rat pnl neg)
qed

theorem round_trip_never_profits_witness:
  "floatingPnl SELL (fillPrice (applyExecutableFill SELL (Fin 100) (Fin 2) (Fin 1)))
      (fillPrice (applyExitFill SELL (Fin 100) (Fin 2) (Fin 1))) (Fin 1) demo_instrument \<le> 0"
  by (rule round_trip_never_profits [OF sane_demo]) simp_all

text \<open>For finite inputs the account numbers the paper venue derives are exact to the cent: equity
  is balance plus floating profit and loss, free margin is equity less used margin floored at zero,
  and the invariant check reports nothing for any tolerance.\<close>

theorem derived_account_consistent:
  assumes "is_finite bal" "is_finite flt" "is_finite used" "0 \<le> tolerance"
  shows "let an = derivePaperAccountNumbers bal flt used realized in
    an_equity an = an_balance an + an_floatingPnl an \<and>
    an_freeMargin an = js_max 0 (an_equity an - an_usedMargin an) \<and>
    assertPaperAccountInvariants an tolerance = []"
proof -
  obtain b f u where fin: "bal = Fin b" "flt = Fin f" "used = Fin u"
    using assms by (auto simp: is_finite_iff)
  have eq: "money_rat (money_rat b + money_rat f) = money_rat b + money_rat f"
    using money_rat_of_cents [of "cents b + cents f"] by (simp add: money_rat_def add_divide_distrib)
  have free: "money_rat (max 0 (money_rat b + money_rat f - money_rat u)) =
      max 0 (money_rat b + money_rat f - money_rat u)"
  proof -
    have "money_rat b + money_rat f - money_rat u = of_int (cents b + cents f - cents u) / 100"
      by (simp add: money_rat_def add_divide_distrib diff_divide_distrib)
    then show ?thesis by (simp only: max_def money_rat_of_cents money_rat_zero split: if_split) simp
  qed
  have tol: "\<not> tolerance < Fin 0" using assms(4) by (cases tolerance) auto
  show ?thesis
    using eq free tol
    by (simp add: fin derivePaperAccountNumbers_def assertPaperAccountInvariants_def Let_def)
qed

theorem derived_account_consistent_witness:
  "an_equity (derivePaperAccountNumbers 100 (Fin (1 / 3)) 7 0) = Fin (10033 / 100) \<and>
   assertPaperAccountInvariants (derivePaperAccountNumbers 100 (Fin (1 / 3)) 7 0) (Fin (1 / 50)) = []"
proof -
  have "an_balance (derivePaperAccountNumbers 100 (Fin (1 / 3)) 7 0) = Fin 100"
    "an_floatingPnl (derivePaperAccountNumbers 100 (Fin (1 / 3)) 7 0) = Fin (33 / 100)"
    by (simp_all add: derivePaperAccountNumbers_def money_rat_def cents_def round_half_up_def Let_def)
  with derived_account_consistent [of 100 "Fin (1 / 3)" 7 "Fin (1 / 50)" 0]
  show ?thesis by (simp add: Let_def)
qed

end
