(* ===== verification/Sizing.thy ===== *)
theory Sizing
  imports CfdMath
begin

text \<open>
  Position sizing and stop/target validation
  (\<^verbatim>\<open>packages/trading-engine/src/execution/positionSizing.ts\<close>, \<^verbatim>\<open>stopTargetValidator.ts\<close>,
  \<^verbatim>\<open>traderOverrides.ts\<close>, and the limits of \<^verbatim>\<open>packages/shared/src/types/execution.ts\<close> and
  \<^verbatim>\<open>cfdRisk.ts\<close>).
\<close>

subsection \<open>Limits\<close>

record cfd_limits =
  riskPerTradePercent :: jsnum
  maxTotalOpenRiskPercent :: jsnum
  maxConcurrentPositions :: jsnum
  minRiskRewardRatio :: jsnum

definition DEFAULT_CFD_RISK_LIMITS :: cfd_limits where
  "DEFAULT_CFD_RISK_LIMITS =
     \<lparr>riskPerTradePercent = Fin (1 / 2), maxTotalOpenRiskPercent = 2,
      maxConcurrentPositions = 3, minRiskRewardRatio = Fin (3 / 2)\<rparr>"

definition resolveCfdRiskLimits ::
  "jsnum option \<Rightarrow> jsnum option \<Rightarrow> jsnum option \<Rightarrow> jsnum option \<Rightarrow> cfd_limits" where
  "resolveCfdRiskLimits risk totalRisk conc rr =
     \<lparr>riskPerTradePercent = or_default risk (riskPerTradePercent DEFAULT_CFD_RISK_LIMITS),
      maxTotalOpenRiskPercent = or_default totalRisk (maxTotalOpenRiskPercent DEFAULT_CFD_RISK_LIMITS),
      maxConcurrentPositions = or_default conc (maxConcurrentPositions DEFAULT_CFD_RISK_LIMITS),
      minRiskRewardRatio = or_default rr (minRiskRewardRatio DEFAULT_CFD_RISK_LIMITS)\<rparr>"

subsection \<open>Position sizing\<close>

record sizing_input =
  si_equity :: jsnum
  si_direction :: direction
  si_entryPrice :: jsnum
  si_stopLoss :: jsnum
  si_riskPercent :: jsnum
  si_instrument :: instrument

datatype sizing_reason =
    InstrumentInvalid "instrument_reason list"
  | EquityNotPositive | StopNotAdverse | RiskAmountZero
  | BelowMinimum jsnum jsnum jsnum | AboveMaximum jsnum jsnum | LossExceedsRisk jsnum jsnum

text \<open>A raw result is the triple of volume, risk amount and loss per unit, or the rejection.\<close>

definition calculateRaw :: "sizing_input \<Rightarrow> sizing_reason + jsnum \<times> jsnum \<times> jsnum" where
  "calculateRaw inp =
     (let validation = validateInstrumentMetadata (si_instrument inp)
      in if \<not> iv_valid validation then Inl (InstrumentInvalid (iv_reasons validation))
         else if si_equity inp \<le> 0 then Inl EquityNotPositive
         else
           let perUnitLoss = lossAtStopPerUnitVolume (si_direction inp) (si_entryPrice inp)
                 (si_stopLoss inp) (si_instrument inp)
           in if perUnitLoss \<le> 0 then Inl StopNotAdverse
              else
                let riskAmount = roundMoney ((si_equity inp * si_riskPercent inp) / 100)
                in if riskAmount \<le> 0 then Inl RiskAmountZero
                   else Inr (riskAmount / perUnitLoss, riskAmount, perUnitLoss))"

record sizing_result =
  sz_volume :: jsnum
  sz_riskAmount :: jsnum
  sz_lossAtStop :: jsnum

definition LOSS_TOLERANCE :: jsnum where "LOSS_TOLERANCE = Fin (1 / 100)"

definition calculate :: "sizing_input \<Rightarrow> sizing_reason + sizing_result" where
  "calculate inp =
     (case calculateRaw inp of
        Inl r \<Rightarrow> Inl r
      | Inr (rawVolume, riskAmount, perUnitLoss) \<Rightarrow>
          let inst = si_instrument inp;
              volume = normalizeVolumeDown rawVolume inst
          in if volume \<le> 0 \<or> volume < minVolume inst
             then Inl (BelowMinimum volume (minVolume inst) (volumeStep inst))
             else if maxVolume inst < volume then Inl (AboveMaximum volume (maxVolume inst))
             else
               let lossAtStop = roundMoney (perUnitLoss * volume)
               in if riskAmount + LOSS_TOLERANCE < lossAtStop
                  then Inl (LossExceedsRisk lossAtStop riskAmount)
                  else Inr \<lparr>sz_volume = volume, sz_riskAmount = riskAmount,
                            sz_lossAtStop = lossAtStop\<rparr>)"

definition resolveInstrumentCosts :: "instrument \<Rightarrow> jsnum \<Rightarrow> jsnum \<Rightarrow> jsnum \<times> jsnum" where
  "resolveInstrumentCosts inst fallbackSpread fallbackSlippage =
     ((case spreadBps inst of Some s \<Rightarrow> if is_finite s then s else fallbackSpread
                            | None \<Rightarrow> fallbackSpread),
      (case slippageBps inst of Some s \<Rightarrow> if is_finite s then s else fallbackSlippage
                              | None \<Rightarrow> fallbackSlippage))"

subsection \<open>Stop and target validation\<close>

datatype stop_reason =
    EntryNotPositive | BuyStopNotBelow | BuyTargetNotAbove | SellStopNotAbove | SellTargetNotBelow
  | StopDistanceNotPositive | StopDistanceBelow jsnum jsnum | TargetDistanceNotPositive
  | RiskRewardBelow jsnum jsnum | TakeProfitRequired

record stop_validation =
  sv_valid :: bool
  sv_stopDistance :: jsnum
  sv_targetDistance :: "jsnum option"
  sv_riskReward :: "jsnum option"
  sv_reasons :: "stop_reason list"

definition validate_stops ::
  "direction \<Rightarrow> jsnum \<Rightarrow> jsnum \<Rightarrow> jsnum option \<Rightarrow> cfd_limits \<Rightarrow> jsnum option \<Rightarrow> stop_validation" where
  "validate_stops dir entryPrice stopLoss takeProfit limits minStopDistance =
     (let r_entry = push_when (\<not> is_finite entryPrice \<or> entryPrice \<le> 0) EntryNotPositive;
          r_side =
            (if dir = BUY then
               push_when (entryPrice \<le> stopLoss) BuyStopNotBelow
               @ push_when (some_and takeProfit (\<lambda>t. t \<le> entryPrice)) BuyTargetNotAbove
             else
               push_when (stopLoss \<le> entryPrice) SellStopNotAbove
               @ push_when (some_and takeProfit (\<lambda>t. entryPrice \<le> t)) SellTargetNotBelow);
          stopDistance = js_abs (entryPrice - stopLoss);
          r_stop = push_when (stopDistance \<le> 0) StopDistanceNotPositive
            @ (case minStopDistance of None \<Rightarrow> []
               | Some d \<Rightarrow> push_when (stopDistance < d) (StopDistanceBelow stopDistance d));
          targetDistance = map_option (\<lambda>t. js_abs (t - entryPrice)) takeProfit;
          riskReward =
            (case targetDistance of None \<Rightarrow> None
             | Some d \<Rightarrow> if 0 < stopDistance then Some (to_fixed 4 (d / stopDistance)) else None);
          r_target =
            (case targetDistance of
               Some d \<Rightarrow>
                 push_when (d \<le> 0) TargetDistanceNotPositive
                 @ (case riskReward of None \<Rightarrow> []
                    | Some rr \<Rightarrow> push_when (rr < minRiskRewardRatio limits)
                        (RiskRewardBelow rr (minRiskRewardRatio limits)))
             | None \<Rightarrow> push_when (0 < minRiskRewardRatio limits) TakeProfitRequired);
          reasons = r_entry @ r_side @ r_stop @ r_target
      in \<lparr>sv_valid = (reasons = []), sv_stopDistance = stopDistance,
          sv_targetDistance = targetDistance, sv_riskReward = riskReward, sv_reasons = reasons\<rparr>)"

definition applyStopLossDistanceOverride ::
  "direction \<Rightarrow> jsnum \<Rightarrow> jsnum \<Rightarrow> jsnum option \<Rightarrow> jsnum \<times> bool \<times> jsnum option" where
  "applyStopLossDistanceOverride dir entryPrice stopLoss distanceOverride =
     (case distanceOverride of
        None \<Rightarrow> (stopLoss, False, None)
      | Some d \<Rightarrow>
          if \<not> is_finite d \<or> \<not> 0 < d then (stopLoss, False, None)
          else ((if dir = BUY then entryPrice - d else entryPrice + d), True, Some d))"

subsection \<open>Properties\<close>

lemma lossAtStop_sane:
  assumes "sane_instrument inst"
  obtains k where "0 < k"
    "\<And>dir e s. lossAtStopPerUnitVolume dir (Fin e) (Fin s) inst =
       Fin (max 0 (if dir = BUY then e - s else s - e) * k)"
proof -
  obtain ts tv where t: "tickSize inst = Fin ts" "0 < ts" "tickValue inst = Fin tv" "0 < tv"
    using assms by (elim sane_fields)
  show ?thesis
  proof
    show "0 < tv / ts" using t by simp
    show "lossAtStopPerUnitVolume dir (Fin e) (Fin s) inst =
       Fin (max 0 (if dir = BUY then e - s else s - e) * (tv / ts))" for dir e s
      using t by (auto simp: lossAtStopPerUnitVolume_def Let_def max_def)
  qed
qed

lemma calculateRaw_ok:
  assumes "calculateRaw inp = Inr (raw, risk, per)"
    and "is_finite (si_entryPrice inp)" "is_finite (si_stopLoss inp)"
    and "is_finite (si_equity inp)" "is_finite (si_riskPercent inp)"
  obtains p r where "sane_instrument (si_instrument inp)" "per = Fin p" "0 < p"
    "risk = Fin r" "0 < r" "raw = Fin (r / p)"
    "risk = roundMoney (si_equity inp * si_riskPercent inp / 100)"
proof -
  let ?inst = "si_instrument inp"
  have sane: "sane_instrument ?inst"
    using assms(1) by (auto simp: calculateRaw_def Let_def split: if_splits intro: validate_sane)
  obtain e s q c where f: "si_entryPrice inp = Fin e" "si_stopLoss inp = Fin s"
    "si_equity inp = Fin q" "si_riskPercent inp = Fin c"
    using assms(2-5) by (auto simp: is_finite_iff)
  obtain k where k: "0 < k" "\<And>dir e s. lossAtStopPerUnitVolume dir (Fin e) (Fin s) ?inst =
       Fin (max 0 (if dir = BUY then e - s else s - e) * k)"
    using lossAtStop_sane [OF sane] by blast
  define p where "p = max 0 (if si_direction inp = BUY then e - s else s - e) * k"
  define r where "r = money_rat (q * c / 100)"
  have per: "lossAtStopPerUnitVolume (si_direction inp) (Fin e) (Fin s) ?inst = Fin p"
    unfolding p_def by (rule k(2))
  have "per = Fin p" "0 < p" "risk = Fin r" "0 < r" "raw = Fin (r / p)"
    using assms(1) f
    by (auto simp: calculateRaw_def Let_def per r_def split: if_splits)
  moreover have "risk = roundMoney (si_equity inp * si_riskPercent inp / 100)"
    using f \<open>risk = Fin r\<close> by (simp add: r_def)
  ultimately show ?thesis using sane that by blast
qed

lemma calculate_bounds:
  assumes "calculate inp = Inr res"
    and "is_finite (si_entryPrice inp)" "is_finite (si_stopLoss inp)"
    and "is_finite (si_equity inp)" "is_finite (si_riskPercent inp)"
  shows "\<exists>v r l p s. sz_volume res = Fin v \<and> sz_riskAmount res = Fin r \<and> sz_lossAtStop res = Fin l \<and>
    lossAtStopPerUnitVolume (si_direction inp) (si_entryPrice inp) (si_stopLoss inp)
      (si_instrument inp) = Fin p \<and> volumeStep (si_instrument inp) = Fin s \<and>
    0 < p \<and> 0 < v \<and> minVolume (si_instrument inp) \<le> Fin v \<and> Fin v \<le> maxVolume (si_instrument inp) \<and>
    v \<le> r / p + s / 10 ^ 12 + 5 / 10 ^ 9 \<and> l \<le> r + 1 / 100 \<and>
    Fin r = roundMoney (si_equity inp * si_riskPercent inp / 100)"
proof -
  let ?inst = "si_instrument inp"
  obtain raw risk per where raw: "calculateRaw inp = Inr (raw, risk, per)"
    using assms(1) by (cases "calculateRaw inp") (auto simp: calculate_def)
  obtain p r where pr: "sane_instrument ?inst" "per = Fin p" "0 < p" "risk = Fin r" "0 < r"
    "raw = Fin (r / p)" "risk = roundMoney (si_equity inp * si_riskPercent inp / 100)"
    using calculateRaw_ok [OF raw assms(2-5)] by blast
  obtain s mn mx where inst: "volumeStep ?inst = Fin s" "minVolume ?inst = Fin mn"
    "maxVolume ?inst = Fin mx"
    using pr(1) by (elim sane_fields)
  obtain v n where v: "normalizeVolumeDown raw ?inst = Fin v"
    "\<bar>v - of_int n * s\<bar> \<le> 5 / 10 ^ 9" "of_int n * s \<le> r / p + s / 10 ^ 12"
    using normalizeVolumeDown_bounds [OF pr(1) inst(1) pr(6)] by blast
  have per: "lossAtStopPerUnitVolume (si_direction inp) (si_entryPrice inp) (si_stopLoss inp) ?inst = per"
    using raw by (auto simp: calculateRaw_def Let_def split: if_splits)
  have res: "res = \<lparr>sz_volume = Fin v, sz_riskAmount = Fin r, sz_lossAtStop = Fin (money_rat (p * v))\<rparr>"
    "0 < v" "mn \<le> v" "v \<le> mx" "money_rat (p * v) \<le> r + 1 / 100"
    using assms(1) raw pr inst v(1)
    by (auto simp: calculate_def Let_def LOSS_TOLERANCE_def split: if_splits)
  have "v \<le> r / p + s / 10 ^ 12 + 5 / 10 ^ 9" using v(2,3) unfolding abs_le_iff by linarith
  with res per pr inst show ?thesis by auto
qed

text \<open>Whenever sizing succeeds on finite prices, equity and risk percentage, the volume is a
  positive finite number within the instrument's minimum and maximum, at most a 1e-12 step and the
  eight-decimal rounding above the volume the risk budget buys, and the rounded loss at the stop is
  within one cent of the budget, which is the configured percentage of equity to the cent.\<close>

theorem calculate_within_risk:
  assumes "calculate inp = Inr res"
    and "is_finite (si_entryPrice inp)" "is_finite (si_stopLoss inp)"
    and "is_finite (si_equity inp)" "is_finite (si_riskPercent inp)"
  shows "\<exists>v r l p s. sz_volume res = Fin v \<and> sz_riskAmount res = Fin r \<and> sz_lossAtStop res = Fin l \<and>
    lossAtStopPerUnitVolume (si_direction inp) (si_entryPrice inp) (si_stopLoss inp)
      (si_instrument inp) = Fin p \<and> volumeStep (si_instrument inp) = Fin s \<and>
    0 < p \<and> 0 < v \<and> minVolume (si_instrument inp) \<le> Fin v \<and> Fin v \<le> maxVolume (si_instrument inp) \<and>
    v \<le> r / p + s / 10 ^ 12 + 5 / 10 ^ 9 \<and> l \<le> r + 1 / 100 \<and>
    Fin r = roundMoney (si_equity inp * si_riskPercent inp / 100)"
  by (rule calculate_bounds [OF assms])

definition demo_sizing :: sizing_input where
  "demo_sizing = \<lparr>si_equity = 1000, si_direction = BUY, si_entryPrice = 100, si_stopLoss = 98,
     si_riskPercent = Fin (1 / 2), si_instrument = demo_instrument\<rparr>"

lemma demo_instrument_valid: "validateInstrumentMetadata demo_instrument =
    \<lparr>iv_valid = True, iv_missing = [], iv_reasons = []\<rparr>"
  by (simp add: validateInstrumentMetadata_def demo_instrument_def REQUIRED_INSTRUMENT_FIELDS_def
      trunc_rat_def Let_def)

lemma calculate_demo: "calculate demo_sizing =
    Inr \<lparr>sz_volume = Fin (1 / 50), sz_riskAmount = 5, sz_lossAtStop = 4\<rparr>"
  by (simp add: calculate_def calculateRaw_def demo_sizing_def demo_instrument_valid Let_def
      lossAtStopPerUnitVolume_def normalizeVolumeDown_def fixed_rat_def round_half_up_def
      money_rat_def cents_def LOSS_TOLERANCE_def)
    (simp add: demo_instrument_def fixed_rat_def round_half_up_def money_rat_def cents_def)

text \<open>Sizing is not fail-closed on a missing price: with a valid instrument and otherwise ordinary
  inputs, an entry price that is not a number is accepted, and the volume returned is not a number
  either, because every guard of the code is a comparison that \<open>NaN\<close> makes false.\<close>

theorem calculate_accepts_nan_entry:
  "calculate (demo_sizing\<lparr>si_entryPrice := NaN\<rparr>) =
     Inr \<lparr>sz_volume = NaN, sz_riskAmount = 5, sz_lossAtStop = NaN\<rparr>"
proof -
  have nan: "roundMoney NaN = NaN"
    by (simp add: roundMoney_def toCents_def fromCents_def)
  have "normalizeVolumeDown NaN demo_instrument = NaN"
    by (simp add: normalizeVolumeDown_def demo_instrument_def)
  then show ?thesis
    by (simp add: calculate_def calculateRaw_def demo_sizing_def demo_instrument_valid Let_def
        lossAtStopPerUnitVolume_def nan money_rat_def cents_def round_half_up_def)
qed

theorem calculate_within_risk_witness:
  "\<exists>v r l p s. sz_volume \<lparr>sz_volume = Fin (1 / 50), sz_riskAmount = 5, sz_lossAtStop = 4\<rparr> = Fin v \<and>
    sz_riskAmount \<lparr>sz_volume = Fin (1 / 50), sz_riskAmount = 5, sz_lossAtStop = 4\<rparr> = Fin r \<and>
    0 < p \<and> v \<le> r / p + s / 10 ^ 12 + 5 / 10 ^ 9 \<and> l \<le> r + 1 / (100 :: rat)"
proof -
  have "is_finite (si_entryPrice demo_sizing)" "is_finite (si_stopLoss demo_sizing)"
    "is_finite (si_equity demo_sizing)" "is_finite (si_riskPercent demo_sizing)"
    by (simp_all add: demo_sizing_def)
  from calculate_within_risk [OF calculate_demo this] show ?thesis by blast
qed

text \<open>A stop and target that pass validation lie on the correct sides of a positive finite entry
  price, and when the limits ask for a positive risk/reward ratio a target is present whose ratio,
  rounded to four decimals, reaches it.\<close>

theorem valid_stops_sides:
  assumes "sv_valid (validate_stops dir entry stop target limits min_dist)"
    and "is_finite stop"
  shows "is_finite entry \<and> 0 < entry \<and>
    (case dir of BUY \<Rightarrow> stop < entry | SELL \<Rightarrow> entry < stop) \<and>
    (\<forall>t. target = Some t \<longrightarrow> t \<noteq> NaN \<longrightarrow> (case dir of BUY \<Rightarrow> entry < t | SELL \<Rightarrow> t < entry)) \<and>
    (0 < minRiskRewardRatio limits \<longrightarrow>
       (\<exists>t. target = Some t \<and>
         \<not> to_fixed 4 (js_abs (t - entry) / js_abs (entry - stop)) < minRiskRewardRatio limits))"
proof -
  obtain e where e: "entry = Fin e" "0 < e"
    using assms(1) by (cases entry) (auto simp: validate_stops_def Let_def)
  obtain s where s: "stop = Fin s" using assms(2) by (auto simp: is_finite_iff)
  have "e \<noteq> s" using assms(1) e s by (auto simp: validate_stops_def Let_def split: if_splits)
  with assms(1) e s show ?thesis
    by (cases dir; cases target)
      (auto simp: validate_stops_def Let_def js_not_less js_not_le split: option.splits if_splits)
qed

theorem valid_stops_sides_witness:
  "sv_valid (validate_stops BUY 100 98 (Some 104) DEFAULT_CFD_RISK_LIMITS None) \<and> (98 :: jsnum) < 100"
proof -
  have "sv_valid (validate_stops BUY 100 98 (Some 104) DEFAULT_CFD_RISK_LIMITS None)"
    by (simp add: validate_stops_def DEFAULT_CFD_RISK_LIMITS_def fixed_rat_def round_half_up_def Let_def)
  from this valid_stops_sides [OF this] show ?thesis by simp
qed

end
