(* ===== verification/ProfitLock.thy ===== *)
theory ProfitLock
  imports Prelude
begin

text \<open>
  The progressive profit lock of R_10 positions
  (\<^verbatim>\<open>packages/trading-engine/src/execution/r10ProfitLock.ts\<close>) and its reconciliation pass
  (\<^verbatim>\<open>apps/worker/src/cfd/r10ProfitLockReconcile.ts\<close>).  The broker's answer to a modification is
  a parameter of the pass; the row update and the event insert that follow are taken to succeed.
\<close>

subsection \<open>The decision\<close>

definition R10_PROFIT_LOCK_SYMBOL :: string where "R10_PROFIT_LOCK_SYMBOL = ''R_10''"

definition R10_PROFIT_LOCK_MILESTONES :: "(jsnum \<times> jsnum) list" where
  "R10_PROFIT_LOCK_MILESTONES =
     [(Fin (7 / 4), 1), (Fin (3 / 2), Fin (1 / 2)), (1, Fin (1 / 5)), (Fin (3 / 4), 0)]"

record lock_input =
  li_symbol :: string
  li_status :: string
  li_direction :: string
  li_entryPrice :: "jsnum option"
  li_initialStopLoss :: "jsnum option"
  li_currentStopLoss :: "jsnum option"
  li_currentPrice :: "jsnum option"
  li_brokerPositionId :: "string option"
  li_takeProfit :: "jsnum option"

datatype lock_reason =
    SYMBOL_NOT_R10 | STATUS_NOT_OPEN | MISSING_BROKER_POSITION_ID | INVALID_DIRECTION
  | INVALID_ENTRY_PRICE | INVALID_INITIAL_STOP | INVALID_CURRENT_STOP | INVALID_CURRENT_PRICE
  | ZERO_INITIAL_RISK | BELOW_PROFIT_LOCK_THRESHOLD | STOP_ALREADY_AT_OR_BEYOND_PROTECTED_LEVEL

record lock_change =
  lc_proposedStop :: jsnum
  lc_favorableR :: jsnum
  lc_protectedR :: jsnum
  lc_takeProfit :: "jsnum option"
  lc_initialRisk :: jsnum
  lc_oldStopLoss :: jsnum

datatype lock_decision = NoChange lock_reason | Modify lock_change

definition isFiniteNumber :: "jsnum option \<Rightarrow> bool" where
  "isFiniteNumber n = some_and n is_finite"

fun first_milestone :: "(jsnum \<times> jsnum) list \<Rightarrow> jsnum \<Rightarrow> jsnum option" where
  "first_milestone [] _ = None"
| "first_milestone ((minFavorableR, protectedR) # ms) r =
     (if minFavorableR \<le> r then Some protectedR else first_milestone ms r)"

definition protectedRForFavorableR :: "jsnum \<Rightarrow> jsnum option" where
  "protectedRForFavorableR favorableR =
     (if \<not> is_finite favorableR then None
      else first_milestone R10_PROFIT_LOCK_MILESTONES favorableR)"

definition computeFavorableR :: "string \<Rightarrow> jsnum \<Rightarrow> jsnum \<Rightarrow> jsnum \<Rightarrow> jsnum" where
  "computeFavorableR dir entryPrice currentPrice initialRisk =
     (if \<not> 0 < initialRisk then NaN
      else if dir = ''BUY'' then (currentPrice - entryPrice) / initialRisk
      else (entryPrice - currentPrice) / initialRisk)"

definition computeProtectedStop :: "string \<Rightarrow> jsnum \<Rightarrow> jsnum \<Rightarrow> jsnum \<Rightarrow> jsnum" where
  "computeProtectedStop dir entryPrice initialRisk protectedR =
     (if dir = ''BUY'' then entryPrice + initialRisk * protectedR
      else entryPrice - initialRisk * protectedR)"

definition stopImprovesProtection :: "string \<Rightarrow> jsnum \<Rightarrow> jsnum \<Rightarrow> bool" where
  "stopImprovesProtection dir proposedStop currentStopLoss =
     (if dir = ''BUY'' then currentStopLoss < proposedStop else proposedStop < currentStopLoss)"

definition blank :: "string option \<Rightarrow> bool" where
  "blank s \<longleftrightarrow> (case s of None \<Rightarrow> True | Some t \<Rightarrow> js_trim t = [])"

definition evaluateR10ProfitLock :: "lock_input \<Rightarrow> lock_decision" where
  "evaluateR10ProfitLock inp =
     (let entry = or_default (li_entryPrice inp) NaN;
          initialStop = or_default (li_initialStopLoss inp) NaN;
          currentStop = or_default (li_currentStopLoss inp) NaN;
          price = or_default (li_currentPrice inp) NaN
      in if li_symbol inp \<noteq> R10_PROFIT_LOCK_SYMBOL then NoChange SYMBOL_NOT_R10
         else if li_status inp \<noteq> ''OPEN'' then NoChange STATUS_NOT_OPEN
         else if blank (li_brokerPositionId inp) then NoChange MISSING_BROKER_POSITION_ID
         else if li_direction inp \<noteq> ''BUY'' \<and> li_direction inp \<noteq> ''SELL''
         then NoChange INVALID_DIRECTION
         else if \<not> isFiniteNumber (li_entryPrice inp) \<or> entry \<le> 0 then NoChange INVALID_ENTRY_PRICE
         else if \<not> isFiniteNumber (li_initialStopLoss inp) \<or> initialStop \<le> 0
         then NoChange INVALID_INITIAL_STOP
         else if \<not> isFiniteNumber (li_currentStopLoss inp) then NoChange INVALID_CURRENT_STOP
         else if \<not> isFiniteNumber (li_currentPrice inp) \<or> price \<le> 0
         then NoChange INVALID_CURRENT_PRICE
         else
           let initialRisk = js_abs (entry - initialStop)
           in if \<not> 0 < initialRisk then NoChange ZERO_INITIAL_RISK
              else
                let favorableR = computeFavorableR (li_direction inp) entry price initialRisk
                in case protectedRForFavorableR favorableR of
                     None \<Rightarrow> NoChange BELOW_PROFIT_LOCK_THRESHOLD
                   | Some protectedR \<Rightarrow>
                       let proposedStop =
                             computeProtectedStop (li_direction inp) entry initialRisk protectedR
                       in if \<not> stopImprovesProtection (li_direction inp) proposedStop currentStop
                          then NoChange STOP_ALREADY_AT_OR_BEYOND_PROTECTED_LEVEL
                          else Modify
                            \<lparr>lc_proposedStop = proposedStop, lc_favorableR = favorableR,
                             lc_protectedR = protectedR, lc_takeProfit = li_takeProfit inp,
                             lc_initialRisk = initialRisk, lc_oldStopLoss = currentStop\<rparr>)"

subsection \<open>The decision on finite inputs\<close>

text \<open>The decision read over the rationals: the milestone reached, and the stop it protects.\<close>

definition milestone :: "rat \<Rightarrow> rat option" where
  "milestone f = (if 7 / 4 \<le> f then Some 1 else if 3 / 2 \<le> f then Some (1 / 2)
     else if 1 \<le> f then Some (1 / 5) else if 3 / 4 \<le> f then Some 0 else None)"

definition side :: "string \<Rightarrow> rat" where "side dir = (if dir = ''BUY'' then 1 else -1)"

definition protected_level :: "string \<Rightarrow> rat \<Rightarrow> rat \<Rightarrow> rat \<Rightarrow> rat option" where
  "protected_level dir e r p = map_option (\<lambda>m. e + side dir * (r * m)) (milestone (side dir * (p - e) / r))"

definition lockable :: "lock_input \<Rightarrow> rat \<Rightarrow> rat \<Rightarrow> bool" where
  "lockable inp e r \<longleftrightarrow> li_symbol inp = R10_PROFIT_LOCK_SYMBOL \<and> li_status inp = ''OPEN'' \<and>
     \<not> blank (li_brokerPositionId inp) \<and> li_direction inp \<in> {''BUY'', ''SELL''} \<and>
     li_entryPrice inp = Some (Fin e) \<and> 0 < e \<and> 0 < r \<and>
     (\<exists>i. li_initialStopLoss inp = Some (Fin i) \<and> 0 < i \<and> r = \<bar>e - i\<bar>)"

lemma protectedR_fin: "protectedRForFavorableR (Fin f) = map_option Fin (milestone f)"
  by (simp add: protectedRForFavorableR_def R10_PROFIT_LOCK_MILESTONES_def milestone_def)

lemma milestone_bounds: "milestone f = Some m \<Longrightarrow> 0 \<le> m \<and> m + 1 / 2 \<le> f"
  by (auto simp: milestone_def split: if_splits)

lemma milestone_mono:
  "f \<le> g \<Longrightarrow> milestone f = Some m \<Longrightarrow> milestone g \<noteq> None \<and> m \<le> the (milestone g)"
  by (auto simp: milestone_def simp del: not_None_eq split: if_splits)

lemma finite_some: "isFiniteNumber n \<longleftrightarrow> (\<exists>a. n = Some (Fin a))"
  by (cases n) (auto simp: isFiniteNumber_def is_finite_iff)

lemma evaluate_lockable:
  assumes "lockable inp e r" and "li_currentStopLoss inp = Some (Fin s)"
    and "li_currentPrice inp = Some (Fin p)" and "0 < p"
  shows "evaluateR10ProfitLock inp =
    (case protected_level (li_direction inp) e r p of
       None \<Rightarrow> NoChange BELOW_PROFIT_LOCK_THRESHOLD
     | Some l \<Rightarrow>
         if side (li_direction inp) * s < side (li_direction inp) * l
         then Modify \<lparr>lc_proposedStop = Fin l,
           lc_favorableR = Fin (side (li_direction inp) * (p - e) / r),
           lc_protectedR = Fin (the (milestone (side (li_direction inp) * (p - e) / r))),
           lc_takeProfit = li_takeProfit inp, lc_initialRisk = Fin r, lc_oldStopLoss = Fin s\<rparr>
         else NoChange STOP_ALREADY_AT_OR_BEYOND_PROTECTED_LEVEL)"
proof -
  obtain i where i: "li_initialStopLoss inp = Some (Fin i)" "0 < i" "r = \<bar>e - i\<bar>" "0 < r"
    "li_entryPrice inp = Some (Fin e)" "0 < e"
    using assms(1) by (auto simp: lockable_def)
  have fav: "computeFavorableR (li_direction inp) (Fin e) (Fin p) (Fin r) =
      Fin (side (li_direction inp) * (p - e) / r)"
    using i(4) by (simp add: computeFavorableR_def side_def)
  have stop: "computeProtectedStop (li_direction inp) (Fin e) (Fin r) (Fin m) =
      Fin (e + side (li_direction inp) * (r * m))" for m
    by (simp add: computeProtectedStop_def side_def)
  have better: "stopImprovesProtection (li_direction inp) (Fin l) (Fin s) \<longleftrightarrow>
      side (li_direction inp) * s < side (li_direction inp) * l" for l
    by (simp add: stopImprovesProtection_def side_def)
  have dist: "js_abs (Fin e - Fin i) = Fin r" using i(3) by simp
  have gates: "li_symbol inp = R10_PROFIT_LOCK_SYMBOL" "li_status inp = ''OPEN''"
    "\<not> blank (li_brokerPositionId inp)" "li_direction inp \<noteq> ''BUY'' \<longrightarrow> li_direction inp = ''SELL''"
    using assms(1) by (auto simp: lockable_def)
  have ev: "evaluateR10ProfitLock inp =
    (case protectedRForFavorableR (Fin (side (li_direction inp) * (p - e) / r)) of
       None \<Rightarrow> NoChange BELOW_PROFIT_LOCK_THRESHOLD
     | Some protectedR \<Rightarrow>
         let proposedStop = computeProtectedStop (li_direction inp) (Fin e) (Fin r) protectedR
         in if \<not> stopImprovesProtection (li_direction inp) proposedStop (Fin s)
            then NoChange STOP_ALREADY_AT_OR_BEYOND_PROTECTED_LEVEL
            else Modify
              \<lparr>lc_proposedStop = proposedStop,
               lc_favorableR = Fin (side (li_direction inp) * (p - e) / r),
               lc_protectedR = protectedR, lc_takeProfit = li_takeProfit inp,
               lc_initialRisk = Fin r, lc_oldStopLoss = Fin s\<rparr>)"
  proof -
    have "\<not> Fin e \<le> 0" "\<not> Fin i \<le> 0" "\<not> Fin p \<le> 0" "0 < Fin r"
      "isFiniteNumber (Some (Fin x))" for x
      using i assms(4) by (simp_all add: finite_some)
    then show ?thesis
      unfolding evaluateR10ProfitLock_def Let_def i(1,5) assms(2,3) or_default.simps dist fav
      using gates by presburger
  qed
  show ?thesis
    unfolding ev protectedR_fin
    by (cases "milestone (side (li_direction inp) * (p - e) / r)")
      (simp_all add: protected_level_def stop better)
qed

lemma Modify_lockable:
  assumes "evaluateR10ProfitLock inp = Modify ch"
  obtains e r s p where "lockable inp e r" "li_currentStopLoss inp = Some (Fin s)"
    "li_currentPrice inp = Some (Fin p)" "0 < p"
proof -
  obtain e i s p where "li_entryPrice inp = Some (Fin e)" "li_initialStopLoss inp = Some (Fin i)"
    "li_currentStopLoss inp = Some (Fin s)" "li_currentPrice inp = Some (Fin p)"
    using assms by (auto simp: evaluateR10ProfitLock_def Let_def finite_some split: if_splits)
  moreover from this have "lockable inp e \<bar>e - i\<bar>" "0 < p"
    using assms by (auto simp: evaluateR10ProfitLock_def Let_def lockable_def finite_some split: if_splits)
  ultimately show ?thesis using that by blast
qed

text \<open>C20: a modification strictly tightens the stop, places it at or beyond the entry price on the
  side of profit and strictly behind the current price by half the initial risk or more, and hands the take profit through unchanged.\<close>

theorem profit_lock_never_loosens:
  assumes "evaluateR10ProfitLock inp = Modify ch"
  shows "\<exists>e s p l. li_entryPrice inp = Some (Fin e) \<and> li_currentStopLoss inp = Some (Fin s) \<and>
    li_currentPrice inp = Some (Fin p) \<and> lc_proposedStop ch = Fin l \<and> lc_oldStopLoss ch = Fin s \<and>
    lc_takeProfit ch = li_takeProfit inp \<and>
    (\<exists>r>0. lc_initialRisk ch = Fin r \<and>
      (if li_direction inp = ''BUY'' then s < l \<and> e \<le> l \<and> l + r / 2 \<le> p
       else l < s \<and> l \<le> e \<and> p \<le> l - r / 2))"
proof -
  obtain e r s p where lk: "lockable inp e r" "li_currentStopLoss inp = Some (Fin s)"
    "li_currentPrice inp = Some (Fin p)" "0 < p"
    using assms by (rule Modify_lockable)
  let ?d = "side (li_direction inp)"
  obtain m where m: "milestone (?d * (p - e) / r) = Some m" "?d * s < ?d * (e + ?d * (r * m))"
    "lc_proposedStop ch = Fin (e + ?d * (r * m))" "lc_oldStopLoss ch = Fin s"
    "lc_takeProfit ch = li_takeProfit inp" "lc_initialRisk ch = Fin r"
    using assms unfolding evaluate_lockable [OF lk]
    by (auto simp: protected_level_def split: option.splits if_splits)
  have r: "0 < r" "li_entryPrice inp = Some (Fin e)" using lk(1) by (auto simp: lockable_def)
  have b: "0 \<le> m" "m + 1 / 2 \<le> ?d * (p - e) / r" using milestone_bounds [OF m(1)] by auto
  have rm: "0 \<le> r * m" "r * m + r / 2 \<le> ?d * (p - e)"
    using r b by (simp_all add: field_simps)
  show ?thesis
    using lk m r rm by (auto simp: side_def)
qed

subsection \<open>The ratchet\<close>

text \<open>A position whose stop follows the decisions taken on the prices it sees.\<close>

definition lock_step :: "lock_input \<Rightarrow> jsnum \<Rightarrow> jsnum \<Rightarrow> jsnum" where
  "lock_step inp s p =
     (case evaluateR10ProfitLock (inp\<lparr>li_currentStopLoss := Some s, li_currentPrice := Some p\<rparr>) of
        NoChange _ \<Rightarrow> s | Modify ch \<Rightarrow> lc_proposedStop ch)"

definition tighter :: "string \<Rightarrow> rat \<Rightarrow> rat option \<Rightarrow> rat" where
  "tighter dir s l = (case l of None \<Rightarrow> s | Some x \<Rightarrow> if side dir * s < side dir * x then x else s)"

lemma lock_step_fin:
  assumes "lockable inp e r" and "0 < p"
  shows "lock_step inp (Fin s) (Fin p) =
    Fin (tighter (li_direction inp) s (protected_level (li_direction inp) e r p))"
proof -
  let ?inp = "inp\<lparr>li_currentStopLoss := Some (Fin s), li_currentPrice := Some (Fin p)\<rparr>"
  have "lockable ?inp e r" using assms(1) by (simp add: lockable_def)
  from evaluate_lockable [OF this, of s p] assms(2) show ?thesis
    by (simp add: lock_step_def tighter_def split: option.splits)
qed

lemma lock_step_improves:
  "lock_step inp s p = s \<or>
   (\<exists>a b. s = Fin a \<and> lock_step inp s p = Fin b \<and>
      side (li_direction inp) * a < side (li_direction inp) * b)"
proof (cases "evaluateR10ProfitLock (inp\<lparr>li_currentStopLoss := Some s, li_currentPrice := Some p\<rparr>)")
  case (Modify ch)
  let ?inp = "inp\<lparr>li_currentStopLoss := Some s, li_currentPrice := Some p\<rparr>"
  obtain e r a q where lk: "lockable ?inp e r" "li_currentStopLoss ?inp = Some (Fin a)"
    "li_currentPrice ?inp = Some (Fin q)" "0 < q"
    using Modify by (rule Modify_lockable)
  have "s = Fin a" "p = Fin q" "lockable inp e r" using lk by (simp_all add: lockable_def)
  with lk(4) show ?thesis
    by (simp add: lock_step_fin tighter_def split: option.splits)
qed (simp add: lock_step_def)

interpretation lock: monotone_machine "lock_step inp" "\<lambda>s. side (li_direction inp) * rat_of s" for inp
proof
  show "side (li_direction inp) * rat_of s \<le> side (li_direction inp) * rat_of (lock_step inp s p)" for s p
    using lock_step_improves [of inp s p] by auto
qed

definition best :: "string \<Rightarrow> rat \<Rightarrow> rat \<Rightarrow> rat" where
  "best dir p q = (if side dir * p < side dir * q then q else p)"

lemma protected_level_mono:
  assumes "0 < r" and "side dir * p \<le> side dir * q" and "protected_level dir e r p = Some l"
  shows "\<exists>l'. protected_level dir e r q = Some l' \<and> side dir * l \<le> side dir * l'"
proof -
  have "side dir * (p - e) / r \<le> side dir * (q - e) / r"
    using assms(1,2) by (intro divide_right_mono) (simp_all add: algebra_simps)
  moreover obtain m where m: "milestone (side dir * (p - e) / r) = Some m"
    and l: "l = e + side dir * (r * m)"
    using assms(3) by (auto simp: protected_level_def)
  ultimately obtain n where "milestone (side dir * (q - e) / r) = Some n" "m \<le> n"
    using milestone_mono [OF _ m] by fastforce
  then show ?thesis
    using assms(1) by (auto simp: protected_level_def l side_def)
qed

lemma tighter_tighter:
  assumes "0 < r"
  shows "tighter dir (tighter dir s (protected_level dir e r p)) (protected_level dir e r q) =
    tighter dir s (protected_level dir e r (best dir p q))"
proof (cases "side dir * p < side dir * q")
  case True
  show ?thesis
  proof (cases "protected_level dir e r p")
    case (Some l)
    obtain k where "protected_level dir e r q = Some k" "side dir * l \<le> side dir * k"
      using protected_level_mono [OF assms less_imp_le [OF True] Some] by blast
    with Some True show ?thesis by (auto simp: tighter_def best_def side_def)
  qed (simp add: tighter_def best_def True)
next
  case False
  show ?thesis
  proof (cases "protected_level dir e r q")
    case (Some l)
    obtain k where "protected_level dir e r p = Some k" "side dir * l \<le> side dir * k"
      using protected_level_mono [OF assms _ Some] False [unfolded not_less] by blast
    with Some False show ?thesis by (auto simp: tighter_def best_def side_def)
  qed (simp add: tighter_def best_def False)
qed

text \<open>C35: a stop managed by the profit lock along a price path ends where a single decision at the
  best price of the path would have put it, whatever the order of the prices and however far the price retraced: the lock never forgets a milestone.\<close>

theorem profit_lock_ratchet:
  assumes "lockable inp e r" and "0 < p" and "\<forall>q\<in>set ps. 0 < q"
  shows "run (lock_step inp) (Fin s) (map Fin (p # ps)) =
    lock_step inp (Fin s) (Fin (fold (\<lambda>q b. best (li_direction inp) b q) ps p))"
  using assms(2,3)
proof (induction ps arbitrary: p)
  case (Cons q qs)
  let ?b = "best (li_direction inp) p q"
  have b: "0 < ?b" using Cons.prems by (simp add: best_def)
  have r: "0 < r" using assms(1) by (simp add: lockable_def)
  have "lock_step inp (lock_step inp (Fin s) (Fin p)) (Fin q) = lock_step inp (Fin s) (Fin ?b)"
    using Cons.prems b assms(1) by (simp add: lock_step_fin tighter_tighter [OF r])
  then show ?case using Cons.IH [of ?b] Cons.prems b by simp
qed simp

definition demo_lock :: lock_input where
  "demo_lock = \<lparr>li_symbol = ''R_10'', li_status = ''OPEN'', li_direction = ''BUY'',
     li_entryPrice = Some 100, li_initialStopLoss = Some 99, li_currentStopLoss = Some 99,
     li_currentPrice = Some (Fin (403 / 4)), li_brokerPositionId = Some ''12345'',
     li_takeProfit = Some 102\<rparr>"

lemma demo_lockable: "lockable demo_lock 100 1"
  by (simp add: lockable_def demo_lock_def R10_PROFIT_LOCK_SYMBOL_def blank_def js_trim_def is_space_def)

theorem profit_lock_ratchet_witness:
  "run (lock_step demo_lock) (Fin 99) (map Fin [101, 407 / 4, 100]) = Fin 101"
proof -
  have dir: "li_direction demo_lock = ''BUY''" by (simp add: demo_lock_def)
  have "lock_step demo_lock (Fin 99) (Fin (407 / 4)) = Fin 101"
    using lock_step_fin [OF demo_lockable, of "407 / 4" 99]
    by (simp add: dir side_def tighter_def protected_level_def milestone_def)
  then show ?thesis
    using profit_lock_ratchet [OF demo_lockable, of 101 "[407 / 4, 100]" 99]
    by (simp add: best_def side_def dir)
qed

theorem profit_lock_never_loosens_witness:
  "\<exists>l. evaluateR10ProfitLock demo_lock = Modify l \<and> Fin 99 < lc_proposedStop l \<and>
     lc_takeProfit l = Some 102"
proof -
  have "evaluateR10ProfitLock demo_lock = Modify
     \<lparr>lc_proposedStop = 100, lc_favorableR = Fin (3 / 4), lc_protectedR = 0,
      lc_takeProfit = Some 102, lc_initialRisk = 1, lc_oldStopLoss = 99\<rparr>"
    using evaluate_lockable [OF demo_lockable, of 99 "403 / 4"]
    by (simp add: demo_lock_def protected_level_def side_def milestone_def)
  from this profit_lock_never_loosens [OF this] show ?thesis by (simp add: demo_lock_def)
qed

subsection \<open>The reconciliation pass\<close>

record lock_local =
  ll_id :: string
  ll_symbol :: string
  ll_status :: string
  ll_direction :: string
  ll_entryPrice :: "jsnum option"
  ll_initialStopLoss :: "jsnum option"
  ll_stopLoss :: "jsnum option"
  ll_takeProfit :: "jsnum option"
  ll_brokerPositionId :: "string option"
  ll_currentPrice :: "jsnum option"

record broker_position =
  bp_brokerPositionId :: string
  bp_stopLoss :: jsnum
  bp_takeProfit :: "jsnum option"
  bp_currentPrice :: jsnum

text \<open>What the pass emits: the modification requests, the row updates, and the events.\<close>

datatype lock_effect =
    ModifyRequest string jsnum "jsnum option"
  | RowUpdate string jsnum jsnum "jsnum option"
  | LockEvent string jsnum jsnum jsnum jsnum jsnum

definition lock_input_of :: "lock_local \<Rightarrow> broker_position \<Rightarrow> jsnum option \<Rightarrow> lock_input" where
  "lock_input_of loc bp tp =
     \<lparr>li_symbol = ll_symbol loc, li_status = ll_status loc, li_direction = ll_direction loc,
      li_entryPrice = ll_entryPrice loc, li_initialStopLoss = ll_initialStopLoss loc,
      li_currentStopLoss = Some (bp_stopLoss bp), li_currentPrice = Some (bp_currentPrice bp),
      li_brokerPositionId = ll_brokerPositionId loc, li_takeProfit = tp\<rparr>"

definition lock_one ::
  "(string \<Rightarrow> jsnum \<Rightarrow> bool) \<Rightarrow> broker_position list \<Rightarrow> lock_local \<Rightarrow>
     lock_effect list \<times> broker_position list \<times> lock_local" where
  "lock_one accepts brokerOpen loc =
     (if ll_symbol loc \<noteq> R10_PROFIT_LOCK_SYMBOL then ([], brokerOpen, loc)
      else if ll_status loc \<noteq> ''OPEN'' then ([], brokerOpen, loc)
      else if \<not> truthy (ll_brokerPositionId loc) then ([], brokerOpen, loc)
      else
        let bid = the (ll_brokerPositionId loc);
            same = (\<lambda>p. bp_brokerPositionId p = bid)
        in case find same brokerOpen of
             None \<Rightarrow> ([], brokerOpen, loc)
           | Some bp \<Rightarrow>
               let existingTakeProfit =
                     (case bp_takeProfit bp of Some t \<Rightarrow> Some t | None \<Rightarrow> ll_takeProfit loc)
               in case evaluateR10ProfitLock (lock_input_of loc bp existingTakeProfit) of
                    NoChange _ \<Rightarrow> ([], brokerOpen, loc)
                  | Modify d \<Rightarrow>
                      let stop = lc_proposedStop d;
                          request = ModifyRequest bid stop existingTakeProfit
                      in if \<not> accepts bid stop then ([request], brokerOpen, loc)
                         else
                           ([request,
                             RowUpdate (ll_id loc) stop (bp_currentPrice bp) existingTakeProfit,
                             LockEvent (ll_id loc) (lc_favorableR d) (lc_protectedR d)
                               (lc_oldStopLoss d) stop (bp_currentPrice bp)],
                            update_first same
                              (\<lambda>p. p\<lparr>bp_stopLoss := stop,
                                     bp_takeProfit := (case existingTakeProfit of
                                        Some t \<Rightarrow> Some t | None \<Rightarrow> bp_takeProfit p)\<rparr>) brokerOpen,
                            loc\<lparr>ll_stopLoss := Some stop,
                                ll_currentPrice := Some (bp_currentPrice bp)\<rparr>))"

fun applyR10ProfitLocks ::
  "(string \<Rightarrow> jsnum \<Rightarrow> bool) \<Rightarrow> broker_position list \<Rightarrow> lock_local list \<Rightarrow>
     lock_effect list \<times> broker_position list \<times> lock_local list" where
  "applyR10ProfitLocks accepts brokerOpen [] = ([], brokerOpen, [])"
| "applyR10ProfitLocks accepts brokerOpen (loc # localOpen) =
     (let (effs, brokerOpen', loc') = lock_one accepts brokerOpen loc;
          (effs', brokerOpen'', locs') = applyR10ProfitLocks accepts brokerOpen' localOpen
      in (effs @ effs', brokerOpen'', loc' # locs'))"

text \<open>What one row may do to one broker position.\<close>

definition tightened_by :: "lock_local \<Rightarrow> broker_position \<Rightarrow> broker_position \<Rightarrow> bool" where
  "tightened_by loc p q \<longleftrightarrow>
     ll_symbol loc = R10_PROFIT_LOCK_SYMBOL \<and> ll_status loc = ''OPEN'' \<and>
     ll_brokerPositionId loc = Some (bp_brokerPositionId p) \<and>
     stopImprovesProtection (ll_direction loc) (bp_stopLoss q) (bp_stopLoss p) \<and>
     bp_brokerPositionId q = bp_brokerPositionId p \<and> bp_currentPrice q = bp_currentPrice p \<and>
     (bp_takeProfit p \<noteq> None \<longrightarrow> bp_takeProfit q = bp_takeProfit p)"

lemma Modify_improves:
  "evaluateR10ProfitLock inp = Modify ch \<Longrightarrow>
     stopImprovesProtection (li_direction inp) (lc_proposedStop ch) (or_default (li_currentStopLoss inp) NaN)"
  by (auto simp: evaluateR10ProfitLock_def Let_def split: if_splits option.splits)

lemma lock_one_frame:
  assumes "lock_one accepts bs loc = (effs, bs', loc')"
  shows "length bs' = length bs \<and> (\<forall>i<length bs. bs' ! i = bs ! i \<or> tightened_by loc (bs ! i) (bs' ! i))"
proof (cases "bs' = bs")
  case False
  let ?same = "\<lambda>p. bp_brokerPositionId p = the (ll_brokerPositionId loc)"
  obtain bp tp d where f: "find ?same bs = Some bp"
    and tp: "tp = (case bp_takeProfit bp of Some t \<Rightarrow> Some t | None \<Rightarrow> ll_takeProfit loc)"
    and ev: "evaluateR10ProfitLock (lock_input_of loc bp tp) = Modify d"
    and bs': "bs' = update_first ?same (\<lambda>p. p\<lparr>bp_stopLoss := lc_proposedStop d,
       bp_takeProfit := (case tp of Some t \<Rightarrow> Some t | None \<Rightarrow> bp_takeProfit p)\<rparr>) bs"
    and gates: "ll_symbol loc = R10_PROFIT_LOCK_SYMBOL" "ll_status loc = ''OPEN''"
      "truthy (ll_brokerPositionId loc)"
    using assms False
    by (auto simp: lock_one_def Let_def split: if_splits option.splits lock_decision.splits)
  have "stopImprovesProtection (ll_direction loc) (lc_proposedStop d) (bp_stopLoss bp)"
    using Modify_improves [OF ev] by (simp add: lock_input_of_def)
  moreover have "ll_brokerPositionId loc = Some (the (ll_brokerPositionId loc))"
    using gates(3) by (cases "ll_brokerPositionId loc") auto
  ultimately show ?thesis
    using update_first_nth [of _ bs ?same] f gates tp
    by (fastforce simp: bs' tightened_by_def split: option.splits)
qed simp

inductive tightened_along :: "lock_local list \<Rightarrow> broker_position \<Rightarrow> broker_position \<Rightarrow> bool" where
  keep: "tightened_along [] p p"
| pass: "tightened_along locs p q \<Longrightarrow> tightened_along (loc # locs) p q"
| tighten: "tightened_by loc p q \<Longrightarrow> tightened_along locs q r \<Longrightarrow> tightened_along (loc # locs) p r"

lemma applyR10ProfitLocks_frame:
  assumes "applyR10ProfitLocks accepts bs locs = (effs, bs', locs')" and "i < length bs"
  shows "length bs' = length bs \<and> tightened_along locs (bs ! i) (bs' ! i)"
  using assms
proof (induction locs arbitrary: bs effs bs' locs')
  case Nil
  then show ?case by (auto intro: tightened_along.intros)
next
  case (Cons loc locs)
  obtain e1 b1 l1 where one: "lock_one accepts bs loc = (e1, b1, l1)" by (cases "lock_one accepts bs loc")
  obtain e2 b2 l2 where rest: "applyR10ProfitLocks accepts b1 locs = (e2, b2, l2)"
    by (cases "applyR10ProfitLocks accepts b1 locs")
  have b2: "bs' = b2" using Cons.prems(1) one rest by simp
  have len: "length b1 = length bs" using lock_one_frame [OF one] by blast
  have ih: "length b2 = length b1" "tightened_along locs (b1 ! i) (b2 ! i)"
    using Cons.IH [OF rest] Cons.prems(2) len by auto
  have "b1 ! i = bs ! i \<or> tightened_by loc (bs ! i) (b1 ! i)"
    using lock_one_frame [OF one] Cons.prems(2) by blast
  then show ?case
    using ih b2 len by (auto intro: tightened_along.intros)
qed

lemma improves_trans:
  "stopImprovesProtection d b a \<Longrightarrow> stopImprovesProtection d c b \<Longrightarrow> stopImprovesProtection d c a"
  by (auto simp: stopImprovesProtection_def intro: js_less_trans split: if_splits)

lemma tightened_along_sound:
  assumes "tightened_along locs p q"
    and "\<forall>loc\<in>set locs. ll_brokerPositionId loc = Some (bp_brokerPositionId p) \<longrightarrow> ll_direction loc = d"
  shows "q = p \<or> (stopImprovesProtection d (bp_stopLoss q) (bp_stopLoss p) \<and>
      bp_brokerPositionId q = bp_brokerPositionId p \<and> bp_currentPrice q = bp_currentPrice p \<and>
      (bp_takeProfit p \<noteq> None \<longrightarrow> bp_takeProfit q = bp_takeProfit p) \<and>
      (\<exists>loc\<in>set locs. ll_brokerPositionId loc = Some (bp_brokerPositionId p) \<and>
         ll_symbol loc = R10_PROFIT_LOCK_SYMBOL \<and> ll_status loc = ''OPEN''))"
  using assms
proof (induction rule: tightened_along.induct)
  case (tighten loc p q locs r)
  have step: "ll_direction loc = d" "stopImprovesProtection d (bp_stopLoss q) (bp_stopLoss p)"
    "bp_brokerPositionId q = bp_brokerPositionId p"
    using tighten.hyps(1) tighten.prems by (auto simp: tightened_by_def)
  have "\<forall>loc\<in>set locs. ll_brokerPositionId loc = Some (bp_brokerPositionId q) \<longrightarrow> ll_direction loc = d"
    using tighten.prems step(3) by simp
  note tighten.IH [OF this]
  then show ?case
    using tighten.hyps(1) step by (auto simp: tightened_by_def intro: improves_trans)
qed auto

text \<open>A reconciliation pass keeps the list of broker positions aligned and leaves each of them
  either untouched or with a strictly better protected stop, the same current price, and the take
  profit the broker had; only positions that an OPEN R_10 row names are touched.  The rows that name
  one broker position must agree on its direction, and the broker may refuse any request.\<close>

theorem reconcile_never_loosens:
  assumes "applyR10ProfitLocks accepts bs locs = (effs, bs', locs')" and "i < length bs"
    and "\<forall>loc\<in>set locs. ll_brokerPositionId loc = Some (bp_brokerPositionId (bs ! i)) \<longrightarrow>
      ll_direction loc = d"
  shows "length bs' = length bs \<and> (bs' ! i = bs ! i \<or>
     (stopImprovesProtection d (bp_stopLoss (bs' ! i)) (bp_stopLoss (bs ! i)) \<and>
      bp_brokerPositionId (bs' ! i) = bp_brokerPositionId (bs ! i) \<and>
      bp_currentPrice (bs' ! i) = bp_currentPrice (bs ! i) \<and>
      (bp_takeProfit (bs ! i) \<noteq> None \<longrightarrow> bp_takeProfit (bs' ! i) = bp_takeProfit (bs ! i)) \<and>
      (\<exists>loc\<in>set locs. ll_brokerPositionId loc = Some (bp_brokerPositionId (bs ! i)) \<and>
         ll_symbol loc = R10_PROFIT_LOCK_SYMBOL \<and> ll_status loc = ''OPEN'')))"
  using applyR10ProfitLocks_frame [OF assms(1,2)] tightened_along_sound [OF _ assms(3)] by blast

definition demo_row :: lock_local where
  "demo_row = \<lparr>ll_id = ''p1'', ll_symbol = ''R_10'', ll_status = ''OPEN'', ll_direction = ''BUY'',
     ll_entryPrice = Some 100, ll_initialStopLoss = Some 99, ll_stopLoss = Some 99,
     ll_takeProfit = None, ll_brokerPositionId = Some ''12345'', ll_currentPrice = None\<rparr>"

definition demo_broker_position :: broker_position where
  "demo_broker_position = \<lparr>bp_brokerPositionId = ''12345'', bp_stopLoss = 99,
     bp_takeProfit = Some 102, bp_currentPrice = Fin (403 / 4)\<rparr>"

lemma demo_pass: "applyR10ProfitLocks (\<lambda>_ _. True) [demo_broker_position] [demo_row] =
    ([ModifyRequest ''12345'' 100 (Some 102), RowUpdate ''p1'' 100 (Fin (403 / 4)) (Some 102),
      LockEvent ''p1'' (Fin (3 / 4)) 0 99 100 (Fin (403 / 4))],
     [demo_broker_position\<lparr>bp_stopLoss := 100\<rparr>],
     [demo_row\<lparr>ll_stopLoss := Some 100, ll_currentPrice := Some (Fin (403 / 4))\<rparr>])"
proof -
  have inp: "lock_input_of demo_row demo_broker_position (Some 102) = demo_lock"
    by (simp add: lock_input_of_def demo_row_def demo_broker_position_def demo_lock_def)
  have "evaluateR10ProfitLock demo_lock = Modify
     \<lparr>lc_proposedStop = 100, lc_favorableR = Fin (3 / 4), lc_protectedR = 0,
      lc_takeProfit = Some 102, lc_initialRisk = 1, lc_oldStopLoss = 99\<rparr>"
    using evaluate_lockable [OF demo_lockable, of 99 "403 / 4"]
    by (simp add: demo_lock_def protected_level_def side_def milestone_def)
  with inp show ?thesis
    by (simp add: lock_one_def Let_def demo_row_def demo_broker_position_def
        R10_PROFIT_LOCK_SYMBOL_def)
qed

theorem reconcile_never_loosens_witness:
  "stopImprovesProtection ''BUY'' 100 99 \<and> bp_takeProfit demo_broker_position = Some 102"
  using reconcile_never_loosens [OF demo_pass, of 0 "''BUY''"]
  by (simp add: demo_row_def demo_broker_position_def)

end
