(* ===== verification/Clock.thy ===== *)
theory Clock
  imports Prelude
begin

text \<open>
  Candle intervals and UTC days (\<^verbatim>\<open>packages/shared/src/utils/time.ts\<close>,
  \<^verbatim>\<open>packages/shared/src/types/candle.ts\<close>).  Epoch milliseconds are \<^typ>\<open>int\<close>.
\<close>

datatype interval = M1 | M5 | M15

fun CANDLE_INTERVAL_SECONDS :: "interval \<Rightarrow> int" where
  "CANDLE_INTERVAL_SECONDS M1 = 60"
| "CANDLE_INTERVAL_SECONDS M5 = 300"
| "CANDLE_INTERVAL_SECONDS M15 = 900"

definition intervalMs :: "interval \<Rightarrow> int" where
  "intervalMs iv = CANDLE_INTERVAL_SECONDS iv * 1000"

definition candleOpenTime :: "int \<Rightarrow> interval \<Rightarrow> int" where
  "candleOpenTime epochMs iv =
     (let ms = CANDLE_INTERVAL_SECONDS iv * 1000 in (epochMs div ms) * ms)"

definition candleCloseTime :: "int \<Rightarrow> interval \<Rightarrow> int" where
  "candleCloseTime openTime iv = openTime + CANDLE_INTERVAL_SECONDS iv * 1000"

text \<open>The UTC calendar has no leap seconds, so a day starts at a multiple of its length.\<close>

definition utcDayStart :: "int \<Rightarrow> int" where
  "utcDayStart epochMs = (epochMs div 86400000) * 86400000"

lemma intervalMs_pos [simp]: "0 < intervalMs iv"
  by (cases iv) (simp_all add: intervalMs_def)

lemma candleOpenTime_ms: "candleOpenTime t iv = (t div intervalMs iv) * intervalMs iv"
  by (simp add: candleOpenTime_def intervalMs_def Let_def)

lemma candleCloseTime_ms: "candleCloseTime t iv = t + intervalMs iv"
  by (simp add: candleCloseTime_def intervalMs_def)

lemma candleOpenTime_dvd [simp]: "intervalMs iv dvd candleOpenTime t iv"
  by (simp add: candleOpenTime_ms)

lemma candleOpenTime_bounds:
  "candleOpenTime t iv \<le> t" "t < candleOpenTime t iv + intervalMs iv"
proof -
  have "t mod intervalMs iv = t - candleOpenTime t iv"
    unfolding candleOpenTime_ms by (simp add: minus_div_mult_eq_mod)
  moreover have "0 \<le> t mod intervalMs iv" "t mod intervalMs iv < intervalMs iv" by simp_all
  ultimately show "candleOpenTime t iv \<le> t" "t < candleOpenTime t iv + intervalMs iv" by linarith+
qed

lemma candleOpenTime_mono: "s \<le> t \<Longrightarrow> candleOpenTime s iv \<le> candleOpenTime t iv"
  unfolding candleOpenTime_ms by (simp add: mult_right_mono zdiv_mono1 less_imp_le)

lemma candleOpenTime_of_multiple: "intervalMs iv dvd t \<Longrightarrow> candleOpenTime t iv = t"
  by (simp add: candleOpenTime_ms)

end
