(* ===== verification/Risk.thy ===== *)
theory Risk
  imports Sizing Clock
begin

text \<open>
  The two risk managers and the consecutive-loss cooldown
  (\<^verbatim>\<open>packages/trading-engine/src/risk/riskManager.ts\<close>, \<^verbatim>\<open>cfdRiskManager.ts\<close>,
  \<^verbatim>\<open>consecutiveLossStreak.ts\<close>, and the types of \<^verbatim>\<open>packages/shared/src/types/risk.ts\<close>).
  Times are epoch milliseconds (\<^typ>\<open>int\<close>); all other numbers are \<^typ>\<open>jsnum\<close>.
\<close>

subsection \<open>Types\<close>

datatype rejection_code =
    ACCOUNT_INVALID | NOT_DEMO_ACCOUNT | STRATEGY_DISABLED | SIGNAL_STALE | MARKET_DATA_STALE
  | DUPLICATE_TRADE | COOLDOWN_ACTIVE | DAILY_LOSS_LIMIT | DAILY_TRADE_LIMIT
  | CONSECUTIVE_LOSS_LIMIT | CONSECUTIVE_LOSS_COOLDOWN | MAX_OPEN_CONTRACTS | MAX_STAKE_EXCEEDED
  | MAX_DRAWDOWN | BALANCE_BELOW_THRESHOLD | OUTSIDE_SESSION_HOURS | EMERGENCY_STOP
  | CONNECTION_UNSTABLE | TRADING_DISABLED

record risk_settings =
  fixedStake :: jsnum
  maxStakePerTrade :: jsnum
  maxDailyLoss :: jsnum
  maxDailyTrades :: jsnum
  maxConsecutiveLosses :: jsnum
  maxSimultaneousContracts :: jsnum
  minCooldownSeconds :: jsnum
  maxDrawdownPercent :: jsnum
  minBalance :: jsnum
  sessionStartHourUtc :: "jsnum option"
  sessionEndHourUtc :: "jsnum option"
  maxDataAgeSeconds :: jsnum
  maxSignalAgeSeconds :: jsnum

definition DEFAULT_RISK_SETTINGS :: risk_settings where
  "DEFAULT_RISK_SETTINGS =
     \<lparr>fixedStake = Fin (1 / 2), maxStakePerTrade = 1, maxDailyLoss = 5, maxDailyTrades = 10,
      maxConsecutiveLosses = 3, maxSimultaneousContracts = 1, minCooldownSeconds = 120,
      maxDrawdownPercent = 10, minBalance = 100, sessionStartHourUtc = None,
      sessionEndHourUtc = None, maxDataAgeSeconds = 30, maxSignalAgeSeconds = 30\<rparr>"

record risk_input =
  ri_settings :: risk_settings
  ri_accountExists :: bool
  ri_isVirtual :: bool
  ri_balance :: jsnum
  ri_strategyId :: string
  ri_strategyEnabled :: bool
  ri_signalTimestamp :: int
  ri_proposedStake :: "jsnum option"
  ri_lastTickAt :: "int option"
  ri_executedSignalIds :: "string list"
  ri_signalCorrelationId :: string
  ri_lastTradeAt :: "int option"
  ri_dailyPnl :: jsnum
  ri_dailyTrades :: jsnum
  ri_consecutiveLosses :: jsnum
  ri_openContracts :: jsnum
  ri_peakBalance :: jsnum
  ri_emergencyStop :: bool
  ri_tradingEnabled :: bool
  ri_recentApiErrors :: jsnum
  ri_recentDisconnects :: jsnum
  ri_now :: int

datatype risk_reason =
    NoAccount | NotDemo | StrategyDisabled string | SignalOld jsnum jsnum | NoTicks
  | DataOld jsnum jsnum | Duplicate string | CoolingDown jsnum jsnum | DailyLoss jsnum jsnum
  | DailyTrades jsnum jsnum | LossStreak jsnum jsnum | OpenContracts jsnum jsnum
  | StakeNotPositive | StakeClamped jsnum jsnum | Drawdown jsnum jsnum | BalanceLow jsnum jsnum
  | OutsideSession int jsnum jsnum | EmergencyStopActive | ExecutionDisabled
  | ApiErrors jsnum | Disconnects jsnum | AllPassed

record risk_snapshot =
  rs_balance :: jsnum
  rs_dailyPnl :: jsnum
  rs_dailyTrades :: jsnum
  rs_consecutiveLosses :: jsnum
  rs_openContracts :: jsnum
  rs_drawdownPercent :: jsnum
  rs_lastTradeAt :: "int option"

record risk_decision =
  rd_approved :: bool
  rd_rejectionCode :: "rejection_code option"
  rd_reasons :: "risk_reason list"
  rd_approvedStake :: "jsnum option"
  rd_evaluatedAt :: int
  rd_riskSnapshot :: risk_snapshot

definition MAX_RECENT_API_ERRORS :: jsnum where "MAX_RECENT_API_ERRORS = 5"
definition MAX_RECENT_DISCONNECTS :: jsnum where "MAX_RECENT_DISCONNECTS = 3"

definition seconds_between :: "int \<Rightarrow> int \<Rightarrow> jsnum" where
  "seconds_between a b = Fin (of_int (a - b) / 1000)"

subsection \<open>The risk manager\<close>

text \<open>
  A check contributes entries: a failure with its code, or a reason that only informs.  The
  decision takes the reasons of all entries in order and the code of the first failure.
\<close>

datatype risk_entry = Fail rejection_code risk_reason | Note risk_reason

fun entry_reason :: "risk_entry \<Rightarrow> risk_reason" where
  "entry_reason (Fail _ r) = r"
| "entry_reason (Note r) = r"

fun first_rejection :: "risk_entry list \<Rightarrow> rejection_code option" where
  "first_rejection [] = None"
| "first_rejection (Fail c _ # _) = Some c"
| "first_rejection (Note _ # es) = first_rejection es"

definition utc_hour :: "int \<Rightarrow> int" where
  "utc_hour epochMs = (epochMs div 3600000) mod 24"

definition in_session :: "jsnum \<Rightarrow> jsnum \<Rightarrow> int \<Rightarrow> bool" where
  "in_session from_h to_h hour =
     (if from_h \<le> to_h then from_h \<le> Fin (of_int hour) \<and> Fin (of_int hour) < to_h
      else from_h \<le> Fin (of_int hour) \<or> Fin (of_int hour) < to_h)"

definition resolved_stake :: "risk_input \<Rightarrow> jsnum" where
  "resolved_stake inp =
     (let s = ri_settings inp
      in js_min (js_min (or_default (ri_proposedStake inp) (fixedStake s)) (fixedStake s))
           (maxStakePerTrade s))"

definition account_checks :: "risk_input \<Rightarrow> risk_entry list" where
  "account_checks inp =
     push_when (\<not> ri_accountExists inp) (Fail ACCOUNT_INVALID NoAccount)
     @ push_when (ri_accountExists inp \<and> \<not> ri_isVirtual inp) (Fail NOT_DEMO_ACCOUNT NotDemo)
     @ push_when (\<not> ri_strategyEnabled inp)
         (Fail STRATEGY_DISABLED (StrategyDisabled (ri_strategyId inp)))"

definition freshness_checks :: "risk_input \<Rightarrow> risk_entry list" where
  "freshness_checks inp =
     (let s = ri_settings inp; signalAge = seconds_between (ri_now inp) (ri_signalTimestamp inp)
      in push_when (maxSignalAgeSeconds s < signalAge)
           (Fail SIGNAL_STALE (SignalOld signalAge (maxSignalAgeSeconds s)))
         @ (case ri_lastTickAt inp of
              None \<Rightarrow> [Fail MARKET_DATA_STALE NoTicks]
            | Some t \<Rightarrow>
                let dataAge = seconds_between (ri_now inp) t
                in push_when (maxDataAgeSeconds s < dataAge)
                     (Fail MARKET_DATA_STALE (DataOld dataAge (maxDataAgeSeconds s))))
         @ push_when (ri_signalCorrelationId inp \<in> set (ri_executedSignalIds inp))
             (Fail DUPLICATE_TRADE (Duplicate (ri_signalCorrelationId inp)))
         @ (case ri_lastTradeAt inp of
              None \<Rightarrow> []
            | Some t \<Rightarrow>
                let sinceLast = seconds_between (ri_now inp) t
                in push_when (sinceLast < minCooldownSeconds s)
                     (Fail COOLDOWN_ACTIVE (CoolingDown sinceLast (minCooldownSeconds s)))))"

definition limit_checks :: "risk_input \<Rightarrow> risk_entry list" where
  "limit_checks inp =
     (let s = ri_settings inp
      in push_when (ri_dailyPnl inp \<le> - maxDailyLoss s)
           (Fail DAILY_LOSS_LIMIT (DailyLoss (ri_dailyPnl inp) (maxDailyLoss s)))
         @ push_when (maxDailyTrades s \<le> ri_dailyTrades inp)
             (Fail DAILY_TRADE_LIMIT (DailyTrades (ri_dailyTrades inp) (maxDailyTrades s)))
         @ push_when (maxConsecutiveLosses s \<le> ri_consecutiveLosses inp)
             (Fail CONSECUTIVE_LOSS_LIMIT
               (LossStreak (ri_consecutiveLosses inp) (maxConsecutiveLosses s)))
         @ push_when (maxSimultaneousContracts s \<le> ri_openContracts inp)
             (Fail MAX_OPEN_CONTRACTS
               (OpenContracts (ri_openContracts inp) (maxSimultaneousContracts s)))
         @ push_when (resolved_stake inp \<le> 0) (Fail MAX_STAKE_EXCEEDED StakeNotPositive)
         @ push_when (maxStakePerTrade s < or_default (ri_proposedStake inp) 0)
             (Note (StakeClamped (or_default (ri_proposedStake inp) 0) (maxStakePerTrade s))))"

definition drawdown_percent :: "risk_input \<Rightarrow> jsnum" where
  "drawdown_percent inp = ((ri_peakBalance inp - ri_balance inp) / ri_peakBalance inp) * 100"

definition balance_checks :: "risk_input \<Rightarrow> risk_entry list" where
  "balance_checks inp =
     (let s = ri_settings inp
      in push_when (0 < ri_peakBalance inp \<and> maxDrawdownPercent s \<le> drawdown_percent inp)
           (Fail MAX_DRAWDOWN (Drawdown (drawdown_percent inp) (maxDrawdownPercent s)))
         @ push_when (ri_balance inp < minBalance s)
             (Fail BALANCE_BELOW_THRESHOLD (BalanceLow (ri_balance inp) (minBalance s)))
         @ (case (sessionStartHourUtc s, sessionEndHourUtc s) of
              (Some from_h, Some to_h) \<Rightarrow>
                push_when (\<not> in_session from_h to_h (utc_hour (ri_now inp)))
                  (Fail OUTSIDE_SESSION_HOURS (OutsideSession (utc_hour (ri_now inp)) from_h to_h))
            | _ \<Rightarrow> []))"

definition stability_checks :: "risk_input \<Rightarrow> risk_entry list" where
  "stability_checks inp =
     push_when (ri_emergencyStop inp) (Fail EMERGENCY_STOP EmergencyStopActive)
     @ push_when (\<not> ri_tradingEnabled inp) (Fail TRADING_DISABLED ExecutionDisabled)
     @ push_when (MAX_RECENT_API_ERRORS \<le> ri_recentApiErrors inp)
         (Fail CONNECTION_UNSTABLE (ApiErrors (ri_recentApiErrors inp)))
     @ push_when (MAX_RECENT_DISCONNECTS \<le> ri_recentDisconnects inp)
         (Fail CONNECTION_UNSTABLE (Disconnects (ri_recentDisconnects inp)))"

definition risk_entries :: "risk_input \<Rightarrow> risk_entry list" where
  "risk_entries inp =
     account_checks inp @ freshness_checks inp @ limit_checks inp @ balance_checks inp
     @ stability_checks inp"

definition risk_evaluate :: "risk_input \<Rightarrow> risk_decision" where
  "risk_evaluate inp =
     (let entries = risk_entries inp;
          rejection = first_rejection entries;
          approved = (rejection = None)
      in \<lparr>rd_approved = approved, rd_rejectionCode = rejection,
          rd_reasons = List.map entry_reason entries @ push_when approved AllPassed,
          rd_approvedStake = (if approved then Some (resolved_stake inp) else None),
          rd_evaluatedAt = ri_now inp,
          rd_riskSnapshot =
            \<lparr>rs_balance = ri_balance inp, rs_dailyPnl = ri_dailyPnl inp,
             rs_dailyTrades = ri_dailyTrades inp, rs_consecutiveLosses = ri_consecutiveLosses inp,
             rs_openContracts = ri_openContracts inp,
             rs_drawdownPercent =
               (if 0 < ri_peakBalance inp then to_fixed 2 (drawdown_percent inp) else 0),
             rs_lastTradeAt = ri_lastTradeAt inp\<rparr>\<rparr>)"

definition isSameUtcDay :: "int \<Rightarrow> int \<Rightarrow> bool" where
  "isSameUtcDay a b \<longleftrightarrow> utcDayStart a = utcDayStart b"

subsection \<open>The consecutive-loss streak\<close>

record closed_position =
  realizedPnl :: "jsnum option"
  closedAt :: "int option"

definition DEFAULT_CONSECUTIVE_LOSS_COOLDOWN_MINUTES :: jsnum where
  "DEFAULT_CONSECUTIVE_LOSS_COOLDOWN_MINUTES = 60"

definition consecutiveLossCooldownMsFromMinutes :: "jsnum \<Rightarrow> jsnum" where
  "consecutiveLossCooldownMsFromMinutes minutes = minutes * 60000"

fun streak_loop :: "nat \<Rightarrow> int option \<Rightarrow> closed_position list \<Rightarrow> nat \<times> int option" where
  "streak_loop n lastAt [] = (n, lastAt)"
| "streak_loop n lastAt (p # ps) =
     (if or_default (realizedPnl p) 0 < 0
      then streak_loop (n + 1) (if lastAt = None then closedAt p else lastAt) ps
      else (n, lastAt))"

definition computeConsecutiveLossStreak :: "closed_position list \<Rightarrow> nat \<times> int option" where
  "computeConsecutiveLossStreak recentClosed = streak_loop 0 None recentClosed"

datatype cooldown_code = CooldownActive | LimitReached

record cooldown_gate =
  cg_blocked :: bool
  cg_decisionCode :: "cooldown_code option"
  cg_remainingMs :: "jsnum option"

definition evaluateConsecutiveLossCooldown ::
  "jsnum \<Rightarrow> jsnum \<Rightarrow> int option \<Rightarrow> jsnum \<Rightarrow> int \<Rightarrow> cooldown_gate" where
  "evaluateConsecutiveLossCooldown losses maxLosses lastLossClosedAt cooldownMs now =
     (if losses < maxLosses
      then \<lparr>cg_blocked = False, cg_decisionCode = None, cg_remainingMs = None\<rparr>
      else case lastLossClosedAt of
          None \<Rightarrow> \<lparr>cg_blocked = True, cg_decisionCode = Some LimitReached, cg_remainingMs = None\<rparr>
        | Some t \<Rightarrow>
            let cooldownEndsAt = Fin (of_int t) + cooldownMs;
                remaining = js_max 0 (cooldownEndsAt - Fin (of_int now))
            in if Fin (of_int now) < cooldownEndsAt
               then \<lparr>cg_blocked = True, cg_decisionCode = Some CooldownActive,
                     cg_remainingMs = Some remaining\<rparr>
               else \<lparr>cg_blocked = False, cg_decisionCode = None, cg_remainingMs = Some 0\<rparr>)"

subsection \<open>The CFD risk manager\<close>

datatype cfd_rejection =
    C_TRADING_DISABLED | C_EMERGENCY_STOP | C_MARKET_DATA_STALE | C_INSTRUMENT_METADATA_MISSING
  | C_STOP_LOSS_REQUIRED | C_DUPLICATE_TRADE | C_ACCOUNT_INVALID | C_MAX_OPEN_POSITIONS
  | C_MAX_TOTAL_OPEN_RISK | C_DAILY_LOSS_LIMIT | C_DAILY_TRADE_LIMIT
  | C_CONSECUTIVE_LOSS_COOLDOWN | C_CONSECUTIVE_LOSS_LIMIT | C_COOLDOWN_ACTIVE | C_MIN_RISK_REWARD

record cfd_risk_input =
  cr_limits :: "cfd_limits option"
  cr_emergencyStop :: bool
  cr_tradingEnabled :: bool
  cr_marketDataFresh :: bool
  cr_instrument :: "instrument option"
  cr_equity :: jsnum
  cr_openPositionCount :: jsnum
  cr_totalOpenRiskAmount :: jsnum
  cr_dailyRealizedLoss :: jsnum
  cr_consecutiveLosses :: jsnum
  cr_lastLossClosedAt :: "int option"
  cr_lastTradeAt :: "int option"
  cr_minCooldownSeconds :: jsnum
  cr_maxDailyLoss :: jsnum
  cr_maxDailyTrades :: jsnum
  cr_dailyTradeCount :: jsnum
  cr_maxConsecutiveLosses :: jsnum
  cr_consecutiveLossCooldownMs :: "jsnum option"
  cr_idempotencyKeyExists :: bool
  cr_stopLossPresent :: bool
  cr_riskRewardRatio :: "jsnum option"
  cr_volume :: "jsnum option"
  cr_now :: int

record loss_detail =
  ld_consecutiveLosses :: jsnum
  ld_maxConsecutiveLosses :: jsnum
  ld_lastLossClosedAt :: "int option"
  ld_cooldownMinutes :: jsnum
  ld_cooldownRemainingMs :: "jsnum option"
  ld_decisionCode :: "cooldown_code option"

definition buildConsecutiveLossDetail :: "cfd_risk_input \<Rightarrow> jsnum \<Rightarrow> loss_detail" where
  "buildConsecutiveLossDetail inp cooldownMs =
     (let gate = evaluateConsecutiveLossCooldown (cr_consecutiveLosses inp)
            (cr_maxConsecutiveLosses inp) (cr_lastLossClosedAt inp) cooldownMs (cr_now inp)
      in \<lparr>ld_consecutiveLosses = cr_consecutiveLosses inp,
          ld_maxConsecutiveLosses = cr_maxConsecutiveLosses inp,
          ld_lastLossClosedAt = cr_lastLossClosedAt inp,
          ld_cooldownMinutes = cooldownMs / 60000,
          ld_cooldownRemainingMs = cg_remainingMs gate,
          ld_decisionCode = cg_decisionCode gate\<rparr>)"

text \<open>The result is a rejection with its code and detail, or the approval with its detail.\<close>

definition cfd_cooldown_ms :: "cfd_risk_input \<Rightarrow> jsnum" where
  "cfd_cooldown_ms inp =
     or_default (cr_consecutiveLossCooldownMs inp)
       (consecutiveLossCooldownMsFromMinutes DEFAULT_CONSECUTIVE_LOSS_COOLDOWN_MINUTES)"

definition proposed_risk :: "cfd_limits \<Rightarrow> cfd_risk_input \<Rightarrow> jsnum" where
  "proposed_risk limits inp =
     (if cr_volume inp \<noteq> None then (cr_equity inp * riskPerTradePercent limits) / 100 else 0)"

definition cfd_risk_evaluate ::
  "cfd_risk_input \<Rightarrow> (cfd_rejection \<times> loss_detail option) + loss_detail option" where
  "cfd_risk_evaluate inp =
     (let limits = or_default (cr_limits inp) DEFAULT_CFD_RISK_LIMITS;
          maxTotalRisk = (cr_equity inp * maxTotalOpenRiskPercent limits) / 100;
          cooldownMs = cfd_cooldown_ms inp;
          detail = buildConsecutiveLossDetail inp cooldownMs;
          gate = evaluateConsecutiveLossCooldown (cr_consecutiveLosses inp)
            (cr_maxConsecutiveLosses inp) (cr_lastLossClosedAt inp) cooldownMs (cr_now inp)
      in if \<not> cr_tradingEnabled inp then Inl (C_TRADING_DISABLED, None)
         else if cr_emergencyStop inp then Inl (C_EMERGENCY_STOP, None)
         else if \<not> cr_marketDataFresh inp then Inl (C_MARKET_DATA_STALE, None)
         else if cr_instrument inp = None then Inl (C_INSTRUMENT_METADATA_MISSING, None)
         else if \<not> cr_stopLossPresent inp then Inl (C_STOP_LOSS_REQUIRED, None)
         else if cr_idempotencyKeyExists inp then Inl (C_DUPLICATE_TRADE, None)
         else if cr_equity inp \<le> 0 then Inl (C_ACCOUNT_INVALID, None)
         else if maxConcurrentPositions limits \<le> cr_openPositionCount inp
         then Inl (C_MAX_OPEN_POSITIONS, None)
         else if maxTotalRisk + Fin (1 / 100) < cr_totalOpenRiskAmount inp + proposed_risk limits inp
         then Inl (C_MAX_TOTAL_OPEN_RISK, None)
         else if cr_dailyRealizedLoss inp \<le> - cr_maxDailyLoss inp then Inl (C_DAILY_LOSS_LIMIT, None)
         else if cr_maxDailyTrades inp \<le> cr_dailyTradeCount inp then Inl (C_DAILY_TRADE_LIMIT, None)
         else if cg_blocked gate then
           (if cg_decisionCode gate = Some CooldownActive
            then Inl (C_CONSECUTIVE_LOSS_COOLDOWN,
              Some (detail\<lparr>ld_decisionCode := Some CooldownActive,
                           ld_cooldownRemainingMs := cg_remainingMs gate\<rparr>))
            else Inl (C_CONSECUTIVE_LOSS_LIMIT, Some (detail\<lparr>ld_decisionCode := Some LimitReached\<rparr>)))
         else if (case cr_lastTradeAt inp of None \<Rightarrow> False
                  | Some t \<Rightarrow> 0 < cr_minCooldownSeconds inp \<and>
                      seconds_between (cr_now inp) t < cr_minCooldownSeconds inp)
         then Inl (C_COOLDOWN_ACTIVE, None)
         else if some_and (cr_riskRewardRatio inp) (\<lambda>r. r < minRiskRewardRatio limits)
         then Inl (C_MIN_RISK_REWARD, None)
         else Inr (if cr_maxConsecutiveLosses inp \<le> cr_consecutiveLosses inp
                   then Some detail else None))"

subsection \<open>Properties\<close>

lemma first_rejection_append:
  "first_rejection (es @ fs) =
     (case first_rejection es of Some c \<Rightarrow> Some c | None \<Rightarrow> first_rejection fs)"
  by (induction es rule: first_rejection.induct) auto

lemma first_rejection_push [simp]:
  "first_rejection (push_when c (Fail r m)) = (if c then Some r else None)"
  "first_rejection (push_when c (Note m)) = None"
  by (simp_all add: push_when_def)

lemmas risk_check_defs = risk_entries_def account_checks_def freshness_checks_def limit_checks_def
  balance_checks_def stability_checks_def

lemma approved_entries: "rd_approved (risk_evaluate inp) \<longleftrightarrow> first_rejection (risk_entries inp) = None"
  by (simp add: risk_evaluate_def Let_def)

lemma first_rejection_None:
  "first_rejection (es @ fs) = None \<longleftrightarrow> first_rejection es = None \<and> first_rejection fs = None"
  by (simp add: first_rejection_append split: option.splits)

lemma first_rejection_if [simp]:
  "first_rejection (case x of None \<Rightarrow> a | Some t \<Rightarrow> f t) =
     (case x of None \<Rightarrow> first_rejection a | Some t \<Rightarrow> first_rejection (f t))"
  by (cases x) auto

text \<open>A trade is approved exactly when every check passes: an existing virtual account, an
  enabled strategy, a fresh signal and a fresh market, a signal not executed before, the cooldown
  elapsed, no loss, count, exposure, drawdown or balance limit reached, the session open, no
  emergency stop, execution enabled and a stable connection.  The approved decision carries the
  resolved stake, a rejected one no stake and a code.\<close>

theorem risk_approved_iff:
  "rd_approved (risk_evaluate inp) \<longleftrightarrow>
    ri_accountExists inp \<and> ri_isVirtual inp \<and> ri_strategyEnabled inp \<and>
    \<not> maxSignalAgeSeconds (ri_settings inp) < seconds_between (ri_now inp) (ri_signalTimestamp inp) \<and>
    (\<exists>t. ri_lastTickAt inp = Some t \<and>
       \<not> maxDataAgeSeconds (ri_settings inp) < seconds_between (ri_now inp) t) \<and>
    ri_signalCorrelationId inp \<notin> set (ri_executedSignalIds inp) \<and>
    \<not> some_and (ri_lastTradeAt inp)
        (\<lambda>t. seconds_between (ri_now inp) t < minCooldownSeconds (ri_settings inp)) \<and>
    \<not> ri_dailyPnl inp \<le> - maxDailyLoss (ri_settings inp) \<and>
    \<not> maxDailyTrades (ri_settings inp) \<le> ri_dailyTrades inp \<and>
    \<not> maxConsecutiveLosses (ri_settings inp) \<le> ri_consecutiveLosses inp \<and>
    \<not> maxSimultaneousContracts (ri_settings inp) \<le> ri_openContracts inp \<and>
    \<not> resolved_stake inp \<le> 0 \<and>
    \<not> (0 < ri_peakBalance inp \<and> maxDrawdownPercent (ri_settings inp) \<le> drawdown_percent inp) \<and>
    \<not> ri_balance inp < minBalance (ri_settings inp) \<and>
    (case (sessionStartHourUtc (ri_settings inp), sessionEndHourUtc (ri_settings inp)) of
       (Some a, Some b) \<Rightarrow> in_session a b (utc_hour (ri_now inp)) | _ \<Rightarrow> True) \<and>
    \<not> ri_emergencyStop inp \<and> ri_tradingEnabled inp \<and>
    \<not> MAX_RECENT_API_ERRORS \<le> ri_recentApiErrors inp \<and>
    \<not> MAX_RECENT_DISCONNECTS \<le> ri_recentDisconnects inp"
  unfolding approved_entries risk_check_defs Let_def first_rejection_None
  by (cases "ri_lastTickAt inp"; cases "ri_lastTradeAt inp";
      cases "sessionStartHourUtc (ri_settings inp)"; cases "sessionEndHourUtc (ri_settings inp)")
    auto

lemma stake_positive: "first_rejection (risk_entries inp) = None \<Longrightarrow> \<not> resolved_stake inp \<le> 0"
  by (auto simp: risk_entries_def limit_checks_def Let_def first_rejection_None)

lemma approved_stake:
  assumes "rd_approved (risk_evaluate inp)"
  shows "rd_approvedStake (risk_evaluate inp) = Some (resolved_stake inp)"
    and "\<not> resolved_stake inp \<le> 0"
  using assms stake_positive unfolding approved_entries
  by (simp_all add: risk_evaluate_def Let_def)

text \<open>There is no Martingale: two approved requests with the same settings and the same proposal
  get the same stake whatever the history of wins and losses, and with finite amounts it is positive
  and exceeds neither the proposal, nor the fixed stake, nor the maximum per trade.\<close>

theorem no_martingale:
  assumes "rd_approved (risk_evaluate a)" and "rd_approved (risk_evaluate b)"
    and "ri_settings a = ri_settings b" and "ri_proposedStake a = ri_proposedStake b"
  shows "\<exists>s. rd_approvedStake (risk_evaluate a) = Some s \<and> rd_approvedStake (risk_evaluate b) = Some s \<and>
    (s \<noteq> NaN \<longrightarrow> 0 < s \<and> s \<le> fixedStake (ri_settings a) \<and> s \<le> maxStakePerTrade (ri_settings a) \<and>
       (\<forall>p. ri_proposedStake a = Some p \<longrightarrow> s \<le> p))"
proof -
  let ?s = "ri_settings a"
  let ?i = "js_min (or_default (ri_proposedStake a) (fixedStake ?s)) (fixedStake ?s)"
  have st: "resolved_stake a = js_min ?i (maxStakePerTrade ?s)" "resolved_stake b = resolved_stake a"
    using assms(3,4) by (simp_all add: resolved_stake_def Let_def)
  have "0 < resolved_stake a \<and> resolved_stake a \<le> fixedStake ?s \<and>
      resolved_stake a \<le> maxStakePerTrade ?s \<and> (\<forall>p. ri_proposedStake a = Some p \<longrightarrow> resolved_stake a \<le> p)"
    if nan: "resolved_stake a \<noteq> NaN"
  proof -
    have i: "?i \<noteq> NaN" using nan st(1) by auto
    have "resolved_stake a \<le> ?i" "resolved_stake a \<le> maxStakePerTrade ?s"
      using js_min_le nan st(1) by auto
    moreover have "?i \<le> fixedStake ?s" "?i \<le> or_default (ri_proposedStake a) (fixedStake ?s)"
      using js_min_le [OF i] by auto
    moreover have "0 < resolved_stake a"
      using approved_stake(2) [OF assms(1)] nan by (simp add: js_not_le)
    ultimately show ?thesis by (auto intro: js_le_trans)
  qed
  then show ?thesis
    using approved_stake(1) [OF assms(1)] approved_stake(1) [OF assms(2)] st(2) by auto
qed

definition demo_risk_input :: risk_input where
  "demo_risk_input = \<lparr>ri_settings = DEFAULT_RISK_SETTINGS, ri_accountExists = True,
     ri_isVirtual = True, ri_balance = 1000, ri_strategyId = ''ema'', ri_strategyEnabled = True,
     ri_signalTimestamp = 990000, ri_proposedStake = None, ri_lastTickAt = Some 999000,
     ri_executedSignalIds = [], ri_signalCorrelationId = ''s1'', ri_lastTradeAt = Some 800000,
     ri_dailyPnl = 0, ri_dailyTrades = 1, ri_consecutiveLosses = 0, ri_openContracts = 0,
     ri_peakBalance = 1000, ri_emergencyStop = False, ri_tradingEnabled = True,
     ri_recentApiErrors = 0, ri_recentDisconnects = 0, ri_now = 1000000\<rparr>"

lemma demo_risk_approved:
  "rd_approved (risk_evaluate demo_risk_input)"
  "rd_approved (risk_evaluate (demo_risk_input\<lparr>ri_consecutiveLosses := 2, ri_dailyPnl := -4\<rparr>))"
  unfolding approved_entries risk_check_defs Let_def first_rejection_None
  by (simp_all add: demo_risk_input_def DEFAULT_RISK_SETTINGS_def seconds_between_def
      resolved_stake_def MAX_RECENT_API_ERRORS_def MAX_RECENT_DISCONNECTS_def drawdown_percent_def)

theorem no_martingale_witness:
  "\<exists>s. rd_approvedStake (risk_evaluate demo_risk_input) = Some s \<and>
     rd_approvedStake (risk_evaluate (demo_risk_input\<lparr>ri_consecutiveLosses := 2, ri_dailyPnl := -4\<rparr>)) = Some s"
  using no_martingale [OF demo_risk_approved] by auto

text \<open>The losing position test, and the streak as the longest losing prefix.\<close>

definition is_loss :: "closed_position \<Rightarrow> bool" where
  "is_loss p \<longleftrightarrow> or_default (realizedPnl p) 0 < 0"

fun first_some :: "'a option list \<Rightarrow> 'a option" where
  "first_some [] = None"
| "first_some (Some x # _) = Some x"
| "first_some (None # xs) = first_some xs"

lemma streak_loop_eq:
  "streak_loop n t ps =
     (n + length (takeWhile is_loss ps),
      first_some (t # map closedAt (takeWhile is_loss ps)))"
proof (induction ps arbitrary: n t)
  case Nil
  then show ?case by (cases t) simp_all
next
  case (Cons p ps)
  then show ?case by (cases t) (simp_all add: is_loss_def)
qed

text \<open>The streak is the number of losses before the first position that is not one, newest
  first, and its time is the close time of the newest of them that has one.\<close>

theorem streak_is_losing_prefix:
  "computeConsecutiveLossStreak ps =
     (length (takeWhile is_loss ps), first_some (map closedAt (takeWhile is_loss ps)))"
  by (simp add: computeConsecutiveLossStreak_def streak_loop_eq)

lemma cooldown_gate_window:
  "cg_blocked (evaluateConsecutiveLossCooldown l m t cd now) \<longleftrightarrow>
     \<not> l < m \<and> (case t of None \<Rightarrow> True | Some x \<Rightarrow> Fin (of_int now) < Fin (of_int x) + cd)"
  by (simp add: evaluateConsecutiveLossCooldown_def Let_def split: option.splits)


definition demo_cfd_input :: cfd_risk_input where
  "demo_cfd_input = \<lparr>cr_limits = None, cr_emergencyStop = False, cr_tradingEnabled = True,
     cr_marketDataFresh = True, cr_instrument = Some demo_instrument, cr_equity = 1000,
     cr_openPositionCount = 1, cr_totalOpenRiskAmount = 10, cr_dailyRealizedLoss = -1,
     cr_consecutiveLosses = 3, cr_lastLossClosedAt = Some 1000, cr_lastTradeAt = Some 1000,
     cr_minCooldownSeconds = 120, cr_maxDailyLoss = 5, cr_maxDailyTrades = 10,
     cr_dailyTradeCount = 4, cr_maxConsecutiveLosses = 3, cr_consecutiveLossCooldownMs = None,
     cr_idempotencyKeyExists = False, cr_stopLossPresent = True, cr_riskRewardRatio = Some 2,
     cr_volume = Some 1, cr_now = 3601000\<rparr>"


end
