(* ===== verification/Simulator.thy ===== *)
theory Simulator
  imports CfdMath
begin

text \<open>
  The outcome models of the backtests: the bar simulator for CFD positions
  (\<^verbatim>\<open>packages/trading-engine/src/backtest/cfdSimulator.ts\<close>), the rise/fall contract simulator
  (\<^verbatim>\<open>contractSimulator.ts\<close>), and the weighted vote (\<^verbatim>\<open>ensemble/ensemble.ts\<close>).
\<close>

subsection \<open>The bar simulator\<close>

record cfd_bar =
  bar_open :: jsnum
  bar_high :: jsnum
  bar_low :: jsnum
  bar_close :: jsnum

record sim_input =
  sim_direction :: direction
  sim_entryPrice :: jsnum
  sim_stopLoss :: jsnum
  sim_takeProfit :: "jsnum option"
  sim_volume :: jsnum
  sim_instrument :: instrument
  sim_bars :: "cfd_bar list"
  sim_spreadBps :: jsnum
  sim_slippageBps :: jsnum

datatype close_reason = STOP_LOSS | TAKE_PROFIT | STRATEGY_EXIT

record sim_result =
  sr_exitTriggerPrice :: jsnum
  sr_exitPrice :: jsnum
  sr_closeReason :: close_reason
  sr_barsHeld :: nat
  sr_grossPnl :: jsnum
  sr_netPnl :: jsnum
  sr_initialRiskAmount :: jsnum
  sr_grossR :: "jsnum option"
  sr_netR :: "jsnum option"

text \<open>Whether the stop and the target are hit within a bar.\<close>

definition hitOnBar :: "direction \<Rightarrow> cfd_bar \<Rightarrow> jsnum \<Rightarrow> jsnum option \<Rightarrow> bool \<times> bool" where
  "hitOnBar dir bar stopLoss takeProfit =
     (if dir = BUY
      then (bar_low bar \<le> stopLoss, some_and takeProfit (\<lambda>t. t \<le> bar_high bar))
      else (stopLoss \<le> bar_high bar, some_and takeProfit (\<lambda>t. bar_low bar \<le> t)))"

definition buildResult :: "sim_input \<Rightarrow> jsnum \<Rightarrow> close_reason \<Rightarrow> nat \<Rightarrow> jsnum \<Rightarrow> sim_result" where
  "buildResult inp exitTriggerPrice closeReason barsHeld riskAmount =
     (let exitFill = applyExitFill (sim_direction inp) exitTriggerPrice (sim_spreadBps inp)
            (sim_slippageBps inp);
          grossPnl = floatingPnl (sim_direction inp) (sim_entryPrice inp) exitTriggerPrice
            (sim_volume inp) (sim_instrument inp);
          netPnl = floatingPnl (sim_direction inp) (sim_entryPrice inp) (fillPrice exitFill)
            (sim_volume inp) (sim_instrument inp);
          r = computeRMultiples riskAmount grossPnl netPnl
      in \<lparr>sr_exitTriggerPrice = exitTriggerPrice, sr_exitPrice = fillPrice exitFill,
          sr_closeReason = closeReason, sr_barsHeld = barsHeld, sr_grossPnl = grossPnl,
          sr_netPnl = netPnl, sr_initialRiskAmount = riskAmount,
          sr_grossR = rm_grossR r, sr_netR = rm_netR r\<rparr>)"

text \<open>The loop over the bars; without a bar left the last one of the list closes the position, and an
  empty list of bars raises (the value \<^const>\<open>None\<close>).\<close>

fun sim_loop :: "sim_input \<Rightarrow> jsnum \<Rightarrow> nat \<Rightarrow> cfd_bar list \<Rightarrow> sim_result option" where
  "sim_loop inp riskAmount i [] =
     (if sim_bars inp = [] then None
      else Some (buildResult inp (bar_close (last (sim_bars inp))) STRATEGY_EXIT
        (List.length (sim_bars inp)) riskAmount))"
| "sim_loop inp riskAmount i (bar # bars) =
     (case hitOnBar (sim_direction inp) bar (sim_stopLoss inp) (sim_takeProfit inp) of
        (stopHit, tpHit) \<Rightarrow>
          if stopHit \<and> tpHit
          then Some (buildResult inp (sim_stopLoss inp) STOP_LOSS (i + 1) riskAmount)
          else if stopHit
          then Some (buildResult inp (sim_stopLoss inp) STOP_LOSS (i + 1) riskAmount)
          else if tpHit \<and> sim_takeProfit inp \<noteq> None
          then Some (buildResult inp (the (sim_takeProfit inp)) TAKE_PROFIT (i + 1) riskAmount)
          else sim_loop inp riskAmount (i + 1) bars)"

definition simulate :: "sim_input \<Rightarrow> sim_result option" where
  "simulate inp =
     (let riskAmount = roundMoney (lossAtStopPerUnitVolume (sim_direction inp)
            (sim_entryPrice inp) (sim_stopLoss inp) (sim_instrument inp) * sim_volume inp)
      in sim_loop inp riskAmount 0 (sim_bars inp))"

subsection \<open>The contract simulator\<close>

datatype contract_direction = CALL | PUT
datatype contract_outcome = WIN | LOSS | PUSH

record contract_result =
  ct_outcome :: contract_outcome
  ct_payout :: jsnum
  ct_profit :: jsnum

definition simulateContract ::
  "contract_direction \<Rightarrow> jsnum \<Rightarrow> jsnum \<Rightarrow> jsnum \<Rightarrow> jsnum \<Rightarrow> contract_result option" where
  "simulateContract dir entryPrice exitPrice stake assumedPayoutRatio =
     (if stake \<le> 0 then None
      else
        let outcome =
              (if js_eq exitPrice entryPrice then PUSH
               else if dir = CALL then (if entryPrice < exitPrice then WIN else LOSS)
               else (if exitPrice < entryPrice then WIN else LOSS))
        in if outcome = WIN then
             let profit = multiplyMoney stake assumedPayoutRatio
             in Some \<lparr>ct_outcome = WIN, ct_payout = roundMoney (stake + profit), ct_profit = profit\<rparr>
           else if outcome = PUSH then
             Some \<lparr>ct_outcome = PUSH, ct_payout = roundMoney stake, ct_profit = 0\<rparr>
           else Some \<lparr>ct_outcome = LOSS, ct_payout = 0, ct_profit = subtractMoney 0 stake\<rparr>)"

subsection \<open>The weighted vote\<close>

datatype vote_action = VBUY | VSELL | VHOLD

record ensemble_config =
  dominanceThreshold :: jsnum
  maxDisagreement :: jsnum

definition DEFAULT_ENSEMBLE_CONFIG :: ensemble_config where
  "DEFAULT_ENSEMBLE_CONFIG = \<lparr>dominanceThreshold = Fin (3 / 5), maxDisagreement = Fin (1 / 4)\<rparr>"

record vote_result =
  buyWeight :: jsnum
  sellWeight :: jsnum
  holdWeight :: jsnum
  agreement :: jsnum
  vote :: vote_action

fun count_votes :: "jsnum \<times> jsnum \<times> jsnum \<Rightarrow> (vote_action \<times> jsnum) list \<Rightarrow> jsnum \<times> jsnum \<times> jsnum" where
  "count_votes acc [] = acc"
| "count_votes (buy, sell, hold) ((a, weight) # inputs) =
     (let w = js_max weight 0
      in count_votes
           (if a = VBUY then (buy + w, sell, hold)
            else if a = VSELL then (buy, sell + w, hold) else (buy, sell, hold + w)) inputs)"

definition ensembleVote :: "(vote_action \<times> jsnum) list \<Rightarrow> ensemble_config \<Rightarrow> vote_result" where
  "ensembleVote inputs config =
     (let (buy, sell, hold) = count_votes (0, 0, 0) inputs;
          sum_w = buy + sell + hold
      in if js_eq sum_w 0
         then \<lparr>buyWeight = 0, sellWeight = 0, holdWeight = 1, agreement = 0, vote = VHOLD\<rparr>
         else
           let b = buy / sum_w; s = sell / sum_w; h = hold / sum_w;
               dominant = js_max b s;
               opposing = (if s < b then s else b);
               action =
                 (if dominanceThreshold config \<le> dominant \<and> opposing \<le> maxDisagreement config
                  then (if s < b then VBUY else VSELL) else VHOLD)
           in \<lparr>buyWeight = to_fixed 4 b, sellWeight = to_fixed 4 s, holdWeight = to_fixed 4 h,
               agreement = to_fixed 4 dominant, vote = action\<rparr>)"

subsection \<open>Properties\<close>

lemma pnl_and_loss_sane:
  assumes "sane_instrument inst"
  shows "\<exists>k>0. (\<forall>dir a b v. floatingPnl dir (Fin a) (Fin b) (Fin v) inst =
       Fin (money_rat ((if dir = BUY then b - a else a - b) * k * v))) \<and>
    (\<forall>dir e s. lossAtStopPerUnitVolume dir (Fin e) (Fin s) inst =
       Fin (max 0 (if dir = BUY then e - s else s - e) * k))"
proof -
  obtain ts tv where t: "tickSize inst = Fin ts" "0 < ts" "tickValue inst = Fin tv" "0 < tv"
    using assms by (elim sane_fields)
  have "floatingPnl dir (Fin a) (Fin b) (Fin v) inst =
       Fin (money_rat ((if dir = BUY then b - a else a - b) * (tv / ts) * v))" for dir a b v
    using t by (simp add: floatingPnl_def pnlPerUnitVolume_def)
  moreover have "lossAtStopPerUnitVolume dir (Fin e) (Fin s) inst =
       Fin (max 0 (if dir = BUY then e - s else s - e) * (tv / ts))" for dir e s
    using t by (auto simp: lossAtStopPerUnitVolume_def Let_def max_def)
  moreover have "0 < tv / ts" using t by simp
  ultimately show ?thesis by blast
qed

definition stop_hit :: "sim_input \<Rightarrow> cfd_bar \<Rightarrow> bool" where
  "stop_hit inp bar = fst (hitOnBar (sim_direction inp) bar (sim_stopLoss inp) (sim_takeProfit inp))"

definition target_hit :: "sim_input \<Rightarrow> cfd_bar \<Rightarrow> bool" where
  "target_hit inp bar = snd (hitOnBar (sim_direction inp) bar (sim_stopLoss inp) (sim_takeProfit inp))"

lemma target_hit_some: "target_hit inp bar \<Longrightarrow> sim_takeProfit inp \<noteq> None"
  by (cases "sim_takeProfit inp") (auto simp: target_hit_def hitOnBar_def split: if_splits)

lemma buildResult_fields [simp]:
  "sr_closeReason (buildResult inp p c n r) = c" "sr_exitTriggerPrice (buildResult inp p c n r) = p"
  "sr_barsHeld (buildResult inp p c n r) = n" "sr_initialRiskAmount (buildResult inp p c n r) = r"
  "sr_grossPnl (buildResult inp p c n r) =
     floatingPnl (sim_direction inp) (sim_entryPrice inp) p (sim_volume inp) (sim_instrument inp)"
  by (simp_all add: buildResult_def Let_def)

lemma sim_loop_step:
  "sim_loop inp risk i (bar # bars) =
     (if stop_hit inp bar then Some (buildResult inp (sim_stopLoss inp) STOP_LOSS (i + 1) risk)
      else if target_hit inp bar
      then Some (buildResult inp (the (sim_takeProfit inp)) TAKE_PROFIT (i + 1) risk)
      else sim_loop inp risk (i + 1) bars)"
  using target_hit_some [of inp bar]
  by (auto simp: sim_loop.simps(2) stop_hit_def target_hit_def split: prod.splits)

declare sim_loop.simps(2) [simp del] sim_loop_step [simp]

text \<open>The bars before the first one that hits, and what follows them.\<close>

definition quiet :: "sim_input \<Rightarrow> cfd_bar \<Rightarrow> bool" where
  "quiet inp bar \<longleftrightarrow> \<not> stop_hit inp bar \<and> \<not> target_hit inp bar"

lemma sim_loop_eq:
  "sim_loop inp risk i bars =
     (case dropWhile (quiet inp) bars of
        [] \<Rightarrow> sim_loop inp risk i []
      | bar # _ \<Rightarrow>
          let n = i + length (takeWhile (quiet inp) bars) + 1
          in Some (if stop_hit inp bar then buildResult inp (sim_stopLoss inp) STOP_LOSS n risk
                   else buildResult inp (the (sim_takeProfit inp)) TAKE_PROFIT n risk))"
proof (induction bars arbitrary: i)
  case (Cons bar bars)
  show ?case
  proof (cases "quiet inp bar")
    case True
    then have "sim_loop inp risk i (bar # bars) = sim_loop inp risk (i + 1) bars"
      by (simp add: quiet_def)
    then show ?thesis
      using True Cons.IH [of "i + 1"]
      by (cases "dropWhile (quiet inp) bars") (simp_all add: Let_def del: dropWhile_eq_Nil_conv sim_loop_step)
  next
    case False
    then have "stop_hit inp bar \<or> target_hit inp bar" by (simp add: quiet_def)
    with False show ?thesis by (auto simp: Let_def)
  qed
qed simp

text \<open>The simulated position closes on the first bar whose range touches the stop or the target;
  when that bar touches both, the stop wins; when none does, it closes at the last close.  Only an
  empty list of bars has no outcome.\<close>

theorem simulate_stop_first:
  "case simulate inp of
     None \<Rightarrow> sim_bars inp = []
   | Some r \<Rightarrow> sim_bars inp \<noteq> [] \<and>
       (case dropWhile (quiet inp) (sim_bars inp) of
          [] \<Rightarrow> sr_closeReason r = STRATEGY_EXIT \<and> sr_barsHeld r = length (sim_bars inp) \<and>
            sr_exitTriggerPrice r = bar_close (last (sim_bars inp))
        | bar # _ \<Rightarrow> sr_barsHeld r = length (takeWhile (quiet inp) (sim_bars inp)) + 1 \<and>
            (if stop_hit inp bar
             then sr_closeReason r = STOP_LOSS \<and> sr_exitTriggerPrice r = sim_stopLoss inp
             else sr_closeReason r = TAKE_PROFIT \<and>
               Some (sr_exitTriggerPrice r) = sim_takeProfit inp))"
proof (cases "dropWhile (quiet inp) (sim_bars inp)")
  case Nil
  then show ?thesis unfolding simulate_def Let_def sim_loop_eq [of _ _ _ "sim_bars inp"] Nil by simp
next
  case (Cons bar bars)
  have "\<not> quiet inp bar" using Cons by (metis hd_dropWhile list.sel(1) list.distinct(1))
  then have "\<not> stop_hit inp bar \<Longrightarrow> \<exists>t. sim_takeProfit inp = Some t"
    using target_hit_some by (auto simp: quiet_def)
  moreover have "sim_bars inp \<noteq> []" using Cons by auto
  ultimately show ?thesis
    unfolding simulate_def Let_def sim_loop_eq [of _ _ _ "sim_bars inp"] Cons by (cases "stop_hit inp bar") auto
qed

lemma simulate_stopped:
  assumes "simulate inp = Some r" and "sr_closeReason r = STOP_LOSS"
  obtains n where "r = buildResult inp (sim_stopLoss inp) STOP_LOSS n
    (roundMoney (lossAtStopPerUnitVolume (sim_direction inp) (sim_entryPrice inp)
      (sim_stopLoss inp) (sim_instrument inp) * sim_volume inp))"
proof (cases "dropWhile (quiet inp) (sim_bars inp)")
  case Nil
  then show ?thesis
    using assms unfolding simulate_def Let_def sim_loop_eq [of _ _ _ "sim_bars inp"] Nil
    by (auto split: if_splits)
next
  case (Cons bar bars)
  then show ?thesis
    using assms that unfolding simulate_def Let_def sim_loop_eq [of _ _ _ "sim_bars inp"] Cons
    by (cases "stop_hit inp bar") auto
qed

text \<open>A position stopped out loses its initial risk amount before exit costs, to the cent.\<close>

theorem stopped_out_loses_risk:
  assumes "simulate inp = Some r" and "sr_closeReason r = STOP_LOSS"
    and "sane_instrument (sim_instrument inp)"
    and "sim_entryPrice inp = Fin e" "sim_stopLoss inp = Fin s" "sim_volume inp = Fin v"
    and "if sim_direction inp = BUY then s \<le> e else e \<le> s"
  shows "\<exists>g k. sr_grossPnl r = Fin g \<and> sr_initialRiskAmount r = Fin k \<and> \<bar>g + k\<bar> \<le> 1 / 100"
proof -
  obtain c where
    "\<forall>dir a b w. floatingPnl dir (Fin a) (Fin b) (Fin w) (sim_instrument inp) =
       Fin (money_rat ((if dir = BUY then b - a else a - b) * c * w))"
    "\<forall>dir e s. lossAtStopPerUnitVolume dir (Fin e) (Fin s) (sim_instrument inp) =
       Fin (max 0 (if dir = BUY then e - s else s - e) * c)"
    using pnl_and_loss_sane [OF assms(3)] by (elim exE conjE)
  note pnl = this(1) [rule_format] and loss = this(2) [rule_format]
  define d where "d = (if sim_direction inp = BUY then e - s else s - e) * c * v"
  have k: "roundMoney (lossAtStopPerUnitVolume (sim_direction inp) (Fin e) (Fin s) (sim_instrument inp)
      * Fin v) = Fin (money_rat d)"
    using assms(7) by (simp add: loss d_def max_def split: if_splits)
  have g: "floatingPnl (sim_direction inp) (Fin e) (Fin s) (Fin v) (sim_instrument inp) =
      Fin (money_rat (- d))"
    by (simp add: pnl d_def algebra_simps)
  have "sr_grossPnl r = Fin (money_rat (- d)) \<and> sr_initialRiskAmount r = Fin (money_rat d)"
    using simulate_stopped [OF assms(1,2)] assms(4-6) g k by (metis buildResult_fields(4,5))
  moreover have "\<bar>money_rat (- d) + money_rat d\<bar> \<le> 1 / 100"
    using money_rat_error [of d] money_rat_error [of "- d"] unfolding abs_le_iff by linarith
  ultimately show ?thesis by blast
qed

text \<open>A contract simulation without a positive stake fails; otherwise a win pays the stake and the
  profit, an equal price returns the stake, and a loss costs exactly the stake, all in whole cents.\<close>

theorem contract_outcomes:
  assumes "is_money stake" and "is_finite ratio"
  shows "case simulateContract dir (Fin a) (Fin b) stake ratio of
      None \<Rightarrow> stake \<le> 0
    | Some r \<Rightarrow> 0 < stake \<and> is_money (ct_profit r) \<and> ct_payout r = stake + ct_profit r \<and>
        (case ct_outcome r of
           WIN \<Rightarrow> (case dir of CALL \<Rightarrow> a < b | PUT \<Rightarrow> b < a)
         | PUSH \<Rightarrow> a = b \<and> ct_profit r = 0
         | LOSS \<Rightarrow> (case dir of CALL \<Rightarrow> b < a | PUT \<Rightarrow> a < b) \<and> ct_profit r = - stake)"
proof -
  obtain n where n: "stake = Fin (of_int n / 100)" using assms(1) by (auto simp: is_money_def)
  obtain q where q: "ratio = Fin q" using assms(2) by (auto simp: is_finite_iff)
  define profit where "profit = (of_int (round_half_up (of_int n * q)) / 100 :: rat)"
  have win: "multiplyMoney stake ratio = Fin profit"
    by (simp add: multiplyMoney_def toCents_def fromCents_def n q profit_def)
  have money: "is_money (Fin profit)" unfolding is_money_def profit_def by blast
  then have sum_money: "is_money (stake + Fin profit)" by (rule is_money_add [OF assms(1)])
  have neg: "subtractMoney 0 stake = Fin (- (of_int n / 100))"
    by (simp add: subtractMoney_def toCents_def fromCents_def n round_half_up_def)
  have neg_money: "is_money (Fin (- (of_int n / 100)))"
    unfolding is_money_def by (rule exI [of _ "- n"]) simp
  have zero_money: "is_money (Fin 0)" unfolding is_money_def by (rule exI [of _ 0]) simp
  show ?thesis
    using roundMoney_is_money [OF sum_money] roundMoney_is_money [OF assms(1)] money neg_money zero_money
    by (cases dir) (auto simp: simulateContract_def Let_def n win [unfolded n fin_arith] neg [unfolded n fin_arith])
qed

definition demo_sim :: sim_input where
  "demo_sim = \<lparr>sim_direction = BUY, sim_entryPrice = 100, sim_stopLoss = 98,
     sim_takeProfit = Some 104, sim_volume = 1, sim_instrument = demo_instrument,
     sim_bars = [\<lparr>bar_open = 100, bar_high = 101, bar_low = 99, bar_close = 100\<rparr>,
                 \<lparr>bar_open = 100, bar_high = 105, bar_low = 97, bar_close = 99\<rparr>],
     sim_spreadBps = 0, sim_slippageBps = 0\<rparr>"

lemma demo_sim_stopped:
  "\<exists>r. simulate demo_sim = Some r \<and> sr_closeReason r = STOP_LOSS \<and> sr_barsHeld r = 2"
  by (simp add: simulate_def Let_def demo_sim_def stop_hit_def target_hit_def hitOnBar_def)

theorem stopped_out_loses_risk_witness:
  "\<exists>r g k. simulate demo_sim = Some r \<and> sr_grossPnl r = Fin g \<and> sr_initialRiskAmount r = Fin k \<and>
     \<bar>g + k\<bar> \<le> 1 / 100"
proof -
  obtain r where r: "simulate demo_sim = Some r" "sr_closeReason r = STOP_LOSS"
    using demo_sim_stopped by blast
  have "sane_instrument (sim_instrument demo_sim)" by (simp add: demo_sim_def sane_demo)
  from stopped_out_loses_risk [OF r this, of 100 98 1] r(1) show ?thesis by (simp add: demo_sim_def)
qed

theorem contract_outcomes_witness:
  "\<exists>r. simulateContract PUT (Fin 10) (Fin 9) 1 (Fin (95 / 100)) = Some r \<and> is_money (ct_profit r)"
proof -
  have m: "is_money 1" unfolding is_money_def by (rule exI [of _ 100]) simp
  show ?thesis
    using contract_outcomes [OF m _, where ratio = "Fin (95 / 100)" and dir = PUT and a = 10 and b = 9]
    by (cases "simulateContract PUT (Fin 10) (Fin 9) 1 (Fin (95 / 100))") auto
qed

text \<open>The votes of a side, negative weights counted as zero.\<close>

definition side_weight :: "vote_action \<Rightarrow> (vote_action \<times> rat) list \<Rightarrow> rat" where
  "side_weight a xs = (\<Sum>(b, w)\<leftarrow>xs. if b = a then max w 0 else 0)"

definition as_inputs :: "(vote_action \<times> rat) list \<Rightarrow> (vote_action \<times> jsnum) list" where
  "as_inputs xs = List.map (\<lambda>(a, w). (a, Fin w)) xs"

lemma side_weight_nonneg: "0 \<le> side_weight a xs"
  unfolding side_weight_def by (rule sum_list_nonneg) auto

lemma count_votes_fin:
  "count_votes (Fin b, Fin s, Fin h) (as_inputs xs) =
     (Fin (b + side_weight VBUY xs), Fin (s + side_weight VSELL xs), Fin (h + side_weight VHOLD xs))"
proof (induction xs arbitrary: b s h)
  case (Cons x xs)
  obtain a w where x: "x = (a, w)" by (cases x)
  show ?case
    using Cons.IH by (cases a) (simp_all add: x as_inputs_def side_weight_def algebra_simps)
qed (simp add: as_inputs_def side_weight_def)

text \<open>The vote trades only on dominance: it buys (sells) only when the share of buying (selling)
  weight in all weight, holds included, reaches the dominance threshold, and the other side holds no
  larger share than the allowed disagreement and no more weight than the winner; without any
  positive weight it holds.\<close>

theorem ensemble_trades_on_dominance:
  fixes xs :: "(vote_action \<times> rat) list" and thr dis :: rat
  defines "B \<equiv> side_weight VBUY xs" and "S \<equiv> side_weight VSELL xs" and "H \<equiv> side_weight VHOLD xs"
  defines "r \<equiv> ensembleVote (as_inputs xs) \<lparr>dominanceThreshold = Fin thr, maxDisagreement = Fin dis\<rparr>"
  shows "(vote r = VBUY \<longleftrightarrow> 0 < B + S + H \<and> S < B \<and> thr * (B + S + H) \<le> B \<and> S \<le> dis * (B + S + H)) \<and>
    (vote r = VSELL \<longleftrightarrow> 0 < B + S + H \<and> B \<le> S \<and> thr * (B + S + H) \<le> S \<and> B \<le> dis * (B + S + H))"
proof -
  have nn: "0 \<le> B" "0 \<le> S" "0 \<le> H" unfolding B_def S_def H_def by (simp_all add: side_weight_nonneg)
  have cv: "count_votes (Fin 0, Fin 0, Fin 0) (as_inputs xs) = (Fin B, Fin S, Fin H)"
    using count_votes_fin [of 0 0 0 xs] by (simp add: B_def S_def H_def)
  show ?thesis
  proof (cases "B + S + H = 0")
    case True
    then show ?thesis by (simp add: r_def ensembleVote_def cv Let_def)
  next
    case False
    then have pos: "0 < B + S + H" using nn by simp
    have cmp: "B / (B + S + H) < S / (B + S + H) \<longleftrightarrow> B < S" "S / (B + S + H) < B / (B + S + H) \<longleftrightarrow> S < B"
      "thr \<le> x / (B + S + H) \<longleftrightarrow> thr * (B + S + H) \<le> x" "x / (B + S + H) \<le> dis \<longleftrightarrow> x \<le> dis * (B + S + H)" for x
      using pos by (simp_all add: divide_less_cancel pos_le_divide_eq pos_divide_le_eq)
    have mx: "max (B / (B + S + H)) (S / (B + S + H)) = (if S < B then B else S) / (B + S + H)"
      using cmp by (auto simp: max_def)
    show ?thesis
      using False pos by (auto simp: r_def ensembleVote_def cv Let_def mx cmp)
  qed
qed

end
