(* ===== verification/Candles.thy ===== *)
theory Candles
  imports CfdMath Clock
begin

text \<open>
  Candles: the tick aggregator (\<^verbatim>\<open>packages/trading-engine/src/candles/aggregator.ts\<close>) and the
  integrity checks (\<^verbatim>\<open>candles/candleIntegrity.ts\<close>), over the types of
  \<^verbatim>\<open>packages/shared/src/types/candle.ts\<close>.  The aggregator's callbacks are a log of events.
\<close>

subsection \<open>Candles and ticks\<close>

datatype candle_source = LIVE_TICKS | HISTORY_API | SEED | MT5_HISTORY | MT5_LIVE_TICKS | MT5

record candle =
  c_symbol :: string
  c_interval :: interval
  c_openTime :: int
  c_closeTime :: int
  c_open :: jsnum
  c_high :: jsnum
  c_low :: jsnum
  c_close :: jsnum
  c_tickCount :: nat
  c_isComplete :: bool
  c_source :: candle_source

record tick =
  t_symbol :: string
  t_epochMs :: int
  t_quote :: jsnum

subsection \<open>The aggregator\<close>

record agg_options =
  ao_symbol :: string
  ao_interval :: interval
  ao_pricePrecision :: nat
  ao_source :: "candle_source option"

datatype agg_event = CandleClosed candle | CandleUpdated candle

record aggregator =
  ag_current :: "candle option"
  ag_lastTickEpoch :: int
  ag_gaps :: "(int \<times> int) list"
  ag_log :: "agg_event list"

definition new_aggregator :: aggregator where
  "new_aggregator = \<lparr>ag_current = None, ag_lastTickEpoch = 0, ag_gaps = [], ag_log = []\<rparr>"

definition restore :: "candle option \<Rightarrow> aggregator \<Rightarrow> aggregator" where
  "restore candle ag =
     (case candle of
        None \<Rightarrow> ag\<lparr>ag_current := None\<rparr>
      | Some c \<Rightarrow> ag\<lparr>ag_current := Some c, ag_lastTickEpoch := c_openTime c\<rparr>)"

definition drainGaps :: "aggregator \<Rightarrow> (int \<times> int) list \<times> aggregator" where
  "drainGaps ag = (ag_gaps ag, ag\<lparr>ag_gaps := []\<rparr>)"

definition markCompletedThrough :: "int \<Rightarrow> aggregator \<Rightarrow> aggregator" where
  "markCompletedThrough epochMs ag = ag\<lparr>ag_current := None, ag_lastTickEpoch := epochMs\<rparr>"

definition close_current :: "candle \<Rightarrow> aggregator \<Rightarrow> aggregator" where
  "close_current c ag =
     ag\<lparr>ag_current := None, ag_log := ag_log ag @ [CandleClosed (c\<lparr>c_isComplete := True\<rparr>)]\<rparr>"

definition new_candle :: "agg_options \<Rightarrow> int \<Rightarrow> jsnum \<Rightarrow> candle" where
  "new_candle opts openTime quote =
     \<lparr>c_symbol = ao_symbol opts, c_interval = ao_interval opts, c_openTime = openTime,
      c_closeTime = candleCloseTime openTime (ao_interval opts), c_open = quote, c_high = quote,
      c_low = quote, c_close = quote, c_tickCount = 1, c_isComplete = False,
      c_source = or_default (ao_source opts) LIVE_TICKS\<rparr>"

definition extend_candle :: "candle \<Rightarrow> jsnum \<Rightarrow> candle" where
  "extend_candle c quote =
     c\<lparr>c_high := js_max (c_high c) quote, c_low := js_min (c_low c) quote, c_close := quote,
       c_tickCount := c_tickCount c + 1\<rparr>"

definition processTick :: "agg_options \<Rightarrow> tick \<Rightarrow> aggregator \<Rightarrow> aggregator" where
  "processTick opts t ag =
     (if t_symbol t \<noteq> ao_symbol opts then ag
      else if t_epochMs t \<le> ag_lastTickEpoch ag then ag
      else
        let ag1 = ag\<lparr>ag_lastTickEpoch := t_epochMs t\<rparr>;
            openTime = candleOpenTime (t_epochMs t) (ao_interval opts);
            quote = roundPrice (t_quote t) (ao_pricePrecision opts);
            ag2 = (case ag_current ag1 of
                     None \<Rightarrow> ag1
                   | Some c \<Rightarrow>
                       if c_openTime c < openTime
                       then let ag' = close_current c ag1
                            in if c_closeTime c < openTime
                               then ag'\<lparr>ag_gaps := ag_gaps ag' @ [(c_closeTime c, openTime)]\<rparr>
                               else ag'
                       else ag1);
            c' = (case ag_current ag2 of
                    None \<Rightarrow> new_candle opts openTime quote
                  | Some c \<Rightarrow> extend_candle c quote)
        in ag2\<lparr>ag_current := Some c', ag_log := ag_log ag2 @ [CandleUpdated c']\<rparr>)"

definition flushIfExpired :: "int \<Rightarrow> aggregator \<Rightarrow> aggregator" where
  "flushIfExpired nowMs ag =
     (case ag_current ag of
        None \<Rightarrow> ag
      | Some c \<Rightarrow> if c_closeTime c \<le> nowMs then close_current c ag else ag)"

datatype agg_op =
    OpTick tick | OpFlush int | OpRestore "candle option" | OpMark int | OpDrain

fun agg_step :: "agg_options \<Rightarrow> aggregator \<Rightarrow> agg_op \<Rightarrow> aggregator" where
  "agg_step opts ag (OpTick t) = processTick opts t ag"
| "agg_step opts ag (OpFlush now) = flushIfExpired now ag"
| "agg_step opts ag (OpRestore c) = restore c ag"
| "agg_step opts ag (OpMark e) = markCompletedThrough e ag"
| "agg_step opts ag OpDrain = snd (drainGaps ag)"

fun missing_between :: "nat \<Rightarrow> int \<Rightarrow> int \<Rightarrow> int \<Rightarrow> int list" where
  "missing_between 0 t nxt step = []"
| "missing_between (Suc n) t nxt step =
     (if t < nxt then t # missing_between n (t + step) nxt step else [])"

text \<open>The inner loop of the scan advances by a positive step, so the distance to cover bounds it.\<close>

fun detectMissingBuckets :: "int list \<Rightarrow> interval \<Rightarrow> int list" where
  "detectMissingBuckets (prev # nxt # opens) iv =
     missing_between (nat (nxt - prev)) (prev + intervalMs iv) nxt (intervalMs iv)
     @ detectMissingBuckets (nxt # opens) iv"
| "detectMissingBuckets _ iv = []"

subsection \<open>Candle integrity\<close>

datatype ohlc_code = OK | NON_FINITE | NON_POSITIVE | HIGH_LOW_INVERTED | OPEN_OUTSIDE_RANGE | CLOSE_OUTSIDE_RANGE

datatype continuity_code = CONT_OK | NON_FINITE_CLOSE | CLOSE_JUMP

record ohlc =
  o_open :: jsnum
  o_high :: jsnum
  o_low :: jsnum
  o_close :: jsnum

record price_precision =
  digits :: "jsnum option"
  precisionTickSize :: "jsnum option"

definition floor_nat :: "jsnum \<Rightarrow> nat" where
  "floor_nat x = nat \<lfloor>rat_of x\<rfloor>"

definition resolveTickSize :: "price_precision option \<Rightarrow> jsnum option" where
  "resolveTickSize precision =
     (case precision of
        None \<Rightarrow> None
      | Some p \<Rightarrow>
          if some_and (precisionTickSize p) (\<lambda>t. is_finite t \<and> 0 < t) then precisionTickSize p
          else if some_and (digits p) (\<lambda>d. is_finite d \<and> 0 \<le> d)
          then Some (Fin (1 / 10 ^ floor_nat (the (digits p))))
          else None)"

definition EPSILON :: jsnum where "EPSILON = Fin (1 / 2 ^ 52)"

definition roundToPricePrecision :: "jsnum \<Rightarrow> jsnum \<Rightarrow> jsnum" where
  "roundToPricePrecision v d =
     (if \<not> is_finite v \<or> \<not> is_finite d \<or> d < 0 then v
      else let factor = Fin (10 ^ floor_nat d) in js_round ((v + EPSILON) * factor) / factor)"

text \<open>One repair moves a bound to its new value; the flag records that something changed.\<close>

definition normalizeCandleOhlc :: "ohlc \<Rightarrow> price_precision option \<Rightarrow> ohlc \<times> bool" where
  "normalizeCandleOhlc c precision =
     (let dg = (case precision of None \<Rightarrow> None
                | Some p \<Rightarrow> if some_and (digits p) (\<lambda>d. is_finite d \<and> 0 \<le> d)
                            then map_option js_floor (digits p) else None);
          tick = resolveTickSize precision;
          rnd = (\<lambda>v. case dg of Some d \<Rightarrow> roundToPricePrecision v d | None \<Rightarrow> v);
          op = rnd (o_open c); high = rnd (o_high c); low = rnd (o_low c); cl = rnd (o_close c);
          repaired = (\<not> js_eq op (o_open c) \<or> \<not> js_eq high (o_high c) \<or>
                      \<not> js_eq low (o_low c) \<or> \<not> js_eq cl (o_close c))
      in case tick of
           None \<Rightarrow> (\<lparr>o_open = op, o_high = high, o_low = low, o_close = cl\<rparr>, repaired)
         | Some tk \<Rightarrow>
             if \<not> 0 < tk then (\<lparr>o_open = op, o_high = high, o_low = low, o_close = cl\<rparr>, repaired)
             else
               let bodyHigh = js_max op cl; bodyLow = js_min op cl;
                   eps = tk * Fin (1 / 10 ^ 6);
                   fix_high = (high < bodyHigh \<and> bodyHigh - high \<le> tk + eps);
                   high1 = (if fix_high then bodyHigh else high);
                   fix_low = (bodyLow < low \<and> low - bodyLow \<le> tk + eps);
                   low1 = (if fix_low then bodyLow else low);
                   fix_inv = (high1 < low1 \<and> low1 - high1 \<le> tk + eps);
                   high2 = (if fix_inv then js_max (js_max high1 low1) bodyHigh else high1);
                   low2 = (if fix_inv then js_min (js_min high2 low1) bodyLow else low1)
               in (\<lparr>o_open = op, o_high = high2, o_low = low2, o_close = cl\<rparr>,
                   repaired \<or> fix_high \<or> fix_low \<or> fix_inv))"

definition validateCandleOhlc :: "ohlc \<Rightarrow> ohlc_code" where
  "validateCandleOhlc c =
     (let op = o_open c; high = o_high c; low = o_low c; cl = o_close c
      in if \<not> (\<forall>v\<in>set [op, high, low, cl]. is_finite v) then NON_FINITE
         else if op \<le> 0 \<or> high \<le> 0 \<or> low \<le> 0 \<or> cl \<le> 0 then NON_POSITIVE
         else if high < low then HIGH_LOW_INVERTED
         else let bodyLow = js_min op cl; bodyHigh = js_max op cl
              in if bodyLow < low then OPEN_OUTSIDE_RANGE
                 else if high < bodyHigh then CLOSE_OUTSIDE_RANGE
                 else OK)"

definition DEFAULT_MAX_CANDLE_CLOSE_JUMP_RATIO :: jsnum where
  "DEFAULT_MAX_CANDLE_CLOSE_JUMP_RATIO = Fin (1 / 2)"

definition validateCloseDiscontinuity ::
  "jsnum \<Rightarrow> jsnum \<Rightarrow> jsnum \<Rightarrow> continuity_code \<times> jsnum option" where
  "validateCloseDiscontinuity previousClose nextClose maxCloseJumpRatio =
     (if \<not> is_finite previousClose \<or> \<not> is_finite nextClose \<or> previousClose \<le> 0 \<or> nextClose \<le> 0
      then (NON_FINITE_CLOSE, None)
      else let ratio = js_abs (nextClose - previousClose) / previousClose
           in if maxCloseJumpRatio < ratio then (CLOSE_JUMP, Some ratio) else (CONT_OK, Some ratio))"

text \<open>The first bad step of a series of closes, with its index, code and ratio.\<close>

fun continuity_scan ::
  "nat \<Rightarrow> jsnum list \<Rightarrow> jsnum \<Rightarrow> (nat \<times> continuity_code \<times> jsnum option) option" where
  "continuity_scan i (prev # next_close # closes) maxRatio =
     (case validateCloseDiscontinuity prev next_close maxRatio of
        (CONT_OK, _) \<Rightarrow> continuity_scan (i + 1) (next_close # closes) maxRatio
      | (code, ratio) \<Rightarrow> Some (i, code, ratio))"
| "continuity_scan i _ maxRatio = None"

definition validateCandleSeriesContinuity ::
  "jsnum list \<Rightarrow> jsnum \<Rightarrow> (nat \<times> continuity_code \<times> jsnum option) option" where
  "validateCandleSeriesContinuity closes maxRatio = continuity_scan 1 closes maxRatio"

subsection \<open>What the aggregator computes\<close>

text \<open>The ticks it accepts: of its symbol, each strictly later than the one before.\<close>

fun accepted :: "string \<Rightarrow> int \<Rightarrow> tick list \<Rightarrow> tick list" where
  "accepted smb lastEpoch [] = []"
| "accepted smb lastEpoch (t # ts) =
     (if t_symbol t = smb \<and> lastEpoch < t_epochMs t then t # accepted smb (t_epochMs t) ts
      else accepted smb lastEpoch ts)"

definition bucket :: "agg_options \<Rightarrow> tick \<Rightarrow> int" where
  "bucket opts t = candleOpenTime (t_epochMs t) (ao_interval opts)"

definition price :: "agg_options \<Rightarrow> tick \<Rightarrow> jsnum" where
  "price opts t = roundPrice (t_quote t) (ao_pricePrecision opts)"

text \<open>The candle of a non-empty list of ticks of one bucket.\<close>

definition summary :: "agg_options \<Rightarrow> tick list \<Rightarrow> candle" where
  "summary opts ts =
     \<lparr>c_symbol = ao_symbol opts, c_interval = ao_interval opts, c_openTime = bucket opts (hd ts),
      c_closeTime = bucket opts (hd ts) + intervalMs (ao_interval opts),
      c_open = price opts (hd ts),
      c_high = foldl js_max (price opts (hd ts)) (List.map (price opts) (tl ts)),
      c_low = foldl js_min (price opts (hd ts)) (List.map (price opts) (tl ts)),
      c_close = price opts (last ts), c_tickCount = length ts, c_isComplete = False,
      c_source = or_default (ao_source opts) LIVE_TICKS\<rparr>"

definition buckets :: "agg_options \<Rightarrow> tick list \<Rightarrow> int list" where
  "buckets opts ts = remdups_adj (List.map (bucket opts) ts)"

definition candles_of :: "agg_options \<Rightarrow> tick list \<Rightarrow> candle list" where
  "candles_of opts ts =
     List.map (\<lambda>b. summary opts (filter (\<lambda>t. bucket opts t = b) ts)) (buckets opts ts)"

fun gaps_of :: "int \<Rightarrow> int list \<Rightarrow> (int \<times> int) list" where
  "gaps_of ms (b # b' # bs) = (if b + ms < b' then [(b + ms, b')] else []) @ gaps_of ms (b' # bs)"
| "gaps_of ms _ = []"

fun closed_candles :: "agg_event list \<Rightarrow> candle list" where
  "closed_candles [] = []"
| "closed_candles (CandleClosed c # es) = c # closed_candles es"
| "closed_candles (CandleUpdated c # es) = closed_candles es"

definition complete :: "candle \<Rightarrow> candle" where "complete c = c\<lparr>c_isComplete := True\<rparr>"

lemma closed_candles_append [simp]: "closed_candles (xs @ ys) = closed_candles xs @ closed_candles ys"
  by (induction xs rule: closed_candles.induct) auto

lemma summary_single: "summary opts [t] = new_candle opts (bucket opts t) (price opts t)"
  by (simp add: summary_def new_candle_def candleCloseTime_ms)

lemma summary_snoc:
  "ts \<noteq> [] \<Longrightarrow> summary opts (ts @ [t]) = extend_candle (summary opts ts) (price opts t)"
  by (simp add: summary_def extend_candle_def)

lemma summary_times [simp]:
  "c_openTime (summary opts ts) = bucket opts (hd ts)"
  "c_closeTime (summary opts ts) = bucket opts (hd ts) + intervalMs (ao_interval opts)"
  by (simp_all add: summary_def)

lemma remdups_adj_snoc:
  "remdups_adj (xs @ [x]) = remdups_adj xs @ (if xs \<noteq> [] \<and> last xs = x then [] else [x])"
  by (induction xs rule: remdups_adj.induct) auto

lemma gaps_of_snoc:
  "bs \<noteq> [] \<Longrightarrow> gaps_of ms (bs @ [b]) =
     gaps_of ms bs @ (if last bs + ms < b then [(last bs + ms, b)] else [])"
  by (induction ms bs rule: gaps_of.induct) auto

lemma last_buckets: "ts \<noteq> [] \<Longrightarrow> last (buckets opts ts) = bucket opts (last ts)"
  by (simp add: buckets_def last_map)

lemma buckets_nonempty [simp]: "buckets opts ts = [] \<longleftrightarrow> ts = []"
  by (simp add: buckets_def)

lemma buckets_snoc:
  "buckets opts (ts @ [t]) =
     buckets opts ts @ (if ts \<noteq> [] \<and> bucket opts (last ts) = bucket opts t then [] else [bucket opts t])"
  by (cases "ts = []") (simp_all add: buckets_def remdups_adj_snoc last_map)

definition in_order :: "tick list \<Rightarrow> bool" where
  "in_order ts \<longleftrightarrow> sorted_wrt (<) (List.map t_epochMs ts)"

lemma in_order_snoc:
  "in_order (ts @ [t]) \<longleftrightarrow> in_order ts \<and> (ts \<noteq> [] \<longrightarrow> t_epochMs (last ts) < t_epochMs t)"
proof (cases ts rule: rev_cases)
  case (snoc us u)
  then show ?thesis by (force simp: in_order_def sorted_wrt_append)
qed (simp add: in_order_def)

lemma in_order_bucket_le:
  assumes "in_order ts" and "t \<in> set ts"
  shows "bucket opts t \<le> bucket opts (last ts)"
proof (cases ts rule: rev_cases)
  case (snoc us u)
  then have "t_epochMs t \<le> t_epochMs (last ts)"
    using assms by (force simp: in_order_def sorted_wrt_append)
  then show ?thesis by (simp add: bucket_def candleOpenTime_mono)
qed (use assms in simp)

text \<open>The bucket list of ordered ticks has no repetition, so only its last candle is still open.\<close>

lemma buckets_below_last:
  assumes "in_order ts" and "ts \<noteq> []" and "b \<in> set (butlast (buckets opts ts))"
  shows "b < bucket opts (last ts)"
  using assms
proof (induction ts arbitrary: b rule: rev_induct)
  case (snoc t ts)
  show ?case
  proof (cases "ts = []")
    case False
    have ord: "in_order ts" using snoc.prems(1) by (simp add: in_order_snoc)
    have le: "bucket opts (last ts) \<le> bucket opts t"
      using in_order_bucket_le [OF snoc.prems(1), of "last ts"] False by simp
    have ih: "b < bucket opts (last ts)" if "b \<in> set (butlast (buckets opts ts))" for b
      using snoc.IH [OF ord False] that by simp
    show ?thesis
    proof (cases "bucket opts (last ts) = bucket opts t")
      case True
      then show ?thesis using snoc.prems(3) ih False by (simp add: buckets_snoc)
    next
      case neq: False
      have "set (buckets opts ts) \<subseteq> insert (last (buckets opts ts)) (set (butlast (buckets opts ts)))"
        using False by (metis append_butlast_last_id buckets_nonempty set_append list.set(1,2) insert_is_Un sup_commute order_refl)
      then show ?thesis
        using snoc.prems(3) ih le neq False by (fastforce simp: buckets_snoc last_buckets)
    qed
  qed (use snoc.prems in \<open>simp add: buckets_def\<close>)
qed simp

lemma hd_filter_bucket: "filter (\<lambda>t. bucket opts t = b) ts \<noteq> [] \<Longrightarrow>
    bucket opts (hd (filter (\<lambda>t. bucket opts t = b) ts)) = b"
  using hd_in_set [of "filter (\<lambda>t. bucket opts t = b) ts"] by simp

definition tracks :: "agg_options \<Rightarrow> tick list \<Rightarrow> aggregator \<Rightarrow> bool" where
  "tracks opts ts ag \<longleftrightarrow> in_order ts \<and>
     ag_lastTickEpoch ag = (if ts = [] then 0 else t_epochMs (last ts)) \<and>
     ag_current ag = (if ts = [] then None else Some (last (candles_of opts ts))) \<and>
     closed_candles (ag_log ag) = List.map complete (butlast (candles_of opts ts)) \<and>
     ag_gaps ag = gaps_of (intervalMs (ao_interval opts)) (buckets opts ts)"

lemma candles_of_snoc_same:
  assumes "ts \<noteq> []" and "in_order (ts @ [t])" and "bucket opts (last ts) = bucket opts t"
  shows "butlast (candles_of opts (ts @ [t])) = butlast (candles_of opts ts)"
    and "last (candles_of opts (ts @ [t])) = extend_candle (last (candles_of opts ts)) (price opts t)"
proof -
  have ord: "in_order ts" using assms(2) by (simp add: in_order_snoc)
  have old: "filter (\<lambda>u. bucket opts u = b) (ts @ [t]) = filter (\<lambda>u. bucket opts u = b) ts"
    if "b \<in> set (butlast (buckets opts ts))" for b
    using buckets_below_last [OF ord assms(1) that] assms(3) by simp
  show "butlast (candles_of opts (ts @ [t])) = butlast (candles_of opts ts)"
    using assms(1,3) old by (simp add: candles_of_def buckets_snoc flip: map_butlast)
  have ne: "filter (\<lambda>u. bucket opts u = bucket opts t) ts \<noteq> []"
    using assms(1,3) last_in_set [OF assms(1)] by (auto simp: filter_empty_conv)
  show "last (candles_of opts (ts @ [t])) = extend_candle (last (candles_of opts ts)) (price opts t)"
    using assms(1,3) by (simp add: candles_of_def buckets_snoc last_map last_buckets summary_snoc [OF ne])
qed

lemma candles_of_snoc_new:
  assumes "ts \<noteq> []" and "in_order (ts @ [t])" and "bucket opts (last ts) < bucket opts t"
  shows "candles_of opts (ts @ [t]) =
    candles_of opts ts @ [new_candle opts (bucket opts t) (price opts t)]"
proof -
  have ord: "in_order ts" using assms(2) by (simp add: in_order_snoc)
  have below: "bucket opts u < bucket opts t" if "u \<in> set ts" for u
    using in_order_bucket_le [OF ord that, of opts] assms(3) by simp
  have none: "filter (\<lambda>u. bucket opts u = bucket opts t) ts = []"
    unfolding filter_empty_conv using below by (metis less_irrefl)
  have "filter (\<lambda>u. bucket opts u = b) (ts @ [t]) = filter (\<lambda>u. bucket opts u = b) ts"
    if b: "b \<in> set (buckets opts ts)" for b
  proof -
    obtain u where "u \<in> set ts" "b = bucket opts u" using b by (auto simp: buckets_def)
    then show ?thesis using below [of u] by simp
  qed
  then show ?thesis
    using assms(1,3) none by (simp add: candles_of_def buckets_snoc summary_single)
qed

lemma candles_of_Nil [simp]: "candles_of opts [] = []"
  by (simp add: candles_of_def buckets_def)

lemma candles_of_first: "candles_of opts [t] = [new_candle opts (bucket opts t) (price opts t)]"
  by (simp add: candles_of_def buckets_def summary_single)

lemma last_candle_open:
  "ts \<noteq> [] \<Longrightarrow> c_openTime (last (candles_of opts ts)) = bucket opts (last ts)"
proof -
  assume ne: "ts \<noteq> []"
  have "filter (\<lambda>u. bucket opts u = bucket opts (last ts)) ts \<noteq> []"
    using last_in_set [OF ne] by (auto simp: filter_empty_conv)
  then show ?thesis
    using ne hd_filter_bucket [of opts "bucket opts (last ts)" ts]
    by (simp add: candles_of_def last_map last_buckets)
qed

lemma last_candle_close:
  assumes "ts \<noteq> []"
  shows "c_closeTime (last (candles_of opts ts)) = bucket opts (last ts) + intervalMs (ao_interval opts)"
proof -
  have "c_closeTime (last (candles_of opts ts)) =
      c_openTime (last (candles_of opts ts)) + intervalMs (ao_interval opts)"
    using assms by (simp add: candles_of_def last_map)
  then show ?thesis using last_candle_open [OF assms] by simp
qed

lemma candles_of_nonempty [simp]: "candles_of opts ts = [] \<longleftrightarrow> ts = []"
  by (simp add: candles_of_def)

lemma tracks_tick:
  assumes "tracks opts ts ag" and "t_symbol t = ao_symbol opts" and "ag_lastTickEpoch ag < t_epochMs t"
  shows "tracks opts (ts @ [t]) (processTick opts t ag)"
proof (cases "ts = []")
  case True
  then show ?thesis
    using assms by (simp add: tracks_def processTick_def Let_def candles_of_first in_order_def
        bucket_def price_def buckets_def)
next
  case ne: False
  let ?b = "bucket opts t" and ?lb = "bucket opts (last ts)"
  have ord: "in_order (ts @ [t])"
    using assms(1,3) ne by (simp add: tracks_def in_order_snoc)
  have le: "?lb \<le> ?b" using in_order_bucket_le [OF ord, of "last ts"] ne by simp
  have bt: "candleOpenTime (t_epochMs t) (ao_interval opts) = ?b"
    "roundPrice (t_quote t) (ao_pricePrecision opts) = price opts t"
    by (simp_all add: bucket_def price_def)
  note step = processTick_def bt Let_def close_current_def last_candle_open [OF ne] last_candle_close [OF ne]
  show ?thesis
  proof (cases "?lb = ?b")
    case True
    then show ?thesis
      using assms ord ne candles_of_snoc_same [OF ne ord True]
      by (simp add: tracks_def step buckets_snoc)
  next
    case False
    with le have less: "?lb < ?b" by simp
    have bl: "List.map complete (candles_of opts ts) =
        List.map complete (butlast (candles_of opts ts)) @ [complete (last (candles_of opts ts))]"
      using ne by (metis append_butlast_last_id candles_of_nonempty list.simps(8,9) map_append)
    show ?thesis
      using assms ord ne less candles_of_snoc_new [OF ne ord less] bl
      by (auto simp: tracks_def step buckets_snoc complete_def gaps_of_snoc last_buckets)
  qed
qed

lemma tracks_run:
  assumes "tracks opts ts ag"
  shows "tracks opts (ts @ accepted (ao_symbol opts) (ag_lastTickEpoch ag) us)
    (run (agg_step opts) ag (List.map OpTick us))"
  using assms
proof (induction us arbitrary: ts ag)
  case (Cons u us)
  show ?case
  proof (cases "t_symbol u = ao_symbol opts \<and> ag_lastTickEpoch ag < t_epochMs u")
    case True
    have tr: "tracks opts (ts @ [u]) (processTick opts u ag)"
      using tracks_tick [OF Cons.prems] True by blast
    have "ag_lastTickEpoch (processTick opts u ag) = t_epochMs u"
      using tr by (simp add: tracks_def)
    then show ?thesis using Cons.IH [OF tr] True by simp
  next
    case False
    then have "processTick opts u ag = ag" by (auto simp: processTick_def)
    then show ?thesis using Cons.IH [OF Cons.prems] False by auto
  qed
qed simp

text \<open>C33: fed with any sequence of ticks, a fresh aggregator accepts exactly the ticks of its symbol
  that are strictly later than all accepted before, emits one completed candle per distinct bucket in
  order (all but the last bucket, which stays open), each the open, high, low, close and count of the
  accepted ticks of that bucket, and reports exactly the jumps over empty buckets as gaps.\<close>

theorem aggregator_is_bucket_summary:
  fixes opts :: agg_options and us :: "tick list"
  defines "ag \<equiv> run (agg_step opts) new_aggregator (List.map OpTick us)"
    and "acc \<equiv> accepted (ao_symbol opts) 0 us"
  shows "closed_candles (ag_log (ag)) = List.map complete (butlast (candles_of opts (acc))) \<and>
    ag_current (ag) = (if acc = [] then None else Some (last (candles_of opts (acc)))) \<and>
    ag_gaps (ag) = gaps_of (intervalMs (ao_interval opts)) (buckets opts (acc))"
proof -
  have "tracks opts [] new_aggregator"
    by (simp add: tracks_def new_aggregator_def in_order_def candles_of_def buckets_def)
  from tracks_run [OF this, of us] show ?thesis
    by (simp add: tracks_def new_aggregator_def ag_def acc_def)
qed

subsection \<open>The live session's use of it\<close>

text \<open>A live session feeds ticks and flushes on a timer.\<close>

fun live_step :: "agg_options \<Rightarrow> aggregator \<Rightarrow> tick + int \<Rightarrow> aggregator" where
  "live_step opts ag (Inl t) = processTick opts t ag"
| "live_step opts ag (Inr now) = flushIfExpired now ag"

definition wf_candle :: "agg_options \<Rightarrow> candle \<Rightarrow> bool" where
  "wf_candle opts c \<longleftrightarrow> c_symbol c = ao_symbol opts \<and> c_interval c = ao_interval opts \<and>
     intervalMs (ao_interval opts) dvd c_openTime c \<and>
     c_closeTime c = c_openTime c + intervalMs (ao_interval opts) \<and> 0 < c_tickCount c"

definition agg_inv :: "agg_options \<Rightarrow> aggregator \<Rightarrow> bool" where
  "agg_inv opts ag \<longleftrightarrow>
     (\<forall>c\<in>set (closed_candles (ag_log ag)). wf_candle opts c \<and> c_isComplete c \<and>
        c_openTime c \<le> candleOpenTime (ag_lastTickEpoch ag) (ao_interval opts)) \<and>
     sorted (List.map c_openTime (closed_candles (ag_log ag))) \<and>
     (\<forall>c. ag_current ag = Some c \<longrightarrow> wf_candle opts c \<and> \<not> c_isComplete c \<and>
        c_openTime c = candleOpenTime (ag_lastTickEpoch ag) (ao_interval opts))"

lemma wf_new_candle: "intervalMs (ao_interval opts) dvd o' \<Longrightarrow> wf_candle opts (new_candle opts o' q)"
  by (simp add: wf_candle_def new_candle_def candleCloseTime_ms)

lemma wf_extend_candle: "wf_candle opts c \<Longrightarrow> wf_candle opts (extend_candle c q)"
  by (simp add: wf_candle_def extend_candle_def)

lemma agg_inv_close:
  assumes "agg_inv opts ag" and "ag_current ag = Some c"
  shows "agg_inv opts (close_current c ag)"
  using assms by (auto simp: agg_inv_def close_current_def sorted_append wf_candle_def)

lemma agg_inv_tick:
  assumes "agg_inv opts ag"
  shows "agg_inv opts (processTick opts t ag)"
proof (cases "t_symbol t = ao_symbol opts \<and> ag_lastTickEpoch ag < t_epochMs t")
  case True
  let ?o = "candleOpenTime (t_epochMs t) (ao_interval opts)"
  have mono: "candleOpenTime (ag_lastTickEpoch ag) (ao_interval opts) \<le> ?o"
    using True by (simp add: candleOpenTime_mono)
  have fresh: "wf_candle opts (new_candle opts ?o q)" "\<not> c_isComplete (new_candle opts ?o q)"
    "c_openTime (new_candle opts ?o q) = ?o" for q
    by (simp_all add: wf_new_candle) (simp_all add: new_candle_def)
  have ext: "c_openTime (extend_candle c q) = c_openTime c"
    "c_isComplete (extend_candle c q) = c_isComplete c" for c q
    by (simp_all add: extend_candle_def)
  show ?thesis
  proof (cases "ag_current ag")
    case None
    then show ?thesis
      using assms True mono fresh by (auto simp: processTick_def Let_def agg_inv_def dest: order_trans)
  next
    case (Some c)
    show ?thesis
    proof (cases "c_openTime c < ?o")
      case less: True
      have "agg_inv opts (close_current c ag)" using agg_inv_close [OF assms Some] .
      then show ?thesis
        using True Some less mono fresh
        by (auto simp: processTick_def Let_def agg_inv_def close_current_def dest: order_trans)
    next
      case False
      then have "c_openTime c = ?o" using assms Some mono by (auto simp: agg_inv_def)
      then show ?thesis
        using assms True Some mono
        by (auto simp: processTick_def Let_def agg_inv_def ext wf_extend_candle dest: order_trans)
    qed
  qed
qed (use assms in \<open>auto simp: processTick_def\<close>)

interpretation agg: invariant_machine "live_step opts" "\<lambda>ag. ag = new_aggregator" "agg_inv opts" for opts
proof
  show "agg_inv opts ag" if "ag = new_aggregator" for ag
    using that by (simp add: agg_inv_def new_aggregator_def)
  show "agg_inv opts (live_step opts ag x)" if "agg_inv opts ag" for ag x
    using that agg_inv_tick agg_inv_close
    by (cases x) (auto simp: flushIfExpired_def split: option.splits)
qed

text \<open>Whatever the ticks and the timer flushes of a live session, each candle it emits is complete,
  aligned to its interval, non-empty and of its symbol, and they are emitted in the order of their
  open times.\<close>

theorem live_candles_in_order:
  fixes opts xs
  defines "cs \<equiv> closed_candles (ag_log (run (live_step opts) new_aggregator xs))"
  shows "(\<forall>c\<in>set cs. wf_candle opts c \<and> c_isComplete c) \<and> sorted (List.map c_openTime cs)"
  using agg.inv_run [of new_aggregator opts xs] unfolding cs_def agg_inv_def by blast

definition demo_agg :: agg_options where
  "demo_agg = \<lparr>ao_symbol = ''R_10'', ao_interval = M1, ao_pricePrecision = 2, ao_source = None\<rparr>"

theorem live_candles_in_order_witness:
  "let cs = closed_candles (ag_log (run (live_step demo_agg) new_aggregator
       [Inl \<lparr>t_symbol = ''R_10'', t_epochMs = 60000, t_quote = 10\<rparr>, Inr 120000]))
   in length cs = 1 \<and> wf_candle demo_agg (hd cs) \<and> sorted (List.map c_openTime cs)"
proof -
  let ?xs = "[Inl \<lparr>t_symbol = ''R_10'', t_epochMs = 60000, t_quote = 10\<rparr>, Inr 120000]"
  let ?cs = "closed_candles (ag_log (run (live_step demo_agg) new_aggregator ?xs))"
  have len: "length ?cs = 1"
    by (simp add: demo_agg_def new_aggregator_def processTick_def Let_def candleOpenTime_def
        new_candle_def candleCloseTime_def close_current_def flushIfExpired_def)
  then have "hd ?cs \<in> set ?cs" by (intro hd_in_set) auto
  with len live_candles_in_order [of demo_agg ?xs] show ?thesis unfolding Let_def by blast
qed

text \<open>The order is not strict: a tick that arrives after the timer flushed its bucket reopens the
  bucket, and a second completed candle with the same open time is emitted.\<close>

theorem late_tick_reopens_bucket:
  defines "tk e q \<equiv> \<lparr>t_symbol = ''R_10'', t_epochMs = e, t_quote = q\<rparr>"
  shows "List.map (\<lambda>c. (c_openTime c, c_close c))
      (closed_candles (ag_log (run (live_step demo_agg) new_aggregator
        [Inl (tk 60000 10), Inl (tk 119000 11), Inr 120000, Inl (tk 119900 12), Inl (tk 121000 13)])))
    = [(60000, 11), (60000, 12)]"
  by (simp add: tk_def demo_agg_def new_aggregator_def processTick_def Let_def candleOpenTime_def
      new_candle_def candleCloseTime_def extend_candle_def close_current_def flushIfExpired_def
      roundPrice_def round_half_up_def)

subsection \<open>Repair and validation\<close>

text \<open>Repair and validation agree: positive finite prices whose range misses the body by at most
  one tick on either side are repaired into a candle that passes validation with the same open and
  close, and a candle that is already valid is not changed.\<close>

theorem normalize_repairs_one_tick:
  assumes "resolveTickSize (Some pr) = Some (Fin tk)" and "0 < tk" and "digits pr = None"
    and "c = \<lparr>o_open = Fin op, o_high = Fin hi, o_low = Fin lo, o_close = Fin cl\<rparr>"
    and "0 < op" "0 < cl" "0 < hi" "0 < lo"
    and "max op cl - hi \<le> tk" and "lo - min op cl \<le> tk"
  shows "validateCandleOhlc (fst (normalizeCandleOhlc c (Some pr))) = OK \<and>
    o_open (fst (normalizeCandleOhlc c (Some pr))) = Fin op \<and>
    o_close (fst (normalizeCandleOhlc c (Some pr))) = Fin cl \<and>
    (validateCandleOhlc c = OK \<longrightarrow> normalizeCandleOhlc c (Some pr) = (c, False))"
proof -
  define mh where "mh = max op cl"
  define ml where "ml = min op cl"
  have m: "ml \<le> mh" "mh - hi \<le> tk + tk / 1000000" "lo - ml \<le> tk + tk / 1000000"
    using assms(2,9,10) by (auto simp: mh_def ml_def)
  note body = mh_def [symmetric] ml_def [symmetric]
  have norm: "normalizeCandleOhlc c (Some pr) =
      (c\<lparr>o_high := Fin (max hi mh), o_low := Fin (min lo ml)\<rparr>, hi < mh \<or> ml < lo)"
    using assms(2) m
    by (cases "hi < mh"; cases "ml < lo")
      (simp_all add: normalizeCandleOhlc_def assms(1,3,4) Let_def body max_absorb1 max_absorb2
        min_absorb1 min_absorb2)
  show ?thesis
    unfolding norm using assms(5-8)
    by (auto simp: assms(4) validateCandleOhlc_def Let_def mh_def ml_def max_def min_def split: if_splits)
qed

theorem normalize_repairs_one_tick_witness:
  "validateCandleOhlc (fst (normalizeCandleOhlc
     \<lparr>o_open = 10, o_high = Fin (1005 / 100), o_low = Fin (99 / 10), o_close = Fin (1006 / 100)\<rparr>
     (Some \<lparr>digits = None, precisionTickSize = Some (Fin (1 / 100))\<rparr>))) = OK"
proof -
  have "resolveTickSize (Some \<lparr>digits = None, precisionTickSize = Some (Fin (1 / 100))\<rparr>) = Some (Fin (1 / 100))"
    by (simp add: resolveTickSize_def)
  from normalize_repairs_one_tick [OF this _ _ refl, of 10 "1006 / 100" "1005 / 100" "99 / 10"]
  show ?thesis by simp
qed

end
