(* ===== verification/Research.thy ===== *)
theory Research
  imports Candles "HOL-Library.Sublist"
begin

text \<open>
  The guards of the research pipeline against look-ahead and leakage: walk-forward windows
  (\<^verbatim>\<open>packages/trading-engine/src/optimize/walkForward.ts\<close>), the holdout split
  (\<^verbatim>\<open>research/holdoutSplit.ts\<close>), the leakage assertions (\<^verbatim>\<open>research/leakageGuards.ts\<close>), the
  continuous segments (\<^verbatim>\<open>research/gapSegments.ts\<close>), and the as-of resampling
  (\<^verbatim>\<open>strategies/mtfResampleAsOf.ts\<close>, \<^verbatim>\<open>research/researchCandleInterval.ts\<close>).
  A loop whose step comes from the configuration is a partial function: \<^const>\<open>None\<close> is a call that
  does not return.
\<close>

subsection \<open>Walk-forward windows\<close>

datatype window_mode = Rolling | Anchored

record wf_config =
  trainWindow :: int
  testWindow :: int
  stepSize :: int
  windowMode :: "window_mode option"
  maxWindows :: "int option"
  minValidationCandles :: "int option"

record wf_window =
  trainStart :: int
  trainEnd :: int
  testStart :: int
  testEnd :: int

partial_function (option) anchored_windows :: "int \<Rightarrow> wf_config \<Rightarrow> int \<Rightarrow> wf_window list option" where
  "anchored_windows n cfg ts =
     (if ts + testWindow cfg \<le> n
      then Option.bind (anchored_windows n cfg (ts + stepSize cfg))
        (\<lambda>ws. Some (\<lparr>trainStart = 0, trainEnd = ts, testStart = ts,
                       testEnd = ts + testWindow cfg\<rparr> # ws))
      else Some [])"

partial_function (option) rolling_windows :: "int \<Rightarrow> wf_config \<Rightarrow> int \<Rightarrow> wf_window list option" where
  "rolling_windows n cfg st =
     (if st + trainWindow cfg + testWindow cfg \<le> n
      then Option.bind (rolling_windows n cfg (st + stepSize cfg))
        (\<lambda>ws. Some (\<lparr>trainStart = st, trainEnd = st + trainWindow cfg,
                       testStart = st + trainWindow cfg,
                       testEnd = st + trainWindow cfg + testWindow cfg\<rparr> # ws))
      else Some [])"

definition generateWalkForwardWindows :: "int \<Rightarrow> wf_config \<Rightarrow> wf_window list option" where
  "generateWalkForwardWindows totalCandles cfg =
     Option.bind
       (if or_default (windowMode cfg) Rolling = Anchored
        then anchored_windows totalCandles cfg (trainWindow cfg)
        else rolling_windows totalCandles cfg 0)
       (\<lambda>windows.
          let minVal = or_default (minValidationCandles cfg) 0;
              filtered = (if 0 < minVal
                          then filter (\<lambda>w. minVal \<le> testEnd w - testStart w) windows else windows)
          in Some (case maxWindows cfg of
                     None \<Rightarrow> filtered
                   | Some m \<Rightarrow> if 0 < m then take (nat m) filtered else filtered))"

subsection \<open>The holdout split and the leakage guards\<close>

record holdout_split =
  development :: "candle list"
  holdout :: "candle list"
  developmentStartIndex :: int
  holdoutStartIndex :: jsnum
  holdoutPercent :: jsnum

definition count_num :: "'a list \<Rightarrow> jsnum" where "count_num xs = Fin (of_nat (length xs))"

definition splitHoldout :: "candle list \<Rightarrow> jsnum \<Rightarrow> holdout_split" where
  "splitHoldout candles percent =
     (if percent \<le> 0 \<or> 1 \<le> percent
      then \<lparr>development = candles, holdout = [], developmentStartIndex = 0,
            holdoutStartIndex = count_num candles, holdoutPercent = percent\<rparr>
      else let idx = js_floor (count_num candles * (1 - percent))
           in \<lparr>development = take (floor_nat idx) candles, holdout = drop (floor_nat idx) candles,
               developmentStartIndex = 0, holdoutStartIndex = idx, holdoutPercent = percent\<rparr>)"

definition generateDevelopmentWalkForwardWindows :: "int \<Rightarrow> wf_config \<Rightarrow> wf_window list option" where
  "generateDevelopmentWalkForwardWindows n cfg = generateWalkForwardWindows n cfg"

text \<open>An assertion returns the error it throws, if any.\<close>

datatype leak_error =
    TestEndExceeds int int | WindowOverlapsHoldout int | HoldoutLeakage int int
  | TrainOverlapsTest int int | OptimizerInHoldout int | NotFrozen

definition assertWindowWithinDevelopment :: "wf_window \<Rightarrow> int \<Rightarrow> int \<Rightarrow> leak_error option" where
  "assertWindowWithinDevelopment w developmentCandleCount holdoutStart =
     (if developmentCandleCount < testEnd w then Some (TestEndExceeds (testEnd w) developmentCandleCount)
      else if holdoutStart \<le> testStart w then Some (WindowOverlapsHoldout holdoutStart)
      else None)"

definition splitHoldoutByTimestamp :: "candle list \<Rightarrow> int \<Rightarrow> holdout_split" where
  "splitHoldoutByTimestamp candles holdoutStartOpenTime =
     (let dev = filter (\<lambda>c. c_openTime c < holdoutStartOpenTime) candles;
          hold = filter (\<lambda>c. \<not> c_openTime c < holdoutStartOpenTime) candles
      in \<lparr>development = dev, holdout = hold, developmentStartIndex = 0,
          holdoutStartIndex = count_num dev,
          holdoutPercent = (if candles \<noteq> [] then count_num hold / count_num candles else 0)\<rparr>)"

fun assertNoHoldoutLeakage :: "candle list \<Rightarrow> int \<Rightarrow> leak_error option" where
  "assertNoHoldoutLeakage [] t = None"
| "assertNoHoldoutLeakage (c # cs) t =
     (if t \<le> c_openTime c then Some (HoldoutLeakage (c_openTime c) t) else assertNoHoldoutLeakage cs t)"

definition assertOptimizerDisjointFromTest :: "candle list \<Rightarrow> candle list \<Rightarrow> leak_error option" where
  "assertOptimizerDisjointFromTest train test =
     (if train = [] \<or> test = [] then None
      else let trainLastOpen = c_openTime (last train); testFirstOpen = c_openTime (hd test)
           in if testFirstOpen \<le> trainLastOpen
              then Some (TrainOverlapsTest trainLastOpen testFirstOpen) else None)"

fun first_at_or_after :: "int \<Rightarrow> candle list \<Rightarrow> leak_error option" where
  "first_at_or_after t [] = None"
| "first_at_or_after t (c # cs) =
     (if t \<le> c_openTime c then Some (OptimizerInHoldout (c_openTime c)) else first_at_or_after t cs)"

definition assertOptimizerExcludesHoldout :: "candle list \<Rightarrow> candle list \<Rightarrow> leak_error option" where
  "assertOptimizerExcludesHoldout optimizer holdoutCandles =
     (if holdoutCandles = [] \<or> optimizer = [] then None
      else first_at_or_after (c_openTime (hd holdoutCandles)) optimizer)"

definition assertHoldoutNotUsedForOptimization :: "candle list \<Rightarrow> candle list \<Rightarrow> leak_error option" where
  "assertHoldoutNotUsedForOptimization optimizer holdoutCandles =
     assertOptimizerExcludesHoldout optimizer holdoutCandles"

definition assertParametersFrozenBeforeTest :: "bool \<Rightarrow> leak_error option" where
  "assertParametersFrozenBeforeTest frozen = (if \<not> frozen then Some NotFrozen else None)"

subsection \<open>Continuous segments\<close>

record segment =
  segmentIndex :: nat
  startIndex :: nat
  endIndexExclusive :: nat
  startOpenTime :: int
  endOpenTime :: int
  candleCount :: nat
  spanMs :: int

record segment_report =
  maxGapMs :: int
  segments :: "segment list"
  segmentCount :: nat
  largestSegmentCandleCount :: nat
  largestSegmentSpanMs :: int

fun seg_loop :: "int \<Rightarrow> nat \<Rightarrow> nat \<Rightarrow> int \<Rightarrow> int list \<Rightarrow> (nat \<times> nat) list" where
  "seg_loop maxGap start i prev [] = [(start, i)]"
| "seg_loop maxGap start i prev (o' # opens) =
     (if maxGap < o' - prev then (start, i) # seg_loop maxGap i (i + 1) o' opens
      else seg_loop maxGap start (i + 1) o' opens)"

definition mk_segment :: "candle list \<Rightarrow> nat \<times> nat \<times> nat \<Rightarrow> segment" where
  "mk_segment srt x =
     (case x of (idx, from_i, to_i) \<Rightarrow>
        let f = c_openTime (srt ! from_i); l = c_openTime (srt ! (to_i - 1))
        in \<lparr>segmentIndex = idx, startIndex = from_i, endIndexExclusive = to_i,
            startOpenTime = f, endOpenTime = l, candleCount = to_i - from_i, spanMs = l - f\<rparr>)"

definition detectContinuousSegments :: "candle list \<Rightarrow> int \<Rightarrow> segment_report" where
  "detectContinuousSegments candles maxGap =
     (if candles = []
      then \<lparr>maxGapMs = maxGap, segments = [], segmentCount = 0,
            largestSegmentCandleCount = 0, largestSegmentSpanMs = 0\<rparr>
      else
        let srt = sort_key c_openTime candles;
            opens = List.map c_openTime srt;
            ranges = seg_loop maxGap 0 1 (hd opens) (tl opens);
            segs = List.map (mk_segment srt) (zip [0..<length ranges] ranges);
            largest = foldl (\<lambda>a s. if candleCount a < candleCount s then s else a) (hd segs) segs
        in \<lparr>maxGapMs = maxGap, segments = segs, segmentCount = length segs,
            largestSegmentCandleCount = candleCount largest, largestSegmentSpanMs = spanMs largest\<rparr>)"

definition sliceSegment :: "candle list \<Rightarrow> segment \<Rightarrow> candle list" where
  "sliceSegment candles sg = drop (startIndex sg) (take (endIndexExclusive sg) candles)"

subsection \<open>As-of resampling\<close>

datatype research_interval = R1m | R5m | R15m | R4h

fun RESEARCH_CANDLE_INTERVAL_SECONDS :: "research_interval \<Rightarrow> int" where
  "RESEARCH_CANDLE_INTERVAL_SECONDS R1m = 60"
| "RESEARCH_CANDLE_INTERVAL_SECONDS R5m = 300"
| "RESEARCH_CANDLE_INTERVAL_SECONDS R15m = 900"
| "RESEARCH_CANDLE_INTERVAL_SECONDS R4h = 14400"

definition researchIntervalMs :: "research_interval \<Rightarrow> int" where
  "researchIntervalMs iv = RESEARCH_CANDLE_INTERVAL_SECONDS iv * 1000"

definition researchCandleOpenTime :: "int \<Rightarrow> research_interval \<Rightarrow> int" where
  "researchCandleOpenTime epochMs iv =
     (let ms = researchIntervalMs iv in (epochMs div ms) * ms)"

definition researchCandleCloseTime :: "int \<Rightarrow> research_interval \<Rightarrow> int" where
  "researchCandleCloseTime openTime iv = openTime + researchIntervalMs iv"

record htf_bar =
  hb_symbol :: string
  hb_interval :: research_interval
  hb_openTime :: int
  hb_closeTime :: int
  hb_open :: jsnum
  hb_high :: jsnum
  hb_low :: jsnum
  hb_close :: jsnum
  hb_tickCount :: nat
  hb_source :: candle_source

text \<open>The number of source minutes of a bucket (the quotient is exact, so rounding does nothing).\<close>

definition expected_bars :: "research_interval \<Rightarrow> nat" where
  "expected_bars iv = nat (researchIntervalMs iv div 60000)"

text \<open>The inner loop: the bars must open one minute apart from the bucket's open on; it accumulates the
  high, the low and the ticks, or fails.\<close>

fun htf_scan :: "int \<Rightarrow> jsnum \<times> jsnum \<times> nat \<Rightarrow> nat \<Rightarrow> candle list \<Rightarrow> (jsnum \<times> jsnum \<times> nat) option" where
  "htf_scan bucketOpen acc k [] = Some acc"
| "htf_scan bucketOpen (high, low, ticks) k (bar # bars) =
     (if c_openTime bar \<noteq> bucketOpen + int k * 60000 then None
      else htf_scan bucketOpen
        (js_max high (c_high bar), js_min low (c_low bar), ticks + (if k = 0 then 0 else c_tickCount bar))
        (k + 1) bars)"

lemma expected_bars_pos: "0 < expected_bars iv"
  by (cases iv) (simp_all add: expected_bars_def researchIntervalMs_def)

function htf_loop :: "candle list \<Rightarrow> nat \<Rightarrow> research_interval \<Rightarrow> nat \<Rightarrow> htf_bar list" where
  "htf_loop cs asOf iv i =
     (if asOf < i then []
      else
        let c = cs ! i;
            bucketOpen = researchCandleOpenTime (c_openTime c) iv;
            n = expected_bars iv;
            group = take n (drop i cs)
        in if c_openTime c \<noteq> bucketOpen then htf_loop cs asOf iv (i + 1)
           else if asOf < i + n - 1 then []
           else
             case htf_scan bucketOpen (c_high c, c_low c, c_tickCount c) 0 group of
               None \<Rightarrow> htf_loop cs asOf iv (i + 1)
             | Some (high, low, ticks) \<Rightarrow>
                 let closeTime = bucketOpen + researchIntervalMs iv;
                     lst = cs ! (i + n - 1)
                 in (if closeTime \<le> c_closeTime (cs ! asOf)
                     then [\<lparr>hb_symbol = c_symbol c, hb_interval = iv, hb_openTime = bucketOpen,
                            hb_closeTime = closeTime, hb_open = c_open c, hb_high = high,
                            hb_low = low, hb_close = c_close lst, hb_tickCount = ticks,
                            hb_source = c_source c\<rparr>]
                     else [])
                    @ htf_loop cs asOf iv (i + n))"
  by pat_completeness auto
termination
  by (relation "measure (\<lambda>(cs, asOf, iv, i). asOf + 1 - i)") (auto simp: expected_bars_pos intro: diff_less_mono2)

declare htf_loop.simps [simp del]

definition completedHtfBarsAsOf :: "candle list \<Rightarrow> int \<Rightarrow> research_interval \<Rightarrow> htf_bar list" where
  "completedHtfBarsAsOf candles1m asOfIndex iv =
     (if asOfIndex < 0 \<or> int (length candles1m) \<le> asOfIndex then []
      else htf_loop candles1m (nat asOfIndex) iv 0)"

definition isHtfBarClose :: "candle \<Rightarrow> research_interval \<Rightarrow> bool" where
  "isHtfBarClose c iv \<longleftrightarrow>
     c_closeTime c = researchCandleOpenTime (c_openTime c) iv + researchIntervalMs iv"

definition closesCompletedHtfBucket :: "candle list \<Rightarrow> int \<Rightarrow> research_interval \<Rightarrow> bool" where
  "closesCompletedHtfBucket candles1m asOfIndex iv =
     (if asOfIndex < 0 \<or> int (length candles1m) \<le> asOfIndex then False
      else
        let c = candles1m ! nat asOfIndex; n = expected_bars iv;
            bucketOpen = researchCandleOpenTime (c_openTime c) iv
        in if \<not> isHtfBarClose c iv then False
           else if nat asOfIndex + 1 < n then False
           else \<forall>k\<in>set [0..<n].
             c_openTime (candles1m ! (nat asOfIndex + 1 - n + k)) = bucketOpen + int k * 60000)"

subsection \<open>Windows never overlap and never look ahead\<close>

definition sound_window :: "int \<Rightarrow> wf_window \<Rightarrow> bool" where
  "sound_window n w \<longleftrightarrow> 0 \<le> trainStart w \<and> trainStart w \<le> trainEnd w \<and> trainEnd w = testStart w \<and>
     testStart w < testEnd w \<and> testEnd w \<le> n"

lemma anchored_windows_sound:
  assumes "0 < stepSize cfg" and "0 \<le> ts" and "0 < testWindow cfg"
  shows "\<exists>ws. anchored_windows n cfg ts = Some ws \<and> (\<forall>w\<in>set ws. sound_window n w)"
  using assms(2)
proof (induction "nat (n - ts)" arbitrary: ts rule: less_induct)
  case less
  show ?case
  proof (cases "ts + testWindow cfg \<le> n")
    case True
    have "nat (n - (ts + stepSize cfg)) < nat (n - ts)" using True assms by simp
    then obtain ws where "anchored_windows n cfg (ts + stepSize cfg) = Some ws"
      "\<forall>w\<in>set ws. sound_window n w"
      using less.hyps [of "ts + stepSize cfg"] less.prems assms by auto
    then show ?thesis
      using True assms less.prems by (subst anchored_windows.simps) (auto simp: sound_window_def)
  qed (subst anchored_windows.simps, simp)
qed

lemma rolling_windows_sound:
  assumes "0 < stepSize cfg" and "0 \<le> st" and "0 < testWindow cfg" and "0 \<le> trainWindow cfg"
  shows "\<exists>ws. rolling_windows n cfg st = Some ws \<and> (\<forall>w\<in>set ws. sound_window n w)"
  using assms(2)
proof (induction "nat (n - st)" arbitrary: st rule: less_induct)
  case less
  show ?case
  proof (cases "st + trainWindow cfg + testWindow cfg \<le> n")
    case True
    have "nat (n - (st + stepSize cfg)) < nat (n - st)" using True assms by simp
    then obtain ws where "rolling_windows n cfg (st + stepSize cfg) = Some ws"
      "\<forall>w\<in>set ws. sound_window n w"
      using less.hyps [of "st + stepSize cfg"] less.prems assms by auto
    then show ?thesis
      using True assms less.prems by (subst rolling_windows.simps) (auto simp: sound_window_def)
  qed (subst rolling_windows.simps, simp)
qed

lemma anchored_windows_diverges:
  assumes "anchored_windows n cfg ts = Some ws"
  shows "0 < stepSize cfg \<or> n < ts + testWindow cfg"
  by (rule anchored_windows.raw_induct
        [where P = "\<lambda>n cfg ts ws. 0 < stepSize cfg \<or> n < ts + testWindow cfg", OF _ assms])
    (force split: if_splits Option.bind_splits)

lemma rolling_windows_diverges:
  assumes "rolling_windows n cfg st = Some ws"
  shows "0 < stepSize cfg \<or> n < st + trainWindow cfg + testWindow cfg"
  by (rule rolling_windows.raw_induct
        [where P = "\<lambda>n cfg st ws. 0 < stepSize cfg \<or> n < st + trainWindow cfg + testWindow cfg", OF _ assms])
    (force split: if_splits Option.bind_splits)

text \<open>With windows of positive length the generation returns exactly when the step is positive or
  not even the first window fits; every window it returns trains strictly before it tests, ends
  within the candles, and passes the development assertion.\<close>

theorem walk_forward_windows:
  assumes "0 \<le> trainWindow cfg" and "0 < testWindow cfg"
  shows "(generateWalkForwardWindows n cfg \<noteq> None \<longleftrightarrow>
      0 < stepSize cfg \<or> n < trainWindow cfg + testWindow cfg) \<and>
    (\<forall>ws. generateWalkForwardWindows n cfg = Some ws \<longrightarrow> (\<forall>w\<in>set ws.
       sound_window n w \<and> assertWindowWithinDevelopment w n n = None))"
proof -
  define raw where "raw = (if or_default (windowMode cfg) Rolling = Anchored
        then anchored_windows n cfg (trainWindow cfg) else rolling_windows n cfg 0)"
  have ret: "0 < stepSize cfg \<or> n < trainWindow cfg + testWindow cfg \<Longrightarrow>
      \<exists>ws. raw = Some ws \<and> (\<forall>w\<in>set ws. sound_window n w)"
    using anchored_windows_sound [of cfg "trainWindow cfg" n] rolling_windows_sound [of cfg 0 n] assms
    by (cases "0 < stepSize cfg")
      (auto simp: raw_def anchored_windows.simps [of n cfg "trainWindow cfg"] rolling_windows.simps [of n cfg 0])
  have div: "0 < stepSize cfg \<or> n < trainWindow cfg + testWindow cfg" if "raw = Some ws" for ws
    using that anchored_windows_diverges [of n cfg "trainWindow cfg" ws] rolling_windows_diverges [of n cfg 0 ws]
    by (auto simp: raw_def split: if_splits)
  have gen: "generateWalkForwardWindows n cfg = Some ws \<Longrightarrow> \<exists>vs. raw = Some vs \<and> set ws \<subseteq> set vs" for ws
    unfolding generateWalkForwardWindows_def Let_def raw_def [symmetric]
    by (auto split: Option.bind_splits option.splits if_splits dest: in_set_takeD)
  have none: "generateWalkForwardWindows n cfg = None \<longleftrightarrow> raw = None"
    unfolding generateWalkForwardWindows_def Let_def raw_def [symmetric] by (auto split: Option.bind_splits)
  have ok: "sound_window n w \<Longrightarrow> assertWindowWithinDevelopment w n n = None" for w
    by (auto simp: sound_window_def assertWindowWithinDevelopment_def)
  have "raw \<noteq> None \<longleftrightarrow> 0 < stepSize cfg \<or> n < trainWindow cfg + testWindow cfg"
    using ret div by blast
  moreover have "sound_window n w"
    if g: "generateWalkForwardWindows n cfg = Some ws" "w \<in> set ws" for ws w
  proof -
    obtain vs where vs: "raw = Some vs" "set ws \<subseteq> set vs" using gen [OF g(1)] by blast
    then have "\<forall>w\<in>set vs. sound_window n w" using ret div [OF vs(1)] by auto
    then show ?thesis using vs(2) g(2) by blast
  qed
  ultimately show ?thesis using none ok by (intro conjI allI impI ballI) simp_all
qed

definition demo_wf :: wf_config where
  "demo_wf = \<lparr>trainWindow = 2, testWindow = 1, stepSize = 0, windowMode = None, maxWindows = None,
     minValidationCandles = None\<rparr>"

theorem walk_forward_windows_witness: "generateWalkForwardWindows 5 demo_wf = None"
  using walk_forward_windows [of demo_wf 5] by (simp add: demo_wf_def)

subsection \<open>Splits and segments\<close>

lemma assertNoHoldoutLeakage_None:
  "assertNoHoldoutLeakage cs t = None \<longleftrightarrow> (\<forall>c\<in>set cs. c_openTime c < t)"
  by (induction cs) auto

lemma first_at_or_after_None: "first_at_or_after t cs = None \<longleftrightarrow> (\<forall>c\<in>set cs. c_openTime c < t)"
  by (induction cs) auto

text \<open>Splitting by timestamp loses no candle and no order, and the two parts pass every leakage
  guard: no development candle at or after the cutoff, no optimizer candle inside the holdout, and
  training ends before the holdout begins.\<close>

theorem timestamp_split_passes_guards:
  fixes cs t
  defines "s \<equiv> splitHoldoutByTimestamp cs t"
  shows "assertNoHoldoutLeakage (development s) t = None \<and>
    assertHoldoutNotUsedForOptimization (development s) (holdout s) = None \<and>
    assertOptimizerDisjointFromTest (development s) (holdout s) = None \<and>
    mset (development s) + mset (holdout s) = mset cs \<and>
    subseq (development s) cs \<and> subseq (holdout s) cs"
proof -
  have d: "c_openTime c < t" if "c \<in> set (development s)" for c
    using that by (simp add: s_def splitHoldoutByTimestamp_def Let_def)
  have h: "t \<le> c_openTime (hd (holdout s))" if "holdout s \<noteq> []"
    using hd_in_set [OF that] by (auto simp: s_def splitHoldoutByTimestamp_def Let_def)
  have before: "c_openTime c < c_openTime (hd (holdout s))"
    if "c \<in> set (development s)" "holdout s \<noteq> []" for c
    using d [OF that(1)] h [OF that(2)] by simp
  have "assertNoHoldoutLeakage (development s) t = None"
    using d by (simp add: assertNoHoldoutLeakage_None)
  moreover have "assertHoldoutNotUsedForOptimization (development s) (holdout s) = None"
    using before by (simp add: first_at_or_after_None assertHoldoutNotUsedForOptimization_def
        assertOptimizerExcludesHoldout_def)
  moreover have "assertOptimizerDisjointFromTest (development s) (holdout s) = None"
    using before [OF last_in_set] by (force simp: assertOptimizerDisjointFromTest_def Let_def)
  moreover have "mset (development s) + mset (holdout s) = mset cs"
    by (simp add: s_def splitHoldoutByTimestamp_def Let_def)
  moreover have "subseq (development s) cs" "subseq (holdout s) cs"
    by (simp_all add: s_def splitHoldoutByTimestamp_def Let_def subseq_filter_left)
  ultimately show ?thesis by blast
qed

text \<open>Ranges that tile an interval of indices.\<close>

fun tiles :: "nat \<Rightarrow> nat \<Rightarrow> (nat \<times> nat) list \<Rightarrow> bool" where
  "tiles a b [] \<longleftrightarrow> a = b"
| "tiles a b ((x, y) # rs) \<longleftrightarrow> x = a \<and> a < y \<and> tiles y b rs"

lemma seg_loop_tiles: "start < i \<Longrightarrow> tiles start (i + length opens) (seg_loop g start i prev opens)"
proof (induction opens arbitrary: start i prev)
  case (Cons x xs)
  then show ?case using Cons.IH [of i "i + 1" x] Cons.IH [of start "i + 1" x] by auto
qed simp

lemma slices_of_tiles:
  "tiles a b rs \<Longrightarrow> b \<le> length xs \<Longrightarrow> a \<le> b \<and>
     concat (List.map (\<lambda>(x, y). drop x (take y xs)) rs) = drop a (take b xs)"
proof (induction rs arbitrary: a)
  case (Cons r rs)
  obtain y where r: "r = (a, y)" "a < y" "tiles y b rs" using Cons.prems(1) by (cases r) auto
  have ih: "y \<le> b" "concat (List.map (\<lambda>(x, y). drop x (take y xs)) rs) = drop y (take b xs)"
    using Cons.IH [OF r(3) Cons.prems(2)] by auto
  have "drop a (take y xs) @ drop y (take b xs) = drop a (take b xs)"
    using r(2) ih(1) Cons.prems(2)
    by (intro nth_equalityI) (auto simp: nth_append add.commute)
  then show ?case using r ih by simp
qed simp

lemma seg_loop_starts:
  "List.map fst (seg_loop g s i prev xs) =
     s # List.map ((+) i) (filter (\<lambda>k. g < (prev # xs) ! Suc k - (prev # xs) ! k) [0..<length xs])"
proof (induction xs arbitrary: s i prev)
  case (Cons x xs)
  have up: "[0..<length (x # xs)] = 0 # List.map Suc [0..<length xs]"
    by (simp add: upt_conv_Cons map_Suc_upt del: upt_Suc)
  show ?case
    unfolding up by (simp add: Cons.IH filter_map comp_def)
qed simp

text \<open>The segments tile the chronologically sorted candles, and a segment starts exactly at the
  first candle and at each candle whose distance to the one before exceeds the allowed gap.\<close>

theorem continuous_segments:
  fixes candles g
  defines "srt \<equiv> sort_key c_openTime candles" and "r \<equiv> detectContinuousSegments candles g"
  shows "concat (List.map (sliceSegment srt) (segments r)) = srt \<and>
    List.map startIndex (segments r) =
      filter (\<lambda>j. j = 0 \<or> g < c_openTime (srt ! j) - c_openTime (srt ! (j - 1))) [0..<length srt]"
proof (cases "candles = []")
  case True
  then show ?thesis by (simp add: r_def srt_def detectContinuousSegments_def)
next
  case False
  define opens where "opens = List.map c_openTime srt"
  have "srt \<noteq> []" using False unfolding srt_def by (metis length_0_conv length_sort)
  then obtain x xs where o: "opens = x # xs" by (cases srt) (auto simp: opens_def)
  have n: "length srt = Suc (length xs)" using o unfolding opens_def by (metis length_Cons length_map)
  define ranges where "ranges = seg_loop g 0 1 x xs"
  have segs: "segments r = List.map (mk_segment srt) (zip [0..<length ranges] ranges)"
    using False o by (simp add: r_def detectContinuousSegments_def Let_def ranges_def opens_def srt_def)
  have slice: "sliceSegment srt (mk_segment srt (k, rg)) = (case rg of (a, b) \<Rightarrow> drop a (take b srt))"
    "startIndex (mk_segment srt (k, rg)) = fst rg" for k rg
    by (simp_all add: sliceSegment_def mk_segment_def Let_def split: prod.splits)
  have "List.map (sliceSegment srt) (segments r) = List.map (\<lambda>(a, b). drop a (take b srt)) ranges"
    unfolding segs by (rule nth_equalityI) (auto simp: slice)
  moreover have "tiles 0 (length srt) ranges"
    using seg_loop_tiles [of 0 1 xs g x] n by (simp add: ranges_def)
  ultimately have "concat (List.map (sliceSegment srt) (segments r)) = srt"
    using slices_of_tiles [of 0 "length srt" ranges srt] by simp
  moreover have "List.map startIndex (segments r) = List.map fst ranges"
    unfolding segs by (rule nth_equalityI) (auto simp: slice)
  moreover have "List.map fst ranges =
      filter (\<lambda>j. j = 0 \<or> g < c_openTime (srt ! j) - c_openTime (srt ! (j - 1))) [0..<length srt]"
  proof -
    have up: "[0..<length srt] = 0 # List.map Suc [0..<length xs]"
      unfolding n by (simp add: upt_conv_Cons map_Suc_upt del: upt_Suc)
    have nth: "(x # xs) ! k = c_openTime (srt ! k)" if "k < length srt" for k
      using that o [symmetric] by (simp add: opens_def)
    have "filter (\<lambda>k. g < (x # xs) ! Suc k - (x # xs) ! k) [0..<length xs] =
        filter (\<lambda>k. g < c_openTime (srt ! Suc k) - c_openTime (srt ! k)) [0..<length xs]"
    proof (intro filter_cong refl)
      fix k assume "k \<in> set [0..<length xs]"
      then show "(g < (x # xs) ! Suc k - (x # xs) ! k) = (g < c_openTime (srt ! Suc k) - c_openTime (srt ! k))"
        using nth [of k] nth [of "Suc k"] n by (simp del: nth_Cons_Suc)
    qed
    moreover have "(+) 1 = Suc" by auto
    ultimately show ?thesis
      unfolding up ranges_def seg_loop_starts by (simp add: filter_map comp_def)
  qed
  ultimately show ?thesis by simp
qed

subsection \<open>No look-ahead\<close>

lemma htf_loop_cong:
  assumes "take (Suc n) cs = take (Suc n) ds" and "n < length cs" and "n < length ds"
  shows "htf_loop cs n iv i = htf_loop ds n iv i"
proof (induction "Suc n - i" arbitrary: i rule: less_induct)
  case less
  have nth: "cs ! j = ds ! j" if "j \<le> n" for j
    using arg_cong [OF assms(1), of "\<lambda>l. l ! j"] that by simp
  have grp: "take m (drop j cs) = take m (drop j ds)" if "j + m \<le> Suc n" for j m
  proof -
    have "take m (drop j xs) = drop j (take (j + m) (take (Suc n) xs))" for xs :: "candle list"
      using that by (simp add: drop_take min_absorb1 min_absorb2)
    from this [of cs] this [of ds] show ?thesis using assms(1) by metis
  qed
  have pos: "0 < expected_bars iv" by (rule expected_bars_pos)
  show ?case
  proof (cases "n < i")
    case False
    have ih: "htf_loop cs n iv (i + 1) = htf_loop ds n iv (i + 1)"
      "htf_loop cs n iv (i + expected_bars iv) = htf_loop ds n iv (i + expected_bars iv)"
      using less False pos by (auto intro!: less.hyps diff_less_mono2)
    have here: "cs ! i = ds ! i" "cs ! n = ds ! n" using nth False by auto
    show ?thesis
    proof (cases "n < i + expected_bars iv - 1")
      case True
      then show ?thesis using False ih here
        by (simp add: htf_loop.simps [of cs n iv i] htf_loop.simps [of ds n iv i] Let_def)
    next
      case fits: False
      have g: "take (expected_bars iv) (drop i cs) = take (expected_bars iv) (drop i ds)"
        using fits pos by (intro grp) simp
      have l: "cs ! (i + expected_bars iv - 1) = ds ! (i + expected_bars iv - 1)"
        using fits by (intro nth) simp
      show ?thesis
        unfolding htf_loop.simps [of cs n iv i] htf_loop.simps [of ds n iv i] Let_def here g l ih ..
    qed
  qed (simp add: htf_loop.simps)
qed

lemma htf_scan_opens:
  "htf_scan b acc k bars = Some r \<Longrightarrow> j < length bars \<Longrightarrow>
     c_openTime (bars ! j) = b + int (k + j) * 60000"
proof (induction b acc k bars arbitrary: j rule: htf_scan.induct)
  case (2 b high low ticks k bar bars)
  then show ?case by (cases j) (auto split: if_splits)
qed simp

text \<open>A bar of the higher interval stands for a complete run of source minutes up to the as-of index.\<close>

definition covers :: "candle list \<Rightarrow> nat \<Rightarrow> research_interval \<Rightarrow> htf_bar \<Rightarrow> bool" where
  "covers cs n iv b \<longleftrightarrow>
     (\<exists>i. i + expected_bars iv \<le> Suc n \<and>
        (\<forall>k<expected_bars iv. c_openTime (cs ! (i + k)) = hb_openTime b + int k * 60000) \<and>
        hb_open b = c_open (cs ! i) \<and> hb_close b = c_close (cs ! (i + expected_bars iv - 1))) \<and>
     hb_openTime b = researchCandleOpenTime (hb_openTime b) iv \<and>
     hb_closeTime b = hb_openTime b + researchIntervalMs iv \<and>
     hb_closeTime b \<le> c_closeTime (cs ! n)"

lemma htf_loop_covers:
  assumes "n < length cs"
  shows "\<forall>b\<in>set (htf_loop cs n iv i). covers cs n iv b"
proof (induction "Suc n - i" arbitrary: i rule: less_induct)
  case less
  have pos: "0 < expected_bars iv" by (rule expected_bars_pos)
  let ?c = "cs ! i" and ?e = "expected_bars iv"
  let ?scan = "htf_scan (researchCandleOpenTime (c_openTime ?c) iv) (c_high ?c, c_low ?c, c_tickCount ?c) 0
     (take ?e (drop i cs))"
  show ?case
  proof (cases "n < i")
    case False
    have ih: "\<forall>b\<in>set (htf_loop cs n iv (i + 1)). covers cs n iv b"
      "\<forall>b\<in>set (htf_loop cs n iv (i + ?e)). covers cs n iv b"
      using less False pos by (auto intro!: less.hyps diff_less_mono2)
    show ?thesis
    proof (cases "c_openTime ?c = researchCandleOpenTime (c_openTime ?c) iv \<and> \<not> n < i + ?e - 1 \<and> ?scan \<noteq> None")
      case True
      then obtain h l t where sc: "?scan = Some (h, l, t)" by auto
      have "\<not> n < i + ?e - 1" using True by blast
      then have fits: "i + ?e \<le> Suc n" using pos by linarith
      have "\<forall>k<?e. c_openTime (cs ! (i + k)) = c_openTime ?c + int k * 60000"
      proof (intro allI impI)
        fix k assume "k < ?e"
        then have "k < length (take ?e (drop i cs))" "take ?e (drop i cs) ! k = cs ! (i + k)"
          using fits assms by simp_all
        then show "c_openTime (cs ! (i + k)) = c_openTime ?c + int k * 60000"
          using htf_scan_opens [OF sc, of k] True by simp
      qed
      then show ?thesis
        using False True sc ih fits
        by (subst htf_loop.simps) (auto simp: Let_def covers_def)
    next
      case stop: False
      then show ?thesis
        using False ih by (subst htf_loop.simps) (auto simp: Let_def split: option.splits)
    qed
  qed (simp add: htf_loop.simps)
qed

text \<open>C32: resampling as of an index never looks ahead: the bars depend only on the source candles up to
  that index, and each of them covers a complete run of consecutive source minutes ending there or
  earlier, aligned to its interval, opened by the first and closed by the last of them, and closed
  no later than the as-of candle.\<close>

theorem resampling_never_looks_ahead:
  assumes "0 \<le> n" and "n < int (length cs)"
  shows "(\<forall>ds. completedHtfBarsAsOf (take (nat n + 1) cs @ ds) n iv = completedHtfBarsAsOf cs n iv) \<and>
    (\<forall>b\<in>set (completedHtfBarsAsOf cs n iv). covers cs (nat n) iv b)"
proof -
  have len: "nat n < length cs" using assms by linarith
  have "htf_loop (take (nat n + 1) cs @ ds) (nat n) iv 0 = htf_loop cs (nat n) iv 0" for ds
    using len by (intro htf_loop_cong) (simp_all add: min_absorb1 min_absorb2)
  then show ?thesis
    using assms len htf_loop_covers [OF len] by (simp add: completedHtfBarsAsOf_def min_absorb1 min_absorb2)
qed

definition minute_bar :: "int \<Rightarrow> candle" where
  "minute_bar i = \<lparr>c_symbol = ''R_10'', c_interval = M1, c_openTime = i * 60000,
     c_closeTime = (i + 1) * 60000, c_open = Fin (of_int i), c_high = Fin (of_int i + 1),
     c_low = Fin (of_int i), c_close = Fin (of_int i), c_tickCount = 1, c_isComplete = True,
     c_source = MT5_HISTORY\<rparr>"

theorem resampling_never_looks_ahead_witness:
  "\<exists>b. completedHtfBarsAsOf (List.map minute_bar [4, 5, 6, 7, 8, 9, 10]) 5 R5m = [b] \<and>
     hb_openTime b = 300000 \<and>
     covers (List.map minute_bar [4, 5, 6, 7, 8, 9, 10]) 5 R5m b"
proof -
  let ?cs = "List.map minute_bar [4, 5, 6, 7, 8, 9, 10]"
  have "\<exists>b. completedHtfBarsAsOf ?cs 5 R5m = [b] \<and> hb_openTime b = 300000"
    by (simp add: completedHtfBarsAsOf_def htf_loop.simps expected_bars_def researchIntervalMs_def
        researchCandleOpenTime_def minute_bar_def Let_def numeral_eq_Suc)
  moreover have "\<forall>b\<in>set (completedHtfBarsAsOf ?cs 5 R5m). covers ?cs (nat 5) R5m b"
    using resampling_never_looks_ahead [of 5 ?cs R5m] by simp
  ultimately show ?thesis by auto
qed

end
