(* ===== verification/MailboxId.thy ===== *)
theory MailboxId
  imports Prelude
begin

text \<open>
  Physical mailbox identities (\<^verbatim>\<open>packages/trading-engine/src/broker/mt5/mailboxFileId.ts\<close>).
  Regular expressions are written out as predicates and rewriting functions on strings, \<^const>\<open>None\<close>
  is a raised error, and the random UUID of the fallback is an argument.
\<close>

subsection \<open>Safe identities\<close>

definition is_alnum :: "char \<Rightarrow> bool" where
  "is_alnum c \<longleftrightarrow> (let n = (of_char c :: nat)
     in (48 \<le> n \<and> n \<le> 57) \<or> (65 \<le> n \<and> n \<le> 90) \<or> (97 \<le> n \<and> n \<le> 122))"

definition is_word :: "char \<Rightarrow> bool" where
  "is_word c \<longleftrightarrow> is_alnum c \<or> c = CHR ''.'' \<or> c = CHR ''_'' \<or> c = CHR ''-''"

definition to_upper :: "char \<Rightarrow> char" where
  "to_upper c = (let n = (of_char c :: nat) in if 97 \<le> n \<and> n \<le> 122 then char_of (n - 32) else c)"

definition SAFE_MAILBOX_FILE_ID_RE :: "string \<Rightarrow> bool" where
  "SAFE_MAILBOX_FILE_ID_RE v =
     (case v of [] \<Rightarrow> False | c # cs \<Rightarrow> is_alnum c \<and> length cs \<le> 178 \<and> list_all is_word cs)"

definition RESERVED_DEVICES :: "string list" where
  "RESERVED_DEVICES = [''CON'', ''PRN'', ''AUX'', ''NUL'',
     ''COM1'', ''COM2'', ''COM3'', ''COM4'', ''COM5'', ''COM6'', ''COM7'', ''COM8'', ''COM9'',
     ''LPT1'', ''LPT2'', ''LPT3'', ''LPT4'', ''LPT5'', ''LPT6'', ''LPT7'', ''LPT8'', ''LPT9'']"

definition starts_with :: "string \<Rightarrow> string \<Rightarrow> bool" where
  "starts_with p s \<longleftrightarrow> take (length p) s = p"

definition dot_or_end :: "string \<Rightarrow> bool" where
  "dot_or_end s \<longleftrightarrow> s = [] \<or> hd s = CHR ''.''"

definition WINDOWS_RESERVED_DEVICE :: "string \<Rightarrow> bool" where
  "WINDOWS_RESERVED_DEVICE v =
     list_ex (\<lambda>p. starts_with p (List.map to_upper v) \<and> dot_or_end (drop (length p) v)) RESERVED_DEVICES"

definition WINDOWS_UNSAFE_CHARS :: "string \<Rightarrow> bool" where
  "WINDOWS_UNSAFE_CHARS v =
     list_ex (\<lambda>c. c \<in> set [CHR ''<'', CHR ''>'', CHR '':'', CHR 0x22, CHR ''/'', CHR 0x5C,
        CHR ''|'', CHR ''?'', CHR ''*''] \<or> (of_char c :: nat) \<le> 31) v"

fun has_double_dot :: "string \<Rightarrow> bool" where
  "has_double_dot (a # b # s) = ((a = CHR ''.'' \<and> b = CHR ''.'') \<or> has_double_dot (b # s))"
| "has_double_dot _ = False"

definition isSafeMailboxFileId :: "string \<Rightarrow> bool" where
  "isSafeMailboxFileId v =
     (if v = [] \<or> 180 < length v then False
      else if has_double_dot v then False
      else if CHR ''/'' \<in> set v \<or> CHR 0x5C \<in> set v then False
      else if WINDOWS_UNSAFE_CHARS v then False
      else if \<not> SAFE_MAILBOX_FILE_ID_RE v then False
      else if WINDOWS_RESERVED_DEVICE v then False
      else True)"

definition assertSafeMailboxFileId :: "string \<Rightarrow> string option" where
  "assertSafeMailboxFileId v = (if \<not> isSafeMailboxFileId v then None else Some v)"

subsection \<open>Building an identity\<close>

definition drop_dots :: "string \<Rightarrow> string" where
  "drop_dots s = dropWhile (\<lambda>c. c = CHR ''.'') s"

text \<open>Each maximal run of other characters becomes one hyphen; each run of dots one dot.\<close>

fun dash_runs :: "bool \<Rightarrow> string \<Rightarrow> string" where
  "dash_runs in_run [] = []"
| "dash_runs in_run (c # s) =
     (if is_word c then c # dash_runs False s
      else if in_run then dash_runs True s else CHR ''-'' # dash_runs True s)"

fun collapse_dots :: "string \<Rightarrow> string" where
  "collapse_dots (a # b # s) =
     (if a = CHR ''.'' \<and> b = CHR ''.'' then collapse_dots (b # s) else a # collapse_dots (b # s))"
| "collapse_dots s = s"

definition safeMailboxCommandToken :: "string \<Rightarrow> string" where
  "safeMailboxCommandToken command =
     (let stripped = take 40 (drop_dots (filter is_word command))
      in if stripped \<noteq> [] \<and> isSafeMailboxFileId stripped then stripped else ''cmd'')"

definition createMailboxFileId :: "string \<Rightarrow> string \<Rightarrow> string \<Rightarrow> string option" where
  "createMailboxFileId command uuid randomUUID =
     (let cmd = safeMailboxCommandToken command;
          ident = take 80 (collapse_dots (drop_dots (dash_runs False uuid)));
          token = (if 0 < length ident then cmd @ ''_'' @ ident else cmd @ ''_'' @ randomUUID)
      in assertSafeMailboxFileId token)"

subsection \<open>File names\<close>

definition ends_with :: "string \<Rightarrow> string \<Rightarrow> bool" where
  "ends_with p s \<longleftrightarrow> length p \<le> length s \<and> drop (length s - length p) s = p"

text \<open>The part after the last slash or backslash.\<close>

definition base_name :: "string \<Rightarrow> string" where
  "base_name s = rev (takeWhile (\<lambda>c. c \<noteq> CHR ''/'' \<and> c \<noteq> CHR 0x5C) (rev s))"

definition mailboxFileIdFromFilename :: "string \<Rightarrow> string option" where
  "mailboxFileIdFromFilename fname =
     (let b = base_name fname
      in if \<not> ends_with ''.json'' b \<or> starts_with ''.tmp-'' b then None
         else let stem = take (length b - 5) b
              in if isSafeMailboxFileId stem then Some stem else None)"

definition mailboxJsonFilename :: "string \<Rightarrow> string option" where
  "mailboxJsonFilename ident = map_option (\<lambda>s. s @ ''.json'') (assertSafeMailboxFileId ident)"

subsection \<open>Properties\<close>

lemma isSafe_iff:
  "isSafeMailboxFileId v \<longleftrightarrow> \<not> has_double_dot v \<and> SAFE_MAILBOX_FILE_ID_RE v \<and> \<not> WINDOWS_RESERVED_DEVICE v"
proof -
  have word: "\<not> is_word c" if "c \<in> set [CHR ''<'', CHR ''>'', CHR '':'', CHR 0x22, CHR ''/'', CHR 0x5C,
      CHR ''|'', CHR ''?'', CHR ''*''] \<or> (of_char c :: nat) \<le> 31" for c
    using that by (auto simp: is_word_def is_alnum_def Let_def)
  have re: "v \<noteq> []" "length v \<le> 180" "\<forall>c\<in>set v. is_word c" if "SAFE_MAILBOX_FILE_ID_RE v"
    using that by (auto simp: SAFE_MAILBOX_FILE_ID_RE_def is_word_def list_all_iff split: list.splits)
  show ?thesis
  proof (cases "SAFE_MAILBOX_FILE_ID_RE v")
    case True
    have "\<not> WINDOWS_UNSAFE_CHARS v" "CHR ''/'' \<notin> set v" "CHR 0x5C \<notin> set v"
      using re(3) [OF True] word by (auto simp: WINDOWS_UNSAFE_CHARS_def list_ex_iff)
    then show ?thesis using re(1,2) [OF True] True by (simp add: isSafeMailboxFileId_def)
  qed (simp add: isSafeMailboxFileId_def)
qed

lemma safe_words: "isSafeMailboxFileId v \<Longrightarrow> v \<noteq> [] \<and> is_alnum (hd v) \<and> (\<forall>c\<in>set v. is_word c)"
  by (auto simp: isSafe_iff SAFE_MAILBOX_FILE_ID_RE_def is_word_def list_all_iff split: list.splits)

lemma has_double_dot_append:
  "has_double_dot (xs @ c # ys) \<Longrightarrow> c \<noteq> CHR ''.'' \<Longrightarrow> has_double_dot xs \<or> has_double_dot ys"
proof (induction xs)
  case Nil
  then show ?case by (cases ys) auto
next
  case (Cons a xs)
  then show ?case by (cases xs; cases ys) auto
qed

lemma has_double_dot_take: "has_double_dot (take n s) \<Longrightarrow> has_double_dot s"
proof (induction s arbitrary: n rule: has_double_dot.induct)
  case (1 a b s)
  show ?case
  proof (cases n)
    case (Suc m)
    then show ?thesis using 1 by (cases m) (auto dest: "1.IH" [of "Suc _", simplified])
  qed (use 1 in simp)
qed (auto simp: take_Cons split: nat.splits)

lemma collapse_dots_hd: "s \<noteq> [] \<Longrightarrow> collapse_dots s \<noteq> [] \<and> hd (collapse_dots s) = hd s"
  by (induction s rule: collapse_dots.induct) auto

lemma collapse_dots_clean: "\<not> has_double_dot (collapse_dots s)"
proof (induction s rule: collapse_dots.induct)
  case (1 a b s)
  have "collapse_dots (b # s) = b # tl (collapse_dots (b # s))"
    using collapse_dots_hd [of "b # s"] by (metis list.collapse list.distinct(1) list.sel(1))
  then show ?case using 1 by (metis collapse_dots.simps(1) has_double_dot.simps(1))
qed auto

lemma collapse_dots_set: "set (collapse_dots s) \<subseteq> set s"
  by (induction s rule: collapse_dots.induct) auto

lemma dash_runs_words: "c \<in> set (dash_runs r s) \<Longrightarrow> is_word c"
  by (induction r s rule: dash_runs.induct) (auto simp: is_word_def split: if_splits)

text \<open>An identity built from a safe prefix, an underscore and word characters is safe.\<close>

lemma reserved_append:
  assumes "WINDOWS_RESERVED_DEVICE (cmd @ CHR ''_'' # ident)"
  shows "WINDOWS_RESERVED_DEVICE cmd"
proof -
  obtain p where p: "p \<in> set RESERVED_DEVICES"
    "take (length p) (List.map to_upper (cmd @ CHR ''_'' # ident)) = p"
    "dot_or_end (drop (length p) (cmd @ CHR ''_'' # ident))"
    using assms by (auto simp: WINDOWS_RESERVED_DEVICE_def list_ex_iff starts_with_def)
  have no: "CHR ''_'' \<notin> set p" using p(1) by (auto simp: RESERVED_DEVICES_def)
  have us: "to_upper (CHR ''_'') = CHR ''_''" by (simp add: to_upper_def)
  have "length p \<le> length cmd"
  proof (rule ccontr)
    assume "\<not> length p \<le> length cmd"
    then have len: "length cmd < length p" by simp
    have "p ! length cmd = take (length p) (List.map to_upper (cmd @ CHR ''_'' # ident)) ! length cmd"
      using p(2) by simp
    also have "\<dots> = CHR ''_''" using len us by (simp add: nth_append)
    finally show False using no len nth_mem by metis
  qed
  moreover have "length p \<noteq> length cmd"
    using p(3) by (auto simp: dot_or_end_def)
  ultimately have len: "length p < length cmd" by simp
  have "starts_with p (List.map to_upper cmd)" "dot_or_end (drop (length p) cmd)"
    using p(2,3) len by (auto simp: starts_with_def dot_or_end_def hd_append)
  then show ?thesis using p(1) by (auto simp: WINDOWS_RESERVED_DEVICE_def list_ex_iff)
qed

lemma safe_append:
  assumes "isSafeMailboxFileId cmd" and "length cmd \<le> 40" and "\<forall>c\<in>set ident. is_word c"
    and "\<not> has_double_dot ident" and "length ident \<le> 80"
  shows "isSafeMailboxFileId (cmd @ ''_'' @ ident)"
proof -
  obtain c cs where c: "cmd = c # cs" using safe_words [OF assms(1)] by (cases cmd) auto
  have "SAFE_MAILBOX_FILE_ID_RE (cmd @ ''_'' @ ident)"
    using safe_words [OF assms(1)] assms(2,3,5) c
    by (auto simp: SAFE_MAILBOX_FILE_ID_RE_def list_all_iff is_word_def)
  moreover have "\<not> has_double_dot (cmd @ ''_'' @ ident)"
    using has_double_dot_append [of cmd "CHR ''_''" ident] assms(1,4) by (auto simp: isSafe_iff)
  moreover have "\<not> WINDOWS_RESERVED_DEVICE (cmd @ ''_'' @ ident)"
    using reserved_append [of cmd ident] assms(1) by (auto simp: isSafe_iff)
  ultimately show ?thesis by (simp add: isSafe_iff)
qed

lemma command_token_safe:
  "isSafeMailboxFileId (safeMailboxCommandToken command) \<and> length (safeMailboxCommandToken command) \<le> 40"
proof -
  have "isSafeMailboxFileId ''cmd''" by code_simp
  then show ?thesis by (simp add: safeMailboxCommandToken_def Let_def)
qed

text \<open>C36: building an identity never fails and yields a safe one, whatever the command and the given
  identifier contain, provided the random UUID of the fallback is made of at most 80 word characters
  without two dots in a row; the identity maps to a file name that maps back to it.\<close>

theorem createMailboxFileId_total:
  assumes "\<forall>c\<in>set randomUUID. is_word c" and "\<not> has_double_dot randomUUID"
    and "length randomUUID \<le> 80"
  shows "\<exists>ident fname. createMailboxFileId command uuid randomUUID = Some ident \<and>
    isSafeMailboxFileId ident \<and> mailboxJsonFilename ident = Some fname \<and>
    mailboxFileIdFromFilename fname = Some ident"
proof -
  define ident where "ident = take 80 (collapse_dots (drop_dots (dash_runs False uuid)))"
  let ?cmd = "safeMailboxCommandToken command"
  have "set ident \<subseteq> set (dash_runs False uuid)"
    unfolding ident_def drop_dots_def
    using set_take_subset collapse_dots_set set_dropWhileD by fastforce
  then have words: "\<forall>c\<in>set ident. is_word c" using dash_runs_words by blast
  have clean: "\<not> has_double_dot ident"
    unfolding ident_def using has_double_dot_take collapse_dots_clean by blast
  define token where "token = (if 0 < length ident then ?cmd @ ''_'' @ ident else ?cmd @ ''_'' @ randomUUID)"
  have safe: "isSafeMailboxFileId token"
    unfolding token_def
    using safe_append [of ?cmd] command_token_safe words clean assms by (simp add: ident_def)
  have create: "createMailboxFileId command uuid randomUUID = Some token"
    unfolding createMailboxFileId_def Let_def ident_def [symmetric] token_def [symmetric]
    using safe by (simp add: assertSafeMailboxFileId_def)
  have ws: "token \<noteq> []" "is_alnum (hd token)" "\<forall>c\<in>set token. is_word c"
    using safe_words [OF safe] by auto
  have sl: "\<not> is_word (CHR ''/'')" "\<not> is_word (CHR 0x5C)" "\<not> is_alnum (CHR ''.'')"
    by (simp_all add: is_word_def is_alnum_def)
  have "base_name (token @ ''.json'') = token @ ''.json''"
    using ws(3) sl unfolding base_name_def
    by (subst takeWhile_eq_all_conv [THEN iffD2]) auto
  moreover have "\<not> starts_with ''.tmp-'' (token @ ''.json'')"
    using ws(1,2) sl(3) by (cases token) (auto simp: starts_with_def)
  ultimately have "mailboxFileIdFromFilename (token @ ''.json'') = Some token"
    using safe by (simp add: mailboxFileIdFromFilename_def ends_with_def Let_def)
  then show ?thesis
    using create safe by (simp add: mailboxJsonFilename_def assertSafeMailboxFileId_def)
qed

theorem createMailboxFileId_total_witness:
  "\<exists>ident. createMailboxFileId ''../CON'' ''..'' ''0292fcd7-6d7f'' = Some ident \<and> isSafeMailboxFileId ident"
proof -
  have "\<forall>c\<in>set ''0292fcd7-6d7f''. is_word c" "\<not> has_double_dot ''0292fcd7-6d7f''"
    "length ''0292fcd7-6d7f'' \<le> 80"
    by (simp_all add: is_word_def is_alnum_def)
  from createMailboxFileId_total [OF this, of "''../CON''" "''..''"] show ?thesis by blast
qed

end
