(* ===== verification/MailboxHeap.thy ===== *)
theory MailboxHeap
  imports Prelude
begin

text \<open>
  The bounded max-heap that selects the oldest mailbox files
  (\<open>selectOldestMailboxFiles\<close> in
  \<^verbatim>\<open>packages/trading-engine/src/broker/mt5/mailboxCleanup.ts\<close>).  The array is a list updated by
  index; modification times are rationals.
\<close>

record mailbox_file =
  mf_name :: string
  mf_path :: string
  mf_mailboxFileId :: string
  mf_mtimeMs :: rat

definition parent :: "nat \<Rightarrow> nat" where "parent i = (i - 1) div 2"
definition left_child :: "nat \<Rightarrow> nat" where "left_child i = i * 2 + 1"

definition swap :: "'a list \<Rightarrow> nat \<Rightarrow> nat \<Rightarrow> 'a list" where
  "swap xs i j = xs[i := xs ! j, j := xs ! i]"

function siftUp :: "mailbox_file list \<Rightarrow> nat \<Rightarrow> mailbox_file list" where
  "siftUp heap i =
     (if 0 < i \<and> mf_mtimeMs (heap ! parent i) < mf_mtimeMs (heap ! i)
      then siftUp (swap heap (parent i) i) (parent i) else heap)"
  by pat_completeness auto
termination by (relation "measure snd") (auto simp: parent_def)

definition largest_of :: "mailbox_file list \<Rightarrow> nat \<Rightarrow> nat" where
  "largest_of heap i =
     (let l = left_child i; r = l + 1;
          m = (if l < length heap \<and> mf_mtimeMs (heap ! i) < mf_mtimeMs (heap ! l) then l else i)
      in if r < length heap \<and> mf_mtimeMs (heap ! m) < mf_mtimeMs (heap ! r) then r else m)"

function siftDown :: "mailbox_file list \<Rightarrow> nat \<Rightarrow> mailbox_file list" where
  "siftDown heap i =
     (if left_child i < length heap
      then if largest_of heap i = i then heap
           else siftDown (swap heap i (largest_of heap i)) (largest_of heap i)
      else heap)"
  by pat_completeness auto
termination
  by (relation "measure (\<lambda>(heap, i). length heap - i)")
    (auto simp: largest_of_def left_child_def swap_def Let_def split: if_splits)

declare siftUp.simps [simp del] siftDown.simps [simp del]

definition heap_step :: "nat \<Rightarrow> mailbox_file list \<Rightarrow> mailbox_file \<Rightarrow> mailbox_file list" where
  "heap_step k heap entry =
     (if length heap < k then siftUp (heap @ [entry]) (length heap)
      else if mf_mtimeMs entry < mf_mtimeMs (heap ! 0) then siftDown (heap[0 := entry]) 0
      else heap)"

definition selectOldestMailboxFiles :: "mailbox_file list \<Rightarrow> int \<Rightarrow> mailbox_file list" where
  "selectOldestMailboxFiles entries k =
     (if k \<le> 0 \<or> entries = [] then []
      else if int (length entries) \<le> k then sort_key mf_mtimeMs entries
      else foldl (heap_step (nat k)) [] entries)"

subsection \<open>The heap invariant\<close>

abbreviation key :: "mailbox_file list \<Rightarrow> nat \<Rightarrow> rat" where
  "key h i \<equiv> mf_mtimeMs (h ! i)"

definition is_heap :: "mailbox_file list \<Rightarrow> bool" where
  "is_heap h \<longleftrightarrow> (\<forall>j<length h. 0 < j \<longrightarrow> key h j \<le> key h (parent j))"

text \<open>A heap up to one position: its own parent (going up) or its children (going down) may violate
  the order, and its children are below its parent.\<close>

definition up_ok :: "mailbox_file list \<Rightarrow> nat \<Rightarrow> bool" where
  "up_ok h i \<longleftrightarrow> i < length h \<and>
     (\<forall>j<length h. 0 < j \<longrightarrow> j \<noteq> i \<longrightarrow> key h j \<le> key h (parent j)) \<and>
     (0 < i \<longrightarrow> (\<forall>j<length h. 0 < j \<longrightarrow> parent j = i \<longrightarrow> key h j \<le> key h (parent i)))"

definition down_ok :: "mailbox_file list \<Rightarrow> nat \<Rightarrow> bool" where
  "down_ok h i \<longleftrightarrow> i < length h \<and>
     (\<forall>j<length h. 0 < j \<longrightarrow> parent j \<noteq> i \<longrightarrow> key h j \<le> key h (parent j)) \<and>
     (0 < i \<longrightarrow> (\<forall>j<length h. 0 < j \<longrightarrow> parent j = i \<longrightarrow> key h j \<le> key h (parent i)))"

lemma swap_facts [simp]:
  "length (swap h i j) = length h"
  "i < length h \<Longrightarrow> j < length h \<Longrightarrow> mset (swap h i j) = mset h"
  by (simp_all add: swap_def mset_swap)

lemma swap_nth:
  "i < length h \<Longrightarrow> j < length h \<Longrightarrow> k < length h \<Longrightarrow>
     swap h i j ! k = (if k = j then h ! i else if k = i then h ! j else h ! k)"
  by (simp add: swap_def nth_list_update)

lemma parent_less: "0 < i \<Longrightarrow> parent i < i"
  by (auto simp: parent_def)

lemma children: "0 < j \<and> parent j = i \<longleftrightarrow> j = left_child i \<or> j = left_child i + 1"
  by (auto simp: parent_def left_child_def)

lemma siftUp_heap: "up_ok h i \<Longrightarrow> is_heap (siftUp h i) \<and> mset (siftUp h i) = mset h"
proof (induction h i rule: siftUp.induct)
  case (1 h i)
  have i: "i < length h" using "1.prems" by (simp add: up_ok_def)
  show ?case
  proof (cases "0 < i \<and> key h (parent i) < key h i")
    case True
    let ?p = "parent i" and ?h = "swap h (parent i) i"
    have p: "?p < length h" "?p < i" using True i parent_less [of i] by auto
    have nth: "?h ! k = (if k = i then h ! ?p else if k = ?p then h ! i else h ! k)" if "k < length h" for k
      using swap_nth [OF p(1) i that] .
    have "up_ok ?h ?p"
      unfolding up_ok_def
    proof (intro conjI allI impI)
      show "?p < length ?h" using p by simp
      fix j assume j: "j < length ?h" "0 < j"
      have pj: "parent j < length h" using j parent_less [of j] by simp
      have base: "j \<noteq> i \<Longrightarrow> key h j \<le> key h (parent j)" using "1.prems" j by (simp add: up_ok_def)
      have grand: "parent j = i \<Longrightarrow> key h j \<le> key h ?p" using "1.prems" j True by (simp add: up_ok_def)
      show "key ?h j \<le> key ?h (parent j)" if "j \<noteq> ?p"
        using j that base grand True nth [of j] nth [OF pj] by fastforce
      show "key ?h j \<le> key ?h (parent ?p)" if "0 < ?p" "parent j = ?p"
      proof -
        have pp: "parent ?p < length h" "parent ?p \<noteq> ?p" "parent ?p \<noteq> i"
          using p parent_less [OF that(1)] by auto
        have "key h ?p \<le> key h (parent ?p)" using "1.prems" p that(1) by (simp add: up_ok_def)
        moreover have "j \<noteq> ?p" using j that by (metis less_irrefl parent_less)
        ultimately show ?thesis
          using j base that nth [of j] nth [OF pp(1)] pp by (cases "j = i") auto
      qed
    qed
    then have "is_heap (siftUp ?h ?p) \<and> mset (siftUp ?h ?p) = mset ?h"
      using "1.IH" [OF True] by blast
    then show ?thesis using True p i by (simp add: siftUp.simps [of h i])
  next
    case False
    then have "is_heap h" using "1.prems" by (auto simp: up_ok_def is_heap_def not_less)
    moreover have "siftUp h i = h" using False by (subst siftUp.simps) auto
    ultimately show ?thesis by simp
  qed
qed

lemma largest_of_cases:
  assumes "left_child i < length h"
  shows "largest_of h i < length h"
    and "largest_of h i \<noteq> i \<Longrightarrow> 0 < largest_of h i \<and> parent (largest_of h i) = i \<and> key h i < key h (largest_of h i)"
    and "key h i \<le> key h (largest_of h i)"
    and "j < length h \<Longrightarrow> 0 < j \<Longrightarrow> parent j = i \<Longrightarrow> key h j \<le> key h (largest_of h i)"
  using assms children [of j i] children [of "largest_of h i" i]
  by (auto simp: largest_of_def Let_def left_child_def split: if_splits)

lemma siftDown_heap: "down_ok h i \<Longrightarrow> is_heap (siftDown h i) \<and> mset (siftDown h i) = mset h"
proof (induction h i rule: siftDown.induct)
  case (1 h i)
  have i: "i < length h" using "1.prems" by (simp add: down_ok_def)
  consider "\<not> left_child i < length h" | "left_child i < length h" "largest_of h i = i"
    | "left_child i < length h" "largest_of h i \<noteq> i" by blast
  then show ?case
  proof cases
    case 1
    then have "parent j \<noteq> i" if "j < length h" "0 < j" for j
      using children [of j i] that by auto
    then show ?thesis using 1 "1.prems" by (simp add: siftDown.simps [of h i] down_ok_def is_heap_def)
  next
    case 2
    have "key h j \<le> key h (parent j)" if "j < length h" "0 < j" for j
      using "1.prems" largest_of_cases(4) [OF 2(1) that] 2(2) that
      by (cases "parent j = i") (simp_all add: down_ok_def)
    then have "is_heap h" by (simp add: is_heap_def)
    then show ?thesis using 2 by (simp add: siftDown.simps [of h i])
  next
    case 3
    let ?m = "largest_of h i" and ?h = "swap h i (largest_of h i)"
    have m: "?m < length h" "0 < ?m" "parent ?m = i" "key h i < key h ?m"
      using largest_of_cases [OF 3(1)] 3(2) by blast+
    have nth: "?h ! k = (if k = ?m then h ! i else if k = i then h ! ?m else h ! k)" if "k < length h" for k
      using swap_nth [OF i m(1) that] .
    have im: "i \<noteq> ?m" using 3(2) by simp
    have "down_ok ?h ?m"
      unfolding down_ok_def
    proof (intro conjI allI impI)
      show "?m < length ?h" using m by simp
      fix j assume j: "j < length ?h" "0 < j"
      have pj: "parent j < length h" using j parent_less [of j] by simp
      have base: "parent j \<noteq> i \<Longrightarrow> key h j \<le> key h (parent j)"
        using "1.prems" j by (simp add: down_ok_def)
      have child: "parent j = i \<Longrightarrow> key h j \<le> key h ?m"
        using largest_of_cases(4) [OF 3(1)] j by simp
      show "key ?h j \<le> key ?h (parent j)" if "parent j \<noteq> ?m"
      proof (cases "j = i")
        case True
        then have "key h ?m \<le> key h (parent i)"
          using "1.prems" j m by (simp add: down_ok_def)
        moreover have "parent i \<noteq> i" using True j parent_less [of i] by auto
        ultimately show ?thesis using True j that nth [of j] nth [OF pj] im by simp
      next
        case False
        then show ?thesis
          using j that base child m nth [of j] nth [OF pj] im by (cases "parent j = i") auto
      qed
      show "key ?h j \<le> key ?h (parent ?m)" if "parent j = ?m"
        using j that base m nth [of j] nth [OF i] im parent_less [of j] by auto
    qed
    then have "is_heap (siftDown ?h ?m) \<and> mset (siftDown ?h ?m) = mset ?h"
      using "1.IH" [OF 3] by blast
    then show ?thesis using 3 m i by (simp add: siftDown.simps [of h i])
  qed
qed

lemma heap_root: "is_heap h \<Longrightarrow> j < length h \<Longrightarrow> key h j \<le> key h 0"
proof (induction j rule: less_induct)
  case (less j)
  show ?case
  proof (cases "j = 0")
    case False
    then have "key h j \<le> key h (parent j)" using less.prems by (simp add: is_heap_def)
    also have "\<dots> \<le> key h 0" using less False parent_less [of j] by simp
    finally show ?thesis .
  qed simp
qed

subsection \<open>The selection\<close>

lemma up_ok_snoc: "is_heap h \<Longrightarrow> up_ok (h @ [e]) (length h)"
  unfolding up_ok_def
proof (intro conjI allI impI)
  assume h: "is_heap h"
  fix j assume j: "j < length (h @ [e])" "0 < j"
  have p: "parent j < j" using parent_less [OF j(2)] .
  show "key (h @ [e]) j \<le> key (h @ [e]) (parent j)" if "j \<noteq> length h"
    using h j p that by (simp add: is_heap_def nth_append)
  show "key (h @ [e]) j \<le> key (h @ [e]) (parent (length h))" if "0 < length h" "parent j = length h"
    using j p that by simp
qed simp

lemma down_ok_root: "is_heap h \<Longrightarrow> h \<noteq> [] \<Longrightarrow> down_ok (h[0 := e]) 0"
  unfolding down_ok_def is_heap_def by (auto simp: nth_list_update)

definition selects :: "nat \<Rightarrow> mailbox_file list \<Rightarrow> mailbox_file list \<Rightarrow> bool" where
  "selects k P h \<longleftrightarrow> length h = min k (length P) \<and> mset h \<subseteq># mset P \<and>
     (\<forall>x\<in>#mset h. \<forall>y\<in>#mset P - mset h. mf_mtimeMs x \<le> mf_mtimeMs y)"

lemma heap_step_selects:
  assumes "0 < k" and "is_heap h" and "selects k P h"
  shows "is_heap (heap_step k h e) \<and> selects k (P @ [e]) (heap_step k h e)"
proof -
  have len: "length h = min k (length P)" and sub: "mset h \<subseteq># mset P"
    and old: "\<And>x y. x \<in># mset h \<Longrightarrow> y \<in># mset P - mset h \<Longrightarrow> mf_mtimeMs x \<le> mf_mtimeMs y"
    using assms(3) by (auto simp: selects_def)
  have root: "mf_mtimeMs x \<le> key h 0" if "x \<in> set h" for x
    using heap_root [OF assms(2)] that by (auto simp: in_set_conv_nth)
  consider "length h < k" | "k \<le> length h" "mf_mtimeMs e < key h 0" | "k \<le> length h" "\<not> mf_mtimeMs e < key h 0"
    by linarith
  then show ?thesis
  proof cases
    case 1
    have "size (mset h) = size (mset P)" using 1 len by simp
    then have all: "mset h = mset P" using sub by (metis subset_mset.le_less mset_subset_size less_irrefl)
    have up: "is_heap (siftUp (h @ [e]) (length h))" "mset (siftUp (h @ [e]) (length h)) = mset P + {#e#}"
      using siftUp_heap [OF up_ok_snoc [OF assms(2), of e]] all by simp_all
    moreover from up(2) have "length (siftUp (h @ [e]) (length h)) = length P + 1"
      by (metis size_mset size_add_mset add_mset_add_single Suc_eq_plus1)
    ultimately show ?thesis using 1 len by (auto simp: heap_step_def selects_def)
  next
    case 2
    have ne: "h \<noteq> []" using 2 assms(1) by auto
    let ?r = "h ! 0"
    have rin: "?r \<in># mset h" using ne by simp
    have down: "is_heap (siftDown (h[0 := e]) 0)" "mset (siftDown (h[0 := e]) 0) = add_mset e (mset h - {#?r#})"
      using siftDown_heap [OF down_ok_root [OF assms(2) ne, of e]] ne by (simp_all add: mset_update)
    have diff: "mset (P @ [e]) - add_mset e (mset h - {#?r#}) = add_mset ?r (mset P - mset h)"
      using rin sub by (simp add: multiset_eq_iff subseteq_mset_def) (metis Suc_diff_le add_diff_cancel_left' diff_Suc_Suc plus_1_eq_Suc)
    have size: "length (siftDown (h[0 := e]) 0) = length h"
      using down(2) rin by (metis size_mset size_add_mset size_Suc_Diff1)
    have sub': "add_mset e (mset h - {#?r#}) \<subseteq># mset (P @ [e])"
      using sub by (simp add: subset_mset.order_trans [OF diff_subset_eq_self])
    have "mf_mtimeMs x \<le> mf_mtimeMs y"
      if "x \<in># add_mset e (mset h - {#?r#})" "y \<in># add_mset ?r (mset P - mset h)" for x y
    proof -
      have x: "x = e \<or> x \<in># mset h" using that(1) by (auto dest: in_diffD)
      have y: "y = ?r \<or> y \<in># mset P - mset h" using that(2) by auto
      have "mf_mtimeMs x \<le> mf_mtimeMs ?r" using x 2(2) root by auto
      moreover have "mf_mtimeMs ?r \<le> mf_mtimeMs y" using y old [OF rin] by auto
      ultimately show ?thesis by simp
    qed
    then show ?thesis
      using 2 len size down sub' diff by (simp add: heap_step_def selects_def)
  next
    case 3
    have ne: "h \<noteq> []" using 3 assms(1) by auto
    have diff: "mset (P @ [e]) - mset h = add_mset e (mset P - mset h)"
      using multiset_diff_union_assoc [OF sub, of "{#e#}"] by simp
    have below: "mf_mtimeMs x \<le> mf_mtimeMs e" if "x \<in># mset h" for x
      using that root [of x] 3(2) by simp
    have "mset h \<subseteq># mset (P @ [e])" using subset_mset.order_trans [OF sub, of "mset (P @ [e])"] by simp
    moreover have "mf_mtimeMs x \<le> mf_mtimeMs y"
      if "x \<in># mset h" "y \<in># mset (P @ [e]) - mset h" for x y
      using that(2) old [OF that(1)] below [OF that(1)] unfolding diff by auto
    moreover have "heap_step k h e = h" using 3 by (simp add: heap_step_def)
    moreover have "length h = min k (length (P @ [e]))" using 3 len by simp
    ultimately show ?thesis using assms(2) by (simp only: selects_def) blast
  qed
qed

lemma fold_selects:
  "0 < k \<Longrightarrow> is_heap (foldl (heap_step k) [] P) \<and> selects k P (foldl (heap_step k) [] P)"
proof (induction P rule: rev_induct)
  case Nil
  then show ?case by (simp add: is_heap_def selects_def)
next
  case (snoc e P)
  then show ?case using heap_step_selects [of k "foldl (heap_step k) [] P" P e] by simp
qed

lemma selectOldest_facts:
  shows selectOldest_length: "length (selectOldestMailboxFiles entries k) = min (nat k) (length entries)"
    and selectOldest_sub: "mset (selectOldestMailboxFiles entries k) \<subseteq># mset entries"
    and selectOldest_oldest: "x \<in># mset (selectOldestMailboxFiles entries k) \<Longrightarrow>
      y \<in># mset entries - mset (selectOldestMailboxFiles entries k) \<Longrightarrow> mf_mtimeMs x \<le> mf_mtimeMs y"
proof -
  have "length (selectOldestMailboxFiles entries k) = min (nat k) (length entries) \<and>
     mset (selectOldestMailboxFiles entries k) \<subseteq># mset entries \<and>
     (\<forall>x\<in>#mset (selectOldestMailboxFiles entries k).
        \<forall>y\<in>#mset entries - mset (selectOldestMailboxFiles entries k). mf_mtimeMs x \<le> mf_mtimeMs y)"
  proof -
    consider "k \<le> 0 \<or> entries = []" | "0 < k" "entries \<noteq> []" "int (length entries) \<le> k"
      | "0 < k" "entries \<noteq> []" "k < int (length entries)" by linarith
    then show ?thesis
    proof cases
      case 3
      then show ?thesis
        using fold_selects [of "nat k" entries] by (auto simp: selectOldestMailboxFiles_def selects_def)
    qed (auto simp: selectOldestMailboxFiles_def)
  qed
  then show "length (selectOldestMailboxFiles entries k) = min (nat k) (length entries)"
    "mset (selectOldestMailboxFiles entries k) \<subseteq># mset entries"
    "x \<in># mset (selectOldestMailboxFiles entries k) \<Longrightarrow>
      y \<in># mset entries - mset (selectOldestMailboxFiles entries k) \<Longrightarrow> mf_mtimeMs x \<le> mf_mtimeMs y"
    by blast+
qed

text \<open>The heap-based selection returns what sorting would: exactly the requested number of entries
  (or all of them), each taken from the input, and none of them newer than any entry left out.\<close>

theorem selectOldest_correct:
  "length (selectOldestMailboxFiles entries k) = min (nat k) (length entries) \<and>
   mset (selectOldestMailboxFiles entries k) \<subseteq># mset entries \<and>
   (\<forall>x\<in>#mset (selectOldestMailboxFiles entries k).
      \<forall>y\<in>#mset entries - mset (selectOldestMailboxFiles entries k). mf_mtimeMs x \<le> mf_mtimeMs y)"
  using selectOldest_facts by blast

theorem selectOldest_correct_witness:
  "selectOldestMailboxFiles [\<lparr>mf_name = ''a'', mf_path = ''a'', mf_mailboxFileId = ''a'', mf_mtimeMs = 2\<rparr>,
       \<lparr>mf_name = ''b'', mf_path = ''b'', mf_mailboxFileId = ''b'', mf_mtimeMs = 1\<rparr>] 1 =
     [\<lparr>mf_name = ''b'', mf_path = ''b'', mf_mailboxFileId = ''b'', mf_mtimeMs = 1\<rparr>]"
proof -
  let ?a = "\<lparr>mf_name = ''a'', mf_path = ''a'', mf_mailboxFileId = ''a'', mf_mtimeMs = 2 :: rat\<rparr>"
  let ?b = "\<lparr>mf_name = ''b'', mf_path = ''b'', mf_mailboxFileId = ''b'', mf_mtimeMs = 1 :: rat\<rparr>"
  let ?s = "selectOldestMailboxFiles [?a, ?b] 1"
  have s: "length ?s = 1" "mset ?s \<subseteq># mset [?a, ?b]"
    "\<forall>x\<in>#mset ?s. \<forall>y\<in>#mset [?a, ?b] - mset ?s. mf_mtimeMs x \<le> mf_mtimeMs y"
    using selectOldest_correct [of "[?a, ?b]" 1] by auto
  then obtain x where x: "?s = [x]" by (auto simp: length_Suc_conv)
  with s(2) have "x = ?a \<or> x = ?b" by (auto dest!: mset_subset_eqD)
  moreover have "x \<noteq> ?a" using s(3) x by auto
  ultimately show ?thesis using x by simp
qed

end
