(* ===== verification/MailboxCleanup.thy ===== *)
theory MailboxCleanup
  imports MailboxId MailboxHeap
begin

text \<open>
  The mailbox retention pass (\<^verbatim>\<open>packages/trading-engine/src/broker/mt5/mailboxCleanup.ts\<close>).
  The file system is a parameter: the names a directory lists, the modification time of a file that
  can be read, and whether removing a path succeeds.  A directory is its current list of names, and the
  pass returns the paths it removed.
\<close>

subsection \<open>Configuration and decisions\<close>

record cleanup_config =
  replyRetentionSeconds :: rat
  processingRetentionSeconds :: rat
  orphanRetentionSeconds :: rat
  maxReplies :: int
  maxProcessing :: int

definition DEFAULT_MAILBOX_CLEANUP_CONFIG :: cleanup_config where
  "DEFAULT_MAILBOX_CLEANUP_CONFIG =
     \<lparr>replyRetentionSeconds = 600, processingRetentionSeconds = 600,
      orphanRetentionSeconds = 86400, maxReplies = 5000, maxProcessing = 1000\<rparr>"

datatype keep_reason = InFlight | Young | PendingWindow
datatype cleanup_decision = Keep keep_reason | Delete

definition decideProcessingCleanup :: "bool \<Rightarrow> rat \<Rightarrow> rat \<Rightarrow> cleanup_decision" where
  "decideProcessingCleanup inFlight ageMs processingRetentionMs =
     (if inFlight then Keep InFlight
      else if ageMs < processingRetentionMs then Keep Young else Delete)"

definition decideReplyCleanup :: "bool \<Rightarrow> rat \<Rightarrow> rat \<Rightarrow> cleanup_decision" where
  "decideReplyCleanup inFlight ageMs replyRetentionMs =
     (if inFlight then Keep InFlight
      else if ageMs < replyRetentionMs then Keep Young else Delete)"

definition decidePendingCleanup :: "bool \<Rightarrow> rat \<Rightarrow> rat \<Rightarrow> cleanup_decision" where
  "decidePendingCleanup inFlight ageMs orphanRetentionMs =
     (if inFlight then Keep InFlight
      else if ageMs < orphanRetentionMs then Keep PendingWindow else Delete)"

datatype dir_kind = Replies | Processing | Pending

record cleanup_counters =
  scannedProcessing :: nat
  scannedReplies :: nat
  scannedPending :: nat
  deletedProcessing :: nat
  deletedReplies :: nat
  deletedPending :: nat
  keptInFlight :: nat
  keptYoung :: nat
  cleanupErrors :: nat

definition emptyCounters :: cleanup_counters where
  "emptyCounters =
     \<lparr>scannedProcessing = 0, scannedReplies = 0, scannedPending = 0, deletedProcessing = 0,
      deletedReplies = 0, deletedPending = 0, keptInFlight = 0, keptYoung = 0, cleanupErrors = 0\<rparr>"

fun count_scanned :: "dir_kind \<Rightarrow> cleanup_counters \<Rightarrow> cleanup_counters" where
  "count_scanned Processing cs = cs\<lparr>scannedProcessing := scannedProcessing cs + 1\<rparr>"
| "count_scanned Replies cs = cs\<lparr>scannedReplies := scannedReplies cs + 1\<rparr>"
| "count_scanned Pending cs = cs\<lparr>scannedPending := scannedPending cs + 1\<rparr>"

fun count_deleted :: "dir_kind \<Rightarrow> cleanup_counters \<Rightarrow> cleanup_counters" where
  "count_deleted Processing cs = cs\<lparr>deletedProcessing := deletedProcessing cs + 1\<rparr>"
| "count_deleted Replies cs = cs\<lparr>deletedReplies := deletedReplies cs + 1\<rparr>"
| "count_deleted Pending cs = cs\<lparr>deletedPending := deletedPending cs + 1\<rparr>"

fun count_kept :: "keep_reason \<Rightarrow> cleanup_counters \<Rightarrow> cleanup_counters" where
  "count_kept InFlight cs = cs\<lparr>keptInFlight := keptInFlight cs + 1\<rparr>"
| "count_kept _ cs = cs\<lparr>keptYoung := keptYoung cs + 1\<rparr>"

definition count_error :: "cleanup_counters \<Rightarrow> cleanup_counters" where
  "count_error cs = cs\<lparr>cleanupErrors := cleanupErrors cs + 1\<rparr>"

subsection \<open>Scanning\<close>

definition isPartialMailboxFile :: "string \<Rightarrow> bool" where
  "isPartialMailboxFile fname \<longleftrightarrow> starts_with ''.tmp-'' fname \<or> \<not> ends_with ''.json'' fname"

definition isUnsafePhysicalMailboxName :: "string \<Rightarrow> bool" where
  "isUnsafePhysicalMailboxName fname =
     (if isPartialMailboxFile fname then False else mailboxFileIdFromFilename fname = None)"

definition scan_one :: "string \<Rightarrow> (string \<Rightarrow> rat option) \<Rightarrow> string \<Rightarrow> mailbox_file list" where
  "scan_one dir stat_mtime fname =
     (if \<not> ends_with ''.json'' fname \<or> isPartialMailboxFile fname then []
      else case mailboxFileIdFromFilename fname of
          None \<Rightarrow> []
        | Some ident \<Rightarrow>
            let path = dir @ ''/'' @ fname
            in (case stat_mtime path of
                  None \<Rightarrow> []
                | Some t \<Rightarrow>
                    [\<lparr>mf_name = fname, mf_path = path, mf_mailboxFileId = ident, mf_mtimeMs = t\<rparr>]))"

definition scanMailboxJsonFiles :: "string \<Rightarrow> (string \<Rightarrow> rat option) \<Rightarrow> string list \<Rightarrow> mailbox_file list" where
  "scanMailboxJsonFiles dir stat_mtime fnames = concat (List.map (scan_one dir stat_mtime) fnames)"

subsection \<open>One directory\<close>

text \<open>The first loop: each entry is removed, kept, or kept because its removal failed.\<close>

fun age_loop ::
  "dir_kind \<Rightarrow> (mailbox_file \<Rightarrow> cleanup_decision) \<Rightarrow> (string \<Rightarrow> bool) \<Rightarrow> mailbox_file list \<Rightarrow>
     cleanup_counters \<Rightarrow> string list \<times> mailbox_file list \<times> cleanup_counters" where
  "age_loop kind decide unlinks [] cs = ([], [], cs)"
| "age_loop kind decide unlinks (e # es) cs =
     (case decide e of
        Delete \<Rightarrow>
          if unlinks (mf_path e)
          then (let (removed, survivors, cs') =
                      age_loop kind decide unlinks es (count_deleted kind (count_scanned kind cs))
                in (mf_path e # removed, survivors, cs'))
          else (let (removed, survivors, cs') =
                      age_loop kind decide unlinks es (count_error (count_scanned kind cs))
                in (removed, e # survivors, cs'))
      | Keep r \<Rightarrow>
          (let (removed, survivors, cs') =
                 age_loop kind decide unlinks es (count_kept r (count_scanned kind cs))
           in (removed, e # survivors, cs')))"

fun unlink_all ::
  "dir_kind \<Rightarrow> (string \<Rightarrow> bool) \<Rightarrow> mailbox_file list \<Rightarrow> cleanup_counters \<Rightarrow> string list \<times> cleanup_counters" where
  "unlink_all kind unlinks [] cs = ([], cs)"
| "unlink_all kind unlinks (e # es) cs =
     (if unlinks (mf_path e)
      then (let (removed, cs') = unlink_all kind unlinks es (count_deleted kind cs)
            in (mf_path e # removed, cs'))
      else unlink_all kind unlinks es (count_error cs))"

record dir_result =
  dr_before :: nat
  dr_after :: int
  dr_hardCapTriggered :: bool
  dr_removed :: "string list"
  dr_counters :: cleanup_counters

definition cleanupMailboxDirectory ::
  "dir_kind \<Rightarrow> mailbox_file list \<Rightarrow> int \<Rightarrow> string list \<Rightarrow> cleanup_counters \<Rightarrow>
     (mailbox_file \<Rightarrow> cleanup_decision) \<Rightarrow> (string \<Rightarrow> bool) \<Rightarrow> dir_result" where
  "cleanupMailboxDirectory kind entries maxFiles inFlightIds counters decide unlinks =
     (let (removed, survivors, cs) = age_loop kind decide unlinks entries counters;
          capCandidates = filter (\<lambda>e. mf_mailboxFileId e \<notin> set inFlightIds) survivors;
          over = maxFiles < int (length capCandidates);
          toDelete = (if over
             then selectOldestMailboxFiles capCandidates (int (length capCandidates) - maxFiles) else []);
          (capped, cs') = unlink_all kind unlinks toDelete cs;
          all_removed = removed @ capped
      in \<lparr>dr_before = length entries, dr_after = int (length entries) - int (length all_removed),
          dr_hardCapTriggered = over, dr_removed = all_removed, dr_counters = cs'\<rparr>)"

subsection \<open>The pass\<close>

text \<open>A file system in which listing may fail (an empty list), reading may fail, removal may fail.\<close>

record mailbox_fs =
  fs_replies :: "string list"
  fs_processing :: "string list"
  fs_pending :: "string list"
  fs_mtime :: "string \<Rightarrow> rat option"
  fs_unlinks :: "string \<Rightarrow> bool"
  fs_accessible :: bool

record pass_result =
  pr_counters :: cleanup_counters
  pr_replyCountBefore :: nat
  pr_replyCountAfter :: int
  pr_processingCountBefore :: nat
  pr_processingCountAfter :: int
  pr_hardCapTriggeredReplies :: bool
  pr_hardCapTriggeredProcessing :: bool
  pr_oldestProcessingAgeMs :: "rat option"
  pr_error :: bool
  pr_removed :: "string list"

definition MAX_SAFE_INTEGER :: int where "MAX_SAFE_INTEGER = 2 ^ 53 - 1"

definition oldest_age :: "rat \<Rightarrow> mailbox_file list \<Rightarrow> rat option" where
  "oldest_age nowMs es =
     foldl (\<lambda>acc e. let age = nowMs - mf_mtimeMs e
                    in case acc of None \<Rightarrow> Some age | Some a \<Rightarrow> if a < age then Some age else acc) None es"

definition decide_with ::
  "(bool \<Rightarrow> rat \<Rightarrow> rat \<Rightarrow> cleanup_decision) \<Rightarrow> string list \<Rightarrow> rat \<Rightarrow> rat \<Rightarrow> mailbox_file \<Rightarrow> cleanup_decision" where
  "decide_with decide inFlightIds nowMs seconds e =
     decide (mf_mailboxFileId e \<in> set inFlightIds) (nowMs - mf_mtimeMs e) (seconds * 1000)"

definition runMailboxCleanupPass ::
  "mailbox_fs \<Rightarrow> string \<Rightarrow> cleanup_config \<Rightarrow> string list \<Rightarrow> rat \<Rightarrow> pass_result" where
  "runMailboxCleanupPass fs base cfg inFlightIds nowMs =
     (if \<not> fs_accessible fs
      then \<lparr>pr_counters = count_error emptyCounters, pr_replyCountBefore = 0, pr_replyCountAfter = 0,
            pr_processingCountBefore = 0, pr_processingCountAfter = 0,
            pr_hardCapTriggeredReplies = False, pr_hardCapTriggeredProcessing = False,
            pr_oldestProcessingAgeMs = None, pr_error = True, pr_removed = []\<rparr>
      else
        let replies = scanMailboxJsonFiles (base @ ''/replies'') (fs_mtime fs) (fs_replies fs);
            processing = scanMailboxJsonFiles (base @ ''/commands/processing'') (fs_mtime fs) (fs_processing fs);
            pending = scanMailboxJsonFiles (base @ ''/commands/pending'') (fs_mtime fs) (fs_pending fs);
            r1 = cleanupMailboxDirectory Replies replies (maxReplies cfg) inFlightIds emptyCounters
              (decide_with decideReplyCleanup inFlightIds nowMs (replyRetentionSeconds cfg)) (fs_unlinks fs);
            r2 = cleanupMailboxDirectory Processing processing (maxProcessing cfg) inFlightIds (dr_counters r1)
              (decide_with decideProcessingCleanup inFlightIds nowMs (processingRetentionSeconds cfg)) (fs_unlinks fs);
            r3 = cleanupMailboxDirectory Pending pending MAX_SAFE_INTEGER inFlightIds (dr_counters r2)
              (decide_with decidePendingCleanup inFlightIds nowMs (orphanRetentionSeconds cfg)) (fs_unlinks fs)
        in \<lparr>pr_counters = dr_counters r3, pr_replyCountBefore = dr_before r1,
            pr_replyCountAfter = dr_after r1, pr_processingCountBefore = dr_before r2,
            pr_processingCountAfter = dr_after r2,
            pr_hardCapTriggeredReplies = dr_hardCapTriggered r1,
            pr_hardCapTriggeredProcessing = dr_hardCapTriggered r2,
            pr_oldestProcessingAgeMs = oldest_age nowMs processing, pr_error = False,
            pr_removed = dr_removed r1 @ dr_removed r2 @ dr_removed r3\<rparr>)"

subsection \<open>The runtime state\<close>

record cleanup_state =
  lastSuccessAt :: "rat option"
  lastError :: "string option"
  consecutiveFailures :: nat

definition mailboxCleanupHealthy :: "cleanup_state \<Rightarrow> rat \<Rightarrow> rat \<Rightarrow> bool" where
  "mailboxCleanupHealthy st intervalSeconds nowMs =
     (case lastSuccessAt st of
        None \<Rightarrow> lastError st = None
      | Some t \<Rightarrow> let maxAge = max (intervalSeconds * 3000) 180000
                  in consecutiveFailures st = 0 \<and> nowMs - t \<le> maxAge)"

record cleanup_env =
  env_replySeconds :: "rat option"
  env_processingSeconds :: "rat option"
  env_orphanSeconds :: "rat option"
  env_replyMinutes :: "rat option"
  env_processingMinutes :: "rat option"
  env_orphanMinutes :: "rat option"
  env_maxReplies :: "int option"
  env_maxProcessing :: "int option"

definition retention :: "rat option \<Rightarrow> rat option \<Rightarrow> rat \<Rightarrow> rat" where
  "retention seconds minutes dflt =
     or_default seconds (case minutes of Some m \<Rightarrow> m * 60 | None \<Rightarrow> dflt)"

definition mailboxCleanupConfigFromEnv :: "cleanup_env \<Rightarrow> cleanup_config" where
  "mailboxCleanupConfigFromEnv env =
     (let d = DEFAULT_MAILBOX_CLEANUP_CONFIG
      in \<lparr>replyRetentionSeconds = retention (env_replySeconds env) (env_replyMinutes env) (replyRetentionSeconds d),
          processingRetentionSeconds = retention (env_processingSeconds env) (env_processingMinutes env) (processingRetentionSeconds d),
          orphanRetentionSeconds = retention (env_orphanSeconds env) (env_orphanMinutes env) (orphanRetentionSeconds d),
          maxReplies = or_default (env_maxReplies env) (maxReplies d),
          maxProcessing = or_default (env_maxProcessing env) (maxProcessing d)\<rparr>)"

subsection \<open>Retention policies\<close>

text \<open>What the pass relies on in a decision: an entry in flight is kept, and a decision to delete an
  entry means it is not in flight and its age reached the retention time.\<close>

locale retention_policy =
  fixes decide :: "bool \<Rightarrow> rat \<Rightarrow> rat \<Rightarrow> cleanup_decision"
  assumes delete_iff: "decide flying age keep_for = Delete \<longleftrightarrow> \<not> flying \<and> keep_for \<le> age"
begin

lemma flying_kept: "decide True age keep_for \<noteq> Delete"
  by (simp add: delete_iff)

lemma delete_monotone: "decide flying a keep_for = Delete \<Longrightarrow> a \<le> b \<Longrightarrow> decide flying b keep_for = Delete"
  by (auto simp: delete_iff)

lemma decide_with_delete:
  "decide_with decide inFlightIds nowMs s e = Delete \<longleftrightarrow>
     mf_mailboxFileId e \<notin> set inFlightIds \<and> s * 1000 \<le> nowMs - mf_mtimeMs e"
  by (simp add: decide_with_def delete_iff)

end

interpretation replies: retention_policy decideReplyCleanup
  by unfold_locales (auto simp: decideReplyCleanup_def)

interpretation processing: retention_policy decideProcessingCleanup
  by unfold_locales (auto simp: decideProcessingCleanup_def)

interpretation pending: retention_policy decidePendingCleanup
  by unfold_locales (auto simp: decidePendingCleanup_def)

lemma age_loop_removed:
  assumes "age_loop kind decide unlinks es cs = (removed, survivors, cs')"
  shows "removed = List.map mf_path (filter (\<lambda>e. decide e = Delete \<and> unlinks (mf_path e)) es) \<and>
    survivors = filter (\<lambda>e. \<not> (decide e = Delete \<and> unlinks (mf_path e))) es"
  using assms
proof (induction es arbitrary: cs removed survivors cs')
  case (Cons e es)
  then show ?case
    by (cases "decide e")
      (auto simp: Let_def split: prod.splits if_splits)
qed simp

lemma unlink_all_removed:
  "fst (unlink_all kind unlinks es cs) = List.map mf_path (filter (\<lambda>e. unlinks (mf_path e)) es)"
  by (induction es arbitrary: cs) (simp_all add: case_prod_beta Let_def)

definition age_deleted :: "(mailbox_file \<Rightarrow> cleanup_decision) \<Rightarrow> (string \<Rightarrow> bool) \<Rightarrow> mailbox_file list \<Rightarrow> mailbox_file list" where
  "age_deleted decide unlinks es = filter (\<lambda>e. decide e = Delete \<and> unlinks (mf_path e)) es"

definition candidates :: "(mailbox_file \<Rightarrow> cleanup_decision) \<Rightarrow> (string \<Rightarrow> bool) \<Rightarrow> string list \<Rightarrow> mailbox_file list \<Rightarrow> mailbox_file list" where
  "candidates decide unlinks inFlightIds es =
     filter (\<lambda>e. mf_mailboxFileId e \<notin> set inFlightIds)
       (filter (\<lambda>e. \<not> (decide e = Delete \<and> unlinks (mf_path e))) es)"

definition over_cap :: "int \<Rightarrow> mailbox_file list \<Rightarrow> mailbox_file list" where
  "over_cap maxFiles cands =
     (if maxFiles < int (length cands) then selectOldestMailboxFiles cands (int (length cands) - maxFiles) else [])"

lemma dir_removed:
  "dr_removed (cleanupMailboxDirectory kind es maxFiles ids cs decide unlinks) =
     List.map mf_path (age_deleted decide unlinks es) @
     List.map mf_path (filter (\<lambda>e. unlinks (mf_path e)) (over_cap maxFiles (candidates decide unlinks ids es)))"
proof -
  obtain removed survivors cs1 where loop: "age_loop kind decide unlinks es cs = (removed, survivors, cs1)"
    by (cases "age_loop kind decide unlinks es cs")
  have "removed = List.map mf_path (age_deleted decide unlinks es)"
    "survivors = filter (\<lambda>e. \<not> (decide e = Delete \<and> unlinks (mf_path e))) es"
    using age_loop_removed [OF loop] by (simp_all add: age_deleted_def)
  note rs = this
  show ?thesis
    unfolding cleanupMailboxDirectory_def loop Let_def prod.case rs candidates_def [symmetric] over_cap_def [symmetric]
    by (simp add: case_prod_beta unlink_all_removed)
qed

lemma dir_after:
  "dr_after (cleanupMailboxDirectory kind es maxFiles ids cs decide unlinks) =
     int (length es) - int (length (dr_removed (cleanupMailboxDirectory kind es maxFiles ids cs decide unlinks)))"
  by (simp add: cleanupMailboxDirectory_def Let_def case_prod_beta)

lemma over_cap_sub: "set (over_cap m cands) \<subseteq> set cands"
  using set_mset_mono [OF selectOldest_sub [of cands "int (length cands) - m"]]
  by (auto simp: over_cap_def)

lemma over_cap_length: "0 \<le> m \<Longrightarrow> int (length cands) - int (length (over_cap m cands)) \<le> m"
  by (simp add: over_cap_def selectOldest_length min_def)

lemma dir_removed_not_flying:
  assumes "\<And>e. decide e = Delete \<Longrightarrow> mf_mailboxFileId e \<notin> set ids"
    and "p \<in> set (dr_removed (cleanupMailboxDirectory kind es maxFiles ids cs decide unlinks))"
  shows "\<exists>e\<in>set es. mf_path e = p \<and> mf_mailboxFileId e \<notin> set ids"
  using assms over_cap_sub [of maxFiles "candidates decide unlinks ids es"]
  by (fastforce simp: dir_removed age_deleted_def candidates_def)

subsection \<open>Properties\<close>

definition scanned_files :: "mailbox_fs \<Rightarrow> string \<Rightarrow> mailbox_file list" where
  "scanned_files fs base =
     scanMailboxJsonFiles (base @ ''/replies'') (fs_mtime fs) (fs_replies fs)
     @ scanMailboxJsonFiles (base @ ''/commands/processing'') (fs_mtime fs) (fs_processing fs)
     @ scanMailboxJsonFiles (base @ ''/commands/pending'') (fs_mtime fs) (fs_pending fs)"


text \<open>One directory under a retention policy: without the hard cap only entries the policy deletes
  are removed, and when removals succeed at most the configured number of files remains beside those
  in flight; the reported count afterwards is the number of entries not removed.\<close>

theorem hard_cap_bounds_directory:
  fixes kind :: dir_kind and es :: "mailbox_file list" and cs :: cleanup_counters
  assumes "\<forall>p. unlinks p" and "0 \<le> maxFiles" and "\<forall>e. decide e = Delete \<longrightarrow> mf_mailboxFileId e \<notin> set ids"
  defines "r \<equiv> cleanupMailboxDirectory kind es maxFiles ids cs decide unlinks"
  shows "dr_after r \<le> maxFiles + int (length (filter (\<lambda>e. mf_mailboxFileId e \<in> set ids) es)) \<and>
    dr_after r = int (length es) - int (length (dr_removed r)) \<and>
    (\<not> dr_hardCapTriggered r \<longrightarrow> dr_removed r = List.map mf_path (filter (\<lambda>e. decide e = Delete) es))"
proof -
  let ?c = "candidates decide unlinks ids es"
  have rem: "dr_removed r = List.map mf_path (age_deleted decide unlinks es) @ List.map mf_path (over_cap maxFiles ?c)"
    using assms(1) by (simp add: r_def dir_removed)
  have "length es = length (age_deleted decide unlinks es) + length ?c +
      length (filter (\<lambda>e. mf_mailboxFileId e \<in> set ids) es)"
    using assms(1,3) by (induction es) (auto simp: age_deleted_def candidates_def)
  then have after: "dr_after r = int (length ?c) - int (length (over_cap maxFiles ?c)) +
      int (length (filter (\<lambda>e. mf_mailboxFileId e \<in> set ids) es))"
    using dir_after [of kind es maxFiles ids cs decide unlinks] rem by (simp add: r_def)
  have trig: "dr_hardCapTriggered r \<longleftrightarrow> maxFiles < int (length ?c)"
  proof -
    obtain removed survivors cs1 where loop: "age_loop kind decide unlinks es cs = (removed, survivors, cs1)"
      by (cases "age_loop kind decide unlinks es cs")
    show ?thesis
      using age_loop_removed [OF loop]
      by (simp add: r_def cleanupMailboxDirectory_def loop Let_def case_prod_beta candidates_def)
  qed
  show ?thesis
    using after over_cap_length [OF assms(2), of ?c] dir_after [of kind es maxFiles ids cs decide unlinks]
      trig rem assms(1)
    by (auto simp: r_def over_cap_def age_deleted_def)
qed

definition demo_fs :: mailbox_fs where
  "demo_fs = \<lparr>fs_replies = [''a.json'', ''b.json''], fs_processing = [], fs_pending = [],
     fs_mtime = (\<lambda>_. Some 0), fs_unlinks = (\<lambda>_. True), fs_accessible = True\<rparr>"


theorem hard_cap_bounds_directory_witness:
  "dr_after (cleanupMailboxDirectory Replies (scanned_files demo_fs ''m'') 1 [] emptyCounters
      (\<lambda>_. Keep Young) (\<lambda>_. True)) \<le> 1"
  using hard_cap_bounds_directory [of "\<lambda>_. True" 1 "\<lambda>_. Keep Young" "[]" Replies "scanned_files demo_fs ''m''" emptyCounters]
  by simp

end
