(* ===== verification/Watchdog.thy ===== *)
theory Watchdog
  imports Circuit
begin

text \<open>
  The quote watchdog of the MT5 feed
  (\<^verbatim>\<open>packages/trading-engine/src/broker/mt5/mt5QuoteWatchdog.ts\<close>).  Clock readings are
  \<^typ>\<open>int\<close>; a broker quote timestamp is a number that may be missing or not finite.
\<close>

subsection \<open>Poll health\<close>

definition MT5_QUOTE_FEED_UNAVAILABLE :: string where "MT5_QUOTE_FEED_UNAVAILABLE = ''MT5_QUOTE_FEED_UNAVAILABLE''"
definition MT5_BRIDGE_CIRCUIT_OPEN :: string where "MT5_BRIDGE_CIRCUIT_OPEN = ''MT5_BRIDGE_CIRCUIT_OPEN''"
definition MT5_BROKER_QUOTE_STALE :: string where "MT5_BROKER_QUOTE_STALE = ''MT5_BROKER_QUOTE_STALE''"
definition MT5_MARKET_DATA_STALE :: string where "MT5_MARKET_DATA_STALE = ''MT5_MARKET_DATA_STALE''"
definition MT5_SYMBOL_MARKET_CLOSED :: string where "MT5_SYMBOL_MARKET_CLOSED = ''MT5_SYMBOL_MARKET_CLOSED''"
definition MT5_SYMBOL_QUOTE_UNAVAILABLE :: string where "MT5_SYMBOL_QUOTE_UNAVAILABLE = ''MT5_SYMBOL_QUOTE_UNAVAILABLE''"

definition SYMBOL_LOCAL_ERROR_CODES :: "string list" where
  "SYMBOL_LOCAL_ERROR_CODES = [MT5_SYMBOL_MARKET_CLOSED, MT5_SYMBOL_QUOTE_UNAVAILABLE]"

definition isMt5SymbolLocalQuoteError :: "string option \<Rightarrow> bool" where
  "isMt5SymbolLocalQuoteError code = some_and code (\<lambda>c. c \<in> set SYMBOL_LOCAL_ERROR_CODES)"

record poll_health =
  lastQuotePollAttemptAt :: "int option"
  lastQuotePollSuccessAt :: "int option"
  consecutiveQuotePollFailures :: nat
  lastQuotePollErrorCode :: "string option"
  lastBrokerQuoteTimestamp :: "jsnum option"

definition createMt5QuotePollHealth :: poll_health where
  "createMt5QuotePollHealth =
     \<lparr>lastQuotePollAttemptAt = None, lastQuotePollSuccessAt = None, consecutiveQuotePollFailures = 0,
      lastQuotePollErrorCode = None, lastBrokerQuoteTimestamp = None\<rparr>"

definition recordMt5QuotePollAttempt :: "int \<Rightarrow> poll_health \<Rightarrow> poll_health" where
  "recordMt5QuotePollAttempt now h = h\<lparr>lastQuotePollAttemptAt := Some now\<rparr>"

definition recordMt5QuotePollSuccess :: "jsnum \<Rightarrow> int \<Rightarrow> poll_health \<Rightarrow> poll_health" where
  "recordMt5QuotePollSuccess brokerQuoteTimestamp now h =
     h\<lparr>lastQuotePollSuccessAt := Some now, consecutiveQuotePollFailures := 0,
       lastQuotePollErrorCode := None, lastBrokerQuoteTimestamp := Some brokerQuoteTimestamp\<rparr>"

definition recordMt5QuotePollFailure :: "string \<Rightarrow> jsnum option \<Rightarrow> poll_health \<Rightarrow> poll_health" where
  "recordMt5QuotePollFailure errorCode brokerQuoteTimestamp h =
     (let h' = h\<lparr>consecutiveQuotePollFailures := consecutiveQuotePollFailures h + 1,
                 lastQuotePollErrorCode := Some errorCode\<rparr>
      in if some_and brokerQuoteTimestamp is_finite
         then h'\<lparr>lastBrokerQuoteTimestamp := brokerQuoteTimestamp\<rparr> else h')"

definition isBrokerQuoteTimestampStale :: "jsnum option \<Rightarrow> int \<Rightarrow> jsnum \<Rightarrow> bool" where
  "isBrokerQuoteTimestampStale brokerQuoteTimestamp now maxAgeMs =
     (case brokerQuoteTimestamp of
        None \<Rightarrow> True
      | Some t \<Rightarrow>
          if \<not> is_finite t then True
          else if \<not> 0 < maxAgeMs then False
          else maxAgeMs < Fin (of_int now) - t)"

subsection \<open>The evaluation\<close>

record watchdog_input =
  wi_now :: int
  wi_staleDataMs :: jsnum
  wi_brokerQuoteMaxAgeMs :: jsnum
  wi_circuitState :: circuit_state
  wi_health :: poll_health
  wi_lastTickAt :: "int option"

record watchdog_evaluation =
  we_shouldDegradeShared :: bool
  we_symbolTradable :: bool
  we_reasonCode :: "string option"

definition elapsed_more :: "int \<Rightarrow> int \<Rightarrow> jsnum \<Rightarrow> bool" where
  "elapsed_more now t limit \<longleftrightarrow> limit < Fin (of_int (now - t))"

definition evaluateMt5QuoteWatchdog :: "watchdog_input \<Rightarrow> watchdog_evaluation" where
  "evaluateMt5QuoteWatchdog inp =
     (let now = wi_now inp; health = wi_health inp;
          pack = (\<lambda>d t r. \<lparr>we_shouldDegradeShared = d, we_symbolTradable = t, we_reasonCode = r\<rparr>)
      in if wi_circuitState inp = OPEN then pack True False (Some MT5_BRIDGE_CIRCUIT_OPEN)
         else if isMt5SymbolLocalQuoteError (lastQuotePollErrorCode health)
         then pack False False (lastQuotePollErrorCode health)
         else if (case lastQuotePollSuccessAt health of None \<Rightarrow> True
                  | Some t \<Rightarrow> elapsed_more now t (wi_staleDataMs inp))
         then pack True False (Some MT5_QUOTE_FEED_UNAVAILABLE)
         else if isBrokerQuoteTimestampStale (lastBrokerQuoteTimestamp health) now
                   (wi_brokerQuoteMaxAgeMs inp)
         then pack True False (Some MT5_BROKER_QUOTE_STALE)
         else if some_and (wi_lastTickAt inp) (\<lambda>t. elapsed_more now t (wi_staleDataMs inp))
         then pack True False (Some MT5_MARKET_DATA_STALE)
         else pack False True None)"

subsection \<open>The shared row\<close>

record session_health =
  sh_symbol :: string
  sh_shouldDegradeShared :: bool
  sh_reasonCode :: "string option"
  sh_symbolTradable :: bool
  sh_lastTickAt :: "int option"

record aggregate_health =
  ah_sharedDegraded :: bool
  ah_canRecoverShared :: bool
  ah_reasonCode :: "string option"
  ah_degradedSymbols :: "string list"
  ah_nonTradableSymbols :: "string list"
  ah_newestLastTickAt :: "int option"

fun newest_tick :: "int option \<Rightarrow> session_health list \<Rightarrow> int option" where
  "newest_tick acc [] = acc"
| "newest_tick acc (s # ss) =
     newest_tick
       (case (sh_lastTickAt s, acc) of
          (Some t, None) \<Rightarrow> Some t
        | (Some t, Some a) \<Rightarrow> if a < t then Some t else Some a
        | (None, _) \<Rightarrow> acc) ss"

definition aggregateMt5SessionHealth :: "session_health list \<Rightarrow> aggregate_health" where
  "aggregateMt5SessionHealth sessions =
     (let degraded = filter sh_shouldDegradeShared sessions;
          nonTradable = filter (\<lambda>s. \<not> sh_symbolTradable s) sessions;
          sharedDegraded = (0 < length degraded)
      in \<lparr>ah_sharedDegraded = sharedDegraded, ah_canRecoverShared = (\<not> sharedDegraded),
          ah_reasonCode = (case degraded of [] \<Rightarrow> None | s # _ \<Rightarrow> sh_reasonCode s),
          ah_degradedSymbols = List.map sh_symbol degraded,
          ah_nonTradableSymbols = List.map sh_symbol nonTradable,
          ah_newestLastTickAt = newest_tick None sessions\<rparr>)"

subsection \<open>Properties\<close>

lemma local_error_some: "isMt5SymbolLocalQuoteError c \<Longrightarrow> c \<noteq> None"
  by (cases c) (simp_all add: isMt5SymbolLocalQuoteError_def)

text \<open>A symbol is tradable exactly when the circuit is not open, the last poll error is not local to
  the symbol, a poll succeeded recently, the broker quote is finite and recent, and the last trusted
  tick, if any, is recent; a symbol that is not tradable degrades the shared row exactly when the
  circuit is open or the error is not local to the symbol, and always carries a reason.\<close>

theorem watchdog_fails_closed:
  "(we_symbolTradable (evaluateMt5QuoteWatchdog inp) \<longleftrightarrow>
      wi_circuitState inp \<noteq> OPEN \<and> \<not> isMt5SymbolLocalQuoteError (lastQuotePollErrorCode (wi_health inp)) \<and>
      (\<exists>t. lastQuotePollSuccessAt (wi_health inp) = Some t \<and> \<not> elapsed_more (wi_now inp) t (wi_staleDataMs inp)) \<and>
      \<not> isBrokerQuoteTimestampStale (lastBrokerQuoteTimestamp (wi_health inp)) (wi_now inp) (wi_brokerQuoteMaxAgeMs inp) \<and>
      \<not> some_and (wi_lastTickAt inp) (\<lambda>t. elapsed_more (wi_now inp) t (wi_staleDataMs inp))) \<and>
    (we_shouldDegradeShared (evaluateMt5QuoteWatchdog inp) \<longleftrightarrow> \<not> we_symbolTradable (evaluateMt5QuoteWatchdog inp) \<and>
      \<not> (wi_circuitState inp \<noteq> OPEN \<and> isMt5SymbolLocalQuoteError (lastQuotePollErrorCode (wi_health inp)))) \<and>
    (we_reasonCode (evaluateMt5QuoteWatchdog inp) = None \<longleftrightarrow> we_symbolTradable (evaluateMt5QuoteWatchdog inp))"
  unfolding evaluateMt5QuoteWatchdog_def Let_def
  using local_error_some [of "lastQuotePollErrorCode (wi_health inp)"]
  by (auto split: option.splits)

end
