(* ===== verification/ExecIntegrity.thy ===== *)
theory ExecIntegrity
  imports MailboxId
begin

text \<open>
  Failure classification, retry policy and frozen parameters of MT5 executions
  (\<^verbatim>\<open>packages/trading-engine/src/broker/mt5/executionIntegrity.ts\<close>), the capacity and transition
  tables (\<^verbatim>\<open>mt5Capacity.ts\<close>), position ownership (\<^verbatim>\<open>ownership.ts\<close>), and the strategy signal
  cooldown (\<^verbatim>\<open>strategySignalCooldown.ts\<close>).  States, statuses and codes are strings, as in the code.
\<close>

subsection \<open>Failure classification\<close>

datatype failure_class = SAFE_TO_RETRY | DO_NOT_RETRY | AMBIGUOUS_FAILURE

definition AMBIGUOUS_TIMEOUT_QUERY_BEFORE_RESUBMIT :: string where
  "AMBIGUOUS_TIMEOUT_QUERY_BEFORE_RESUBMIT = ''AMBIGUOUS_TIMEOUT_QUERY_BEFORE_RESUBMIT''"

definition DO_NOT_RETRY_CODES :: "string list" where
  "DO_NOT_RETRY_CODES =
     [''STOP_INVALID'', ''MT5_INVALID_STOP_DISTANCE_PRECHECK'', ''MT5_STOP_METADATA_UNAVAILABLE'',
      ''MT5_SYMBOL_NOT_TRADEABLE'', ''MT5_ORDER_TYPE_UNSUPPORTED'', ''FILLING_MODE_UNSUPPORTED'',
      ''RISK_EXCEEDS_MT5_MAX_TEST_RISK_PERCENT'', ''STOP_LOSS_REQUIRED'', ''TAKE_PROFIT_REQUIRED'',
      ''DUPLICATE_IN_FLIGHT'', ''ORDER_REJECTED'', ''STALE_QUOTE'', ''INSTRUMENT_METADATA_MISSING'']"

definition AMBIGUOUS_CODES :: "string list" where
  "AMBIGUOUS_CODES =
     [AMBIGUOUS_TIMEOUT_QUERY_BEFORE_RESUBMIT, ''MT5_EA_TIMEOUT'', ''MT5_BRIDGE_TIMEOUT'',
      ''MT5_MAILBOX_IO_TIMEOUT'', ''MT5_BRIDGE_UNAVAILABLE'', ''MT5_MAILBOX_BACKLOG'']"

definition classifyOpenMarketFailure :: "string list \<Rightarrow> failure_class" where
  "classifyOpenMarketFailure reasons =
     (if list_ex (\<lambda>r. r \<in> set AMBIGUOUS_CODES) reasons then AMBIGUOUS_FAILURE
      else if list_ex (str_contains ''AMBIGUOUS'') reasons then AMBIGUOUS_FAILURE
      else if list_ex (\<lambda>r. r \<in> set DO_NOT_RETRY_CODES) reasons then DO_NOT_RETRY
      else DO_NOT_RETRY)"

definition MT5_INVALID_STOPS_AT_SEND :: string where
  "MT5_INVALID_STOPS_AT_SEND = ''MT5_INVALID_STOPS_AT_SEND''"

definition MT5_INVALID_STOPS_MAX_RESUBMITS :: int where "MT5_INVALID_STOPS_MAX_RESUBMITS = 1"

definition word_char :: "char \<Rightarrow> bool" where
  "word_char c \<longleftrightarrow> is_alnum c \<or> c = CHR ''_''"

fun join_spaces :: "string list \<Rightarrow> string" where
  "join_spaces [] = []"
| "join_spaces [r] = r"
| "join_spaces (r # rs) = r @ CHR '' '' # join_spaces rs"

definition isConfirmedInvalidStopsRejection :: "string list \<Rightarrow> bool" where
  "isConfirmedInvalidStopsRejection reasons =
     (if list_ex (\<lambda>r. r \<in> set AMBIGUOUS_CODES \<or> str_contains ''AMBIGUOUS'' r) reasons then False
      else if MT5_INVALID_STOPS_AT_SEND \<in> set reasons then True
      else if list_ex (\<lambda>r. r = ''10016'' \<or> str_contains ''TRADE_RETCODE_10016'' r) reasons then True
      else if ''ORDER_SEND_FAILED'' \<in> set reasons \<and> has_word word_char False ''10016'' (join_spaces reasons)
      then True
      else False)"

datatype resubmit_reason =
    broker_position_exists | retry_exhausted | not_confirmed_invalid_stops | invalid_stops_resubmit

definition decideInvalidStopsResubmit ::
  "string list \<Rightarrow> bool \<Rightarrow> int \<Rightarrow> int option \<Rightarrow> bool \<times> resubmit_reason" where
  "decideInvalidStopsResubmit reasons brokerPositionFound resubmitCount maxResubmits =
     (if brokerPositionFound then (False, broker_position_exists)
      else if or_default maxResubmits MT5_INVALID_STOPS_MAX_RESUBMITS \<le> resubmitCount
      then (False, retry_exhausted)
      else if \<not> isConfirmedInvalidStopsRejection reasons then (False, not_confirmed_invalid_stops)
      else (True, invalid_stops_resubmit))"

definition isPreSubmitTransportFailure :: "string list \<Rightarrow> bool" where
  "isPreSubmitTransportFailure reasons =
     list_ex (\<lambda>r. r = ''MT5_BRIDGE_UNAVAILABLE'' \<and> ''MT5_EA_TIMEOUT'' \<notin> set reasons \<and>
        AMBIGUOUS_TIMEOUT_QUERY_BEFORE_RESUBMIT \<notin> set reasons) reasons"

definition executionIntentIdempotencyKey :: "string \<Rightarrow> string" where
  "executionIntentIdempotencyKey signalId = ''signal:'' @ signalId"

definition isTerminalExecutionIntentState :: "string \<Rightarrow> bool" where
  "isTerminalExecutionIntentState s \<longleftrightarrow> s = ''PERSISTED'' \<or> s = ''REJECTED''"

definition isUnresolvedExecutionIntentState :: "string \<Rightarrow> bool" where
  "isUnresolvedExecutionIntentState s \<longleftrightarrow>
     s = ''CREATED'' \<or> s = ''SUBMITTED'' \<or> s = ''BROKER_CONFIRMED'' \<or> s = ''AMBIGUOUS'' \<or> s = ''RECOVERED''"

definition CREATED_INTENT_RESUME_TTL_MS :: int where
  "CREATED_INTENT_RESUME_TTL_MS = 4 * 60 * 60 * 1000"

definition isCreatedIntentExpired :: "int \<Rightarrow> int \<Rightarrow> bool" where
  "isCreatedIntentExpired createdAt now \<longleftrightarrow> CREATED_INTENT_RESUME_TTL_MS < now - createdAt"

subsection \<open>Frozen parameters\<close>

record frozen_params =
  fz_internalSymbol :: string
  fz_brokerSymbol :: string
  fz_direction :: string
  fz_volume :: jsnum
  fz_stopLoss :: jsnum
  fz_takeProfit :: jsnum
  fz_strategyId :: string
  fz_riskAmount :: jsnum
  fz_riskPercent :: jsnum
  fz_initialRiskReward :: "jsnum option"

definition decimalClose :: "jsnum \<Rightarrow> jsnum \<Rightarrow> nat \<Rightarrow> bool" where
  "decimalClose a b scale =
     (let factor = Fin (10 ^ scale) in js_eq (js_round (a * factor)) (js_round (b * factor)))"

definition compareProposedToFrozenExecutionParams ::
  "frozen_params \<Rightarrow> frozen_params \<Rightarrow> bool \<times> string list" where
  "compareProposedToFrozenExecutionParams frozen proposed =
     (let diffs =
        push_when (fz_internalSymbol frozen \<noteq> fz_internalSymbol proposed) ''internalSymbol''
        @ push_when (fz_brokerSymbol frozen \<noteq> fz_brokerSymbol proposed) ''brokerSymbol''
        @ push_when (fz_direction frozen \<noteq> fz_direction proposed) ''direction''
        @ push_when (\<not> decimalClose (fz_volume frozen) (fz_volume proposed) 8) ''volume''
        @ push_when (\<not> decimalClose (fz_stopLoss frozen) (fz_stopLoss proposed) 5) ''stopLoss''
        @ push_when (\<not> decimalClose (fz_takeProfit frozen) (fz_takeProfit proposed) 5) ''takeProfit''
        @ push_when (fz_strategyId frozen \<noteq> fz_strategyId proposed) ''strategyId''
        @ push_when (\<not> decimalClose (fz_riskAmount frozen) (fz_riskAmount proposed) 2) ''riskAmount''
        @ push_when (\<not> decimalClose (fz_riskPercent frozen) (fz_riskPercent proposed) 4) ''riskPercent''
        @ push_when (\<not> decimalClose (or_default (fz_initialRiskReward frozen) 0)
            (or_default (fz_initialRiskReward proposed) 0) 4) ''initialRiskReward''
      in (diffs = [], diffs))"

subsection \<open>Capacity and transitions\<close>

definition MT5_CAPACITY_CONSUMING_STATUSES_EXTENDED :: "string list" where
  "MT5_CAPACITY_CONSUMING_STATUSES_EXTENDED = [''PENDING'', ''OPEN'', ''OPEN_REQUESTED'', ''CLOSE_REQUESTED'']"

definition resolveMt5EffectiveMaxConcurrentPositions :: "int option \<Rightarrow> int \<Rightarrow> int" where
  "resolveMt5EffectiveMaxConcurrentPositions profileMax envMax =
     (case profileMax of Some p \<Rightarrow> min p envMax | None \<Rightarrow> envMax)"

definition positionStatusConsumesCapacity :: "string \<Rightarrow> bool" where
  "positionStatusConsumesCapacity s \<longleftrightarrow> s \<in> set MT5_CAPACITY_CONSUMING_STATUSES_EXTENDED"

definition countCapacityFromStatuses :: "string list \<Rightarrow> nat" where
  "countCapacityFromStatuses ss = length (filter positionStatusConsumesCapacity ss)"

definition decideCapacityReservation :: "int \<Rightarrow> int \<Rightarrow> bool" where
  "decideCapacityReservation consumedBefore maxConcurrent =
     (if maxConcurrent \<le> 0 then False
      else if maxConcurrent \<le> consumedBefore then False
      else True)"

definition mt5CapacityAdvisoryLockKey :: "string \<Rightarrow> string" where
  "mt5CapacityAdvisoryLockKey userId = ''regimex:mt5_capacity:'' @ userId"

definition INTENT_TRANSITIONS :: "(string \<times> string list) list" where
  "INTENT_TRANSITIONS =
     [(''CREATED'', [''SUBMITTED'', ''REJECTED'']),
      (''SUBMITTED'', [''BROKER_CONFIRMED'', ''PERSISTED'', ''REJECTED'', ''AMBIGUOUS'', ''RECOVERED'']),
      (''BROKER_CONFIRMED'', [''PERSISTED'', ''RECOVERED'']),
      (''AMBIGUOUS'', [''RECOVERED'', ''PERSISTED'', ''REJECTED'']),
      (''RECOVERED'', [''PERSISTED'']),
      (''PERSISTED'', []),
      (''REJECTED'', [])]"

definition canTransitionExecutionIntentState :: "string \<Rightarrow> string \<Rightarrow> bool" where
  "canTransitionExecutionIntentState from_s to_s =
     (if from_s = to_s then True
      else case map_of INTENT_TRANSITIONS from_s of
             None \<Rightarrow> False
           | Some allowed \<Rightarrow> to_s \<in> set allowed)"

definition POSITION_CLOSEABLE_STATUSES :: "string list" where
  "POSITION_CLOSEABLE_STATUSES = [''OPEN'', ''PENDING'', ''OPEN_REQUESTED'', ''CLOSE_REQUESTED'']"

definition canClosePositionStatus :: "string \<Rightarrow> bool" where
  "canClosePositionStatus s \<longleftrightarrow> s \<in> set POSITION_CLOSEABLE_STATUSES"

definition canOpenPositionStatus :: "string \<Rightarrow> bool" where
  "canOpenPositionStatus s \<longleftrightarrow> s = ''PENDING'' \<or> s = ''OPEN_REQUESTED'' \<or> s = ''OPEN''"

definition canRejectPendingPositionStatus :: "string \<Rightarrow> bool" where
  "canRejectPendingPositionStatus s \<longleftrightarrow> s = ''PENDING'' \<or> s = ''OPEN_REQUESTED''"

subsection \<open>Ownership and signal cooldown\<close>

record bridge_position =
  bpos_positionTicket :: string
  bpos_magic :: int
  bpos_comment :: string

definition isRegimeXMt5Position :: "bridge_position \<Rightarrow> int \<Rightarrow> bool" where
  "isRegimeXMt5Position p magic \<longleftrightarrow> bpos_magic p = magic"

fun selectMt5PositionsForEmergencyClose ::
  "bridge_position list \<Rightarrow> string list \<Rightarrow> int \<Rightarrow> string list \<times> string list" where
  "selectMt5PositionsForEmergencyClose [] localBrokerIds magic = ([], [])"
| "selectMt5PositionsForEmergencyClose (p # ps) localBrokerIds magic =
     (let ident = bpos_positionTicket p; owned = isRegimeXMt5Position p magic;
          (close, skipExternal) = selectMt5PositionsForEmergencyClose ps localBrokerIds magic
      in if \<not> owned \<or> ident \<notin> set localBrokerIds then (close, ident # skipExternal)
         else (ident # close, skipExternal))"

definition findMt5PositionByIdempotency ::
  "'a bridge_position_scheme list \<Rightarrow> int \<Rightarrow> string \<Rightarrow> 'a bridge_position_scheme option" where
  "findMt5PositionByIdempotency positions magic comment =
     find (\<lambda>p. if bpos_magic p \<noteq> magic then False
               else bpos_comment p \<noteq> [] \<and> comment \<noteq> [] \<and> bpos_comment p = comment) positions"

definition NO_COOLDOWN_DECISION_CODES :: "string list" where
  "NO_COOLDOWN_DECISION_CODES =
     [''LIFECYCLE_BLOCKED'', ''EVIDENCE_BLOCKED'', ''MT5_BRIDGE_UNHEALTHY'', ''MT5_BRIDGE_UNAVAILABLE'',
      ''MT5_BRIDGE_TIMEOUT'', ''RECONCILIATION_UNAVAILABLE'', ''QUOTE_STALE'', ''MT5_EA_OFFLINE'',
      ''MT5_EA_TIMEOUT'', ''MT5_MAILBOX_BACKLOG'', ''NO_TRADE'', ''STRATEGY_HOLD'']"

definition SUBMISSION_COOLDOWN_CODES :: "string list" where
  "SUBMISSION_COOLDOWN_CODES = [''OPENED'', ''EXECUTION_REJECTED'', ''EXECUTION_AMBIGUOUS'']"

definition shouldConsumeStrategySignalCooldown :: "bool \<Rightarrow> string \<Rightarrow> bool" where
  "shouldConsumeStrategySignalCooldown opened decisionCode =
     (if opened then True
      else if decisionCode \<in> set SUBMISSION_COOLDOWN_CODES then True
      else if decisionCode \<in> set NO_COOLDOWN_DECISION_CODES then False
      else False)"

definition isInfrastructureAutonomousBlock :: "string \<Rightarrow> bool" where
  "isInfrastructureAutonomousBlock code \<longleftrightarrow> code \<in> set NO_COOLDOWN_DECISION_CODES"

subsection \<open>Properties\<close>

text \<open>A confirmed invalid-stops rejection is never an ambiguous failure, and a resubmission is
  granted only when no broker position was found, the budget (one by default) is not used up and the
  rejection is confirmed: a failure that may have reached the broker is never resubmitted.\<close>

theorem ambiguous_never_resubmitted:
  "(fst (decideInvalidStopsResubmit reasons found n budget) \<longleftrightarrow>
      \<not> found \<and> n < or_default budget 1 \<and> isConfirmedInvalidStopsRejection reasons) \<and>
   (classifyOpenMarketFailure reasons = AMBIGUOUS_FAILURE \<longrightarrow> \<not> isConfirmedInvalidStopsRejection reasons)"
  by (auto simp: decideInvalidStopsResubmit_def MT5_INVALID_STOPS_MAX_RESUBMITS_def
      classifyOpenMarketFailure_def isConfirmedInvalidStopsRejection_def list_ex_iff)

theorem ambiguous_never_resubmitted_witness:
  "\<not> isConfirmedInvalidStopsRejection [''MT5_EA_TIMEOUT'', ''10016'']"
proof -
  have "classifyOpenMarketFailure [''MT5_EA_TIMEOUT'', ''10016''] = AMBIGUOUS_FAILURE"
    by (simp add: classifyOpenMarketFailure_def AMBIGUOUS_CODES_def)
  then show ?thesis using ambiguous_never_resubmitted [of "[''MT5_EA_TIMEOUT'', ''10016'']"] by blast
qed

text \<open>Each allowed change of state goes strictly up in this order, and terminal states are its tops.\<close>

definition intent_rank :: "string \<Rightarrow> nat" where
  "intent_rank s =
     (if s = ''CREATED'' then 0 else if s = ''SUBMITTED'' then 1 else if s = ''AMBIGUOUS'' then 2
      else if s = ''BROKER_CONFIRMED'' then 2 else if s = ''RECOVERED'' then 3
      else if s = ''PERSISTED'' then 4 else if s = ''REJECTED'' then 4 else 0)"

lemma transition_cases:
  "canTransitionExecutionIntentState a b \<Longrightarrow> a \<noteq> b \<Longrightarrow>
     intent_rank a < intent_rank b \<and> \<not> isTerminalExecutionIntentState a \<and> b \<noteq> ''CREATED''"
  by (auto simp: canTransitionExecutionIntentState_def INTENT_TRANSITIONS_def intent_rank_def
      isTerminalExecutionIntentState_def split: if_splits)

lemma terminal_stuck:
  "isTerminalExecutionIntentState a \<Longrightarrow> canTransitionExecutionIntentState a b \<Longrightarrow> a = b"
  using transition_cases by blast

end
