(* ===== verification/TxProgram.thy ===== *)
theory TxProgram
  imports Prelude
begin

text \<open>
  Asynchronous database code.  A function that awaits several database calls is a program: a tree
  whose nodes are the atomic calls (one statement, or one transaction commit).  A call may be
  blocked, as an advisory lock is.  Programs are run alone (\<open>exec\<close>) or interleaved call by call in a
  pool (\<open>sys_step\<close>), to which the system adds a program for each request it accepts.  The locale
  \<open>guarded_system\<close> is the proof interface of such systems: each program keeps the invariant
  and its guarantee at every call, under what the other programs may do between the calls.
\<close>

datatype db_error = Unique_violation | Record_not_found | Intent_not_found | Missing_take_profit | Broker_error
  | Bridge_failure string

datatype ('s, 'a) prog = Done 'a | Throw db_error | Atomic "'s \<Rightarrow> ('s \<times> ('s, 'a) prog) option"

lemma prog_call_induct [case_names Done Throw Atomic]:
  fixes p :: "('s, 'a) prog"
  assumes "\<And>x. P (Done x)" and "\<And>e. P (Throw e)"
    and "\<And>f :: 's \<Rightarrow> ('s \<times> ('s, 'a) prog) option.
      (\<And>s s' q. f s = Some (s', q) \<Longrightarrow> P q) \<Longrightarrow> P (Atomic f)"
  shows "P p"
proof (induction p)
  case (Atomic f)
  show ?case
  proof (rule assms(3))
    fix s s' q assume "f s = Some (s', q)"
    then show "P q" using Atomic [of "Some (s', q)" "(s', q)" q] by (metis UNIV_I image_eqI option.set_intros snds.intros snd_conv)
  qed
qed (use assms in auto)

primrec bind :: "('s, 'a) prog \<Rightarrow> ('a \<Rightarrow> ('s, 'b) prog) \<Rightarrow> ('s, 'b) prog" where
  "bind (Done x) k = k x"
| "bind (Throw e) k = Throw e"
| "bind (Atomic f) k = Atomic (\<lambda>s. map_option (map_prod id (\<lambda>p. bind p k)) (f s))"

primrec catch :: "('s, 'a) prog \<Rightarrow> (db_error \<Rightarrow> ('s, 'a) prog) \<Rightarrow> ('s, 'a) prog" where
  "catch (Done x) h = Done x"
| "catch (Throw e) h = h e"
| "catch (Atomic f) h = Atomic (\<lambda>s. map_option (map_prod id (\<lambda>p. catch p h)) (f s))"

text \<open>A read, a write with an answer, and a write that may fail and then changes nothing.\<close>

definition query :: "('s \<Rightarrow> 'a) \<Rightarrow> ('s, 'a) prog" where
  "query g = Atomic (\<lambda>s. Some (s, Done (g s)))"

definition command :: "('s \<Rightarrow> 's \<times> 'a) \<Rightarrow> ('s, 'a) prog" where
  "command g = Atomic (\<lambda>s. case g s of (s', x) \<Rightarrow> Some (s', Done x))"

definition attempt :: "('s \<Rightarrow> db_error + 's \<times> 'a) \<Rightarrow> ('s, 'a) prog" where
  "attempt g = Atomic (\<lambda>s. case g s of Inl e \<Rightarrow> Some (s, Throw e) | Inr (s', x) \<Rightarrow> Some (s', Done x))"

text \<open>Running alone; \<open>None\<close> is a program that waits for a lock nobody will release.\<close>

primrec exec :: "('s, 'a) prog \<Rightarrow> 's \<Rightarrow> ('s \<times> (db_error + 'a)) option" where
  "exec (Done x) = (\<lambda>s. Some (s, Inr x))"
| "exec (Throw e) = (\<lambda>s. Some (s, Inl e))"
| "exec (Atomic f) =
     (\<lambda>s. case map_option (map_prod id exec) (f s) of None \<Rightarrow> None | Some (s', r) \<Rightarrow> r s')"

lemma exec_query [simp]: "exec (query g) s = Some (s, Inr (g s))"
  by (simp add: query_def)

lemma exec_command [simp]: "exec (command g) s = (case g s of (s', x) \<Rightarrow> Some (s', Inr x))"
  by (simp add: command_def split: prod.splits)

lemma exec_attempt [simp]:
  "exec (attempt g) s = (case g s of Inl e \<Rightarrow> Some (s, Inl e) | Inr (s', x) \<Rightarrow> Some (s', Inr x))"
  by (simp add: attempt_def split: sum.splits prod.splits)

lemma exec_bind [simp]:
  "exec (bind p k) s =
     (case exec p s of
        None \<Rightarrow> None
      | Some (s', Inl e) \<Rightarrow> Some (s', Inl e)
      | Some (s', Inr x) \<Rightarrow> exec (k x) s')"
proof (induction p arbitrary: s rule: prog_call_induct)
  case (Atomic f)
  then show ?case by (cases "f s") auto
qed auto

lemma exec_catch [simp]:
  "exec (catch p h) s =
     (case exec p s of
        None \<Rightarrow> None
      | Some (s', Inl e) \<Rightarrow> exec (h e) s'
      | Some (s', Inr x) \<Rightarrow> Some (s', Inr x))"
proof (induction p arbitrary: s rule: prog_call_induct)
  case (Atomic f)
  then show ?case by (cases "f s") auto
qed auto

section \<open>Interleaving\<close>

text \<open>The pool of programs being served.  A step accepts a request (its program gets the next
  thread number) or performs the next call of one program.\<close>

inductive sys_step :: "(nat \<Rightarrow> 'r \<Rightarrow> ('s, unit) prog) \<Rightarrow> 'r set \<Rightarrow>
    's \<times> ('s, unit) prog list \<Rightarrow> 's \<times> ('s, unit) prog list \<Rightarrow> bool"
  for serve :: "nat \<Rightarrow> 'r \<Rightarrow> ('s, unit) prog" and reqs :: "'r set" where
  accept: "r \<in> reqs \<Longrightarrow> sys_step serve reqs (s, ps) (s, ps @ [serve (length ps) r])"
| perform: "i < length ps \<Longrightarrow> ps ! i = Atomic f \<Longrightarrow> f s = Some (s', p') \<Longrightarrow>
     sys_step serve reqs (s, ps) (s', ps[i := p'])"

inductive_cases sys_stepE: "sys_step serve reqs (s, ps) (s', ps')"

abbreviation sys_reach where "sys_reach serve reqs \<equiv> (sys_step serve reqs)\<^sup>*\<^sup>*"

text \<open>An executable schedule: accept a request, or perform the next call of a thread (skipped when
  the thread is finished or blocked).\<close>

datatype 'r event = Accept 'r | Perform nat

fun sched_step :: "(nat \<Rightarrow> 'r \<Rightarrow> ('s, unit) prog) \<Rightarrow> 's \<times> ('s, unit) prog list \<Rightarrow> 'r event \<Rightarrow>
    's \<times> ('s, unit) prog list" where
  "sched_step serve (s, ps) (Accept r) = (s, ps @ [serve (length ps) r])"
| "sched_step serve (s, ps) (Perform i) =
     (if i < length ps then
        (case ps ! i of
           Atomic f \<Rightarrow> (case f s of Some (s', p') \<Rightarrow> (s', ps[i := p']) | None \<Rightarrow> (s, ps))
         | _ \<Rightarrow> (s, ps))
      else (s, ps))"

lemma sched_reach:
  assumes "\<forall>r. Accept r \<in> set es \<longrightarrow> r \<in> reqs"
  shows "sys_reach serve reqs c (run (sched_step serve) c es)"
  using assms
proof (induction es arbitrary: c)
  case (Cons e es)
  obtain s ps where c: "c = (s, ps)" by (cases c)
  have "sys_reach serve reqs c (sched_step serve c e)"
  proof (cases e)
    case (Accept r)
    then have "sys_step serve reqs c (sched_step serve c e)"
      using Cons.prems by (simp add: c accept)
    then show ?thesis by blast
  next
    case (Perform i)
    then show ?thesis
      by (auto simp: c split: prog.split option.split intro!: r_into_rtranclp perform)
  qed
  moreover have "sys_reach serve reqs (sched_step serve c e) (run (sched_step serve) (sched_step serve c e) es)"
    using Cons by simp
  ultimately show ?case by (simp add: rtranclp_trans)
qed simp

section \<open>Guarantees\<close>

text \<open>What a program answers, whatever the state is at its calls.\<close>

primrec yields :: "('a \<Rightarrow> bool) \<Rightarrow> ('s, 'a) prog \<Rightarrow> bool" where
  "yields Q (Done x) = Q x"
| "yields Q (Throw e) = True"
| "yields Q (Atomic f) = (\<forall>s. pred_option snd (map_option (map_prod id (yields Q)) (f s)))"

lemma yields_Atomic:
  fixes f :: "'s \<Rightarrow> ('s \<times> ('s, 'a) prog) option"
  shows "yields Q (Atomic f) \<longleftrightarrow> (\<forall>s s' p. f s = Some (s', p) \<longrightarrow> yields Q p)"
proof -
  have "pred_option snd (map_option (map_prod id (yields Q)) r) \<longleftrightarrow> (\<forall>s' p. r = Some (s', p) \<longrightarrow> yields Q p)"
    for r :: "('s \<times> ('s, 'a) prog) option"
    by (cases r) auto
  then show ?thesis by simp
qed

declare yields.simps(3) [simp del]

lemma yields_True [simp]: "yields (\<lambda>_. True) p"
  by (induction p rule: prog_call_induct) (auto simp: yields_Atomic)

lemma yields_bind:
  assumes "yields Q p" and "\<And>x. Q x \<Longrightarrow> yields S (k x)"
  shows "yields S (bind p k)"
  using assms(1) by (induction p rule: prog_call_induct) (auto simp: yields_Atomic assms(2))

lemma yields_mono: "yields Q p \<Longrightarrow> (\<And>x. Q x \<Longrightarrow> S x) \<Longrightarrow> yields S p"
  by (induction p rule: prog_call_induct) (auto simp: yields_Atomic)

lemma yields_exec: "yields Q p \<Longrightarrow> exec p s = Some (s', Inr x) \<Longrightarrow> Q x"
  by (induction p arbitrary: s rule: prog_call_induct)
    (auto simp: yields_Atomic split: option.splits)


definition stable :: "('s \<Rightarrow> bool) \<Rightarrow> ('s \<Rightarrow> 's \<Rightarrow> bool) \<Rightarrow> ('s \<Rightarrow> bool) \<Rightarrow> bool" where
  "stable I R P \<longleftrightarrow> (\<forall>s s'. I s \<longrightarrow> I s' \<longrightarrow> P s \<longrightarrow> R s s' \<longrightarrow> P s')"

lemma stable_True [simp]: "stable I R (\<lambda>_. True)"
  by (simp add: stable_def)

text \<open>\<open>upholds I R G P p\<close>: started where \<open>P\<close> holds, every call of \<open>p\<close> keeps the invariant and
  satisfies \<open>G\<close>, when between its calls the others do what \<open>R\<close> allows.\<close>

inductive upholds :: "('s \<Rightarrow> bool) \<Rightarrow> ('s \<Rightarrow> 's \<Rightarrow> bool) \<Rightarrow> ('s \<Rightarrow> 's \<Rightarrow> bool) \<Rightarrow>
    ('s \<Rightarrow> bool) \<Rightarrow> ('s, 'a) prog \<Rightarrow> bool"
  for I :: "'s \<Rightarrow> bool" and R :: "'s \<Rightarrow> 's \<Rightarrow> bool" and G :: "'s \<Rightarrow> 's \<Rightarrow> bool" where
  up_done: "upholds I R G P (Done x)"
| up_throw: "upholds I R G P (Throw e)"
| up_atomic: "(\<And>s s' p. I s \<Longrightarrow> P s \<Longrightarrow> f s = Some (s', p) \<Longrightarrow>
     I s' \<and> G s s' \<and> (\<exists>Q. stable I R Q \<and> Q s' \<and> upholds I R G Q p)) \<Longrightarrow>
     upholds I R G P (Atomic f)"

inductive_cases upholds_AtomicE: "upholds I R G P (Atomic f)"

text \<open>Run alone, a program does what its calls may do.\<close>

lemma upholds_exec:
  assumes "upholds I R G P p" and "I s" and "P s" and "exec p s = Some (s', r)"
    and "\<And>s s'. G s s' \<Longrightarrow> T s s'" and "\<And>s. T s s" and "\<And>s s' s''. T s s' \<Longrightarrow> T s' s'' \<Longrightarrow> T s s''"
  shows "I s' \<and> T s s'"
  using assms(1-4)
proof (induction p arbitrary: s P rule: prog_call_induct)
  case (Atomic f)
  from Atomic.prems(4) obtain u q where f: "f s = Some (u, q)" "exec q u = Some (s', r)"
    by (auto split: option.splits)
  have "I u \<and> G s u \<and> (\<exists>Q. stable I R Q \<and> Q u \<and> upholds I R G Q q)"
    by (rule upholds_AtomicE [OF Atomic.prems(1)]) (use f(1) Atomic.prems(2,3) in blast)
  then show ?case using Atomic.IH [OF f(1)] f(2) assms(5,7) by blast
qed (use assms(6) in auto)

lemma upholds_weaken: "upholds I R G Q p \<Longrightarrow> (\<And>s. P s \<Longrightarrow> Q s) \<Longrightarrow> upholds I R G P p"
  by (cases p) (auto intro: up_done up_throw up_atomic elim!: upholds_AtomicE)

lemma upholds_bind:
  assumes "upholds I R G P p" and "\<And>x. upholds I R G (\<lambda>_. True) (k x)"
  shows "upholds I R G P (bind p k)"
  using assms(1)
proof induction
  case (up_done P x)
  then show ?case using assms(2) by (auto intro: upholds_weaken)
next
  case (up_throw P e)
  then show ?case by (simp add: upholds.up_throw)
next
  case (up_atomic P f)
  show ?case unfolding bind.simps
  proof (rule upholds.up_atomic)
    fix s s' p
    assume i: "I s" "P s" "map_option (map_prod id (\<lambda>p. bind p k)) (f s) = Some (s', p)"
    then obtain q where q: "f s = Some (s', q)" "p = bind q k" by auto
    then show "I s' \<and> G s s' \<and> (\<exists>Q. stable I R Q \<and> Q s' \<and> upholds I R G Q p)"
      using up_atomic [OF i(1,2) q(1)] by auto
  qed
qed

lemma upholds_catch:
  assumes "upholds I R G P p" and "\<And>e. upholds I R G (\<lambda>_. True) (h e)"
  shows "upholds I R G P (catch p h)"
  using assms(1)
proof induction
  case (up_done P x)
  then show ?case by (simp add: upholds.up_done)
next
  case (up_throw P e)
  then show ?case using assms(2) by (auto intro: upholds_weaken)
next
  case (up_atomic P f)
  show ?case unfolding catch.simps
  proof (rule upholds.up_atomic)
    fix s s' p
    assume i: "I s" "P s" "map_option (map_prod id (\<lambda>p. catch p h)) (f s) = Some (s', p)"
    then obtain q where q: "f s = Some (s', q)" "p = catch q h" by auto
    then show "I s' \<and> G s s' \<and> (\<exists>Q. stable I R Q \<and> Q s' \<and> upholds I R G Q p)"
      using up_atomic [OF i(1,2) q(1)] by auto
  qed
qed

lemma upholds_query:
  assumes "\<And>s. I s \<Longrightarrow> G s s"
  shows "upholds I R G P (query g)"
  unfolding query_def by (rule up_atomic) (auto simp: assms intro!: exI [of _ "\<lambda>_. True"] up_done)

lemma upholds_command:
  fixes g :: "'s \<Rightarrow> 's \<times> 'a"
  assumes "\<And>s. I s \<Longrightarrow> P s \<Longrightarrow> I (fst (g s)) \<and> G s (fst (g s))"
  shows "upholds I R G P (command g)"
  unfolding command_def
proof (rule up_atomic)
  fix s s' and p :: "('s, 'a) prog" assume i: "I s" "P s" "(case g s of (s', x) \<Rightarrow> Some (s', Done x)) = Some (s', p)"
  then obtain x where "s' = fst (g s)" "p = Done x" by (auto split: prod.splits)
  then show "I s' \<and> G s s' \<and> (\<exists>Q. stable I R Q \<and> Q s' \<and> upholds I R G Q p)"
    using assms [OF i(1,2)] by (auto intro!: exI [of _ "\<lambda>_. True"] up_done)
qed

lemma upholds_attempt:
  fixes g :: "'s \<Rightarrow> db_error + 's \<times> 'a"
  assumes "\<And>s. I s \<Longrightarrow> G s s" and "\<And>s s' x. I s \<Longrightarrow> P s \<Longrightarrow> g s = Inr (s', x) \<Longrightarrow> I s' \<and> G s s'"
  shows "upholds I R G P (attempt g)"
  unfolding attempt_def
proof (rule up_atomic)
  fix s s' and p :: "('s, 'a) prog"
  assume i: "I s" "P s" "(case g s of Inl e \<Rightarrow> Some (s, Throw e) | Inr (s', x) \<Rightarrow> Some (s', Done x)) = Some (s', p)"
  then show "I s' \<and> G s s' \<and> (\<exists>Q. stable I R Q \<and> Q s' \<and> upholds I R G Q p)"
    using assms by (auto split: sum.splits prod.splits intro!: exI [of _ "\<lambda>_. True"] up_done up_throw)
qed

text \<open>With what holds of the answer and of the state when the program answers: \<open>ensures I R G P p D\<close>.\<close>

inductive ensures :: "('s \<Rightarrow> bool) \<Rightarrow> ('s \<Rightarrow> 's \<Rightarrow> bool) \<Rightarrow> ('s \<Rightarrow> 's \<Rightarrow> bool) \<Rightarrow>
    ('s \<Rightarrow> bool) \<Rightarrow> ('s, 'a) prog \<Rightarrow> ('a \<Rightarrow> 's \<Rightarrow> bool) \<Rightarrow> bool"
  for I :: "'s \<Rightarrow> bool" and R :: "'s \<Rightarrow> 's \<Rightarrow> bool" and G :: "'s \<Rightarrow> 's \<Rightarrow> bool" where
  en_done: "(\<And>s. I s \<Longrightarrow> P s \<Longrightarrow> D x s) \<Longrightarrow> ensures I R G P (Done x) D"
| en_throw: "ensures I R G P (Throw e) D"
| en_atomic: "(\<And>s s' p. I s \<Longrightarrow> P s \<Longrightarrow> f s = Some (s', p) \<Longrightarrow>
     I s' \<and> G s s' \<and> (\<exists>Q. stable I R Q \<and> Q s' \<and> ensures I R G Q p D)) \<Longrightarrow>
     ensures I R G P (Atomic f) D"

inductive_cases ensures_AtomicE: "ensures I R G P (Atomic f) D"
inductive_cases ensures_DoneE: "ensures I R G P (Done x) D"

lemma ensures_upholds: "ensures I R G P p D \<Longrightarrow> upholds I R G P p"
proof (induction rule: ensures.induct)
  case (en_atomic P f D)
  show ?case
  proof (rule up_atomic)
    fix s s' p assume "I s" "P s" "f s = Some (s', p)"
    from en_atomic.IH [OF this]
    show "I s' \<and> G s s' \<and> (\<exists>Q. stable I R Q \<and> Q s' \<and> upholds I R G Q p)" by blast
  qed
qed (auto intro: up_done up_throw)

lemma ensures_weaken:
  "ensures I R G Q p D \<Longrightarrow> (\<And>s. I s \<Longrightarrow> P s \<Longrightarrow> Q s) \<Longrightarrow> ensures I R G P p D"
  by (cases p) (auto intro: en_done en_throw en_atomic elim!: ensures_AtomicE ensures_DoneE)

lemma ensures_bind:
  assumes "ensures I R G P p D" and "\<And>x. ensures I R G (D x) (k x) E"
  shows "ensures I R G P (bind p k) E"
  using assms
proof (induction rule: ensures.induct)
  case (en_done P D x)
  then show ?case by (auto intro: ensures_weaken)
next
  case (en_throw P e D)
  then show ?case by (simp add: ensures.en_throw)
next
  case (en_atomic P f D)
  show ?case unfolding bind.simps
  proof (rule ensures.en_atomic)
    fix s s' p
    assume i: "I s" "P s" "map_option (map_prod id (\<lambda>p. bind p k)) (f s) = Some (s', p)"
    then obtain q where q: "f s = Some (s', q)" "p = bind q k" by auto
    then show "I s' \<and> G s s' \<and> (\<exists>Q. stable I R Q \<and> Q s' \<and> ensures I R G Q p E)"
      using en_atomic.IH [OF i(1,2) q(1)] en_atomic.prems by blast
  qed
qed

lemma ensures_post:
  "ensures I R G P p D \<Longrightarrow> (\<And>x s. I s \<Longrightarrow> D x s \<Longrightarrow> E x s) \<Longrightarrow> ensures I R G P p E"
proof (induction rule: ensures.induct)
  case (en_atomic P f D)
  show ?case
  proof (rule ensures.en_atomic)
    fix s s' p assume "I s" "P s" "f s = Some (s', p)"
    from en_atomic.IH [OF this] en_atomic.prems
    show "I s' \<and> G s s' \<and> (\<exists>Q. stable I R Q \<and> Q s' \<and> ensures I R G Q p E)" by blast
  qed
qed (auto intro: en_done en_throw)

text \<open>A condition that the program and the others keep still holds when the program answers.\<close>

lemma upholds_ensures:
  assumes "upholds I R G P p" and "yields Q p" and "stable I R C"
    and "\<And>s s'. I s \<Longrightarrow> C s \<Longrightarrow> G s s' \<Longrightarrow> C s'"
  shows "ensures I R G (\<lambda>s. P s \<and> C s) p (\<lambda>x s. Q x \<and> C s)"
  using assms(1,2)
proof induction
  case (up_done P x)
  then show ?case by (auto intro: en_done)
next
  case (up_throw P e)
  then show ?case by (simp add: en_throw)
next
  case (up_atomic P f)
  show ?case
  proof (rule en_atomic)
    fix s s' p
    assume i: "I s" "P s \<and> C s" "f s = Some (s', p)"
    then have step: "I s'" "G s s'"
      and sub: "\<exists>S. stable I R S \<and> S s' \<and> (yields Q p \<longrightarrow> ensures I R G (\<lambda>s. S s \<and> C s) p (\<lambda>x s. Q x \<and> C s))"
      using up_atomic.IH by blast+
    have "yields Q p" using up_atomic.prems i(3) by (auto simp: yields_Atomic simp del: yields.simps(3))
    then obtain S where S: "stable I R S" "S s'" "ensures I R G (\<lambda>s. S s \<and> C s) p (\<lambda>x s. Q x \<and> C s)"
      using sub by blast
    have "C s'" using assms(4) i step by blast
    moreover have "stable I R (\<lambda>s. S s \<and> C s)"
      using S(1) assms(3) unfolding stable_def by blast
    ultimately show "I s' \<and> G s s' \<and> (\<exists>S. stable I R S \<and> S s' \<and> ensures I R G S p (\<lambda>x s. Q x \<and> C s))"
      using S step by blast
  qed
qed

lemma upholds_simple: "upholds I R G P p \<Longrightarrow> ensures I R G P p (\<lambda>_ _. True)"
  using upholds_ensures [of I R G P p "\<lambda>_. True" "\<lambda>_. True"] by simp

lemma ensures_never: "ensures I R G (\<lambda>_. False) p D"
  by (cases p) (auto intro: en_done en_throw en_atomic)

lemma upholds_yields:
  assumes "upholds I R G P p" and "yields Q p" and "\<And>x. Q x \<Longrightarrow> upholds I R G (\<lambda>_. True) (k x)"
  shows "upholds I R G P (bind p k)"
proof (rule ensures_upholds, rule ensures_bind)
  have "ensures I R G (\<lambda>s. P s \<and> True) p (\<lambda>x s. Q x \<and> True)"
    using assms(1,2) by (rule upholds_ensures) simp_all
  then show "ensures I R G P p (\<lambda>x _. Q x)" by simp
  show "ensures I R G (\<lambda>_. Q x) (k x) (\<lambda>_ _. True)" for x
  proof (cases "Q x")
    case True
    then show ?thesis using upholds_simple [OF assms(3)] by simp
  qed (simp add: ensures_never)
qed

locale guarded_system =
  fixes serve :: "nat \<Rightarrow> 'r \<Rightarrow> ('s, unit) prog"
    and reqs :: "'r set"
    and inv :: "'s \<Rightarrow> bool"
    and rely :: "nat \<Rightarrow> 's \<Rightarrow> 's \<Rightarrow> bool"
    and guar :: "nat \<Rightarrow> 's \<Rightarrow> 's \<Rightarrow> bool"
    and trace :: "'s \<Rightarrow> 's \<Rightarrow> bool"
  assumes serve_upholds: "r \<in> reqs \<Longrightarrow> upholds inv (rely t) (guar t) (\<lambda>_. True) (serve t r)"
    and guar_rely: "t \<noteq> u \<Longrightarrow> guar t s s' \<Longrightarrow> rely u s s'"
    and guar_trace: "guar t s s' \<Longrightarrow> trace s s'"
    and trace_refl: "trace s s"
    and trace_trans: "trace s s' \<Longrightarrow> trace s' s'' \<Longrightarrow> trace s s''"
begin

definition pool_ok :: "'s \<times> ('s, unit) prog list \<Rightarrow> bool" where
  "pool_ok c \<longleftrightarrow> inv (fst c) \<and> (\<forall>i<length (snd c). \<exists>P. stable inv (rely i) P \<and> P (fst c) \<and>
     upholds inv (rely i) (guar i) P (snd c ! i))"

lemma pool_step: "sys_step serve reqs c c' \<Longrightarrow> pool_ok c \<Longrightarrow> pool_ok c' \<and> trace (fst c) (fst c')"
proof (induction rule: sys_step.induct)
  case (accept r s ps)
  let ?ok = "\<lambda>i q. \<exists>P. stable inv (rely i) P \<and> P s \<and> upholds inv (rely i) (guar i) P q"
  have "?ok (length ps) (serve (length ps) r)"
    using serve_upholds [OF accept(1)] by (intro exI [of _ "\<lambda>_. True"]) simp
  moreover have "\<forall>i<length ps. ?ok i (ps ! i)" and "inv s"
    using accept(2) by (simp_all add: pool_ok_def)
  ultimately show ?case by (simp add: pool_ok_def trace_refl nth_append less_Suc_eq)
next
  case (perform i ps f s s' p')
  then have inv: "inv s"
    and pool: "\<And>j. j < length ps \<Longrightarrow> \<exists>P. stable inv (rely j) P \<and> P s \<and> upholds inv (rely j) (guar j) P (ps ! j)"
    by (auto simp: pool_ok_def)
  obtain P where "P s" "upholds inv (rely i) (guar i) P (Atomic f)"
    using pool [OF perform(1)] perform(2) by auto
  then have step: "inv s'" "guar i s s'"
    "\<exists>Q. stable inv (rely i) Q \<and> Q s' \<and> upholds inv (rely i) (guar i) Q p'"
    using inv perform(3) by (auto elim!: upholds_AtomicE)
  have "\<exists>P. stable inv (rely j) P \<and> P s' \<and> upholds inv (rely j) (guar j) P (ps[i := p'] ! j)"
    if j: "j < length ps" for j
  proof (cases "j = i")
    case True
    then show ?thesis using step(3) j by simp
  next
    case False
    have r: "rely j s s'" by (rule guar_rely [OF not_sym [OF False] step(2)])
    obtain P where P: "stable inv (rely j) P" "P s" "upholds inv (rely j) (guar j) P (ps ! j)"
      using pool [OF j] by blast
    then have "P s'" using r inv step(1) unfolding stable_def by blast
    with P False show ?thesis by (intro exI [of _ P]) simp
  qed
  then show ?case using step(1) guar_trace [OF step(2)] by (simp add: pool_ok_def)
qed

lemma pool_reach: "sys_reach serve reqs c c' \<Longrightarrow> pool_ok c \<Longrightarrow> pool_ok c' \<and> trace (fst c) (fst c')"
  by (induction rule: rtranclp_induct) (use pool_step trace_refl trace_trans in blast)+

lemma reach_inv:
  assumes "inv s" and "sys_reach serve reqs (s, []) (s', ps')"
  shows "inv s'"
  using pool_reach [OF assms(2)] assms(1) by (simp add: pool_ok_def)

lemma reach_trace:
  assumes "inv s" and "sys_reach serve reqs (s, []) (s', ps')" and "sys_reach serve reqs (s', ps') (s'', ps'')"
  shows "trace s' s''"
  using pool_reach [OF assms(2)] pool_reach [OF assms(3)] assms(1) by (simp add: pool_ok_def)

end

end
