(* ===== verification/TxContracts.thy ===== *)
theory TxContracts
  imports TxProgram
begin

text \<open>
  Contracts of programs, combined: under a stronger invariant or a weaker environment, with a condition that the
  invariant may be strengthened by, and in sequence after a program that ensures what the next one needs.
\<close>

lemma stable_stronger:
  assumes "stable I R Q" and "\<And>s. I' s \<Longrightarrow> I s" and "\<And>s s'. R' s s' \<Longrightarrow> R s s'"
  shows "stable I' R' Q"
  using assms unfolding stable_def by blast

lemma upholds_stronger:
  assumes "upholds I R G P p" and "\<And>s. I' s \<Longrightarrow> I s" and "\<And>s s'. R' s s' \<Longrightarrow> R s s'"
    and "\<And>s s'. I' s \<Longrightarrow> I s' \<Longrightarrow> G s s' \<Longrightarrow> I' s' \<and> G' s s'"
  shows "upholds I' R' G' P p"
  using assms(1)
proof induction
  case (up_atomic P f)
  show ?case
  proof (rule upholds.up_atomic)
    fix s s' p assume s: "I' s" "P s" "f s = Some (s', p)"
    note u = up_atomic.IH [OF assms(2) [OF s(1)] s(2,3)]
    then obtain Q where Q: "stable I R Q" "Q s'" "upholds I' R' G' Q p" by blast
    have "stable I' R' Q" using stable_stronger [OF Q(1)] assms(2,3) by blast
    then show "I' s' \<and> G' s s' \<and> (\<exists>Q. stable I' R' Q \<and> Q s' \<and> upholds I' R' G' Q p)"
      using Q u assms(4) [OF s(1)] by blast
  qed
qed (auto intro: up_done up_throw)

text \<open>A condition that every call and every other program keeps can be assumed throughout.\<close>

lemma upholds_under:
  assumes "upholds (\<lambda>s. I s \<and> C s) R G P p" and "stable I R C"
  shows "upholds I R G (\<lambda>s. P s \<and> C s) p"
  using assms(1)
proof induction
  case (up_atomic P f)
  show ?case
  proof (rule upholds.up_atomic)
    fix s s' p assume s: "I s" "P s \<and> C s" "f s = Some (s', p)"
    then obtain Q where Q: "I s'" "C s'" "G s s'" "stable (\<lambda>s. I s \<and> C s) R Q" "Q s'" "upholds I R G (\<lambda>s. Q s \<and> C s) p"
      using up_atomic.IH by blast
    moreover have "stable I R (\<lambda>s. Q s \<and> C s)" using Q(4) assms(2) unfolding stable_def by blast
    ultimately show "I s' \<and> G s s' \<and> (\<exists>Q. stable I R Q \<and> Q s' \<and> upholds I R G Q p)"
      by (intro conjI exI [of _ "\<lambda>s. Q s \<and> C s"]) auto
  qed
qed (auto intro: up_done up_throw)

lemma upholds_after:
  assumes "ensures I R G P p D" and "\<And>x. upholds I R G (D x) (k x)"
  shows "upholds I R G P (bind p k)"
  by (rule ensures_upholds, rule ensures_bind [OF assms(1)], rule upholds_simple [OF assms(2)])

lemma ensures_query:
  assumes "\<And>x. stable I R (Q x)" and "\<And>s. I s \<Longrightarrow> G s s" and "\<And>s. I s \<Longrightarrow> P s \<Longrightarrow> Q (g s) s"
    and "\<And>x. ensures I R G (Q x) (k x) D"
  shows "ensures I R G P (bind (query g) k) D"
  unfolding query_def bind.simps
proof (rule en_atomic)
  fix s s' p
  assume s: "I s" "P s" "map_option (map_prod id (\<lambda>p. bind p k)) (Some (s, Done (g s))) = Some (s', p)"
  then have "s' = s" "p = k (g s)" by auto
  then show "I s' \<and> G s s' \<and> (\<exists>Q. stable I R Q \<and> Q s' \<and> ensures I R G Q p D)"
    using assms s(1,2) by (auto intro!: exI [of _ "Q (g s)"])
qed

lemma ensures_catch:
  assumes "ensures I R G P p D" and "\<And>e. ensures I R G (\<lambda>_. True) (h e) D"
  shows "ensures I R G P (catch p h) D"
  using assms
proof (induction rule: ensures.induct)
  case (en_done P D x)
  then show ?case by (auto intro: ensures.en_done)
next
  case (en_throw P e D)
  show ?case using ensures_weaken [OF en_throw(1)] by simp
next
  case (en_atomic P f D)
  show ?case unfolding catch.simps
  proof (rule ensures.en_atomic)
    fix s s' p
    assume i: "I s" "P s" "map_option (map_prod id (\<lambda>p. catch p h)) (f s) = Some (s', p)"
    then obtain q where q: "f s = Some (s', q)" "p = catch q h" by auto
    then show "I s' \<and> G s s' \<and> (\<exists>Q. stable I R Q \<and> Q s' \<and> ensures I R G Q p D)"
      using en_atomic.IH [OF i(1,2) q(1)] en_atomic.prems by blast
  qed
qed

text \<open>The guarantee from one contract and the answer from another.\<close>

lemma ensures_from:
  assumes "upholds I R G P p" and "ensures I' R' G' P' p D" and "\<And>s. I s \<Longrightarrow> I' s" and "\<And>s s'. R s s' \<Longrightarrow> R' s s'"
  shows "ensures I R G (\<lambda>s. P s \<and> P' s) p D"
  using assms(2,1)
proof (induction arbitrary: P rule: ensures.induct)
  case (en_done P' D x)
  then show ?case using assms(3) by (auto intro: ensures.en_done)
next
  case (en_throw P' e D)
  show ?case by (rule ensures.en_throw)
next
  case (en_atomic P' f D)
  show ?case
  proof (rule ensures.en_atomic)
    fix s s' p assume s: "I s" "P s \<and> P' s" "f s = Some (s', p)"
    have "I s' \<and> G s s' \<and> (\<exists>Q. stable I R Q \<and> Q s' \<and> upholds I R G Q p)"
      by (rule upholds_AtomicE [OF en_atomic.prems]) (use s in blast)
    moreover obtain Q' where "stable I' R' Q'" "Q' s'" "\<And>P. upholds I R G P p \<Longrightarrow> ensures I R G (\<lambda>s. P s \<and> Q' s) p D"
      using en_atomic.IH [OF assms(3) [OF s(1)] _ s(3)] s(2) by blast
    moreover have "stable I R (\<lambda>s. Q s \<and> Q' s)" if "stable I R Q" "stable I' R' Q'" for Q Q'
      using that assms(3,4) unfolding stable_def by blast
    ultimately show "I s' \<and> G s s' \<and> (\<exists>Q. stable I R Q \<and> Q s' \<and> ensures I R G Q p D)" by blast
  qed
qed

text \<open>A program run alone by its thread is one way of the system.\<close>

lemma exec_steps:
  assumes "exec p s = Some (s', Inr x)" and "i < length ps" and "ps ! i = p"
  shows "sys_reach serve reqs (s, ps) (s', ps[i := Done x])"
  using assms
proof (induction p arbitrary: s ps rule: prog_call_induct)
  case (Atomic f)
  from Atomic.prems(1) obtain u q where f: "f s = Some (u, q)" "exec q u = Some (s', Inr x)"
    by (auto split: option.splits)
  have "sys_step serve reqs (s, ps) (u, ps[i := q])"
    using Atomic.prems(2,3) f(1) by (auto intro: sys_step.perform)
  moreover have "sys_reach serve reqs (u, ps[i := q]) (s', (ps[i := q])[i := Done x])"
    by (rule Atomic.IH [OF f]) (use Atomic.prems in auto)
  ultimately show ?case by simp
next
  case (Done y)
  then have "ps[i := Done x] = ps" "s' = s" by (auto simp: list_update_same_conv)
  then show ?case by simp
qed simp

lemma exec_reach:
  assumes "r \<in> reqs" and "exec (serve 0 r) s = Some (s', Inr x)"
  shows "sys_reach serve reqs (s, []) (s', [Done x])"
proof -
  have "sys_step serve reqs (s, []) (s, [] @ [serve (length []) r])"
    using sys_step.accept [OF assms(1), of serve s "[]"] by simp
  moreover have "sys_reach serve reqs (s, [serve 0 r]) (s', [serve 0 r][0 := Done x])"
    by (rule exec_steps [OF assms(2)]) simp_all
  ultimately show ?thesis by simp
qed

end
