(* ===== verification/Intents.thy ===== *)
theory Intents
  imports ExecIntegrity TxProgram
begin

text \<open>
  Execution intents and capacity reservation
  (\<^verbatim>\<open>apps/worker/src/cfd/mt5ExecutionIntegrity.ts\<close>).  The tables hold the columns the
  logic reads or that say what happened to a trade; descriptive columns (current price, floating P&L,
  applied costs, margin, regime, interval, versions, correlation id, reasoning, metadata and its
  telemetry) are left out, and so is logging.  Each \<open>await\<close> of a database call is one call
  of a \<^typ>\<open>('s, 'a) prog\<close>; a transaction reads call by call under its advisory lock and
  writes at its commit.  The hash of the lock key (\<open>hashtext\<close> of PostgreSQL), the order
  comment (a SHA-256 tag), fresh row ids, clock readings and the answer of the broker are arguments.
\<close>

subsection \<open>Tables\<close>

record position_row =
  ps_id :: string
  ps_userId :: string
  ps_signalId :: "string option"
  ps_symbol :: string
  ps_strategyId :: string
  ps_direction :: string
  ps_volume :: jsnum
  ps_origin :: string
  ps_initialStopLoss :: jsnum
  ps_stopLoss :: jsnum
  ps_initialTakeProfit :: "jsnum option"
  ps_takeProfit :: "jsnum option"
  ps_status :: string
  ps_riskAmount :: "jsnum option"
  ps_riskPercent :: "jsnum option"
  ps_initialRiskReward :: "jsnum option"
  ps_entryPrice :: "jsnum option"
  ps_brokerPositionId :: "string option"
  ps_idempotencyKey :: string
  ps_closePrice :: "jsnum option"
  ps_realizedPnl :: "jsnum option"
  ps_closeReason :: "string option"
  ps_openedAt :: "int option"
  ps_closedAt :: "int option"

record intent_row =
  it_id :: string
  it_userId :: string
  it_signalId :: string
  it_positionId :: "string option"
  it_idempotencyKey :: string
  it_brokerComment :: string
  it_internalSymbol :: string
  it_brokerSymbol :: string
  it_direction :: string
  it_requestedVolume :: jsnum
  it_requestedStopLoss :: jsnum
  it_requestedTakeProfit :: "jsnum option"
  it_strategyId :: string
  it_state :: string
  it_createdAt :: int
  it_submittedAt :: "int option"
  it_brokerConfirmedAt :: "int option"
  it_persistedAt :: "int option"
  it_failedAt :: "int option"
  it_recoveredAt :: "int option"
  it_brokerPositionId :: "string option"
  it_brokerOrderTicket :: "string option"
  it_brokerDealTicket :: "string option"
  it_lastErrorCode :: "string option"
  it_lastErrorMessage :: "string option"

record signal_row =
  sg_id :: string
  sg_status :: string
  sg_proposedVolume :: "jsnum option"
  sg_proposedEntryPrice :: "jsnum option"
  sg_stopLoss :: "jsnum option"
  sg_takeProfit :: "jsnum option"
  sg_stopDistance :: "jsnum option"
  sg_targetDistance :: "jsnum option"
  sg_riskRewardRatio :: "jsnum option"

record db =
  db_positions :: "position_row list"
  db_intents :: "intent_row list"
  db_signals :: "signal_row list"
  db_locks :: "int \<Rightarrow> nat option"

definition find_position :: "string \<Rightarrow> db \<Rightarrow> position_row option" where
  "find_position i d = find (\<lambda>p. ps_id p = i) (db_positions d)"

definition find_position_by_key :: "string \<Rightarrow> db \<Rightarrow> position_row option" where
  "find_position_by_key k d = find (\<lambda>p. ps_idempotencyKey p = k) (db_positions d)"

definition find_intent :: "string \<Rightarrow> db \<Rightarrow> intent_row option" where
  "find_intent i d = find (\<lambda>t. it_id t = i) (db_intents d)"

definition findExecutionIntentBySignal :: "string \<Rightarrow> db \<Rightarrow> intent_row option" where
  "findExecutionIntentBySignal sid d = find (\<lambda>t. it_signalId t = sid) (db_intents d)"

definition countMt5ConsumedCapacitySlots :: "string \<Rightarrow> db \<Rightarrow> nat" where
  "countMt5ConsumedCapacitySlots u d =
     length (filter (\<lambda>p. ps_userId p = u \<and> ps_origin p = ''ENGINE'' \<and>
        ps_status p \<in> set MT5_CAPACITY_CONSUMING_STATUSES_EXTENDED) (db_positions d))"

text \<open>Inserts raise on a unique constraint; updates by id raise when there is no such row, and
  \<open>updateMany\<close> counts the rows it changed.\<close>

definition insert_position :: "position_row \<Rightarrow> db \<Rightarrow> db_error + db" where
  "insert_position p d =
     (if list_ex (\<lambda>q. ps_id q = ps_id p \<or> ps_idempotencyKey q = ps_idempotencyKey p) (db_positions d)
      then Inl Unique_violation
      else Inr (d\<lparr>db_positions := db_positions d @ [p]\<rparr>))"

definition insert_intent :: "intent_row \<Rightarrow> db \<Rightarrow> db_error + db" where
  "insert_intent t d =
     (if list_ex (\<lambda>q. it_id q = it_id t \<or> it_signalId q = it_signalId t \<or>
           it_idempotencyKey q = it_idempotencyKey t \<or>
           (it_positionId t \<noteq> None \<and> it_positionId q = it_positionId t)) (db_intents d)
      then Inl Unique_violation
      else Inr (d\<lparr>db_intents := db_intents d @ [t]\<rparr>))"

definition broker_id_clash :: "position_row list \<Rightarrow> bool" where
  "broker_id_clash ps = (\<not> distinct (List.map_filter ps_brokerPositionId ps))"

definition update_positions ::
  "(position_row \<Rightarrow> bool) \<Rightarrow> (position_row \<Rightarrow> position_row) \<Rightarrow> (db, nat) prog" where
  "update_positions q f = attempt (\<lambda>d.
     let ps = List.map (\<lambda>p. if q p then f p else p) (db_positions d)
     in if broker_id_clash ps then Inl Unique_violation
        else Inr (d\<lparr>db_positions := ps\<rparr>, length (filter q (db_positions d))))"

definition update_intent_row :: "string \<Rightarrow> (intent_row \<Rightarrow> intent_row) \<Rightarrow> db \<Rightarrow> db_error + db \<times> intent_row" where
  "update_intent_row i f d =
     (case find_intent i d of
        None \<Rightarrow> Inl Record_not_found
      | Some t \<Rightarrow> Inr (d\<lparr>db_intents := update_first (\<lambda>t. it_id t = i) f (db_intents d)\<rparr>, f t))"

definition update_signal_row :: "string \<Rightarrow> (signal_row \<Rightarrow> signal_row) \<Rightarrow> db \<Rightarrow> db_error + db \<times> unit" where
  "update_signal_row i f d =
     (if list_ex (\<lambda>s. sg_id s = i) (db_signals d)
      then Inr (d\<lparr>db_signals := update_first (\<lambda>s. sg_id s = i) f (db_signals d)\<rparr>, ())
      else Inl Record_not_found)"

definition update_position_row :: "string \<Rightarrow> (position_row \<Rightarrow> position_row) \<Rightarrow> db \<Rightarrow> db_error + db \<times> unit" where
  "update_position_row i f d =
     (case find_position i d of
        None \<Rightarrow> Inl Record_not_found
      | Some p \<Rightarrow> Inr (d\<lparr>db_positions := update_first (\<lambda>p. ps_id p = i) f (db_positions d)\<rparr>, ()))"

subsection \<open>Reserving a slot\<close>

record pending_input =
  pi_userId :: string
  pi_signalId :: string
  pi_internalSymbol :: string
  pi_brokerSymbol :: string
  pi_strategyId :: string
  pi_direction :: string
  pi_volume :: jsnum
  pi_stopLoss :: jsnum
  pi_takeProfit :: "jsnum option"
  pi_riskAmount :: jsnum
  pi_riskPercent :: jsnum
  pi_initialRiskReward :: "jsnum option"
  pi_maxConcurrentPositions :: int

datatype tx_outcome =
    Tx_existing position_row intent_row nat
  | Tx_blocked nat
  | Tx_created position_row intent_row nat

text \<open>The answer: the rows with the slots consumed before and after, or a capacity refusal.\<close>

datatype create_result =
    Create_ok position_row intent_row nat nat
  | Create_blocked nat nat

definition pending_position :: "string \<Rightarrow> pending_input \<Rightarrow> position_row" where
  "pending_position pid inp =
     \<lparr>ps_id = pid, ps_userId = pi_userId inp, ps_signalId = Some (pi_signalId inp),
      ps_symbol = pi_internalSymbol inp, ps_strategyId = pi_strategyId inp, ps_direction = pi_direction inp,
      ps_volume = pi_volume inp, ps_origin = ''ENGINE'', ps_initialStopLoss = pi_stopLoss inp,
      ps_stopLoss = pi_stopLoss inp, ps_initialTakeProfit = pi_takeProfit inp,
      ps_takeProfit = pi_takeProfit inp, ps_status = ''PENDING'', ps_riskAmount = Some (pi_riskAmount inp),
      ps_riskPercent = Some (pi_riskPercent inp), ps_initialRiskReward = pi_initialRiskReward inp,
      ps_entryPrice = None, ps_brokerPositionId = None,
      ps_idempotencyKey = executionIntentIdempotencyKey (pi_signalId inp),
      ps_closePrice = None, ps_realizedPnl = None, ps_closeReason = None, ps_openedAt = None,
      ps_closedAt = None\<rparr>"

definition createExecutionIntentRow ::
  "(string \<Rightarrow> string) \<Rightarrow> string \<Rightarrow> string \<Rightarrow> int \<Rightarrow> pending_input \<Rightarrow> intent_row" where
  "createExecutionIntentRow orderComment iid pid now inp =
     (let key = executionIntentIdempotencyKey (pi_signalId inp)
      in \<lparr>it_id = iid, it_userId = pi_userId inp, it_signalId = pi_signalId inp, it_positionId = Some pid,
          it_idempotencyKey = key, it_brokerComment = orderComment key,
          it_internalSymbol = pi_internalSymbol inp, it_brokerSymbol = pi_brokerSymbol inp,
          it_direction = pi_direction inp, it_requestedVolume = pi_volume inp,
          it_requestedStopLoss = pi_stopLoss inp, it_requestedTakeProfit = pi_takeProfit inp,
          it_strategyId = pi_strategyId inp, it_state = ''CREATED'', it_createdAt = now,
          it_submittedAt = None, it_brokerConfirmedAt = None, it_persistedAt = None, it_failedAt = None,
          it_recoveredAt = None, it_brokerPositionId = None, it_brokerOrderTicket = None,
          it_brokerDealTicket = None, it_lastErrorCode = None, it_lastErrorMessage = None\<rparr>)"

text \<open>The transaction of thread \<open>t\<close>: it waits for the lock, holds it while it reads, and
  gives it up when it ends, committed or rolled back.\<close>

definition lock_key :: "(string \<Rightarrow> int) \<Rightarrow> string \<Rightarrow> int" where
  "lock_key hashtext u = hashtext (mt5CapacityAdvisoryLockKey u)"

definition acquire :: "int \<Rightarrow> nat \<Rightarrow> (db, unit) prog" where
  "acquire k t = Atomic (\<lambda>d.
     if db_locks d k = None then Some (d\<lparr>db_locks := (db_locks d)(k := Some t)\<rparr>, Done ()) else None)"

definition release :: "int \<Rightarrow> db \<Rightarrow> db" where
  "release k d = d\<lparr>db_locks := (db_locks d)(k := None)\<rparr>"

definition end_transaction :: "int \<Rightarrow> 'a \<Rightarrow> (db, 'a) prog" where
  "end_transaction k x = command (\<lambda>d. (release k d, x))"

definition insert_both :: "position_row \<Rightarrow> intent_row \<Rightarrow> db \<Rightarrow> db_error + db" where
  "insert_both p i d =
     (case insert_position p d of Inl e \<Rightarrow> Inl e | Inr d1 \<Rightarrow> insert_intent i d1)"

definition insert_and_commit ::
  "int \<Rightarrow> position_row \<Rightarrow> intent_row \<Rightarrow> nat \<Rightarrow> (db, tx_outcome) prog" where
  "insert_and_commit k p i consumedBefore = Atomic (\<lambda>d.
     case insert_both p i d of
       Inl e \<Rightarrow> Some (release k d, Throw e)
     | Inr d' \<Rightarrow> Some (release k d', Done (Tx_created p i consumedBefore)))"

definition reserve_slot ::
  "int \<Rightarrow> pending_input \<Rightarrow> position_row \<Rightarrow> intent_row \<Rightarrow> (db, tx_outcome) prog" where
  "reserve_slot k inp p i =
     bind (query (countMt5ConsumedCapacitySlots (pi_userId inp))) (\<lambda>consumedBefore.
       if \<not> decideCapacityReservation (int consumedBefore) (pi_maxConcurrentPositions inp)
       then end_transaction k (Tx_blocked consumedBefore)
       else insert_and_commit k p i consumedBefore)"

definition create_transaction ::
  "int \<Rightarrow> nat \<Rightarrow> pending_input \<Rightarrow> position_row \<Rightarrow> intent_row \<Rightarrow> (db, tx_outcome) prog" where
  "create_transaction k t inp p i =
     bind (acquire k t) (\<lambda>_.
     bind (query (find_position_by_key (executionIntentIdempotencyKey (pi_signalId inp)))) (\<lambda>existingPosition.
     bind (query (findExecutionIntentBySignal (pi_signalId inp))) (\<lambda>existingIntent.
       case (existingPosition, existingIntent) of
         (Some ep, Some ei) \<Rightarrow>
           bind (query (countMt5ConsumedCapacitySlots (pi_userId inp)))
             (\<lambda>consumed. end_transaction k (Tx_existing ep ei consumed))
       | _ \<Rightarrow> reserve_slot k inp p i)))"

fun create_answer :: "tx_outcome \<Rightarrow> create_result" where
  "create_answer (Tx_blocked n) = Create_blocked n n"
| "create_answer (Tx_existing p i n) = Create_ok p i n n"
| "create_answer (Tx_created p i n) = Create_ok p i n (n + 1)"

definition create_recovered :: "pending_input \<Rightarrow> db_error \<Rightarrow> (db, create_result) prog" where
  "create_recovered inp e =
     (if e \<noteq> Unique_violation then Throw e
      else bind (query (find_position_by_key (executionIntentIdempotencyKey (pi_signalId inp)))) (\<lambda>position.
           bind (query (findExecutionIntentBySignal (pi_signalId inp))) (\<lambda>intent.
             case (position, intent) of
               (Some p, Some i) \<Rightarrow>
                 bind (query (countMt5ConsumedCapacitySlots (pi_userId inp)))
                   (\<lambda>consumed. Done (Create_ok p i consumed consumed))
             | _ \<Rightarrow> Throw e)))"

definition createPendingPositionWithExecutionIntent ::
  "(string \<Rightarrow> int) \<Rightarrow> (string \<Rightarrow> string) \<Rightarrow> nat \<Rightarrow> string \<Rightarrow> string \<Rightarrow> int \<Rightarrow> pending_input \<Rightarrow> (db, create_result) prog" where
  "createPendingPositionWithExecutionIntent hashtext orderComment t pid iid now inp =
     catch
       (bind (create_transaction (lock_key hashtext (pi_userId inp)) t inp (pending_position pid inp)
                (createExecutionIntentRow orderComment iid pid now inp))
             (\<lambda>r. Done (create_answer r)))
       (create_recovered inp)"

subsection \<open>Transitions of an intent\<close>

text \<open>Each \<open>markExecutionIntent\<close> function reads the row, and skips, does nothing or updates.\<close>

definition transition_intent ::
  "string \<Rightarrow> string \<Rightarrow> (intent_row \<Rightarrow> intent_row) \<Rightarrow> (db, intent_row) prog" where
  "transition_intent iid to_s upd =
     bind (query (find_intent iid)) (\<lambda>r.
       case r of
         None \<Rightarrow> Throw Intent_not_found
       | Some current \<Rightarrow>
           if \<not> canTransitionExecutionIntentState (it_state current) to_s then Done current
           else if it_state current = to_s then Done current
           else attempt (update_intent_row iid upd))"

definition markExecutionIntentSubmitted :: "string \<Rightarrow> int \<Rightarrow> (db, intent_row) prog" where
  "markExecutionIntentSubmitted iid now =
     transition_intent iid ''SUBMITTED'' (\<lambda>t. t\<lparr>it_state := ''SUBMITTED'', it_submittedAt := Some now\<rparr>)"

record broker_ref =
  br_brokerPositionId :: string
  br_orderTicket :: "string option"
  br_dealTicket :: "string option"

definition markExecutionIntentBrokerConfirmed :: "string \<Rightarrow> broker_ref \<Rightarrow> int \<Rightarrow> (db, intent_row) prog" where
  "markExecutionIntentBrokerConfirmed iid broker now =
     transition_intent iid ''BROKER_CONFIRMED''
       (\<lambda>t. t\<lparr>it_state := ''BROKER_CONFIRMED'', it_brokerConfirmedAt := Some now,
             it_brokerPositionId := Some (br_brokerPositionId broker),
             it_brokerOrderTicket := br_orderTicket broker, it_brokerDealTicket := br_dealTicket broker\<rparr>)"

definition markExecutionIntentPersisted :: "string \<Rightarrow> int \<Rightarrow> (db, intent_row) prog" where
  "markExecutionIntentPersisted iid now =
     transition_intent iid ''PERSISTED'' (\<lambda>t. t\<lparr>it_state := ''PERSISTED'', it_persistedAt := Some now\<rparr>)"

definition markExecutionIntentRejected ::
  "string \<Rightarrow> string option \<Rightarrow> string option \<Rightarrow> int \<Rightarrow> (db, intent_row) prog" where
  "markExecutionIntentRejected iid code message now =
     transition_intent iid ''REJECTED''
       (\<lambda>t. t\<lparr>it_state := ''REJECTED'', it_failedAt := Some now, it_lastErrorCode := code,
             it_lastErrorMessage := message\<rparr>)"

definition markExecutionIntentAmbiguous :: "string \<Rightarrow> string option \<Rightarrow> string option \<Rightarrow> (db, intent_row) prog" where
  "markExecutionIntentAmbiguous iid code message =
     transition_intent iid ''AMBIGUOUS''
       (\<lambda>t. t\<lparr>it_state := ''AMBIGUOUS'', it_lastErrorCode := code, it_lastErrorMessage := message\<rparr>)"

definition markExecutionIntentRecovered :: "string \<Rightarrow> broker_ref \<Rightarrow> int \<Rightarrow> (db, intent_row) prog" where
  "markExecutionIntentRecovered iid broker now =
     transition_intent iid ''RECOVERED''
       (\<lambda>t. t\<lparr>it_state := ''RECOVERED'', it_recoveredAt := Some now,
             it_brokerPositionId := Some (br_brokerPositionId broker),
             it_brokerOrderTicket := br_orderTicket broker, it_brokerDealTicket := br_dealTicket broker\<rparr>)"

subsection \<open>Positions\<close>

record refresh_input =
  rf_volume :: jsnum
  rf_entryPrice :: "jsnum option"
  rf_stopLoss :: jsnum
  rf_takeProfit :: jsnum
  rf_stopDistance :: "jsnum option"
  rf_targetDistance :: "jsnum option"
  rf_riskAmount :: jsnum
  rf_riskPercent :: jsnum
  rf_initialRiskReward :: "jsnum option"

fun keep_unless :: "'a option \<Rightarrow> 'a option \<Rightarrow> 'a option" where
  "keep_unless None old = old"
| "keep_unless (Some x) old = Some x"

text \<open>One transaction of three updates, rolled back when a row is missing.\<close>

definition refresh_rows :: "string \<Rightarrow> string \<Rightarrow> string \<Rightarrow> refresh_input \<Rightarrow> db \<Rightarrow> db_error + db \<times> unit" where
  "refresh_rows pid iid sid r d =
     (case update_position_row pid
        (\<lambda>p. p\<lparr>ps_volume := rf_volume r, ps_initialStopLoss := rf_stopLoss r, ps_stopLoss := rf_stopLoss r,
              ps_initialTakeProfit := Some (rf_takeProfit r), ps_takeProfit := Some (rf_takeProfit r),
              ps_initialRiskReward := rf_initialRiskReward r, ps_riskAmount := Some (rf_riskAmount r),
              ps_riskPercent := Some (rf_riskPercent r)\<rparr>) d of
        Inl e \<Rightarrow> Inl e
      | Inr (d1, _) \<Rightarrow>
          (case update_intent_row iid
             (\<lambda>t. t\<lparr>it_requestedVolume := rf_volume r, it_requestedStopLoss := rf_stopLoss r,
                   it_requestedTakeProfit := Some (rf_takeProfit r)\<rparr>) d1 of
             Inl e \<Rightarrow> Inl e
           | Inr (d2, _) \<Rightarrow>
               update_signal_row sid
                 (\<lambda>s. s\<lparr>sg_proposedVolume := Some (rf_volume r),
                       sg_proposedEntryPrice := keep_unless (rf_entryPrice r) (sg_proposedEntryPrice s),
                       sg_stopLoss := Some (rf_stopLoss r), sg_takeProfit := Some (rf_takeProfit r),
                       sg_stopDistance := keep_unless (rf_stopDistance r) (sg_stopDistance s),
                       sg_targetDistance := keep_unless (rf_targetDistance r) (sg_targetDistance s),
                       sg_riskRewardRatio := keep_unless (rf_initialRiskReward r) (sg_riskRewardRatio s)\<rparr>) d2))"

definition refreshPendingExecutionParams ::
  "string \<Rightarrow> string \<Rightarrow> string \<Rightarrow> refresh_input \<Rightarrow> (db, unit) prog" where
  "refreshPendingExecutionParams pid iid sid r =
     bind (query (find_position pid)) (\<lambda>_. attempt (refresh_rows pid iid sid r))"

definition failClosedPendingExecution ::
  "string \<Rightarrow> string \<Rightarrow> string \<Rightarrow> string \<Rightarrow> int \<Rightarrow> (db, bool) prog" where
  "failClosedPendingExecution pid iid code message now =
     bind (query (find_position pid)) (\<lambda>before.
       case before of
         None \<Rightarrow> Done False
       | Some b \<Rightarrow>
           if \<not> canRejectPendingPositionStatus (ps_status b) then Done False
           else bind (update_positions (\<lambda>p. ps_id p = pid \<and> ps_status p \<in> {''PENDING'', ''OPEN_REQUESTED''})
                        (\<lambda>p. p\<lparr>ps_status := ''REJECTED''\<rparr>)) (\<lambda>n.
                bind (markExecutionIntentRejected iid (Some code) (Some message) now)
                  (\<lambda>_. Done (0 < n))))"

record close_data =
  cl_closePrice :: "jsnum option"
  cl_realizedPnl :: "jsnum option"
  cl_closeReason :: string
  cl_closedAt :: int

definition closeLocalPositionIfCloseable ::
  "string \<Rightarrow> close_data \<Rightarrow> (db, bool \<times> string option) prog" where
  "closeLocalPositionIfCloseable pid dat =
     bind (query (find_position pid)) (\<lambda>before.
       case before of
         None \<Rightarrow> Done (False, None)
       | Some b \<Rightarrow>
           if ps_status b = ''CLOSED'' then Done (False, Some ''CLOSED'')
           else bind (update_positions
                  (\<lambda>p. ps_id p = pid \<and> ps_status p \<in> {''OPEN'', ''PENDING'', ''OPEN_REQUESTED'', ''CLOSE_REQUESTED''})
                  (\<lambda>p. p\<lparr>ps_status := ''CLOSED'', ps_closePrice := cl_closePrice dat,
                        ps_realizedPnl := cl_realizedPnl dat, ps_closeReason := Some (cl_closeReason dat),
                        ps_closedAt := Some (cl_closedAt dat)\<rparr>))
                (\<lambda>n. if n = 0 then Done (False, Some (ps_status b)) else Done (True, Some (ps_status b))))"

record broker_fill =
  bf_volume :: jsnum
  bf_orderTicket :: "string option"
  bf_dealTicket :: "string option"

record open_result =
  ot_accepted :: bool
  ot_brokerPositionId :: "string option"
  ot_entryPrice :: "jsnum option"
  ot_position :: "broker_fill option"

definition persistPositionOpenFromBrokerResult ::
  "string \<Rightarrow> string \<Rightarrow> string \<Rightarrow> open_result \<Rightarrow> int \<Rightarrow> (db, unit) prog" where
  "persistPositionOpenFromBrokerResult pid sid iid result now =
     (case ot_position result of
        None \<Rightarrow> Done ()
      | Some fill \<Rightarrow>
          if \<not> ot_accepted result then Done ()
          else bind (query (find_position pid)) (\<lambda>_.
               bind (update_positions
                      (\<lambda>p. ps_id p = pid \<and> ps_status p \<in> {''PENDING'', ''OPEN_REQUESTED'', ''OPEN''})
                      (\<lambda>p. p\<lparr>ps_status := ''OPEN'', ps_brokerPositionId := ot_brokerPositionId result,
                            ps_entryPrice := ot_entryPrice result, ps_volume := bf_volume fill,
                            ps_openedAt := Some now\<rparr>)) (\<lambda>n.
                 if n = 0 then Done ()
                 else bind (attempt (update_signal_row sid
                        (\<lambda>s. s\<lparr>sg_status := ''EXECUTED'', sg_proposedEntryPrice := ot_entryPrice result,
                              sg_proposedVolume := Some (bf_volume fill)\<rparr>))) (\<lambda>_.
                      bind (query (find_intent iid)) (\<lambda>current.
                      bind (if some_and current (\<lambda>c. it_state c \<noteq> ''RECOVERED'' \<and> it_state c \<noteq> ''BROKER_CONFIRMED'')
                            then bind (markExecutionIntentBrokerConfirmed iid
                                   \<lparr>br_brokerPositionId = or_default (ot_brokerPositionId result) [],
                                    br_orderTicket = bf_orderTicket fill, br_dealTicket = bf_dealTicket fill\<rparr> now)
                                 (\<lambda>_. Done ())
                            else Done ()) (\<lambda>_.
                      bind (markExecutionIntentPersisted iid now) (\<lambda>_. Done ())))))))"

definition tryRecoverExecutionIntentFromBroker ::
  "intent_row \<Rightarrow> string \<Rightarrow> open_result option \<Rightarrow> int \<Rightarrow> (db, open_result option) prog" where
  "tryRecoverExecutionIntentFromBroker intent pid adopted now =
     (case adopted of
        None \<Rightarrow> Done None
      | Some a \<Rightarrow>
          if \<not> ot_accepted a then Done None
          else bind (markExecutionIntentRecovered (it_id intent)
                  \<lparr>br_brokerPositionId = or_default (ot_brokerPositionId a) [],
                   br_orderTicket = Option.bind (ot_position a) bf_orderTicket,
                   br_dealTicket = Option.bind (ot_position a) bf_dealTicket\<rparr> now) (\<lambda>_.
               bind (persistPositionOpenFromBrokerResult pid (it_signalId intent) (it_id intent) a now)
                 (\<lambda>_. Done (Some a))))"

subsection \<open>The duplicate guard\<close>

datatype block_reason = position_already_open | intent_terminal string | intent_unresolved string

datatype duplicate_decision = Block_duplicate block_reason | Resume_before_submit | No_duplicate

definition shouldBlockDuplicateExecution ::
  "intent_row option \<Rightarrow> position_row option \<Rightarrow> duplicate_decision" where
  "shouldBlockDuplicateExecution intent position =
     (if some_and position (\<lambda>p. ps_status p = ''OPEN'') then Block_duplicate position_already_open
      else case intent of
             None \<Rightarrow> No_duplicate
           | Some i \<Rightarrow>
               if it_state i = ''CREATED'' \<and> it_submittedAt i = None \<and>
                  some_and position (\<lambda>p. ps_status p = ''PENDING'') then Resume_before_submit
               else if isTerminalExecutionIntentState (it_state i)
               then Block_duplicate (intent_terminal (it_state i))
               else if isUnresolvedExecutionIntentState (it_state i)
               then Block_duplicate (intent_unresolved (it_state i))
               else No_duplicate)"

end
