(* ===== verification/IntentSystem.thy ===== *)
theory IntentSystem
  imports Intents
begin

text \<open>
  Execution intents served concurrently: requests of several workers interleave call by call on the
  shared tables.  Capacity is never exceeded, rows only evolve forwards, and a submitted signal stays
  blocked, under every interleaving; run alone, creation is idempotent and closing happens once.
\<close>

subsection \<open>The requests\<close>

datatype request =
    Create string string int pending_input
  | Submitted string int
  | Broker_confirmed string broker_ref int
  | Persisted string int
  | Rejected string "string option" "string option" int
  | Ambiguous string "string option" "string option"
  | Recovered string broker_ref int
  | Refresh string string string refresh_input
  | Fail_closed string string string string int
  | Close string close_data
  | Persist_open string string string open_result int
  | Recover intent_row string "open_result option" int

definition void :: "(db, 'a) prog \<Rightarrow> (db, unit) prog" where
  "void p = bind p (\<lambda>_. Done ())"

fun serve :: "(string \<Rightarrow> int) \<Rightarrow> (string \<Rightarrow> string) \<Rightarrow> nat \<Rightarrow> request \<Rightarrow> (db, unit) prog" where
  "serve hashtext orderComment t (Create pid iid now inp) =
     void (createPendingPositionWithExecutionIntent hashtext orderComment t pid iid now inp)"
| "serve hashtext orderComment t (Submitted iid now) = void (markExecutionIntentSubmitted iid now)"
| "serve hashtext orderComment t (Broker_confirmed iid b now) = void (markExecutionIntentBrokerConfirmed iid b now)"
| "serve hashtext orderComment t (Persisted iid now) = void (markExecutionIntentPersisted iid now)"
| "serve hashtext orderComment t (Rejected iid c m now) = void (markExecutionIntentRejected iid c m now)"
| "serve hashtext orderComment t (Ambiguous iid c m) = void (markExecutionIntentAmbiguous iid c m)"
| "serve hashtext orderComment t (Recovered iid b now) = void (markExecutionIntentRecovered iid b now)"
| "serve hashtext orderComment t (Refresh pid iid sid r) = void (refreshPendingExecutionParams pid iid sid r)"
| "serve hashtext orderComment t (Fail_closed pid iid c m now) = void (failClosedPendingExecution pid iid c m now)"
| "serve hashtext orderComment t (Close pid dat) = void (closeLocalPositionIfCloseable pid dat)"
| "serve hashtext orderComment t (Persist_open pid sid iid r now) =
     void (persistPositionOpenFromBrokerResult pid sid iid r now)"
| "serve hashtext orderComment t (Recover i pid a now) = void (tryRecoverExecutionIntentFromBroker i pid a now)"

text \<open>Requests that reserve within the capacity of their user.\<close>

fun within_cap :: "(string \<Rightarrow> nat) \<Rightarrow> request \<Rightarrow> bool" where
  "within_cap cap (Create pid iid now inp) = (pi_maxConcurrentPositions inp \<le> int (cap (pi_userId inp)))"
| "within_cap cap _ = True"

subsection \<open>How rows evolve\<close>

abbreviation consumes :: "position_row \<Rightarrow> bool" where
  "consumes p \<equiv> ps_status p \<in> set MT5_CAPACITY_CONSUMING_STATUSES_EXTENDED"

definition position_evolves :: "position_row \<Rightarrow> position_row \<Rightarrow> bool" where
  "position_evolves p q \<longleftrightarrow> ps_id q = ps_id p \<and> ps_userId q = ps_userId p \<and> ps_origin q = ps_origin p \<and>
     ps_signalId q = ps_signalId p \<and> ps_idempotencyKey q = ps_idempotencyKey p \<and>
     (\<not> consumes p \<longrightarrow> ps_status q = ps_status p)"

definition intent_evolves :: "intent_row \<Rightarrow> intent_row \<Rightarrow> bool" where
  "intent_evolves t u \<longleftrightarrow> it_id u = it_id t \<and> it_userId u = it_userId t \<and> it_signalId u = it_signalId t \<and>
     it_positionId u = it_positionId t \<and> it_idempotencyKey u = it_idempotencyKey t \<and>
     it_brokerComment u = it_brokerComment t \<and> it_createdAt u = it_createdAt t \<and>
     (it_state t \<noteq> ''CREATED'' \<longrightarrow> it_state u \<noteq> ''CREATED'') \<and>
     (it_submittedAt t \<noteq> None \<longrightarrow> it_submittedAt u \<noteq> None)"

definition rows_evolve :: "('a \<Rightarrow> 'a \<Rightarrow> bool) \<Rightarrow> 'a list \<Rightarrow> 'a list \<Rightarrow> bool" where
  "rows_evolve R xs ys \<longleftrightarrow> length xs \<le> length ys \<and> (\<forall>i<length xs. R (xs ! i) (ys ! i))"

definition distinct_intents :: "db \<Rightarrow> bool" where
  "distinct_intents d \<longleftrightarrow> distinct (List.map it_id (db_intents d)) \<and> distinct (List.map it_signalId (db_intents d))"

definition evolves :: "db \<Rightarrow> db \<Rightarrow> bool" where
  "evolves d e \<longleftrightarrow> rows_evolve position_evolves (db_positions d) (db_positions e) \<and>
     rows_evolve intent_evolves (db_intents d) (db_intents e) \<and>
     (distinct_intents d \<longrightarrow> distinct_intents e)"

lemma position_evolves_refl [simp]: "position_evolves p p"
  by (simp add: position_evolves_def)

lemma intent_evolves_refl [simp]: "intent_evolves p p"
  by (simp add: intent_evolves_def)

lemma position_evolves_trans: "position_evolves p q \<Longrightarrow> position_evolves q r \<Longrightarrow> position_evolves p r"
  unfolding position_evolves_def by metis

lemma intent_evolves_trans: "intent_evolves p q \<Longrightarrow> intent_evolves q r \<Longrightarrow> intent_evolves p r"
  unfolding intent_evolves_def by metis

lemma rows_evolve_refl [simp]: "(\<And>x. R x x) \<Longrightarrow> rows_evolve R xs xs"
  by (simp add: rows_evolve_def)

lemma rows_evolve_trans:
  "(\<And>x y z. R x y \<Longrightarrow> R y z \<Longrightarrow> R x z) \<Longrightarrow> rows_evolve R xs ys \<Longrightarrow> rows_evolve R ys zs \<Longrightarrow> rows_evolve R xs zs"
  unfolding rows_evolve_def by (meson order_less_le_trans order_trans)

lemma rows_evolve_append [simp]: "(\<And>x. R x x) \<Longrightarrow> rows_evolve R xs (xs @ ys)"
  by (simp add: rows_evolve_def nth_append)

lemma rows_evolve_map: "(\<And>x. R x (f x)) \<Longrightarrow> rows_evolve R xs (List.map f xs)"
  by (simp add: rows_evolve_def)

lemma rows_evolve_update_first:
  "(\<And>x. R x x) \<Longrightarrow> (\<And>x. R x (f x)) \<Longrightarrow> rows_evolve R xs (update_first q f xs)"
  by (auto simp: rows_evolve_def) (metis update_first_nth)

lemma evolves_refl [simp]: "evolves d d"
  by (simp add: evolves_def)

lemma evolves_trans: "evolves d e \<Longrightarrow> evolves e f \<Longrightarrow> evolves d f"
  unfolding evolves_def
  by (meson rows_evolve_trans position_evolves_trans intent_evolves_trans)

lemma distinct_intents_kept:
  assumes "rows_evolve intent_evolves (db_intents d) (db_intents e)"
    and "length (db_intents e) = length (db_intents d)" and "distinct_intents d"
  shows "distinct_intents e"
proof -
  have "List.map it_id (db_intents e) = List.map it_id (db_intents d)"
    "List.map it_signalId (db_intents e) = List.map it_signalId (db_intents d)"
    by (rule nth_equalityI; use assms(1,2) in \<open>auto simp: rows_evolve_def intent_evolves_def\<close>)+
  then show ?thesis using assms(3) by (simp add: distinct_intents_def)
qed

text \<open>A row found by a fixed column is found again, evolved.\<close>

lemma find_evolves:
  assumes "rows_evolve R xs ys" and "\<And>x y. R x y \<Longrightarrow> q y = q x" and "find q xs = Some x"
  shows "\<exists>y. find q ys = Some y \<and> R x y"
proof -
  obtain i where i: "i < length xs" "q (xs ! i)" "x = xs ! i" "\<forall>j<i. \<not> q (xs ! j)"
    using assms(3) by (auto simp: find_Some_iff)
  have r: "\<And>j. j \<le> i \<Longrightarrow> R (xs ! j) (ys ! j) \<and> j < length ys"
    using assms(1) i(1) by (simp add: rows_evolve_def)
  have "q (ys ! i)" using assms(2) r [of i] i(2) by blast
  moreover have "\<forall>j<i. \<not> q (ys ! j)" using assms(2) r i(4) less_imp_le by blast
  ultimately have "find q ys = Some (ys ! i)" using r [of i] by (auto simp: find_Some_iff)
  then show ?thesis using r [of i] i(3) by auto
qed

subsection \<open>Slots\<close>

lemma slots_mono:
  assumes "length ps = length qs" and "\<forall>i<length ps. position_evolves (ps ! i) (qs ! i)"
  shows "length (filter (\<lambda>p. ps_userId p = u \<and> ps_origin p = ''ENGINE'' \<and> consumes p) qs) \<le>
         length (filter (\<lambda>p. ps_userId p = u \<and> ps_origin p = ''ENGINE'' \<and> consumes p) ps)"
  using assms
proof (induction ps qs rule: list_induct2)
  case (Cons p ps q qs)
  then have e: "position_evolves p q" by fastforce
  have "\<forall>i<length ps. position_evolves (ps ! i) (qs ! i)" using Cons.prems by fastforce
  note Cons.IH [OF this]
  moreover have "consumes q \<Longrightarrow> consumes p" using e unfolding position_evolves_def by metis
  ultimately show ?case using e by (auto simp: position_evolves_def)
qed simp

lemma slots_insert:
  "countMt5ConsumedCapacitySlots u (d\<lparr>db_positions := db_positions d @ [pending_position pid inp]\<rparr>) =
     countMt5ConsumedCapacitySlots u d + (if u = pi_userId inp then 1 else 0)"
  by (simp add: countMt5ConsumedCapacitySlots_def pending_position_def
      MT5_CAPACITY_CONSUMING_STATUSES_EXTENDED_def)

text \<open>The invariant, and what a thread may do to the others: keep their locks, and reserve for a user
  only under its own lock.\<close>

definition known_states :: "db \<Rightarrow> bool" where
  "known_states d \<longleftrightarrow> (\<forall>t\<in>set (db_intents d).
     isTerminalExecutionIntentState (it_state t) \<or> isUnresolvedExecutionIntentState (it_state t))"

definition system_inv :: "(string \<Rightarrow> nat) \<Rightarrow> db \<Rightarrow> bool" where
  "system_inv cap d \<longleftrightarrow> (\<forall>u. countMt5ConsumedCapacitySlots u d \<le> cap u) \<and> known_states d"

definition thread_guar :: "(string \<Rightarrow> int) \<Rightarrow> nat \<Rightarrow> db \<Rightarrow> db \<Rightarrow> bool" where
  "thread_guar hashtext t d e \<longleftrightarrow> evolves d e \<and>
     (\<forall>k v. db_locks d k = Some v \<longrightarrow> v \<noteq> t \<longrightarrow> db_locks e k = Some v) \<and>
     (\<forall>u. countMt5ConsumedCapacitySlots u d < countMt5ConsumedCapacitySlots u e \<longrightarrow>
        db_locks d (lock_key hashtext u) = Some t)"

definition thread_rely :: "(string \<Rightarrow> int) \<Rightarrow> nat \<Rightarrow> db \<Rightarrow> db \<Rightarrow> bool" where
  "thread_rely hashtext t d e \<longleftrightarrow>
     (\<forall>k. db_locks d k = Some t \<longrightarrow> db_locks e k = Some t) \<and>
     (\<forall>u. db_locks d (lock_key hashtext u) = Some t \<longrightarrow>
        countMt5ConsumedCapacitySlots u e \<le> countMt5ConsumedCapacitySlots u d)"

lemma thread_guar_rely: "t \<noteq> v \<Longrightarrow> thread_guar h t d e \<Longrightarrow> thread_rely h v d e"
  unfolding thread_guar_def thread_rely_def by (metis not_le option.inject)

lemma thread_guar_refl [simp]: "thread_guar h t d d"
  by (simp add: thread_guar_def)

text \<open>A change of rows that keeps locks and lengths of the positions is allowed to every thread.\<close>

lemma row_change_ok:
  assumes "system_inv cap d" and "rows_evolve position_evolves (db_positions d) (db_positions e)"
    and "length (db_positions e) = length (db_positions d)"
    and "rows_evolve intent_evolves (db_intents d) (db_intents e)"
    and "length (db_intents e) = length (db_intents d)"
    and "db_locks e = db_locks d" and "known_states e"
  shows "system_inv cap e \<and> thread_guar h t d e"
proof -
  have "countMt5ConsumedCapacitySlots u e \<le> countMt5ConsumedCapacitySlots u d" for u
    unfolding countMt5ConsumedCapacitySlots_def
    by (rule slots_mono) (use assms(2,3) in \<open>auto simp: rows_evolve_def\<close>)
  note slots = this
  have "\<forall>u. countMt5ConsumedCapacitySlots u e \<le> cap u"
    using slots assms(1) unfolding system_inv_def by (meson order_trans)
  moreover have "thread_guar h t d e"
    using assms(2,4,6) slots distinct_intents_kept [OF assms(4,5)]
    by (simp add: thread_guar_def evolves_def not_less [symmetric])
  ultimately show ?thesis using assms(7) by (simp add: system_inv_def)
qed

subsection \<open>Every operation keeps its guarantee\<close>

lemma query_ok: "upholds I R (thread_guar h t) P (query g)"
  by (rule upholds_query) simp

lemma void_ok: "upholds I R G P p \<Longrightarrow> upholds I R G P (void p)"
  unfolding void_def by (rule upholds_bind) (auto intro: up_done)

lemma update_intent_row_ok:
  assumes "system_inv cap d" and "update_intent_row iid f d = Inr (e, x)"
    and "\<And>t. intent_evolves t (f t)"
    and "\<And>t. isTerminalExecutionIntentState (it_state t) \<or> isUnresolvedExecutionIntentState (it_state t) \<Longrightarrow>
           isTerminalExecutionIntentState (it_state (f t)) \<or> isUnresolvedExecutionIntentState (it_state (f t))"
  shows "rows_evolve intent_evolves (db_intents d) (db_intents e) \<and>
     length (db_intents e) = length (db_intents d) \<and> db_positions e = db_positions d \<and> db_locks e = db_locks d \<and> known_states e"
proof -
  have e: "e = d\<lparr>db_intents := update_first (\<lambda>t. it_id t = iid) f (db_intents d)\<rparr>"
    using assms(2) by (auto simp: update_intent_row_def split: option.splits)
  have "x \<in> set (update_first q f xs) \<Longrightarrow> x \<in> set xs \<or> (\<exists>y\<in>set xs. x = f y)" for x q xs
    by (induction xs) (auto split: if_splits)
  then have "known_states e"
    using assms(1,4) unfolding e system_inv_def known_states_def by simp metis
  then show ?thesis using assms(3) by (simp add: e rows_evolve_update_first)
qed

lemma transition_ok:
  assumes "\<And>t. intent_evolves t (f t)"
    and "\<And>t. isTerminalExecutionIntentState (it_state (f t)) \<or> isUnresolvedExecutionIntentState (it_state (f t))"
  shows "upholds (system_inv cap) R (thread_guar h t) P (transition_intent iid s f)"
  unfolding transition_intent_def
proof (rule upholds_bind [OF query_ok])
  fix r
  have "upholds (system_inv cap) R (thread_guar h t) Q (attempt (update_intent_row iid f))" for Q
  proof (rule upholds_attempt)
    fix d e x assume d: "system_inv cap d" "update_intent_row iid f d = Inr (e, x)"
    show "system_inv cap e \<and> thread_guar h t d e"
      by (rule row_change_ok [OF d(1)]) (use update_intent_row_ok [OF d] assms in auto)
  qed simp
  then show "upholds (system_inv cap) R (thread_guar h t) (\<lambda>_. True) (case r of None \<Rightarrow> Throw Intent_not_found
     | Some current \<Rightarrow> if \<not> canTransitionExecutionIntentState (it_state current) s then Done current
         else if it_state current = s then Done current else attempt (update_intent_row iid f))"
    by (auto split: option.splits intro: up_done up_throw)
qed

lemmas state_simps = intent_evolves_def isTerminalExecutionIntentState_def isUnresolvedExecutionIntentState_def

lemma mark_ok:
  "upholds (system_inv cap) R (thread_guar h t) P (markExecutionIntentSubmitted iid now)"
  "upholds (system_inv cap) R (thread_guar h t) P (markExecutionIntentBrokerConfirmed iid b now)"
  "upholds (system_inv cap) R (thread_guar h t) P (markExecutionIntentPersisted iid now)"
  "upholds (system_inv cap) R (thread_guar h t) P (markExecutionIntentRejected iid c m now)"
  "upholds (system_inv cap) R (thread_guar h t) P (markExecutionIntentAmbiguous iid c m)"
  "upholds (system_inv cap) R (thread_guar h t) P (markExecutionIntentRecovered iid b now)"
  unfolding markExecutionIntentSubmitted_def markExecutionIntentBrokerConfirmed_def
    markExecutionIntentPersisted_def markExecutionIntentRejected_def markExecutionIntentAmbiguous_def
    markExecutionIntentRecovered_def
  by (rule transition_ok; simp add: state_simps)+

lemma update_positions_ok:
  assumes "\<And>p. q p \<Longrightarrow> position_evolves p (f p)"
  shows "upholds (system_inv cap) R (thread_guar h t) P (update_positions q f)"
  unfolding update_positions_def
proof (rule upholds_attempt)
  fix d e n
  assume d: "system_inv cap d" and u: "(let ps = List.map (\<lambda>p. if q p then f p else p) (db_positions d)
     in if broker_id_clash ps then Inl Unique_violation
        else Inr (d\<lparr>db_positions := ps\<rparr>, length (filter q (db_positions d)))) = Inr (e, n)"
  then have e: "e = d\<lparr>db_positions := List.map (\<lambda>p. if q p then f p else p) (db_positions d)\<rparr>"
    by (auto simp: Let_def split: if_splits)
  show "system_inv cap e \<and> thread_guar h t d e"
    by (rule row_change_ok [OF d])
      (use d assms in \<open>auto simp: e system_inv_def known_states_def intro!: rows_evolve_map\<close>)
qed simp

lemma update_signal_ok: "upholds (system_inv cap) R (thread_guar h t) P (attempt (update_signal_row sid f))"
proof (rule upholds_attempt)
  fix d e n assume d: "system_inv cap d" "update_signal_row sid f d = Inr (e, n)"
  then have "e = d\<lparr>db_signals := update_first (\<lambda>s. sg_id s = sid) f (db_signals d)\<rparr>"
    by (auto simp: update_signal_row_def split: if_splits)
  then show "system_inv cap e \<and> thread_guar h t d e"
    by (intro row_change_ok [OF d(1)]) (use d in \<open>auto simp: system_inv_def known_states_def\<close>)
qed simp

lemma update_position_row_ok:
  assumes "update_position_row pid f d = Inr (e, x)" and "\<And>p. position_evolves p (f p)"
  shows "rows_evolve position_evolves (db_positions d) (db_positions e) \<and>
     length (db_positions e) = length (db_positions d) \<and> db_intents e = db_intents d \<and> db_locks e = db_locks d"
proof -
  have "e = d\<lparr>db_positions := update_first (\<lambda>p. ps_id p = pid) f (db_positions d)\<rparr>"
    using assms(1) by (auto simp: update_position_row_def split: option.splits)
  then show ?thesis using assms(2) by (simp add: rows_evolve_update_first)
qed

lemma refresh_ok: "upholds (system_inv cap) R (thread_guar h t) P (refreshPendingExecutionParams pid iid sid r)"
  unfolding refreshPendingExecutionParams_def
proof (rule upholds_bind [OF query_ok], rule upholds_attempt)
  fix d e x assume d: "system_inv cap d" and r: "refresh_rows pid iid sid r d = Inr (e, x)"
  define f :: "position_row \<Rightarrow> position_row" where "f = (\<lambda>p. p\<lparr>ps_volume := rf_volume r, ps_initialStopLoss := rf_stopLoss r, ps_stopLoss := rf_stopLoss r,
              ps_initialTakeProfit := Some (rf_takeProfit r), ps_takeProfit := Some (rf_takeProfit r),
              ps_initialRiskReward := rf_initialRiskReward r, ps_riskAmount := Some (rf_riskAmount r),
              ps_riskPercent := Some (rf_riskPercent r)\<rparr>)"
  define g :: "intent_row \<Rightarrow> intent_row" where "g = (\<lambda>t. t\<lparr>it_requestedVolume := rf_volume r, it_requestedStopLoss := rf_stopLoss r,
                   it_requestedTakeProfit := Some (rf_takeProfit r)\<rparr>)"
  from r obtain d1 d2 y k where d1: "update_position_row pid f d = Inr (d1, ())"
    and d2: "update_intent_row iid g d1 = Inr (d2, y)" and e: "update_signal_row sid k d2 = Inr (e, x)"
    unfolding refresh_rows_def f_def [symmetric] g_def [symmetric]
    by (auto split: sum.splits prod.splits)
  have p: "rows_evolve position_evolves (db_positions d) (db_positions d1) \<and>
     length (db_positions d1) = length (db_positions d) \<and> db_intents d1 = db_intents d \<and> db_locks d1 = db_locks d"
    by (rule update_position_row_ok [OF d1]) (simp add: f_def position_evolves_def)
  then have "system_inv cap d1"
    using row_change_ok [OF d, of d1] d by (simp add: system_inv_def known_states_def)
  then have "rows_evolve intent_evolves (db_intents d1) (db_intents d2) \<and>
     length (db_intents d2) = length (db_intents d1) \<and> db_positions d2 = db_positions d1 \<and> db_locks d2 = db_locks d1 \<and> known_states d2"
    by (rule update_intent_row_ok [OF _ d2]) (simp_all add: g_def intent_evolves_def)
  moreover have "db_positions e = db_positions d2 \<and> db_intents e = db_intents d2 \<and> db_locks e = db_locks d2"
    using e by (auto simp: update_signal_row_def split: if_splits)
  ultimately show "system_inv cap e \<and> thread_guar h t d e"
    using p by (intro row_change_ok [OF d]) (auto simp: known_states_def)
qed simp

lemma fail_closed_ok: "upholds (system_inv cap) R (thread_guar h t) P (failClosedPendingExecution pid iid c m now)"
  unfolding failClosedPendingExecution_def
  by (auto intro!: upholds_bind query_ok update_positions_ok mark_ok up_done
      simp: position_evolves_def MT5_CAPACITY_CONSUMING_STATUSES_EXTENDED_def split: option.splits)

lemma close_ok: "upholds (system_inv cap) R (thread_guar h t) P (closeLocalPositionIfCloseable pid dat)"
  unfolding closeLocalPositionIfCloseable_def
  by (auto intro!: upholds_bind query_ok update_positions_ok up_done
      simp: position_evolves_def MT5_CAPACITY_CONSUMING_STATUSES_EXTENDED_def split: option.splits)

lemma persist_ok: "upholds (system_inv cap) R (thread_guar h t) P (persistPositionOpenFromBrokerResult pid sid iid res now)"
  unfolding persistPositionOpenFromBrokerResult_def
  by (auto intro!: upholds_bind query_ok update_positions_ok update_signal_ok mark_ok up_done
      simp: position_evolves_def MT5_CAPACITY_CONSUMING_STATUSES_EXTENDED_def split: option.splits)

lemma recover_ok: "upholds (system_inv cap) R (thread_guar h t) P (tryRecoverExecutionIntentFromBroker i pid a now)"
  unfolding tryRecoverExecutionIntentFromBroker_def
  by (auto intro!: upholds_bind mark_ok persist_ok up_done split: option.splits)

subsection \<open>The reservation\<close>

text \<open>A call, followed by a program that relies on what the call established.\<close>

lemma query_then:
  assumes "\<And>x. stable I R (Q x)" and "\<And>s. I s \<Longrightarrow> G s s" and "\<And>s. I s \<Longrightarrow> P s \<Longrightarrow> Q (g s) s"
    and "\<And>x. upholds I R G (Q x) (k x)"
  shows "upholds I R G P (bind (query g) k)"
  unfolding query_def bind.simps
proof (rule up_atomic)
  fix s s' p
  assume s: "I s" "P s" "map_option (map_prod id (\<lambda>p. bind p k)) (Some (s, Done (g s))) = Some (s', p)"
  then have "s' = s" "p = k (g s)" by auto
  then show "I s' \<and> G s s' \<and> (\<exists>Q. stable I R Q \<and> Q s' \<and> upholds I R G Q p)"
    using assms s(1,2) by (auto intro!: exI [of _ "Q (g s)"])
qed

lemma release_simps [simp]:
  "db_positions (release k d) = db_positions d" "db_intents (release k d) = db_intents d"
  "db_locks (release k d) = (db_locks d)(k := None)"
  "countMt5ConsumedCapacitySlots u (release k d) = countMt5ConsumedCapacitySlots u d"
  by (simp_all add: release_def countMt5ConsumedCapacitySlots_def)

lemma release_ok:
  assumes "system_inv cap d" and "db_locks d k = Some t"
  shows "system_inv cap (release k d) \<and> thread_guar h t d (release k d)"
  using assms by (auto simp: system_inv_def known_states_def thread_guar_def evolves_def distinct_intents_def)

text \<open>While a thread holds the lock of a user, the slots it counted can only become fewer.\<close>

definition holds :: "int \<Rightarrow> nat \<Rightarrow> db \<Rightarrow> bool" where
  "holds k t d \<longleftrightarrow> db_locks d k = Some t"

lemma stable_holds [simp]: "stable I (thread_rely h t) (holds k t)"
  by (auto simp: stable_def thread_rely_def holds_def)

lemma stable_counted [simp]:
  "stable I (thread_rely h t)
     (\<lambda>d. holds (lock_key h u) t d \<and> countMt5ConsumedCapacitySlots u d \<le> n)"
  unfolding stable_def thread_rely_def holds_def by (meson order_trans)

lemma end_transaction_ok:
  "upholds (system_inv cap) R (thread_guar h t) (holds k t) (end_transaction k x)"
  unfolding end_transaction_def by (rule upholds_command) (simp add: release_ok holds_def)

lemma insert_both_rows:
  "insert_both p i d = Inr e \<Longrightarrow>
     e = d\<lparr>db_positions := db_positions d @ [p], db_intents := db_intents d @ [i]\<rparr>"
  "insert_both p i d = Inr e \<Longrightarrow> \<forall>t \<in> set (db_intents d). it_id t \<noteq> it_id i \<and> it_signalId t \<noteq> it_signalId i"
  by (auto simp: insert_both_def insert_position_def insert_intent_def list_ex_iff split: if_splits sum.splits)

lemma insert_and_commit_ok:
  assumes "int n < int (cap (pi_userId inp))"
  shows "upholds (system_inv cap) R (thread_guar h t)
     (\<lambda>d. holds (lock_key h (pi_userId inp)) t d \<and> countMt5ConsumedCapacitySlots (pi_userId inp) d \<le> n)
     (insert_and_commit (lock_key h (pi_userId inp)) (pending_position pid inp)
        (createExecutionIntentRow oc iid pid now inp) n)"
  unfolding insert_and_commit_def
proof (rule up_atomic)
  let ?k = "lock_key h (pi_userId inp)" and ?p = "pending_position pid inp"
    and ?i = "createExecutionIntentRow oc iid pid now inp"
  fix d e and q :: "(db, tx_outcome) prog"
  assume d: "system_inv cap d" "holds ?k t d \<and> countMt5ConsumedCapacitySlots (pi_userId inp) d \<le> n"
    and c: "(case insert_both ?p ?i d of Inl e \<Rightarrow> Some (release ?k d, Throw e)
       | Inr d' \<Rightarrow> Some (release ?k d', Done (Tx_created ?p ?i n))) = Some (e, q)"
  have "system_inv cap e \<and> thread_guar h t d e \<and> upholds (system_inv cap) R (thread_guar h t) (\<lambda>_. True) q"
  proof (cases "insert_both ?p ?i d")
    case (Inl x)
    then show ?thesis using c d release_ok [OF d(1)] by (auto simp: holds_def up_throw)
  next
    case (Inr d')
    have d': "d' = d\<lparr>db_positions := db_positions d @ [?p], db_intents := db_intents d @ [?i]\<rparr>"
      and fresh: "\<forall>t \<in> set (db_intents d). it_id t \<noteq> it_id ?i \<and> it_signalId t \<noteq> it_signalId ?i"
      using insert_both_rows [OF Inr] by blast+
    have e: "e = release ?k d'" "q = Done (Tx_created ?p ?i n)" using c Inr by auto
    have slots: "countMt5ConsumedCapacitySlots u e =
        countMt5ConsumedCapacitySlots u d + (if u = pi_userId inp then 1 else 0)" for u
      using slots_insert [of u d pid inp] by (simp add: e(1) d' countMt5ConsumedCapacitySlots_def)
    have "countMt5ConsumedCapacitySlots u e \<le> cap u" for u
      using slots [of u] d assms by (cases "u = pi_userId inp") (auto simp: system_inv_def)
    moreover have "known_states e"
      using d(1) by (auto simp: e(1) d' system_inv_def known_states_def createExecutionIntentRow_def Let_def
          isUnresolvedExecutionIntentState_def)
    moreover have "thread_guar h t d e"
      using d(2) slots fresh
      by (auto simp: thread_guar_def evolves_def distinct_intents_def e(1) d' holds_def split: if_splits)
    ultimately show ?thesis by (simp add: system_inv_def e(2) up_done)
  qed
  then show "system_inv cap e \<and> thread_guar h t d e \<and>
     (\<exists>Q. stable (system_inv cap) R Q \<and> Q e \<and> upholds (system_inv cap) R (thread_guar h t) Q q)"
    by (auto intro!: exI [of _ "\<lambda>_. True"])
qed

lemma reserve_slot_ok:
  assumes "pi_maxConcurrentPositions inp \<le> int (cap (pi_userId inp))"
  shows "upholds (system_inv cap) (thread_rely h t) (thread_guar h t) (holds (lock_key h (pi_userId inp)) t)
     (reserve_slot (lock_key h (pi_userId inp)) inp (pending_position pid inp)
        (createExecutionIntentRow oc iid pid now inp))"
  unfolding reserve_slot_def
proof (rule query_then [where Q = "\<lambda>n d. holds (lock_key h (pi_userId inp)) t d \<and>
    countMt5ConsumedCapacitySlots (pi_userId inp) d \<le> n"])
  fix n
  show "upholds (system_inv cap) (thread_rely h t) (thread_guar h t)
     (\<lambda>d. holds (lock_key h (pi_userId inp)) t d \<and> countMt5ConsumedCapacitySlots (pi_userId inp) d \<le> n)
     (if \<not> decideCapacityReservation (int n) (pi_maxConcurrentPositions inp)
      then end_transaction (lock_key h (pi_userId inp)) (Tx_blocked n)
      else insert_and_commit (lock_key h (pi_userId inp)) (pending_position pid inp)
        (createExecutionIntentRow oc iid pid now inp) n)"
  proof (cases "decideCapacityReservation (int n) (pi_maxConcurrentPositions inp)")
    case True
    then have "int n < int (cap (pi_userId inp))"
      using assms by (auto simp: decideCapacityReservation_def split: if_splits)
    with True show ?thesis by (simp add: insert_and_commit_ok)
  next
    case False
    then show ?thesis by (auto intro: upholds_weaken [OF end_transaction_ok])
  qed
qed auto

lemma create_ok:
  assumes "pi_maxConcurrentPositions inp \<le> int (cap (pi_userId inp))"
  shows "upholds (system_inv cap) (thread_rely h t) (thread_guar h t) (\<lambda>_. True)
     (createPendingPositionWithExecutionIntent h oc t pid iid now inp)"
proof -
  let ?k = "lock_key h (pi_userId inp)" and ?p = "pending_position pid inp"
    and ?i = "createExecutionIntentRow oc iid pid now inp"
  let ?up = "upholds (system_inv cap) (thread_rely h t) (thread_guar h t)"
  let ?body = "\<lambda>ep. bind (query (findExecutionIntentBySignal (pi_signalId inp))) (\<lambda>ei.
       case (ep, ei) of
         (Some ep, Some ei) \<Rightarrow> bind (query (countMt5ConsumedCapacitySlots (pi_userId inp)))
             (\<lambda>consumed. end_transaction ?k (Tx_existing ep ei consumed))
       | _ \<Rightarrow> reserve_slot ?k inp ?p ?i)"
  have body: "?up (holds ?k t) (?body ep)" for ep
    by (rule query_then [where Q = "\<lambda>_. holds ?k t"])
      (auto split: option.splits intro!: reserve_slot_ok assms
        query_then [where Q = "\<lambda>_. holds ?k t"] end_transaction_ok)
  have locked: "?up (holds ?k t)
     (bind (query (find_position_by_key (executionIntentIdempotencyKey (pi_signalId inp)))) ?body)"
    by (rule query_then [where Q = "\<lambda>_. holds ?k t"]) (use body in auto)
  have "?up (\<lambda>_. True) (create_transaction ?k t inp ?p ?i)"
    unfolding create_transaction_def acquire_def bind.simps
  proof (rule up_atomic)
    fix d e and q :: "(db, tx_outcome) prog"
    assume d: "system_inv cap d" and m: "map_option (map_prod id (\<lambda>p. bind p (\<lambda>_.
        bind (query (find_position_by_key (executionIntentIdempotencyKey (pi_signalId inp)))) ?body)))
        (if db_locks d ?k = None then Some (d\<lparr>db_locks := (db_locks d)(?k := Some t)\<rparr>, Done ()) else None) = Some (e, q)"
    then have free: "db_locks d ?k = None" and e: "e = d\<lparr>db_locks := (db_locks d)(?k := Some t)\<rparr>"
      and q: "q = bind (query (find_position_by_key (executionIntentIdempotencyKey (pi_signalId inp)))) ?body"
      by (auto split: if_splits)
    have "system_inv cap e \<and> thread_guar h t d e \<and> holds ?k t e"
      using d free by (auto simp: e system_inv_def known_states_def thread_guar_def evolves_def distinct_intents_def holds_def
          countMt5ConsumedCapacitySlots_def)
    then show "system_inv cap e \<and> thread_guar h t d e \<and> (\<exists>Q. stable (system_inv cap) (thread_rely h t) Q \<and> Q e \<and> ?up Q q)"
      using locked q by (auto intro!: exI [of _ "holds ?k t"])
  qed
  moreover have "?up (\<lambda>_. True) (create_recovered inp e)" for e
    unfolding create_recovered_def
    by (auto intro!: upholds_bind query_ok up_done up_throw split: option.splits)
  ultimately show ?thesis
    unfolding createPendingPositionWithExecutionIntent_def
    by (intro upholds_catch upholds_bind) (auto intro: up_done)
qed

subsection \<open>The system\<close>

lemma serve_ok:
  "within_cap cap r \<Longrightarrow>
     upholds (system_inv cap) (thread_rely h t) (thread_guar h t) (\<lambda>_. True) (serve h oc t r)"
  by (cases r) (auto intro!: void_ok create_ok mark_ok refresh_ok fail_closed_ok close_ok persist_ok recover_ok)

interpretation intents: guarded_system "serve hashtext orderComment" "{r. within_cap cap r}"
    "system_inv cap" "thread_rely hashtext" "thread_guar hashtext" evolves
  for hashtext orderComment cap
proof
  show "upholds (system_inv cap) (thread_rely hashtext t) (thread_guar hashtext t) (\<lambda>_. True)
      (serve hashtext orderComment t r)" if "r \<in> {r. within_cap cap r}" for r t
    using that serve_ok by simp
qed (auto intro: thread_guar_rely evolves_trans simp: thread_guar_def)

lemma evolves_facts:
  assumes "evolves d e"
  shows "find_position i d = Some p \<Longrightarrow> \<exists>q. find_position i e = Some q \<and> position_evolves p q"
    and "findExecutionIntentBySignal s d = Some x \<Longrightarrow>
       \<exists>y. findExecutionIntentBySignal s e = Some y \<and> intent_evolves x y"
proof -
  have p: "rows_evolve position_evolves (db_positions d) (db_positions e)"
    and t: "rows_evolve intent_evolves (db_intents d) (db_intents e)"
    using assms by (simp_all add: evolves_def)
  show "find_position i d = Some p \<Longrightarrow> \<exists>q. find_position i e = Some q \<and> position_evolves p q"
    unfolding find_position_def by (rule find_evolves [OF p]) (auto simp: position_evolves_def)
  show "findExecutionIntentBySignal s d = Some x \<Longrightarrow>
       \<exists>y. findExecutionIntentBySignal s e = Some y \<and> intent_evolves x y"
    unfolding findExecutionIntentBySignal_def by (rule find_evolves [OF t]) (auto simp: intent_evolves_def)
qed

section \<open>Properties\<close>

text \<open>Capacity under concurrency.  However the calls of any number of workers interleave, for
  any lock hash, no user ever holds more capacity-consuming engine positions than the cap all its
  reservations respect: the advisory lock makes count and insert one decision.\<close>

theorem capacity_never_exceeded:
  assumes "\<forall>u. countMt5ConsumedCapacitySlots u start \<le> cap u" and "known_states start"
    and "sys_reach (serve hashtext orderComment) {r. within_cap cap r} (start, []) (d, ps)"
  shows "countMt5ConsumedCapacitySlots u d \<le> cap u"
  using intents.reach_inv [OF _ assms(3)] assms(1,2) by (simp add: system_inv_def)


text \<open>Creation, run alone: what it answers in each case.\<close>

lemma lock_frame [simp]:
  "find_position_by_key key (d\<lparr>db_locks := l\<rparr>) = find_position_by_key key d"
  "findExecutionIntentBySignal sid (d\<lparr>db_locks := l\<rparr>) = findExecutionIntentBySignal sid d"
  "countMt5ConsumedCapacitySlots u (d\<lparr>db_locks := l\<rparr>) = countMt5ConsumedCapacitySlots u d"
  "insert_both p i (d\<lparr>db_locks := l\<rparr>) = map_sum id (\<lambda>e. e\<lparr>db_locks := l\<rparr>) (insert_both p i d)"
  by (simp_all add: find_position_by_key_def findExecutionIntentBySignal_def countMt5ConsumedCapacitySlots_def
      insert_both_def insert_position_def insert_intent_def)

lemma release_locked: "db_locks d k = None \<Longrightarrow> release k (d\<lparr>db_locks := (db_locks d)(k := Some t)\<rparr>) = d"
  by (simp add: release_def fun_upd_idem)

lemma insert_both_locks: "insert_both p i d = Inr e \<Longrightarrow> db_locks e = db_locks d"
  by (drule insert_both_rows) simp

lemma release_inserted:
  "db_locks d k = None \<Longrightarrow> insert_both p i d = Inr e \<Longrightarrow>
     release k (e\<lparr>db_locks := (db_locks d)(k \<mapsto> t)\<rparr>) = e"
  using insert_both_locks [of p i d e] release_locked [of e k t] by simp

lemma exec_transaction:
  assumes "db_locks d k = None"
  shows "exec (create_transaction k t inp p i) d =
    Some (case (find_position_by_key (executionIntentIdempotencyKey (pi_signalId inp)) d,
                findExecutionIntentBySignal (pi_signalId inp) d) of
            (Some ep, Some ei) \<Rightarrow> (d, Inr (Tx_existing ep ei (countMt5ConsumedCapacitySlots (pi_userId inp) d)))
          | _ \<Rightarrow> if \<not> decideCapacityReservation (int (countMt5ConsumedCapacitySlots (pi_userId inp) d))
                       (pi_maxConcurrentPositions inp)
                 then (d, Inr (Tx_blocked (countMt5ConsumedCapacitySlots (pi_userId inp) d)))
                 else (case insert_both p i d of
                         Inl e \<Rightarrow> (d, Inl e)
                       | Inr e \<Rightarrow> (e, Inr (Tx_created p i (countMt5ConsumedCapacitySlots (pi_userId inp) d)))))"
  using assms
  by (simp add: create_transaction_def acquire_def reserve_slot_def end_transaction_def insert_and_commit_def
      release_locked split: option.split sum.split) (auto simp: release_locked release_inserted)

lemma insert_both_found:
  assumes "insert_both p i d = Inr e"
  shows "find_position_by_key (ps_idempotencyKey p) e = Some p"
    and "findExecutionIntentBySignal (it_signalId i) e = Some i"
proof -
  have e: "e = d\<lparr>db_positions := db_positions d @ [p], db_intents := db_intents d @ [i]\<rparr>"
    by (rule insert_both_rows(1) [OF assms])
  have new: "\<forall>q\<in>set (db_positions d). ps_idempotencyKey q \<noteq> ps_idempotencyKey p"
    "\<forall>q\<in>set (db_intents d). it_signalId q \<noteq> it_signalId i"
    using assms by (auto simp: insert_both_def insert_position_def insert_intent_def list_ex_iff
        split: if_splits)
  have find_new: "\<forall>q\<in>set qs. \<not> P q \<Longrightarrow> P r \<Longrightarrow> find P (qs @ [r]) = Some r" for P qs and r :: 'a
    by (induction qs) auto
  show "find_position_by_key (ps_idempotencyKey p) e = Some p"
    using new(1) by (simp add: e find_position_by_key_def find_new)
  show "findExecutionIntentBySignal (it_signalId i) e = Some i"
    using new(2) by (simp add: e findExecutionIntentBySignal_def find_new)
qed

lemma create_cases:
  assumes "exec (createPendingPositionWithExecutionIntent h oc t pid iid now inp) d = Some (d', Inr (Create_ok p i b a))"
  shows "db_locks d (lock_key h (pi_userId inp)) = None \<and> db_locks d' = db_locks d \<and>
     find_position_by_key (executionIntentIdempotencyKey (pi_signalId inp)) d' = Some p \<and>
     findExecutionIntentBySignal (pi_signalId inp) d' = Some i \<and>
     a = countMt5ConsumedCapacitySlots (pi_userId inp) d'"
proof -
  let ?k = "lock_key h (pi_userId inp)" and ?p = "pending_position pid inp"
    and ?i = "createExecutionIntentRow oc iid pid now inp" and ?n = "countMt5ConsumedCapacitySlots (pi_userId inp) d"
  let ?fp = "find_position_by_key (executionIntentIdempotencyKey (pi_signalId inp)) d"
    and ?fi = "findExecutionIntentBySignal (pi_signalId inp) d"
  have free: "db_locks d ?k = None"
    using assms by (auto simp: createPendingPositionWithExecutionIntent_def create_transaction_def acquire_def
        split: if_splits)
  show ?thesis
  proof (cases "\<exists>ep ei. ?fp = Some ep \<and> ?fi = Some ei")
    case True
    then show ?thesis using assms free
      by (auto simp: createPendingPositionWithExecutionIntent_def exec_transaction)
  next
    case False
    then have "insert_both ?p ?i d = Inr d' \<and> p = ?p \<and> i = ?i \<and> a = ?n + 1"
      using assms free
      by (auto simp: createPendingPositionWithExecutionIntent_def exec_transaction create_recovered_def
          split: option.splits if_splits sum.splits)
    moreover from this have "d' = d\<lparr>db_positions := db_positions d @ [?p], db_intents := db_intents d @ [?i]\<rparr>"
      using insert_both_rows by blast
    then have "countMt5ConsumedCapacitySlots (pi_userId inp) d' = ?n + 1"
      using slots_insert [of "pi_userId inp" d pid inp] by (simp add: countMt5ConsumedCapacitySlots_def)
    ultimately show ?thesis
      using insert_both_found [of ?p ?i d d'] insert_both_locks [of ?p ?i d d'] free
      by (simp add: pending_position_def createExecutionIntentRow_def Let_def)
  qed
qed

text \<open>C30: creation is idempotent.  When it has answered with a position and an intent, asking
  again for the same signal, from any thread, with any fresh ids and at any time, changes nothing and
  answers the same rows: a retry neither takes a second slot nor creates a second order.\<close>

theorem create_is_idempotent:
  assumes "exec (createPendingPositionWithExecutionIntent h oc t pid iid now inp) d = Some (e, Inr (Create_ok p i b a))"
  shows "exec (createPendingPositionWithExecutionIntent h oc t' pid' iid' now' inp) e = Some (e, Inr (Create_ok p i a a))"
  using create_cases [OF assms] by (simp add: createPendingPositionWithExecutionIntent_def exec_transaction)

text \<open>What an update by id and status does to rows with distinct ids.\<close>

lemma exec_update_positions [simp]:
  "exec (update_positions q f) d =
     (if broker_id_clash (List.map (\<lambda>p. if q p then f p else p) (db_positions d)) then Some (d, Inl Unique_violation)
      else Some (d\<lparr>db_positions := List.map (\<lambda>p. if q p then f p else p) (db_positions d)\<rparr>,
                 Inr (length (filter q (db_positions d)))))"
  by (simp add: update_positions_def Let_def)

lemma find_updated:
  "(\<And>p. ps_id (f p) = ps_id p) \<Longrightarrow> find_position pid d = Some p \<Longrightarrow>
     find_position pid (d\<lparr>db_positions := List.map (\<lambda>p. if ps_id p = pid \<and> Q p then f p else p) (db_positions d)\<rparr>) =
       Some (if Q p then f p else p)"
proof -
  assume f: "\<And>p. ps_id (f p) = ps_id p"
  have "find (\<lambda>p. ps_id p = pid) ps = Some p \<Longrightarrow>
     find (\<lambda>p. ps_id p = pid) (List.map (\<lambda>p. if ps_id p = pid \<and> Q p then f p else p) ps) =
       Some (if Q p then f p else p)" for ps
    by (induction ps) (auto simp: f split: if_splits)
  then show "find_position pid d = Some p \<Longrightarrow> ?thesis" by (simp add: find_position_def)
qed

lemma filter_by_id:
  assumes "distinct (List.map ps_id (db_positions d))" and "find_position pid d = Some p"
  shows "filter (\<lambda>q. ps_id q = pid \<and> Q q) (db_positions d) = (if Q p then [p] else [])"
proof -
  have "filter (\<lambda>q. ps_id q = pid \<and> Q q) ps = (if Q p then [p] else [])"
    if "distinct (List.map ps_id ps)" "find (\<lambda>p. ps_id p = pid) ps = Some p" for ps
    using that by (induction ps) (auto split: if_splits intro!: filter_False, metis imageI)
  then show ?thesis using assms by (simp add: find_position_def)
qed

lemma clash_unchanged:
  assumes "\<And>p. ps_brokerPositionId (f p) = ps_brokerPositionId p"
  shows "broker_id_clash (List.map (\<lambda>p. if q p then f p else p) ps) = broker_id_clash ps"
proof -
  have "List.map_filter ps_brokerPositionId (List.map (\<lambda>p. if q p then f p else p) ps) =
      List.map_filter ps_brokerPositionId ps"
    by (induction ps) (auto simp: assms map_filter_simps split: option.splits)
  then show ?thesis by (simp add: broker_id_clash_def)
qed

lemma clash_fresh_id:
  assumes "distinct (List.map ps_id ps)" and "\<not> broker_id_clash ps"
    and "\<forall>p\<in>set ps. ps_brokerPositionId p \<noteq> Some x" and "\<And>p. ps_brokerPositionId (f p) = Some x"
  shows "\<not> broker_id_clash (List.map (\<lambda>p. if ps_id p = pid \<and> Q p then f p else p) ps)"
  using assms(1-3)
proof (induction ps)
  case (Cons p ps)
  let ?g = "\<lambda>p. if ps_id p = pid \<and> Q p then f p else p"
  have members: "set (List.map_filter ps_brokerPositionId (List.map ?g ps)) \<subseteq>
      set (List.map_filter ps_brokerPositionId ps) \<union> {x}"
    by (auto simp: map_filter_def assms(4) split: if_splits)
  have tail: "\<not> broker_id_clash ps"
    using Cons.prems(2) by (auto simp: broker_id_clash_def map_filter_simps split: option.splits)
  show ?case
  proof (cases "ps_id p = pid \<and> Q p")
    case True
    then have "List.map ?g ps = ps" using Cons.prems(1) by (intro map_idI) (auto, metis imageI)
    moreover have "x \<notin> set (List.map_filter ps_brokerPositionId ps)"
      using Cons.prems(3) by (auto simp: map_filter_def)
    ultimately show ?thesis using True tail assms(4) by (simp add: broker_id_clash_def map_filter_simps)
  next
    case False
    then have g: "?g p = p" by auto
    have ih: "\<not> broker_id_clash (List.map ?g ps)" using Cons.IH Cons.prems(1,3) tail by simp
    show ?thesis
    proof (cases "ps_brokerPositionId p")
      case None
      then show ?thesis using ih g by (simp add: broker_id_clash_def map_filter_simps)
    next
      case (Some b)
      then have "b \<notin> set (List.map_filter ps_brokerPositionId ps)" "b \<noteq> x"
        using Cons.prems(2,3) by (auto simp: broker_id_clash_def map_filter_simps)
      then show ?thesis using ih g Some members by (auto simp: broker_id_clash_def map_filter_simps)
    qed
  qed
qed (simp add: broker_id_clash_def map_filter_simps)

text \<open>A position is closed once.  For rows with distinct ids, closing answers applied exactly
  when the row is open, pending or being opened or closed; then the row is closed with the given data,
  and any later close is refused as a duplicate and changes nothing.\<close>

theorem close_applies_once:
  assumes "distinct (List.map ps_id (db_positions d))" and "\<not> broker_id_clash (db_positions d)"
    and "find_position pid d = Some p" and "canClosePositionStatus (ps_status p)"
  shows "\<exists>e. exec (closeLocalPositionIfCloseable pid dat) d = Some (e, Inr (True, Some (ps_status p))) \<and>
     find_position pid e = Some (p\<lparr>ps_status := ''CLOSED'', ps_closePrice := cl_closePrice dat,
                        ps_realizedPnl := cl_realizedPnl dat, ps_closeReason := Some (cl_closeReason dat),
                        ps_closedAt := Some (cl_closedAt dat)\<rparr>) \<and>
     exec (closeLocalPositionIfCloseable pid dat') e = Some (e, Inr (False, Some ''CLOSED''))"
proof -
  let ?Q = "\<lambda>p. ps_status p \<in> {''OPEN'', ''PENDING'', ''OPEN_REQUESTED'', ''CLOSE_REQUESTED''}"
  let ?f = "\<lambda>p. p\<lparr>ps_status := ''CLOSED'', ps_closePrice := cl_closePrice dat,
                        ps_realizedPnl := cl_realizedPnl dat, ps_closeReason := Some (cl_closeReason dat),
                        ps_closedAt := Some (cl_closedAt dat)\<rparr>"
  let ?e = "d\<lparr>db_positions := List.map (\<lambda>p. if ps_id p = pid \<and> ?Q p then ?f p else p) (db_positions d)\<rparr>"
  have Q: "?Q p" "ps_status p \<noteq> ''CLOSED''"
    using assms(4) by (auto simp: canClosePositionStatus_def POSITION_CLOSEABLE_STATUSES_def)
  have "\<not> broker_id_clash (List.map (\<lambda>p. if ps_id p = pid \<and> ?Q p then ?f p else p) (db_positions d))"
    using assms(2) by (subst clash_unchanged) simp_all
  moreover have "filter (\<lambda>p. ps_id p = pid \<and> ?Q p) (db_positions d) = [p]"
    using filter_by_id [OF assms(1,3), of ?Q] Q(1) by simp
  ultimately have run: "exec (closeLocalPositionIfCloseable pid dat) d = Some (?e, Inr (True, Some (ps_status p)))"
    using assms(3) Q(2) by (simp add: closeLocalPositionIfCloseable_def)
  have "find_position pid ?e = Some (?f p)"
    using find_updated [OF _ assms(3), of ?f ?Q] Q(1) by simp
  then show ?thesis using run
    by (intro exI [of _ ?e]) (simp add: closeLocalPositionIfCloseable_def)
qed

lemma created_transitions_skipped:
  assumes "find_intent iid d = Some c" and "it_state c = ''CREATED''"
  shows "exec (markExecutionIntentRecovered iid b now) d = Some (d, Inr c)"
    and "exec (markExecutionIntentBrokerConfirmed iid b now) d = Some (d, Inr c)"
    and "exec (markExecutionIntentPersisted iid now) d = Some (d, Inr c)"
  using assms
  by (simp_all add: markExecutionIntentRecovered_def markExecutionIntentBrokerConfirmed_def
      markExecutionIntentPersisted_def transition_intent_def canTransitionExecutionIntentState_def
      INTENT_TRANSITIONS_def)

text \<open>Adopting a fill leaves a created intent behind.  When the broker confirms the order of an
  intent that is still CREATED, recovery opens the position and answers the fill, but none of its
  transitions is allowed from CREATED, so the intent row is left exactly as it was.\<close>

theorem recovered_created_intent_stays_created:
  assumes "find_intent (it_id i) d = Some i" and "it_state i = ''CREATED''"
    and "ot_accepted a" and "ot_position a = Some fill" and "ot_brokerPositionId a = Some x"
    and "find_position pid d = Some p" and "ps_status p = ''PENDING''"
    and "\<exists>s\<in>set (db_signals d). sg_id s = it_signalId i"
    and "distinct (List.map ps_id (db_positions d))" and "\<not> broker_id_clash (db_positions d)"
    and "\<forall>p\<in>set (db_positions d). ps_brokerPositionId p \<noteq> Some x"
  shows "\<exists>e q. exec (tryRecoverExecutionIntentFromBroker i pid (Some a) now) d = Some (e, Inr (Some a)) \<and>
     find_position pid e = Some q \<and> ps_status q = ''OPEN'' \<and> ps_brokerPositionId q = Some x \<and>
     db_intents e = db_intents d"
proof -
  let ?Q = "\<lambda>p. ps_status p \<in> {''PENDING'', ''OPEN_REQUESTED'', ''OPEN''}"
  let ?f = "\<lambda>p. p\<lparr>ps_status := ''OPEN'', ps_brokerPositionId := ot_brokerPositionId a,
     ps_entryPrice := ot_entryPrice a, ps_volume := bf_volume fill, ps_openedAt := Some now\<rparr>"
  let ?d1 = "d\<lparr>db_positions := List.map (\<lambda>p. if ps_id p = pid \<and> ?Q p then ?f p else p) (db_positions d)\<rparr>"
  let ?g = "\<lambda>s. s\<lparr>sg_status := ''EXECUTED'', sg_proposedEntryPrice := ot_entryPrice a,
     sg_proposedVolume := Some (bf_volume fill)\<rparr>"
  let ?e = "?d1\<lparr>db_signals := update_first (\<lambda>s. sg_id s = it_signalId i) ?g (db_signals d)\<rparr>"
  have "\<not> broker_id_clash (List.map (\<lambda>p. if ps_id p = pid \<and> ?Q p then ?f p else p) (db_positions d))"
    by (rule clash_fresh_id [OF assms(9,10,11)]) (simp add: assms(5))
  then have up: "exec (update_positions (\<lambda>p. ps_id p = pid \<and> ?Q p) ?f) d = Some (?d1, Inr 1)"
    using filter_by_id [OF assms(9,6), of ?Q] assms(7) by simp
  have sig: "update_signal_row (it_signalId i) ?g ?d1 = Inr (?e, ())"
    using assms(8) by (auto simp: update_signal_row_def list_ex_iff)
  have i: "find_intent (it_id i) ?e = Some i" using assms(1) by (simp add: find_intent_def)
  have "exec (persistPositionOpenFromBrokerResult pid (it_signalId i) (it_id i) a now) d = Some (?e, Inr ())"
    unfolding persistPositionOpenFromBrokerResult_def
    using assms(2-4) up sig i created_transitions_skipped [OF i assms(2)]
    by (simp del: exec_update_positions)
  then have "exec (tryRecoverExecutionIntentFromBroker i pid (Some a) now) d = Some (?e, Inr (Some a))"
    using assms(3) created_transitions_skipped(1) [OF assms(1,2)]
    by (simp add: tryRecoverExecutionIntentFromBroker_def)
  moreover have "find_position pid ?e = Some (?f p)"
    using find_updated [OF _ assms(6), of ?f ?Q] assms(7) by (simp add: find_position_def)
  ultimately show ?thesis using assms(5) by (intro exI [of _ ?e] exI [of _ "?f p"]) simp
qed

text \<open>A position waiting for its order, and the answer of the broker.\<close>

definition demo_input :: pending_input where
  "demo_input = \<lparr>pi_userId = ''u'', pi_signalId = ''s'', pi_internalSymbol = ''R_10'', pi_brokerSymbol = ''V10'',
     pi_strategyId = ''x'', pi_direction = ''BUY'', pi_volume = 1, pi_stopLoss = 90, pi_takeProfit = Some 120,
     pi_riskAmount = 10, pi_riskPercent = 1, pi_initialRiskReward = None, pi_maxConcurrentPositions = 1\<rparr>"

definition demo_signal :: signal_row where
  "demo_signal = \<lparr>sg_id = ''s'', sg_status = ''NEW'', sg_proposedVolume = None, sg_proposedEntryPrice = None,
     sg_stopLoss = None, sg_takeProfit = None, sg_stopDistance = None, sg_targetDistance = None,
     sg_riskRewardRatio = None\<rparr>"

definition empty_db :: db where
  "empty_db = \<lparr>db_positions = [], db_intents = [], db_signals = [demo_signal], db_locks = (\<lambda>_. None)\<rparr>"

definition demo_position :: position_row where "demo_position = pending_position ''p'' demo_input"
definition demo_intent :: intent_row where
  "demo_intent = createExecutionIntentRow (\<lambda>k. k) ''i'' ''p'' 0 demo_input"

definition demo_db :: db where
  "demo_db = empty_db\<lparr>db_positions := [demo_position], db_intents := [demo_intent]\<rparr>"

definition demo_fill :: open_result where
  "demo_fill = \<lparr>ot_accepted = True, ot_brokerPositionId = Some ''b'', ot_entryPrice = Some 100,
     ot_position = Some \<lparr>bf_volume = 1, bf_orderTicket = None, bf_dealTicket = None\<rparr>\<rparr>"

text \<open>C35: failing closed can reject the intent of an open position.  Failing closed reads the row and
  then updates it, and rejects the intent whatever the update changed.  In this schedule the position is
  opened between its read and its update: the position is OPEN at the broker while its intent ends
  REJECTED, which the function promises not to do.\<close>

definition race_events :: "request event list" where
  "race_events =
     [Accept (Submitted ''i'' 1), Perform 0, Perform 0,
      Accept (Fail_closed ''p'' ''i'' ''STALE'' ''m'' 2), Accept (Persist_open ''p'' ''s'' ''i'' demo_fill 3),
      Perform 1, Perform 2, Perform 2, Perform 1, Perform 1, Perform 1,
      Perform 2, Perform 2, Perform 2, Perform 2, Perform 2, Perform 2]"

definition finished :: "('s, 'a) prog \<Rightarrow> bool" where
  "finished p = (case p of Done _ \<Rightarrow> True | _ \<Rightarrow> False)"

theorem fail_closed_rejects_open_intent:
  fixes hashtext :: "string \<Rightarrow> int" and orderComment :: "string \<Rightarrow> string"
  shows "\<exists>d ps p i. sys_reach (serve hashtext orderComment) UNIV (demo_db, []) (d, ps) \<and>
     list_all finished ps \<and>
     find_position ''p'' d = Some p \<and> ps_status p = ''OPEN'' \<and> ps_brokerPositionId p = Some ''b'' \<and>
     find_intent ''i'' d = Some i \<and> it_state i = ''REJECTED''"
proof -
  let ?r = "run (sched_step (serve hashtext orderComment)) (demo_db, []) race_events"
  have "list_all finished (snd ?r) \<and>
     map_option ps_status (find_position ''p'' (fst ?r)) = Some ''OPEN'' \<and>
     map_option ps_brokerPositionId (find_position ''p'' (fst ?r)) = Some (Some ''b'') \<and>
     map_option it_state (find_intent ''i'' (fst ?r)) = Some ''REJECTED''"
    by code_simp
  moreover have "sys_reach (serve hashtext orderComment) UNIV (demo_db, []) ?r"
    by (rule sched_reach) simp
  moreover obtain d ps where r: "?r = (d, ps)" by (cases ?r) auto
  ultimately show ?thesis by (intro exI [of _ d] exI [of _ ps]) auto
qed

subsection \<open>Concrete instances\<close>

definition two_creators :: "request event list" where
  "two_creators =
     [Accept (Create ''p'' ''i'' 0 demo_input), Accept (Create ''p2'' ''i2'' 0 (demo_input\<lparr>pi_signalId := ''s2''\<rparr>)),
      Perform 0, Perform 1, Perform 0, Perform 0, Perform 1, Perform 0, Perform 0,
      Perform 1, Perform 1, Perform 1, Perform 1, Perform 1]"

theorem capacity_never_exceeded_witness:
  "countMt5ConsumedCapacitySlots ''u''
     (fst (run (sched_step (serve (\<lambda>_. 0) (\<lambda>k. k))) (empty_db, []) two_creators)) \<le> 1"
proof -
  let ?r = "run (sched_step (serve (\<lambda>_. 0) (\<lambda>k. k))) (empty_db, []) two_creators"
  have "sys_reach (serve (\<lambda>_. 0) (\<lambda>k. k)) {r. within_cap (\<lambda>_. 1) r} (empty_db, []) (fst ?r, snd ?r)"
    using sched_reach [of two_creators "{r. within_cap (\<lambda>_. 1) r}" "serve (\<lambda>_. 0) (\<lambda>k. k)" "(empty_db, [])"]
    by (auto simp: two_creators_def demo_input_def)
  from capacity_never_exceeded [OF _ _ this, of "''u''"] show ?thesis
    by (simp add: empty_db_def countMt5ConsumedCapacitySlots_def known_states_def)
qed

definition submitted_demo :: "request event list" where
  "submitted_demo = [Accept (Submitted ''i'' 1), Perform 0, Perform 0]"

definition ambiguous_demo :: "request event list" where
  "ambiguous_demo = [Accept (Ambiguous ''i'' None None), Perform 1, Perform 1]"


theorem create_is_idempotent_witness:
  "exec (createPendingPositionWithExecutionIntent (\<lambda>_. 0) (\<lambda>k. k) 1 ''q'' ''j'' 9 demo_input) demo_db =
     Some (demo_db, Inr (Create_ok demo_position demo_intent 1 1))"
proof -
  have "exec (createPendingPositionWithExecutionIntent (\<lambda>_. 0) (\<lambda>k. k) 0 ''p'' ''i'' 0 demo_input) empty_db =
      Some (demo_db, Inr (Create_ok demo_position demo_intent 0 1))"
    by (simp add: createPendingPositionWithExecutionIntent_def exec_transaction empty_db_def
        find_position_by_key_def countMt5ConsumedCapacitySlots_def decideCapacityReservation_def demo_input_def
        insert_both_def insert_position_def insert_intent_def demo_db_def demo_position_def demo_intent_def)
  from create_is_idempotent [OF this] show ?thesis .
qed

theorem close_applies_once_witness:
  fixes dat :: close_data
  defines "dat \<equiv> \<lparr>cl_closePrice = None, cl_realizedPnl = Some 5, cl_closeReason = ''MANUAL'', cl_closedAt = 7\<rparr>"
  shows "\<exists>e. exec (closeLocalPositionIfCloseable ''p'' dat) demo_db = Some (e, Inr (True, Some ''PENDING''))"
proof -
  have "distinct (List.map ps_id (db_positions demo_db))" "\<not> broker_id_clash (db_positions demo_db)"
    "find_position ''p'' demo_db = Some demo_position" "canClosePositionStatus (ps_status demo_position)"
    and "ps_status demo_position = ''PENDING''"
    by (simp_all add: demo_db_def broker_id_clash_def map_filter_simps find_position_def demo_position_def
        pending_position_def canClosePositionStatus_def POSITION_CLOSEABLE_STATUSES_def)
  then show ?thesis using close_applies_once by metis
qed

theorem recovered_created_intent_stays_created_witness:
  "\<exists>e. exec (tryRecoverExecutionIntentFromBroker demo_intent ''p'' (Some demo_fill) 3) demo_db =
     Some (e, Inr (Some demo_fill)) \<and> db_intents e = [demo_intent]"
proof -
  have "find_intent (it_id demo_intent) demo_db = Some demo_intent" "it_state demo_intent = ''CREATED''"
    "ot_accepted demo_fill" "ot_brokerPositionId demo_fill = Some ''b''" "find_position ''p'' demo_db = Some demo_position"
    "ps_status demo_position = ''PENDING''" "\<exists>s\<in>set (db_signals demo_db). sg_id s = it_signalId demo_intent"
    "distinct (List.map ps_id (db_positions demo_db))" "\<not> broker_id_clash (db_positions demo_db)"
    "\<forall>p\<in>set (db_positions demo_db). ps_brokerPositionId p \<noteq> Some ''b''" and i: "db_intents demo_db = [demo_intent]"
    by (simp_all add: demo_db_def empty_db_def broker_id_clash_def map_filter_simps find_position_def demo_position_def
        pending_position_def find_intent_def demo_intent_def createExecutionIntentRow_def Let_def demo_fill_def
        demo_signal_def demo_input_def)
  note facts = this
  have "ot_position demo_fill = Some \<lparr>bf_volume = 1, bf_orderTicket = None, bf_dealTicket = None\<rparr>"
    by (simp add: demo_fill_def)
  from recovered_created_intent_stays_created [OF facts(1-3) this facts(4-10)] i show ?thesis by auto
qed

end
