(* ===== verification/StopLevels.thy ===== *)
theory StopLevels
  imports CfdMath
begin

text \<open>
  Stop levels of MT5 market orders
  (\<^verbatim>\<open>packages/trading-engine/src/broker/mt5/mt5StopLevels.ts\<close>): rounding a stop or a
  target to the tick grid away from the market, and validating the distances to the market against
  the broker's minimum.  Messages are constructors without their text.  \<open>toFixed\<close> truncates
  its digits; its error for more than 100 digits is left out.
\<close>

subsection \<open>Rounding to the tick grid\<close>

datatype stop_kind = StopLossPrice | TakeProfitPrice

definition tick_slack :: jsnum where "tick_slack = Fin (1 / 10 ^ 12)"

definition fixed_digits :: "jsnum \<Rightarrow> jsnum \<Rightarrow> jsnum" where
  "fixed_digits digits x = to_fixed (nat \<lfloor>rat_of (js_max (Fin 0) digits)\<rfloor>) x"

definition normalizeStopPriceToTick ::
  "jsnum \<Rightarrow> jsnum \<Rightarrow> jsnum \<Rightarrow> direction \<Rightarrow> stop_kind \<Rightarrow> jsnum" where
  "normalizeStopPriceToTick price tick digits direction kind =
     (if \<not> 0 < tick then fixed_digits digits price
      else let units = price / tick;
               down = js_floor (units + tick_slack) * tick;
               up = js_ceil (units - tick_slack) * tick;
               rounded = (if direction = BUY then (if kind = StopLossPrice then down else up)
                          else (if kind = StopLossPrice then up else down))
           in fixed_digits digits rounded)"

definition resolveMinimumStopDistance :: "jsnum \<Rightarrow> jsnum \<Rightarrow> jsnum" where
  "resolveMinimumStopDistance stopsLevel point =
     (if \<not> 0 < point \<or> \<not> 0 \<le> stopsLevel then NaN else stopsLevel * point)"

subsection \<open>Validation\<close>

definition MT5_INVALID_STOP_DISTANCE_PRECHECK :: string where
  "MT5_INVALID_STOP_DISTANCE_PRECHECK = ''MT5_INVALID_STOP_DISTANCE_PRECHECK''"
definition MT5_STOP_METADATA_UNAVAILABLE :: string where
  "MT5_STOP_METADATA_UNAVAILABLE = ''MT5_STOP_METADATA_UNAVAILABLE''"

datatype stop_reason =
    MarketInvalid | MetadataUnavailable | StopsNotFinite | StopWrongSide | TargetWrongSide
  | StopTooClose | TargetTooClose | MetadataForAdaptation | AdaptedDistanceNotPositive
  | AdaptationInvalid | MovedTowardMarket | StopWidened | TargetRecomputed | EntryNotFinite
  | StopDistanceNotPositive | MetadataForTarget | NormalizedDistanceNotPositive | TargetInvalid

record stop_input =
  sv_direction :: direction
  sv_stopLoss :: jsnum
  sv_takeProfit :: jsnum
  sv_bid :: jsnum
  sv_ask :: jsnum
  sv_point :: "jsnum option"
  sv_tickSize :: "jsnum option"
  sv_digits :: "jsnum option"
  sv_stopsLevel :: "jsnum option"
  sv_freezeLevel :: "jsnum option"

record stop_result =
  sr_ok :: bool
  sr_reasonCode :: "string option"
  sr_reasons :: "stop_reason list"
  sr_point :: "jsnum option"
  sr_tickSize :: "jsnum option"
  sr_digits :: "jsnum option"
  sr_stopsLevel :: "jsnum option"
  sr_freezeLevel :: "jsnum option"
  sr_minimumStopDistance :: "jsnum option"
  sr_bid :: jsnum
  sr_ask :: jsnum
  sr_referencePrice :: "jsnum option"
  sr_requestedStopLoss :: jsnum
  sr_requestedTakeProfit :: jsnum
  sr_normalizedStopLoss :: "jsnum option"
  sr_normalizedTakeProfit :: "jsnum option"
  sr_stopDistanceFromMarket :: "jsnum option"
  sr_targetDistanceFromMarket :: "jsnum option"

definition only_finite :: "jsnum option \<Rightarrow> jsnum option" where
  "only_finite x = (if some_and x is_finite then x else None)"

definition stop_base :: "stop_input \<Rightarrow> stop_result" where
  "stop_base inp =
     \<lparr>sr_ok = False, sr_reasonCode = None, sr_reasons = [], sr_point = only_finite (sv_point inp),
      sr_tickSize = only_finite (sv_tickSize inp), sr_digits = only_finite (sv_digits inp),
      sr_stopsLevel = only_finite (sv_stopsLevel inp), sr_freezeLevel = only_finite (sv_freezeLevel inp),
      sr_minimumStopDistance = None, sr_bid = sv_bid inp, sr_ask = sv_ask inp, sr_referencePrice = None,
      sr_requestedStopLoss = sv_stopLoss inp, sr_requestedTakeProfit = sv_takeProfit inp,
      sr_normalizedStopLoss = None, sr_normalizedTakeProfit = None, sr_stopDistanceFromMarket = None,
      sr_targetDistanceFromMarket = None\<rparr>"

definition stop_eps :: "jsnum \<Rightarrow> jsnum \<Rightarrow> jsnum" where
  "stop_eps point tick = js_max (js_max (point * Fin (1 / 10)) (tick * Fin (1 / 10))) tick_slack"

text \<open>The distances to the market: of the stop on its side, of the target on the other.\<close>

definition reference_price :: "direction \<Rightarrow> jsnum \<Rightarrow> jsnum \<Rightarrow> jsnum" where
  "reference_price dir bid ask = (if dir = BUY then bid else ask)"

definition stop_distance :: "direction \<Rightarrow> jsnum \<Rightarrow> jsnum \<Rightarrow> jsnum" where
  "stop_distance dir ref sl = (if dir = BUY then ref - sl else sl - ref)"

definition target_distance :: "direction \<Rightarrow> jsnum \<Rightarrow> jsnum \<Rightarrow> jsnum" where
  "target_distance dir ref tp = (if dir = BUY then tp - ref else ref - tp)"

definition distance_reasons :: "jsnum \<Rightarrow> jsnum \<Rightarrow> jsnum \<Rightarrow> jsnum \<Rightarrow> stop_reason list" where
  "distance_reasons eps minDist sd td =
     push_when (\<not> eps < sd) StopWrongSide
     @ push_when (\<not> eps < td) TargetWrongSide
     @ (if 0 < minDist
        then push_when (sd + eps < minDist) StopTooClose @ push_when (td + eps < minDist) TargetTooClose
        else [])"

definition validate_distances ::
  "stop_input \<Rightarrow> jsnum \<Rightarrow> jsnum \<Rightarrow> jsnum \<Rightarrow> jsnum \<Rightarrow> stop_result" where
  "validate_distances inp point tick digits stopsLevel =
     (let minDist = resolveMinimumStopDistance stopsLevel point;
          ref = reference_price (sv_direction inp) (sv_bid inp) (sv_ask inp);
          sl = normalizeStopPriceToTick (sv_stopLoss inp) tick digits (sv_direction inp) StopLossPrice;
          tp = normalizeStopPriceToTick (sv_takeProfit inp) tick digits (sv_direction inp) TakeProfitPrice;
          sd = stop_distance (sv_direction inp) ref sl;
          td = target_distance (sv_direction inp) ref tp;
          reasons = distance_reasons (stop_eps point tick) minDist sd td
      in (stop_base inp)
           \<lparr>sr_ok := (reasons = []),
            sr_reasonCode := (if reasons = [] then None else Some MT5_INVALID_STOP_DISTANCE_PRECHECK),
            sr_reasons := reasons, sr_minimumStopDistance := Some minDist, sr_referencePrice := Some ref,
            sr_normalizedStopLoss := Some sl, sr_normalizedTakeProfit := Some tp,
            sr_stopDistanceFromMarket := Some sd, sr_targetDistanceFromMarket := Some td\<rparr>)"

definition market_invalid :: "jsnum \<Rightarrow> jsnum \<Rightarrow> bool" where
  "market_invalid bid ask \<longleftrightarrow>
     \<not> is_finite bid \<or> \<not> is_finite ask \<or> bid \<le> 0 \<or> ask \<le> 0 \<or> ask < bid"

definition validateAndNormalizeMt5Stops :: "stop_input \<Rightarrow> stop_result" where
  "validateAndNormalizeMt5Stops inp =
     (let base = stop_base inp;
          unavailable = base\<lparr>sr_reasonCode := Some MT5_STOP_METADATA_UNAVAILABLE, sr_reasons := [MetadataUnavailable]\<rparr>
      in if market_invalid (sv_bid inp) (sv_ask inp)
         then base\<lparr>sr_reasonCode := Some MT5_STOP_METADATA_UNAVAILABLE, sr_reasons := [MarketInvalid]\<rparr>
         else case (sr_point base, sr_tickSize base, sr_digits base, sr_stopsLevel base) of
           (Some point, Some tick, Some digits, Some stopsLevel) \<Rightarrow>
             if \<not> 0 < point \<or> \<not> 0 < tick \<or> digits < 0 \<or> \<not> 0 \<le> stopsLevel then unavailable
             else if \<not> is_finite (sv_stopLoss inp) \<or> \<not> is_finite (sv_takeProfit inp)
             then base\<lparr>sr_reasonCode := Some MT5_INVALID_STOP_DISTANCE_PRECHECK, sr_reasons := [StopsNotFinite]\<rparr>
             else validate_distances inp point tick digits stopsLevel
         | _ \<Rightarrow> unavailable)"

definition isPriceInFreezeLevel ::
  "jsnum \<Rightarrow> jsnum option \<Rightarrow> jsnum option \<Rightarrow> jsnum option \<Rightarrow> jsnum option \<Rightarrow> bool" where
  "isPriceInFreezeLevel marketPrice stopLoss takeProfit freezeLevel point =
     (case (only_finite freezeLevel, only_finite point) of
        (Some fl, Some pt) \<Rightarrow>
          if fl \<le> 0 \<or> \<not> 0 < pt \<or> \<not> is_finite marketPrice then False
          else let freezeDist = fl * pt;
                   near = (\<lambda>x. some_and (only_finite x) (\<lambda>v. 0 < v \<and> js_abs (marketPrice - v) \<le> freezeDist))
               in near stopLoss \<or> near takeProfit
      | _ \<Rightarrow> False)"

end
