(* ===== verification/BrokerStops.thy ===== *)
theory BrokerStops
  imports StopLevels
begin

text \<open>
  Adapting a strategy's stop and target to the live stop levels of the broker
  (\<^verbatim>\<open>packages/trading-engine/src/broker/mt5/mt5BrokerStopAdaptation.ts\<close>).  The loops
  that push a stop outward tick by tick may not end, so they, and what calls them, return an option:
  \<open>None\<close> is a call that does not return.  The metadata a result echoes is in the validation
  result it carries.
\<close>

subsection \<open>Pushing a stop outward\<close>

definition loop_eps :: "jsnum \<Rightarrow> jsnum" where
  "loop_eps tick = js_max (tick * Fin (1 / 10)) tick_slack"

partial_function (option) sell_sl_loop ::
  "jsnum \<Rightarrow> jsnum \<Rightarrow> jsnum \<Rightarrow> jsnum \<Rightarrow> jsnum \<Rightarrow> jsnum \<Rightarrow> jsnum option" where
  "sell_sl_loop sl ask minDist tick digits outp =
     (if outp - ask + loop_eps tick < minDist
      then (let outp' = normalizeStopPriceToTick (outp + tick) tick digits SELL StopLossPrice
            in if \<not> sl < outp' then Some outp' else sell_sl_loop sl ask minDist tick digits outp')
      else Some outp)"

definition ensureSellSlDistance :: "jsnum \<Rightarrow> jsnum \<Rightarrow> jsnum \<Rightarrow> jsnum \<Rightarrow> jsnum \<Rightarrow> jsnum option" where
  "ensureSellSlDistance sl ask minDist tick digits = sell_sl_loop sl ask minDist tick digits sl"

partial_function (option) buy_sl_loop ::
  "jsnum \<Rightarrow> jsnum \<Rightarrow> jsnum \<Rightarrow> jsnum \<Rightarrow> jsnum \<Rightarrow> jsnum \<Rightarrow> jsnum option" where
  "buy_sl_loop sl bid minDist tick digits outp =
     (if bid - outp + loop_eps tick < minDist
      then (let outp' = normalizeStopPriceToTick (outp - tick) tick digits BUY StopLossPrice
            in if \<not> outp' < sl then Some outp' else buy_sl_loop sl bid minDist tick digits outp')
      else Some outp)"

definition ensureBuySlDistance :: "jsnum \<Rightarrow> jsnum \<Rightarrow> jsnum \<Rightarrow> jsnum \<Rightarrow> jsnum \<Rightarrow> jsnum option" where
  "ensureBuySlDistance sl bid minDist tick digits = buy_sl_loop sl bid minDist tick digits sl"

subsection \<open>Adaptation\<close>

definition MT5_BROKER_STOP_SAFETY_TICKS :: jsnum where "MT5_BROKER_STOP_SAFETY_TICKS = 1"

record adapt_input =
  ai_stops :: stop_input
  ai_entryPrice :: jsnum
  ai_targetRMultiple :: jsnum
  ai_safetyTicks :: "jsnum option"

record adapt_result =
  ar_ok :: bool
  ar_reasonCode :: "string option"
  ar_reasons :: "stop_reason list"
  ar_brokerAdjusted :: bool
  ar_originalStopLoss :: jsnum
  ar_originalTakeProfit :: jsnum
  ar_originalStopDistance :: jsnum
  ar_adjustedStopLoss :: "jsnum option"
  ar_adjustedTakeProfit :: "jsnum option"
  ar_adjustedStopDistance :: "jsnum option"
  ar_targetRMultiple :: jsnum
  ar_safetyBuffer :: "jsnum option"
  ar_validation :: stop_result

definition effective_R :: "jsnum \<Rightarrow> jsnum" where
  "effective_R r = (if is_finite r \<and> 0 < r then r else 2)"

definition effective_safety :: "jsnum option \<Rightarrow> jsnum" where
  "effective_safety s =
     (case only_finite s of Some t \<Rightarrow> if 0 \<le> t then t else MT5_BROKER_STOP_SAFETY_TICKS
                          | None \<Rightarrow> MT5_BROKER_STOP_SAFETY_TICKS)"

definition adapt_base :: "adapt_input \<Rightarrow> stop_result \<Rightarrow> adapt_result" where
  "adapt_base inp v =
     \<lparr>ar_ok = False, ar_reasonCode = None, ar_reasons = [], ar_brokerAdjusted = False,
      ar_originalStopLoss = sv_stopLoss (ai_stops inp), ar_originalTakeProfit = sv_takeProfit (ai_stops inp),
      ar_originalStopDistance = to_fixed 8 (js_abs (ai_entryPrice inp - sv_stopLoss (ai_stops inp))),
      ar_adjustedStopLoss = None, ar_adjustedTakeProfit = None, ar_adjustedStopDistance = None,
      ar_targetRMultiple = effective_R (ai_targetRMultiple inp), ar_safetyBuffer = None, ar_validation = v\<rparr>"

text \<open>The widened stop: the nearest valid price, never nearer to the market than the original.\<close>

definition adjusted_stop ::
  "direction \<Rightarrow> jsnum \<Rightarrow> jsnum \<Rightarrow> jsnum \<Rightarrow> jsnum \<Rightarrow> jsnum \<Rightarrow> jsnum \<Rightarrow> jsnum option" where
  "adjusted_stop dir ref normalizedOriginalSl minDist requiredDistance tick digits =
     (if dir = BUY
      then Option.bind (ensureBuySlDistance
               (normalizeStopPriceToTick (ref - requiredDistance) tick digits BUY StopLossPrice)
               ref minDist tick digits)
             (\<lambda>maxValidSl. ensureBuySlDistance (js_min normalizedOriginalSl maxValidSl) ref minDist tick digits)
      else Option.bind (ensureSellSlDistance
               (normalizeStopPriceToTick (ref + requiredDistance) tick digits SELL StopLossPrice)
               ref minDist tick digits)
             (\<lambda>minValidSl. ensureSellSlDistance (js_max normalizedOriginalSl minValidSl) ref minDist tick digits))"

text \<open>The target at a distance from the entry, pushed away when it is inside the broker minimum.\<close>

definition target_at ::
  "direction \<Rightarrow> jsnum \<Rightarrow> jsnum \<Rightarrow> jsnum \<Rightarrow> jsnum \<Rightarrow> jsnum \<Rightarrow> jsnum \<Rightarrow> jsnum \<Rightarrow> jsnum \<Rightarrow> jsnum" where
  "target_at dir entry targetDistance ref minDist safetyBuffer point tick digits =
     (let rawTp = (if dir = BUY then entry + targetDistance else entry - targetDistance);
          adjustedTp = normalizeStopPriceToTick rawTp tick digits dir TakeProfitPrice;
          eps = stop_eps point tick
      in if \<not> 0 < minDist then adjustedTp
         else if dir = BUY then
           (let minTp = ref + minDist
            in if adjustedTp + eps < minTp
               then normalizeStopPriceToTick (minTp + safetyBuffer) tick digits BUY TakeProfitPrice
               else adjustedTp)
         else
           (let maxTp = ref - minDist
            in if maxTp < adjustedTp - eps
               then normalizeStopPriceToTick (maxTp - safetyBuffer) tick digits SELL TakeProfitPrice
               else adjustedTp))"

text \<open>The last step: validate the adapted prices, and refuse a stop nearer to the market.\<close>

definition adapt_finish ::
  "adapt_input \<Rightarrow> adapt_result \<Rightarrow> jsnum \<Rightarrow> jsnum \<Rightarrow> jsnum \<Rightarrow> jsnum \<Rightarrow> jsnum \<Rightarrow> jsnum \<Rightarrow> jsnum \<Rightarrow> adapt_result" where
  "adapt_finish inp base normalizedOriginalSl adjustedSl adjustedTp adjustedStopDistance point tick digits =
     (let st = ai_stops inp;
          v = validateAndNormalizeMt5Stops (st\<lparr>sv_stopLoss := adjustedSl, sv_takeProfit := adjustedTp,
                sv_point := Some point, sv_tickSize := Some tick, sv_digits := Some digits\<rparr>);
          adj = base\<lparr>ar_brokerAdjusted := True, ar_validation := v\<rparr>;
          eps = stop_eps point tick
      in case (sr_normalizedStopLoss v, sr_normalizedTakeProfit v) of
           (Some finalSl, Some finalTp) \<Rightarrow>
             if \<not> sr_ok v
             then adj\<lparr>ar_reasonCode := Some (or_default (sr_reasonCode v) MT5_INVALID_STOP_DISTANCE_PRECHECK),
                     ar_reasons := AdaptationInvalid # sr_reasons v, ar_adjustedStopLoss := Some adjustedSl,
                     ar_adjustedTakeProfit := Some adjustedTp,
                     ar_adjustedStopDistance := Some (to_fixed 8 adjustedStopDistance)\<rparr>
             else if sv_direction st = BUY \<and> normalizedOriginalSl + eps < finalSl
             then adj\<lparr>ar_reasonCode := Some MT5_INVALID_STOP_DISTANCE_PRECHECK, ar_reasons := [MovedTowardMarket]\<rparr>
             else if sv_direction st = SELL \<and> finalSl < normalizedOriginalSl - eps
             then adj\<lparr>ar_reasonCode := Some MT5_INVALID_STOP_DISTANCE_PRECHECK, ar_reasons := [MovedTowardMarket]\<rparr>
             else adj\<lparr>ar_ok := True, ar_adjustedStopLoss := Some finalSl, ar_adjustedTakeProfit := Some finalTp,
                     ar_adjustedStopDistance := Some (to_fixed 8 (js_abs (ai_entryPrice inp - finalSl))),
                     ar_reasons := [StopWidened, TargetRecomputed]\<rparr>
         | _ \<Rightarrow> adj\<lparr>ar_reasonCode := Some (or_default (sr_reasonCode v) MT5_INVALID_STOP_DISTANCE_PRECHECK),
                     ar_reasons := AdaptationInvalid # sr_reasons v, ar_adjustedStopLoss := Some adjustedSl,
                     ar_adjustedTakeProfit := Some adjustedTp,
                     ar_adjustedStopDistance := Some (to_fixed 8 adjustedStopDistance)\<rparr>)"

definition adapt_widen ::
  "adapt_input \<Rightarrow> adapt_result \<Rightarrow> jsnum \<Rightarrow> jsnum \<Rightarrow> jsnum \<Rightarrow> jsnum \<Rightarrow> jsnum \<Rightarrow> adapt_result option" where
  "adapt_widen inp base point tick digits minDist safetyBuffer =
     (let st = ai_stops inp; dir = sv_direction st; entry = ai_entryPrice inp;
          ref = reference_price dir (sv_bid st) (sv_ask st);
          normalizedOriginalSl = normalizeStopPriceToTick (sv_stopLoss st) tick digits dir StopLossPrice
      in Option.bind (adjusted_stop dir ref normalizedOriginalSl minDist (minDist + safetyBuffer) tick digits)
           (\<lambda>adjustedSl.
              let adjustedStopDistance = js_abs (entry - adjustedSl)
              in if \<not> 0 < adjustedStopDistance \<or> \<not> is_finite entry
                 then Some (base\<lparr>ar_brokerAdjusted := True,
                        ar_reasonCode := Some MT5_INVALID_STOP_DISTANCE_PRECHECK,
                        ar_reasons := [AdaptedDistanceNotPositive], ar_adjustedStopLoss := Some adjustedSl\<rparr>)
                 else let adjustedTp = target_at dir entry (adjustedStopDistance * effective_R (ai_targetRMultiple inp))
                            ref minDist safetyBuffer point tick digits
                      in Some (adapt_finish inp base normalizedOriginalSl adjustedSl adjustedTp adjustedStopDistance
                           point tick digits)))"

definition adaptMt5BrokerStops :: "adapt_input \<Rightarrow> adapt_result option" where
  "adaptMt5BrokerStops inp =
     (let v = validateAndNormalizeMt5Stops (ai_stops inp); base = adapt_base inp v
      in if sr_reasonCode v = Some MT5_STOP_METADATA_UNAVAILABLE
         then Some (base\<lparr>ar_reasonCode := Some MT5_STOP_METADATA_UNAVAILABLE, ar_reasons := sr_reasons v\<rparr>)
         else case (sr_point v, sr_tickSize v, sr_digits v, sr_stopsLevel v, sr_minimumStopDistance v) of
           (Some point, Some tick, Some digits, Some stopsLevel, Some minDist) \<Rightarrow>
             (let safetyBuffer = effective_safety (ai_safetyTicks inp) * tick;
                  base' = base\<lparr>ar_safetyBuffer := Some safetyBuffer\<rparr>
              in case (sr_ok v, sr_normalizedStopLoss v, sr_normalizedTakeProfit v) of
                   (True, Some adjSl, Some adjTp) \<Rightarrow>
                     Some (base'\<lparr>ar_ok := True, ar_adjustedStopLoss := Some adjSl, ar_adjustedTakeProfit := Some adjTp,
                       ar_adjustedStopDistance := Some (to_fixed 8 (js_abs (ai_entryPrice inp - adjSl)))\<rparr>)
                 | _ \<Rightarrow> adapt_widen inp base' point tick digits minDist safetyBuffer)
         | _ \<Rightarrow> Some (base\<lparr>ar_reasonCode := Some MT5_STOP_METADATA_UNAVAILABLE, ar_reasons := [MetadataForAdaptation]\<rparr>))"

subsection \<open>The target at the intended multiple\<close>

record target_result =
  tr_ok :: bool
  tr_reasonCode :: "string option"
  tr_reasons :: "stop_reason list"
  tr_takeProfit :: "jsnum option"
  tr_stopLoss :: "jsnum option"
  tr_stopDistance :: "jsnum option"
  tr_targetDistance :: "jsnum option"
  tr_intendedTargetRMultiple :: jsnum
  tr_actualTargetRMultiple :: "jsnum option"
  tr_validation :: "stop_result option"

definition target_empty :: "jsnum \<Rightarrow> target_result" where
  "target_empty R =
     \<lparr>tr_ok = False, tr_reasonCode = None, tr_reasons = [], tr_takeProfit = None, tr_stopLoss = None,
      tr_stopDistance = None, tr_targetDistance = None, tr_intendedTargetRMultiple = R,
      tr_actualTargetRMultiple = None, tr_validation = None\<rparr>"

definition target_finish ::
  "stop_input \<Rightarrow> jsnum \<Rightarrow> jsnum \<Rightarrow> jsnum \<Rightarrow> jsnum \<Rightarrow> jsnum \<Rightarrow> jsnum \<Rightarrow> jsnum \<Rightarrow> jsnum \<Rightarrow> target_result" where
  "target_finish st entry R normalizedSl adjustedTp finalStopDistance point tick digits =
     (let v = validateAndNormalizeMt5Stops (st\<lparr>sv_stopLoss := normalizedSl, sv_takeProfit := adjustedTp,
                sv_point := Some point, sv_tickSize := Some tick, sv_digits := Some digits\<rparr>);
          empty = target_empty R;
          refused = empty\<lparr>tr_reasonCode := Some (or_default (sr_reasonCode v) MT5_INVALID_STOP_DISTANCE_PRECHECK),
            tr_reasons := TargetInvalid # sr_reasons v, tr_stopLoss := Some normalizedSl,
            tr_takeProfit := Some adjustedTp, tr_stopDistance := Some (to_fixed 8 finalStopDistance),
            tr_validation := Some v\<rparr>
      in case (sr_normalizedStopLoss v, sr_normalizedTakeProfit v) of
           (Some finalSl, Some finalTp) \<Rightarrow>
             if \<not> sr_ok v then refused
             else let finalRisk = js_abs (entry - finalSl); finalReward = js_abs (finalTp - entry)
                  in empty\<lparr>tr_ok := True, tr_reasons := [TargetRecomputed], tr_takeProfit := Some finalTp,
                      tr_stopLoss := Some finalSl, tr_stopDistance := Some (to_fixed 8 finalRisk),
                      tr_targetDistance := Some (to_fixed 8 finalReward),
                      tr_actualTargetRMultiple :=
                        (if 0 < finalRisk then Some (to_fixed 4 (finalReward / finalRisk)) else None),
                      tr_validation := Some v\<rparr>
         | _ \<Rightarrow> refused)"

text \<open>The stops of the input are the direction, the market and the metadata; its target is not used.\<close>

definition recomputeMt5TakeProfitAtTargetR ::
  "stop_input \<Rightarrow> jsnum \<Rightarrow> jsnum \<Rightarrow> jsnum option \<Rightarrow> target_result" where
  "recomputeMt5TakeProfitAtTargetR st entry intended safetyTicks =
     (let R = effective_R intended; empty = target_empty R; dir = sv_direction st; sl = sv_stopLoss st;
          invalid = (\<lambda>r. empty\<lparr>tr_reasonCode := Some MT5_INVALID_STOP_DISTANCE_PRECHECK, tr_reasons := [r]\<rparr>)
      in if \<not> is_finite entry \<or> \<not> is_finite sl then invalid EntryNotFinite
         else let stopDistance = js_abs (entry - sl) in
         if \<not> 0 < stopDistance then invalid StopDistanceNotPositive
         else let provisionalTp = (if dir = BUY then entry + stopDistance * js_max R 1
                                   else entry - stopDistance * js_max R 1);
                  v = validateAndNormalizeMt5Stops (st\<lparr>sv_takeProfit := provisionalTp\<rparr>);
                  unavailable = empty\<lparr>tr_reasonCode := Some MT5_STOP_METADATA_UNAVAILABLE,
                    tr_reasons := (if sr_reasons v \<noteq> [] then sr_reasons v else [MetadataForTarget]),
                    tr_validation := Some v\<rparr>
         in if sr_reasonCode v = Some MT5_STOP_METADATA_UNAVAILABLE then unavailable
            else case (sr_point v, sr_tickSize v, sr_digits v, sr_stopsLevel v, sr_minimumStopDistance v) of
              (Some point, Some tick, Some digits, Some stopsLevel, Some minDist) \<Rightarrow>
                (let safetyBuffer = effective_safety safetyTicks * tick;
                     ref = reference_price dir (sv_bid st) (sv_ask st);
                     normalizedSl = or_default (sr_normalizedStopLoss v)
                       (normalizeStopPriceToTick sl tick digits dir StopLossPrice);
                     finalStopDistance = js_abs (entry - normalizedSl)
                 in if \<not> 0 < finalStopDistance
                    then (invalid NormalizedDistanceNotPositive)\<lparr>tr_stopLoss := Some normalizedSl, tr_validation := Some v\<rparr>
                    else target_finish st entry R normalizedSl
                           (target_at dir entry (finalStopDistance * R) ref minDist safetyBuffer point tick digits)
                           finalStopDistance point tick digits)
            | _ \<Rightarrow> unavailable)"

subsection \<open>The geometry to submit\<close>

record finalize_result =
  fr_ok :: bool
  fr_reasonCode :: "string option"
  fr_reasons :: "stop_reason list"
  fr_adaptation :: adapt_result
  fr_tpRecompute :: "target_result option"
  fr_stopLoss :: "jsnum option"
  fr_takeProfit :: "jsnum option"
  fr_stopDistance :: "jsnum option"
  fr_targetDistance :: "jsnum option"
  fr_intendedTargetRMultiple :: jsnum
  fr_actualTargetRMultiple :: "jsnum option"

definition finalize_with :: "adapt_input \<Rightarrow> jsnum \<Rightarrow> adapt_result \<Rightarrow> finalize_result" where
  "finalize_with inp R a =
     (case (ar_ok a, ar_adjustedStopLoss a) of
        (True, Some adjustedSl) \<Rightarrow>
          (let t = recomputeMt5TakeProfitAtTargetR ((ai_stops inp)\<lparr>sv_stopLoss := adjustedSl\<rparr>)
                     (ai_entryPrice inp) R (ai_safetyTicks inp)
           in case (tr_ok t, tr_takeProfit t, tr_stopLoss t) of
                (True, Some tp, Some sl) \<Rightarrow>
                  \<lparr>fr_ok = True, fr_reasonCode = None, fr_reasons = ar_reasons a @ tr_reasons t, fr_adaptation = a,
                   fr_tpRecompute = Some t, fr_stopLoss = Some sl, fr_takeProfit = Some tp,
                   fr_stopDistance = tr_stopDistance t, fr_targetDistance = tr_targetDistance t,
                   fr_intendedTargetRMultiple = R, fr_actualTargetRMultiple = tr_actualTargetRMultiple t\<rparr>
              | _ \<Rightarrow>
                  \<lparr>fr_ok = False, fr_reasonCode = tr_reasonCode t, fr_reasons = tr_reasons t, fr_adaptation = a,
                   fr_tpRecompute = Some t,
                   fr_stopLoss = Some (or_default (tr_stopLoss t) adjustedSl), fr_takeProfit = tr_takeProfit t,
                   fr_stopDistance = tr_stopDistance t, fr_targetDistance = tr_targetDistance t,
                   fr_intendedTargetRMultiple = R, fr_actualTargetRMultiple = tr_actualTargetRMultiple t\<rparr>)
      | _ \<Rightarrow>
          \<lparr>fr_ok = False, fr_reasonCode = ar_reasonCode a, fr_reasons = ar_reasons a, fr_adaptation = a,
           fr_tpRecompute = None, fr_stopLoss = ar_adjustedStopLoss a, fr_takeProfit = ar_adjustedTakeProfit a,
           fr_stopDistance = ar_adjustedStopDistance a, fr_targetDistance = None,
           fr_intendedTargetRMultiple = R, fr_actualTargetRMultiple = None\<rparr>)"

definition finalizeMt5StopsForSubmit :: "adapt_input \<Rightarrow> jsnum \<Rightarrow> finalize_result option" where
  "finalizeMt5StopsForSubmit inp intended =
     (let R = effective_R intended
      in map_option (finalize_with inp R) (adaptMt5BrokerStops (inp\<lparr>ai_targetRMultiple := R\<rparr>)))"

section \<open>Facts\<close>

text \<open>On a tick grid that the digits can write, rounding is exact rounding to grid points.\<close>

definition fixed_places :: "jsnum \<Rightarrow> nat" where
  "fixed_places digits = nat \<lfloor>rat_of (js_max (Fin 0) digits)\<rfloor>"

definition tick_grid :: "rat \<Rightarrow> jsnum \<Rightarrow> bool" where
  "tick_grid t digits \<longleftrightarrow> (\<exists>k::nat. 0 < k \<and> t * 10 ^ fixed_places digits = of_nat k)"

definition grid_down :: "rat \<Rightarrow> rat \<Rightarrow> rat" where
  "grid_down t p = of_int \<lfloor>p / t + 1 / 10 ^ 12\<rfloor> * t"

definition grid_up :: "rat \<Rightarrow> rat \<Rightarrow> rat" where
  "grid_up t p = of_int \<lceil>p / t - 1 / 10 ^ 12\<rceil> * t"

lemma tick_grid_pos: "tick_grid t digits \<Longrightarrow> 0 < t"
  by (auto simp: tick_grid_def) (metis of_nat_0_less_iff zero_less_mult_pos2 zero_less_numeral zero_less_power)

lemma fixed_on_grid:
  assumes "tick_grid t digits"
  shows "fixed_digits digits (Fin (of_int m * t)) = Fin (of_int m * t)"
proof -
  let ?d = "fixed_places digits"
  obtain k :: nat where k: "t * 10 ^ ?d = of_nat k" "0 < k" using assms by (auto simp: tick_grid_def)
  have t: "0 < t" using assms by (rule tick_grid_pos)
  have "\<bar>of_int m * t\<bar> * 10 ^ ?d = of_int (\<bar>m\<bar> * int k)"
    using t k(1) by (simp add: abs_mult mult.assoc)
  then have "of_int (round_half_up (\<bar>of_int m * t\<bar> * 10 ^ ?d)) = \<bar>of_int m * t\<bar> * 10 ^ ?d"
    by (simp only: round_half_up_of_int)
  then have "fixed_rat ?d (of_int m * t) = of_int m * t"
    by (simp add: fixed_rat_def sgn_if)
  then show ?thesis by (simp add: fixed_digits_def fixed_places_def)
qed

lemma normalize_grid:
  assumes "tick_grid t digits"
  shows "normalizeStopPriceToTick (Fin p) (Fin t) digits dir kind =
    Fin (if (dir = BUY) = (kind = StopLossPrice) then grid_down t p else grid_up t p)"
  using assms tick_grid_pos [OF assms] fixed_on_grid [OF assms]
  by (cases dir; cases kind)
    (simp_all add: normalizeStopPriceToTick_def tick_slack_def Let_def grid_down_def grid_up_def)

lemma grid_bounds:
  assumes "0 < t"
  shows "grid_down t p \<le> p + t / 10 ^ 12" and "p - t < grid_down t p"
    and "p - t / 10 ^ 12 \<le> grid_up t p" and "grid_up t p < p + t"
proof -
  let ?f = "\<lfloor>p / t + 1 / 10 ^ 12\<rfloor>" and ?c = "\<lceil>p / t - 1 / 10 ^ 12\<rceil>"
  have f: "of_int ?f \<le> p / t + 1 / 10 ^ 12" "p / t + 1 / 10 ^ 12 - 1 < of_int ?f" by linarith+
  have c: "p / t - 1 / 10 ^ 12 \<le> of_int ?c" "of_int ?c < p / t - 1 / 10 ^ 12 + 1" by linarith+
  have e: "(p / t + 1 / 10 ^ 12) * t = p + t / 10 ^ 12" "(p / t - 1 / 10 ^ 12) * t = p - t / 10 ^ 12"
    "(p / t - 1) * t = p - t" "(p / t + 1) * t = p + t"
    using assms by (simp_all add: field_simps)
  show "grid_down t p \<le> p + t / 10 ^ 12"
    unfolding grid_down_def e(1) [symmetric] using f(1) assms by (intro mult_right_mono) auto
  show "p - t / 10 ^ 12 \<le> grid_up t p"
    unfolding grid_up_def e(2) [symmetric] using c(1) assms by (intro mult_right_mono) auto
  have "p / t - 1 < of_int ?f" using f(2) by simp
  then show "p - t < grid_down t p"
    unfolding grid_down_def e(3) [symmetric] using assms by (intro mult_strict_right_mono)
  have "of_int ?c < p / t + 1" using c(2) tiny_pos [of 12] by linarith
  then show "grid_up t p < p + t"
    unfolding grid_up_def e(4) [symmetric] using assms by (intro mult_strict_right_mono)
qed

lemma grid_idem:
  assumes "0 < t"
  shows "grid_down t (grid_down t p) = grid_down t p" and "grid_up t (grid_up t p) = grid_up t p"
proof -
  have "\<lfloor>of_int m + 1 / 10 ^ 12 :: rat\<rfloor> = m" and "\<lceil>of_int m - 1 / 10 ^ 12 :: rat\<rceil> = m" for m
    by (simp_all add: floor_unique ceiling_unique)
  then show "grid_down t (grid_down t p) = grid_down t p" and "grid_up t (grid_up t p) = grid_up t p"
    using assms by (simp_all add: grid_down_def grid_up_def)
qed

text \<open>Each iteration of a loop moves the stop by at least half a tick, so the loops end.\<close>

lemma loop_eps_fin: "0 < t \<Longrightarrow> \<exists>e. loop_eps (Fin t) = Fin e \<and> 0 < e"
  by (auto simp: loop_eps_def tick_slack_def)

declare sell_sl_loop.simps [code] buy_sl_loop.simps [code]

lemma sell_loop_returns:
  assumes "tick_grid t digits"
  shows "2 * (md + ask - p) / t \<le> of_nat n \<Longrightarrow>
     \<exists>r. sell_sl_loop (Fin sl) (Fin ask) (Fin md) (Fin t) digits (Fin p) = Some (Fin r)"
proof (induction n arbitrary: p)
  have t: "0 < t" using assms by (rule tick_grid_pos)
  obtain e where e: "loop_eps (Fin t) = Fin e" "0 < e" using loop_eps_fin [OF t] by blast
  case 0
  then have "md \<le> p - ask" using t by (simp add: field_simps)
  then show ?case using e by (subst sell_sl_loop.simps) simp
next
  case (Suc n)
  have t: "0 < t" using assms by (rule tick_grid_pos)
  obtain e where e: "loop_eps (Fin t) = Fin e" "0 < e" using loop_eps_fin [OF t] by blast
  have "p + t / 2 \<le> grid_up t (p + t)"
    using grid_bounds(3) [OF t, of "p + t"] t by (simp add: field_simps)
  then have "2 * (md + ask - grid_up t (p + t)) / t \<le> 2 * (md + ask - p - t / 2) / t"
    using t by (intro divide_right_mono) auto
  also have "\<dots> = 2 * (md + ask - p) / t - 1" using t by (simp add: field_simps)
  finally have "2 * (md + ask - grid_up t (p + t)) / t \<le> of_nat n" using Suc.prems by simp
  then obtain r where "sell_sl_loop (Fin sl) (Fin ask) (Fin md) (Fin t) digits (Fin (grid_up t (p + t))) = Some (Fin r)"
    using Suc.IH by blast
  then show ?case by (subst sell_sl_loop.simps) (simp add: e normalize_grid [OF assms] Let_def)
qed

lemma buy_loop_returns:
  assumes "tick_grid t digits"
  shows "2 * (md + p - bid) / t \<le> of_nat n \<Longrightarrow>
     \<exists>r. buy_sl_loop (Fin sl) (Fin bid) (Fin md) (Fin t) digits (Fin p) = Some (Fin r)"
proof (induction n arbitrary: p)
  have t: "0 < t" using assms by (rule tick_grid_pos)
  obtain e where e: "loop_eps (Fin t) = Fin e" "0 < e" using loop_eps_fin [OF t] by blast
  case 0
  then have "md \<le> bid - p" using t by (simp add: field_simps)
  then show ?case using e by (subst buy_sl_loop.simps) simp
next
  case (Suc n)
  have t: "0 < t" using assms by (rule tick_grid_pos)
  obtain e where e: "loop_eps (Fin t) = Fin e" "0 < e" using loop_eps_fin [OF t] by blast
  have "grid_down t (p - t) \<le> p - t / 2"
    using grid_bounds(1) [OF t, of "p - t"] t by (simp add: field_simps)
  then have "2 * (md + grid_down t (p - t) - bid) / t \<le> 2 * (md + (p - t / 2) - bid) / t"
    using t by (intro divide_right_mono) auto
  also have "\<dots> = 2 * (md + p - bid) / t - 1" using t by (simp add: field_simps)
  finally have "2 * (md + grid_down t (p - t) - bid) / t \<le> of_nat n" using Suc.prems by simp
  then obtain r where "buy_sl_loop (Fin sl) (Fin bid) (Fin md) (Fin t) digits (Fin (grid_down t (p - t))) = Some (Fin r)"
    using Suc.IH by blast
  then show ?case by (subst buy_sl_loop.simps) (simp add: e normalize_grid [OF assms] Let_def)
qed

lemma ensure_returns:
  assumes "tick_grid t digits"
  shows "\<exists>r. ensureSellSlDistance (Fin sl) (Fin m) (Fin md) (Fin t) digits = Some (Fin r)"
    and "\<exists>r. ensureBuySlDistance (Fin sl) (Fin m) (Fin md) (Fin t) digits = Some (Fin r)"
  using sell_loop_returns [OF assms, of md m sl "nat \<lceil>2 * (md + m - sl) / t\<rceil>"]
    buy_loop_returns [OF assms, of md sl m "nat \<lceil>2 * (md + sl - m) / t\<rceil>"]
  by (simp_all add: ensureSellSlDistance_def ensureBuySlDistance_def of_nat_ceiling)

lemma adjusted_stop_returns:
  assumes "tick_grid t digits"
  shows "\<exists>r. adjusted_stop dir (Fin m) (Fin p) (Fin md) (Fin q) (Fin t) digits = Some (Fin r)"
  using ensure_returns [OF assms]
  by (auto simp: adjusted_stop_def normalize_grid [OF assms] dest: spec)
    (metis Option.bind.bind_lunit js_min_max_fin)+

subsection \<open>What a validation means\<close>

definition rat_eps :: "rat \<Rightarrow> rat \<Rightarrow> rat" where
  "rat_eps point t = max (max (point / 10) (t / 10)) (1 / 10 ^ 12)"

text \<open>The geometry a broker accepts, over rationals: stop and target on their sides of the market
  and, up to the tolerance, at least the minimum distance away.\<close>

definition geometry_ok :: "direction \<Rightarrow> rat \<Rightarrow> rat \<Rightarrow> rat \<Rightarrow> rat \<Rightarrow> rat \<Rightarrow> bool" where
  "geometry_ok dir ref eps md sl tp =
     (if dir = BUY
      then eps < ref - sl \<and> eps < tp - ref \<and> md \<le> ref - sl + eps \<and> md \<le> tp - ref + eps
      else eps < sl - ref \<and> eps < ref - tp \<and> md \<le> sl - ref + eps \<and> md \<le> ref - tp + eps)"

lemma stop_eps_fin: "stop_eps (Fin a) (Fin b) = Fin (rat_eps a b)"
  by (simp add: stop_eps_def tick_slack_def rat_eps_def)

lemma only_finite_Some: "only_finite x = Some v \<longleftrightarrow> x = Some v \<and> is_finite v"
  by (cases x) (auto simp: only_finite_def)

lemma distance_reasons_iff:
  assumes "0 < e" and "0 \<le> md"
  shows "distance_reasons (Fin e) (Fin md) (stop_distance dir (Fin ref) (Fin sl)) (target_distance dir (Fin ref) (Fin tp)) = []
    \<longleftrightarrow> geometry_ok dir ref e md sl tp"
  using assms by (auto simp: distance_reasons_def stop_distance_def target_distance_def geometry_ok_def)

text \<open>A validation that computed a minimum distance had a live market, metadata and finite prices.\<close>

lemma validate_passedE:
  assumes "sr_minimumStopDistance (validateAndNormalizeMt5Stops st) \<noteq> None"
  obtains bid ask pt t dg lv sl tp where
    "sv_bid st = Fin bid" "sv_ask st = Fin ask" "0 < bid" "bid \<le> ask"
    "sv_point st = Some (Fin pt)" "sv_tickSize st = Some (Fin t)" "sv_digits st = Some (Fin dg)"
    "sv_stopsLevel st = Some (Fin lv)" "0 < pt" "0 < t" "0 \<le> dg" "0 \<le> lv"
    "sv_stopLoss st = Fin sl" "sv_takeProfit st = Fin tp"
    "validateAndNormalizeMt5Stops st = validate_distances st (Fin pt) (Fin t) (Fin dg) (Fin lv)"
proof -
  let ?v = "validateAndNormalizeMt5Stops st"
  have market: "\<not> market_invalid (sv_bid st) (sv_ask st)"
    using assms by (auto simp: validateAndNormalizeMt5Stops_def Let_def stop_base_def)
  then obtain pt t dg lv where m: "only_finite (sv_point st) = Some pt" "only_finite (sv_tickSize st) = Some t"
    "only_finite (sv_digits st) = Some dg" "only_finite (sv_stopsLevel st) = Some lv"
    using assms by (auto simp: validateAndNormalizeMt5Stops_def Let_def stop_base_def split: option.splits)
  then have pos: "0 < pt" "0 < t" "\<not> dg < 0" "0 \<le> lv" "is_finite (sv_stopLoss st)" "is_finite (sv_takeProfit st)"
    and v: "?v = validate_distances st pt t dg lv"
    using assms market by (auto simp: validateAndNormalizeMt5Stops_def Let_def stop_base_def split: if_splits)
  obtain bid ask where "sv_bid st = Fin bid" "sv_ask st = Fin ask" "0 < bid" "bid \<le> ask"
    using market by (cases "sv_bid st"; cases "sv_ask st") (auto simp: market_invalid_def)
  moreover obtain pt' t' dg' lv' sl tp where "pt = Fin pt'" "t = Fin t'" "dg = Fin dg'" "lv = Fin lv'"
    "sv_stopLoss st = Fin sl" "sv_takeProfit st = Fin tp"
    using m pos(5,6) by (auto simp: only_finite_Some is_finite_iff)
  ultimately show thesis using that m pos v by (auto simp: only_finite_Some)
qed

lemma validate_passed:
  assumes "sr_minimumStopDistance (validateAndNormalizeMt5Stops st) \<noteq> None"
    and "sv_tickSize st = Some (Fin t)" and "sv_digits st = Some dg"
  shows "\<exists>bid ask pt lv sl tp. sv_bid st = Fin bid \<and> sv_ask st = Fin ask \<and> sv_point st = Some (Fin pt) \<and>
     sv_stopsLevel st = Some (Fin lv) \<and> 0 < pt \<and> 0 < t \<and> 0 \<le> lv \<and> sv_stopLoss st = Fin sl \<and>
     sv_takeProfit st = Fin tp \<and> is_finite dg \<and>
     validateAndNormalizeMt5Stops st = validate_distances st (Fin pt) (Fin t) dg (Fin lv)"
  by (rule validate_passedE [OF assms(1)]) (use assms(2,3) in auto)

lemma validate_ok_passed:
  "sr_ok (validateAndNormalizeMt5Stops st) \<Longrightarrow> sr_minimumStopDistance (validateAndNormalizeMt5Stops st) \<noteq> None"
  by (auto simp: validateAndNormalizeMt5Stops_def Let_def stop_base_def validate_distances_def
      split: option.splits if_splits)

lemma validate_distances_facts:
  assumes "0 < pt" and "0 < t" and "0 \<le> lv" and "tick_grid t dg"
    and "sv_bid st = Fin bid" and "sv_ask st = Fin ask" and "sv_stopLoss st = Fin sl" and "sv_takeProfit st = Fin tp"
  defines "v \<equiv> validate_distances st (Fin pt) (Fin t) dg (Fin lv)" and "dir \<equiv> sv_direction st"
  defines "nsl \<equiv> (if dir = BUY then grid_down t sl else grid_up t sl)"
    and "ntp \<equiv> (if dir = BUY then grid_up t tp else grid_down t tp)"
  shows "sr_ok v \<longleftrightarrow> geometry_ok dir (if dir = BUY then bid else ask) (rat_eps pt t) (lv * pt) nsl ntp"
    and "sr_normalizedStopLoss v = Some (Fin nsl)" and "sr_normalizedTakeProfit v = Some (Fin ntp)"
    and "sr_minimumStopDistance v = Some (Fin (lv * pt))"
    and "sr_point v = only_finite (sv_point st)" and "sr_tickSize v = only_finite (sv_tickSize st)"
    and "sr_digits v = only_finite (sv_digits st)" and "sr_stopsLevel v = only_finite (sv_stopsLevel st)"
proof -
  have md: "resolveMinimumStopDistance (Fin lv) (Fin pt) = Fin (lv * pt)"
    using assms(1,3) by (simp add: resolveMinimumStopDistance_def)
  have ref: "reference_price dir (sv_bid st) (sv_ask st) = Fin (if dir = BUY then bid else ask)"
    by (simp add: reference_price_def assms(5,6))
  have sl': "normalizeStopPriceToTick (sv_stopLoss st) (Fin t) dg dir StopLossPrice = Fin nsl"
    using normalize_grid [OF assms(4), of sl dir StopLossPrice] by (auto simp: assms(7) nsl_def)
  have tp': "normalizeStopPriceToTick (sv_takeProfit st) (Fin t) dg dir TakeProfitPrice = Fin ntp"
    using normalize_grid [OF assms(4), of tp dir TakeProfitPrice] by (auto simp: assms(8) ntp_def)
  have "0 < rat_eps pt t" by (simp add: rat_eps_def less_max_iff_disj)
  then show "sr_ok v \<longleftrightarrow> geometry_ok dir (if dir = BUY then bid else ask) (rat_eps pt t) (lv * pt) nsl ntp"
    unfolding v_def validate_distances_def dir_def [symmetric] Let_def md ref sl' tp' stop_eps_fin
    using assms(1,3) by (simp add: distance_reasons_iff)
  show "sr_normalizedStopLoss v = Some (Fin nsl)" "sr_normalizedTakeProfit v = Some (Fin ntp)"
    "sr_minimumStopDistance v = Some (Fin (lv * pt))"
    unfolding v_def validate_distances_def dir_def [symmetric] Let_def md ref sl' tp' by simp_all
  show "sr_point v = only_finite (sv_point st)" "sr_tickSize v = only_finite (sv_tickSize st)"
    "sr_digits v = only_finite (sv_digits st)" "sr_stopsLevel v = only_finite (sv_stopsLevel st)"
    unfolding v_def validate_distances_def Let_def by (simp_all add: stop_base_def)
qed

lemma target_at_buy:
  assumes "tick_grid t dg" and "0 \<le> buf" and "0 < pt"
  shows "\<exists>z. target_at BUY (Fin entry) (Fin td) (Fin ref) (Fin md) (Fin buf) (Fin pt) (Fin t) dg = Fin (grid_up t z) \<and>
     entry + td \<le> grid_up t z + t / 10 ^ 12"
proof -
  have t: "0 < t" using assms(1) by (rule tick_grid_pos)
  have near: "entry + td \<le> grid_up t (entry + td) + t / 10 ^ 12" using grid_bounds(3) [OF t, of "entry + td"] by simp
  have far: "entry + td \<le> grid_up t (ref + md + buf) + t / 10 ^ 12"
    if "grid_up t (entry + td) + rat_eps pt t < ref + md"
  proof -
    have "t / 10 ^ 12 \<le> rat_eps pt t" using t by (simp add: rat_eps_def le_max_iff_disj)
    then show ?thesis using that grid_bounds(3) [OF t, of "ref + md + buf"] near assms(2) by linarith
  qed
  show ?thesis
    using near far
    by (auto simp: target_at_def Let_def normalize_grid [OF assms(1)] stop_eps_fin intro: exI)
qed

lemma target_at_sell:
  assumes "tick_grid t dg" and "0 \<le> buf" and "0 < pt"
  shows "\<exists>z. target_at SELL (Fin entry) (Fin td) (Fin ref) (Fin md) (Fin buf) (Fin pt) (Fin t) dg = Fin (grid_down t z) \<and>
     grid_down t z \<le> entry - td + t / 10 ^ 12"
proof -
  have t: "0 < t" using assms(1) by (rule tick_grid_pos)
  have near: "grid_down t (entry - td) \<le> entry - td + t / 10 ^ 12" using grid_bounds(1) [OF t, of "entry - td"] by simp
  have far: "grid_down t (ref - md - buf) \<le> entry - td + t / 10 ^ 12"
    if "ref - md < grid_down t (entry - td) - rat_eps pt t"
  proof -
    have "t / 10 ^ 12 \<le> rat_eps pt t" using t by (simp add: rat_eps_def le_max_iff_disj)
    then show ?thesis using that grid_bounds(1) [OF t, of "ref - md - buf"] near assms(2) by linarith
  qed
  show ?thesis
    using near far
    by (auto simp: target_at_def Let_def normalize_grid [OF assms(1)] stop_eps_fin intro: exI)
qed

lemma effective_R_fin: "\<exists>R. effective_R x = Fin R \<and> 0 < R"
  by (cases x) (auto simp: effective_R_def)

lemma effective_safety_fin: "\<exists>s. effective_safety x = Fin s \<and> 0 \<le> s"
  by (cases x) (auto simp: effective_safety_def only_finite_def MT5_BROKER_STOP_SAFETY_TICKS_def is_finite_iff)

text \<open>Rounding a stop keeps a stop already on the grid.\<close>

definition grid_stop :: "direction \<Rightarrow> rat \<Rightarrow> rat \<Rightarrow> rat" where
  "grid_stop dir t p = (if dir = BUY then grid_down t p else grid_up t p)"

lemma grid_stop_idem: "0 < t \<Longrightarrow> grid_stop dir t (grid_stop dir t p) = grid_stop dir t p"
  by (simp add: grid_stop_def grid_idem)

text \<open>An accepted adaptation: a stop on the grid, never nearer to the market than the original.\<close>

definition not_nearer :: "direction \<Rightarrow> rat \<Rightarrow> rat \<Rightarrow> rat \<Rightarrow> bool" where
  "not_nearer dir eps sl orig = (if dir = BUY then sl \<le> orig + eps else orig \<le> sl + eps)"

lemma adapt_finish_ok:
  fixes inp normalizedOriginalSl sl tp gap point tick digits
  defines "v \<equiv> validateAndNormalizeMt5Stops ((ai_stops inp)\<lparr>sv_stopLoss := sl, sv_takeProfit := tp,
                sv_point := Some point, sv_tickSize := Some tick, sv_digits := Some digits\<rparr>)"
  assumes "adapt_finish inp base normalizedOriginalSl sl tp gap point tick digits = a" and "ar_ok a"
    and "\<not> ar_ok base" and "ar_adjustedStopLoss a = Some x"
  shows "sr_ok v \<and> sr_normalizedStopLoss v = Some x \<and>
     \<not> (sv_direction (ai_stops inp) = BUY \<and> normalizedOriginalSl + stop_eps point tick < x) \<and>
     \<not> (sv_direction (ai_stops inp) = SELL \<and> x < normalizedOriginalSl - stop_eps point tick)"
  using assms(2-5) unfolding adapt_finish_def Let_def v_def [symmetric]
  by (auto split: option.splits if_splits)

lemma adapt_ok:
  assumes "adaptMt5BrokerStops inp = Some a" and "ar_ok a" and "ar_adjustedStopLoss a = Some x"
    and "sv_tickSize (ai_stops inp) = Some (Fin t)" and "sv_digits (ai_stops inp) = Some dg" and "tick_grid t dg"
  shows "\<exists>orig pt q. sv_stopLoss (ai_stops inp) = Fin orig \<and> sv_point (ai_stops inp) = Some (Fin pt) \<and> 0 < pt \<and>
     x = Fin (grid_stop (sv_direction (ai_stops inp)) t q) \<and>
     not_nearer (sv_direction (ai_stops inp)) (rat_eps pt t)
       (grid_stop (sv_direction (ai_stops inp)) t q) (grid_stop (sv_direction (ai_stops inp)) t orig)"
proof -
  let ?st = "ai_stops inp" and ?dir = "sv_direction (ai_stops inp)"
  let ?v = "validateAndNormalizeMt5Stops ?st"
  have passed: "sr_minimumStopDistance ?v \<noteq> None"
    using assms(1,2) by (auto simp: adaptMt5BrokerStops_def Let_def adapt_base_def split: if_splits option.splits)
  obtain bid ask pt lv orig tp where
    st: "sv_bid ?st = Fin bid" "sv_ask ?st = Fin ask" "sv_point ?st = Some (Fin pt)" "sv_stopsLevel ?st = Some (Fin lv)"
    "0 < pt" "0 < t" "0 \<le> lv" "sv_stopLoss ?st = Fin orig" "sv_takeProfit ?st = Fin tp" "is_finite dg"
    and v: "?v = validate_distances ?st (Fin pt) (Fin t) dg (Fin lv)"
    using validate_passed [OF passed assms(4,5)] by blast
  note f = validate_distances_facts [OF st(5,6,7) assms(6) st(1,2,8,9), folded v]
  have e0: "0 \<le> rat_eps pt t" by (simp add: rat_eps_def le_max_iff_disj)
  show ?thesis
  proof (cases "sr_ok ?v")
    case True
    then have "x = Fin (grid_stop ?dir t orig)"
      using assms(1-3) f(2-8) st assms(4,5)
      by (auto simp: adaptMt5BrokerStops_def Let_def only_finite_def grid_stop_def adapt_base_def split: if_splits)
    then show ?thesis using st e0 by (auto simp: not_nearer_def)
  next
    case False
    let ?n = "Fin (grid_stop ?dir t orig)"
    have n: "normalizeStopPriceToTick (Fin orig) (Fin t) dg ?dir StopLossPrice = ?n"
      by (simp add: normalize_grid [OF assms(6)] grid_stop_def)
    have "adapt_widen inp (adapt_base inp ?v\<lparr>ar_safetyBuffer := Some (effective_safety (ai_safetyTicks inp) * Fin t)\<rparr>)
        (Fin pt) (Fin t) dg (Fin (lv * pt)) (effective_safety (ai_safetyTicks inp) * Fin t) = Some a"
      using assms(1,2) False passed f(4-8) st assms(4,5)
      by (auto simp: adaptMt5BrokerStops_def Let_def only_finite_def adapt_base_def split: if_splits)
    then obtain s tgt d base where fin: "adapt_finish inp base ?n s tgt d (Fin pt) (Fin t) dg = a" "\<not> ar_ok base"
      using assms(2) st(8) n
      by (auto simp: adapt_widen_def Let_def adapt_base_def bind_eq_Some_conv split: if_splits)
    let ?st' = "?st\<lparr>sv_stopLoss := s, sv_takeProfit := tgt, sv_point := Some (Fin pt), sv_tickSize := Some (Fin t), sv_digits := Some dg\<rparr>"
    note ok = adapt_finish_ok [OF fin(1) assms(2) fin(2) assms(3)]
    obtain s' tgt' where s: "s = Fin s'" "tgt = Fin tgt'"
      and v': "validateAndNormalizeMt5Stops ?st' = validate_distances ?st' (Fin pt) (Fin t) dg (Fin lv)"
      using validate_passed [OF validate_ok_passed [OF conjunct1 [OF ok]], of t dg] st(4) by auto
    have "x = Fin (grid_stop ?dir t s')"
      using validate_distances_facts(2) [OF st(5,6,7) assms(6), of ?st' bid ask s' tgt'] st(1,2) ok s v'
      by (simp add: grid_stop_def)
    moreover from this have "not_nearer ?dir (rat_eps pt t) (grid_stop ?dir t s') (grid_stop ?dir t orig)"
      using ok by (cases ?dir) (simp_all add: not_nearer_def stop_eps_fin)
    ultimately show ?thesis using st by blast
  qed
qed

text \<open>An accepted target: the final prices are on the grid and acceptable to the broker, and the target
  is at least the intended multiple of the risk away from the entry.\<close>

definition reward_ok :: "direction \<Rightarrow> rat \<Rightarrow> rat \<Rightarrow> rat \<Rightarrow> rat \<Rightarrow> rat \<Rightarrow> bool" where
  "reward_ok dir entry R slack sl tp =
     (if dir = BUY then entry + R * \<bar>entry - sl\<bar> \<le> tp + slack else tp \<le> entry - R * \<bar>entry - sl\<bar> + slack)"

lemma target_finish_ok:
  fixes st normalizedSl tgt point tick digits
  defines "v \<equiv> validateAndNormalizeMt5Stops (st\<lparr>sv_stopLoss := normalizedSl, sv_takeProfit := tgt,
                sv_point := Some point, sv_tickSize := Some tick, sv_digits := Some digits\<rparr>)"
  assumes "tr_ok (target_finish st entry R normalizedSl tgt gap point tick digits)"
  shows "sr_ok v \<and> tr_stopLoss (target_finish st entry R normalizedSl tgt gap point tick digits) = sr_normalizedStopLoss v \<and>
     tr_takeProfit (target_finish st entry R normalizedSl tgt gap point tick digits) = sr_normalizedTakeProfit v"
  using assms(2) unfolding target_finish_def Let_def v_def [symmetric]
  by (auto simp: target_empty_def split: option.splits if_splits)

lemma recompute_ok:
  assumes "tr_ok (recomputeMt5TakeProfitAtTargetR st (Fin entry) intended safety)"
    and "sv_tickSize st = Some (Fin t)" and "sv_digits st = Some dg" and "tick_grid t dg"
    and "sv_stopLoss st = Fin (grid_stop (sv_direction st) t q)" and "effective_R intended = Fin R"
  defines "r \<equiv> recomputeMt5TakeProfitAtTargetR st (Fin entry) intended safety"
    and "sl \<equiv> grid_stop (sv_direction st) t q"
  shows "\<exists>bid ask pt lv tp. sv_bid st = Fin bid \<and> sv_ask st = Fin ask \<and> sv_point st = Some (Fin pt) \<and>
     sv_stopsLevel st = Some (Fin lv) \<and> tr_stopLoss r = Some (Fin sl) \<and> tr_takeProfit r = Some (Fin tp) \<and>
     geometry_ok (sv_direction st) (if sv_direction st = BUY then bid else ask) (rat_eps pt t) (lv * pt) sl tp \<and>
     reward_ok (sv_direction st) entry R (t / 10 ^ 12) sl tp"
proof -
  let ?dir = "sv_direction st"
  define ptp where "ptp = (if ?dir = BUY then Fin entry + js_abs (Fin entry - Fin sl) * js_max (Fin R) 1
      else Fin entry - js_abs (Fin entry - Fin sl) * js_max (Fin R) 1)"
  let ?st1 = "st\<lparr>sv_takeProfit := ptp\<rparr>"
  let ?v1 = "validateAndNormalizeMt5Stops ?st1"
  have passed: "sr_minimumStopDistance ?v1 \<noteq> None"
    using assms(1) unfolding recomputeMt5TakeProfitAtTargetR_def Let_def assms(5,6) ptp_def sl_def
    by (auto simp: target_empty_def split: if_splits option.splits)
  obtain bid ask pt lv tp1 where
    st: "sv_bid st = Fin bid" "sv_ask st = Fin ask" "sv_point st = Some (Fin pt)" "sv_stopsLevel st = Some (Fin lv)"
    "0 < pt" "0 < t" "0 \<le> lv" "ptp = Fin tp1" "is_finite dg"
    and v1: "?v1 = validate_distances ?st1 (Fin pt) (Fin t) dg (Fin lv)"
    using validate_passed [OF passed, of t dg] assms(2,3) by auto
  have f1: "sr_normalizedStopLoss ?v1 = Some (Fin sl)" "sr_minimumStopDistance ?v1 = Some (Fin (lv * pt))"
    "sr_point ?v1 = Some (Fin pt)" "sr_tickSize ?v1 = Some (Fin t)" "sr_digits ?v1 = Some dg"
    "sr_stopsLevel ?v1 = Some (Fin lv)"
    using validate_distances_facts [OF st(5,6,7) assms(4), of ?st1 bid ask sl tp1, folded v1]
      st assms(2,3,5) grid_stop_idem [OF st(6), of ?dir q]
    by (auto simp: sl_def only_finite_def grid_stop_def)
  obtain s where s: "effective_safety safety = Fin s" "0 \<le> s" using effective_safety_fin by blast
  define ref where "ref = (if ?dir = BUY then bid else ask)"
  define gap where "gap = \<bar>entry - sl\<bar>"
  define tgt where "tgt = target_at ?dir (Fin entry) (Fin (gap * R)) (Fin ref) (Fin (lv * pt)) (Fin (s * t)) (Fin pt) (Fin t) dg"
  have r: "r = target_finish st (Fin entry) (Fin R) (Fin sl) tgt (Fin gap) (Fin pt) (Fin t) dg"
    using assms(1) f1 st s
    unfolding r_def recomputeMt5TakeProfitAtTargetR_def Let_def assms(5,6) sl_def [symmetric]
      ptp_def [symmetric] tgt_def ref_def gap_def
    by (auto simp: target_empty_def reference_price_def sl_def [symmetric] split: if_splits)
  let ?st2 = "st\<lparr>sv_stopLoss := Fin sl, sv_takeProfit := tgt, sv_point := Some (Fin pt), sv_tickSize := Some (Fin t), sv_digits := Some dg\<rparr>"
  let ?v2 = "validateAndNormalizeMt5Stops ?st2"
  have ok: "sr_ok ?v2" "tr_stopLoss r = sr_normalizedStopLoss ?v2" "tr_takeProfit r = sr_normalizedTakeProfit ?v2"
    using target_finish_ok [of st "Fin entry" "Fin R" "Fin sl" tgt "Fin gap" "Fin pt" "Fin t" dg] assms(1)
    by (simp_all add: r [symmetric] r_def [symmetric])
  have buf: "0 \<le> s * t" using s(2) st(6) by simp
  obtain z where z: "tgt = Fin z" "(if ?dir = BUY then grid_up t z else grid_down t z) = z"
    "reward_ok ?dir entry R (t / 10 ^ 12) sl z"
    using target_at_buy [OF assms(4) buf st(5), of entry "gap * R" ref "lv * pt"]
      target_at_sell [OF assms(4) buf st(5), of entry "gap * R" ref "lv * pt"] grid_idem [OF st(6)]
    by (cases ?dir) (auto simp: tgt_def reward_ok_def gap_def mult.commute)
  have v2: "?v2 = validate_distances ?st2 (Fin pt) (Fin t) dg (Fin lv)"
    using validate_passed [OF validate_ok_passed [OF ok(1)], of t dg] st(3,4) by auto
  have "geometry_ok ?dir ref (rat_eps pt t) (lv * pt) sl z" "tr_stopLoss r = Some (Fin sl)" "tr_takeProfit r = Some (Fin z)"
    using validate_distances_facts(1-3) [OF st(5,6,7) assms(4), of ?st2 bid ask sl z, folded v2]
      ok st(1,2) z(1,2) grid_stop_idem [OF st(6), of ?dir q]
    by (auto simp: sl_def grid_stop_def ref_def)
  then show ?thesis using st z(3) unfolding ref_def by blast
qed

text \<open>C15: what is submitted is acceptable.  On a tick grid the digits can write, when the final stop
  geometry is accepted its stop and target are on the right sides of the live market and outside the
  broker's minimum distance, the stop is never nearer to the market than the strategy's own stop on the
  grid, and the reward is at least the intended multiple of the risk, to a millionth of a millionth of
  a tick.\<close>

theorem submitted_geometry:
  assumes "finalizeMt5StopsForSubmit inp intended = Some r" and "fr_ok r"
    and "sv_tickSize (ai_stops inp) = Some (Fin t)" and "sv_digits (ai_stops inp) = Some dg" and "tick_grid t dg"
  shows "\<exists>bid ask pt lv orig entry R sl tp. sv_bid (ai_stops inp) = Fin bid \<and> sv_ask (ai_stops inp) = Fin ask \<and>
     sv_point (ai_stops inp) = Some (Fin pt) \<and> sv_stopsLevel (ai_stops inp) = Some (Fin lv) \<and>
     sv_stopLoss (ai_stops inp) = Fin orig \<and> ai_entryPrice inp = Fin entry \<and> effective_R intended = Fin R \<and>
     fr_stopLoss r = Some (Fin sl) \<and> fr_takeProfit r = Some (Fin tp) \<and>
     geometry_ok (sv_direction (ai_stops inp)) (if sv_direction (ai_stops inp) = BUY then bid else ask)
       (rat_eps pt t) (lv * pt) sl tp \<and>
     not_nearer (sv_direction (ai_stops inp)) (rat_eps pt t) sl (grid_stop (sv_direction (ai_stops inp)) t orig) \<and>
     reward_ok (sv_direction (ai_stops inp)) entry R (t / 10 ^ 12) sl tp"
proof -
  obtain R where R: "effective_R intended = Fin R" "0 < R" using effective_R_fin by blast
  let ?inp = "inp\<lparr>ai_targetRMultiple := Fin R\<rparr>" and ?dir = "sv_direction (ai_stops inp)"
  obtain a where a: "adaptMt5BrokerStops ?inp = Some a" and r: "r = finalize_with inp (Fin R) a"
    using assms(1) by (auto simp: finalizeMt5StopsForSubmit_def Let_def R(1))
  obtain x where x: "ar_ok a" "ar_adjustedStopLoss a = Some x"
    using assms(2) by (auto simp: r finalize_with_def split: option.splits bool.splits)
  obtain orig pt q where o: "sv_stopLoss (ai_stops inp) = Fin orig" "sv_point (ai_stops inp) = Some (Fin pt)"
    "x = Fin (grid_stop ?dir t q)" "not_nearer ?dir (rat_eps pt t) (grid_stop ?dir t q) (grid_stop ?dir t orig)"
    using adapt_ok [OF a x, of t dg] assms(3-5) by (simp, blast)
  let ?st = "(ai_stops inp)\<lparr>sv_stopLoss := x\<rparr>"
  let ?t = "recomputeMt5TakeProfitAtTargetR ?st (ai_entryPrice inp) (Fin R) (ai_safetyTicks inp)"
  have t: "tr_ok ?t" "fr_stopLoss r = tr_stopLoss ?t" "fr_takeProfit r = tr_takeProfit ?t"
    using assms(2) x by (auto simp: r finalize_with_def Let_def split: option.splits bool.splits)
  then obtain entry where e: "ai_entryPrice inp = Fin entry"
    by (cases "ai_entryPrice inp") (auto simp: recomputeMt5TakeProfitAtTargetR_def Let_def target_empty_def)
  have "effective_R (Fin R) = Fin R" using R(2) by (simp add: effective_R_def)
  from recompute_ok [of ?st entry "Fin R" "ai_safetyTicks inp" t dg q R, OF _ _ _ assms(5) _ this]
  obtain bid ask lv tp where f: "sv_bid (ai_stops inp) = Fin bid" "sv_ask (ai_stops inp) = Fin ask"
    "sv_stopsLevel (ai_stops inp) = Some (Fin lv)" "tr_stopLoss ?t = Some (Fin (grid_stop ?dir t q))"
    "tr_takeProfit ?t = Some (Fin tp)"
    "geometry_ok ?dir (if ?dir = BUY then bid else ask) (rat_eps pt t) (lv * pt) (grid_stop ?dir t q) tp"
    "reward_ok ?dir entry R (t / 10 ^ 12) (grid_stop ?dir t q) tp"
    using t(1) assms(3,4) o(2) e unfolding o(3) by auto
  note fr = trans [OF t(2) f(4)] trans [OF t(3) f(5)]
  show ?thesis
    by (rule exI [of _ bid], rule exI [of _ ask], rule exI [of _ pt], rule exI [of _ lv], rule exI [of _ orig],
        rule exI [of _ entry], rule exI [of _ R], rule exI [of _ "grid_stop ?dir t q"], rule exI [of _ tp])
      (simp add: f(1-3,6,7) fr o R(1) e del: power_numeral)
qed

text \<open>C34: the final stop geometry always returns.  The loops that push the stop outward have no bound
  in the code; on a tick grid the digits can write each of their iterations moves the stop by at
  least half a tick, so they end for every input.\<close>

theorem finalize_returns:
  assumes "sv_tickSize (ai_stops inp) = Some (Fin t)" and "sv_digits (ai_stops inp) = Some dg" and "tick_grid t dg"
  shows "\<exists>r. finalizeMt5StopsForSubmit inp intended = Some r"
proof -
  let ?inp = "inp\<lparr>ai_targetRMultiple := effective_R intended\<rparr>" and ?st = "ai_stops inp"
  let ?v = "validateAndNormalizeMt5Stops ?st"
  have "\<exists>a. adaptMt5BrokerStops ?inp = Some a"
  proof (cases "sr_minimumStopDistance ?v = None")
    case True
    then show ?thesis by (auto simp: adaptMt5BrokerStops_def Let_def split: option.splits)
  next
    case False
    obtain bid ask pt lv sl tp where
      st: "sv_bid ?st = Fin bid" "sv_ask ?st = Fin ask" "0 < pt" "0 < t" "0 \<le> lv" "sv_stopLoss ?st = Fin sl"
      "sv_takeProfit ?st = Fin tp" "sv_point ?st = Some (Fin pt)" "sv_stopsLevel ?st = Some (Fin lv)" "is_finite dg"
      and v: "?v = validate_distances ?st (Fin pt) (Fin t) dg (Fin lv)"
      using validate_passed [OF False assms(1,2)] by blast
    obtain s where s: "effective_safety (ai_safetyTicks inp) = Fin s" using effective_safety_fin by blast
    have "\<exists>a. adapt_widen ?inp b (Fin pt) (Fin t) dg (Fin (lv * pt)) (Fin (s * t)) = Some a" for b
      using adjusted_stop_returns [OF assms(3), of "sv_direction ?st"] st
      by (auto simp: adapt_widen_def Let_def reference_price_def normalize_grid [OF assms(3)] bind_eq_Some_conv)
        (metis is_finite.simps(1))+
    then show ?thesis
      using validate_distances_facts(4-8) [OF st(3-5) assms(3) st(1,2,6,7), folded v] s st(8-10) assms(1,2)
      by (auto simp: adaptMt5BrokerStops_def Let_def only_finite_def split: option.split bool.split)
  qed
  then show ?thesis by (auto simp: finalizeMt5StopsForSubmit_def Let_def)
qed

subsection \<open>A concrete order\<close>

definition demo_stops :: stop_input where
  "demo_stops = \<lparr>sv_direction = BUY, sv_stopLoss = Fin (998 / 10), sv_takeProfit = Fin 101, sv_bid = Fin 100,
     sv_ask = Fin (10002 / 100), sv_point = Some (Fin (1 / 100)), sv_tickSize = Some (Fin (1 / 100)),
     sv_digits = Some (Fin 2), sv_stopsLevel = Some (Fin 50), sv_freezeLevel = None\<rparr>"

definition demo_adapt :: adapt_input where
  "demo_adapt = \<lparr>ai_stops = demo_stops, ai_entryPrice = Fin (10002 / 100), ai_targetRMultiple = Fin 2,
     ai_safetyTicks = None\<rparr>"

lemma demo_finalized:
  "map_option (\<lambda>r. (fr_ok r, fr_stopLoss r, fr_takeProfit r)) (finalizeMt5StopsForSubmit demo_adapt (Fin 2)) =
     Some (True, Some (Fin (9949 / 100)), Some (Fin (10108 / 100)))"
  by code_simp

lemma demo_grid: "tick_grid (1 / 100) (Fin 2)"
  by (auto simp: tick_grid_def fixed_places_def intro!: exI [of _ 1])

theorem finalize_returns_witness: "\<exists>r. finalizeMt5StopsForSubmit demo_adapt (Fin 2) = Some r"
  by (rule finalize_returns [OF _ _ demo_grid]) (simp_all add: demo_adapt_def demo_stops_def)

theorem submitted_geometry_witness:
  "geometry_ok BUY 100 (1 / 1000) (1 / 2) (9949 / 100) (10108 / 100) \<and>
   reward_ok BUY (10002 / 100) 2 (1 / 10 ^ 14) (9949 / 100) (10108 / 100)"
proof -
  obtain r where r: "finalizeMt5StopsForSubmit demo_adapt (Fin 2) = Some r" "fr_ok r"
    "fr_stopLoss r = Some (Fin (9949 / 100))" "fr_takeProfit r = Some (Fin (10108 / 100))"
    using demo_finalized by auto
  have d: "sv_tickSize (ai_stops demo_adapt) = Some (Fin (1 / 100))" "sv_digits (ai_stops demo_adapt) = Some (Fin 2)"
    "sv_direction (ai_stops demo_adapt) = BUY" "sv_bid (ai_stops demo_adapt) = Fin 100"
    "sv_point (ai_stops demo_adapt) = Some (Fin (1 / 100))" "sv_stopsLevel (ai_stops demo_adapt) = Some (Fin 50)"
    "ai_entryPrice demo_adapt = Fin (10002 / 100)" "effective_R (Fin 2) = Fin 2"
    by (simp_all add: demo_adapt_def demo_stops_def effective_R_def)
  from submitted_geometry [OF r(1,2) d(1,2) demo_grid]
  obtain pt entry sl tp where "Fin pt = Fin (1 / 100)" "Fin entry = Fin (10002 / 100)" "Fin sl = Fin (9949 / 100)"
    "Fin tp = Fin (10108 / 100)" "geometry_ok BUY 100 (rat_eps pt (1 / 100)) (50 * pt) sl tp"
    "reward_ok BUY entry 2 (1 / 100 / 10 ^ 12) sl tp"
    unfolding d r by auto
  then have "geometry_ok BUY 100 (rat_eps (1 / 100) (1 / 100)) (50 * (1 / 100)) (9949 / 100) (10108 / 100)"
    "reward_ok BUY (10002 / 100) 2 (1 / 100 / 10 ^ 12) (9949 / 100) (10108 / 100)"
    by (simp_all only: jsnum.inject)
  then show ?thesis by (simp add: rat_eps_def)
qed

end
