(* ===== verification/PaperBroker.thy ===== *)
theory PaperBroker
  imports CfdMath "HOL-Library.AList"
begin

text \<open>
  The simulated CFD venue and the position manager that watches it
  (\<^verbatim>\<open>packages/trading-engine/src/broker/paperCFDBroker.ts\<close>,
  \<^verbatim>\<open>packages/trading-engine/src/execution/positionManager.ts\<close>,
  \<^verbatim>\<open>packages/shared/src/types/broker.ts\<close>).  The map of positions, which the code iterates, is
  an association list in insertion order, the other maps are maps.  Generated identifiers and the
  two clock readings of an operation are arguments.  The opaque metadata of a position is left out.
\<close>

subsection \<open>The messages and the state of the venue\<close>

record broker_quote =
  qt_symbol :: string
  qt_bid :: jsnum
  qt_ask :: jsnum
  qt_mid :: jsnum
  qt_timestamp :: jsnum

record broker_position =
  bp_id :: string
  bp_key :: string
  bp_symbol :: string
  bp_direction :: direction
  bp_volume :: jsnum
  bp_entryPrice :: jsnum
  bp_stopLoss :: jsnum
  bp_takeProfit :: "jsnum option"
  bp_currentPrice :: jsnum
  bp_status :: string
  bp_floatingPnl :: jsnum
  bp_riskAmount :: jsnum
  bp_riskPercent :: jsnum
  bp_initialRiskReward :: "jsnum option"
  bp_spreadBps :: jsnum
  bp_slippageBps :: jsnum
  bp_marginUsed :: jsnum
  bp_openedAt :: jsnum

record internal_position = broker_position +
  ip_instrument :: instrument

record open_request =
  or_key :: string
  or_symbol :: string
  or_direction :: direction
  or_volume :: jsnum
  or_stopLoss :: jsnum
  or_takeProfit :: "jsnum option"
  or_quote :: broker_quote
  or_instrument :: instrument
  or_riskAmount :: jsnum
  or_riskPercent :: jsnum
  or_initialRiskReward :: "jsnum option"

datatype reject_reason =
    BrokerNotConnected | KeyUsedForClosed | BadInstrument instrument_reason | VolumeOutsideRange
  | QuoteStale | InsufficientMargin jsnum jsnum

record open_result =
  os_accepted :: bool
  os_brokerPositionId :: "string option"
  os_entryPrice :: "jsnum option"
  os_spreadBps :: jsnum
  os_slippageBps :: jsnum
  os_reasons :: "reject_reason list"
  os_position :: "broker_position option"

record closed_result =
  cr_id :: string
  cr_closePrice :: jsnum
  cr_realizedPnl :: jsnum
  cr_closeReason :: string
  cr_spreadBps :: jsnum
  cr_slippageBps :: jsnum
  cr_closedAt :: jsnum

datatype paper_error = OpenPositionNotFound string | NoExecutableQuote | QuoteTooOld

record paper_config =
  pc_currency :: string
  pc_initialBalance :: jsnum
  pc_fallbackSpreadBps :: jsnum
  pc_fallbackSlippageBps :: jsnum
  pc_maxQuoteAgeMs :: jsnum

record paper =
  pb_connected :: bool
  pb_balance :: jsnum
  pb_realizedPnl :: jsnum
  pb_quotes :: "string \<rightharpoonup> broker_quote"
  pb_positions :: "(string \<times> internal_position) list"
  pb_index :: "string \<rightharpoonup> string"
  pb_closed :: "string \<rightharpoonup> closed_result"

subsection \<open>The operations\<close>

definition new_paper :: "paper_config \<Rightarrow> paper" where
  "new_paper cfg =
     \<lparr>pb_connected = False, pb_balance = pc_initialBalance cfg, pb_realizedPnl = 0, pb_quotes = Map.empty,
      pb_positions = [], pb_index = Map.empty, pb_closed = Map.empty\<rparr>"

definition connect :: "paper \<Rightarrow> paper" where "connect s = s\<lparr>pb_connected := True\<rparr>"
definition disconnect :: "paper \<Rightarrow> paper" where "disconnect s = s\<lparr>pb_connected := False\<rparr>"

definition stripInternal :: "internal_position \<Rightarrow> broker_position" where
  "stripInternal pos = broker_position.truncate pos"

text \<open>Marking a position to a price.\<close>

definition mark_at :: "jsnum \<Rightarrow> internal_position \<Rightarrow> internal_position" where
  "mark_at mark pos = pos\<lparr>bp_currentPrice := mark,
     bp_floatingPnl := floatingPnl (bp_direction pos) (bp_entryPrice pos) mark (bp_volume pos) (ip_instrument pos)\<rparr>"

definition mark_of :: "(string \<rightharpoonup> broker_quote) \<Rightarrow> internal_position \<Rightarrow> internal_position" where
  "mark_of quotes pos =
     mark_at (case quotes (bp_symbol pos) of Some q \<Rightarrow> qt_mid q | None \<Rightarrow> bp_currentPrice pos) pos"

definition recomputeAccount :: "paper \<Rightarrow> paper" where
  "recomputeAccount s = s\<lparr>pb_positions := List.map (\<lambda>(k, p). (k, mark_of (pb_quotes s) p)) (pb_positions s)\<rparr>"

definition accountNumbers :: "paper \<Rightarrow> account_numbers" where
  "accountNumbers s =
     (let (flt, used) = foldl (\<lambda>(f, u) (k, p). (roundMoney (f + bp_floatingPnl p), roundMoney (u + bp_marginUsed p)))
            (0, 0) (pb_positions s)
      in derivePaperAccountNumbers (pb_balance s) flt used (pb_realizedPnl s))"

definition getAccount :: "paper \<Rightarrow> account_numbers \<times> paper" where
  "getAccount s = (let s' = recomputeAccount s in (accountNumbers s', s'))"

definition setQuote :: "broker_quote \<Rightarrow> paper \<Rightarrow> paper" where
  "setQuote q s =
     recomputeAccount (s\<lparr>pb_quotes := (pb_quotes s)(qt_symbol q \<mapsto> q),
       pb_positions := List.map (\<lambda>(k, p). (k, if bp_symbol p \<noteq> qt_symbol q then p else mark_at (qt_mid q) p))
         (pb_positions s)\<rparr>)"

definition getQuote :: "string \<Rightarrow> paper \<Rightarrow> broker_quote option" where
  "getQuote symbol s = pb_quotes s symbol"

definition getClosedResult :: "string \<Rightarrow> paper \<Rightarrow> closed_result option" where
  "getClosedResult bid s = pb_closed s bid"

definition findBrokerPositionIdByIdempotencyKey :: "string \<Rightarrow> paper \<Rightarrow> string option" where
  "findBrokerPositionIdByIdempotencyKey key s = pb_index s key"

definition getPosition :: "string \<Rightarrow> paper \<Rightarrow> broker_position option" where
  "getPosition bid s = map_option stripInternal (map_of (pb_positions s) bid)"

definition getOpenPositions :: "paper \<Rightarrow> broker_position list" where
  "getOpenPositions s = List.map (stripInternal \<circ> snd) (pb_positions s)"

definition requireOpen :: "string \<Rightarrow> paper \<Rightarrow> paper_error + internal_position" where
  "requireOpen bid s =
     (case map_of (pb_positions s) bid of
        Some pos \<Rightarrow> if bp_status pos = ''OPEN'' then Inr pos else Inl (OpenPositionNotFound bid)
      | None \<Rightarrow> Inl (OpenPositionNotFound bid))"

definition reject :: "paper_config \<Rightarrow> open_request \<Rightarrow> reject_reason list \<Rightarrow> open_result" where
  "reject cfg req reasons =
     \<lparr>os_accepted = False, os_brokerPositionId = None, os_entryPrice = None,
      os_spreadBps = or_default (spreadBps (or_instrument req)) (pc_fallbackSpreadBps cfg),
      os_slippageBps = or_default (slippageBps (or_instrument req)) (pc_fallbackSlippageBps cfg),
      os_reasons = reasons, os_position = None\<rparr>"

definition accepted_result :: "internal_position \<Rightarrow> open_result" where
  "accepted_result pos =
     \<lparr>os_accepted = True, os_brokerPositionId = Some (bp_id pos), os_entryPrice = Some (bp_entryPrice pos),
      os_spreadBps = bp_spreadBps pos, os_slippageBps = bp_slippageBps pos, os_reasons = [],
      os_position = Some (stripInternal pos)\<rparr>"

text \<open>The checks before anything is filled, and the position an accepted request becomes.\<close>

definition open_refusals :: "paper_config \<Rightarrow> jsnum \<Rightarrow> open_request \<Rightarrow> reject_reason list" where
  "open_refusals cfg now req =
     (let inst = or_instrument req; reasons = assertInstrumentReady inst; meta = validateInstrumentMetadata inst
      in if reasons \<noteq> [] then List.map BadInstrument reasons
         else if \<not> iv_valid meta then List.map BadInstrument (iv_reasons meta)
         else if or_volume req < minVolume inst \<or> maxVolume inst < or_volume req then [VolumeOutsideRange]
         else if \<not> isQuoteFresh (Some (qt_timestamp (or_quote req))) now (pc_maxQuoteAgeMs cfg) then [QuoteStale]
         else [])"

definition opened_position :: "paper_config \<Rightarrow> string \<Rightarrow> jsnum \<Rightarrow> open_request \<Rightarrow> internal_position" where
  "opened_position cfg uuid openedAt req =
     (let inst = or_instrument req; mid = qt_mid (or_quote req);
          f = applyExecutableFill (or_direction req) mid (or_default (spreadBps inst) (pc_fallbackSpreadBps cfg))
                (or_default (slippageBps inst) (pc_fallbackSlippageBps cfg));
          entry = fillPrice f
      in \<lparr>bp_id = uuid, bp_key = or_key req, bp_symbol = or_symbol req, bp_direction = or_direction req,
          bp_volume = or_volume req, bp_entryPrice = entry, bp_stopLoss = or_stopLoss req,
          bp_takeProfit = or_takeProfit req, bp_currentPrice = mid, bp_status = ''OPEN'',
          bp_floatingPnl = floatingPnl (or_direction req) entry mid (or_volume req) inst,
          bp_riskAmount = or_riskAmount req, bp_riskPercent = or_riskPercent req,
          bp_initialRiskReward = or_initialRiskReward req, bp_spreadBps = appliedSpreadBps f,
          bp_slippageBps = appliedSlippageBps f,
          bp_marginUsed = estimateMarginRequired entry (or_volume req) inst, bp_openedAt = openedAt,
          ip_instrument = inst\<rparr>)"

definition openFresh :: "paper_config \<Rightarrow> string \<Rightarrow> jsnum \<Rightarrow> jsnum \<Rightarrow> open_request \<Rightarrow> paper \<Rightarrow> open_result \<times> paper" where
  "openFresh cfg uuid now openedAt req s =
     (let refusals = open_refusals cfg now req; pos = opened_position cfg uuid openedAt req;
          free = an_freeMargin (accountNumbers s)
      in if refusals \<noteq> [] then (reject cfg req refusals, s)
         else if free < bp_marginUsed pos then (reject cfg req [InsufficientMargin (bp_marginUsed pos) free], s)
         else let s' = recomputeAccount (s\<lparr>pb_positions := AList.update uuid pos (pb_positions s),
                         pb_index := (pb_index s)(or_key req \<mapsto> uuid)\<rparr>)
              in (accepted_result (mark_of (pb_quotes s) pos), s'))"

definition openMarketPosition ::
  "paper_config \<Rightarrow> string \<Rightarrow> jsnum \<Rightarrow> jsnum \<Rightarrow> open_request \<Rightarrow> paper \<Rightarrow> open_result \<times> paper" where
  "openMarketPosition cfg uuid now openedAt req s =
     (if \<not> pb_connected s then (reject cfg req [BrokerNotConnected], s)
      else case (if truthy (pb_index s (or_key req)) then pb_index s (or_key req) else None) of
        None \<Rightarrow> openFresh cfg uuid now openedAt req s
      | Some existingId \<Rightarrow>
          (case map_of (pb_positions s) existingId of
             Some existing \<Rightarrow> (accepted_result existing, s)
           | None \<Rightarrow>
               (case pb_closed s existingId of
                  Some _ \<Rightarrow> (reject cfg req [KeyUsedForClosed], s)
                | None \<Rightarrow> openFresh cfg uuid now openedAt req s)))"

text \<open>An absent field of a modification leaves the stop as it is; a target may be set to none.\<close>

definition modifyPosition ::
  "string \<Rightarrow> jsnum option \<Rightarrow> jsnum option option \<Rightarrow> paper \<Rightarrow> (paper_error + broker_position) \<times> paper" where
  "modifyPosition bid sl tp s =
     (case requireOpen bid s of
        Inl e \<Rightarrow> (Inl e, s)
      | Inr pos \<Rightarrow>
          (let pos' = pos\<lparr>bp_stopLoss := or_default sl (bp_stopLoss pos),
                          bp_takeProfit := or_default tp (bp_takeProfit pos)\<rparr>
           in (Inr (stripInternal pos'), s\<lparr>pb_positions := AList.update bid pos' (pb_positions s)\<rparr>)))"

definition close_result ::
  "paper_config \<Rightarrow> string \<Rightarrow> broker_quote \<Rightarrow> jsnum \<Rightarrow> internal_position \<Rightarrow> closed_result" where
  "close_result cfg reason q closedAt pos =
     (let inst = ip_instrument pos;
          f = applyExitFill (bp_direction pos) (qt_mid q) (or_default (spreadBps inst) (pc_fallbackSpreadBps cfg))
                (or_default (slippageBps inst) (pc_fallbackSlippageBps cfg))
      in \<lparr>cr_id = bp_id pos, cr_closePrice = fillPrice f,
          cr_realizedPnl = floatingPnl (bp_direction pos) (bp_entryPrice pos) (fillPrice f) (bp_volume pos) inst,
          cr_closeReason = reason, cr_spreadBps = appliedSpreadBps f, cr_slippageBps = appliedSlippageBps f,
          cr_closedAt = closedAt\<rparr>)"

definition book_close :: "closed_result \<Rightarrow> paper \<Rightarrow> paper" where
  "book_close r s =
     recomputeAccount (s\<lparr>pb_balance := roundMoney (pb_balance s + cr_realizedPnl r),
       pb_realizedPnl := roundMoney (pb_realizedPnl s + cr_realizedPnl r),
       pb_positions := AList.delete (cr_id r) (pb_positions s),
       pb_closed := (pb_closed s)(cr_id r \<mapsto> r)\<rparr>)"

definition closePosition ::
  "paper_config \<Rightarrow> string \<Rightarrow> string \<Rightarrow> broker_quote option \<Rightarrow> jsnum \<Rightarrow> jsnum \<Rightarrow> paper
     \<Rightarrow> (paper_error + closed_result) \<times> paper" where
  "closePosition cfg bid reason quote now closedAt s =
     (case pb_closed s bid of
        Some prior \<Rightarrow> (Inr prior, s)
      | None \<Rightarrow>
          (case requireOpen bid s of
             Inl e \<Rightarrow> (Inl e, s)
           | Inr pos \<Rightarrow>
               (case (case quote of Some q \<Rightarrow> Some q | None \<Rightarrow> pb_quotes s (bp_symbol pos)) of
                  None \<Rightarrow> (Inl NoExecutableQuote, s)
                | Some q \<Rightarrow>
                    if \<not> isQuoteFresh (Some (qt_timestamp q)) now (pc_maxQuoteAgeMs cfg) then (Inl QuoteTooOld, s)
                    else let r = close_result cfg reason q closedAt pos in (Inr r, book_close r s))))"

definition restorePosition :: "broker_position \<Rightarrow> instrument \<Rightarrow> paper \<Rightarrow> paper" where
  "restorePosition pos inst s =
     (if pb_closed s (bp_id pos) \<noteq> None then s
      else recomputeAccount (s\<lparr>pb_positions :=
               AList.update (bp_id pos) (broker_position.extend pos (internal_position.fields inst)) (pb_positions s),
             pb_index := (pb_index s)(bp_key pos \<mapsto> bp_id pos)\<rparr>))"

definition seedClosedResult :: "closed_result \<Rightarrow> string option \<Rightarrow> paper \<Rightarrow> paper" where
  "seedClosedResult r key s =
     (let s' = s\<lparr>pb_closed := (pb_closed s)(cr_id r \<mapsto> r)\<rparr>
      in case key of Some k \<Rightarrow> if k \<noteq> [] then s'\<lparr>pb_index := (pb_index s')(k \<mapsto> cr_id r)\<rparr> else s' | None \<Rightarrow> s')"

subsection \<open>Runs of the venue\<close>

datatype paper_event =
    Connect | Disconnect | AccountQuery
  | Quote broker_quote
  | Open string jsnum jsnum open_request
  | Modify string "jsnum option" "jsnum option option"
  | Close string string "broker_quote option" jsnum jsnum
  | Restore broker_position instrument
  | Seed closed_result "string option"

fun paper_step :: "paper_config \<Rightarrow> paper \<Rightarrow> paper_event \<Rightarrow> paper" where
  "paper_step cfg s Connect = connect s"
| "paper_step cfg s Disconnect = disconnect s"
| "paper_step cfg s AccountQuery = snd (getAccount s)"
| "paper_step cfg s (Quote q) = setQuote q s"
| "paper_step cfg s (Open uuid now openedAt req) = snd (openMarketPosition cfg uuid now openedAt req s)"
| "paper_step cfg s (Modify bid sl tp) = snd (modifyPosition bid sl tp s)"
| "paper_step cfg s (Close bid reason q now closedAt) = snd (closePosition cfg bid reason q now closedAt s)"
| "paper_step cfg s (Restore pos inst) = restorePosition pos inst s"
| "paper_step cfg s (Seed r key) = seedClosedResult r key s"

text \<open>Well-formedness: every map stores its entries under their own identifier, every idempotency
  key leads to an open or a closed position, and every position is marked to the last quote of its
  symbol.\<close>

definition marked :: "(string \<rightharpoonup> broker_quote) \<Rightarrow> internal_position \<Rightarrow> bool" where
  "marked quotes p \<longleftrightarrow>
     (case quotes (bp_symbol p) of Some q \<Rightarrow> bp_currentPrice p = qt_mid q | None \<Rightarrow> True) \<and>
     bp_floatingPnl p = floatingPnl (bp_direction p) (bp_entryPrice p) (bp_currentPrice p) (bp_volume p) (ip_instrument p)"

definition paper_wf :: "paper \<Rightarrow> bool" where
  "paper_wf s \<longleftrightarrow>
     distinct (List.map fst (pb_positions s)) \<and>
     (\<forall>(k, p) \<in> set (pb_positions s). bp_id p = k \<and> marked (pb_quotes s) p) \<and>
     (\<forall>k r. pb_closed s k = Some r \<longrightarrow> cr_id r = k) \<and>
     (\<forall>k q. pb_quotes s k = Some q \<longrightarrow> qt_symbol q = k) \<and>
     ran (pb_index s) \<subseteq> fst ` set (pb_positions s) \<union> dom (pb_closed s)"

lemma mark_fields [simp]:
  "bp_id (mark_at m p) = bp_id p" "bp_symbol (mark_at m p) = bp_symbol p" "bp_direction (mark_at m p) = bp_direction p"
  "bp_entryPrice (mark_at m p) = bp_entryPrice p" "bp_volume (mark_at m p) = bp_volume p"
  "ip_instrument (mark_at m p) = ip_instrument p" "bp_currentPrice (mark_at m p) = m"
  "bp_key (mark_at m p) = bp_key p" "bp_status (mark_at m p) = bp_status p"
  by (simp_all add: mark_at_def)

lemma mark_of_fields [simp]:
  "bp_id (mark_of qs p) = bp_id p" "bp_symbol (mark_of qs p) = bp_symbol p" "bp_direction (mark_of qs p) = bp_direction p"
  "bp_entryPrice (mark_of qs p) = bp_entryPrice p" "bp_volume (mark_of qs p) = bp_volume p"
  "ip_instrument (mark_of qs p) = ip_instrument p" "bp_key (mark_of qs p) = bp_key p" "bp_status (mark_of qs p) = bp_status p"
  by (simp_all add: mark_of_def)

lemma marked_mark_of [simp]: "marked quotes (mark_of quotes p)"
  by (simp add: marked_def mark_of_def mark_at_def split: option.split)

lemma map_marks [simp]: "List.map (fst \<circ> (\<lambda>(k, p). (k, g k p))) xs = List.map fst xs"
  by (induction xs) auto

lemma image_marks [simp]: "fst ` (\<lambda>(k, p). (k, g k p)) ` S = fst ` S"
  by force

lemma recompute_fields [simp]:
  "pb_quotes (recomputeAccount s) = pb_quotes s" "pb_closed (recomputeAccount s) = pb_closed s"
  "pb_index (recomputeAccount s) = pb_index s" "pb_balance (recomputeAccount s) = pb_balance s"
  "pb_realizedPnl (recomputeAccount s) = pb_realizedPnl s" "pb_connected (recomputeAccount s) = pb_connected s"
  "fst ` set (pb_positions (recomputeAccount s)) = fst ` set (pb_positions s)"
  "List.map fst (pb_positions (recomputeAccount s)) = List.map fst (pb_positions s)"
  by (simp_all add: recomputeAccount_def)

lemma recompute_positions:
  "(k, p) \<in> set (pb_positions (recomputeAccount s))
     \<longleftrightarrow> (\<exists>q. (k, q) \<in> set (pb_positions s) \<and> p = mark_of (pb_quotes s) q)"
  by (auto simp: recomputeAccount_def)

text \<open>Recomputing establishes the marks, so an operation that ends with it owes only the rest.\<close>

lemma recompute_wf:
  assumes "distinct (List.map fst (pb_positions s))" "\<And>k p. (k, p) \<in> set (pb_positions s) \<Longrightarrow> bp_id p = k"
    and "\<And>k r. pb_closed s k = Some r \<Longrightarrow> cr_id r = k" "\<And>k q. pb_quotes s k = Some q \<Longrightarrow> qt_symbol q = k"
    and "ran (pb_index s) \<subseteq> fst ` set (pb_positions s) \<union> dom (pb_closed s)"
  shows "paper_wf (recomputeAccount s)"
  using assms by (auto simp: paper_wf_def recompute_positions)

lemma paper_wfD:
  assumes "paper_wf s"
  shows "distinct (List.map fst (pb_positions s))" "\<And>k p. (k, p) \<in> set (pb_positions s) \<Longrightarrow> bp_id p = k"
    "\<And>k r. pb_closed s k = Some r \<Longrightarrow> cr_id r = k" "\<And>k q. pb_quotes s k = Some q \<Longrightarrow> qt_symbol q = k"
    "ran (pb_index s) \<subseteq> fst ` set (pb_positions s) \<union> dom (pb_closed s)"
  using assms by (auto simp: paper_wf_def)

lemma set_update: "set (AList.update k v xs) \<subseteq> insert (k, v) (set xs)"
  by (induction xs) auto

lemma keys_update: "fst ` set (AList.update k v xs) = insert k (fst ` set xs)"
  by (induction xs) auto

lemma keys_delete: "fst ` set (AList.delete k xs) = fst ` set xs - {k}"
  by (auto simp: AList.delete_eq)

lemma ran_upd: "ran (m(k \<mapsto> v)) \<subseteq> insert v (ran m)"
  by (auto simp: ran_def)

lemma wf_put:
  assumes "paper_wf s" "bp_id p = bid"
  shows "paper_wf (recomputeAccount (s\<lparr>pb_positions := AList.update bid p (pb_positions s),
           pb_index := (pb_index s)(key \<mapsto> bid)\<rparr>))"
proof (rule recompute_wf, goal_cases)
  case 1 show ?case using paper_wfD(1) [OF assms(1)] by (simp add: AList.distinct_update)
next
  case (2 k q) then show ?case using paper_wfD(2) [OF assms(1)] assms(2) set_update by fastforce
next
  case 5
  then show ?case using paper_wfD(5) [OF assms(1)] ran_upd [of "pb_index s" key bid] by (auto simp: keys_update)
qed (use paper_wfD(3,4) [OF assms(1)] in auto)

lemma wf_open_fresh:
  assumes "paper_wf s" shows "paper_wf (snd (openFresh cfg uuid now openedAt req s))"
proof -
  have "bp_id (opened_position cfg uuid openedAt req) = uuid" by (simp add: opened_position_def Let_def)
  then show ?thesis using assms wf_put [OF assms] by (simp add: openFresh_def Let_def)
qed

lemma open_cases:
  "snd (openMarketPosition cfg uuid now openedAt req s) = s
   \<or> openMarketPosition cfg uuid now openedAt req s = openFresh cfg uuid now openedAt req s"
  by (simp add: openMarketPosition_def split: option.split)

lemma requireOpen_Inr: "requireOpen bid s = Inr p \<Longrightarrow> map_of (pb_positions s) bid = Some p \<and> bp_status p = ''OPEN''"
  by (auto simp: requireOpen_def split: option.splits if_splits)

lemma close_cases:
  "snd (closePosition cfg bid reason quote now closedAt s) = s
   \<or> (\<exists>p q. map_of (pb_positions s) bid = Some p \<and> pb_closed s bid = None \<and>
        closePosition cfg bid reason quote now closedAt s =
          (Inr (close_result cfg reason q closedAt p), book_close (close_result cfg reason q closedAt p) s) \<and>
        (quote = Some q \<or> pb_quotes s (bp_symbol p) = Some q))"
proof (cases "pb_closed s bid")
  case None
  show ?thesis
  proof (cases "requireOpen bid s")
    case (Inr p)
    then have "map_of (pb_positions s) bid = Some p" using requireOpen_Inr by blast
    with None Inr show ?thesis
      by (auto simp: closePosition_def Let_def split: option.split)
  qed (simp add: closePosition_def None)
qed (simp add: closePosition_def)

lemma close_result_id [simp]: "cr_id (close_result cfg reason q closedAt p) = bp_id p"
  by (simp add: close_result_def Let_def)

lemma wf_close:
  assumes "paper_wf s" shows "paper_wf (snd (closePosition cfg bid reason quote now closedAt s))"
proof (cases "snd (closePosition cfg bid reason quote now closedAt s) = s")
  case False
  then obtain p q where c: "closePosition cfg bid reason quote now closedAt s =
      (Inr (close_result cfg reason q closedAt p), book_close (close_result cfg reason q closedAt p) s)"
    using close_cases [of cfg bid reason quote now closedAt s] by blast
  show ?thesis unfolding c snd_conv book_close_def
  proof (rule recompute_wf, goal_cases)
    case 1 show ?case using paper_wfD(1) [OF assms] by (simp add: AList.distinct_delete)
  next
    case (2 k p') then show ?case using paper_wfD(2) [OF assms] by (auto simp: AList.delete_eq)
  next
    case 3 then show ?case using paper_wfD(3) [OF assms] by (auto split: if_splits)
  next
    case 5 then show ?case using paper_wfD(5) [OF assms] by (auto simp: keys_delete)
  qed (use paper_wfD(4) [OF assms] in auto)
qed (use assms in simp)

lemma wf_modify:
  assumes "paper_wf s" shows "paper_wf (snd (modifyPosition bid sl tp s))"
proof (cases "requireOpen bid s")
  case (Inr p)
  then have "(bid, p) \<in> set (pb_positions s)" using requireOpen_Inr map_of_SomeD by metis
  then have p: "bp_id p = bid" "marked (pb_quotes s) p" using assms by (auto simp: paper_wf_def)
  let ?p = "p\<lparr>bp_stopLoss := or_default sl (bp_stopLoss p), bp_takeProfit := or_default tp (bp_takeProfit p)\<rparr>"
  have m: "marked (pb_quotes s) ?p" using p(2) by (cases "pb_quotes s (bp_symbol p)") (simp_all add: marked_def)
  have "\<forall>(k, r) \<in> set (AList.update bid ?p (pb_positions s)). bp_id r = k \<and> marked (pb_quotes s) r"
  proof clarify
    fix k r assume "(k, r) \<in> set (AList.update bid ?p (pb_positions s))"
    then have "(k, r) = (bid, ?p) \<or> (k, r) \<in> set (pb_positions s)" using set_update by fastforce
    then show "bp_id r = k \<and> marked (pb_quotes s) r"
    proof
      assume "(k, r) = (bid, ?p)" then show ?thesis using p(1) m by simp
    next
      assume "(k, r) \<in> set (pb_positions s)" then show ?thesis using assms by (auto simp: paper_wf_def)
    qed
  qed
  then show ?thesis using Inr assms
    by (auto simp: modifyPosition_def Let_def paper_wf_def AList.distinct_update keys_update)
qed (use assms in \<open>simp add: modifyPosition_def\<close>)

lemma wf_quote:
  assumes "paper_wf s" shows "paper_wf (setQuote q s)"
  unfolding setQuote_def
proof (rule recompute_wf, goal_cases)
  case (2 k p) then show ?case using paper_wfD(2) [OF assms] by (auto split: if_splits)
next
  case 5 then show ?case using paper_wfD(5) [OF assms] by simp
qed (use paper_wfD(1,3,4) [OF assms] in \<open>auto split: if_splits\<close>)

lemma wf_restore:
  assumes "paper_wf s" shows "paper_wf (restorePosition pos inst s)"
proof -
  have "bp_id (broker_position.extend pos (internal_position.fields inst)) = bp_id pos"
    by (simp add: broker_position.extend_def)
  then show ?thesis using assms wf_put by (simp add: restorePosition_def)
qed

lemma wf_seed:
  assumes "paper_wf s" shows "paper_wf (seedClosedResult r key s)"
  using assms ran_upd [of "pb_index s" "the key" "cr_id r"]
  by (auto simp: seedClosedResult_def paper_wf_def Let_def split: option.split)

lemma wf_step: "paper_wf s \<Longrightarrow> paper_wf (paper_step cfg s e)"
proof (cases e)
  case (Open uuid now openedAt req)
  then show "paper_wf s \<Longrightarrow> ?thesis"
    using open_cases [of cfg uuid now openedAt req s] wf_open_fresh [of s cfg uuid now openedAt req] by auto
next
  case AccountQuery
  then show "paper_wf s \<Longrightarrow> ?thesis"
    using recompute_wf [of s] paper_wfD [of s] by (simp add: getAccount_def Let_def)
qed (simp_all add: connect_def disconnect_def wf_quote wf_modify wf_close wf_restore wf_seed, simp_all add: paper_wf_def)

lemma wf_new: "paper_wf (new_paper cfg)"
  by (simp add: paper_wf_def new_paper_def)

interpretation venue: invariant_machine "paper_step cfg" "\<lambda>s. s = new_paper cfg" paper_wf for cfg
  by unfold_locales (simp_all add: wf_new wf_step)

text \<open>C37: the venue is well formed in every state it reaches, whatever it is asked.  Every position is
  stored once, under its own identifier, and every closed result under its own; every idempotency key
  leads to an open or a closed position; and every position is marked to the last quote of its symbol.\<close>

theorem paper_always_wf: "paper_wf (run (paper_step cfg) (new_paper cfg) es)"
  by (rule venue.inv_run [OF refl])

subsection \<open>An idempotency key is used once\<close>

text \<open>The identifiers an event brings in.  The code reads an empty identifier as an absent one, so
  they must not be empty; generated identifiers never are.\<close>

fun named :: "paper_event \<Rightarrow> bool" where
  "named (Open uuid now openedAt req) \<longleftrightarrow> uuid \<noteq> []"
| "named (Restore pos inst) \<longleftrightarrow> bp_id pos \<noteq> []"
| "named (Seed r key) \<longleftrightarrow> cr_id r \<noteq> []"
| "named _ \<longleftrightarrow> True"

definition ids_named :: "paper \<Rightarrow> bool" where
  "ids_named s \<longleftrightarrow> (\<forall>k i. pb_index s k = Some i \<longrightarrow> i \<noteq> [])"

lemma open_fresh_index:
  "pb_index (snd (openFresh cfg uuid now openedAt req s)) \<in> {pb_index s, (pb_index s)(or_key req \<mapsto> uuid)}"
  by (simp add: openFresh_def Let_def)

lemma index_step:
  "pb_index (paper_step cfg s e) = pb_index s
   \<or> (\<exists>k i. pb_index (paper_step cfg s e) = (pb_index s)(k \<mapsto> i) \<and> (named e \<longrightarrow> i \<noteq> []))"
proof (cases e)
  case (Open uuid now openedAt req)
  then show ?thesis
    using open_cases [of cfg uuid now openedAt req s] open_fresh_index [of cfg uuid now openedAt req s]
    by (elim disjE insertE emptyE) (simp_all, blast)
next
  case (Close bid reason q now closedAt)
  then show ?thesis
    using close_cases [of cfg bid reason q now closedAt s] by (auto simp: book_close_def)
next
  case (Seed r key)
  then show ?thesis by (auto simp: seedClosedResult_def Let_def split: option.split)
next
  case (Restore pos inst) then show ?thesis by (auto simp: restorePosition_def)
qed (simp_all add: connect_def disconnect_def getAccount_def Let_def setQuote_def modifyPosition_def split: sum.split)

lemma ids_named_step: "ids_named s \<Longrightarrow> named e \<Longrightarrow> ids_named (paper_step cfg s e)"
  using index_step [of cfg s e] by (fastforce simp: ids_named_def split: if_splits)

lemma ids_named_run: "ids_named s \<Longrightarrow> list_all named es \<Longrightarrow> ids_named (run (paper_step cfg) s es)"
  by (induction es arbitrary: s) (simp_all add: ids_named_step)

lemma index_kept_step: "pb_index s k \<noteq> None \<Longrightarrow> pb_index (paper_step cfg s e) k \<noteq> None"
  using index_step [of cfg s e] by auto

interpretation used_keys: monotone_machine "paper_step cfg" "\<lambda>s. dom (pb_index s)" for cfg
proof unfold_locales
  show "dom (pb_index s) \<le> dom (pb_index (paper_step cfg s e))" for s e
    using index_kept_step by fastforce
qed

lemma index_kept: "pb_index s k \<noteq> None \<Longrightarrow> pb_index (run (paper_step cfg) s es) k \<noteq> None"
  using used_keys.rank_run [of s cfg es] by blast

lemma used_key_refused:
  assumes "paper_wf s" "ids_named s" "pb_index s (or_key req) \<noteq> None"
  shows "snd (openMarketPosition cfg uuid now openedAt req s) = s"
    "os_brokerPositionId (fst (openMarketPosition cfg uuid now openedAt req s)) \<in> {None, pb_index s (or_key req)}"
proof -
  obtain i where i: "pb_index s (or_key req) = Some i" using assms(3) by blast
  then have ne: "i \<noteq> []" and mem: "i \<in> fst ` set (pb_positions s) \<union> dom (pb_closed s)"
    using assms(1,2) by (auto simp: ids_named_def paper_wf_def ran_def)
  have id: "bp_id p = i" if "map_of (pb_positions s) i = Some p" for p
    using that paper_wfD(2) [OF assms(1)] map_of_SomeD by metis
  have there: "map_of (pb_positions s) i \<noteq> None \<or> pb_closed s i \<noteq> None"
    using mem by (auto simp: map_of_eq_None_iff)
  show "snd (openMarketPosition cfg uuid now openedAt req s) = s"
    using there i ne by (cases i) (auto simp: openMarketPosition_def split: option.split)
  show "os_brokerPositionId (fst (openMarketPosition cfg uuid now openedAt req s)) \<in> {None, pb_index s (or_key req)}"
    using there i ne id
    by (cases i) (auto simp: openMarketPosition_def reject_def accepted_result_def split: option.split)
qed

lemma accepted_indexed:
  assumes "os_accepted (fst (openMarketPosition cfg uuid now openedAt req s))"
  shows "pb_index (snd (openMarketPosition cfg uuid now openedAt req s)) (or_key req) \<noteq> None"
  using assms
  by (auto simp: openMarketPosition_def openFresh_def Let_def reject_def split: option.splits if_splits)

text \<open>An idempotency key opens at most one position.  Once a request was accepted, and whatever
  happens after it - closes, restores, quotes, other requests - another request with its key leaves the
  venue as it is, and answers the position of the key or a refusal.\<close>

theorem key_opens_once:
  assumes "list_all named es1" "list_all named es2" "uuid \<noteq> []"
    and "s1 = run (paper_step cfg) (new_paper cfg) es1"
    and "os_accepted (fst (openMarketPosition cfg uuid now openedAt req s1))"
    and "s2 = run (paper_step cfg) (snd (openMarketPosition cfg uuid now openedAt req s1)) es2"
    and "or_key req' = or_key req"
  shows "snd (openMarketPosition cfg uuid' now' openedAt' req' s2) = s2 \<and>
    os_brokerPositionId (fst (openMarketPosition cfg uuid' now' openedAt' req' s2)) \<in> {None, pb_index s2 (or_key req)}"
proof -
  have s2: "s2 = run (paper_step cfg) (new_paper cfg) (es1 @ Open uuid now openedAt req # es2)"
    using assms(4,6) by (simp add: run_append)
  have "ids_named (new_paper cfg)" by (simp add: ids_named_def new_paper_def)
  then have "ids_named s2" unfolding s2 using assms(1-3) by (intro ids_named_run) simp_all
  moreover have "paper_wf s2" unfolding s2 by (rule venue.inv_run [OF refl])
  moreover have "pb_index s2 (or_key req') \<noteq> None"
    unfolding assms(6,7) using accepted_indexed [OF assms(5)] by (rule index_kept)
  ultimately show ?thesis using used_key_refused [of s2 req'] assms(7) by simp
qed

subsection \<open>The venue implements a ledger\<close>

text \<open>
  What a trading venue promises, without quotes, fills and margins: a set of open positions, a journal
  of what was booked in cents, and the results that were settled.  A position is booked when it is
  closed, once; entering a position or noting a result from elsewhere books nothing.
\<close>

record ledger =
  lg_open :: "string set"
  lg_journal :: "(string \<times> int) list"
  lg_settled :: "string \<rightharpoonup> closed_result"

inductive ledger_step :: "ledger \<Rightarrow> ledger \<Rightarrow> bool" where
  silent: "ledger_step l l"
| booked: "i \<in> lg_open l \<Longrightarrow> lg_settled l i = None \<Longrightarrow> cr_id r = i \<Longrightarrow> cr_realizedPnl r = Fin (of_int c / 100)
    \<Longrightarrow> ledger_step l \<lparr>lg_open = lg_open l - {i}, lg_journal = (i, c) # lg_journal l,
                       lg_settled = (lg_settled l)(i \<mapsto> r)\<rparr>"
| entered: "lg_settled l i = None \<Longrightarrow> ledger_step l (l\<lparr>lg_open := insert i (lg_open l)\<rparr>)"
| noted: "ledger_step l (l\<lparr>lg_settled := (lg_settled l)(cr_id r \<mapsto> r)\<rparr>)"

definition empty_ledger :: ledger where
  "empty_ledger = \<lparr>lg_open = {}, lg_journal = [], lg_settled = Map.empty\<rparr>"

definition booked_total :: "ledger \<Rightarrow> int" where "booked_total l = sum_list (List.map snd (lg_journal l))"

definition refines :: "int \<Rightarrow> paper \<Rightarrow> ledger \<Rightarrow> bool" where
  "refines c0 s l \<longleftrightarrow>
     pb_balance s = Fin (of_int (c0 + booked_total l) / 100) \<and>
     pb_realizedPnl s = Fin (of_int (booked_total l) / 100) \<and>
     lg_open l = fst ` set (pb_positions s) \<and> lg_settled l = pb_closed s"

text \<open>The numbers that come from outside: finite quotes, and validated instruments with finite costs.\<close>

definition finite_costs :: "instrument \<Rightarrow> bool" where
  "finite_costs inst \<longleftrightarrow> (\<forall>x. spreadBps inst = Some x \<or> slippageBps inst = Some x \<longrightarrow> is_finite x)"

definition sane_position :: "internal_position \<Rightarrow> bool" where
  "sane_position p \<longleftrightarrow> is_finite (bp_entryPrice p) \<and> is_finite (bp_volume p) \<and>
     sane_instrument (ip_instrument p) \<and> finite_costs (ip_instrument p)"

definition sane_paper :: "paper \<Rightarrow> bool" where
  "sane_paper s \<longleftrightarrow> (\<forall>p \<in> snd ` set (pb_positions s). sane_position p) \<and>
     (\<forall>k q. pb_quotes s k = Some q \<longrightarrow> is_finite (qt_mid q))"

fun sane_event :: "paper \<Rightarrow> paper_event \<Rightarrow> bool" where
  "sane_event s (Quote q) \<longleftrightarrow> is_finite (qt_mid q)"
| "sane_event s (Open uuid now openedAt req) \<longleftrightarrow>
     uuid \<notin> fst ` set (pb_positions s) \<and> pb_closed s uuid = None \<and>
     is_finite (qt_mid (or_quote req)) \<and> is_finite (or_volume req) \<and> finite_costs (or_instrument req)"
| "sane_event s (Close bid reason q now closedAt) \<longleftrightarrow> (\<forall>x. q = Some x \<longrightarrow> is_finite (qt_mid x))"
| "sane_event s (Restore pos inst) \<longleftrightarrow>
     is_finite (bp_entryPrice pos) \<and> is_finite (bp_volume pos) \<and> sane_instrument inst \<and> finite_costs inst"
| "sane_event s _ \<longleftrightarrow> True"

definition sane_config :: "paper_config \<Rightarrow> int \<Rightarrow> bool" where
  "sane_config cfg c0 \<longleftrightarrow> pc_initialBalance cfg = Fin (of_int c0 / 100) \<and>
     is_finite (pc_fallbackSpreadBps cfg) \<and> is_finite (pc_fallbackSlippageBps cfg)"

inductive paper_reach :: "paper_config \<Rightarrow> paper \<Rightarrow> bool" for cfg where
  start: "paper_reach cfg (new_paper cfg)"
| event: "paper_reach cfg s \<Longrightarrow> sane_event s e \<Longrightarrow> paper_reach cfg (paper_step cfg s e)"

lemma finite_or_default:
  "is_finite d \<Longrightarrow> (\<And>x. opt = Some x \<Longrightarrow> is_finite x) \<Longrightarrow> is_finite (or_default opt d)"
  by (cases opt) simp_all

lemma finite_fill:
  "is_finite m \<Longrightarrow> is_finite a \<Longrightarrow> is_finite b \<Longrightarrow> is_finite (fillPrice (applyExecutableFill dir m a b))"
  by (auto simp: is_finite_iff fill_rat)

lemma pnl_in_cents:
  assumes "sane_instrument inst" "is_finite a" "is_finite b" "is_finite v"
  shows "\<exists>c. floatingPnl dir a b v inst = Fin (of_int c / 100)"
proof -
  obtain x y z where v: "a = Fin x" "b = Fin y" "v = Fin z"
    using assms(2-4) unfolding is_finite_iff by blast
  obtain k where "0 < k" and k: "\<And>dir a b v. floatingPnl dir (Fin a) (Fin b) (Fin v) inst =
       Fin (money_rat ((if dir = BUY then b - a else a - b) * k * v))"
    using floatingPnl_sane [OF assms(1)] by blast
  show ?thesis unfolding v k money_rat_def by (rule exI) (rule refl)
qed

lemma costs_finite:
  assumes "sane_config cfg c0" "finite_costs inst"
  shows "is_finite (or_default (spreadBps inst) (pc_fallbackSpreadBps cfg))"
    "is_finite (or_default (slippageBps inst) (pc_fallbackSlippageBps cfg))"
  using assms by (auto simp: sane_config_def finite_costs_def intro: finite_or_default)

lemma close_in_cents:
  assumes "sane_config cfg c0" "sane_position p" "is_finite (qt_mid q)"
  shows "\<exists>c. cr_realizedPnl (close_result cfg reason q closedAt p) = Fin (of_int c / 100)"
  using assms unfolding close_result_def Let_def
  by (simp add: sane_position_def pnl_in_cents applyExitFill_def finite_fill costs_finite [OF assms(1)])

lemma roundMoney_sum: "roundMoney (Fin (of_int a / 100) + Fin (of_int b / 100)) = Fin (of_int (a + b) / 100)"
  using money_rat_of_cents [of "a + b"] by (simp add: add_divide_distrib)

lemma sane_mark [simp]: "sane_position (mark_at m p) = sane_position p" "sane_position (mark_of qs p) = sane_position p"
  by (simp_all add: sane_position_def)

lemma sane_recompute [simp]: "sane_paper (recomputeAccount s) = sane_paper s"
  by (force simp: sane_paper_def recomputeAccount_def)

lemma ready_valid: "assertInstrumentReady inst = [] \<Longrightarrow> iv_valid (validateInstrumentMetadata inst)"
  by (simp add: assertInstrumentReady_def validateInstrumentMetadata_def Let_def)

lemma sane_opened:
  assumes "sane_config cfg c0" "is_finite (qt_mid (or_quote req))" "is_finite (or_volume req)"
    and "finite_costs (or_instrument req)" "open_refusals cfg now req = []"
  shows "sane_position (opened_position cfg uuid openedAt req)"
proof -
  have "iv_valid (validateInstrumentMetadata (or_instrument req))"
    using assms(5) ready_valid by (simp add: open_refusals_def Let_def split: if_splits)
  then have "sane_instrument (or_instrument req)" by (rule validate_sane)
  then show ?thesis
    using assms(2-4) by (simp add: opened_position_def Let_def sane_position_def finite_fill costs_finite [OF assms(1)])
qed

lemma sane_put:
  assumes "sane_paper s" "sane_position p"
  shows "sane_paper (recomputeAccount (s\<lparr>pb_positions := AList.update bid p (pb_positions s), pb_index := ix\<rparr>))"
proof -
  have "\<forall>q \<in> snd ` set (AList.update bid p (pb_positions s)). sane_position q"
    using assms set_update [of bid p "pb_positions s"] by (fastforce simp: sane_paper_def)
  then show ?thesis using assms(1) unfolding sane_recompute by (simp add: sane_paper_def)
qed

lemma sane_step:
  assumes "sane_config cfg c0" "sane_paper s" "sane_event s e"
  shows "sane_paper (paper_step cfg s e)"
proof (cases e)
  case (Open uuid now openedAt req)
  have "sane_paper (snd (openFresh cfg uuid now openedAt req s))"
    using assms Open sane_put [OF assms(2)] sane_opened [OF assms(1)] by (simp add: openFresh_def Let_def)
  then show ?thesis
    using open_cases [of cfg uuid now openedAt req s] assms(2) Open by auto
next
  case (Close bid reason q now closedAt)
  have "sane_paper (book_close r s)" for r
    using assms(2) unfolding book_close_def sane_recompute by (auto simp: sane_paper_def AList.delete_eq)
  then show ?thesis
    using close_cases [of cfg bid reason q now closedAt s] assms(2) Close by auto
next
  case (Quote q)
  then have "sane_paper (s\<lparr>pb_quotes := (pb_quotes s)(qt_symbol q \<mapsto> q),
       pb_positions := List.map (\<lambda>(k, p). (k, if bp_symbol p \<noteq> qt_symbol q then p else mark_at (qt_mid q) p))
         (pb_positions s)\<rparr>)"
    using assms(2,3) by (force simp: sane_paper_def)
  with Quote show ?thesis by (simp add: setQuote_def)
next
  case (Modify bid sl tp)
  show ?thesis
  proof (cases "requireOpen bid s")
    case (Inr p)
    then have "p \<in> snd ` set (pb_positions s)" using requireOpen_Inr map_of_SomeD by force
    then have "sane_position (p\<lparr>bp_stopLoss := or_default sl (bp_stopLoss p),
        bp_takeProfit := or_default tp (bp_takeProfit p)\<rparr>)"
      using assms(2) by (force simp: sane_paper_def sane_position_def)
    then show ?thesis
      using assms(2) Modify Inr set_update by (fastforce simp: modifyPosition_def Let_def sane_paper_def)
  qed (use assms(2) Modify in \<open>simp add: modifyPosition_def\<close>)
next
  case (Restore pos inst)
  then have "sane_position (broker_position.extend pos (internal_position.fields inst))"
    using assms(3) by (simp add: sane_position_def broker_position.extend_def internal_position.fields_def)
  with Restore show ?thesis using assms(2) sane_put by (simp add: restorePosition_def)
next
  case (Seed r key)
  with assms(2) show ?thesis
    by (auto simp: seedClosedResult_def Let_def sane_paper_def split: option.split)
qed (use assms(2) in \<open>simp_all add: connect_def disconnect_def getAccount_def Let_def, simp_all add: sane_paper_def\<close>)

text \<open>Each operation that does not book keeps the money; the open positions and settled results
  change as the ledger's do.\<close>

lemma booked_total_simps [simp]:
  "booked_total (l\<lparr>lg_open := x\<rparr>) = booked_total l" "booked_total (l\<lparr>lg_settled := m\<rparr>) = booked_total l"
  "booked_total \<lparr>lg_open = x, lg_journal = (i, c) # lg_journal l, lg_settled = m\<rparr> = c + booked_total l"
  by (simp_all add: booked_total_def)

lemma refines_silent:
  assumes "refines c0 s l" "pb_balance s' = pb_balance s" "pb_realizedPnl s' = pb_realizedPnl s"
    and "fst ` set (pb_positions s') = fst ` set (pb_positions s)" "pb_closed s' = pb_closed s"
  shows "\<exists>l'. ledger_step l l' \<and> refines c0 s' l'"
  using assms by (intro exI [of _ l]) (simp add: refines_def ledger_step.silent)

lemma refines_put:
  assumes "refines c0 s l" "pb_closed s i = None"
  shows "\<exists>l'. ledger_step l l' \<and>
    refines c0 (recomputeAccount (s\<lparr>pb_positions := AList.update i p (pb_positions s), pb_index := ix\<rparr>)) l'"
proof (intro exI conjI)
  show "ledger_step l (l\<lparr>lg_open := insert i (lg_open l)\<rparr>)"
    using assms by (intro ledger_step.entered) (simp add: refines_def)
qed (use assms in \<open>simp add: refines_def keys_update\<close>)

lemma refines_book:
  assumes "refines c0 s l" "i \<in> fst ` set (pb_positions s)" "pb_closed s i = None" "cr_id r = i"
    and "cr_realizedPnl r = Fin (of_int c / 100)"
  shows "\<exists>l'. ledger_step l l' \<and> refines c0 (book_close r s) l'"
proof (intro exI conjI)
  show "ledger_step l \<lparr>lg_open = lg_open l - {i}, lg_journal = (i, c) # lg_journal l,
      lg_settled = (lg_settled l)(i \<mapsto> r)\<rparr>"
    using assms by (intro ledger_step.booked) (simp_all add: refines_def)
  have "pb_balance (book_close r s) = roundMoney (pb_balance s + cr_realizedPnl r)"
    "pb_realizedPnl (book_close r s) = roundMoney (pb_realizedPnl s + cr_realizedPnl r)"
    by (simp_all add: book_close_def)
  then have "pb_balance (book_close r s) = Fin (of_int (c0 + booked_total l + c) / 100)"
    "pb_realizedPnl (book_close r s) = Fin (of_int (booked_total l + c) / 100)"
    using assms(1,5) by (simp_all only: refines_def roundMoney_sum)
  then show "refines c0 (book_close r s) \<lparr>lg_open = lg_open l - {i}, lg_journal = (i, c) # lg_journal l,
      lg_settled = (lg_settled l)(i \<mapsto> r)\<rparr>"
    using assms(1,4) by (simp add: refines_def book_close_def keys_delete algebra_simps)
qed

lemma refines_step:
  assumes cfg: "sane_config cfg c0" and "sane_paper s" "paper_wf s" "sane_event s e" and ref: "refines c0 s l"
  shows "\<exists>l'. ledger_step l l' \<and> refines c0 (paper_step cfg s e) l'"
proof (cases e)
  case (Open uuid now openedAt req)
  have "\<exists>l'. ledger_step l l' \<and> refines c0 (snd (openFresh cfg uuid now openedAt req s)) l'"
    using refines_put [OF ref, of uuid] refines_silent [OF ref, of s] assms(4) Open by (simp add: openFresh_def Let_def)
  moreover have "\<exists>l'. ledger_step l l' \<and> refines c0 s l'" using refines_silent [OF ref, of s] by simp
  ultimately show ?thesis using open_cases [of cfg uuid now openedAt req s] Open by auto
next
  case (Close bid reason quote now closedAt)
  show ?thesis
  proof (cases "snd (closePosition cfg bid reason quote now closedAt s) = s")
    case True
    then show ?thesis using Close refines_silent [OF ref, of s] by simp
  next
    case False
    then obtain p q where c: "map_of (pb_positions s) bid = Some p" "pb_closed s bid = None"
      "closePosition cfg bid reason quote now closedAt s =
          (Inr (close_result cfg reason q closedAt p), book_close (close_result cfg reason q closedAt p) s)"
      "quote = Some q \<or> pb_quotes s (bp_symbol p) = Some q"
      using close_cases [of cfg bid reason quote now closedAt s] by blast
    have mem: "(bid, p) \<in> set (pb_positions s)" using c(1) by (rule map_of_SomeD)
    then have "bp_id p = bid" "sane_position p" using assms(2,3) by (auto simp: paper_wf_def sane_paper_def)
    moreover have "is_finite (qt_mid q)" using c(4) assms(2,4) Close by (auto simp: sane_paper_def)
    ultimately show ?thesis
      using close_in_cents [OF cfg] refines_book [OF ref, of bid] c(2,3) mem Close by force
  qed
next
  case (Seed r key)
  then have "refines c0 (paper_step cfg s e) (l\<lparr>lg_settled := (lg_settled l)(cr_id r \<mapsto> r)\<rparr>)"
    using ref by (simp add: refines_def seedClosedResult_def Let_def split: option.split)
  then show ?thesis using ledger_step.noted by blast
next
  case (Restore pos inst)
  then show ?thesis
    using refines_put [OF ref, of "bp_id pos"] refines_silent [OF ref, of s] by (simp add: restorePosition_def)
next
  case (Modify bid sl tp)
  have "bid \<in> fst ` set (pb_positions s)" if "requireOpen bid s = Inr p" for p
    using that requireOpen_Inr map_of_SomeD by force
  then show ?thesis
    using Modify refines_silent [OF ref]
    by (auto simp: modifyPosition_def Let_def keys_update insert_absorb split: sum.split)
next
  case (Quote q)
  show ?thesis unfolding Quote paper_step.simps setQuote_def by (rule refines_silent [OF ref]) simp_all
qed (use refines_silent [OF ref] in \<open>simp_all add: connect_def disconnect_def getAccount_def Let_def\<close>)

lemma reach_sane: "paper_reach cfg s \<Longrightarrow> sane_config cfg c0 \<Longrightarrow> sane_paper s \<and> paper_wf s"
  by (induction rule: paper_reach.induct)
    (auto simp: wf_new wf_step sane_step, simp add: sane_paper_def new_paper_def)

text \<open>What the ledger keeps: each position is booked at most once, and a booked one is settled.\<close>

lemma ledger_step_ok:
  "ledger_step l l' \<Longrightarrow> distinct (List.map fst (lg_journal l)) \<and> fst ` set (lg_journal l) \<subseteq> dom (lg_settled l)
   \<Longrightarrow> distinct (List.map fst (lg_journal l')) \<and> fst ` set (lg_journal l') \<subseteq> dom (lg_settled l')"
  by (induction rule: ledger_step.induct) (auto simp: image_iff)

lemma ledger_ok:
  "ledger_step\<^sup>*\<^sup>* empty_ledger l \<Longrightarrow>
     distinct (List.map fst (lg_journal l)) \<and> fst ` set (lg_journal l) \<subseteq> dom (lg_settled l)"
  by (induction rule: rtranclp_induct) (simp_all add: empty_ledger_def ledger_step_ok)


subsection \<open>The position manager\<close>

text \<open>What the manager asks of a broker adapter: a position is answered under its own identifier, and
  a close that succeeds removes the position and no other.\<close>

locale broker_adapter =
  fixes ok :: "'s \<Rightarrow> bool"
    and ask :: "string \<Rightarrow> 's \<Rightarrow> broker_position option"
    and shut :: "string \<Rightarrow> string \<Rightarrow> 's \<Rightarrow> ('e + closed_result) \<times> 's"
  assumes ask_id: "ok s \<Longrightarrow> ask i s = Some p \<Longrightarrow> bp_id p = i"
    and shut_ok: "ok s \<Longrightarrow> ok (snd (shut i reason s))"
    and shut_gone: "ok s \<Longrightarrow> shut i reason s = (Inr r, s') \<Longrightarrow> cr_id r = i \<and> ask i s' = None"
    and shut_others: "ok s \<Longrightarrow> j \<noteq> i \<Longrightarrow> ask j (snd (shut i reason s)) = None \<longleftrightarrow> ask j s = None"
    and shut_failed: "shut i reason s = (Inl e, s') \<Longrightarrow> s' = s"

text \<open>Of a stored row, the fields the recovery reads.\<close>

record persisted_row =
  pr_id :: string
  pr_brokerPositionId :: "string option"
  pr_status :: string

type_synonym manager = "(string \<times> broker_position) list"

fun recover_rows ::
  "(string \<Rightarrow> broker_position option) \<Rightarrow> persisted_row list \<Rightarrow> nat \<Rightarrow> string list \<Rightarrow> manager \<Rightarrow> nat \<times> string list \<times> manager" where
  "recover_rows getPos [] recovered missing m = (recovered, missing, m)"
| "recover_rows getPos (row # rows) recovered missing m =
     (if pr_status row \<noteq> ''OPEN'' \<or> \<not> truthy (pr_brokerPositionId row)
      then recover_rows getPos rows recovered missing m
      else case getPos (the (pr_brokerPositionId row)) of
             Some live \<Rightarrow> recover_rows getPos rows (recovered + 1) missing (AList.update (bp_id live) live m)
           | None \<Rightarrow> recover_rows getPos rows recovered (missing @ [pr_id row]) m)"

definition recoverAfterRestart ::
  "(string \<Rightarrow> broker_position option) \<Rightarrow> persisted_row list \<Rightarrow> manager \<Rightarrow> nat \<times> string list \<times> manager" where
  "recoverAfterRestart getPos persisted m = recover_rows getPos persisted 0 [] m"

definition registerOpen :: "broker_position \<Rightarrow> manager \<Rightarrow> manager" where
  "registerOpen pos m = AList.update (bp_id pos) pos m"

definition refreshQuotes :: "(string \<rightharpoonup> jsnum) \<Rightarrow> (string \<rightharpoonup> instrument) \<Rightarrow> manager \<Rightarrow> manager" where
  "refreshQuotes mids insts m =
     List.map (\<lambda>(k, p). (k, case (mids (bp_symbol p), insts (bp_symbol p)) of
        (Some mid, Some _) \<Rightarrow> p\<lparr>bp_currentPrice := mid\<rparr> | _ \<Rightarrow> p)) m"

definition managerClose ::
  "(string \<Rightarrow> string \<Rightarrow> 's \<Rightarrow> ('e + closed_result) \<times> 's) \<Rightarrow> string \<Rightarrow> string \<Rightarrow> manager \<times> 's \<Rightarrow> ('e option) \<times> manager \<times> 's" where
  "managerClose shut bid reason ms =
     (case shut bid reason (snd ms) of
        (Inl e, s') \<Rightarrow> (Some e, fst ms, s')
      | (Inr _, s') \<Rightarrow> (None, AList.delete bid (fst ms), s'))"

definition wanted_rows :: "persisted_row list \<Rightarrow> persisted_row list" where
  "wanted_rows rows = filter (\<lambda>r. pr_status r = ''OPEN'' \<and> truthy (pr_brokerPositionId r)) rows"

context broker_adapter
begin

definition tracks :: "manager \<Rightarrow> 's \<Rightarrow> bool" where
  "tracks m s \<longleftrightarrow> (\<forall>i \<in> fst ` set m. ask i s \<noteq> None)"

lemma recover_rows_exact:
  assumes "ok s"
  shows "recover_rows (\<lambda>i. ask i s) rows n missing m = (n', missing', m') \<Longrightarrow>
    n' + length missing' = n + length missing + length (wanted_rows rows) \<and>
    missing' = missing @ List.map pr_id (filter (\<lambda>r. ask (the (pr_brokerPositionId r)) s = None) (wanted_rows rows)) \<and>
    fst ` set m' = fst ` set m \<union>
      {i. i \<in> (the \<circ> pr_brokerPositionId) ` set (wanted_rows rows) \<and> ask i s \<noteq> None}"
proof (induction rows arbitrary: n missing m)
  case (Cons row rows)
  show ?case
  proof (cases "pr_status row \<noteq> ''OPEN'' \<or> \<not> truthy (pr_brokerPositionId row)")
    case False
    then have w: "wanted_rows (row # rows) = row # wanted_rows rows" by (simp add: wanted_rows_def)
    show ?thesis
    proof (cases "ask (the (pr_brokerPositionId row)) s")
      case None
      with Cons.IH [of n "missing @ [pr_id row]" m] Cons.prems False w show ?thesis by auto
    next
      case (Some live)
      then have "bp_id live = the (pr_brokerPositionId row)" using ask_id assms by blast
      with Some Cons.IH [of "n + 1" missing "AList.update (bp_id live) live m"] Cons.prems False w show ?thesis
        by (auto simp: keys_update)
    qed
  next
    case True
    then have "wanted_rows (row # rows) = wanted_rows rows" by (auto simp: wanted_rows_def)
    then show ?thesis using Cons True by simp
  qed
qed (simp add: wanted_rows_def)

lemma recover_tracks:
  "ok s \<Longrightarrow> tracks m s \<Longrightarrow> recoverAfterRestart (\<lambda>i. ask i s) rows m = (n, missing, m') \<Longrightarrow> tracks m' s"
  using recover_rows_exact [of s rows 0 "[]" m n missing m'] by (auto simp: recoverAfterRestart_def tracks_def)

lemma close_tracks:
  assumes "ok s" "tracks m s" "managerClose shut i reason (m, s) = (e, m', s')"
  shows "ok s' \<and> tracks m' s'"
proof (cases "shut i reason s")
  case (Pair r s1)
  show ?thesis
  proof (cases r)
    case (Inl x)
    then have "s1 = s" using shut_failed Pair by blast
    then show ?thesis using assms Inl Pair by (simp add: managerClose_def)
  next
    case (Inr x)
    then have "m' = AList.delete i m" "s' = s1" using assms(3) Pair by (simp_all add: managerClose_def)
    then show ?thesis
      using assms(2) shut_ok [OF assms(1), of i reason] shut_others [OF assms(1), of _ i reason] Pair
      by (simp only: tracks_def keys_delete snd_conv) blast
  qed
qed

end

text \<open>The paper venue is such an adapter, as long as no result is noted for an open position.\<close>

definition paper_ok :: "paper \<Rightarrow> bool" where
  "paper_ok s \<longleftrightarrow> paper_wf s \<and> dom (pb_closed s) \<inter> fst ` set (pb_positions s) = {}"

lemma position_key: "paper_wf s \<Longrightarrow> map_of (pb_positions s) i = Some p \<Longrightarrow> bp_id p = i"
  using paper_wfD(2) map_of_SomeD by metis

lemma asked_iff: "getPosition i s = None \<longleftrightarrow> i \<notin> fst ` set (pb_positions s)"
  by (simp add: getPosition_def map_of_eq_None_iff)

lemma book_close_keys:
  "fst ` set (pb_positions (book_close r s)) = fst ` set (pb_positions s) - {cr_id r}"
  "pb_closed (book_close r s) = (pb_closed s)(cr_id r \<mapsto> r)"
  by (simp_all add: book_close_def keys_delete)

lemma closed_keys:
  assumes "paper_ok s"
  shows "paper_ok (snd (closePosition cfg i reason q now closedAt s))" (is ?ok)
    and "fst (closePosition cfg i reason q now closedAt s) = Inr r \<Longrightarrow>
      cr_id r = i \<and> getPosition i (snd (closePosition cfg i reason q now closedAt s)) = None" (is "?done \<Longrightarrow> _")
    and "j \<noteq> i \<Longrightarrow> getPosition j (snd (closePosition cfg i reason q now closedAt s)) = None \<longleftrightarrow> getPosition j s = None"
proof -
  let ?c = "closePosition cfg i reason q now closedAt s"
  have wf: "paper_wf s" "paper_wf (snd ?c)" using assms wf_close by (auto simp: paper_ok_def)
  have cases: "snd ?c = s \<and> (\<forall>r. fst ?c = Inr r \<longrightarrow> pb_closed s i = Some r)
    \<or> (\<exists>r. ?c = (Inr r, book_close r s) \<and> cr_id r = i)"
  proof (cases "pb_closed s i")
    case None
    then show ?thesis
      using position_key [OF wf(1)]
      by (auto simp: closePosition_def Let_def dest!: requireOpen_Inr split: sum.split option.split)
  qed (simp add: closePosition_def)
  show ?ok
    using cases
  proof
    assume "\<exists>r. ?c = (Inr r, book_close r s) \<and> cr_id r = i"
    then obtain r where "snd ?c = book_close r s" by auto
    moreover have "dom (pb_closed (book_close r s)) \<inter> fst ` set (pb_positions (book_close r s)) = {}"
      using assms unfolding book_close_keys paper_ok_def by (simp add: Int_Diff Int_insert_left) blast
    ultimately show ?ok using wf(2) by (simp add: paper_ok_def)
  qed (use assms in simp)
  show "cr_id r = i \<and> getPosition i (snd ?c) = None" if ?done
    using cases
  proof
    assume "\<exists>r. ?c = (Inr r, book_close r s) \<and> cr_id r = i"
    with that have "snd ?c = book_close r s" "cr_id r = i" by auto
    then show ?thesis by (simp only: asked_iff book_close_keys) simp
  next
    assume "snd ?c = s \<and> (\<forall>r. fst ?c = Inr r \<longrightarrow> pb_closed s i = Some r)"
    with that have "snd ?c = s" "pb_closed s i = Some r" by blast+
    then show ?thesis using assms paper_wfD(3) [OF wf(1)] by (auto simp: paper_ok_def asked_iff)
  qed
  show "getPosition j (snd ?c) = None \<longleftrightarrow> getPosition j s = None" if "j \<noteq> i"
    using cases
  proof
    assume "\<exists>r. ?c = (Inr r, book_close r s) \<and> cr_id r = i"
    with that obtain r where "snd ?c = book_close r s" "cr_id r \<noteq> j" by auto
    then show ?thesis by (simp only: asked_iff book_close_keys) simp
  qed simp
qed

interpretation paper_adapter: broker_adapter paper_ok getPosition "\<lambda>i reason s. closePosition cfg i reason None now now s"
  for cfg now
proof (unfold_locales, goal_cases)
  case (1 s i p)
  then show ?case by (auto simp: getPosition_def paper_ok_def stripInternal_def broker_position.truncate_def
      dest!: position_key)
next
  case (3 s i reason r s')
  then show ?case using closed_keys(2) by (metis fst_conv snd_conv)
next
  case (5 i reason s e s')
  then show ?case by (auto simp: closePosition_def Let_def split: option.splits sum.splits if_splits)
qed (simp_all add: closed_keys)

text \<open>After a restart the manager follows exactly the open rows that are still open at the venue, and
  reports the others, each once and in order.\<close>

theorem restart_reports:
  assumes "paper_ok s" and "recoverAfterRestart (\<lambda>i. getPosition i s) rows [] = (n, missing, m)"
  shows "n + length missing = length (wanted_rows rows) \<and>
    missing = List.map pr_id (filter (\<lambda>r. the (pr_brokerPositionId r) \<notin> fst ` set (pb_positions s)) (wanted_rows rows)) \<and>
    fst ` set m = (the \<circ> pr_brokerPositionId) ` set (wanted_rows rows) \<inter> fst ` set (pb_positions s)"
  using paper_adapter.recover_rows_exact [OF assms(1), of rows 0 "[]" "[]" n missing m] assms(2)
  by (auto simp: recoverAfterRestart_def asked_iff)

text \<open>The accepting branch of an order and of a close.\<close>

lemma open_accepts:
  assumes "pb_connected s" "pb_index s (or_key req) = None" "open_refusals cfg now req = []"
    and "\<not> an_freeMargin (accountNumbers s) < bp_marginUsed (opened_position cfg uuid openedAt req)"
  shows "openMarketPosition cfg uuid now openedAt req s =
    (accepted_result (mark_of (pb_quotes s) (opened_position cfg uuid openedAt req)),
     recomputeAccount (s\<lparr>pb_positions := AList.update uuid (opened_position cfg uuid openedAt req) (pb_positions s),
       pb_index := (pb_index s)(or_key req \<mapsto> uuid)\<rparr>))"
  using assms by (simp add: openMarketPosition_def openFresh_def Let_def)

lemma close_books:
  assumes "pb_closed s bid = None" "map_of (pb_positions s) bid = Some p" "bp_status p = ''OPEN''"
    and "isQuoteFresh (Some (qt_timestamp q)) now (pc_maxQuoteAgeMs cfg)"
  shows "closePosition cfg bid reason (Some q) now closedAt s =
    (Inr (close_result cfg reason q closedAt p), book_close (close_result cfg reason q closedAt p) s)"
  using assms by (simp add: closePosition_def requireOpen_def Let_def)

text \<open>A concrete run for the witnesses: an order, and its close at a better quote.\<close>

definition demo_config :: paper_config where
  "demo_config = \<lparr>pc_currency = ''USD'', pc_initialBalance = Fin 10000, pc_fallbackSpreadBps = Fin 2,
     pc_fallbackSlippageBps = Fin 1, pc_maxQuoteAgeMs = Fin 5000\<rparr>"

definition demo_quote :: "rat \<Rightarrow> rat \<Rightarrow> broker_quote" where
  "demo_quote mid t =
     \<lparr>qt_symbol = ''R_10'', qt_bid = Fin mid, qt_ask = Fin mid, qt_mid = Fin mid, qt_timestamp = Fin t\<rparr>"

definition demo_request :: open_request where
  "demo_request = \<lparr>or_key = ''k'', or_symbol = ''R_10'', or_direction = BUY, or_volume = Fin 1, or_stopLoss = Fin 90,
     or_takeProfit = None, or_quote = demo_quote 100 0, or_instrument = demo_instrument,
     or_riskAmount = Fin 10, or_riskPercent = Fin 1, or_initialRiskReward = None\<rparr>"

lemma demo_fields [simp]:
  "or_key demo_request = ''k''" "or_volume demo_request = Fin 1" "or_quote demo_request = demo_quote 100 0"
  "or_instrument demo_request = demo_instrument" "or_direction demo_request = BUY"
  "qt_mid (demo_quote m t) = Fin m" "qt_timestamp (demo_quote m t) = Fin t"
  "pc_maxQuoteAgeMs demo_config = Fin 5000" "pc_initialBalance demo_config = Fin 10000"
  "tickSize demo_instrument = Fin (1 / 100)" "tickValue demo_instrument = Fin 1" "contractSize demo_instrument = Fin 1"
  "marginRate demo_instrument = Fin (1 / 100)" "spreadBps demo_instrument = Some (Fin 2)"
  "slippageBps demo_instrument = Some (Fin 1)" "minVolume demo_instrument = Fin (1 / 100)"
  "maxVolume demo_instrument = Fin 10"
  by (simp_all add: demo_request_def demo_quote_def demo_config_def demo_instrument_def one_jsnum_def)

lemma demo_sane: "sane_config demo_config 1000000"
  by (simp add: sane_config_def demo_config_def)

lemma demo_valid: "open_refusals demo_config (Fin 0) demo_request = []"
proof -
  have "validateInstrumentMetadata demo_instrument = \<lparr>iv_valid = True, iv_missing = [], iv_reasons = []\<rparr>"
    by code_simp
  then show ?thesis by (simp add: open_refusals_def assertInstrumentReady_def isQuoteFresh_def)
qed

definition demo_start :: paper where "demo_start = connect (new_paper demo_config)"

lemma demo_start_fields [simp]:
  "pb_connected demo_start" "pb_index demo_start = Map.empty" "pb_positions demo_start = []"
  "pb_closed demo_start = Map.empty" "pb_quotes demo_start = Map.empty" "pb_balance demo_start = Fin 10000"
  by (simp_all add: demo_start_def connect_def new_paper_def)

definition demo_position :: internal_position where
  "demo_position = opened_position demo_config ''p'' (Fin 0) demo_request"

lemma demo_fill: "applyExecutableFill BUY (Fin 100) (Fin 2) (Fin 1) =
    \<lparr>fillPrice = Fin (5001 / 50), appliedSpreadBps = Fin 2, appliedSlippageBps = Fin 1\<rparr>"
  by (simp add: fill_rat fixed_rat_def round_half_up_def)

lemma demo_exit: "applyExitFill BUY (Fin 101) (Fin 2) (Fin 1) =
    \<lparr>fillPrice = Fin (504899 / 5000), appliedSpreadBps = Fin 2, appliedSlippageBps = Fin 1\<rparr>"
  by (simp add: applyExitFill_def fill_rat fixed_rat_def round_half_up_def)

lemma demo_entry [simp]:
  "bp_entryPrice demo_position = Fin (5001 / 50)" "bp_marginUsed demo_position = Fin 1" "bp_id demo_position = ''p''"
  "bp_status demo_position = ''OPEN''" "bp_direction demo_position = BUY" "bp_volume demo_position = Fin 1"
  "ip_instrument demo_position = demo_instrument"
  by (simp_all add: demo_position_def opened_position_def Let_def demo_fill estimateMarginRequired_def
      money_rat_def cents_def round_half_up_def)

definition demo_opened :: paper where
  "demo_opened = recomputeAccount (demo_start\<lparr>pb_positions := [(''p'', demo_position)], pb_index := [''k'' \<mapsto> ''p'']\<rparr>)"

lemma demo_open:
  "openMarketPosition demo_config ''p'' (Fin 0) (Fin 0) demo_request demo_start =
     (accepted_result (mark_of Map.empty demo_position), demo_opened)"
proof -
  have "an_freeMargin (accountNumbers demo_start) = Fin 10000"
    by (simp add: accountNumbers_def derivePaperAccountNumbers_def zero_jsnum_def money_rat_def cents_def
        round_half_up_def Let_def)
  then show ?thesis
    using open_accepts [of demo_start demo_request demo_config "Fin 0" "''p''" "Fin 0"] demo_valid
    by (simp add: demo_position_def [symmetric] demo_opened_def)
qed

definition demo_closed :: closed_result where
  "demo_closed = close_result demo_config ''MANUAL'' (demo_quote 101 1) (Fin 1) (mark_of Map.empty demo_position)"

lemma demo_close:
  "closePosition demo_config ''p'' ''MANUAL'' (Some (demo_quote 101 1)) (Fin 1) (Fin 1) demo_opened =
     (Inr demo_closed, book_close demo_closed demo_opened)"
  unfolding demo_closed_def
  by (rule close_books) (simp_all add: demo_opened_def recomputeAccount_def isQuoteFresh_def)

lemma demo_pnl: "cr_realizedPnl demo_closed = Fin (4799 / 50)"
  by (simp add: demo_closed_def close_result_def Let_def demo_exit floatingPnl_def pnlPerUnitVolume_def
      money_rat_def cents_def round_half_up_def)


theorem key_opens_once_witness:
  "snd (openMarketPosition demo_config ''q'' (Fin 2) (Fin 2) demo_request (book_close demo_closed demo_opened)) =
     book_close demo_closed demo_opened"
proof -
  have "demo_start = run (paper_step demo_config) (new_paper demo_config) [Connect]" by (simp add: demo_start_def)
  moreover have "book_close demo_closed demo_opened =
      run (paper_step demo_config) demo_opened [Close ''p'' ''MANUAL'' (Some (demo_quote 101 1)) (Fin 1) (Fin 1)]"
    by (simp add: demo_close)
  moreover have "os_accepted (fst (openMarketPosition demo_config ''p'' (Fin 0) (Fin 0) demo_request demo_start))"
    unfolding demo_open by (simp add: accepted_result_def)
  ultimately show ?thesis
    using key_opens_once [of "[Connect]" "[Close ''p'' ''MANUAL'' (Some (demo_quote 101 1)) (Fin 1) (Fin 1)]" "''p''"
        demo_start demo_config "Fin 0" "Fin 0" demo_request "book_close demo_closed demo_opened" demo_request
        "''q''" "Fin 2" "Fin 2"]
    by (simp add: demo_open)
qed

end
