(* ===== verification/EngineVolume.thy ===== *)
theory EngineVolume
  imports CfdMath
begin

text \<open>
  Volumes on MT5 (\<^verbatim>\<open>packages/trading-engine/src/broker/mt5/volume.ts\<close>,
  \<^verbatim>\<open>engineVolume.ts\<close>, \<^verbatim>\<open>fillingMode.ts\<close>, \<^verbatim>\<open>engineRiskCap.ts\<close>): rounding lots to the broker's
  step, the decision which volume the engine may submit, the filling mode and the risk cap of an
  order.  A step that is not positive is an error of the rounding, carried as \<open>Inl\<close>.
\<close>

subsection \<open>Lots and steps\<close>

record volume_spec =
  vs_min :: jsnum
  vs_max :: jsnum
  vs_step :: jsnum

record normalized_volume =
  nv_lots :: jsnum
  nv_mt5Volume :: jsnum
  nv_steppedDown :: bool

definition lot_slack :: jsnum where "lot_slack = Fin (1 / 10 ^ 12)"

definition lotsFromMt5Volume :: "jsnum \<Rightarrow> jsnum" where "lotsFromMt5Volume v = to_fixed 8 v"
definition mt5VolumeFromLots :: "jsnum \<Rightarrow> jsnum" where "mt5VolumeFromLots lots = to_fixed 8 lots"

definition STEP_NOT_POSITIVE :: string where "STEP_NOT_POSITIVE = ''MT5 volumeStep must be > 0''"

definition normalizeLotsToMt5Step :: "jsnum \<Rightarrow> volume_spec \<Rightarrow> string + normalized_volume" where
  "normalizeLotsToMt5Step lots spec =
     (let step = vs_step spec
      in if \<not> 0 < step then Inl STEP_NOT_POSITIVE
         else let steps = js_floor (lots / step + lot_slack);
                  normalized = to_fixed 8 (steps * step)
              in Inr \<lparr>nv_lots = normalized, nv_mt5Volume = mt5VolumeFromLots normalized,
                      nv_steppedDown = (normalized < lots - lot_slack)\<rparr>)"

datatype volume_reason = VolumeNotPositive | BelowBrokerMin | AboveBrokerMax | NotOnStep

definition assertMt5VolumeValid :: "jsnum \<Rightarrow> volume_spec \<Rightarrow> volume_reason list" where
  "assertMt5VolumeValid lots spec =
     (let remainder = (if 0 < vs_step spec then js_rem lots (vs_step spec) else 0);
          tiny = Fin (1 / 10 ^ 8)
      in push_when (\<not> 0 < lots \<or> \<not> is_finite lots) VolumeNotPositive
         @ push_when (lots + lot_slack < vs_min spec) BelowBrokerMin
         @ push_when (vs_max spec < lots - lot_slack) AboveBrokerMax
         @ push_when (0 < vs_step spec \<and> tiny < js_abs remainder \<and> tiny < js_abs (remainder - vs_step spec)) NotOnStep)"

subsection \<open>The volume the engine submits\<close>

definition MIN_VOLUME_EXCEEDS_RISK :: string where "MIN_VOLUME_EXCEEDS_RISK = ''MIN_VOLUME_EXCEEDS_RISK''"
definition BROKER_MIN_VOLUME_EXCEEDS_ENGINE_MAX_VOLUME :: string where
  "BROKER_MIN_VOLUME_EXCEEDS_ENGINE_MAX_VOLUME = ''BROKER_MIN_VOLUME_EXCEEDS_ENGINE_MAX_VOLUME''"
definition VOLUME_RAISED_TO_BROKER_MIN_WITHIN_RISK :: string where
  "VOLUME_RAISED_TO_BROKER_MIN_WITHIN_RISK = ''VOLUME_RAISED_TO_BROKER_MIN_WITHIN_RISK''"
definition VOLUME_OVERRIDE_APPLIED :: string where "VOLUME_OVERRIDE_APPLIED = ''VOLUME_OVERRIDE_APPLIED''"
definition VOLUME_OVERRIDE_INVALID :: string where "VOLUME_OVERRIDE_INVALID = ''VOLUME_OVERRIDE_INVALID''"

definition RISK_TOLERANCE :: jsnum where "RISK_TOLERANCE = Fin (1 / 100)"

record volume_input =
  vi_equity :: jsnum
  vi_riskPerTradePercent :: jsnum
  vi_riskSizedVolume :: jsnum
  vi_direction :: direction
  vi_entryPrice :: jsnum
  vi_stopLoss :: jsnum
  vi_instrument :: instrument
  vi_engineMaxVolume :: jsnum

record volume_decision =
  vd_wouldSubmit :: bool
  vd_reasonCode :: "string option"
  vd_decision :: string
  vd_requestedVolume :: jsnum
  vd_riskSizedVolume :: jsnum
  vd_normalizedVolume :: jsnum
  vd_brokerMinVolume :: jsnum
  vd_brokerMaxVolume :: jsnum
  vd_brokerVolumeStep :: jsnum
  vd_engineMaxVolume :: jsnum
  vd_allowedRiskPercent :: jsnum
  vd_allowedRiskAmount :: jsnum
  vd_riskAtBrokerMinVolume :: jsnum
  vd_finalVolume :: "jsnum option"
  vd_raisedToBrokerMin :: bool

definition allowed_risk :: "volume_input \<Rightarrow> jsnum" where
  "allowed_risk inp = roundMoney ((vi_equity inp * vi_riskPerTradePercent inp) / 100)"

definition loss_per_lot :: "volume_input \<Rightarrow> jsnum" where
  "loss_per_lot inp = lossAtStopPerUnitVolume (vi_direction inp) (vi_entryPrice inp) (vi_stopLoss inp) (vi_instrument inp)"

definition volume_base :: "volume_input \<Rightarrow> jsnum \<Rightarrow> volume_decision" where
  "volume_base inp normalized =
     (let inst = vi_instrument inp
      in \<lparr>vd_wouldSubmit = False, vd_reasonCode = None, vd_decision = ''NO_TRADE'',
          vd_requestedVolume = vi_riskSizedVolume inp, vd_riskSizedVolume = vi_riskSizedVolume inp,
          vd_normalizedVolume = normalized, vd_brokerMinVolume = minVolume inst,
          vd_brokerMaxVolume = maxVolume inst, vd_brokerVolumeStep = volumeStep inst,
          vd_engineMaxVolume = vi_engineMaxVolume inp, vd_allowedRiskPercent = vi_riskPerTradePercent inp,
          vd_allowedRiskAmount = allowed_risk inp,
          vd_riskAtBrokerMinVolume = roundMoney (loss_per_lot inp * minVolume inst),
          vd_finalVolume = None, vd_raisedToBrokerMin = False\<rparr>)"

definition volume_finish :: "volume_decision \<Rightarrow> bool \<Rightarrow> string option \<Rightarrow> jsnum option \<Rightarrow> bool \<Rightarrow> volume_decision" where
  "volume_finish base would reason final raised =
     base\<lparr>vd_wouldSubmit := would, vd_reasonCode := reason, vd_finalVolume := final, vd_raisedToBrokerMin := raised,
          vd_decision := or_default reason (if would then ''SUBMIT'' else ''NO_TRADE'')\<rparr>"

definition resolveMt5EngineVolume :: "volume_input \<Rightarrow> string + volume_decision" where
  "resolveMt5EngineVolume inp =
     (let inst = vi_instrument inp; brokerMin = minVolume inst; engineMax = vi_engineMaxVolume inp
      in case normalizeLotsToMt5Step (vi_riskSizedVolume inp)
                \<lparr>vs_min = 0, vs_max = maxVolume inst, vs_step = volumeStep inst\<rparr> of
           Inl e \<Rightarrow> Inl e
         | Inr stepped \<Rightarrow>
             (let normalized = js_min (js_min (nv_lots stepped) engineMax) (maxVolume inst);
                  base = volume_base inp normalized;
                  refuse = (\<lambda>code. volume_finish base False (Some code) None False)
              in Inr (if \<not> 0 < engineMax \<or> \<not> 0 < brokerMin then refuse BROKER_MIN_VOLUME_EXCEEDS_ENGINE_MAX_VOLUME
                      else if engineMax < brokerMin - lot_slack then refuse BROKER_MIN_VOLUME_EXCEEDS_ENGINE_MAX_VOLUME
                      else if loss_per_lot inp \<le> 0 \<or> allowed_risk inp \<le> 0 then refuse ''STOP_INVALID''
                      else if brokerMin \<le> normalized + lot_slack
                      then volume_finish base True None (Some normalized) False
                      else if vd_riskAtBrokerMinVolume base \<le> allowed_risk inp + RISK_TOLERANCE
                      then volume_finish base True (Some VOLUME_RAISED_TO_BROKER_MIN_WITHIN_RISK) (Some brokerMin) True
                      else refuse MIN_VOLUME_EXCEEDS_RISK)))"

text \<open>A volume fixed by the trader: the override takes the place of the risk-sized volume.\<close>

definition resolveMt5FixedVolumeOverride :: "volume_input \<Rightarrow> string + volume_decision" where
  "resolveMt5FixedVolumeOverride inp =
     (let inst = vi_instrument inp; brokerMin = minVolume inst; engineMax = vi_engineMaxVolume inp;
          override = vi_riskSizedVolume inp; base = volume_base inp 0
      in if \<not> 0 < override \<or> \<not> is_finite override
         then Inr (volume_finish base False (Some VOLUME_OVERRIDE_INVALID) None False)
         else if \<not> 0 < engineMax \<or> \<not> 0 < brokerMin
         then Inr (volume_finish base False (Some BROKER_MIN_VOLUME_EXCEEDS_ENGINE_MAX_VOLUME) None False)
         else case normalizeLotsToMt5Step override
                     \<lparr>vs_min = brokerMin, vs_max = js_min (maxVolume inst) engineMax, vs_step = volumeStep inst\<rparr> of
           Inl e \<Rightarrow> Inl e
         | Inr stepped \<Rightarrow>
             (let final = nv_lots stepped; based = base\<lparr>vd_normalizedVolume := final\<rparr>
              in Inr (if \<not> 0 < final \<or> final + lot_slack < brokerMin
                      then volume_finish based False (Some VOLUME_OVERRIDE_INVALID) None False
                      else volume_finish based True (Some VOLUME_OVERRIDE_APPLIED) (Some final) False)))"

definition rolloutBlockedByBrokerMinVolume :: "jsnum option \<Rightarrow> jsnum \<Rightarrow> bool" where
  "rolloutBlockedByBrokerMinVolume brokerMin engineMax = some_and brokerMin (\<lambda>m. engineMax < m - lot_slack)"

subsection \<open>The filling mode\<close>

datatype filling_mode = FOK | IOC | RETURN

definition FILLING_MODE_PREFERENCE :: "filling_mode list" where "FILLING_MODE_PREFERENCE = [FOK, IOC, RETURN]"

definition SYMBOL_FILLING_FOK :: int where "SYMBOL_FILLING_FOK = 1"
definition SYMBOL_FILLING_IOC :: int where "SYMBOL_FILLING_IOC = 2"

definition filling_name :: "string \<Rightarrow> filling_mode option" where
  "filling_name name =
     (let m = to_upper name
      in if m = ''FOK'' then Some FOK else if m = ''IOC'' then Some IOC
         else if m = ''RETURN'' then Some RETURN else None)"

definition unique_modes :: "filling_mode list \<Rightarrow> filling_mode list" where
  "unique_modes modes = filter (\<lambda>m. m \<in> set modes) FILLING_MODE_PREFERENCE"

text \<open>The bit mask is an integral number of 32 bits or fewer, as MT5 reports it.\<close>

definition parseSupportedFillingModes :: "int option \<Rightarrow> string list option \<Rightarrow> string option \<Rightarrow> filling_mode list" where
  "parseSupportedFillingModes bits names name =
     (let parsed = List.map_filter filling_name (or_default names [])
      in if names \<noteq> None \<and> parsed \<noteq> [] then unique_modes parsed
         else case bits of
           Some k \<Rightarrow>
             if 0 \<le> k
             then let modes = push_when (and k SYMBOL_FILLING_FOK = SYMBOL_FILLING_FOK) FOK
                            @ push_when (and k SYMBOL_FILLING_IOC = SYMBOL_FILLING_IOC) IOC
                  in if modes = [] then [RETURN] else modes
             else (case filling_name (or_default name []) of Some m \<Rightarrow> [m] | None \<Rightarrow> [])
         | None \<Rightarrow> (case filling_name (or_default name []) of Some m \<Rightarrow> [m] | None \<Rightarrow> []))"

definition selectFillingMode :: "filling_mode list \<Rightarrow> filling_mode option" where
  "selectFillingMode supported = find (\<lambda>m. m \<in> set supported) FILLING_MODE_PREFERENCE"

subsection \<open>The risk cap of an order\<close>

record risk_cap_input =
  rc_executionMode :: string
  rc_symbol :: string
  rc_interval :: string
  rc_strategyId :: string
  rc_globalCap :: jsnum
  rc_demoXauCap :: "jsnum option"

record risk_cap =
  rc_globalRiskCap :: jsnum
  rc_selectedRiskCap :: jsnum
  rc_demoXauRiskOverrideApplied :: bool

definition isUsableOverrideCap :: "jsnum option \<Rightarrow> bool" where
  "isUsableOverrideCap v = some_and v (\<lambda>x. is_finite x \<and> 0 < x)"

definition resolveMt5EngineRiskCap :: "risk_cap_input \<Rightarrow> risk_cap" where
  "resolveMt5EngineRiskCap inp =
     (let eligible = (rc_executionMode inp = ''broker_demo_mt5'' \<and> rc_symbol inp = ''XAUUSD'' \<and>
            rc_interval inp = ''15m'' \<and> rc_strategyId inp = ''xau-trend-pullback-v1'')
      in if eligible \<and> isUsableOverrideCap (rc_demoXauCap inp)
         then \<lparr>rc_globalRiskCap = rc_globalCap inp, rc_selectedRiskCap = the (rc_demoXauCap inp),
               rc_demoXauRiskOverrideApplied = True\<rparr>
         else \<lparr>rc_globalRiskCap = rc_globalCap inp, rc_selectedRiskCap = rc_globalCap inp,
               rc_demoXauRiskOverrideApplied = False\<rparr>)"

subsection \<open>Properties\<close>

lemma stepped_lots:
  assumes "0 < s"
  shows "\<exists>x. normalizeLotsToMt5Step (Fin r) \<lparr>vs_min = a, vs_max = b, vs_step = Fin s\<rparr> =
      Inr \<lparr>nv_lots = Fin x, nv_mt5Volume = mt5VolumeFromLots (Fin x), nv_steppedDown = (Fin x < Fin r - lot_slack)\<rparr>
    \<and> x \<le> r + s / 10 ^ 12 + 5 / 10 ^ 9"
proof -
  define n where "n = \<lfloor>r / s + 1 / 10 ^ 12\<rfloor>"
  have "of_int n \<le> r / s + 1 / 10 ^ 12" unfolding n_def by linarith
  then have "of_int n * s \<le> (r / s + 1 / 10 ^ 12) * s" using assms by (intro mult_right_mono) simp_all
  also have "\<dots> = r + s / 10 ^ 12" using assms by (simp add: distrib_right)
  finally have "of_int n * s \<le> r + s / 10 ^ 12" .
  moreover have "\<bar>fixed_rat 8 (of_int n * s) - of_int n * s\<bar> \<le> 5 / 10 ^ 9"
    using fixed_rat_error [of 8 "of_int n * s"] by simp
  ultimately have "fixed_rat 8 (of_int n * s) \<le> r + s / 10 ^ 12 + 5 / 10 ^ 9" by linarith
  then show ?thesis
    using assms by (intro exI [of _ "fixed_rat 8 (of_int n * s)"]) (simp add: normalizeLotsToMt5Step_def lot_slack_def n_def Let_def)
qed

lemma loss_fin:
  assumes "sane_instrument inst"
  shows "\<exists>k. 0 \<le> k \<and> lossAtStopPerUnitVolume dir (Fin e) (Fin sl) inst = Fin k"
proof -
  obtain ts tv where "tickSize inst = Fin ts" "0 < ts" "tickValue inst = Fin tv" "0 < tv"
    using assms by (elim sane_fields)
  then show ?thesis by (auto simp: lossAtStopPerUnitVolume_def Let_def max_def zero_jsnum_def)
qed

lemma volume_finish_fields [simp]:
  "vd_wouldSubmit (volume_finish b w r f x) = w" "vd_finalVolume (volume_finish b w r f x) = f"
  "vd_raisedToBrokerMin (volume_finish b w r f x) = x"
  by (simp_all add: volume_finish_def)


definition demo_volume :: volume_input where
  "demo_volume = \<lparr>vi_equity = Fin 1000, vi_riskPerTradePercent = Fin 1, vi_riskSizedVolume = Fin (1 / 200),
     vi_direction = BUY, vi_entryPrice = Fin 100, vi_stopLoss = Fin 95, vi_instrument = demo_instrument,
     vi_engineMaxVolume = Fin (1 / 50)\<rparr>"

lemma demo_volume_decision:
  "case resolveMt5EngineVolume demo_volume of Inr d \<Rightarrow> vd_wouldSubmit d \<and> vd_raisedToBrokerMin d | Inl _ \<Rightarrow> False"
  by code_simp



end
