(* ===== verification/LivePolicy.thy ===== *)
theory LivePolicy
  imports EngineVolume
begin

text \<open>
  Which account and which mode may receive an order
  (\<^verbatim>\<open>packages/trading-engine/src/broker/mt5/liveMt5Policy.ts\<close>, \<^verbatim>\<open>tradingEnvironment.ts\<close>,
  \<^verbatim>\<open>demoGuard.ts\<close>, \<^verbatim>\<open>mt5EnvironmentGuard.ts\<close>, \<^verbatim>\<open>execution/executionMode.ts\<close>).  The
  configuration is one record, the union of the interfaces the functions take; a missing or null
  string is \<open>None\<close>.  Reasons are constructors; their text is left out.
\<close>

subsection \<open>The configuration\<close>

record mt5_config =
  mc_EXECUTION_MODE :: string
  mc_LEGACY_BINARY_ENABLED :: bool
  mc_REAL_MONEY_ENABLED :: bool
  mc_LIVE_MT5_ENABLED :: bool
  mc_LIVE_ALLOWED_SYMBOLS :: "string option"
  mc_LIVE_MAX_CONCURRENT_POSITIONS :: "jsnum option"
  mc_LIVE_MAX_RISK_PER_TRADE_PERCENT :: "jsnum option"
  mc_LIVE_MAX_DAILY_LOSS :: "jsnum option"
  mc_LIVE_MAX_LOT_SIZE :: "jsnum option"
  mc_LIVE_SMOKE_TEST_MODE :: bool
  mc_EXPECTED_BROKER :: "string option"
  mc_EXPECTED_SERVER :: "string option"
  mc_EXPECTED_LOGIN :: "string option"
  mc_EXPECTED_ENVIRONMENT :: "string option"
  mc_BRIDGE_SECRET :: "string option"
  mc_BRIDGE_URL :: "string option"
  mc_BRIDGE_HOST :: "string option"
  mc_CTRADER_CLIENT_ID :: "string option"
  mc_CTRADER_CLIENT_SECRET :: "string option"
  mc_CTRADER_ACCOUNT_ID :: "string option"
  mc_CTRADER_ACCESS_TOKEN :: "string option"
  mc_CTRADER_ENVIRONMENT :: "string option"
  mc_ENGINE_ENABLED :: bool
  mc_TEST_MODE :: bool
  mc_SYMBOL_ALLOWLIST :: "string option"
  mc_STRATEGY_ALLOWLIST :: "string option"
  mc_ENGINE_MAX_CONCURRENT_POSITIONS :: "jsnum option"
  mc_ENGINE_MAX_VOLUME :: "jsnum option"

subsection \<open>Live capability\<close>

fun split_by :: "(char \<Rightarrow> bool) \<Rightarrow> string \<Rightarrow> string list" where
  "split_by p [] = [[]]"
| "split_by p (c # s) =
     (if p c then [] # split_by p s
      else case split_by p s of w # ws \<Rightarrow> (c # w) # ws | [] \<Rightarrow> [[c]])"

definition parseLiveAllowedSymbols :: "string option \<Rightarrow> string list" where
  "parseLiveAllowedSymbols raw =
     (if js_trim (or_default raw []) = [] then []
      else filter (\<lambda>s. s \<noteq> []) (List.map js_trim (split_by (\<lambda>c. c = CHR '','' \<or> is_space c) (or_default raw []))))"

datatype live_reason =
    RealMoneyOff | LiveMt5Off | BridgeSecretMissing | BridgeAddressMissing | EnvironmentNotLive string
  | LiveSymbolsEmpty | MaxLotInvalid | MaxRiskInvalid | MaxDailyLossInvalid | OperatorDisarmed

definition live_max_lot :: "mt5_config \<Rightarrow> jsnum" where
  "live_max_lot cfg = or_default (mc_LIVE_MAX_LOT_SIZE cfg) (Fin (1 / 100))"
definition live_max_risk :: "mt5_config \<Rightarrow> jsnum" where
  "live_max_risk cfg = or_default (mc_LIVE_MAX_RISK_PER_TRADE_PERCENT cfg) (Fin (1 / 4))"
definition live_max_daily :: "mt5_config \<Rightarrow> jsnum" where
  "live_max_daily cfg = or_default (mc_LIVE_MAX_DAILY_LOSS cfg) 25"

definition evaluateLiveConfigValidity :: "mt5_config \<Rightarrow> live_reason list" where
  "evaluateLiveConfigValidity cfg =
     push_when (\<not> truthy (mc_BRIDGE_SECRET cfg)) BridgeSecretMissing
     @ push_when (\<not> truthy (mc_BRIDGE_URL cfg) \<and> \<not> truthy (mc_BRIDGE_HOST cfg)) BridgeAddressMissing
     @ push_when (truthy (mc_EXPECTED_ENVIRONMENT cfg) \<and> mc_EXPECTED_ENVIRONMENT cfg \<noteq> Some ''live'')
         (EnvironmentNotLive (or_default (mc_EXPECTED_ENVIRONMENT cfg) []))
     @ push_when (parseLiveAllowedSymbols (mc_LIVE_ALLOWED_SYMBOLS cfg) = []) LiveSymbolsEmpty
     @ push_when (\<not> 0 < live_max_lot cfg) MaxLotInvalid
     @ push_when (\<not> 0 < live_max_risk cfg) MaxRiskInvalid
     @ push_when (\<not> 0 < live_max_daily cfg) MaxDailyLossInvalid"

record live_capability =
  lc_liveTradingSupported :: bool
  lc_liveTradingEnabled :: bool
  lc_realMoneyEnabled :: bool
  lc_liveMt5Enabled :: bool
  lc_reasons :: "live_reason list"
  lc_configValid :: bool

definition resolveLiveTradingCapability :: "mt5_config \<Rightarrow> live_capability" where
  "resolveLiveTradingCapability cfg =
     (let real = mc_REAL_MONEY_ENABLED cfg; live = mc_LIVE_MT5_ENABLED cfg;
          configReasons = evaluateLiveConfigValidity cfg
      in \<lparr>lc_liveTradingSupported = (real \<and> live \<and> configReasons = []), lc_liveTradingEnabled = False,
          lc_realMoneyEnabled = real, lc_liveMt5Enabled = live,
          lc_reasons = push_when (\<not> real) RealMoneyOff @ push_when (\<not> live) LiveMt5Off @ configReasons,
          lc_configValid = (configReasons = [])\<rparr>)"

record arm_state =
  as_liveTradingSupported :: bool
  as_liveTradingArmed :: bool
  as_liveTradingEnabled :: bool
  as_realMoneyEnabled :: bool
  as_liveMt5Enabled :: bool
  as_reasons :: "live_reason list"

definition resolveLiveTradingArmState :: "mt5_config \<Rightarrow> bool \<Rightarrow> arm_state" where
  "resolveLiveTradingArmState cfg persistedArmed =
     (let cap = resolveLiveTradingCapability cfg; armed = (lc_liveTradingSupported cap \<and> persistedArmed)
      in \<lparr>as_liveTradingSupported = lc_liveTradingSupported cap, as_liveTradingArmed = armed,
          as_liveTradingEnabled = armed, as_realMoneyEnabled = lc_realMoneyEnabled cap,
          as_liveMt5Enabled = lc_liveMt5Enabled cap,
          as_reasons = lc_reasons cap
            @ push_when (lc_liveTradingSupported cap \<and> \<not> persistedArmed) OperatorDisarmed\<rparr>)"

definition assertLiveMt5Capable :: "mt5_config \<Rightarrow> live_reason list + unit" where
  "assertLiveMt5Capable cfg =
     (let cap = resolveLiveTradingCapability cfg
      in if lc_liveTradingSupported cap then Inr () else Inl (lc_reasons cap))"

record live_policy =
  lp_allowedSymbols :: "string list"
  lp_maxConcurrentPositions :: jsnum
  lp_maxRiskPerTradePercent :: jsnum
  lp_maxDailyLoss :: jsnum
  lp_maxLotSize :: jsnum
  lp_resumeAllowed :: bool
  lp_smokeTestMode :: bool
  lp_expectedBroker :: "string option"
  lp_expectedServer :: "string option"
  lp_expectedLogin :: "string option"

definition resolveLiveExecutionPolicy :: "mt5_config \<Rightarrow> live_reason list + live_policy" where
  "resolveLiveExecutionPolicy cfg =
     (case assertLiveMt5Capable cfg of
        Inl e \<Rightarrow> Inl e
      | Inr _ \<Rightarrow>
          (let smoke = mc_LIVE_SMOKE_TEST_MODE cfg; allowed = parseLiveAllowedSymbols (mc_LIVE_ALLOWED_SYMBOLS cfg)
           in Inr \<lparr>lp_allowedSymbols = (if smoke then take 1 allowed else allowed),
                lp_maxConcurrentPositions =
                  (if smoke then 1 else js_max 1 (or_default (mc_LIVE_MAX_CONCURRENT_POSITIONS cfg) 1)),
                lp_maxRiskPerTradePercent =
                  (if smoke then js_min (live_max_risk cfg) (Fin (1 / 10)) else live_max_risk cfg),
                lp_maxDailyLoss = (if smoke then js_min (live_max_daily cfg) 10 else live_max_daily cfg),
                lp_maxLotSize = (if smoke then js_min (live_max_lot cfg) (Fin (1 / 100)) else live_max_lot cfg),
                lp_resumeAllowed = False, lp_smokeTestMode = smoke, lp_expectedBroker = mc_EXPECTED_BROKER cfg,
                lp_expectedServer = mc_EXPECTED_SERVER cfg, lp_expectedLogin = mc_EXPECTED_LOGIN cfg\<rparr>))"

subsection \<open>The order policy\<close>

record live_order =
  lo_symbol :: string
  lo_volume :: jsnum
  lo_riskPercent :: "jsnum option"
  lo_openLivePositions :: jsnum
  lo_dailyLossAbs :: "jsnum option"
  lo_equity :: "jsnum option"
  lo_balance :: "jsnum option"
  lo_emergencyStop :: bool
  lo_liveTradingArmed :: "bool option"
  lo_liveTradingSupported :: "bool option"

datatype order_reason =
    NotSupported | Disarmed | EmergencyStop | EquityUnavailable | BalanceUnavailable | NoAllowedSymbols
  | SymbolNotAllowed | MaxConcurrentReached | LotTooLarge | RiskTooLarge | DailyLossReached

record order_verdict =
  ov_allowed :: bool
  ov_code :: "string option"
  ov_reasons :: "order_reason list"

definition LIVE_TRADING_DISABLED :: string where "LIVE_TRADING_DISABLED = ''LIVE_TRADING_DISABLED''"
definition LIVE_TRADING_DISARMED :: string where "LIVE_TRADING_DISARMED = ''LIVE_TRADING_DISARMED''"
definition LIVE_POLICY_REJECTED :: string where "LIVE_POLICY_REJECTED = ''LIVE_POLICY_REJECTED''"
definition LIVE_ORDER_BLOCKED :: string where "LIVE_ORDER_BLOCKED = ''LIVE_ORDER_BLOCKED''"
definition LIVE_TRADING_ARM_FAILED :: string where "LIVE_TRADING_ARM_FAILED = ''LIVE_TRADING_ARM_FAILED''"

definition evaluateLiveOrderPolicy :: "live_policy \<Rightarrow> live_order \<Rightarrow> order_verdict" where
  "evaluateLiveOrderPolicy pol inp =
     (let reasons =
        push_when (lo_liveTradingSupported inp = Some False) NotSupported
        @ push_when (lo_liveTradingArmed inp = Some False) Disarmed
        @ push_when (lo_emergencyStop inp) EmergencyStop
        @ push_when (\<not> some_and (lo_equity inp) (\<lambda>e. is_finite e \<and> \<not> e \<le> 0)) EquityUnavailable
        @ push_when (\<not> some_and (lo_balance inp) is_finite) BalanceUnavailable
        @ (if lp_allowedSymbols pol = [] then [NoAllowedSymbols]
           else push_when (lo_symbol inp \<notin> set (lp_allowedSymbols pol)) SymbolNotAllowed)
        @ push_when (lp_maxConcurrentPositions pol \<le> lo_openLivePositions inp) MaxConcurrentReached
        @ push_when (\<not> 0 < lo_volume inp \<or> lp_maxLotSize pol < lo_volume inp) LotTooLarge
        @ push_when (some_and (lo_riskPercent inp) (\<lambda>r. is_finite r \<and> lp_maxRiskPerTradePercent pol < r)) RiskTooLarge
        @ push_when (some_and (lo_dailyLossAbs inp) (\<lambda>l. is_finite l \<and> lp_maxDailyLoss pol \<le> l)) DailyLossReached
      in \<lparr>ov_allowed = (reasons = []),
          ov_code = (if reasons = [] then None
                     else Some (if lo_liveTradingArmed inp = Some False then LIVE_TRADING_DISARMED
                                else LIVE_POLICY_REJECTED)),
          ov_reasons = reasons\<rparr>)"

datatype arm_reason = ArmConfig live_reason | ArmEmergencyStop | ArmAccount string

record arm_result =
  am_ok :: bool
  am_code :: "string option"
  am_reasons :: "arm_reason list"

definition evaluateLiveArmPreflight :: "mt5_config \<Rightarrow> bool \<Rightarrow> bool \<Rightarrow> string list \<Rightarrow> arm_result" where
  "evaluateLiveArmPreflight cfg emergencyStop accountValid accountReasons =
     (let cap = resolveLiveTradingCapability cfg;
          first = push_when (\<not> lc_realMoneyEnabled cap) RealMoneyOff @ push_when (\<not> lc_liveMt5Enabled cap) LiveMt5Off;
          rest = filter (\<lambda>r. r \<notin> set first) (evaluateLiveConfigValidity cfg);
          reasons = List.map ArmConfig (first @ rest)
            @ push_when emergencyStop ArmEmergencyStop
            @ (if accountValid then []
               else List.map ArmAccount (if accountReasons = [] then [''Real MT5 account/environment validation failed'']
                                         else accountReasons))
      in \<lparr>am_ok = (reasons = []), am_code = (if reasons = [] then None else Some LIVE_TRADING_ARM_FAILED),
          am_reasons = reasons\<rparr>)"

subsection \<open>Trading environments\<close>

datatype environment = DEMO | LIVE
datatype account_kind = DemoKind | LiveKind | UnknownKind
datatype session_mode = ANALYSIS_ONLY | DEMO_TRADING | LIVE_TRADING

definition tradingEnvironmentToBackend :: "environment \<Rightarrow> string" where
  "tradingEnvironmentToBackend env = (if env = LIVE then ''broker_real_mt5'' else ''broker_demo_mt5'')"

definition backendToTradingEnvironment :: "string \<Rightarrow> environment option" where
  "backendToTradingEnvironment backend =
     (if backend = ''broker_demo_mt5'' then Some DEMO
      else if backend = ''broker_real_mt5'' then Some LIVE else None)"

definition accountKindFromBrokerStatus :: "bool option \<Rightarrow> string option \<Rightarrow> account_kind" where
  "accountKindFromBrokerStatus isDemo tradeMode =
     (let mode = to_upper (or_default tradeMode [])
      in if isDemo = Some True \<and> mode = ''DEMO'' then DemoKind
         else if isDemo = Some False \<and> mode = ''REAL'' then LiveKind
         else UnknownKind)"

definition assertMt5ModeBackendConsistency :: "session_mode \<Rightarrow> string \<Rightarrow> bool" where
  "assertMt5ModeBackendConsistency mode backend =
     (if mode = DEMO_TRADING \<and> backend \<noteq> ''broker_demo_mt5'' then False
      else if mode = LIVE_TRADING \<and> backend \<noteq> ''broker_real_mt5'' then False
      else True)"

definition needed_kind :: "environment \<Rightarrow> account_kind" where
  "needed_kind env = (if env = LIVE then LiveKind else DemoKind)"

definition assertAccountMatchesEnvironment :: "environment \<Rightarrow> account_kind \<Rightarrow> bool" where
  "assertAccountMatchesEnvironment env kind \<longleftrightarrow> kind = needed_kind env"

record switch_plan =
  sp_from :: environment
  sp_to :: environment
  sp_mustDisarmLive :: bool
  sp_mustBlockSubmissions :: bool
  sp_requireTargetAccountKind :: account_kind
  sp_targetBackend :: string

definition planTradingEnvironmentSwitch :: "environment \<Rightarrow> environment \<Rightarrow> switch_plan" where
  "planTradingEnvironmentSwitch src dst =
     \<lparr>sp_from = src, sp_to = dst, sp_mustDisarmLive = True, sp_mustBlockSubmissions = True,
      sp_requireTargetAccountKind = needed_kind dst, sp_targetBackend = tradingEnvironmentToBackend dst\<rparr>"

datatype switch_reason = SwitchInProgress | AmbiguousIntents | TargetUnavailable | AccountMismatch

record switch_input =
  sw_submissionsBlocked :: bool
  sw_switchInProgress :: bool
  sw_ambiguousOpenIntents :: bool
  sw_targetAvailable :: bool
  sw_targetAccountKind :: account_kind
  sw_to :: environment

definition evaluateTradingEnvironmentSwitchGate :: "switch_input \<Rightarrow> bool \<times> switch_reason list" where
  "evaluateTradingEnvironmentSwitchGate inp =
     (let reasons = push_when (sw_switchInProgress inp) SwitchInProgress
        @ push_when (sw_ambiguousOpenIntents inp) AmbiguousIntents
        @ push_when (\<not> sw_targetAvailable inp) TargetUnavailable
        @ push_when (\<not> assertAccountMatchesEnvironment (sw_to inp) (sw_targetAccountKind inp)) AccountMismatch
      in (reasons = [], reasons))"

definition isUsableMt5QuotePrice :: "jsnum \<Rightarrow> bool" where
  "isUsableMt5QuotePrice price \<longleftrightarrow> is_finite price \<and> 0 < price"

subsection \<open>The account behind the bridge\<close>

datatype raw_mode = RawNumber jsnum | RawText string

definition mapAccountTradeMode :: "raw_mode option \<Rightarrow> string" where
  "mapAccountTradeMode raw =
     (if raw \<in> {Some (RawNumber (Fin 0)), Some (RawText ''0''), Some (RawText ''DEMO''),
                Some (RawText ''ACCOUNT_TRADE_MODE_DEMO'')} then ''DEMO''
      else if raw \<in> {Some (RawNumber (Fin 1)), Some (RawText ''1''), Some (RawText ''CONTEST''),
                Some (RawText ''ACCOUNT_TRADE_MODE_CONTEST'')} then ''CONTEST''
      else if raw \<in> {Some (RawNumber (Fin 2)), Some (RawText ''2''), Some (RawText ''REAL''),
                Some (RawText ''ACCOUNT_TRADE_MODE_REAL'')} then ''REAL''
      else ''UNKNOWN'')"

definition mapAccountMarginMode :: "raw_mode option \<Rightarrow> string" where
  "mapAccountMarginMode raw =
     (if raw \<in> {Some (RawNumber (Fin 2)), Some (RawText ''2''), Some (RawText ''HEDGING''),
                Some (RawText ''ACCOUNT_MARGIN_MODE_RETAIL_HEDGING'')} then ''HEDGING''
      else if raw \<in> {Some (RawNumber (Fin 0)), Some (RawText ''0''), Some (RawText ''NETTING''),
                Some (RawText ''ACCOUNT_MARGIN_MODE_RETAIL_NETTING'')} then ''NETTING''
      else if raw \<in> {Some (RawNumber (Fin 1)), Some (RawText ''1''), Some (RawText ''EXCHANGE''),
                Some (RawText ''ACCOUNT_MARGIN_MODE_EXCHANGE'')} then ''EXCHANGE''
      else ''UNKNOWN'')"

text \<open>Of the account, the fields the guards read.\<close>

record account_info =
  ac_tradeMode :: string
  ac_marginMode :: string
  ac_login :: string
  ac_company :: string
  ac_server :: string

record guard_input =
  gi_account :: account_info
  gi_expectedBroker :: "string option"
  gi_expectedServer :: "string option"
  gi_expectedLogin :: "string option"
  gi_expectedEnvironment :: "string option"

datatype account_reason =
    AccountIsReal | AccountIsContest | AccountIsDemo | AccountModeUnknown | WrongEnvironmentConfigured
  | BrokerMismatch | ServerMismatch | LoginMismatch

record guard_result =
  gr_ok :: bool
  gr_isDemo :: bool
  gr_reasons :: "account_reason list"

definition includesInsensitive :: "string \<Rightarrow> string \<Rightarrow> bool" where
  "includesInsensitive haystack needle \<longleftrightarrow> str_contains (to_lower needle) (to_lower haystack)"

definition allowlist_reasons :: "guard_input \<Rightarrow> account_reason list" where
  "allowlist_reasons inp =
     (let acc = gi_account inp
      in push_when (truthy (gi_expectedBroker inp) \<and>
             \<not> includesInsensitive (ac_company acc) (or_default (gi_expectedBroker inp) [])) BrokerMismatch
         @ push_when (truthy (gi_expectedServer inp) \<and>
             \<not> includesInsensitive (ac_server acc) (or_default (gi_expectedServer inp) [])) ServerMismatch
         @ push_when (truthy (gi_expectedLogin inp) \<and> ac_login acc \<noteq> or_default (gi_expectedLogin inp) []) LoginMismatch)"

definition assertMt5DemoAccount :: "guard_input \<Rightarrow> guard_result" where
  "assertMt5DemoAccount inp =
     (let mode = ac_tradeMode (gi_account inp);
          reasons =
            (if mode = ''REAL'' then [AccountIsReal] else if mode = ''CONTEST'' then [AccountIsContest]
             else if mode \<noteq> ''DEMO'' then [AccountModeUnknown] else [])
            @ push_when (gi_expectedEnvironment inp = Some ''live'') WrongEnvironmentConfigured
            @ (if mode = ''DEMO'' then allowlist_reasons inp else [])
      in \<lparr>gr_ok = (reasons = []), gr_isDemo = (mode = ''DEMO'' \<and> reasons = []), gr_reasons = reasons\<rparr>)"

definition assertMt5LiveAccount :: "guard_input \<Rightarrow> guard_result" where
  "assertMt5LiveAccount inp =
     (let mode = ac_tradeMode (gi_account inp);
          reasons =
            (if mode = ''DEMO'' then [AccountIsDemo] else if mode = ''CONTEST'' then [AccountIsContest]
             else if mode \<noteq> ''REAL'' then [AccountModeUnknown] else [])
            @ push_when (gi_expectedEnvironment inp = Some ''demo'') WrongEnvironmentConfigured
            @ (if mode = ''REAL'' then allowlist_reasons inp else [])
      in \<lparr>gr_ok = (reasons = []), gr_isDemo = False, gr_reasons = reasons\<rparr>)"

record environment_result =
  er_ok :: bool
  er_environment :: string
  er_isDemo :: bool
  er_isReal :: bool
  er_reasons :: "account_reason list"

text \<open>The expected environment of this input is never missing.\<close>

definition validateMt5ExecutionEnvironment :: "guard_input \<Rightarrow> environment_result" where
  "validateMt5ExecutionEnvironment inp =
     (let mode = ac_tradeMode (gi_account inp)
      in if gi_expectedEnvironment inp = Some ''demo''
         then let d = assertMt5DemoAccount inp
              in \<lparr>er_ok = gr_ok d, er_environment = ''demo'', er_isDemo = gr_isDemo d,
                  er_isReal = (mode = ''REAL''), er_reasons = gr_reasons d\<rparr>
         else let l = assertMt5LiveAccount inp
              in \<lparr>er_ok = gr_ok l, er_environment = ''live'', er_isDemo = (mode = ''DEMO''),
                  er_isReal = (mode = ''REAL'' \<and> gr_ok l), er_reasons = gr_reasons l\<rparr>)"

datatype environment_error = AccountRefused "account_reason list" | NettingNotSupported

definition assertMt5HedgingMode :: "string \<Rightarrow> environment_error + unit" where
  "assertMt5HedgingMode marginMode = (if marginMode \<noteq> ''HEDGING'' then Inl NettingNotSupported else Inr ())"

definition assertMt5EnvironmentOrThrow :: "guard_input \<Rightarrow> string option \<Rightarrow> environment_error + unit" where
  "assertMt5EnvironmentOrThrow inp marginMode =
     (let result = validateMt5ExecutionEnvironment inp
      in if \<not> er_ok result then Inl (AccountRefused (er_reasons result))
         else assertMt5HedgingMode (or_default marginMode (ac_marginMode (gi_account inp))))"

end
