(* ===== verification/Rollout.thy ===== *)
theory Rollout
  imports LivePolicy
begin

text \<open>
  The gates in front of an order
  (\<^verbatim>\<open>packages/trading-engine/src/execution/executionMode.ts\<close>,
  \<^verbatim>\<open>broker/mt5/brokerSymbolMapping.ts\<close>, \<^verbatim>\<open>broker/mt5/engineRollout.ts\<close>,
  \<^verbatim>\<open>broker/mt5/demoAccess.ts\<close>): which backend the process may start with, which broker symbol an
  internal symbol resolves to, and whether the engine may submit.
\<close>

subsection \<open>The execution backend\<close>

datatype mode_error =
    RealCfdNotImplemented | LiveDisabled "live_reason list" | LegacyNotEnabled | CtraderMustBeDemo
  | MissingCredentials "string list" | Mt5MustBeDemo | MissingMt5Config "string list" | UnknownMode string
  | BlockedWhileLegacy | CfdNotReachable string | LegacyRefusedRealMoney | LegacyBlockedByCfd | LegacyNotReachable

definition resolveExecutionBackend :: "mt5_config \<Rightarrow> mode_error + string" where
  "resolveExecutionBackend cfg =
     (let mode = mc_EXECUTION_MODE cfg
      in if mode = ''broker_real_cfd'' then Inl RealCfdNotImplemented
         else if mode = ''broker_real_mt5''
         then (case assertLiveMt5Capable cfg of Inl rs \<Rightarrow> Inl (LiveDisabled rs) | Inr _ \<Rightarrow> Inr ''broker_real_mt5'')
         else if mode = ''legacy_binary''
         then (if mc_LEGACY_BINARY_ENABLED cfg then Inr ''legacy_binary'' else Inl LegacyNotEnabled)
         else if mode = ''broker_demo_cfd''
         then (if mc_CTRADER_ENVIRONMENT cfg = Some ''live'' then Inl CtraderMustBeDemo
               else let missing = push_when (\<not> truthy (mc_CTRADER_CLIENT_ID cfg)) ''CTRADER_CLIENT_ID''
                      @ push_when (\<not> truthy (mc_CTRADER_CLIENT_SECRET cfg)) ''CTRADER_CLIENT_SECRET''
                      @ push_when (\<not> truthy (mc_CTRADER_ACCOUNT_ID cfg)) ''CTRADER_ACCOUNT_ID''
                      @ push_when (\<not> truthy (mc_CTRADER_ACCESS_TOKEN cfg)) ''CTRADER_ACCESS_TOKEN''
                    in if missing \<noteq> [] then Inl (MissingCredentials missing) else Inr ''broker_demo_cfd'')
         else if mode = ''broker_demo_mt5''
         then (if mc_EXPECTED_ENVIRONMENT cfg = Some ''live'' then Inl Mt5MustBeDemo
               else let missing = push_when (\<not> truthy (mc_BRIDGE_SECRET cfg)) ''MT5_BRIDGE_SECRET''
                      @ push_when (\<not> truthy (mc_BRIDGE_URL cfg) \<and> \<not> truthy (mc_BRIDGE_HOST cfg)) ''MT5_BRIDGE_URL''
                    in if missing \<noteq> [] then Inl (MissingMt5Config missing) else Inr ''broker_demo_mt5'')
         else if mode \<noteq> ''paper_cfd'' then Inl (UnknownMode mode)
         else Inr ''paper_cfd'')"

definition assertCfdExecutionReachable :: "mt5_config \<Rightarrow> mode_error + unit" where
  "assertCfdExecutionReachable cfg =
     (let mode = mc_EXECUTION_MODE cfg
      in if mode = ''broker_real_cfd'' then Inl RealCfdNotImplemented
         else if mode = ''legacy_binary'' then Inl BlockedWhileLegacy
         else if mode = ''broker_real_mt5''
         then (case assertLiveMt5Capable cfg of Inl rs \<Rightarrow> Inl (LiveDisabled rs) | Inr _ \<Rightarrow> Inr ())
         else case resolveExecutionBackend cfg of
           Inl e \<Rightarrow> Inl e
         | Inr m \<Rightarrow> if m \<notin> {''paper_cfd'', ''broker_demo_cfd'', ''broker_demo_mt5'', ''broker_real_mt5''}
                    then Inl (CfdNotReachable m) else Inr ())"

definition assertLegacyBinaryReachable :: "mt5_config \<Rightarrow> mode_error + unit" where
  "assertLegacyBinaryReachable cfg =
     (let mode = mc_EXECUTION_MODE cfg
      in if mc_REAL_MONEY_ENABLED cfg then Inl LegacyRefusedRealMoney
         else if mode \<in> {''paper_cfd'', ''broker_demo_cfd'', ''broker_demo_mt5'', ''broker_real_cfd'', ''broker_real_mt5''}
         then Inl LegacyBlockedByCfd
         else if mode \<noteq> ''legacy_binary'' \<or> \<not> mc_LEGACY_BINARY_ENABLED cfg then Inl LegacyNotReachable
         else Inr ())"

subsection \<open>Broker symbols\<close>

definition MT5_INSTRUMENT_MAPPING_CANDIDATES :: "(string \<times> string) list" where
  "MT5_INSTRUMENT_MAPPING_CANDIDATES =
     [(''R_10'', ''Volatility 10 Index''), (''R_25'', ''Volatility 25 Index''), (''R_50'', ''Volatility 50 Index''),
      (''R_75'', ''Volatility 75 Index''), (''R_100'', ''Volatility 100 Index''), (''XAUUSD'', ''XAUUSD'')]"

text \<open>Of a stored mapping, the fields the gates read.\<close>

record symbol_mapping =
  sm_internalSymbol :: string
  sm_brokerSymbol :: string
  sm_verified :: bool
  sm_minVolume :: "jsnum option"

record resolved_mapping =
  rs_ok :: bool
  rs_reasonCode :: "string option"
  rs_internalSymbol :: string
  rs_brokerSymbol :: "string option"
  rs_verified :: bool
  rs_identicalNames :: bool

definition isVolatilityOneSecondVariant :: "string \<Rightarrow> bool" where
  "isVolatilityOneSecondVariant name \<longleftrightarrow>
     str_contains ''(1s)'' (to_lower name) \<or> prefix_of (rev ''1s'') (rev (to_lower (js_trim name)))"

definition candidateBrokerSymbolForInternal :: "string \<Rightarrow> string option" where
  "candidateBrokerSymbolForInternal internal = map_of MT5_INSTRUMENT_MAPPING_CANDIDATES internal"

definition resolveBrokerSymbolMapping :: "string \<Rightarrow> symbol_mapping option \<Rightarrow> resolved_mapping" where
  "resolveBrokerSymbolMapping internalSymbol mapping =
     (let internal = js_trim internalSymbol;
          answer = (\<lambda>ok code broker ver same.
            \<lparr>rs_ok = ok, rs_reasonCode = code, rs_internalSymbol = internal, rs_brokerSymbol = broker,
             rs_verified = ver, rs_identicalNames = same\<rparr>)
      in case mapping of
           None \<Rightarrow> answer False (Some ''BROKER_SYMBOL_MAPPING_MISSING'') None False False
         | Some m \<Rightarrow>
             if sm_internalSymbol m \<noteq> internal
             then answer False (Some ''BROKER_SYMBOL_MAPPING_MISSING'') (Some (sm_brokerSymbol m)) False False
             else if isVolatilityOneSecondVariant (sm_brokerSymbol m)
             then answer False (Some ''BROKER_SYMBOL_ONE_SECOND_VARIANT'') (Some (sm_brokerSymbol m)) False False
             else if \<not> sm_verified m
             then answer False (Some ''BROKER_SYMBOL_MAPPING_UNVERIFIED'') (Some (sm_brokerSymbol m)) False
                    (sm_brokerSymbol m = internal)
             else if js_trim (sm_brokerSymbol m) = []
             then answer False (Some ''BROKER_SYMBOL_UNAVAILABLE'') None True False
             else answer True None (Some (sm_brokerSymbol m)) True (sm_brokerSymbol m = internal))"

definition brokerSymbolForMt5Lookup :: "string \<Rightarrow> string option \<Rightarrow> string" where
  "brokerSymbolForMt5Lookup internal metaBroker =
     (case metaBroker of Some b \<Rightarrow> if js_trim b \<noteq> [] then b else internal | None \<Rightarrow> internal)"

definition positionSymbolAudit :: "string \<Rightarrow> string option \<Rightarrow> string option \<Rightarrow> string \<times> string option" where
  "positionSymbolAudit internal metaInternal metaBroker = (or_default metaInternal internal, metaBroker)"

subsection \<open>The submission gate\<close>

definition parseCsvAllowlist :: "string option \<Rightarrow> string list" where
  "parseCsvAllowlist raw =
     (if js_trim (or_default raw []) = [] then []
      else filter (\<lambda>s. s \<noteq> []) (List.map js_trim (split_by (\<lambda>c. c = CHR '','') (or_default raw []))))"

definition BLOCKED_LIFECYCLES :: "string list" where "BLOCKED_LIFECYCLES = [''SUSPENDED'', ''REJECTED'']"

definition resolveMt5EngineStrategyAllowlist :: "mt5_config \<Rightarrow> string list" where
  "resolveMt5EngineStrategyAllowlist cfg = parseCsvAllowlist (mc_STRATEGY_ALLOWLIST cfg)"

definition applyMt5StrategySelectionAllowlist :: "'a list \<Rightarrow> ('a \<Rightarrow> string) \<Rightarrow> string \<Rightarrow> mt5_config \<Rightarrow> 'a list" where
  "applyMt5StrategySelectionAllowlist strategies getId backend cfg =
     (if backend \<noteq> ''broker_demo_mt5'' \<and> backend \<noteq> ''broker_real_mt5'' then strategies
      else let allowlist = resolveMt5EngineStrategyAllowlist cfg
           in if allowlist = [] then [] else filter (\<lambda>s. getId s \<in> set allowlist) strategies)"

record gate =
  ga_allowed :: bool
  ga_reason :: "string option"
  ga_decisionCode :: string

definition blocked :: "string \<Rightarrow> string \<Rightarrow> gate" where
  "blocked reason code = \<lparr>ga_allowed = False, ga_reason = Some reason, ga_decisionCode = code\<rparr>"

definition submit :: gate where "submit = \<lparr>ga_allowed = True, ga_reason = None, ga_decisionCode = ''SUBMIT''\<rparr>"

definition gateMt5FixedStrategySelection :: "mt5_config \<Rightarrow> string option \<Rightarrow> gate" where
  "gateMt5FixedStrategySelection cfg fixed =
     (let allowlist = resolveMt5EngineStrategyAllowlist cfg
      in if \<not> truthy fixed then blocked ''FIXED_STRATEGY_NOT_CONFIGURED'' ''FIXED_STRATEGY_NOT_CONFIGURED''
         else if allowlist = [] then blocked ''MT5_ENGINE_STRATEGY_ALLOWLIST_EMPTY'' ''ALLOWLIST''
         else if or_default fixed [] \<notin> set allowlist
         then blocked ''MT5_ENGINE_STRATEGY_NOT_ALLOWED'' ''STRATEGY_NOT_ALLOWED''
         else \<lparr>ga_allowed = True, ga_reason = None, ga_decisionCode = ''FIXED_STRATEGY_ALLOWED''\<rparr>)"

definition mappingDecisionCode :: "string option \<Rightarrow> string" where
  "mappingDecisionCode code =
     (if code = Some ''BROKER_SYMBOL_MAPPING_UNVERIFIED'' then ''BROKER_SYMBOL_MAPPING_UNVERIFIED''
      else if code = Some ''BROKER_SYMBOL_UNAVAILABLE'' \<or> code = Some ''BROKER_SYMBOL_ONE_SECOND_VARIANT''
      then ''BROKER_SYMBOL_UNAVAILABLE''
      else ''BROKER_SYMBOL_MAPPING_MISSING'')"

definition gateMt5MappingAndVolume :: "jsnum option \<Rightarrow> string \<Rightarrow> symbol_mapping option \<Rightarrow> gate" where
  "gateMt5MappingAndVolume engineMaxVolume internal mapping =
     (let resolved = resolveBrokerSymbolMapping internal mapping;
          engineMax = or_default engineMaxVolume (Fin (1 / 100))
      in if \<not> rs_ok resolved
         then blocked (or_default (rs_reasonCode resolved) ''BROKER_SYMBOL_MAPPING_MISSING'')
                (mappingDecisionCode (rs_reasonCode resolved))
         else if rolloutBlockedByBrokerMinVolume (Option.bind mapping sm_minVolume) engineMax
         then blocked BROKER_MIN_VOLUME_EXCEEDS_ENGINE_MAX_VOLUME BROKER_MIN_VOLUME_EXCEEDS_ENGINE_MAX_VOLUME
         else submit)"

text \<open>Of an order, what the live gate asks about beyond the symbol.\<close>

record submission_order =
  so_volume :: jsnum
  so_riskPercent :: "jsnum option"
  so_dailyLossAbs :: "jsnum option"
  so_equity :: "jsnum option"
  so_balance :: "jsnum option"
  so_emergencyStop :: bool

record submission =
  sb_config :: mt5_config
  sb_symbol :: string
  sb_strategyId :: string
  sb_openOwnedCount :: jsnum
  sb_lifecycle :: "string option"
  sb_mapping :: "symbol_mapping option"
  sb_effectiveMaxConcurrentPositions :: "jsnum option"
  sb_liveTradingArmed :: "bool option"
  sb_liveOrder :: "submission_order option"

definition lifecycle_blocked :: "string option \<Rightarrow> bool" where
  "lifecycle_blocked lc \<longleftrightarrow> truthy lc \<and> or_default lc [] \<in> set BLOCKED_LIFECYCLES"

definition order_of :: "submission \<Rightarrow> submission_order \<Rightarrow> live_order" where
  "order_of inp ord =
     \<lparr>lo_symbol = sb_symbol inp, lo_volume = so_volume ord, lo_riskPercent = so_riskPercent ord,
      lo_openLivePositions = sb_openOwnedCount inp, lo_dailyLossAbs = so_dailyLossAbs ord,
      lo_equity = so_equity ord, lo_balance = so_balance ord, lo_emergencyStop = so_emergencyStop ord,
      lo_liveTradingArmed = Some True, lo_liveTradingSupported = Some True\<rparr>"

definition gateLiveMt5EngineSubmission :: "submission \<Rightarrow> gate" where
  "gateLiveMt5EngineSubmission inp =
     (let cfg = sb_config inp;
          arm = resolveLiveTradingArmState cfg (sb_liveTradingArmed inp = Some True);
          strategies = parseCsvAllowlist (mc_STRATEGY_ALLOWLIST cfg)
      in if \<not> as_liveTradingSupported arm then blocked LIVE_TRADING_DISABLED LIVE_TRADING_DISABLED
         else if \<not> as_liveTradingArmed arm then blocked LIVE_TRADING_DISARMED LIVE_TRADING_DISARMED
         else if \<not> mc_ENGINE_ENABLED cfg then blocked ''MT5_ENGINE_DISABLED'' ''MT5_ENGINE_DISABLED''
         else case resolveLiveExecutionPolicy cfg of
           Inl _ \<Rightarrow> blocked LIVE_TRADING_DISABLED LIVE_TRADING_DISABLED
         | Inr pol \<Rightarrow>
             if lp_allowedSymbols pol = [] \<or> sb_symbol inp \<notin> set (lp_allowedSymbols pol)
             then blocked LIVE_POLICY_REJECTED LIVE_POLICY_REJECTED
             else if strategies = [] then blocked ''MT5_ENGINE_STRATEGY_ALLOWLIST_EMPTY'' ''ALLOWLIST''
             else if sb_strategyId inp \<notin> set strategies
             then blocked ''MT5_ENGINE_STRATEGY_NOT_ALLOWED'' ''STRATEGY_NOT_ALLOWED''
             else let mg = gateMt5MappingAndVolume (Some (lp_maxLotSize pol)) (sb_symbol inp) (sb_mapping inp)
             in if \<not> ga_allowed mg then mg
             else if lifecycle_blocked (sb_lifecycle inp)
             then blocked (''MT5_ENGINE_LIFECYCLE_BLOCKED:'' @ or_default (sb_lifecycle inp) []) ''LIFECYCLE_BLOCKED''
             else if js_min (lp_maxConcurrentPositions pol)
                       (or_default (sb_effectiveMaxConcurrentPositions inp) (lp_maxConcurrentPositions pol))
                     \<le> sb_openOwnedCount inp
             then blocked ''MT5_ENGINE_MAX_CONCURRENT'' ''MAX_CONCURRENT_POSITIONS''
             else case sb_liveOrder inp of
               None \<Rightarrow> submit
             | Some ord \<Rightarrow>
                 let verdict = evaluateLiveOrderPolicy pol (order_of inp ord)
                 in if ov_allowed verdict then submit
                    else blocked LIVE_ORDER_BLOCKED
                           (if ov_code verdict = Some LIVE_TRADING_DISARMED then LIVE_TRADING_DISARMED
                            else LIVE_ORDER_BLOCKED))"

definition gateMt5EngineSubmission :: "submission \<Rightarrow> gate" where
  "gateMt5EngineSubmission inp =
     (let cfg = sb_config inp; mode = mc_EXECUTION_MODE cfg;
          symbols = parseCsvAllowlist (mc_SYMBOL_ALLOWLIST cfg);
          strategies = parseCsvAllowlist (mc_STRATEGY_ALLOWLIST cfg)
      in if mode = ''broker_real_mt5'' then gateLiveMt5EngineSubmission inp
         else if mode \<noteq> ''broker_demo_mt5'' then blocked ''MT5_NOT_ACTIVE_EXECUTION_MODE'' ''PAPER_MODE''
         else if \<not> mc_ENGINE_ENABLED cfg then blocked ''MT5_ENGINE_DISABLED'' ''MT5_ENGINE_DISABLED''
         else if symbols = [] then blocked ''MT5_ENGINE_SYMBOL_ALLOWLIST_EMPTY'' ''ALLOWLIST''
         else if strategies = [] then blocked ''MT5_ENGINE_STRATEGY_ALLOWLIST_EMPTY'' ''ALLOWLIST''
         else if sb_symbol inp \<notin> set symbols then blocked ''MT5_ENGINE_SYMBOL_NOT_ALLOWED'' ''SYMBOL_NOT_ALLOWED''
         else if sb_strategyId inp \<notin> set strategies
         then blocked ''MT5_ENGINE_STRATEGY_NOT_ALLOWED'' ''STRATEGY_NOT_ALLOWED''
         else let mg = gateMt5MappingAndVolume (mc_ENGINE_MAX_VOLUME cfg) (sb_symbol inp) (sb_mapping inp)
         in if \<not> ga_allowed mg then mg
         else if lifecycle_blocked (sb_lifecycle inp)
         then blocked (''MT5_ENGINE_LIFECYCLE_BLOCKED:'' @ or_default (sb_lifecycle inp) []) ''LIFECYCLE_BLOCKED''
         else if or_default (sb_effectiveMaxConcurrentPositions inp)
                   (or_default (mc_ENGINE_MAX_CONCURRENT_POSITIONS cfg) 1) \<le> sb_openOwnedCount inp
         then blocked ''MT5_ENGINE_MAX_CONCURRENT'' ''MAX_CONCURRENT_POSITIONS''
         else submit)"

definition describeMt5AutonomousAvailability :: "mt5_config \<Rightarrow> symbol_mapping list \<Rightarrow> gate" where
  "describeMt5AutonomousAvailability cfg mappings =
     (let mode = mc_EXECUTION_MODE cfg;
          symbols = parseCsvAllowlist (mc_SYMBOL_ALLOWLIST cfg);
          strategies = parseCsvAllowlist (mc_STRATEGY_ALLOWLIST cfg);
          first = (case symbols of s # _ \<Rightarrow> s | [] \<Rightarrow> []);
          mapping = find (\<lambda>m. sm_internalSymbol m = first) mappings
      in if mode = ''broker_real_mt5''
         then (if \<not> lc_liveTradingSupported (resolveLiveTradingCapability cfg)
               then blocked LIVE_TRADING_DISABLED LIVE_TRADING_DISABLED
               else if \<not> mc_ENGINE_ENABLED cfg then blocked ''MT5_ENGINE_DISABLED'' ''MT5_ENGINE_DISABLED''
               else if parseLiveAllowedSymbols (mc_LIVE_ALLOWED_SYMBOLS cfg) = []
               then blocked LIVE_POLICY_REJECTED LIVE_POLICY_REJECTED
               else submit)
         else if mode \<noteq> ''broker_demo_mt5'' then blocked ''MT5_NOT_ACTIVE_EXECUTION_MODE'' ''PAPER_MODE''
         else let mg = gateMt5MappingAndVolume (mc_ENGINE_MAX_VOLUME cfg) first mapping
         in if symbols \<noteq> [] \<and> strategies \<noteq> [] \<and> \<not> ga_allowed mg then mg
         else gateMt5EngineSubmission
                \<lparr>sb_config = cfg, sb_symbol = first, sb_strategyId = (case strategies of s # _ \<Rightarrow> s | [] \<Rightarrow> []),
                 sb_openOwnedCount = 0, sb_lifecycle = Some ''EXPERIMENTAL'', sb_mapping = mapping,
                 sb_effectiveMaxConcurrentPositions = None, sb_liveTradingArmed = None, sb_liveOrder = None\<rparr>)"

subsection \<open>Access to the demo interfaces\<close>

definition isMt5RealPath :: "mt5_config \<Rightarrow> bool" where
  "isMt5RealPath cfg \<longleftrightarrow> mc_EXECUTION_MODE cfg = ''broker_real_mt5''"

definition isMt5DemoApiEnabled :: "mt5_config \<Rightarrow> bool" where
  "isMt5DemoApiEnabled cfg =
     (if isMt5RealPath cfg then False else mc_EXECUTION_MODE cfg = ''broker_demo_mt5'' \<or> mc_TEST_MODE cfg)"

definition isMt5EngineAutomationEnabled :: "mt5_config \<Rightarrow> bool" where
  "isMt5EngineAutomationEnabled cfg =
     (if isMt5RealPath cfg then False else mc_EXECUTION_MODE cfg = ''broker_demo_mt5'' \<and> mc_ENGINE_ENABLED cfg)"

definition gateMt5EngineOrders :: "mt5_config \<Rightarrow> bool \<times> string option" where
  "gateMt5EngineOrders cfg =
     (if isMt5RealPath cfg
      then (if \<not> lc_liveTradingSupported (resolveLiveTradingCapability cfg)
            then (False, Some ''REAL_MT5_EXECUTION_NOT_IMPLEMENTED'')
            else if \<not> mc_ENGINE_ENABLED cfg then (False, Some ''MT5_ENGINE_DISABLED'') else (True, None))
      else if mc_EXECUTION_MODE cfg \<noteq> ''broker_demo_mt5'' then (False, Some ''MT5_NOT_ACTIVE_EXECUTION_MODE'')
      else if \<not> mc_ENGINE_ENABLED cfg then (False, Some ''MT5_ENGINE_DISABLED'')
      else (True, None))"

subsection \<open>Properties\<close>

lemma gate_fields [simp]: "\<not> ga_allowed (blocked r c)" "ga_allowed submit"
  by (simp_all add: blocked_def submit_def)

lemma mapping_gate:
  assumes "ga_allowed (gateMt5MappingAndVolume v internal mapping)"
  shows "\<exists>m. mapping = Some m \<and> sm_verified m \<and> sm_internalSymbol m = js_trim internal \<and>
    \<not> isVolatilityOneSecondVariant (sm_brokerSymbol m) \<and>
    \<not> rolloutBlockedByBrokerMinVolume (sm_minVolume m) (or_default v (Fin (1 / 100)))"
  using assms
  by (cases mapping) (auto simp: gateMt5MappingAndVolume_def resolveBrokerSymbolMapping_def Let_def split: if_splits)

lemma capable_iff:
  "assertLiveMt5Capable cfg = Inr () \<longleftrightarrow>
     mc_REAL_MONEY_ENABLED cfg \<and> mc_LIVE_MT5_ENABLED cfg \<and> evaluateLiveConfigValidity cfg = []"
  by (simp add: assertLiveMt5Capable_def resolveLiveTradingCapability_def Let_def)

lemma policy_lot:
  assumes "resolveLiveExecutionPolicy cfg = Inr pol"
  shows "lp_maxLotSize pol \<noteq> NaN"
    and "lp_allowedSymbols pol = (if mc_LIVE_SMOKE_TEST_MODE cfg
           then take 1 (parseLiveAllowedSymbols (mc_LIVE_ALLOWED_SYMBOLS cfg))
           else parseLiveAllowedSymbols (mc_LIVE_ALLOWED_SYMBOLS cfg))"
    and "mc_LIVE_SMOKE_TEST_MODE cfg \<Longrightarrow> lp_maxConcurrentPositions pol = 1"
    and "lp_maxLotSize pol = (if mc_LIVE_SMOKE_TEST_MODE cfg then js_min (live_max_lot cfg) (Fin (1 / 100))
           else live_max_lot cfg)"
proof -
  have "assertLiveMt5Capable cfg = Inr ()"
    using assms by (cases "assertLiveMt5Capable cfg") (simp_all add: resolveLiveExecutionPolicy_def)
  then have "0 < live_max_lot cfg" by (simp add: capable_iff evaluateLiveConfigValidity_def)
  then have "live_max_lot cfg \<noteq> NaN" by auto
  then have nan: "js_min (live_max_lot cfg) (Fin (1 / 100)) \<noteq> NaN" "live_max_lot cfg \<noteq> NaN"
    by (simp_all add: js_min_def)
  have pol: "pol = (case resolveLiveExecutionPolicy cfg of Inr p \<Rightarrow> p | Inl _ \<Rightarrow> pol)" using assms by simp
  show "lp_maxLotSize pol = (if mc_LIVE_SMOKE_TEST_MODE cfg then js_min (live_max_lot cfg) (Fin (1 / 100))
           else live_max_lot cfg)"
    and "lp_allowedSymbols pol = (if mc_LIVE_SMOKE_TEST_MODE cfg
           then take 1 (parseLiveAllowedSymbols (mc_LIVE_ALLOWED_SYMBOLS cfg))
           else parseLiveAllowedSymbols (mc_LIVE_ALLOWED_SYMBOLS cfg))"
    and "mc_LIVE_SMOKE_TEST_MODE cfg \<Longrightarrow> lp_maxConcurrentPositions pol = 1"
    using assms by (auto simp: resolveLiveExecutionPolicy_def Let_def split: sum.splits)
  then show "lp_maxLotSize pol \<noteq> NaN" using nan by simp
qed

lemma order_allowed:
  assumes "ov_allowed (evaluateLiveOrderPolicy pol inp)" and "lp_maxLotSize pol \<noteq> NaN"
  shows "0 < lo_volume inp \<and> lo_volume inp \<le> lp_maxLotSize pol \<and> \<not> lo_emergencyStop inp \<and>
    lo_symbol inp \<in> set (lp_allowedSymbols pol) \<and>
    some_and (lo_equity inp) (\<lambda>e. is_finite e \<and> 0 < e) \<and>
    \<not> lp_maxConcurrentPositions pol \<le> lo_openLivePositions inp"
proof -
  have eq: "is_finite e \<and> \<not> e \<le> 0 \<Longrightarrow> 0 < e" for e :: jsnum by (cases e) auto
  have v: "0 < lo_volume inp" "\<not> lp_maxLotSize pol < lo_volume inp"
    using assms(1) by (simp_all add: evaluateLiveOrderPolicy_def Let_def)
  then have "lo_volume inp \<noteq> NaN" by auto
  then have "lo_volume inp \<le> lp_maxLotSize pol" using v(2) assms(2) js_not_less by blast
  then show ?thesis
    using assms(1) v(1) eq
    by (cases "lo_equity inp") (auto simp: evaluateLiveOrderPolicy_def Let_def split: if_splits)
qed


text \<open>C23: demo and live never cross.  An account that one environment accepts is refused by the other,
  whatever broker, server, login and margin mode are configured there.\<close>

theorem environments_never_cross:
  assumes "assertMt5EnvironmentOrThrow inp marginMode = Inr ()" and "gi_account inp' = gi_account inp"
    and "(gi_expectedEnvironment inp = Some ''demo'') \<noteq> (gi_expectedEnvironment inp' = Some ''demo'')"
  shows "\<exists>rs. assertMt5EnvironmentOrThrow inp' marginMode' = Inl (AccountRefused rs)"
  using assms
  by (auto simp: assertMt5EnvironmentOrThrow_def validateMt5ExecutionEnvironment_def assertMt5DemoAccount_def
      assertMt5LiveAccount_def Let_def split: if_splits)

text \<open>Arming needs exactly the capability, a valid account and no emergency stop.\<close>

lemma arm_preflight_iff:
  "am_ok (evaluateLiveArmPreflight cfg stop valid rs) \<longleftrightarrow>
     lc_liveTradingSupported (resolveLiveTradingCapability cfg) \<and> \<not> stop \<and> valid"
  by (auto simp: evaluateLiveArmPreflight_def resolveLiveTradingCapability_def Let_def filter_empty_conv push_when_def
      evaluateLiveConfigValidity_def)

text \<open>A missing arm flag is as good as a set one to the order policy: only an explicit false blocks.\<close>

lemma missing_arm_flag_passes:
  "ov_allowed (evaluateLiveOrderPolicy pol (ord\<lparr>lo_liveTradingArmed := None\<rparr>)) =
   ov_allowed (evaluateLiveOrderPolicy pol (ord\<lparr>lo_liveTradingArmed := Some True\<rparr>))"
  by (simp add: evaluateLiveOrderPolicy_def Let_def)

text \<open>One path to the market.  A process can never reach both the legacy binary interface and the
  CFD interface; the backend it starts with is the mode it was configured with, never the
  unimplemented real CFD mode, and the real MT5 mode only with both live switches and a valid live
  configuration.\<close>

theorem one_execution_path:
  "\<not> (assertLegacyBinaryReachable cfg = Inr () \<and> assertCfdExecutionReachable cfg = Inr ()) \<and>
   (case resolveExecutionBackend cfg of
      Inl _ \<Rightarrow> True
    | Inr backend \<Rightarrow> backend = mc_EXECUTION_MODE cfg \<and> backend \<noteq> ''broker_real_cfd'' \<and>
        (if backend = ''broker_real_mt5''
         then mc_REAL_MONEY_ENABLED cfg \<and> mc_LIVE_MT5_ENABLED cfg \<and> evaluateLiveConfigValidity cfg = []
         else True))"
proof -
  have "\<not> (assertLegacyBinaryReachable cfg = Inr () \<and> assertCfdExecutionReachable cfg = Inr ())"
    by (auto simp: assertLegacyBinaryReachable_def assertCfdExecutionReachable_def Let_def split: if_splits)
  moreover have "mc_REAL_MONEY_ENABLED cfg \<and> mc_LIVE_MT5_ENABLED cfg \<and> evaluateLiveConfigValidity cfg = []"
    if "assertLiveMt5Capable cfg = Inr u" for u using that capable_iff by simp
  ultimately show ?thesis
    by (auto simp: resolveExecutionBackend_def Let_def split: sum.split)
qed

definition demo_live_config :: mt5_config where
  "demo_live_config =
     \<lparr>mc_EXECUTION_MODE = ''broker_real_mt5'', mc_LEGACY_BINARY_ENABLED = False, mc_REAL_MONEY_ENABLED = True,
      mc_LIVE_MT5_ENABLED = True, mc_LIVE_ALLOWED_SYMBOLS = Some ''R_10, R_25'', mc_LIVE_MAX_CONCURRENT_POSITIONS = None,
      mc_LIVE_MAX_RISK_PER_TRADE_PERCENT = None, mc_LIVE_MAX_DAILY_LOSS = None, mc_LIVE_MAX_LOT_SIZE = None,
      mc_LIVE_SMOKE_TEST_MODE = True, mc_EXPECTED_BROKER = None, mc_EXPECTED_SERVER = None, mc_EXPECTED_LOGIN = None,
      mc_EXPECTED_ENVIRONMENT = Some ''live'', mc_BRIDGE_SECRET = Some ''s'', mc_BRIDGE_URL = None,
      mc_BRIDGE_HOST = Some ''mt5-bridge'', mc_CTRADER_CLIENT_ID = None, mc_CTRADER_CLIENT_SECRET = None,
      mc_CTRADER_ACCOUNT_ID = None, mc_CTRADER_ACCESS_TOKEN = None, mc_CTRADER_ENVIRONMENT = None,
      mc_ENGINE_ENABLED = True, mc_TEST_MODE = False, mc_SYMBOL_ALLOWLIST = None,
      mc_STRATEGY_ALLOWLIST = Some ''ema-pullback-v1'', mc_ENGINE_MAX_CONCURRENT_POSITIONS = None,
      mc_ENGINE_MAX_VOLUME = None\<rparr>"

definition demo_submission :: submission where
  "demo_submission =
     \<lparr>sb_config = demo_live_config, sb_symbol = ''R_10'', sb_strategyId = ''ema-pullback-v1'', sb_openOwnedCount = 0,
      sb_lifecycle = Some ''EXPERIMENTAL'',
      sb_mapping = Some \<lparr>sm_internalSymbol = ''R_10'', sm_brokerSymbol = ''Volatility 10 Index'', sm_verified = True,
        sm_minVolume = None\<rparr>,
      sb_effectiveMaxConcurrentPositions = None, sb_liveTradingArmed = Some True,
      sb_liveOrder = Some \<lparr>so_volume = Fin (1 / 200), so_riskPercent = None, so_dailyLossAbs = None,
        so_equity = Some (Fin 1000), so_balance = Some (Fin 1000), so_emergencyStop = False\<rparr>\<rparr>"


definition demo_guard :: "string \<Rightarrow> guard_input" where
  "demo_guard env =
     \<lparr>gi_account = \<lparr>ac_tradeMode = ''DEMO'', ac_marginMode = ''HEDGING'', ac_login = ''1'', ac_company = ''Deriv Ltd'',
        ac_server = ''Deriv-Demo''\<rparr>,
      gi_expectedBroker = Some ''deriv'', gi_expectedServer = None, gi_expectedLogin = None,
      gi_expectedEnvironment = Some env\<rparr>"

theorem environments_never_cross_witness:
  "\<exists>rs. assertMt5EnvironmentOrThrow (demo_guard ''live'') None = Inl (AccountRefused rs)"
proof -
  have "assertMt5EnvironmentOrThrow (demo_guard ''demo'') None = Inr ()" by code_simp
  then show ?thesis by (rule environments_never_cross) (simp_all add: demo_guard_def)
qed

end
