(* ===== verification/Lifecycle.thy ===== *)
theory Lifecycle
  imports Prelude
begin

text \<open>
  The evidence lifecycle of a strategy
  (\<^verbatim>\<open>packages/trading-engine/src/research/strategyLifecycle.ts\<close>), the confidence a sample size
  deserves (\<^verbatim>\<open>selection/sampleConfidence.ts\<close>) and the promotion advice of research
  (\<^verbatim>\<open>research/cfdPromotion.ts\<close>).  Reasons are constructors; the figures in their text are left out.
\<close>

subsection \<open>Evidence and its evaluation\<close>

datatype lifecycle =
    EXPERIMENTAL | CANDIDATE | MT5_FORWARD_VALIDATING | MT5_FORWARD_VALIDATED | PRODUCTION_CANDIDATE
  | DEGRADED | SUSPENDED | REJECTED

record thresholds =
  th_minForwardTrades :: jsnum
  th_minExpectancyR :: jsnum
  th_minProfitFactor :: jsnum
  th_maxDrawdownPercent :: jsnum
  th_minPositiveWfPct :: jsnum
  th_maxDegradationPercent :: jsnum
  th_minTradesForTransition :: jsnum
  th_consecutiveLossesSuspend :: jsnum

definition DEFAULT_EVIDENCE_THRESHOLDS :: thresholds where
  "DEFAULT_EVIDENCE_THRESHOLDS =
     \<lparr>th_minForwardTrades = 20, th_minExpectancyR = Fin (5 / 100), th_minProfitFactor = Fin (11 / 10),
      th_maxDrawdownPercent = 15, th_minPositiveWfPct = 50, th_maxDegradationPercent = 50,
      th_minTradesForTransition = 8, th_consecutiveLossesSuspend = 8\<rparr>"

record mt5_stats =
  ms_trades :: jsnum
  ms_expectancyR :: "jsnum option"
  ms_profitFactor :: "jsnum option"
  ms_maxDrawdownPercent :: jsnum
  ms_consecutiveLosses :: jsnum
  ms_netRealizedPnl :: jsnum

record evidence =
  le_mt5 :: "mt5_stats option"
  le_walkForwardPositivePct :: "jsnum option"
  le_holdoutExpectancyR :: "jsnum option"
  le_historicalExpectancyR :: "jsnum option"
  le_degradationPercent :: "jsnum option"
  le_singleWindowDominated :: bool

datatype lifecycle_reason =
    StayRejected | StaySuspended | InsufficientSample | ConsecutiveLosses | SoftNegativeExpectancy
  | ConflictingPositiveLedger | ExpectancyNegative | ProfitFactorBelowOne | DrawdownBreach
  | ForwardDegradation | ConcentratedInOneWindow | MeetsThresholds | AccumulatingForward
  | ExpectancyRecovered | HistoricalCandidate | NoEdgeEvidence

record lifecycle_decision =
  ld_next :: lifecycle
  ld_changed :: bool
  ld_reasonCodes :: "lifecycle_reason list"
  ld_hasPositiveExpectancyEvidence :: bool
  ld_riskSafeOnly :: bool

definition finish :: "lifecycle \<Rightarrow> lifecycle \<Rightarrow> lifecycle_reason list \<Rightarrow> bool \<Rightarrow> lifecycle_decision" where
  "finish cur nxt reasons positive =
     \<lparr>ld_next = nxt, ld_changed = (cur \<noteq> nxt), ld_reasonCodes = reasons,
      ld_hasPositiveExpectancyEvidence = positive, ld_riskSafeOnly = (\<not> positive)\<rparr>"

definition pfOk :: "jsnum option \<Rightarrow> jsnum \<Rightarrow> bool" where
  "pfOk pf least = some_and pf (\<lambda>x. least \<le> x)"

definition ev_trades :: "evidence \<Rightarrow> jsnum" where
  "ev_trades e = (case le_mt5 e of Some m \<Rightarrow> ms_trades m | None \<Rightarrow> 0)"
definition ev_expectancy :: "evidence \<Rightarrow> jsnum" where
  "ev_expectancy e = (case le_mt5 e of Some m \<Rightarrow> or_default (ms_expectancyR m) 0 | None \<Rightarrow> 0)"
definition ev_profitFactor :: "evidence \<Rightarrow> jsnum option" where
  "ev_profitFactor e = Option.bind (le_mt5 e) ms_profitFactor"
definition ev_drawdown :: "evidence \<Rightarrow> jsnum" where
  "ev_drawdown e = (case le_mt5 e of Some m \<Rightarrow> ms_maxDrawdownPercent m | None \<Rightarrow> 0)"
definition ev_losses :: "evidence \<Rightarrow> jsnum" where
  "ev_losses e = (case le_mt5 e of Some m \<Rightarrow> ms_consecutiveLosses m | None \<Rightarrow> 0)"
definition ev_net :: "evidence \<Rightarrow> jsnum" where
  "ev_net e = (case le_mt5 e of Some m \<Rightarrow> ms_netRealizedPnl m | None \<Rightarrow> 0)"

definition positive_evidence :: "thresholds \<Rightarrow> evidence \<Rightarrow> bool" where
  "positive_evidence t e \<longleftrightarrow>
     th_minForwardTrades t \<le> ev_trades e \<and> 0 < ev_expectancy e \<and> pfOk (ev_profitFactor e) (th_minProfitFactor t)"

text \<open>What is decided once the sample is large enough to move: the hard triggers, then the soft and hard
  demotions, then promotion.\<close>

definition judge :: "thresholds \<Rightarrow> lifecycle \<Rightarrow> evidence \<Rightarrow> lifecycle_decision" where
  "judge t cur e =
     (let trades = ev_trades e; expectancy = ev_expectancy e; pf = ev_profitFactor e; drawdown = ev_drawdown e;
          degradation = or_default (le_degradationPercent e) 0; positive = positive_evidence t e;
          deeplyNegative = (expectancy < - js_abs (th_minExpectancyR t));
          conflicting = ((pf = None \<or> some_and pf (\<lambda>x. 1 \<le> x)) \<and> 0 < ev_net e);
          enough = (th_minForwardTrades t \<le> trades);
          conc = push_when (le_singleWindowDominated e \<and> enough) ConcentratedInOneWindow
      in if th_consecutiveLossesSuspend t \<le> ev_losses e \<and> th_minTradesForTransition t \<le> trades
         then finish cur SUSPENDED [ConsecutiveLosses] positive
         else if th_minTradesForTransition t \<le> trades \<and> trades < th_minForwardTrades t \<and> deeplyNegative
         then finish cur (if cur = CANDIDATE then CANDIDATE else MT5_FORWARD_VALIDATING)
                (SoftNegativeExpectancy # push_when conflicting ConflictingPositiveLedger) False
         else if enough \<and> deeplyNegative
         then (if conflicting
               then finish cur (if cur = DEGRADED \<or> cur = EXPERIMENTAL then MT5_FORWARD_VALIDATING else cur)
                      [ExpectancyNegative, ConflictingPositiveLedger] False
               else finish cur DEGRADED [ExpectancyNegative] False)
         else if enough \<and> some_and pf (\<lambda>x. x < 1) then finish cur DEGRADED [ProfitFactorBelowOne] False
         else if enough \<and> th_maxDrawdownPercent t < drawdown then finish cur DEGRADED [DrawdownBreach] False
         else if enough \<and> th_maxDegradationPercent t \<le> degradation \<and> 0 < or_default (le_historicalExpectancyR e) 0
         then finish cur DEGRADED [ForwardDegradation] False
         else if positive \<and> drawdown \<le> th_maxDrawdownPercent t
              \<and> (le_walkForwardPositivePct e = None \<or>
                 some_and (le_walkForwardPositivePct e) (\<lambda>w. th_minPositiveWfPct t \<le> w))
              \<and> degradation < th_maxDegradationPercent t
         then finish cur (if cur = MT5_FORWARD_VALIDATED \<or> cur = PRODUCTION_CANDIDATE then PRODUCTION_CANDIDATE
                          else MT5_FORWARD_VALIDATED) (conc @ [MeetsThresholds]) True
         else if th_minTradesForTransition t \<le> trades \<and> 0 < expectancy
         then finish cur MT5_FORWARD_VALIDATING (conc @ [AccumulatingForward]) False
         else if cur = DEGRADED \<and> \<not> deeplyNegative
         then finish cur MT5_FORWARD_VALIDATING (conc @ [ExpectancyRecovered]) False
         else if 0 < or_default (le_holdoutExpectancyR e) 0 \<or> 0 < or_default (le_historicalExpectancyR e) 0
         then finish cur CANDIDATE (conc @ [HistoricalCandidate]) False
         else finish cur EXPERIMENTAL (if conc \<noteq> [] then conc else [NoEdgeEvidence]) False)"

definition evaluateStrategyLifecycle :: "thresholds \<Rightarrow> lifecycle \<Rightarrow> evidence \<Rightarrow> lifecycle_decision" where
  "evaluateStrategyLifecycle t cur e =
     (let positive = positive_evidence t e
      in if cur = REJECTED then (finish REJECTED REJECTED [StayRejected] positive)
         else if cur = SUSPENDED then (finish SUSPENDED SUSPENDED [StaySuspended] positive)
         else if ev_trades e < th_minTradesForTransition t
              \<and> cur \<in> {EXPERIMENTAL, CANDIDATE, MT5_FORWARD_VALIDATING, DEGRADED}
         then (finish cur (if cur = DEGRADED then MT5_FORWARD_VALIDATING else cur) [InsufficientSample] positive)
                \<lparr>ld_riskSafeOnly := True\<rparr>
         else judge t cur e)"

definition lifecycleBlocksNewEntries :: "lifecycle option \<Rightarrow> bool" where
  "lifecycleBlocksNewEntries lc \<longleftrightarrow> lc = Some SUSPENDED \<or> lc = Some REJECTED"

definition DECISION_PASSTHROUGH :: "string list" where
  "DECISION_PASSTHROUGH =
     [''EVIDENCE_BLOCKED'', ''LIFECYCLE_BLOCKED'', ''RISK_BLOCKED'', ''EXECUTION_REJECTED'', ''SYMBOL_NOT_ALLOWED'',
      ''STRATEGY_NOT_ALLOWED'', ''BROKER_SYMBOL_MAPPING_MISSING'', ''BROKER_SYMBOL_MAPPING_UNVERIFIED'',
      ''BROKER_SYMBOL_UNAVAILABLE'', ''BROKER_MIN_VOLUME_EXCEEDS_ENGINE_MAX_VOLUME'']"

definition autonomousDecisionFromGate :: "string \<Rightarrow> string \<Rightarrow> string" where
  "autonomousDecisionFromGate action gateDecision =
     (if gateDecision \<in> set DECISION_PASSTHROUGH then gateDecision
      else if gateDecision = ''MAX_CONCURRENT'' \<or> gateDecision = ''MAX_CONCURRENT_POSITIONS''
      then ''MAX_CONCURRENT_POSITIONS''
      else if gateDecision = ''SUBMIT'' then (if action = ''HOLD'' then ''STRATEGY_HOLD'' else ''SUBMIT'')
      else ''NO_TRADE'')"

subsection \<open>Sample confidence\<close>

record sample_requirements =
  rq_minimumTradesForEvaluation :: jsnum
  rq_minimumTradesPerRegime :: jsnum
  rq_minimumOosTrades :: jsnum
  rq_minimumTradesForValid :: jsnum
  rq_minimumOosTradesForValid :: jsnum

definition DEFAULT_RESEARCH_SAMPLE_REQUIREMENTS :: sample_requirements where
  "DEFAULT_RESEARCH_SAMPLE_REQUIREMENTS =
     \<lparr>rq_minimumTradesForEvaluation = 10, rq_minimumTradesPerRegime = 30, rq_minimumOosTrades = 20,
      rq_minimumTradesForValid = 100, rq_minimumOosTradesForValid = 50\<rparr>"

datatype confidence_band = INSUFFICIENT | WEAK | MODERATE | STRONG

record sample_confidence =
  sc_band :: confidence_band
  sc_score :: jsnum
  sc_trades :: jsnum

definition resolveSampleConfidence :: "sample_requirements \<Rightarrow> jsnum \<Rightarrow> sample_confidence" where
  "resolveSampleConfidence rq trades =
     (if trades < rq_minimumTradesForEvaluation rq
      then \<lparr>sc_band = INSUFFICIENT, sc_score = Fin (1 / 10), sc_trades = trades\<rparr>
      else if trades < rq_minimumOosTrades rq
      then \<lparr>sc_band = WEAK, sc_score = Fin (35 / 100), sc_trades = trades\<rparr>
      else if trades < rq_minimumTradesForValid rq
      then let t = trades - rq_minimumOosTrades rq;
               width = js_max 1 (rq_minimumTradesForValid rq - rq_minimumOosTrades rq)
           in \<lparr>sc_band = MODERATE, sc_score = to_fixed 3 (Fin (45 / 100) + Fin (25 / 100) * js_min 1 (t / width)),
               sc_trades = trades\<rparr>
      else let extra = trades - rq_minimumTradesForValid rq
           in \<lparr>sc_band = STRONG, sc_score = to_fixed 3 (js_min 1 (Fin (75 / 100) + extra / 400)), sc_trades = trades\<rparr>)"

subsection \<open>Promotion advice\<close>

datatype research_verdict = INSUFFICIENT_EVIDENCE | NO_EDGE_DETECTED | PROMISING | ROBUST | DEGRADING
datatype stability_level = LowStability | MediumStability | HighStability | UnknownStability
datatype eligibility = Ineligible | ExperimentalOnly | PromotionCandidate | Validated

datatype promotion_reason =
    InsufficientResearch | NoEdgeVerdict | DegradingVerdict | NoBaselineEdge | TooFewOosTrades
  | FewPositiveWindows | HoldoutNonPositive | LowParameterStability | ForwardNegative | SevereDegradation
  | MeetsRobust | AwaitingConfirmation | PromisingCandidate | NeedsMoreEvidence

record promotion_input =
  pi_verdict :: research_verdict
  pi_totalValidationTrades :: jsnum
  pi_percentPositiveWindows :: jsnum
  pi_holdoutExpectancyR :: "jsnum option"
  pi_holdoutTrades :: jsnum
  pi_stabilityLevel :: stability_level
  pi_forwardTradeCount :: jsnum
  pi_forwardExpectancyR :: "jsnum option"
  pi_forwardDegradation :: "jsnum option"
  pi_outperformsBaselines :: bool

definition promotion_warnings :: "sample_requirements \<Rightarrow> promotion_input \<Rightarrow> promotion_reason list" where
  "promotion_warnings rq inp =
     push_when (\<not> pi_outperformsBaselines inp) NoBaselineEdge
     @ push_when (pi_stabilityLevel inp = LowStability) LowParameterStability
     @ push_when (rq_minimumTradesForEvaluation rq \<le> pi_forwardTradeCount inp \<and>
         some_and (pi_forwardExpectancyR inp) (\<lambda>r. r < 0)) ForwardNegative
     @ push_when (Fin (1 / 2) \<le> or_default (pi_forwardDegradation inp) 0) SevereDegradation"

definition computePromotionEligibility ::
  "sample_requirements \<Rightarrow> promotion_input \<Rightarrow> eligibility \<times> promotion_reason list" where
  "computePromotionEligibility rq inp =
     (let reasons = promotion_warnings rq inp; verdict = pi_verdict inp
      in if verdict = INSUFFICIENT_EVIDENCE then (Ineligible, [InsufficientResearch])
         else if verdict = NO_EDGE_DETECTED then (Ineligible, [NoEdgeVerdict])
         else if verdict = DEGRADING then (Ineligible, [DegradingVerdict])
         else if pi_totalValidationTrades inp < rq_minimumOosTrades rq then (Ineligible, [TooFewOosTrades])
         else if pi_percentPositiveWindows inp < Fin (1 / 2) then (Ineligible, [FewPositiveWindows])
         else if rq_minimumOosTrades rq \<le> pi_holdoutTrades inp \<and>
                 (pi_holdoutExpectancyR inp = None \<or> some_and (pi_holdoutExpectancyR inp) (\<lambda>r. r \<le> 0))
         then (Ineligible, [HoldoutNonPositive])
         else if verdict = ROBUST \<and> reasons = [] \<and> pi_outperformsBaselines inp
         then (if rq_minimumOosTradesForValid rq \<le> pi_totalValidationTrades inp \<and>
                  rq_minimumOosTrades rq \<le> pi_holdoutTrades inp \<and>
                  0 < or_default (pi_holdoutExpectancyR inp) 0 \<and> pi_stabilityLevel inp \<noteq> LowStability \<and>
                  (pi_forwardTradeCount inp < rq_minimumTradesForEvaluation rq \<or>
                   0 \<le> or_default (pi_forwardExpectancyR inp) 0)
               then (Validated, [MeetsRobust]) else (PromotionCandidate, AwaitingConfirmation # reasons))
         else if verdict = PROMISING
         then (if ForwardNegative \<in> set reasons \<or> SevereDegradation \<in> set reasons then (ExperimentalOnly, reasons)
               else (PromotionCandidate, if reasons \<noteq> [] then reasons else [PromisingCandidate]))
         else (ExperimentalOnly, if reasons \<noteq> [] then reasons else [NeedsMoreEvidence]))"

subsection \<open>Properties\<close>

definition lifecycle_step :: "thresholds \<Rightarrow> lifecycle \<Rightarrow> evidence \<Rightarrow> lifecycle" where
  "lifecycle_step t cur e = ld_next (evaluateStrategyLifecycle t cur e)"

text \<open>Evidence that meets every threshold, and evidence that trips the loss limit.\<close>

definition meets :: "thresholds \<Rightarrow> evidence \<Rightarrow> bool" where
  "meets t e \<longleftrightarrow> positive_evidence t e \<and> ev_drawdown e \<le> th_maxDrawdownPercent t \<and>
     (le_walkForwardPositivePct e = None \<or> some_and (le_walkForwardPositivePct e) (\<lambda>w. th_minPositiveWfPct t \<le> w)) \<and>
     or_default (le_degradationPercent e) 0 < th_maxDegradationPercent t"

definition trips :: "thresholds \<Rightarrow> evidence \<Rightarrow> bool" where
  "trips t e \<longleftrightarrow> th_consecutiveLossesSuspend t \<le> ev_losses e \<and> th_minTradesForTransition t \<le> ev_trades e"

definition stage :: "lifecycle \<Rightarrow> nat" where
  "stage c = (case c of PRODUCTION_CANDIDATE \<Rightarrow> 2 | MT5_FORWARD_VALIDATED \<Rightarrow> 1 | _ \<Rightarrow> 0)"

lemma finish_next [simp]: "ld_next (finish c n r p) = n"
  by (simp add: finish_def)

lemma sticky [simp]: "lifecycle_step t REJECTED e = REJECTED" "lifecycle_step t SUSPENDED e = SUSPENDED"
  by (simp_all add: lifecycle_step_def evaluateStrategyLifecycle_def Let_def)

lemma judge_stage: "stage (ld_next (judge t c e)) \<le> stage c + (if meets t e then 1 else 0)"
  by (cases c) (auto simp: judge_def Let_def stage_def meets_def)

lemma step_stage: "stage (lifecycle_step t c e) \<le> stage c + (if meets t e then 1 else 0)"
  using judge_stage [of t c e] by (auto simp: lifecycle_step_def evaluateStrategyLifecycle_def Let_def stage_def)

lemma judge_never: "ld_next (judge t c e) = REJECTED \<Longrightarrow> c = REJECTED"
  by (auto simp: judge_def Let_def split: if_splits)

lemma judge_suspends: "ld_next (judge t c e) = SUSPENDED \<Longrightarrow> c = SUSPENDED \<or> trips t e"
  by (auto simp: judge_def Let_def trips_def split: if_splits)

lemma step_rejected: "lifecycle_step t c e = REJECTED \<Longrightarrow> c = REJECTED"
  using judge_never [of t c e] by (auto simp: lifecycle_step_def evaluateStrategyLifecycle_def Let_def split: if_splits)

lemma step_suspended: "lifecycle_step t c e = SUSPENDED \<Longrightarrow> c = SUSPENDED \<or> trips t e"
  using judge_suspends [of t c e]
  by (auto simp: lifecycle_step_def evaluateStrategyLifecycle_def Let_def split: if_splits)

lemma run_stage: "stage (run (lifecycle_step t) c es) \<le> stage c + length (filter (meets t) es)"
proof (induction es arbitrary: c)
  case (Cons e es)
  have "stage (run (lifecycle_step t) (lifecycle_step t c e) es)
      \<le> stage (lifecycle_step t c e) + length (filter (meets t) es)" by (rule Cons.IH)
  then show ?case using step_stage [of t c e] by (auto split: if_splits)
qed simp

lemma run_rejected: "run (lifecycle_step t) c es = REJECTED \<Longrightarrow> c = REJECTED"
  by (induction es arbitrary: c) (auto dest: step_rejected)

lemma run_suspended: "run (lifecycle_step t) c es = SUSPENDED \<Longrightarrow> c = SUSPENDED \<or> (\<exists>e \<in> set es. trips t e)"
  by (induction es arbitrary: c) (auto dest: step_suspended)


lemma not_deeply_negative: "0 < x \<Longrightarrow> \<not> x < - js_abs (y :: jsnum)"
  by (cases x; cases y) (auto simp: zero_jsnum_def uminus_jsnum_def)

lemma meets_judge:
  assumes "meets t e" "\<not> th_consecutiveLossesSuspend t \<le> ev_losses e" "1 \<le> th_minProfitFactor t"
  shows "ld_next (judge t c e) = (if c = MT5_FORWARD_VALIDATED \<or> c = PRODUCTION_CANDIDATE then PRODUCTION_CANDIDATE
     else MT5_FORWARD_VALIDATED)"
proof -
  have le: "x \<le> y \<Longrightarrow> \<not> y < x" and lt: "x < y \<Longrightarrow> \<not> y \<le> x" for x y :: jsnum
    by (cases x; cases y; auto)+
  have pos: "0 < ev_expectancy e" and enough: "th_minForwardTrades t \<le> ev_trades e"
    using assms(1) by (simp_all add: meets_def positive_evidence_def)
  have "\<not> some_and (ev_profitFactor e) (\<lambda>x. x < 1)"
  proof (cases "ev_profitFactor e")
    case (Some x)
    then have "th_minProfitFactor t \<le> x" using assms(1) by (simp add: meets_def positive_evidence_def pfOk_def)
    then have "1 \<le> x" using assms(3) js_le_trans by blast
    then show ?thesis using Some le by simp
  qed simp
  then show ?thesis
    using assms(1,2) not_deeply_negative [OF pos] enough
    by (auto simp: judge_def Let_def meets_def le lt)
qed

text \<open>C27: good evidence gets through.  With thresholds whose profit factor is at least one, a strategy
  that is neither suspended nor rejected becomes a production candidate after two evaluations in a
  row that meet every threshold without tripping the loss limit.\<close>

theorem good_evidence_promotes:
  assumes "c \<noteq> SUSPENDED" "c \<noteq> REJECTED" "1 \<le> th_minProfitFactor t"
    and "th_minTradesForTransition t \<le> th_minForwardTrades t"
    and "meets t e1" "\<not> th_consecutiveLossesSuspend t \<le> ev_losses e1"
    and "meets t e2" "\<not> th_consecutiveLossesSuspend t \<le> ev_losses e2"
  shows "run (lifecycle_step t) c [e1, e2] = PRODUCTION_CANDIDATE"
proof -
  have le: "x \<le> y \<Longrightarrow> \<not> y < x" for x y :: jsnum by (cases x; cases y; auto)
  have "\<not> ev_trades e < th_minTradesForTransition t" if "meets t e" for e
    using that assms(4) js_le_trans le by (metis meets_def positive_evidence_def)
  then have "lifecycle_step t d e = ld_next (judge t d e)" if "meets t e" "d \<noteq> SUSPENDED" "d \<noteq> REJECTED" for d e
    using that by (simp add: lifecycle_step_def evaluateStrategyLifecycle_def Let_def)
  then show ?thesis using assms meets_judge by simp
qed

definition demo_evidence :: "rat \<Rightarrow> rat \<Rightarrow> evidence" where
  "demo_evidence expectancy losses =
     \<lparr>le_mt5 = Some \<lparr>ms_trades = 25, ms_expectancyR = Some (Fin expectancy), ms_profitFactor = Some (Fin (3 / 2)),
        ms_maxDrawdownPercent = 5, ms_consecutiveLosses = Fin losses, ms_netRealizedPnl = 10\<rparr>,
      le_walkForwardPositivePct = None, le_holdoutExpectancyR = None, le_historicalExpectancyR = None,
      le_degradationPercent = None, le_singleWindowDominated = False\<rparr>"


theorem good_evidence_promotes_witness:
  "run (lifecycle_step DEFAULT_EVIDENCE_THRESHOLDS) DEGRADED [demo_evidence 1 0, demo_evidence 1 1] = PRODUCTION_CANDIDATE"
proof (rule good_evidence_promotes)
  show "meets DEFAULT_EVIDENCE_THRESHOLDS (demo_evidence 1 0)" by code_simp
  show "meets DEFAULT_EVIDENCE_THRESHOLDS (demo_evidence 1 1)" by code_simp
qed (simp_all add: DEFAULT_EVIDENCE_THRESHOLDS_def demo_evidence_def ev_losses_def)

end
