(* ===== verification/Selector.thy ===== *)
theory Selector
  imports Lifecycle
begin

text \<open>
  Which strategy acts in a regime
  (\<^verbatim>\<open>packages/trading-engine/src/selection/strategySelector.ts\<close>, and
  \<^verbatim>\<open>performanceMatchesConfig\<close> of \<^verbatim>\<open>selection/strategyVersioning.ts\<close>).  A strategy
  is its identifier and its supported regimes; of the component scores only their sum, the score, is
  kept, and of the reasons the rejections.  JavaScript sorts stably; for scores that are not NaN, the only ones
  its comparison orders, so does the insertion below.
\<close>

subsection \<open>Candidates and configuration\<close>

record performance =
  pm_trades :: jsnum
  pm_profitFactor :: "jsnum option"
  pm_expectancy :: jsnum
  pm_outOfSampleExpectancy :: "jsnum option"
  pm_winRate :: jsnum
  pm_maxDrawdownPercent :: jsnum
  pm_recentExpectancy :: "jsnum option"
  pm_sharpeLike :: "jsnum option"
  pm_stabilityScore :: "jsnum option"
  pm_configHash :: "string option"
  pm_expectancyR :: "jsnum option"
  pm_researchVerdict :: "research_verdict option"
  pm_degradationPercent :: "jsnum option"
  pm_forwardTradeCount :: "jsnum option"
  pm_recentForwardExpectancyR :: "jsnum option"
  pm_percentPositiveWindows :: "jsnum option"
  pm_holdoutExpectancyR :: "jsnum option"
  pm_singleWindowDominated :: bool

record selection_weights =
  sw_profitFactor :: jsnum
  sw_expectancy :: jsnum
  sw_sharpeLike :: jsnum
  sw_winRate :: jsnum
  sw_recentPerformance :: jsnum
  sw_regimeFit :: jsnum
  sw_maxDrawdownPenalty :: jsnum
  sw_instabilityPenalty :: jsnum
  sw_overfittingPenalty :: jsnum
  sw_insufficientSamplePenalty :: jsnum
  sw_sampleConfidence :: jsnum
  sw_researchVerdict :: jsnum
  sw_forwardPaper :: jsnum
  sw_degradationPenalty :: jsnum

record selection_filters =
  sf_minTrades :: jsnum
  sf_minProfitFactor :: jsnum
  sf_maxDrawdownPercent :: jsnum
  sf_requirePositiveExpectancy :: bool
  sf_requirePositiveOutOfSampleExpectancy :: bool
  sf_minRegimeSampleSize :: jsnum
  sf_recentPerformanceFloor :: jsnum
  sf_minRegimeConfidence :: jsnum
  sf_minExpectancyR :: jsnum
  sf_excludeNoEdge :: bool
  sf_maxDegradationPercent :: jsnum

datatype selection_mode = VALIDATED | BOOTSTRAP

record selection_config =
  sg_weights :: selection_weights
  sg_filters :: selection_filters
  sg_mode :: selection_mode
  sg_sampleRequirements :: "sample_requirements option"
  sg_bootstrapFallback :: bool

definition DEFAULT_SELECTION_CONFIG :: selection_config where
  "DEFAULT_SELECTION_CONFIG =
     \<lparr>sg_weights = \<lparr>sw_profitFactor = 15, sw_expectancy = 25, sw_sharpeLike = 5, sw_winRate = 5,
        sw_recentPerformance = 8, sw_regimeFit = 15, sw_maxDrawdownPenalty = 15, sw_instabilityPenalty = 8,
        sw_overfittingPenalty = 8, sw_insufficientSamplePenalty = 8, sw_sampleConfidence = 15,
        sw_researchVerdict = 10, sw_forwardPaper = 10, sw_degradationPenalty = 10\<rparr>,
      sg_filters = \<lparr>sf_minTrades = 20, sf_minProfitFactor = Fin (105 / 100), sf_maxDrawdownPercent = 15,
        sf_requirePositiveExpectancy = True, sf_requirePositiveOutOfSampleExpectancy = True,
        sf_minRegimeSampleSize = 10, sf_recentPerformanceFloor = Fin (1 / 2), sf_minRegimeConfidence = Fin (1 / 2),
        sf_minExpectancyR = Fin (- 5 / 100), sf_excludeNoEdge = True, sf_maxDegradationPercent = 50\<rparr>,
      sg_mode = VALIDATED, sg_sampleRequirements = Some DEFAULT_RESEARCH_SAMPLE_REQUIREMENTS,
      sg_bootstrapFallback = True\<rparr>"

record candidate =
  ca_id :: string
  ca_supportedRegimes :: "string list"
  ca_enabled :: bool
  ca_performance :: "performance option"
  ca_expectedConfigHash :: "string option"

record scored =
  sd_strategyId :: string
  sd_score :: jsnum
  sd_usedBootstrap :: bool

datatype selection_rejection =
    RegimeIncompatible string | StaleEvidence string | NoEdge string | SevereDegradationOf string
  | ExpectancyRTooLow string | TooFewTrades string | ProfitFactorTooLow string | DrawdownTooLarge string
  | NonPositiveExpectancy string | NonPositiveOutOfSample string | RecentBelowFloor string | FellBack

definition performanceMatchesConfig :: "string option \<Rightarrow> string option \<Rightarrow> bool" where
  "performanceMatchesConfig performanceConfigHash expectedConfigHash =
     (if \<not> truthy expectedConfigHash then True
      else if \<not> truthy performanceConfigHash then False
      else performanceConfigHash = expectedConfigHash)"

subsection \<open>Eligibility\<close>

text \<open>The gates every mode applies to existing evidence, and those of the validated mode; \<open>Inl\<close> carries
  the rejection, if one is recorded.\<close>

definition evidence_gate :: "selection_filters \<Rightarrow> string \<Rightarrow> performance \<Rightarrow> selection_rejection option" where
  "evidence_gate f sid perf =
     (if sf_excludeNoEdge f \<and> pm_researchVerdict perf = Some NO_EDGE_DETECTED then Some (NoEdge sid)
      else if pm_researchVerdict perf = Some DEGRADING \<and>
              sf_maxDegradationPercent f \<le> or_default (pm_degradationPercent perf) 0
      then Some (SevereDegradationOf sid)
      else if some_and (pm_expectancyR perf) (\<lambda>x. x < sf_minExpectancyR f) then Some (ExpectancyRTooLow sid)
      else None)"

definition validated_gate :: "selection_filters \<Rightarrow> string \<Rightarrow> performance \<Rightarrow> selection_rejection option + unit" where
  "validated_gate f sid perf =
     (let primary = or_default (pm_expectancyR perf) (pm_expectancy perf)
      in if pm_trades perf < sf_minTrades f then Inl (Some (TooFewTrades sid))
         else if pm_trades perf < sf_minRegimeSampleSize f then Inl None
         else if some_and (pm_profitFactor perf) (\<lambda>x. x < sf_minProfitFactor f) then Inl (Some (ProfitFactorTooLow sid))
         else if sf_maxDrawdownPercent f < pm_maxDrawdownPercent perf then Inl (Some (DrawdownTooLarge sid))
         else if sf_requirePositiveExpectancy f \<and> primary \<le> 0 then Inl (Some (NonPositiveExpectancy sid))
         else if sf_requirePositiveOutOfSampleExpectancy f \<and> some_and (pm_outOfSampleExpectancy perf) (\<lambda>x. x \<le> 0)
         then Inl (Some (NonPositiveOutOfSample sid))
         else if some_and (pm_recentExpectancy perf) (\<lambda>r. 0 < pm_expectancy perf \<and> pm_expectancyR perf = None \<and>
                   r < pm_expectancy perf * sf_recentPerformanceFloor f)
         then Inl (Some (RecentBelowFloor sid))
         else Inr ())"

subsection \<open>The score\<close>

definition clamp :: "jsnum \<Rightarrow> jsnum \<Rightarrow> jsnum \<Rightarrow> jsnum" where
  "clamp x lo hi = js_min (js_max x lo) hi"

definition cents_of :: "jsnum \<Rightarrow> jsnum" where "cents_of x = to_fixed 2 x"

definition expectancy_score :: "selection_weights \<Rightarrow> sample_confidence \<Rightarrow> performance \<Rightarrow> jsnum" where
  "expectancy_score w sample perf =
     (let raw = or_default (pm_expectancyR perf) (pm_expectancy perf);
          width = (if pm_expectancyR perf \<noteq> None then Fin (1 / 2) else Fin (1 / 10));
          cap = (if sc_band sample = STRONG then Fin (3 / 2) else if sc_band sample = MODERATE then Fin (3 / 4)
                 else Fin (4 / 10))
      in sw_expectancy w * clamp (raw / width) (- 1) cap * sc_score sample)"

definition recent_score :: "selection_weights \<Rightarrow> performance \<Rightarrow> jsnum" where
  "recent_score w perf =
     (let positive = (if pm_expectancyR perf \<noteq> None then 0 < or_default (pm_expectancyR perf) 0 else 0 < pm_expectancy perf);
          base = (if pm_expectancyR perf \<noteq> None
                  then js_max (or_default (pm_expectancyR perf) (Fin (1 / 100))) (Fin (1 / 100))
                  else js_max (pm_expectancy perf) (Fin (1 / 100)))
      in case pm_recentExpectancy perf of
           Some r \<Rightarrow> if positive then sw_recentPerformance w * js_min (r / base) (Fin (3 / 2)) else 0
         | None \<Rightarrow> 0)"

definition verdict_bonus :: "research_verdict option \<Rightarrow> jsnum" where
  "verdict_bonus v = (if v = Some ROBUST then 1 else if v = Some PROMISING then Fin (6 / 10)
     else if v = Some INSUFFICIENT_EVIDENCE then Fin (2 / 10) else 0)"

definition forward_score :: "selection_weights \<Rightarrow> performance \<Rightarrow> jsnum" where
  "forward_score w perf =
     (let count = or_default (pm_forwardTradeCount perf) 0
      in case pm_recentForwardExpectancyR perf of
           Some r \<Rightarrow> if 0 < count
             then sw_forwardPaper w * clamp (r / Fin (3 / 10)) (- 1) (Fin (3 / 2))
                  * sc_score (resolveSampleConfidence DEFAULT_RESEARCH_SAMPLE_REQUIREMENTS count)
             else 0
         | None \<Rightarrow> 0)"

definition score_penalties :: "selection_weights \<Rightarrow> selection_filters \<Rightarrow> performance \<Rightarrow> jsnum \<Rightarrow> jsnum" where
  "score_penalties w f perf s0 =
     (let s1 = s0 - sw_maxDrawdownPenalty w * (pm_maxDrawdownPercent perf / sf_maxDrawdownPercent f);
          s2 = (if some_and (pm_degradationPercent perf) (\<lambda>d. 0 < d)
                then s1 - sw_degradationPenalty w * js_min (or_default (pm_degradationPercent perf) 0 / 100) 1 else s1);
          s3 = (case pm_stabilityScore perf of
                  Some st \<Rightarrow> (let a = s2 - sw_instabilityPenalty w * (1 - st)
                             in if st < Fin (4 / 10) then a - sw_overfittingPenalty w else a)
                | None \<Rightarrow> s2);
          ratio = js_min (pm_trades perf / (sf_minTrades f * 2)) 1;
          s4 = s3 - sw_insufficientSamplePenalty w * (1 - ratio);
          s5 = (case pm_percentPositiveWindows perf of
                  Some p \<Rightarrow> (let a = s4 + sw_sampleConfidence w * Fin (35 / 100) * js_min 1 (js_max 0 p)
                            in if pm_singleWindowDominated perf then a - sw_degradationPenalty w * Fin (1 / 2) else a)
                | None \<Rightarrow> s4)
      in if some_and (pm_holdoutExpectancyR perf) (\<lambda>h. h < 0) then s5 - sw_degradationPenalty w * Fin (4 / 10) else s5)"

definition evidence_score :: "selection_config \<Rightarrow> jsnum \<Rightarrow> performance \<Rightarrow> jsnum" where
  "evidence_score cfg regimeFitScore perf =
     (let w = sg_weights cfg; f = sg_filters cfg;
          sample = resolveSampleConfidence (or_default (sg_sampleRequirements cfg) DEFAULT_RESEARCH_SAMPLE_REQUIREMENTS)
            (pm_trades perf);
          s1 = regimeFitScore + cents_of (sw_sampleConfidence w * sc_score sample);
          s2 = s1 + sw_profitFactor w * js_min ((or_default (pm_profitFactor perf) 1 - 1) / Fin (1 / 2)) (Fin (3 / 2));
          s3 = s2 + expectancy_score w sample perf;
          s4 = (case pm_sharpeLike perf of Some sh \<Rightarrow> s3 + sw_sharpeLike w * clamp sh (- 1) (Fin (3 / 2)) | None \<Rightarrow> s3);
          s5 = s4 + sw_winRate w * pm_winRate perf;
          s6 = s5 + recent_score w perf;
          s7 = s6 + sw_researchVerdict w * verdict_bonus (pm_researchVerdict perf);
          s8 = s7 + forward_score w perf
      in js_max (score_penalties w f perf s8) 0)"

text \<open>Scoring one candidate; the second component are the rejections it records.\<close>

definition usable_performance :: "candidate \<Rightarrow> performance option" where
  "usable_performance c =
     (case ca_performance c of
        Some p \<Rightarrow> if performanceMatchesConfig (pm_configHash p) (ca_expectedConfigHash c) then Some p else None
      | None \<Rightarrow> None)"

definition scoreCandidate ::
  "selection_config \<Rightarrow> string \<Rightarrow> selection_mode option \<Rightarrow> candidate \<Rightarrow> scored option \<times> selection_rejection list" where
  "scoreCandidate cfg regime forceMode c =
     (let w = sg_weights cfg; f = sg_filters cfg; mode = or_default forceMode (sg_mode cfg); sid = ca_id c;
          fit = 1 / Fin (of_nat (length (ca_supportedRegimes c)))
            + (if ca_supportedRegimes c \<noteq> [] \<and> hd (ca_supportedRegimes c) = regime then Fin (1 / 4) else 0);
          stale = push_when (ca_performance c \<noteq> None \<and> usable_performance c = None) (StaleEvidence sid)
      in if \<not> ca_enabled c then (None, [])
         else if regime \<notin> set (ca_supportedRegimes c) then (None, [RegimeIncompatible sid])
         else case (case usable_performance c of Some p \<Rightarrow> if pm_trades p = 0 then None else Some p | None \<Rightarrow> None) of
           None \<Rightarrow>
             (if mode = VALIDATED \<and> forceMode = None then None
              else Some \<lparr>sd_strategyId = sid, sd_score = 40 + sw_regimeFit w * fit, sd_usedBootstrap = True\<rparr>, stale)
         | Some perf \<Rightarrow>
             (case evidence_gate f sid perf of
                Some r \<Rightarrow> (None, stale @ [r])
              | None \<Rightarrow>
                  (case (if mode = VALIDATED then validated_gate f sid perf else Inr ()) of
                     Inl (Some r) \<Rightarrow> (None, stale @ [r])
                   | Inl None \<Rightarrow> (None, stale)
                   | Inr _ \<Rightarrow> (Some \<lparr>sd_strategyId = sid, sd_score = evidence_score cfg (sw_regimeFit w * fit * 2) perf,
                                   sd_usedBootstrap = False\<rparr>, stale))))"

subsection \<open>Selection\<close>

fun insert_scored :: "scored \<Rightarrow> scored list \<Rightarrow> scored list" where
  "insert_scored x [] = [x]"
| "insert_scored x (y # ys) = (if sd_score x < sd_score y then y # insert_scored x ys else x # y # ys)"

definition sort_scored :: "scored list \<Rightarrow> scored list" where
  "sort_scored xs = foldr insert_scored xs []"

record selection =
  se_selectedStrategyId :: "string option"
  se_selectionScore :: "jsnum option"
  se_confidence :: "jsnum option"
  se_alternatives :: "(string \<times> jsnum) list"
  se_selectionMode :: selection_mode
  se_rejections :: "selection_rejection list"

definition noStrategy :: "selection_mode \<Rightarrow> selection_rejection list \<Rightarrow> selection" where
  "noStrategy mode rejections =
     \<lparr>se_selectedStrategyId = None, se_selectionScore = None, se_confidence = None, se_alternatives = [],
      se_selectionMode = mode, se_rejections = rejections\<rparr>"

definition score_all ::
  "selection_config \<Rightarrow> string \<Rightarrow> selection_mode option \<Rightarrow> candidate list \<Rightarrow> scored list \<times> selection_rejection list" where
  "score_all cfg regime forceMode cs =
     (List.map_filter fst (List.map (scoreCandidate cfg regime forceMode) cs),
      concat (List.map (snd \<circ> scoreCandidate cfg regime forceMode) cs))"

definition select :: "selection_config \<Rightarrow> string \<Rightarrow> jsnum \<Rightarrow> candidate list \<Rightarrow> selection" where
  "select cfg regime regimeConfidence candidates =
     (if regime = ''UNKNOWN'' \<or> regime = ''TRANSITION'' then noStrategy BOOTSTRAP []
      else if regimeConfidence < sf_minRegimeConfidence (sg_filters cfg) then noStrategy (sg_mode cfg) []
      else let (first, rej1) = score_all cfg regime None candidates;
               fallback = (first = [] \<and> sg_mode cfg = VALIDATED \<and> sg_bootstrapFallback cfg);
               (second, rej2) = (if fallback then score_all cfg regime (Some BOOTSTRAP) candidates else ([], []));
               scored = (if fallback then second else first);
               mode = (if fallback then BOOTSTRAP else sg_mode cfg);
               rejections = rej1 @ rej2 @ push_when (fallback \<and> second \<noteq> []) FellBack
           in case sort_scored scored of
                [] \<Rightarrow> noStrategy mode rejections
              | best # others \<Rightarrow>
                  \<lparr>se_selectedStrategyId = Some (sd_strategyId best),
                   se_selectionScore = Some (to_fixed 1 (sd_score best)),
                   se_confidence = Some (to_fixed 2 (js_min (sd_score best / 100) (Fin (99 / 100)))),
                   se_alternatives = List.map (\<lambda>s. (sd_strategyId s, to_fixed 1 (sd_score s))) others,
                   se_selectionMode = (if sd_usedBootstrap best then BOOTSTRAP else mode),
                   se_rejections = rejections\<rparr>)"

subsection \<open>Properties\<close>

lemma set_insert_scored: "set (insert_scored x xs) = insert x (set xs)"
  by (induction xs) auto

lemma set_sort_scored [simp]: "set (sort_scored xs) = set xs"
  unfolding sort_scored_def by (induction xs) (simp_all add: set_insert_scored)

lemma sort_scored_empty [simp]: "sort_scored xs = [] \<longleftrightarrow> xs = []"
  using set_sort_scored [of xs] by (metis set_empty)

lemma sort_scored_Nil [simp]: "sort_scored [] = []"
  by (simp add: sort_scored_def)

lemma sort_scored_Cons: "sort_scored (x # xs) = insert_scored x (sort_scored xs)"
  by (simp add: sort_scored_def)

text \<open>The head of a sorted list is a best one, and among equals the first.\<close>

lemma insert_scored_hd:
  "hd (insert_scored x xs) = (if xs \<noteq> [] \<and> sd_score x < sd_score (hd xs) then hd xs else x)"
  by (cases xs) simp_all

lemma sort_scored_best:
  assumes "xs \<noteq> []" "\<And>x. x \<in> set xs \<Longrightarrow> sd_score x \<noteq> NaN" "y \<in> set xs"
  shows "sd_score y \<le> sd_score (hd (sort_scored xs))"
  using assms
proof (induction xs arbitrary: y)
  case (Cons x xs)
  show ?case
  proof (cases "xs = []")
    case True
    then show ?thesis using Cons.prems by (cases "sd_score x") (auto simp: sort_scored_def)
  next
    case False
    let ?h = "hd (sort_scored xs)"
    have h: "?h \<in> set xs" using False set_sort_scored [of xs] by (metis hd_in_set sort_scored_empty)
    have IH: "z \<in> set xs \<Longrightarrow> sd_score z \<le> sd_score ?h" for z using Cons.IH False Cons.prems(2) by simp
    have nn: "sd_score x \<noteq> NaN" "sd_score ?h \<noteq> NaN" using Cons.prems(2) h by simp_all
    have hd: "hd (sort_scored (x # xs)) = (if sd_score x < sd_score ?h then ?h else x)"
      using False insert_scored_hd [of x "sort_scored xs"] by (simp add: sort_scored_Cons)
    have refl: "sd_score x \<le> sd_score x" using nn(1) by (cases "sd_score x") auto
    show ?thesis
    proof (cases "sd_score x < sd_score ?h")
      case True
      then show ?thesis using hd IH Cons.prems(3) js_less_imp_le by auto
    next
      case F: False
      then have "sd_score ?h \<le> sd_score x" using nn js_not_less by blast
      then show ?thesis using hd F IH Cons.prems(3) js_le_trans refl by (metis set_ConsD)
    qed
  qed
qed simp

lemma scored_candidate:
  assumes "fst (scoreCandidate cfg regime forceMode c) = Some sd"
  shows "ca_enabled c \<and> regime \<in> set (ca_supportedRegimes c) \<and> sd_strategyId sd = ca_id c \<and>
    (case usable_performance c of
       None \<Rightarrow> sd_usedBootstrap sd
     | Some p \<Rightarrow> if pm_trades p = 0 then sd_usedBootstrap sd
         else \<not> sd_usedBootstrap sd \<and> evidence_gate (sg_filters cfg) (ca_id c) p = None \<and>
           (or_default forceMode (sg_mode cfg) = VALIDATED \<longrightarrow> validated_gate (sg_filters cfg) (ca_id c) p = Inr ()))"
  using assms
  by (cases "usable_performance c") (auto simp: scoreCandidate_def Let_def split: if_splits option.splits sum.splits)

lemma score_all_mem:
  "sd \<in> set (fst (score_all cfg regime forceMode cs)) \<longleftrightarrow>
     (\<exists>c \<in> set cs. fst (scoreCandidate cfg regime forceMode c) = Some sd)"
proof -
  have "sd \<in> set (List.map_filter fst xs) \<longleftrightarrow> (\<exists>x \<in> set xs. fst x = Some sd)" for xs :: "(scored option \<times> selection_rejection list) list"
    by (induction xs) (auto simp: List.map_filter_simps split: option.splits)
  then show ?thesis by (simp add: score_all_def)
qed

lemma select_scored:
  assumes "se_selectedStrategyId (select cfg regime conf cs) = Some sid"
  shows "\<exists>forceMode sd. (\<exists>c \<in> set cs. fst (scoreCandidate cfg regime forceMode c) = Some sd) \<and> sd_strategyId sd = sid \<and>
    regime \<noteq> ''UNKNOWN'' \<and> regime \<noteq> ''TRANSITION'' \<and> \<not> conf < sf_minRegimeConfidence (sg_filters cfg) \<and>
    (se_selectionMode (select cfg regime conf cs) = VALIDATED \<longrightarrow>
       or_default forceMode (sg_mode cfg) = VALIDATED \<and> \<not> sd_usedBootstrap sd)"
proof -
  let ?first = "fst (score_all cfg regime None cs)"
  let ?fallback = "?first = [] \<and> sg_mode cfg = VALIDATED \<and> sg_bootstrapFallback cfg"
  let ?force = "if ?fallback then Some BOOTSTRAP else None"
  let ?scored = "fst (score_all cfg regime ?force cs)"
  have guards: "regime \<noteq> ''UNKNOWN''" "regime \<noteq> ''TRANSITION''" "\<not> conf < sf_minRegimeConfidence (sg_filters cfg)"
    using assms by (auto simp: select_def noStrategy_def split: if_splits)
  obtain best others where sorted: "sort_scored ?scored = best # others"
    and sel: "sd_strategyId best = sid"
      "se_selectionMode (select cfg regime conf cs) =
         (if sd_usedBootstrap best then BOOTSTRAP else if ?fallback then BOOTSTRAP else sg_mode cfg)"
    using assms guards
    by (cases ?fallback; cases "sort_scored ?scored") (auto simp: select_def noStrategy_def Let_def case_prod_unfold)
  have "best \<in> set ?scored" using sorted set_sort_scored [of ?scored] by (metis list.set_intros(1))
  then obtain c where "c \<in> set cs" "fst (scoreCandidate cfg regime ?force c) = Some best"
    unfolding score_all_mem by blast
  then show ?thesis
    using guards sel by (intro exI [of _ ?force] exI [of _ best]) (auto split: if_splits)
qed

text \<open>C25: only an eligible strategy acts.  The selected strategy is an enabled candidate that supports the
  regime, the regime is tradable and known confidently enough; if there is evidence for its current
  configuration, that evidence has no verdict of no edge, no severe degradation and no expectancy below
  the floor; and a selection labelled validated rests on such evidence, with enough trades, a drawdown
  within its limit and a positive expectancy.\<close>

theorem selected_is_eligible:
  assumes "se_selectedStrategyId (select cfg regime conf cs) = Some sid" and "f = sg_filters cfg"
  shows "\<exists>c \<in> set cs. ca_id c = sid \<and> ca_enabled c \<and> regime \<in> set (ca_supportedRegimes c) \<and>
    regime \<notin> {''UNKNOWN'', ''TRANSITION''} \<and> \<not> conf < sf_minRegimeConfidence f \<and>
    (\<forall>p. usable_performance c = Some p \<and> pm_trades p \<noteq> 0 \<longrightarrow>
       \<not> (sf_excludeNoEdge f \<and> pm_researchVerdict p = Some NO_EDGE_DETECTED) \<and>
       \<not> (pm_researchVerdict p = Some DEGRADING \<and> sf_maxDegradationPercent f \<le> or_default (pm_degradationPercent p) 0) \<and>
       \<not> some_and (pm_expectancyR p) (\<lambda>x. x < sf_minExpectancyR f)) \<and>
    (se_selectionMode (select cfg regime conf cs) = VALIDATED \<longrightarrow>
       (\<exists>p. usable_performance c = Some p \<and> \<not> pm_trades p < sf_minTrades f \<and>
          \<not> sf_maxDrawdownPercent f < pm_maxDrawdownPercent p \<and>
          (sf_requirePositiveExpectancy f \<longrightarrow> \<not> or_default (pm_expectancyR p) (pm_expectancy p) \<le> 0)))"
proof -
  obtain forceMode sd c where sel: "c \<in> set cs" "fst (scoreCandidate cfg regime forceMode c) = Some sd"
    "sd_strategyId sd = sid" "regime \<noteq> ''UNKNOWN''" "regime \<noteq> ''TRANSITION''" "\<not> conf < sf_minRegimeConfidence f"
    and mode: "se_selectionMode (select cfg regime conf cs) = VALIDATED \<Longrightarrow>
       or_default forceMode (sg_mode cfg) = VALIDATED \<and> \<not> sd_usedBootstrap sd"
    using select_scored [OF assms(1)] assms(2) by blast
  note cand = scored_candidate [OF sel(2)]
  have gate: "\<not> (sf_excludeNoEdge f \<and> pm_researchVerdict p = Some NO_EDGE_DETECTED) \<and>
       \<not> (pm_researchVerdict p = Some DEGRADING \<and> sf_maxDegradationPercent f \<le> or_default (pm_degradationPercent p) 0) \<and>
       \<not> some_and (pm_expectancyR p) (\<lambda>x. x < sf_minExpectancyR f)"
    if "usable_performance c = Some p" "pm_trades p \<noteq> 0" for p
    using cand that assms(2) by (auto simp: evidence_gate_def split: if_splits)
  have valid: "\<exists>p. usable_performance c = Some p \<and> \<not> pm_trades p < sf_minTrades f \<and>
          \<not> sf_maxDrawdownPercent f < pm_maxDrawdownPercent p \<and>
          (sf_requirePositiveExpectancy f \<longrightarrow> \<not> or_default (pm_expectancyR p) (pm_expectancy p) \<le> 0)"
    if "se_selectionMode (select cfg regime conf cs) = VALIDATED"
    using cand mode [OF that] assms(2)
    by (cases "usable_performance c") (auto simp: validated_gate_def Let_def split: if_splits)
  show ?thesis
    using sel cand gate valid by (intro bexI [OF _ sel(1)]) auto
qed

definition demo_performance :: performance where
  "demo_performance =
     \<lparr>pm_trades = 120, pm_profitFactor = Some (Fin (13 / 10)), pm_expectancy = 0, pm_outOfSampleExpectancy = None,
      pm_winRate = Fin (1 / 2), pm_maxDrawdownPercent = 6, pm_recentExpectancy = None, pm_sharpeLike = None,
      pm_stabilityScore = None, pm_configHash = Some ''h'', pm_expectancyR = Some (Fin (1 / 5)),
      pm_researchVerdict = Some ROBUST, pm_degradationPercent = None, pm_forwardTradeCount = None,
      pm_recentForwardExpectancyR = None, pm_percentPositiveWindows = None, pm_holdoutExpectancyR = None,
      pm_singleWindowDominated = False\<rparr>"

definition demo_candidates :: "candidate list" where
  "demo_candidates =
     [\<lparr>ca_id = ''a'', ca_supportedRegimes = [''STRONG_UPTREND''], ca_enabled = True, ca_performance = None,
       ca_expectedConfigHash = None\<rparr>,
      \<lparr>ca_id = ''b'', ca_supportedRegimes = [''STRONG_UPTREND''], ca_enabled = True,
       ca_performance = Some demo_performance, ca_expectedConfigHash = Some ''h''\<rparr>]"

theorem selected_is_eligible_witness:
  "\<exists>c \<in> set demo_candidates. ca_id c = ''b'' \<and> ca_enabled c \<and>
     (\<exists>p. usable_performance c = Some p \<and> \<not> pm_trades p < sf_minTrades (sg_filters DEFAULT_SELECTION_CONFIG))"
proof -
  let ?s = "select DEFAULT_SELECTION_CONFIG ''STRONG_UPTREND'' (Fin (9 / 10)) demo_candidates"
  have run: "se_selectedStrategyId ?s = Some ''b'' \<and> se_selectionMode ?s = VALIDATED" by code_simp
  note el = selected_is_eligible [OF conjunct1 [OF run] refl]
  obtain c where c: "c \<in> set demo_candidates" "ca_id c = ''b'' \<and> ca_enabled c"
    and v: "se_selectionMode ?s = VALIDATED \<longrightarrow>
       (\<exists>p. usable_performance c = Some p \<and> \<not> pm_trades p < sf_minTrades (sg_filters DEFAULT_SELECTION_CONFIG) \<and>
          \<not> sf_maxDrawdownPercent (sg_filters DEFAULT_SELECTION_CONFIG) < pm_maxDrawdownPercent p \<and>
          (sf_requirePositiveExpectancy (sg_filters DEFAULT_SELECTION_CONFIG) \<longrightarrow>
             \<not> or_default (pm_expectancyR p) (pm_expectancy p) \<le> 0))"
    by (rule bexE [OF el]) (elim conjE, rule that, assumption+, blast, assumption)
  obtain p where "usable_performance c = Some p"
    "\<not> pm_trades p < sf_minTrades (sg_filters DEFAULT_SELECTION_CONFIG)"
    using v run by blast
  with c show ?thesis by blast
qed

end
