(* ===== verification/Recovery.thy ===== *)
theory Recovery
  imports IntentSystem BrokerStops
begin

text \<open>
  What the worker does with execution intents and positions outside the submission of an order: recovery
  at startup (\<^verbatim>\<open>apps/worker/src/cfd/mt5ExecutionRecovery.ts\<close> and
  \<^verbatim>\<open>resolveCreatedExecutionIntentOnStartup\<close> of \<^verbatim>\<open>mt5ExecutionIntegrity.ts\<close>), the sweep of
  stale intents (\<^verbatim>\<open>mt5CreatedIntentExpiry.ts\<close>), manual and emergency closing
  (\<^verbatim>\<open>mt5CloseRuntime.ts\<close>) and manual modification (\<^verbatim>\<open>mt5ModifyRuntime.ts\<close>).  They are
  programs over the tables of \<open>Intents\<close>.  The answers of the broker adapter, the readings of the
  clock and the metadata of a position are arguments; events, notifications and telemetry are left
  out, except that their database calls are calls.
\<close>

subsection \<open>Programs\<close>

text \<open>A loop that awaits its body, a call that only asks the outside world, a call that writes a row no
  program reads, and a computation that never ends.\<close>

primrec for_each :: "('a \<Rightarrow> ('s, 'b) prog) \<Rightarrow> 'a list \<Rightarrow> ('s, 'b list) prog" where
  "for_each f [] = Done []"
| "for_each f (x # xs) = bind (f x) (\<lambda>y. bind (for_each f xs) (\<lambda>ys. Done (y # ys)))"

definition ask :: "db_error + 'a \<Rightarrow> ('s, 'a) prog" where
  "ask r = Atomic (\<lambda>s. Some (s, case r of Inl e \<Rightarrow> Throw e | Inr x \<Rightarrow> Done x))"

definition recordPositionEvent :: "('s, unit) prog" where
  "recordPositionEvent = ask (Inr ())"

definition diverge :: "('s, 'a) prog" where
  "diverge = Atomic (\<lambda>_. None)"

lemma exec_ask [simp]: "exec (ask r) s = Some (s, r)"
  by (cases r) (simp_all add: ask_def)

subsection \<open>The broker\<close>

record market_quote =
  mq_bid :: jsnum
  mq_ask :: jsnum
  mq_timestamp :: jsnum

record live_symbol =
  lv_point :: "jsnum option"
  lv_tickSize :: "jsnum option"
  lv_digits :: "jsnum option"
  lv_stopsLevel :: "jsnum option"
  lv_freezeLevel :: "jsnum option"

record adapter =
  ad_quote :: "string \<Rightarrow> market_quote option"
  ad_instrument :: "string \<Rightarrow> instrument option"
  ad_live :: "string \<Rightarrow> live_symbol option"
  ad_adopt :: "string \<Rightarrow> open_result option"
  ad_clock :: "string \<Rightarrow> int"

definition side_of :: "string \<Rightarrow> direction" where
  "side_of s = (if s = ''BUY'' then BUY else SELL)"

subsection \<open>Frozen parameters\<close>

definition extractFrozenExecutionParams :: "intent_row \<Rightarrow> position_row \<Rightarrow> db_error + frozen_params" where
  "extractFrozenExecutionParams t p =
     (case it_requestedTakeProfit t of
        None \<Rightarrow> Inl Missing_take_profit
      | Some target \<Rightarrow>
          if \<not> 0 < target then Inl Missing_take_profit
          else Inr \<lparr>fz_internalSymbol = it_internalSymbol t, fz_brokerSymbol = it_brokerSymbol t,
                    fz_direction = it_direction t, fz_volume = it_requestedVolume t,
                    fz_stopLoss = it_requestedStopLoss t, fz_takeProfit = target, fz_strategyId = it_strategyId t,
                    fz_riskAmount = or_default (ps_riskAmount p) 0, fz_riskPercent = or_default (ps_riskPercent p) 0,
                    fz_initialRiskReward = ps_initialRiskReward p\<rparr>)"

datatype frozen_reason =
    Adaptation_failed "string option" | Needs_broker_adjustment | Stops_drifted | Invalid_market_price | Stale_quote

definition validateFrozenIntentStopSafety :: "frozen_params \<Rightarrow> market_quote \<Rightarrow> adapt_result \<Rightarrow> frozen_reason option" where
  "validateFrozenIntentStopSafety frozen quote adaptation =
     (case (ar_adjustedStopLoss adaptation, ar_adjustedTakeProfit adaptation) of
        (Some stop, Some target) \<Rightarrow>
          if \<not> ar_ok adaptation then Some (Adaptation_failed (ar_reasonCode adaptation))
          else if ar_brokerAdjusted adaptation then Some Needs_broker_adjustment
          else if Fin (1 / 10 ^ 5) < js_abs (stop - fz_stopLoss frozen) \<or> Fin (1 / 10 ^ 5) < js_abs (target - fz_takeProfit frozen)
          then Some Stops_drifted
          else if \<not> 0 < (if fz_direction frozen = ''BUY'' then mq_ask quote else mq_bid quote) then Some Invalid_market_price
          else None
      | _ \<Rightarrow> Some (Adaptation_failed (ar_reasonCode adaptation)))"

definition validateFrozenIntentSubmitSafety ::
  "frozen_params \<Rightarrow> market_quote \<Rightarrow> jsnum \<Rightarrow> adapt_result \<Rightarrow> int \<Rightarrow> frozen_reason option" where
  "validateFrozenIntentSubmitSafety frozen quote maxQuoteAgeMs adaptation now =
     (if \<not> isQuoteFresh (Some (mq_timestamp quote)) (Fin (of_int now)) maxQuoteAgeMs then Some Stale_quote
      else validateFrozenIntentStopSafety frozen quote adaptation)"

subsection \<open>Startup\<close>

datatype startup_resolution = awaiting_resume | expired | stale

definition EXECUTION_INTENT_EXPIRED :: string where "EXECUTION_INTENT_EXPIRED = ''EXECUTION_INTENT_EXPIRED''"
definition EXECUTION_INTENT_STALE :: string where "EXECUTION_INTENT_STALE = ''EXECUTION_INTENT_STALE''"

fun reason_text :: "frozen_reason \<Rightarrow> string" where
  "reason_text (Adaptation_failed code) = or_default code EXECUTION_INTENT_STALE"
| "reason_text Needs_broker_adjustment = EXECUTION_INTENT_STALE @ ''; frozen_stops_require_broker_adjustment''"
| "reason_text Stops_drifted = EXECUTION_INTENT_STALE @ ''; frozen_stop_tp_no_longer_valid''"
| "reason_text Invalid_market_price = EXECUTION_INTENT_STALE @ ''; invalid_market_price''"
| "reason_text Stale_quote = ''STALE_QUOTE''"

definition resolveCreatedExecutionIntentOnStartup ::
  "intent_row \<Rightarrow> position_row \<Rightarrow> market_quote \<Rightarrow> adapt_result \<Rightarrow> jsnum \<Rightarrow> int \<Rightarrow> (db, startup_resolution) prog" where
  "resolveCreatedExecutionIntentOnStartup t p quote adaptation maxQuoteAgeMs now =
     (if isCreatedIntentExpired (it_createdAt t) now
      then bind (failClosedPendingExecution (ps_id p) (it_id t) EXECUTION_INTENT_EXPIRED
                   ''CREATED execution intent exceeded resume TTL without broker submission'' now) (\<lambda>_. Done expired)
      else case extractFrozenExecutionParams t p of
             Inl e \<Rightarrow> Throw e
           | Inr frozen \<Rightarrow>
               (case validateFrozenIntentSubmitSafety frozen quote maxQuoteAgeMs adaptation now of
                  Some r \<Rightarrow> bind (failClosedPendingExecution (ps_id p) (it_id t) EXECUTION_INTENT_STALE (reason_text r) now)
                              (\<lambda>_. Done stale)
                | None \<Rightarrow> Done awaiting_resume))"

datatype startup_outcome = Recovered_one | Still_unresolved | Failed_closed | Awaiting_resume | Not_counted

definition startup_adaptation ::
  "frozen_params \<Rightarrow> market_quote \<Rightarrow> instrument \<Rightarrow> live_symbol option \<Rightarrow> adapt_result option" where
  "startup_adaptation frozen quote inst live =
     adaptMt5BrokerStops
       \<lparr>ai_stops = \<lparr>sv_direction = side_of (fz_direction frozen), sv_stopLoss = fz_stopLoss frozen,
                    sv_takeProfit = fz_takeProfit frozen, sv_bid = mq_bid quote, sv_ask = mq_ask quote,
                    sv_point = Option.bind live lv_point,
                    sv_tickSize = Some (or_default (Option.bind live lv_tickSize) (tickSize inst)),
                    sv_digits = Some (or_default (Option.bind live lv_digits) (pricePrecision inst)),
                    sv_stopsLevel = Option.bind live lv_stopsLevel, sv_freezeLevel = Option.bind live lv_freezeLevel\<rparr>,
        ai_entryPrice = (if fz_direction frozen = ''BUY'' then mq_ask quote else mq_bid quote),
        ai_targetRMultiple = or_default (fz_initialRiskReward frozen) 2, ai_safetyTicks = None\<rparr>"

definition startup_created ::
  "adapter \<Rightarrow> jsnum \<Rightarrow> intent_row \<Rightarrow> position_row \<Rightarrow> market_quote \<Rightarrow> instrument \<Rightarrow> (db, startup_outcome) prog" where
  "startup_created ad maxQuoteAgeMs t p quote inst =
     (case extractFrozenExecutionParams t p of
        Inl e \<Rightarrow> Throw e
      | Inr frozen \<Rightarrow>
          (case startup_adaptation frozen quote inst (ad_live ad (it_brokerSymbol t)) of
             None \<Rightarrow> diverge
           | Some adaptation \<Rightarrow>
               bind (resolveCreatedExecutionIntentOnStartup t p quote adaptation maxQuoteAgeMs (ad_clock ad (it_id t)))
                 (\<lambda>r. Done (if r = awaiting_resume then Awaiting_resume else Failed_closed))))"

definition startup_intent :: "adapter \<Rightarrow> jsnum \<Rightarrow> intent_row \<Rightarrow> (db, startup_outcome) prog" where
  "startup_intent ad maxQuoteAgeMs t =
     (let pid = or_default (it_positionId t) []; now = ad_clock ad (it_id t)
      in if pid = [] then Done Still_unresolved
         else bind (query (find_position pid)) (\<lambda>r. case r of
           None \<Rightarrow> Done Still_unresolved
         | Some p \<Rightarrow>
             if ps_status p = ''OPEN'' \<and> truthy (ps_brokerPositionId p)
             then (if it_state t \<noteq> ''PERSISTED''
                   then bind (attempt (update_intent_row (it_id t)
                          (\<lambda>u. u\<lparr>it_state := ''PERSISTED'', it_persistedAt := Some now,
                                it_brokerPositionId := ps_brokerPositionId p\<rparr>))) (\<lambda>_. Done Recovered_one)
                   else Done Not_counted)
             else if ps_status p = ''REJECTED'' \<and> it_state t \<noteq> ''REJECTED''
             then bind (attempt (update_intent_row (it_id t)
                    (\<lambda>u. u\<lparr>it_state := ''REJECTED'', it_failedAt := Some now\<rparr>))) (\<lambda>_. Done Not_counted)
             else (case (ad_quote ad (it_brokerSymbol t), ad_instrument ad (it_brokerSymbol t)) of
                (Some quote, Some inst) \<Rightarrow>
                  bind (tryRecoverExecutionIntentFromBroker t (ps_id p) (ad_adopt ad (it_idempotencyKey t)) now) (\<lambda>adopted.
                    if some_and adopted ot_accepted
                    then bind recordPositionEvent (\<lambda>_.
                         bind (if it_state t = ''RECOVERED'' then void (markExecutionIntentPersisted (it_id t) now) else Done ())
                           (\<lambda>_. Done Recovered_one))
                    else if it_state t = ''CREATED'' \<and> it_submittedAt t = None
                    then startup_created ad maxQuoteAgeMs t p quote inst
                    else Done (if isUnresolvedExecutionIntentState (it_state t) then Failed_closed else Not_counted))
              | _ \<Rightarrow> Done Still_unresolved)))"

definition UNRESOLVED_STATES :: "string list" where
  "UNRESOLVED_STATES = [''CREATED'', ''SUBMITTED'', ''BROKER_CONFIRMED'', ''AMBIGUOUS'', ''RECOVERED'']"

definition unresolved_intents :: "string \<Rightarrow> db \<Rightarrow> intent_row list" where
  "unresolved_intents u d =
     sort_key it_createdAt (filter (\<lambda>t. it_userId t = u \<and> it_state t \<in> set UNRESOLVED_STATES) (db_intents d))"

definition recover_intents :: "adapter \<Rightarrow> jsnum \<Rightarrow> string \<Rightarrow> (db, startup_outcome list) prog" where
  "recover_intents ad maxQuoteAgeMs u =
     bind (query (unresolved_intents u)) (\<lambda>ts. for_each (startup_intent ad maxQuoteAgeMs) ts)"

text \<open>Pending positions without an intent row; the symbol of the broker is found by the mapping table, an
  argument.\<close>

definition adopt_legacy :: "adapter \<Rightarrow> (string \<Rightarrow> string) \<Rightarrow> position_row \<Rightarrow> (db, startup_outcome) prog" where
  "adopt_legacy ad brokerSymbolOf row =
     (case ps_signalId row of
        None \<Rightarrow> Done Not_counted
      | Some sid \<Rightarrow>
          if sid = [] then Done Not_counted
          else bind (query (findExecutionIntentBySignal sid)) (\<lambda>existing.
            if existing \<noteq> None then Done Not_counted
            else let brokerSymbol = brokerSymbolOf (ps_symbol row)
                 in case (ad_quote ad brokerSymbol, ad_instrument ad brokerSymbol, ad_adopt ad (ps_idempotencyKey row)) of
                      (Some _, Some _, Some a) \<Rightarrow>
                        (case ot_position a of
                           None \<Rightarrow> Done Not_counted
                         | Some fill \<Rightarrow>
                             if \<not> ot_accepted a then Done Not_counted
                             else bind (attempt (update_position_row (ps_id row)
                                    (\<lambda>p. p\<lparr>ps_status := ''OPEN'', ps_brokerPositionId := ot_brokerPositionId a,
                                          ps_entryPrice := ot_entryPrice a, ps_volume := bf_volume fill,
                                          ps_openedAt := Some (ad_clock ad (ps_id row))\<rparr>))) (\<lambda>_.
                                  bind recordPositionEvent (\<lambda>_. Done Recovered_one)))
                    | _ \<Rightarrow> Done Not_counted))"

definition pending_engine_rows :: "string \<Rightarrow> db \<Rightarrow> position_row list" where
  "pending_engine_rows u d =
     filter (\<lambda>p. ps_userId p = u \<and> ps_status p = ''PENDING'' \<and> ps_origin p = ''ENGINE'') (db_positions d)"

definition recover_legacy :: "adapter \<Rightarrow> (string \<Rightarrow> string) \<Rightarrow> string \<Rightarrow> (db, startup_outcome list) prog" where
  "recover_legacy ad brokerSymbolOf u =
     bind (query (pending_engine_rows u)) (\<lambda>rows. for_each (adopt_legacy ad brokerSymbolOf) rows)"

text \<open>Recovered, still unresolved, failed closed and awaiting resume.\<close>

definition recovery_totals :: "startup_outcome list \<Rightarrow> nat \<times> nat \<times> nat \<times> nat" where
  "recovery_totals os =
     (length (filter (\<lambda>x. x = Recovered_one) os),
      length (filter (\<lambda>x. x = Still_unresolved \<or> x = Failed_closed \<or> x = Awaiting_resume) os),
      length (filter (\<lambda>x. x = Failed_closed) os), length (filter (\<lambda>x. x = Awaiting_resume) os))"

definition recoverUnresolvedMt5ExecutionIntents ::
  "adapter \<Rightarrow> (string \<Rightarrow> string) \<Rightarrow> jsnum \<Rightarrow> string \<Rightarrow> (db, nat \<times> nat \<times> nat \<times> nat) prog" where
  "recoverUnresolvedMt5ExecutionIntents ad brokerSymbolOf maxQuoteAgeMs u =
     bind (recover_intents ad maxQuoteAgeMs u) (\<lambda>xs.
     bind (recover_legacy ad brokerSymbolOf u) (\<lambda>ys. Done (recovery_totals (xs @ ys))))"

definition resolveBrokerSymbolFromPosition :: "(bool \<times> string \<times> string) list \<Rightarrow> bool \<Rightarrow> string \<Rightarrow> string" where
  "resolveBrokerSymbolFromPosition mappings isReal internalSymbol =
     (let look = (\<lambda>mode. Option.bind (find (\<lambda>(m, s, _). m = mode \<and> s = internalSymbol) mappings) (\<lambda>(_, _, b). Some b))
      in case look isReal of
           Some b \<Rightarrow> if b \<noteq> [] then b else or_default (look (\<not> isReal)) internalSymbol
         | None \<Rightarrow> or_default (look (\<not> isReal)) internalSymbol)"

subsection \<open>The sweep of stale intents\<close>

definition CREATED_INTENT_EXPIRY_SWEEP_INTERVAL_MS :: int where
  "CREATED_INTENT_EXPIRY_SWEEP_INTERVAL_MS = 5 * 60 * 1000"
definition CREATED_INTENT_EXPIRY_SWEEP_LIMIT :: nat where
  "CREATED_INTENT_EXPIRY_SWEEP_LIMIT = 50"

definition stale_created :: "string \<Rightarrow> int \<Rightarrow> intent_row \<Rightarrow> bool" where
  "stale_created u now t \<longleftrightarrow> it_userId t = u \<and> it_state t = ''CREATED'' \<and> it_submittedAt t = None \<and>
     it_createdAt t < now - CREATED_INTENT_RESUME_TTL_MS"

definition stale_intents :: "string \<Rightarrow> int \<Rightarrow> db \<Rightarrow> intent_row list" where
  "stale_intents u now d =
     take CREATED_INTENT_EXPIRY_SWEEP_LIMIT (sort_key it_createdAt (filter (stale_created u now) (db_intents d)))"

datatype sweep_outcome = Swept_expired | Swept_recovered | Swept_skipped

definition update_created :: "string \<Rightarrow> (intent_row \<Rightarrow> intent_row) \<Rightarrow> (db, nat) prog" where
  "update_created iid f = command (\<lambda>d.
     let q = (\<lambda>t. it_id t = iid \<and> it_state t = ''CREATED'' \<and> it_submittedAt t = None)
     in (d\<lparr>db_intents := List.map (\<lambda>t. if q t then f t else t) (db_intents d)\<rparr>, length (filter q (db_intents d))))"

definition sweep_pending :: "adapter \<Rightarrow> intent_row \<Rightarrow> position_row \<Rightarrow> (db, sweep_outcome) prog" where
  "sweep_pending ad t p =
     (let stamp = ad_clock ad (it_id t)
      in case (ad_quote ad (it_brokerSymbol t), ad_instrument ad (it_brokerSymbol t)) of
           (Some _, Some _) \<Rightarrow>
             bind (tryRecoverExecutionIntentFromBroker t (ps_id p) (ad_adopt ad (it_idempotencyKey t)) stamp) (\<lambda>adopted.
               if some_and adopted ot_accepted then bind recordPositionEvent (\<lambda>_. Done Swept_recovered)
               else bind (failClosedPendingExecution (ps_id p) (it_id t) EXECUTION_INTENT_EXPIRED
                      ''CREATED execution intent exceeded resume TTL without broker submission (runtime sweep)'' stamp)
                      (\<lambda>released. if released then bind recordPositionEvent (\<lambda>_. Done Swept_expired)
                                   else Done Swept_skipped))
         | _ \<Rightarrow> Done Swept_skipped)"

definition sweep_found :: "adapter \<Rightarrow> intent_row \<Rightarrow> position_row option \<Rightarrow> (db, sweep_outcome) prog" where
  "sweep_found ad t r =
     (case r of
        None \<Rightarrow> Done Swept_skipped
      | Some p \<Rightarrow>
          if ps_status p = ''OPEN'' \<and> truthy (ps_brokerPositionId p) then Done Swept_skipped
          else if ps_status p = ''REJECTED'' \<or> ps_status p = ''CLOSED''
          then bind (update_created (it_id t)
                 (\<lambda>u. u\<lparr>it_state := ''REJECTED'', it_failedAt := Some (ad_clock ad (it_id t)),
                       it_lastErrorCode := Some EXECUTION_INTENT_EXPIRED,
                       it_lastErrorMessage := Some ''Position already terminal; syncing expired CREATED intent''\<rparr>))
                 (\<lambda>_. Done Swept_expired)
          else if ps_status p \<noteq> ''PENDING'' \<and> ps_status p \<noteq> ''OPEN_REQUESTED'' then Done Swept_skipped
          else sweep_pending ad t p)"

definition sweep_intent :: "adapter \<Rightarrow> int \<Rightarrow> intent_row \<Rightarrow> (db, sweep_outcome) prog" where
  "sweep_intent ad now t =
     (let pid = or_default (it_positionId t) []
      in if it_state t \<noteq> ''CREATED'' \<or> it_submittedAt t \<noteq> None \<or> \<not> isCreatedIntentExpired (it_createdAt t) now \<or> pid = []
         then Done Swept_skipped
         else bind (query (find_position pid)) (sweep_found ad t))"

definition sweep_totals :: "sweep_outcome list \<Rightarrow> nat \<times> nat \<times> nat \<times> nat" where
  "sweep_totals os =
     (length os, length (filter (\<lambda>x. x = Swept_expired) os), length (filter (\<lambda>x. x = Swept_recovered) os),
      length (filter (\<lambda>x. x = Swept_skipped) os))"

definition expireStaleCreatedExecutionIntents ::
  "adapter \<Rightarrow> string \<Rightarrow> int \<Rightarrow> (db, nat \<times> nat \<times> nat \<times> nat) prog" where
  "expireStaleCreatedExecutionIntents ad u now =
     bind (query (stale_intents u now)) (\<lambda>ts. bind (for_each (sweep_intent ad now) ts) (\<lambda>os. Done (sweep_totals os)))"

definition shouldRunCreatedIntentExpirySweep :: "int option \<Rightarrow> int \<Rightarrow> bool" where
  "shouldRunCreatedIntentExpirySweep lastSweepAtMs now =
     (case lastSweepAtMs of None \<Rightarrow> True | Some l \<Rightarrow> CREATED_INTENT_EXPIRY_SWEEP_INTERVAL_MS \<le> now - l)"

subsection \<open>Closing and modifying\<close>

record broker_close =
  bc_closePrice :: "jsnum option"
  bc_realizedPnl :: "jsnum option"

datatype close_reason =
    Position_not_found | Already_closed | No_broker_position | External_position | Stale_state
  | Not_open string | Invalid_stop_loss | Modify_failed

definition find_owned :: "string \<Rightarrow> string \<Rightarrow> db \<Rightarrow> position_row option" where
  "find_owned u pid d = find (\<lambda>p. ps_id p = pid \<and> ps_userId p = u) (db_positions d)"

definition closeMt5LocalPosition ::
  "string \<Rightarrow> string \<Rightarrow> bool option \<Rightarrow> db_error + broker_close \<Rightarrow> int \<Rightarrow> (db, bool \<times> close_reason option) prog" where
  "closeMt5LocalPosition u pid ownedByRegimeX answer now =
     bind (query (find_owned u pid)) (\<lambda>r. case r of
       None \<Rightarrow> Done (False, Some Position_not_found)
     | Some p \<Rightarrow>
         if ps_status p = ''CLOSED'' then Done (True, Some Already_closed)
         else if \<not> truthy (ps_brokerPositionId p) then Done (False, Some No_broker_position)
         else if ownedByRegimeX = Some False then Done (False, Some External_position)
         else bind (ask answer) (\<lambda>c.
              bind (closeLocalPositionIfCloseable (ps_id p)
                     \<lparr>cl_closePrice = bc_closePrice c, cl_realizedPnl = bc_realizedPnl c, cl_closeReason = ''MANUAL'',
                      cl_closedAt = now\<rparr>) (\<lambda>applied.
                if \<not> fst applied then Done (True, Some Stale_state)
                else bind recordPositionEvent (\<lambda>_. Done (True, None)))))"

definition emergency_close_one ::
  "position_row list \<Rightarrow> (string \<Rightarrow> db_error + broker_close) \<Rightarrow> int \<Rightarrow> string \<Rightarrow> (db, string list \<times> string list) prog" where
  "emergency_close_one localOpen answer now ident =
     catch
       (bind (ask (answer ident)) (\<lambda>c.
          case find (\<lambda>p. ps_brokerPositionId p = Some ident) localOpen of
            None \<Rightarrow> Done ([], [ident])
          | Some p \<Rightarrow>
              bind (closeLocalPositionIfCloseable (ps_id p)
                     \<lparr>cl_closePrice = bc_closePrice c, cl_realizedPnl = bc_realizedPnl c, cl_closeReason = ''RISK_SHUTDOWN'',
                      cl_closedAt = now\<rparr>) (\<lambda>applied. Done (if fst applied then ([ident], []) else ([], [])))))
       (\<lambda>_. Done ([], [ident]))"

definition local_open :: "string \<Rightarrow> db \<Rightarrow> position_row list" where
  "local_open u d =
     filter (\<lambda>p. ps_userId p = u \<and> ps_status p \<in> {''OPEN'', ''PENDING'', ''OPEN_REQUESTED''}) (db_positions d)"

definition emergencyCloseOwnedMt5Positions ::
  "string \<Rightarrow> bridge_position list \<Rightarrow> int \<Rightarrow> (string \<Rightarrow> db_error + broker_close) \<Rightarrow> int \<Rightarrow>
   (db, string list \<times> string list \<times> string list) prog" where
  "emergencyCloseOwnedMt5Positions u brokerOpen magic answer now =
     bind (query (local_open u)) (\<lambda>localOpen.
       let (close, skip) = selectMt5PositionsForEmergencyClose brokerOpen
                             (filter (\<lambda>b. b \<noteq> []) (List.map_filter ps_brokerPositionId localOpen)) magic
       in bind (for_each (emergency_close_one localOpen answer now) close) (\<lambda>rs.
            Done (concat (List.map fst rs), skip, concat (List.map snd rs))))"

definition modifyMt5LocalPosition ::
  "string \<Rightarrow> string \<Rightarrow> bool option \<Rightarrow> jsnum \<Rightarrow> jsnum option option \<Rightarrow> db_error + unit \<Rightarrow> (db, bool \<times> close_reason option) prog" where
  "modifyMt5LocalPosition u pid ownedByRegimeX stopLoss target answer =
     bind (query (find_owned u pid)) (\<lambda>r. case r of
       None \<Rightarrow> Done (False, Some Position_not_found)
     | Some p \<Rightarrow>
         if ps_status p \<noteq> ''OPEN'' then Done (False, Some (Not_open (ps_status p)))
         else if \<not> truthy (ps_brokerPositionId p) then Done (False, Some No_broker_position)
         else if ownedByRegimeX = Some False then Done (False, Some External_position)
         else if \<not> is_finite stopLoss \<or> \<not> 0 < stopLoss then Done (False, Some Invalid_stop_loss)
         else let existing = (case target of Some tp \<Rightarrow> tp | None \<Rightarrow> ps_takeProfit p)
              in bind (catch (bind (ask answer) (\<lambda>_. Done True)) (\<lambda>_. Done False)) (\<lambda>ok.
                   if \<not> ok then Done (False, Some Modify_failed)
                   else bind (attempt (update_position_row (ps_id p)
                          (\<lambda>p. p\<lparr>ps_stopLoss := stopLoss, ps_takeProfit := keep_unless existing (ps_takeProfit p)\<rparr>)))
                        (\<lambda>_. bind recordPositionEvent (\<lambda>_. Done (True, None)))))"

end
