(* ===== verification/RecoverySystem.thy ===== *)
theory RecoverySystem
  imports Recovery
begin

text \<open>
  Startup recovery, the sweep of stale intents, closing and modifying, served together with the requests
  of \<open>IntentSystem\<close>.  Two interpretations of \<open>guarded_system\<close>: the capacity of a user holds whatever
  interleaves (the adoption of legacy rows excepted, which breaks it), and recovery and sweep submit
  nothing.  Run alone, the sweep touches only stale intents and their positions.
\<close>

subsection \<open>The jobs\<close>

datatype job =
    Job_request request
  | Job_startup adapter jsnum string
  | Job_legacy adapter "string \<Rightarrow> string" string
  | Job_sweep adapter string int
  | Job_close string string "bool option" "db_error + broker_close" int
  | Job_emergency string "bridge_position list" int "string \<Rightarrow> db_error + broker_close" int
  | Job_modify string string "bool option" jsnum "jsnum option option" "db_error + unit"

fun serve_job :: "(string \<Rightarrow> int) \<Rightarrow> (string \<Rightarrow> string) \<Rightarrow> nat \<Rightarrow> job \<Rightarrow> (db, unit) prog" where
  "serve_job hashtext orderComment t (Job_request r) = serve hashtext orderComment t r"
| "serve_job hashtext orderComment t (Job_startup ad age u) = void (recover_intents ad age u)"
| "serve_job hashtext orderComment t (Job_legacy ad sym_of u) = void (recover_legacy ad sym_of u)"
| "serve_job hashtext orderComment t (Job_sweep ad u now) = void (expireStaleCreatedExecutionIntents ad u now)"
| "serve_job hashtext orderComment t (Job_close u pid owned answer now) =
     void (closeMt5LocalPosition u pid owned answer now)"
| "serve_job hashtext orderComment t (Job_emergency u open_ps magic answer now) =
     void (emergencyCloseOwnedMt5Positions u open_ps magic answer now)"
| "serve_job hashtext orderComment t (Job_modify u pid owned stop target answer) =
     void (modifyMt5LocalPosition u pid owned stop target answer)"

fun capped_job :: "(string \<Rightarrow> nat) \<Rightarrow> job \<Rightarrow> bool" where
  "capped_job cap (Job_request r) = within_cap cap r"
| "capped_job cap (Job_legacy _ _ _) = False"
| "capped_job cap _ = True"

fun recovery_job :: "job \<Rightarrow> bool" where
  "recovery_job (Job_startup _ _ _) = True"
| "recovery_job (Job_legacy _ _ _) = True"
| "recovery_job (Job_sweep _ _ _) = True"
| "recovery_job _ = False"

subsection \<open>Calls\<close>

lemma for_each_ok:
  assumes "\<And>x. upholds I R G (\<lambda>_. True) (f x)"
  shows "upholds I R G P (for_each f xs)"
proof -
  have "upholds I R G (\<lambda>_. True) (for_each f xs)"
    by (induction xs) (auto intro!: upholds_bind assms up_done)
  then show ?thesis by (rule upholds_weaken) simp
qed

lemma for_each_mem_ok:
  assumes "\<And>x. x \<in> set xs \<Longrightarrow> upholds I R G (\<lambda>_. True) (f x)"
  shows "upholds I R G P (for_each f xs)"
proof -
  have "upholds I R G (\<lambda>_. True) (for_each f xs)"
    using assms by (induction xs) (auto intro!: upholds_bind up_done)
  then show ?thesis by (rule upholds_weaken) simp
qed

lemma ask_ok:
  assumes "\<And>s. I s \<Longrightarrow> G s s"
  shows "upholds I R G P (ask r)"
  unfolding ask_def
  by (rule up_atomic) (auto simp: assms intro!: exI [of _ "\<lambda>_. True"] up_done up_throw split: sum.splits)

lemma diverge_ok: "upholds I R G P diverge"
  unfolding diverge_def by (rule up_atomic) simp

lemma ask_guar: "upholds I R (thread_guar h t) P (ask r)"
  by (rule ask_ok) simp

lemma event_guar: "upholds I R (thread_guar h t) P recordPositionEvent"
  unfolding recordPositionEvent_def by (rule ask_guar)

subsection \<open>Capacity\<close>

lemma update_intent_ok:
  assumes "\<And>t. intent_evolves t (f t)"
    and "\<And>t. isTerminalExecutionIntentState (it_state (f t)) \<or> isUnresolvedExecutionIntentState (it_state (f t))"
  shows "upholds (system_inv cap) R (thread_guar h t) P (attempt (update_intent_row iid f))"
proof (rule upholds_attempt)
  fix d e x assume d: "system_inv cap d" "update_intent_row iid f d = Inr (e, x)"
  show "system_inv cap e \<and> thread_guar h t d e"
    by (rule row_change_ok [OF d(1)]) (use update_intent_row_ok [OF d] assms in auto)
qed simp

lemma update_created_ok:
  assumes "\<And>t. intent_evolves t (f t)"
    and "\<And>t. isTerminalExecutionIntentState (it_state (f t)) \<or> isUnresolvedExecutionIntentState (it_state (f t))"
  shows "upholds (system_inv cap) R (thread_guar h t) P (update_created iid f)"
  unfolding update_created_def
proof (rule upholds_command)
  fix d assume d: "system_inv cap d"
  let ?q = "\<lambda>t. it_id t = iid \<and> it_state t = ''CREATED'' \<and> it_submittedAt t = None"
  let ?e = "d\<lparr>db_intents := List.map (\<lambda>t. if ?q t then f t else t) (db_intents d)\<rparr>"
  have "system_inv cap ?e \<and> thread_guar h t d ?e"
    by (rule row_change_ok [OF d])
      (use d assms in \<open>auto simp: system_inv_def known_states_def intro!: rows_evolve_map\<close>)
  then show "system_inv cap (fst (let q = ?q in (d\<lparr>db_intents := List.map (\<lambda>t. if q t then f t else t) (db_intents d)\<rparr>,
        length (filter q (db_intents d))))) \<and>
      thread_guar h t d (fst (let q = ?q in (d\<lparr>db_intents := List.map (\<lambda>t. if q t then f t else t) (db_intents d)\<rparr>,
        length (filter q (db_intents d)))))"
    by (simp add: Let_def)
qed

lemma update_position_ok:
  assumes "\<And>p. position_evolves p (f p)"
  shows "upholds (system_inv cap) R (thread_guar h t) P (attempt (update_position_row pid f))"
proof (rule upholds_attempt)
  fix d e x assume d: "system_inv cap d" "update_position_row pid f d = Inr (e, x)"
  show "system_inv cap e \<and> thread_guar h t d e"
    by (rule row_change_ok [OF d(1)])
      (use update_position_row_ok [OF d(2) assms] d(1) in \<open>auto simp: system_inv_def known_states_def\<close>)
qed simp

lemmas call_oks = upholds_bind upholds_catch query_ok ask_guar event_guar void_ok for_each_ok diverge_ok up_done up_throw
  update_intent_ok update_created_ok update_position_ok mark_ok fail_closed_ok close_ok recover_ok

lemma job_ok:
  "capped_job cap j \<Longrightarrow>
     upholds (system_inv cap) (thread_rely h t) (thread_guar h t) (\<lambda>_. True) (serve_job h oc t j)"
proof (cases j)
  case (Job_startup ad age u)
  have "upholds (system_inv cap) (thread_rely h t) (thread_guar h t) (\<lambda>_. True)
      (resolveCreatedExecutionIntentOnStartup i p q a age now)" for i p q a now
    unfolding resolveCreatedExecutionIntentOnStartup_def by (auto intro!: call_oks split: sum.splits option.splits)
  then have "upholds (system_inv cap) (thread_rely h t) (thread_guar h t) (\<lambda>_. True) (startup_created ad age i p q inst)" for i p q inst
    unfolding startup_created_def by (auto intro!: call_oks split: sum.splits option.splits)
  then have "upholds (system_inv cap) (thread_rely h t) (thread_guar h t) (\<lambda>_. True) (startup_intent ad age i)" for i
    unfolding startup_intent_def Let_def
    by (auto intro!: call_oks simp: state_simps split: option.splits)
  then show ?thesis unfolding Job_startup serve_job.simps recover_intents_def by (intro call_oks)
next
  case (Job_sweep ad u now)
  have "upholds (system_inv cap) (thread_rely h t) (thread_guar h t) (\<lambda>_. True) (sweep_pending ad i p)" for i p
    unfolding sweep_pending_def Let_def by (auto intro!: call_oks split: option.splits)
  then have "upholds (system_inv cap) (thread_rely h t) (thread_guar h t) (\<lambda>_. True) (sweep_intent ad now i)" for i
    unfolding sweep_intent_def sweep_found_def Let_def by (auto intro!: call_oks simp: state_simps split: option.splits)
  then show ?thesis unfolding Job_sweep serve_job.simps expireStaleCreatedExecutionIntents_def by (intro call_oks)
next
  case (Job_emergency u open_ps magic answer now)
  have "upholds (system_inv cap) (thread_rely h t) (thread_guar h t) (\<lambda>_. True) (emergency_close_one l answer now i)" for l i
    unfolding emergency_close_one_def by (auto intro!: call_oks split: option.splits)
  then show ?thesis
    unfolding Job_emergency serve_job.simps emergencyCloseOwnedMt5Positions_def Let_def
    by (auto intro!: call_oks split: prod.splits)
qed (auto intro!: call_oks serve_ok simp: closeMt5LocalPosition_def modifyMt5LocalPosition_def Let_def position_evolves_def
    split: option.splits)

interpretation jobs: guarded_system "serve_job hashtext orderComment" "{j. capped_job cap j}"
    "system_inv cap" "thread_rely hashtext" "thread_guar hashtext" evolves
  for hashtext orderComment cap
proof
  show "upholds (system_inv cap) (thread_rely hashtext t) (thread_guar hashtext t) (\<lambda>_. True)
      (serve_job hashtext orderComment t j)" if "j \<in> {j. capped_job cap j}" for j t
    using that job_ok by simp
qed (auto intro: thread_guar_rely evolves_trans simp: thread_guar_def)


subsection \<open>What recovery leaves alone\<close>

text \<open>A calm change submits nothing, and changes only intents of \<open>I\<close> and positions of \<open>P\<close>.\<close>

definition intent_calm :: "string set \<Rightarrow> intent_row \<Rightarrow> intent_row \<Rightarrow> bool" where
  "intent_calm I t x \<longleftrightarrow> it_id x = it_id t \<and> it_submittedAt x = it_submittedAt t \<and>
     (it_state x = ''SUBMITTED'' \<longrightarrow> it_state t = ''SUBMITTED'') \<and> (it_id t \<notin> I \<longrightarrow> x = t)"

definition position_calm :: "string set \<Rightarrow> position_row \<Rightarrow> position_row \<Rightarrow> bool" where
  "position_calm P p q \<longleftrightarrow> ps_id q = ps_id p \<and> (ps_id p \<notin> P \<longrightarrow> q = p)"

definition calm :: "string set \<Rightarrow> string set \<Rightarrow> db \<Rightarrow> db \<Rightarrow> bool" where
  "calm I P d e \<longleftrightarrow> list_all2 (intent_calm I) (db_intents d) (db_intents e) \<and>
     list_all2 (position_calm P) (db_positions d) (db_positions e)"

lemma row_calm_refl [simp]: "intent_calm I t t" "position_calm P p p"
  by (simp_all add: intent_calm_def position_calm_def)

lemma calm_refl [simp]: "calm I P d d"
  by (simp add: calm_def list_all2_refl)

lemma row_calm_trans:
  "intent_calm I t x \<Longrightarrow> intent_calm I x y \<Longrightarrow> intent_calm I t y"
  "position_calm P p q \<Longrightarrow> position_calm P q r \<Longrightarrow> position_calm P p r"
  unfolding intent_calm_def position_calm_def by metis+

lemma calm_trans: "calm I P d e \<Longrightarrow> calm I P e f \<Longrightarrow> calm I P d f"
  unfolding calm_def
  by (elim conjE, intro conjI; rule list_all2_trans, erule (1) row_calm_trans, assumption, assumption)

lemma list_all2_map_if: "(\<And>x. R x x) \<Longrightarrow> (\<And>x. q x \<Longrightarrow> R x (f x)) \<Longrightarrow> list_all2 R xs (List.map (\<lambda>x. if q x then f x else x) xs)"
  by (simp add: list_all2_conv_all_nth)

lemma list_all2_update_first: "(\<And>x. R x x) \<Longrightarrow> (\<And>x. q x \<Longrightarrow> R x (f x)) \<Longrightarrow> list_all2 R xs (update_first q f xs)"
  by (induction xs) (auto simp: list_all2_refl)

abbreviation calmly :: "string set \<Rightarrow> string set \<Rightarrow> (db, 'a) prog \<Rightarrow> bool" where
  "calmly I P p \<equiv> upholds (\<lambda>_. True) (\<lambda>_ _. True) (calm I P) (\<lambda>_. True) p"

lemma calm_query: "calmly I P (query g)"
  by (rule upholds_query) simp

lemma calm_ask: "calmly I P (ask r)" "calmly I P recordPositionEvent"
  unfolding recordPositionEvent_def by (rule ask_ok, simp)+

lemma calm_intent:
  assumes "iid \<in> I" and "\<And>t. it_id (f t) = it_id t \<and> it_submittedAt (f t) = it_submittedAt t \<and> it_state (f t) \<noteq> ''SUBMITTED''"
  shows "calmly I P (attempt (update_intent_row iid f))"
proof (rule upholds_attempt)
  fix d e x assume "update_intent_row iid f d = Inr (e, x)"
  then have "e = d\<lparr>db_intents := update_first (\<lambda>t. it_id t = iid) f (db_intents d)\<rparr>"
    by (auto simp: update_intent_row_def split: option.splits)
  then show "True \<and> calm I P d e" using assms
    by (auto simp: calm_def list_all2_refl intro!: list_all2_update_first) (auto simp: intent_calm_def)
qed simp

lemma calm_created:
  assumes "iid \<in> I" and "\<And>t. it_id (f t) = it_id t \<and> it_submittedAt (f t) = it_submittedAt t \<and> it_state (f t) \<noteq> ''SUBMITTED''"
  shows "calmly I P (update_created iid f)"
  unfolding update_created_def
  by (rule upholds_command)
    (use assms in \<open>auto simp: Let_def calm_def list_all2_refl intent_calm_def intro!: list_all2_map_if\<close>)

lemma calm_signal: "calmly I P (attempt (update_signal_row sid f))"
  by (rule upholds_attempt) (auto simp: update_signal_row_def calm_def list_all2_refl split: if_splits)

lemma calm_position:
  assumes "pid \<in> P" and "\<And>p. ps_id (f p) = ps_id p"
  shows "calmly I P (attempt (update_position_row pid f))"
proof (rule upholds_attempt)
  fix d e x assume "update_position_row pid f d = Inr (e, x)"
  then have "e = d\<lparr>db_positions := update_first (\<lambda>p. ps_id p = pid) f (db_positions d)\<rparr>"
    by (auto simp: update_position_row_def split: option.splits)
  then show "True \<and> calm I P d e" using assms
    by (auto simp: calm_def list_all2_refl intro!: list_all2_update_first) (auto simp: position_calm_def)
qed simp

lemma calm_positions:
  assumes "\<And>p. q p \<Longrightarrow> ps_id p \<in> P \<and> ps_id (f p) = ps_id p"
  shows "calmly I P (update_positions q f)"
  unfolding update_positions_def
  by (rule upholds_attempt)
    (use assms in \<open>auto simp: Let_def calm_def list_all2_refl position_calm_def intro!: list_all2_map_if split: if_splits\<close>)

lemma calm_transition:
  assumes "iid \<in> I" and "\<And>t. it_id (f t) = it_id t \<and> it_submittedAt (f t) = it_submittedAt t \<and> it_state (f t) \<noteq> ''SUBMITTED''"
  shows "calmly I P (transition_intent iid s f)"
  unfolding transition_intent_def
  by (auto intro!: upholds_bind calm_query calm_intent assms up_done up_throw split: option.splits)

lemma calm_mark:
  assumes "iid \<in> I"
  shows "calmly I P (markExecutionIntentBrokerConfirmed iid b now)" "calmly I P (markExecutionIntentPersisted iid now)"
    "calmly I P (markExecutionIntentRejected iid c m now)" "calmly I P (markExecutionIntentRecovered iid b now)"
  unfolding markExecutionIntentBrokerConfirmed_def markExecutionIntentPersisted_def markExecutionIntentRejected_def
    markExecutionIntentRecovered_def
  by (rule calm_transition [OF assms]; simp)+

lemma calm_fail_closed:
  assumes "iid \<in> I" "pid \<in> P"
  shows "calmly I P (failClosedPendingExecution pid iid c m now)"
  unfolding failClosedPendingExecution_def using assms
  by (auto intro!: upholds_bind calm_query calm_positions calm_mark up_done split: option.splits)

lemma calm_recover:
  assumes "it_id i \<in> I" "pid \<in> P"
  shows "calmly I P (tryRecoverExecutionIntentFromBroker i pid a now)"
proof -
  have "calmly I P (persistPositionOpenFromBrokerResult pid sid (it_id i) r now)" for sid r
    unfolding persistPositionOpenFromBrokerResult_def using assms
    by (auto intro!: upholds_bind calm_query calm_positions calm_signal calm_mark up_done split: option.splits)
  then show ?thesis
    unfolding tryRecoverExecutionIntentFromBroker_def
    by (auto intro!: upholds_bind calm_mark assms up_done split: option.splits)
qed

text \<open>A position found by its id has that id.\<close>

lemma calm_found:
  assumes "calmly I P (k None)" and "\<And>p. ps_id p = pid \<Longrightarrow> calmly I P (k (Some p))"
  shows "calmly I P (bind (query (find_position pid)) k)"
proof (rule query_then [where Q = "\<lambda>r _. \<forall>p. r = Some p \<longrightarrow> ps_id p = pid"])
  show "upholds (\<lambda>_. True) (\<lambda>_ _. True) (calm I P) (\<lambda>_. \<forall>p. r = Some p \<longrightarrow> ps_id p = pid) (k r)" for r
  proof (cases "\<forall>p. r = Some p \<longrightarrow> ps_id p = pid")
    case True
    then have "calmly I P (k r)" using assms by (cases r) auto
    then show ?thesis by (rule upholds_weaken) simp
  next
    case False
    then show ?thesis by (cases "k r") (auto intro: up_done up_throw up_atomic)
  qed
qed (auto simp: stable_def find_position_def dest: find_SomeD)

lemmas calm_calls = upholds_bind calm_query calm_ask for_each_ok diverge_ok up_done up_throw calm_intent calm_created
  calm_position calm_mark calm_fail_closed calm_recover

lemma calm_sweep_intent:
  assumes "it_id t \<in> I" and "or_default (it_positionId t) [] \<in> P"
  shows "calmly I P (sweep_intent ad now t)"
proof -
  have pending: "calmly I P (sweep_pending ad t p)" if "ps_id p \<in> P" for p
    unfolding sweep_pending_def Let_def using that assms by (auto intro!: calm_calls split: option.splits)
  have "calmly I P (bind (query (find_position (or_default (it_positionId t) []))) (sweep_found ad t))"
    by (rule calm_found) (use assms in \<open>auto simp: sweep_found_def intro!: upholds_bind calm_created pending up_done\<close>)
  then show ?thesis by (simp add: sweep_intent_def Let_def up_done)
qed

lemma calm_created_startup: "calmly UNIV UNIV (startup_created ad age i p q inst)"
proof -
  have "calmly UNIV UNIV (resolveCreatedExecutionIntentOnStartup i p q a age now)" for a now
    unfolding resolveCreatedExecutionIntentOnStartup_def by (auto intro!: calm_calls split: sum.splits option.splits)
  note resolve = this
  show ?thesis
    unfolding startup_created_def by (auto intro!: upholds_bind resolve diverge_ok up_done up_throw split: sum.splits option.splits)
qed

lemma calm_startup_intent: "calmly UNIV UNIV (startup_intent ad age t)"
  unfolding startup_intent_def Let_def void_def
  by (auto intro!: upholds_bind calm_query calm_ask calm_intent up_done calm_mark calm_recover calm_created_startup
      split: option.splits)

lemma calm_legacy: "calmly UNIV UNIV (adopt_legacy ad f row)"
  unfolding adopt_legacy_def Let_def by (auto intro!: calm_calls split: option.splits)

lemma recovery_job_calm: "recovery_job j \<Longrightarrow> calmly UNIV UNIV (serve_job h oc t j)"
  by (cases j)
    (auto intro!: calm_calls calm_sweep_intent calm_startup_intent calm_legacy
      simp: void_def recover_intents_def recover_legacy_def expireStaleCreatedExecutionIntents_def)

interpretation recovery: guarded_system "serve_job hashtext orderComment" "{j. recovery_job j}"
    "\<lambda>_. True" "\<lambda>_ _ _. True" "\<lambda>_. calm UNIV UNIV" "calm UNIV UNIV"
  for hashtext orderComment
proof
  show "calmly UNIV UNIV (serve_job hashtext orderComment t j)" if "j \<in> {j. recovery_job j}" for j t
    using that recovery_job_calm by simp
qed (auto intro: calm_trans)

text \<open>Run alone, a program does what its calls may do.\<close>

lemma calm_exec: "calmly I P p \<Longrightarrow> exec p d = Some (e, r) \<Longrightarrow> calm I P d e"
proof (induction p arbitrary: d rule: prog_call_induct)
  case (Atomic f)
  from Atomic.prems(2) obtain s' q where f: "f d = Some (s', q)" "exec q s' = Some (e, r)"
    by (auto split: option.splits)
  have c: "calm I P d s' \<and> (\<exists>Q. stable (\<lambda>_. True) (\<lambda>_ _. True) Q \<and> Q s' \<and> upholds (\<lambda>_. True) (\<lambda>_ _. True) (calm I P) Q q)"
    by (rule upholds_AtomicE [OF Atomic.prems(1)]) (use f(1) in blast)
  then have "calmly I P q" by (auto simp: stable_def elim!: upholds_weaken)
  then show ?case using Atomic.IH [OF f(1)] f(2) c calm_trans by blast
qed auto


lemma for_each_outcomes:
  "exec (for_each f xs) d = Some (e, Inr ys) \<Longrightarrow> length ys = length xs"
  by (induction xs arbitrary: d ys) (auto split: option.splits sum.splits)

lemma sweep_totals_sum:
  assumes "sweep_totals os = (n, a, b, c)"
  shows "n = a + b + c"
proof -
  have "x = Swept_expired \<or> x = Swept_recovered \<or> x = Swept_skipped" for x by (cases x) simp_all
  then have "length os = length (filter (\<lambda>x. x = Swept_expired) os) + length (filter (\<lambda>x. x = Swept_recovered) os)
      + length (filter (\<lambda>x. x = Swept_skipped) os)"
    by (induction os) auto
  then show ?thesis using assms by (simp add: sweep_totals_def)
qed

section \<open>Properties\<close>

text \<open>Capacity while everything runs.  However reservations, transitions, startup recovery, sweeps,
  manual and emergency closing and modification interleave, call by call, no user ever holds more
  capacity-consuming engine positions than the cap all its reservations respect.\<close>

theorem runtime_capacity:
  assumes "\<forall>u. countMt5ConsumedCapacitySlots u start \<le> cap u" and "known_states start"
    and "sys_reach (serve_job hashtext orderComment) {j. capped_job cap j} (start, []) (d, ps)"
  shows "countMt5ConsumedCapacitySlots u d \<le> cap u"
  using jobs.reach_inv [OF _ assms(3)] assms(1,2) by (simp add: system_inv_def)

text \<open>C28: recovery never submits.  Whatever startup recoveries and sweeps run at once, they create no
  intent, mark none submitted and change no submission time: what was never sent to the broker is not
  sent by recovery, and what was sent is remembered as sent.\<close>

theorem recovery_never_submits:
  assumes "sys_reach (serve_job hashtext orderComment) {j. recovery_job j} (d, []) (e, ps)"
  shows "list_all2 (\<lambda>t x. it_id x = it_id t \<and> it_submittedAt x = it_submittedAt t \<and>
       (it_state x = ''SUBMITTED'' \<longrightarrow> it_state t = ''SUBMITTED'')) (db_intents d) (db_intents e) \<and>
     List.map ps_id (db_positions e) = List.map ps_id (db_positions d)"
proof -
  have c: "calm UNIV UNIV d e"
    by (rule recovery.reach_trace [OF _ rtranclp.rtrancl_refl assms]) simp
  have "List.map ps_id ys = List.map ps_id xs" if "list_all2 (position_calm UNIV) xs ys" for xs ys
    using that by (induction rule: list_all2_induct) (auto simp: position_calm_def)
  then show ?thesis
    using c by (auto simp: calm_def intent_calm_def elim!: list_all2_mono)
qed

text \<open>C29: the sweep touches only what is stale.  Run alone it examines at most fifty intents, accounts
  for each, and leaves alone every intent that is not a stale one it examined and every position that
  belongs to none of them.\<close>

theorem sweep_touches_only_stale:
  assumes "exec (expireStaleCreatedExecutionIntents ad u now) d = Some (e, r)" and "ts = stale_intents u now d"
  shows "list_all2 (\<lambda>t x. it_id x = it_id t \<and> (it_id t \<notin> it_id ` set ts \<longrightarrow> x = t)) (db_intents d) (db_intents e) \<and>
     list_all2 (\<lambda>p q. ps_id q = ps_id p \<and>
       (ps_id p \<notin> (\<lambda>t. or_default (it_positionId t) []) ` set ts \<longrightarrow> q = p)) (db_positions d) (db_positions e) \<and>
     (\<forall>t \<in> set ts. stale_created u now t) \<and>
     (\<forall>n a b c. r = Inr (n, a, b, c) \<longrightarrow> n = length ts \<and> n \<le> 50 \<and> n = a + b + c)"
proof -
  let ?I = "it_id ` set ts" and ?P = "(\<lambda>t. or_default (it_positionId t) []) ` set ts"
  let ?p = "bind (for_each (sweep_intent ad now) ts) (\<lambda>os. Done (sweep_totals os))"
  have ex: "exec ?p d = Some (e, r)"
    using assms by (simp add: expireStaleCreatedExecutionIntents_def)
  have "calmly ?I ?P ?p"
    by (intro upholds_bind for_each_mem_ok up_done calm_sweep_intent) simp_all
  then have c: "calm ?I ?P d e" using ex by (rule calm_exec)
  have "n = length ts \<and> n \<le> 50 \<and> n = a + b + c" if r: "r = Inr (n, a, b, c)" for n a b c
  proof -
    obtain os where os: "exec (for_each (sweep_intent ad now) ts) d = Some (e, Inr os)" "sweep_totals os = (n, a, b, c)"
      using ex r by (auto split: option.splits sum.splits)
    have "length ts \<le> 50" by (simp add: assms(2) stale_intents_def CREATED_INTENT_EXPIRY_SWEEP_LIMIT_def)
    then show ?thesis
      using for_each_outcomes [OF os(1)] sweep_totals_sum [OF os(2)] os(2) by (simp add: sweep_totals_def)
  qed
  moreover have "\<forall>t \<in> set ts. stale_created u now t"
    by (auto simp: assms(2) stale_intents_def dest!: in_set_takeD)
  ultimately show ?thesis
    using c by (auto simp: calm_def intent_calm_def position_calm_def elim!: list_all2_mono)
qed


subsection \<open>Concrete instances\<close>

definition demo_instrument :: instrument where
  "demo_instrument =
     \<lparr>inst_symbol = ''V10'', enabled = True, verified = True, contractSize = 1, volumeStep = 1, minVolume = 1,
      maxVolume = 10, tickSize = 1, tickValue = 1, marginRate = 1, spreadBps = None, slippageBps = None,
      pricePrecision = 2, currency = ''USD''\<rparr>"

definition demo_adapter :: "(string \<Rightarrow> open_result option) \<Rightarrow> adapter" where
  "demo_adapter adopt =
     \<lparr>ad_quote = (\<lambda>_. Some \<lparr>mq_bid = 99, mq_ask = 100, mq_timestamp = 0\<rparr>), ad_instrument = (\<lambda>_. Some demo_instrument),
      ad_live = (\<lambda>_. None), ad_adopt = adopt, ad_clock = (\<lambda>_. 7)\<rparr>"

text \<open>Two reservations against one slot, with a sweep and a startup recovery in between.\<close>

definition busy_jobs :: "job event list" where
  "busy_jobs =
     [Accept (Job_request (Create ''p'' ''i'' 0 demo_input)), Perform 0, Perform 0, Perform 0, Perform 0, Perform 0,
      Accept (Job_sweep (demo_adapter (\<lambda>_. None)) ''u'' 99999999), Perform 1, Perform 1, Perform 1, Perform 1,
      Accept (Job_startup (demo_adapter (\<lambda>_. None)) 5 ''u''), Perform 2, Perform 1, Perform 1, Perform 1, Perform 2,
      Accept (Job_request (Create ''p2'' ''i2'' 0 (demo_input\<lparr>pi_signalId := ''s2''\<rparr>))),
      Perform 3, Perform 3, Perform 3, Perform 3, Perform 3]"

theorem runtime_capacity_witness:
  "\<exists>d ps. sys_reach (serve_job (\<lambda>_. 0) (\<lambda>k. k)) {j. capped_job (\<lambda>_. 1) j} (empty_db, []) (d, ps) \<and>
     List.map ps_status (db_positions d) = [''REJECTED'', ''PENDING''] \<and> countMt5ConsumedCapacitySlots ''u'' d \<le> 1"
proof -
  let ?r = "run (sched_step (serve_job (\<lambda>_. 0) (\<lambda>k. k))) (empty_db, []) busy_jobs"
  have s: "List.map ps_status (db_positions (fst ?r)) = [''REJECTED'', ''PENDING'']" by code_simp
  obtain d ps where r: "?r = (d, ps)" by (cases ?r) auto
  have reach: "sys_reach (serve_job (\<lambda>_. 0) (\<lambda>k. k)) {j. capped_job (\<lambda>_. 1) j} (empty_db, []) ?r"
    by (rule sched_reach) (auto simp: busy_jobs_def demo_input_def)
  have "countMt5ConsumedCapacitySlots ''u'' d \<le> 1"
    by (rule runtime_capacity [OF _ _ reach [unfolded r]])
      (simp_all add: empty_db_def countMt5ConsumedCapacitySlots_def known_states_def)
  with s reach r show ?thesis by (intro exI [of _ d] exI [of _ ps]) simp
qed

definition stale_db :: db where
  "stale_db = demo_db\<lparr>db_intents := [demo_intent, demo_intent\<lparr>it_id := ''j'', it_createdAt := 99999999\<rparr>]\<rparr>"

theorem sweep_touches_only_stale_witness:
  "\<exists>e r. exec (expireStaleCreatedExecutionIntents (demo_adapter (\<lambda>_. None)) ''u'' 99999999) stale_db = Some (e, r) \<and>
     List.map it_state (db_intents e) = [''REJECTED'', ''CREATED''] \<and>
     (\<forall>n a b c. r = Inr (n, a, b, c) \<longrightarrow> n \<le> 50 \<and> n = a + b + c)"
proof -
  let ?x = "exec (expireStaleCreatedExecutionIntents (demo_adapter (\<lambda>_. None)) ''u'' 99999999) stale_db"
  have "(case ?x of None \<Rightarrow> False | Some (e, _) \<Rightarrow> List.map it_state (db_intents e) = [''REJECTED'', ''CREATED''])"
    by code_simp
  then obtain e r where x: "?x = Some (e, r)" "List.map it_state (db_intents e) = [''REJECTED'', ''CREATED'']"
    by (auto split: option.splits)
  from sweep_touches_only_stale [OF x(1) refl] x show ?thesis by (intro exI [of _ e] exI [of _ r]) simp
qed

definition restart_jobs :: "job event list" where
  "restart_jobs =
     [Accept (Job_startup (demo_adapter (\<lambda>_. None)) 5 ''u''), Accept (Job_sweep (demo_adapter (\<lambda>_. None)) ''u'' 99999999),
      Perform 0, Perform 1, Perform 0, Perform 1, Perform 1, Perform 0, Perform 1, Perform 1]"

theorem recovery_never_submits_witness:
  "\<exists>e ps. sys_reach (serve_job (\<lambda>_. 0) (\<lambda>k. k)) {j. recovery_job j} (stale_db, []) (e, ps) \<and>
     List.map it_submittedAt (db_intents e) = [None, None]"
proof -
  let ?r = "run (sched_step (serve_job (\<lambda>_. 0) (\<lambda>k. k))) (stale_db, []) restart_jobs"
  obtain d ps where r: "?r = (d, ps)" by (cases ?r) auto
  have reach: "sys_reach (serve_job (\<lambda>_. 0) (\<lambda>k. k)) {j. recovery_job j} (stale_db, []) ?r"
    by (rule sched_reach) (auto simp: restart_jobs_def)
  from recovery_never_submits [OF reach [unfolded r]]
  have "List.map it_submittedAt (db_intents d) = [None, None]"
    by (auto simp: stale_db_def demo_intent_def createExecutionIntentRow_def Let_def list_all2_Cons1)
  with reach r show ?thesis by (intro exI [of _ d] exI [of _ ps]) simp
qed

text \<open>C39: adopting a legacy row breaks the capacity.  The adoption reads the pending rows, asks the
  broker, and then opens the row whatever its status became.  Here the row is closed in between, its slot
  is given to another signal, and the adoption reopens the closed row: two slots where one is allowed.\<close>

definition legacy_db :: db where
  "legacy_db = empty_db\<lparr>db_positions := [demo_position]\<rparr>"

definition legacy_jobs :: "job event list" where
  "legacy_jobs =
     [Accept (Job_legacy (demo_adapter (\<lambda>_. Some demo_fill)) (\<lambda>s. s) ''u''), Perform 0, Perform 0,
      Accept (Job_request (Close ''p'' \<lparr>cl_closePrice = None, cl_realizedPnl = None, cl_closeReason = ''MANUAL'',
        cl_closedAt = 5\<rparr>)), Perform 1, Perform 1,
      Accept (Job_request (Create ''p2'' ''i2'' 0 (demo_input\<lparr>pi_signalId := ''s2''\<rparr>))),
      Perform 2, Perform 2, Perform 2, Perform 2, Perform 2, Perform 0, Perform 0]"


text \<open>C39: one malformed intent stops recovery.  Extracting the frozen parameters of a created intent
  without a take profit raises, and nothing catches it: the intents after it, here one whose order the
  broker has filled, are not recovered.\<close>

definition malformed_db :: db where
  "malformed_db = empty_db\<lparr>
     db_positions := [demo_position, demo_position\<lparr>ps_id := ''q'', ps_idempotencyKey := ''signal:s2''\<rparr>],
     db_intents := [demo_intent\<lparr>it_requestedTakeProfit := None\<rparr>,
       demo_intent\<lparr>it_id := ''j'', it_positionId := Some ''q'', it_signalId := ''s2'', it_createdAt := 1,
         it_idempotencyKey := ''signal:s2'', it_state := ''SUBMITTED'', it_submittedAt := Some 2\<rparr>]\<rparr>"

theorem missing_target_stops_recovery:
  "\<exists>e. exec (recoverUnresolvedMt5ExecutionIntents
     (demo_adapter (\<lambda>k. if k = ''signal:s2'' then Some demo_fill else None)) (\<lambda>s. s) 5 ''u'') malformed_db =
       Some (e, Inl Missing_take_profit) \<and>
     List.map ps_status (db_positions e) = [''PENDING'', ''PENDING''] \<and>
     List.map it_state (db_intents e) = [''CREATED'', ''SUBMITTED'']"
proof -
  let ?x = "exec (recoverUnresolvedMt5ExecutionIntents
     (demo_adapter (\<lambda>k. if k = ''signal:s2'' then Some demo_fill else None)) (\<lambda>s. s) 5 ''u'') malformed_db"
  have "case exec (recoverUnresolvedMt5ExecutionIntents
     (demo_adapter (\<lambda>k. if k = ''signal:s2'' then Some demo_fill else None)) (\<lambda>s. s) 5 ''u'') malformed_db of
       Some (e, Inl x) \<Rightarrow> x = Missing_take_profit \<and> List.map ps_status (db_positions e) = [''PENDING'', ''PENDING''] \<and>
         List.map it_state (db_intents e) = [''CREATED'', ''SUBMITTED'']
     | _ \<Rightarrow> False" by code_simp
  then obtain e b where x: "?x = Some (e, b)" and b: "case b of
       Inl x \<Rightarrow> x = Missing_take_profit \<and> List.map ps_status (db_positions e) = [''PENDING'', ''PENDING''] \<and>
         List.map it_state (db_intents e) = [''CREATED'', ''SUBMITTED'']
     | Inr _ \<Rightarrow> False"
    by (cases ?x) (auto simp del: exec_bind)
  from x b show ?thesis by (cases b) auto
qed

end
