(* ===== verification/Indicators.thy ===== *)
theory Indicators
  imports Candles
begin

text \<open>
  The indicator library (\<^verbatim>\<open>packages/indicators/src/series.ts\<close> and \<^verbatim>\<open>candles.ts\<close>).  A series
  is a list; an output entry is \<open>None\<close> while history is insufficient.  A loop that carries variables
  from index to index is an \<open>index_loop\<close>; a loop that fills each entry on its own is a map over the
  indices.  Periods are natural numbers; \<open>Math.sqrt\<close> is an argument, since numbers are exact here.
  The locale \<open>indicator\<close> states the contract the library documents: an output is aligned with its input,
  and its entry at an index is computed from the inputs up to that index only.
\<close>

section \<open>Loops over a series\<close>

fun index_loop :: "(nat \<Rightarrow> 's \<Rightarrow> 's \<times> 'b) \<Rightarrow> nat \<Rightarrow> nat \<Rightarrow> 's \<Rightarrow> 'b list" where
  "index_loop step i 0 s = []"
| "index_loop step i (Suc k) s = (case step i s of (s', y) \<Rightarrow> y # index_loop step (Suc i) k s')"

lemma length_index_loop [simp]: "length (index_loop step i k s) = k"
  by (induction k arbitrary: i s) (auto split: prod.splits)

lemma take_index_loop: "take n (index_loop step i k s) = index_loop step i (min n k) s"
proof (induction k arbitrary: i n s)
  case (Suc k)
  then show ?case by (cases n) (auto split: prod.splits)
qed simp

lemma index_loop_cong:
  "(\<And>j s. i \<le> j \<Longrightarrow> j < i + k \<Longrightarrow> f j s = g j s) \<Longrightarrow> index_loop f i k s = index_loop g i k s"
proof (induction k arbitrary: i s)
  case (Suc k)
  have "f i s = g i s" using Suc.prems by simp
  moreover have "index_loop f (Suc i) k s' = index_loop g (Suc i) k s'" for s'
    using Suc.prems by (intro Suc.IH) simp
  ultimately show ?case by (auto split: prod.splits)
qed simp

text \<open>The state before an index.\<close>

fun loop_state :: "(nat \<Rightarrow> 's \<Rightarrow> 's \<times> 'b) \<Rightarrow> 's \<Rightarrow> nat \<Rightarrow> 's" where
  "loop_state step s 0 = s"
| "loop_state step s (Suc i) = fst (step i (loop_state step s i))"

lemma index_loop_from:
  "j < k \<Longrightarrow> index_loop step i k (loop_state step s i) ! j = snd (step (i + j) (loop_state step s (i + j)))"
proof (induction k arbitrary: i j)
  case (Suc k)
  show ?case
  proof (cases j)
    case (Suc j')
    have "index_loop step (Suc i) k (loop_state step s (Suc i)) ! j' =
        snd (step (Suc i + j') (loop_state step s (Suc i + j')))"
      using Suc.IH [of j' "Suc i"] Suc.prems Suc by simp
    then show ?thesis using Suc by (simp split: prod.splits) (metis fst_conv)
  qed (simp split: prod.splits)
qed simp

lemma index_loop_nth: "j < k \<Longrightarrow> index_loop step 0 k s ! j = snd (step j (loop_state step s j))"
  using index_loop_from [of j k step 0 s] by simp

section \<open>No look-ahead\<close>

definition causal :: "('a list \<Rightarrow> 'b list) \<Rightarrow> bool" where
  "causal F \<longleftrightarrow> (\<forall>xs. length (F xs) = length xs) \<and> (\<forall>xs n. F (take n xs) = take n (F xs))"

locale indicator =
  fixes F :: "'a list \<Rightarrow> 'b list"
  assumes aligned: "length (F xs) = length xs"
    and no_look_ahead: "F (take n xs) = take n (F xs)"
begin

lemma same_past:
  assumes "i < length xs" "i < length ys" "take (Suc i) xs = take (Suc i) ys"
  shows "F xs ! i = F ys ! i"
proof -
  have "take (Suc i) (F xs) = take (Suc i) (F ys)" using assms(3) no_look_ahead by metis
  then have "take (Suc i) (F xs) ! i = take (Suc i) (F ys) ! i" by simp
  then show ?thesis by simp
qed

lemma prefix_entry: "i < n \<Longrightarrow> F (take n xs) ! i = F xs ! i"
  by (simp add: no_look_ahead)

lemma appending: "F (xs @ ys) = F xs @ drop (length xs) (F (xs @ ys))"
  using no_look_ahead [of "length xs" "xs @ ys"] by (metis append_eq_conv_conj append_take_drop_id)

end

lemma causal_indicator: "causal F \<longleftrightarrow> indicator F"
  by (auto simp: causal_def indicator_def)

named_theorems causal_intros \<open>compositions of causal functions\<close>

lemma causal_length: "causal F \<Longrightarrow> length (F xs) = length xs"
  by (simp add: causal_def)

lemma causal_nth: "causal F \<Longrightarrow> j < n \<Longrightarrow> F (take n xs) ! j = F xs ! j"
  by (simp add: causal_def)

lemma causal_id [causal_intros]: "causal (\<lambda>xs. xs)"
  by (simp add: causal_def)

lemma causal_map [causal_intros]: "causal F \<Longrightarrow> causal (\<lambda>xs. List.map f (F xs))"
  by (simp add: causal_def take_map)

lemma causal_comp: "causal G \<Longrightarrow> causal F \<Longrightarrow> causal (\<lambda>xs. G (F xs))"
  by (simp add: causal_def)

lemma causal_loop:
  assumes "\<And>xs n j s. j < n \<Longrightarrow> n \<le> length xs \<Longrightarrow> step (take n xs) j s = step xs j s"
  shows "causal (\<lambda>xs. index_loop (step xs) 0 (length xs) s)"
  unfolding causal_def
proof (intro conjI allI)
  fix xs n
  show "index_loop (step (take n xs)) 0 (length (take n xs)) s = take n (index_loop (step xs) 0 (length xs) s)"
  proof (cases "n \<le> length xs")
    case True
    have "index_loop (step (take n xs)) 0 n s = index_loop (step xs) 0 n s"
      by (rule index_loop_cong) (use True assms in simp)
    then show ?thesis using True by (simp add: take_index_loop min_def)
  next
    case False
    then show ?thesis by (simp add: take_index_loop min_def)
  qed
qed simp

lemma causal_index:
  assumes "\<And>xs n j. j < n \<Longrightarrow> n \<le> length xs \<Longrightarrow> g (take n xs) j = g xs j"
  shows "causal (\<lambda>xs. List.map (g xs) [0..<length xs])"
  unfolding causal_def
proof (intro conjI allI)
  fix xs n
  show "List.map (g (take n xs)) [0..<length (take n xs)] = take n (List.map (g xs) [0..<length xs])"
    by (cases "n \<le> length xs") (auto simp: take_map assms min_def)
qed simp

section \<open>Series\<close>

definition num :: "nat \<Rightarrow> jsnum" where "num n = Fin (of_nat n)"

datatype indicator_error = Period_too_small

text \<open>The sum of \<open>f j\<close> in the order of the indices, as an accumulating loop computes it.\<close>

definition sum_over :: "(nat \<Rightarrow> jsnum) \<Rightarrow> nat list \<Rightarrow> jsnum" where
  "sum_over f js = foldl (\<lambda>s j. s + f j) 0 js"

definition sma_step :: "jsnum list \<Rightarrow> nat \<Rightarrow> nat \<Rightarrow> jsnum \<Rightarrow> jsnum \<times> jsnum option" where
  "sma_step values period i tot =
     (let t1 = tot + values ! i;
          t2 = (if period \<le> i then t1 - values ! (i - period) else t1)
      in (t2, if period \<le> Suc i then Some (t2 / num period) else None))"

definition sma_loop :: "nat \<Rightarrow> jsnum list \<Rightarrow> jsnum option list" where
  "sma_loop period values = index_loop (sma_step values period) 0 (length values) 0"

definition sma :: "jsnum list \<Rightarrow> nat \<Rightarrow> indicator_error + jsnum option list" where
  "sma values period = (if period < 1 then Inl Period_too_small else Inr (sma_loop period values))"

definition ema_step :: "jsnum list \<Rightarrow> nat \<Rightarrow> nat \<Rightarrow> jsnum option \<times> jsnum \<Rightarrow> (jsnum option \<times> jsnum) \<times> jsnum option" where
  "ema_step values period i s =
     (let v = values ! i; k = 2 / num (period + 1)
      in case fst s of
           None \<Rightarrow> (let seed = snd s + v; prev = (if Suc i = period then Some (seed / num period) else None)
                    in ((prev, seed), prev))
         | Some p \<Rightarrow> (let e = v * k + p * (1 - k) in ((Some e, snd s), Some e)))"

definition ema_loop :: "nat \<Rightarrow> jsnum list \<Rightarrow> jsnum option list" where
  "ema_loop period values = index_loop (ema_step values period) 0 (length values) (None, 0)"

definition ema :: "jsnum list \<Rightarrow> nat \<Rightarrow> indicator_error + jsnum option list" where
  "ema values period = (if period < 1 then Inl Period_too_small else Inr (ema_loop period values))"

definition rsi_of :: "jsnum \<Rightarrow> jsnum \<Rightarrow> jsnum" where
  "rsi_of avgGain avgLoss = (if avgLoss = 0 then 100 else 100 - 100 / (1 + avgGain / avgLoss))"

definition rsi_step :: "jsnum list \<Rightarrow> nat \<Rightarrow> nat \<Rightarrow> jsnum \<times> jsnum \<Rightarrow> (jsnum \<times> jsnum) \<times> jsnum option" where
  "rsi_step values period i s =
     (if i = 0 then (s, None)
      else let change = values ! i - values ! (i - 1); gain = js_max change 0; loss = js_max (- change) 0
           in if i \<le> period
              then let g = fst s + gain / num period; l = snd s + loss / num period
                   in ((g, l), if i = period then Some (rsi_of g l) else None)
              else let g = (fst s * (num period - 1) + gain) / num period;
                       l = (snd s * (num period - 1) + loss) / num period
                   in ((g, l), Some (rsi_of g l)))"

definition rsi_loop :: "nat \<Rightarrow> jsnum list \<Rightarrow> jsnum option list" where
  "rsi_loop period values = index_loop (rsi_step values period) 0 (length values) (0, 0)"

definition rsi :: "jsnum list \<Rightarrow> nat \<Rightarrow> indicator_error + jsnum option list" where
  "rsi values period = (if period < 1 then Inl Period_too_small else Inr (rsi_loop period values))"

definition rollingStdDev :: "(jsnum \<Rightarrow> jsnum) \<Rightarrow> nat \<Rightarrow> jsnum list \<Rightarrow> jsnum option list" where
  "rollingStdDev root_of period values = List.map (\<lambda>i.
     if period \<le> Suc i
     then let js = [Suc i - period..<Suc i]; mean = sum_over (\<lambda>j. values ! j) js / num period;
              sq = sum_over (\<lambda>j. (values ! j - mean) * (values ! j - mean)) js
          in Some (root_of (sq / num period))
     else None) [0..<length values]"

record bollinger_point =
  bb_upper :: jsnum
  bb_middle :: jsnum
  bb_lower :: jsnum
  bb_width :: jsnum

definition bollinger_at :: "jsnum \<Rightarrow> jsnum option \<Rightarrow> jsnum option \<Rightarrow> bollinger_point option" where
  "bollinger_at mul m s =
     (case (m, s) of
        (Some mid, Some sd) \<Rightarrow>
          if mid = 0 then None
          else let upper = mid + mul * sd; lower = mid - mul * sd
               in Some \<lparr>bb_upper = upper, bb_middle = mid, bb_lower = lower, bb_width = (upper - lower) / mid\<rparr>
      | _ \<Rightarrow> None)"

definition bollinger_loop :: "(jsnum \<Rightarrow> jsnum) \<Rightarrow> nat \<Rightarrow> jsnum \<Rightarrow> jsnum list \<Rightarrow> bollinger_point option list" where
  "bollinger_loop root_of period mul values = List.map (\<lambda>i.
     bollinger_at mul (sma_loop period values ! i) (rollingStdDev root_of period values ! i)) [0..<length values]"

definition bollingerBands ::
  "(jsnum \<Rightarrow> jsnum) \<Rightarrow> jsnum list \<Rightarrow> nat \<Rightarrow> jsnum \<Rightarrow> indicator_error + bollinger_point option list" where
  "bollingerBands root_of values period mul =
     (case sma values period of Inl e \<Rightarrow> Inl e | Inr _ \<Rightarrow> Inr (bollinger_loop root_of period mul values))"

record macd_point =
  md_macd :: jsnum
  md_signal :: jsnum
  md_histogram :: jsnum

definition macd_line :: "nat \<Rightarrow> nat \<Rightarrow> jsnum list \<Rightarrow> jsnum option list" where
  "macd_line fastPeriod slowPeriod values = List.map (\<lambda>i.
     case (ema_loop fastPeriod values ! i, ema_loop slowPeriod values ! i) of
       (Some f, Some s) \<Rightarrow> Some (f - s) | _ \<Rightarrow> None) [0..<length values]"

definition macd_signal :: "nat \<Rightarrow> jsnum list \<Rightarrow> macd_point option list" where
  "macd_signal signalPeriod packed = List.map (\<lambda>i.
     case ema_loop signalPeriod packed ! i of
       None \<Rightarrow> None
     | Some s \<Rightarrow> Some \<lparr>md_macd = packed ! i, md_signal = s, md_histogram = packed ! i - s\<rparr>) [0..<length packed]"

definition macd_from :: "nat \<Rightarrow> jsnum option list \<Rightarrow> macd_point option list" where
  "macd_from signalPeriod line =
     (let firstIdx = length (takeWhile (\<lambda>v. v = None) line)
      in replicate firstIdx None @ macd_signal signalPeriod (List.map (\<lambda>v. or_default v 0) (drop firstIdx line)))"

definition macd_loop :: "nat \<Rightarrow> nat \<Rightarrow> nat \<Rightarrow> jsnum list \<Rightarrow> macd_point option list" where
  "macd_loop fastPeriod slowPeriod signalPeriod values = macd_from signalPeriod (macd_line fastPeriod slowPeriod values)"

definition macd :: "jsnum list \<Rightarrow> nat \<Rightarrow> nat \<Rightarrow> nat \<Rightarrow> indicator_error + macd_point option list" where
  "macd values fastPeriod slowPeriod signalPeriod =
     (if fastPeriod < 1 \<or> slowPeriod < 1 then Inl Period_too_small
      else if list_all (\<lambda>v. v = None) (macd_line fastPeriod slowPeriod values) then Inr (replicate (length values) None)
      else if signalPeriod < 1 then Inl Period_too_small
      else Inr (macd_loop fastPeriod slowPeriod signalPeriod values))"

definition rateOfChange :: "nat \<Rightarrow> jsnum list \<Rightarrow> jsnum option list" where
  "rateOfChange period values = List.map (\<lambda>i.
     if period \<le> i \<and> values ! (i - period) \<noteq> 0
     then Some ((values ! i - values ! (i - period)) / values ! (i - period)) else None) [0..<length values]"

definition highestHigh :: "nat \<Rightarrow> jsnum list \<Rightarrow> jsnum option list" where
  "highestHigh period values = List.map (\<lambda>i.
     if period \<le> i then Some (foldl (\<lambda>m j. js_max m (values ! j)) NegInf [i - period..<i]) else None) [0..<length values]"

definition lowestLow :: "nat \<Rightarrow> jsnum list \<Rightarrow> jsnum option list" where
  "lowestLow period values = List.map (\<lambda>i.
     if period \<le> i then Some (foldl (\<lambda>m j. js_min m (values ! j)) PosInf [i - period..<i]) else None) [0..<length values]"

record donchian_point =
  dc_upper :: jsnum
  dc_lower :: jsnum
  dc_middle :: jsnum

definition donchian_at :: "jsnum option \<Rightarrow> jsnum option \<Rightarrow> donchian_point option" where
  "donchian_at u l =
     (case (u, l) of (Some a, Some b) \<Rightarrow> Some \<lparr>dc_upper = a, dc_lower = b, dc_middle = (a + b) / 2\<rparr> | _ \<Rightarrow> None)"

definition donchianChannel :: "nat \<Rightarrow> jsnum list \<Rightarrow> jsnum list \<Rightarrow> donchian_point option list" where
  "donchianChannel period highs lows = List.map (\<lambda>i.
     donchian_at (highestHigh period highs ! i) (lowestLow period lows ! i)) [0..<length highs]"

definition trendSlope :: "nat \<Rightarrow> jsnum list \<Rightarrow> jsnum option list" where
  "trendSlope period values = List.map (\<lambda>i.
     if period \<le> Suc i
     then let y = (\<lambda>j. values ! (Suc i - period + j)); js = [0..<period]; n = num period;
              sumX = sum_over num js; sumY = sum_over y js;
              sumXY = sum_over (\<lambda>j. num j * y j) js; sumXX = sum_over (\<lambda>j. num j * num j) js;
              denom = n * sumXX - sumX * sumX;
              slope = (n * sumXY - sumX * sumY) / denom; mean = sumY / n
          in if denom = 0 then None else if mean \<noteq> 0 then Some (slope / mean) else None
     else None) [0..<length values]"

definition recentReturn :: "nat \<Rightarrow> jsnum list \<Rightarrow> jsnum option list" where
  "recentReturn = rateOfChange"

definition count_step :: "(jsnum \<Rightarrow> jsnum \<Rightarrow> bool) \<Rightarrow> jsnum list \<Rightarrow> nat \<Rightarrow> nat \<Rightarrow> nat \<times> nat" where
  "count_step beats values i prev =
     (let n = (if 0 < i \<and> beats (values ! i) (values ! (i - 1)) then prev + 1 else 0) in (n, n))"

definition consecutiveHigherHighs :: "jsnum list \<Rightarrow> nat list" where
  "consecutiveHigherHighs values = index_loop (count_step (\<lambda>x y. y < x) values) 0 (length values) 0"

definition consecutiveLowerLows :: "jsnum list \<Rightarrow> nat list" where
  "consecutiveLowerLows values = index_loop (count_step (\<lambda>x y. x < y) values) 0 (length values) 0"

definition percentileRank :: "nat \<Rightarrow> jsnum list \<Rightarrow> jsnum option list" where
  "percentileRank period values = List.map (\<lambda>i.
     if period \<le> Suc i
     then let below = length (filter (\<lambda>j. values ! j < values ! i) [Suc i - period..<Suc i])
          in Some (num below / num (if period - 1 = 0 then 1 else period - 1) * 100)
     else None) [0..<length values]"

fun insert_num :: "jsnum \<Rightarrow> jsnum list \<Rightarrow> jsnum list" where
  "insert_num x [] = [x]"
| "insert_num x (y # ys) = (if y < x then y # insert_num x ys else x # y # ys)"

definition sort_num :: "jsnum list \<Rightarrow> jsnum list" where
  "sort_num xs = foldr insert_num xs []"

definition rollingMedian :: "nat \<Rightarrow> jsnum list \<Rightarrow> jsnum option list" where
  "rollingMedian period values = List.map (\<lambda>i.
     if period \<le> Suc i
     then let w = sort_num (List.map (\<lambda>j. values ! j) [Suc i - period..<Suc i]); mid = length w div 2
          in Some (if even (length w) then (w ! (mid - 1) + w ! mid) / 2 else w ! mid)
     else None) [0..<length values]"

section \<open>Candles\<close>

definition true_range_at :: "candle list \<Rightarrow> nat \<Rightarrow> jsnum" where
  "true_range_at cs i =
     (let c = cs ! i; prevClose = c_close (cs ! (i - 1))
      in if i = 0 then c_high c - c_low c
         else js_max (c_high c - c_low c) (js_max (js_abs (c_high c - prevClose)) (js_abs (c_low c - prevClose))))"

definition trueRange :: "candle list \<Rightarrow> jsnum list" where
  "trueRange cs = List.map (true_range_at cs) [0..<length cs]"

definition atr_step :: "jsnum list \<Rightarrow> nat \<Rightarrow> nat \<Rightarrow> jsnum option \<times> jsnum \<Rightarrow> (jsnum option \<times> jsnum) \<times> jsnum option" where
  "atr_step tr period i s =
     (case fst s of
        None \<Rightarrow> (let seed = snd s + tr ! i; prev = (if Suc i = period then Some (seed / num period) else None)
                 in ((prev, seed), prev))
      | Some p \<Rightarrow> (let a = (p * (num period - 1) + tr ! i) / num period in ((Some a, snd s), Some a)))"

definition atr :: "nat \<Rightarrow> candle list \<Rightarrow> jsnum option list" where
  "atr period cs = index_loop (atr_step (trueRange cs) period) 0 (length (trueRange cs)) (None, 0)"

definition atrPercent :: "nat \<Rightarrow> candle list \<Rightarrow> jsnum option list" where
  "atrPercent period cs = List.map (\<lambda>i.
     case atr period cs ! i of
       Some v \<Rightarrow> if c_close (cs ! i) \<noteq> 0 then Some (v / c_close (cs ! i)) else None
     | None \<Rightarrow> None) [0..<length cs]"

definition directional :: "candle list \<Rightarrow> nat \<Rightarrow> jsnum \<times> jsnum" where
  "directional cs i =
     (if i = 0 then (0, 0)
      else let upMove = c_high (cs ! i) - c_high (cs ! (i - 1)); downMove = c_low (cs ! (i - 1)) - c_low (cs ! i)
           in (if downMove < upMove \<and> 0 < upMove then upMove else 0,
               if upMove < downMove \<and> 0 < downMove then downMove else 0))"

definition dx_of :: "jsnum \<Rightarrow> jsnum \<Rightarrow> jsnum \<Rightarrow> jsnum option" where
  "dx_of smTr smPlus smMinus =
     (if smTr = 0 then None
      else let pdi = 100 * smPlus / smTr; mdi = 100 * smMinus / smTr; tot = pdi + mdi
           in Some (if tot = 0 then 0 else 100 * js_abs (pdi - mdi) / tot))"

definition dx_step :: "candle list \<Rightarrow> nat \<Rightarrow> nat \<Rightarrow> jsnum \<times> jsnum \<times> jsnum \<Rightarrow> (jsnum \<times> jsnum \<times> jsnum) \<times> jsnum option" where
  "dx_step cs period i s =
     (case s of (smTr, smPlus, smMinus) \<Rightarrow>
        let tr = true_range_at cs i; (plusDM, minusDM) = directional cs i
        in if i = 0 then (s, None)
           else if i \<le> period
           then let t = smTr + tr; p = smPlus + plusDM; m = smMinus + minusDM
                in ((t, p, m), if i < period then None else dx_of t p m)
           else let t = smTr - smTr / num period + tr; p = smPlus - smPlus / num period + plusDM;
                    m = smMinus - smMinus / num period + minusDM
                in ((t, p, m), dx_of t p m))"

definition dx_series :: "nat \<Rightarrow> candle list \<Rightarrow> jsnum option list" where
  "dx_series period cs = index_loop (dx_step cs period) 0 (length cs) (0, 0, 0)"

definition adx_step ::
  "jsnum option list \<Rightarrow> nat \<Rightarrow> nat \<Rightarrow> jsnum option \<times> jsnum \<times> nat \<Rightarrow> (jsnum option \<times> jsnum \<times> nat) \<times> jsnum option" where
  "adx_step dx period i s =
     (case s of (prev, seedSum, seedCount) \<Rightarrow>
        case dx ! i of
          None \<Rightarrow> (s, None)
        | Some d \<Rightarrow>
            (case prev of
               None \<Rightarrow>
                 (let a = (if seedCount + 1 = period then Some ((seedSum + d) / num period) else None)
                  in ((a, seedSum + d, seedCount + 1), a))
             | Some p \<Rightarrow>
                 (let a = (p * (num period - 1) + d) / num period in ((Some a, seedSum, seedCount), Some a))))"

definition adx_loop :: "nat \<Rightarrow> jsnum option list \<Rightarrow> jsnum option list" where
  "adx_loop period dx = index_loop (adx_step dx period) 0 (length dx) (None, 0, 0)"

definition adx :: "nat \<Rightarrow> candle list \<Rightarrow> jsnum option list" where
  "adx period cs = adx_loop period (dx_series period cs)"

definition candleBodySize :: "candle list \<Rightarrow> jsnum list" where
  "candleBodySize cs = List.map (\<lambda>c. js_abs (c_close c - c_open c)) cs"
definition upperWickSize :: "candle list \<Rightarrow> jsnum list" where
  "upperWickSize cs = List.map (\<lambda>c. c_high c - js_max (c_open c) (c_close c)) cs"
definition lowerWickSize :: "candle list \<Rightarrow> jsnum list" where
  "lowerWickSize cs = List.map (\<lambda>c. js_min (c_open c) (c_close c) - c_low c) cs"
definition candleRange :: "candle list \<Rightarrow> jsnum list" where
  "candleRange cs = List.map (\<lambda>c. c_high c - c_low c) cs"

definition distance_from :: "jsnum option \<Rightarrow> jsnum \<Rightarrow> jsnum option" where
  "distance_from e close = (case e of Some v \<Rightarrow> if v \<noteq> 0 then Some ((close - v) / v) else None | None \<Rightarrow> None)"

definition distanceFromEma :: "candle list \<Rightarrow> nat \<Rightarrow> indicator_error + jsnum option list" where
  "distanceFromEma cs period =
     (case ema (List.map c_close cs) period of
        Inl e \<Rightarrow> Inl e
      | Inr es \<Rightarrow> Inr (List.map (\<lambda>i. distance_from (es ! i) (c_close (cs ! i))) [0..<length cs]))"


section \<open>Every indicator is causal\<close>

lemma causal_sma [causal_intros]: "causal (sma_loop p)"
  unfolding sma_loop_def by (rule causal_loop) (simp add: sma_step_def Let_def)

lemma causal_ema [causal_intros]: "causal (ema_loop p)"
  unfolding ema_loop_def by (rule causal_loop) (simp add: ema_step_def)

lemma causal_rsi [causal_intros]: "causal (rsi_loop p)"
  unfolding rsi_loop_def by (rule causal_loop) (simp add: rsi_step_def)

lemma sum_over_cong: "(\<And>j. j \<in> set js \<Longrightarrow> f j = g j) \<Longrightarrow> sum_over f js = sum_over g js"
  unfolding sum_over_def by (rule foldl_cong) auto

lemma causal_std [causal_intros]: "causal (rollingStdDev r p)"
  unfolding rollingStdDev_def
proof (rule causal_index)
  fix xs :: "jsnum list" and n i assume "i < n" "n \<le> length xs"
  then have e: "sum_over (\<lambda>j. take n xs ! j) [Suc i - p..<Suc i] = sum_over (\<lambda>j. xs ! j) [Suc i - p..<Suc i]"
    "sum_over (\<lambda>j. (take n xs ! j - m) * (take n xs ! j - m)) [Suc i - p..<Suc i] =
     sum_over (\<lambda>j. (xs ! j - m) * (xs ! j - m)) [Suc i - p..<Suc i]" for m
    by (auto intro!: sum_over_cong)
  show "(if p \<le> Suc i
     then let js = [Suc i - p..<Suc i]; mean = sum_over (\<lambda>j. take n xs ! j) js / num p;
              sq = sum_over (\<lambda>j. (take n xs ! j - mean) * (take n xs ! j - mean)) js
          in Some (r (sq / num p)) else None) =
    (if p \<le> Suc i
     then let js = [Suc i - p..<Suc i]; mean = sum_over (\<lambda>j. xs ! j) js / num p;
              sq = sum_over (\<lambda>j. (xs ! j - mean) * (xs ! j - mean)) js
          in Some (r (sq / num p)) else None)"
    by (simp add: Let_def e del: upt_Suc)
qed

lemma causal_bollinger [causal_intros]: "causal (bollinger_loop r p m)"
  unfolding bollinger_loop_def
  by (rule causal_index) (simp add: causal_nth [OF causal_sma] causal_nth [OF causal_std])

lemma causal_macd_line: "causal (macd_line f s)"
  unfolding macd_line_def by (rule causal_index) (simp add: causal_nth [OF causal_ema])

lemma causal_macd_signal: "causal (macd_signal p)"
  unfolding macd_signal_def by (rule causal_index) (simp add: causal_nth [OF causal_ema] split: option.split)

lemma takeWhile_take: "takeWhile P (take n xs) = take n (takeWhile P xs)"
  by (induction xs arbitrary: n) (auto simp: take_Cons split: nat.splits)

lemma causal_macd_from: "causal (macd_from p)"
proof -
  have "macd_from p (take n xs) = take n (macd_from p xs)" for n xs
  proof (cases "length (takeWhile (\<lambda>v. v = None) xs) \<le> n")
    case True
    let ?k = "length (takeWhile (\<lambda>v. v = None) xs)"
    have "drop ?k (take n xs) = take (n - ?k) (drop ?k xs)" by (simp add: drop_take)
    moreover have "length (takeWhile (\<lambda>v. v = None) (take n xs)) = ?k"
      using True by (simp add: takeWhile_take)
    ultimately show ?thesis
      using causal_macd_signal [of p] True by (simp add: macd_from_def Let_def causal_def take_map [symmetric])
  next
    case False
    let ?k = "length (takeWhile (\<lambda>v. v = None) xs)"
    have k: "?k \<le> length xs" by (rule length_takeWhile_le)
    then have "length (takeWhile (\<lambda>v. v = None) (take n xs)) = n"
      using False by (simp add: takeWhile_take)
    then show ?thesis
      using False causal_length [OF causal_macd_signal, of p "[]"]
      by (simp add: macd_from_def Let_def)
  qed
  moreover have "length (macd_from p xs) = length xs" for xs
    using causal_length [OF causal_macd_signal] length_takeWhile_le [of "\<lambda>v. v = None" xs]
    by (simp add: macd_from_def Let_def)
  ultimately show ?thesis by (simp add: causal_def)
qed

lemma causal_macd [causal_intros]: "causal (macd_loop f s g)"
  unfolding macd_loop_def by (rule causal_comp [OF causal_macd_from causal_macd_line])

lemma causal_roc [causal_intros]: "causal (rateOfChange p)"
  unfolding rateOfChange_def by (rule causal_index) simp

lemma causal_highest [causal_intros]: "causal (highestHigh p)"
  unfolding highestHigh_def by (rule causal_index) (auto intro!: foldl_cong)

lemma causal_lowest [causal_intros]: "causal (lowestLow p)"
  unfolding lowestLow_def by (rule causal_index) (auto intro!: foldl_cong)

lemma causal_counts [causal_intros]: "causal consecutiveHigherHighs" "causal consecutiveLowerLows"
  unfolding consecutiveHigherHighs_def consecutiveLowerLows_def
  by (rule causal_loop; simp add: count_step_def)+

lemma causal_percentile [causal_intros]: "causal (percentileRank p)"
  unfolding percentileRank_def
proof (rule causal_index)
  fix xs :: "jsnum list" and n i assume "i < n" "n \<le> length xs"
  then have "filter (\<lambda>j. take n xs ! j < take n xs ! i) [Suc i - p..<Suc i] =
      filter (\<lambda>j. xs ! j < xs ! i) [Suc i - p..<Suc i]"
    by (intro filter_cong) auto
  then show "(if p \<le> Suc i
     then let below = length (filter (\<lambda>j. take n xs ! j < take n xs ! i) [Suc i - p..<Suc i])
          in Some (num below / num (if p - 1 = 0 then 1 else p - 1) * 100) else None) =
    (if p \<le> Suc i
     then let below = length (filter (\<lambda>j. xs ! j < xs ! i) [Suc i - p..<Suc i])
          in Some (num below / num (if p - 1 = 0 then 1 else p - 1) * 100) else None)"
    by (simp only:)
qed

lemma causal_slope [causal_intros]: "causal (trendSlope p)"
  unfolding trendSlope_def
proof (rule causal_index)
  fix xs :: "jsnum list" and n i assume i: "i < n" "n \<le> length xs"
  show "(if p \<le> Suc i
     then let y = (\<lambda>j. take n xs ! (Suc i - p + j)); js = [0..<p]; n = num p;
              sumX = sum_over num js; sumY = sum_over y js;
              sumXY = sum_over (\<lambda>j. num j * y j) js; sumXX = sum_over (\<lambda>j. num j * num j) js;
              denom = n * sumXX - sumX * sumX;
              slope = (n * sumXY - sumX * sumY) / denom; mean = sumY / n
          in if denom = 0 then None else if mean \<noteq> 0 then Some (slope / mean) else None
     else None) =
    (if p \<le> Suc i
     then let y = (\<lambda>j. xs ! (Suc i - p + j)); js = [0..<p]; n = num p;
              sumX = sum_over num js; sumY = sum_over y js;
              sumXY = sum_over (\<lambda>j. num j * y j) js; sumXX = sum_over (\<lambda>j. num j * num j) js;
              denom = n * sumXX - sumX * sumX;
              slope = (n * sumXY - sumX * sumY) / denom; mean = sumY / n
          in if denom = 0 then None else if mean \<noteq> 0 then Some (slope / mean) else None
     else None)"
  proof (cases "p \<le> Suc i")
    case True
    have "take n xs ! (Suc i - p + j) = xs ! (Suc i - p + j)" if "j < p" for j using True i that by simp
    then have "sum_over (\<lambda>j. take n xs ! (Suc i - p + j)) [0..<p] = sum_over (\<lambda>j. xs ! (Suc i - p + j)) [0..<p]"
      "sum_over (\<lambda>j. num j * take n xs ! (Suc i - p + j)) [0..<p] = sum_over (\<lambda>j. num j * xs ! (Suc i - p + j)) [0..<p]"
      by (auto intro!: sum_over_cong)
    then show ?thesis by (simp only: Let_def)
  qed simp
qed

lemma causal_median [causal_intros]: "causal (rollingMedian p)"
  unfolding rollingMedian_def
proof (rule causal_index)
  fix xs :: "jsnum list" and n i assume "i < n" "n \<le> length xs"
  then have "List.map (\<lambda>j. take n xs ! j) [Suc i - p..<Suc i] = List.map (\<lambda>j. xs ! j) [Suc i - p..<Suc i]"
    by auto
  then show "(if p \<le> Suc i
     then let w = sort_num (List.map (\<lambda>j. take n xs ! j) [Suc i - p..<Suc i]); mid = length w div 2
          in Some (if even (length w) then (w ! (mid - 1) + w ! mid) / 2 else w ! mid) else None) =
    (if p \<le> Suc i
     then let w = sort_num (List.map (\<lambda>j. xs ! j) [Suc i - p..<Suc i]); mid = length w div 2
          in Some (if even (length w) then (w ! (mid - 1) + w ! mid) / 2 else w ! mid) else None)"
    by (simp only:)
qed

lemma causal_true_range [causal_intros]: "causal trueRange"
  unfolding trueRange_def by (rule causal_index) (simp add: true_range_at_def)

lemma causal_atr [causal_intros]: "causal (atr p)"
proof -
  have "causal (\<lambda>tr. index_loop (atr_step tr p) 0 (length tr) (None, 0))"
    by (rule causal_loop) (simp add: atr_step_def split: option.split)
  then show ?thesis unfolding atr_def by (rule causal_comp [OF _ causal_true_range])
qed

lemma causal_atr_percent [causal_intros]: "causal (atrPercent p)"
  unfolding atrPercent_def by (rule causal_index) (simp add: causal_nth [OF causal_atr] split: option.split)

lemma candle_take:
  assumes "j < n" "n \<le> length cs"
  shows true_range_take: "true_range_at (take n cs) j = true_range_at cs j"
    and directional_take: "directional (take n cs) j = directional cs j"
  using assms by (simp_all add: true_range_at_def directional_def)

lemma causal_adx [causal_intros]: "causal (adx p)"
proof -
  have dx: "causal (dx_series p)"
    unfolding dx_series_def
    by (rule causal_loop) (simp add: dx_step_def directional_take true_range_take)
  have loop: "causal (adx_loop p)"
    unfolding adx_loop_def by (rule causal_loop) (simp add: adx_step_def)
  show ?thesis unfolding adx_def by (rule causal_comp [OF loop dx])
qed

interpretation sma: indicator "sma_loop p" for p
  using causal_sma by (simp add: causal_indicator)
interpretation ema: indicator "ema_loop p" for p
  using causal_ema by (simp add: causal_indicator)
interpretation rsi: indicator "rsi_loop p" for p
  using causal_rsi by (simp add: causal_indicator)
interpretation atr: indicator "atr p" for p
  using causal_atr by (simp add: causal_indicator)
interpretation adx: indicator "adx p" for p
  using causal_adx by (simp add: causal_indicator)


section \<open>What the indicators compute\<close>

lemma loop_invariant:
  assumes "P 0 s" and "\<And>j x. j < n \<Longrightarrow> P j x \<Longrightarrow> P (Suc j) (fst (step j x))"
  shows "P n (loop_state step s n)"
proof -
  have "i \<le> n \<Longrightarrow> P i (loop_state step s i)" for i
    by (induction i) (use assms in auto)
  then show ?thesis by simp
qed

lemma finite_nth: "list_all is_finite xs \<Longrightarrow> i < length xs \<Longrightarrow> xs ! i = Fin (rat_of (xs ! i))"
  by (simp add: list_all_length)

lemma sum_over_fin: "(\<And>j. j \<in> set js \<Longrightarrow> f j = Fin (g j)) \<Longrightarrow> sum_over f js = Fin (sum_list (List.map g js))"
proof -
  assume f: "\<And>j. j \<in> set js \<Longrightarrow> f j = Fin (g j)"
  have "foldl (\<lambda>s j. s + f j) (Fin a) js = Fin (a + sum_list (List.map g js))" for a
    using f by (induction js arbitrary: a) (auto simp: algebra_simps)
  from this [of 0] show ?thesis by (simp add: sum_over_def zero_jsnum_def)
qed

lemma num_pos: "0 < p \<Longrightarrow> num p = Fin (of_nat p) \<and> (of_nat p :: rat) \<noteq> 0"
  by (simp add: num_def)

text \<open>The running sum of the moving average is the sum of the window.\<close>

lemma sma_running_sum:
  assumes "list_all is_finite values" "i \<le> length values" "0 < p"
  shows "loop_state (sma_step values p) 0 i = Fin (\<Sum>j\<in>{i - p..<i}. rat_of (values ! j))"
  using assms(2)
proof (induction i)
  case (Suc i)
  let ?v = "\<lambda>j. rat_of (values ! j)"
  have v: "values ! i = Fin (?v i)" "values ! (i - p) = Fin (?v (i - p))"
    using finite_nth [OF assms(1)] Suc.prems by simp_all
  have window: "(\<Sum>j\<in>{Suc i - p..<Suc i}. ?v j) =
      (if p \<le> i then (\<Sum>j\<in>{i - p..<i}. ?v j) + ?v i - ?v (i - p) else (\<Sum>j\<in>{i - p..<i}. ?v j) + ?v i)"
  proof (cases "p \<le> i")
    case True
    then have "{Suc i - p..<Suc i} = insert i ({i - p..<i} - {i - p})" using assms(3) by auto
    then show ?thesis using True assms(3) by (simp add: sum_diff1 algebra_simps)
  next
    case False
    then have "Suc i - p = 0" "i - p = 0" by simp_all
    then show ?thesis using False by simp
  qed
  obtain a b where ab: "values ! i = Fin a" "values ! (i - p) = Fin b" using v by metis
  have "loop_state (sma_step values p) 0 i = Fin (\<Sum>j\<in>{i - p..<i}. ?v j)" using Suc by simp
  then have "loop_state (sma_step values p) 0 (Suc i) =
      (if p \<le> i then Fin ((\<Sum>j\<in>{i - p..<i}. ?v j) + a - b) else Fin ((\<Sum>j\<in>{i - p..<i}. ?v j) + a))"
    by (simp add: sma_step_def Let_def ab)
  then show ?case unfolding window by (simp add: ab)
qed (simp add: zero_jsnum_def)

lemma sma_loop_window:
  assumes "list_all is_finite values" "0 < p" "i < length values"
  shows "sma_loop p values ! i =
    (if p \<le> Suc i then Some (sum_over (\<lambda>j. values ! j) [Suc i - p..<Suc i] / num p) else None)"
proof -
  have f: "values ! j = Fin (rat_of (values ! j))" if "j \<in> set [Suc i - p..<Suc i]" for j
    by (rule finite_nth [OF assms(1)]) (use that assms(3) in auto)
  have "sum_over (\<lambda>j. values ! j) [Suc i - p..<Suc i] = Fin (\<Sum>j\<in>{Suc i - p..<Suc i}. rat_of (values ! j))"
    using sum_over_fin [of "[Suc i - p..<Suc i]" "\<lambda>j. values ! j", OF f]
    by (simp add: interv_sum_list_conv_sum_set_nat del: upt_Suc)
  moreover have "fst (sma_step values p i (loop_state (sma_step values p) 0 i)) =
      Fin (\<Sum>j\<in>{Suc i - p..<Suc i}. rat_of (values ! j))"
    using sma_running_sum [OF assms(1), of "Suc i" p] assms(2,3) by simp
  ultimately show ?thesis
    using assms(3) by (simp add: sma_loop_def index_loop_nth) (simp add: sma_step_def Let_def)
qed

text \<open>Oscillators stay between 0 and 100.\<close>

definition percent :: "jsnum option \<Rightarrow> bool" where
  "percent v \<longleftrightarrow> (case v of None \<Rightarrow> True | Some x \<Rightarrow> 0 \<le> x \<and> x \<le> 100)"

lemma percent_simps [simp]: "percent None" "percent (Some (Fin a)) \<longleftrightarrow> 0 \<le> a \<and> a \<le> 100"
  by (simp_all add: percent_def zero_jsnum_def)

lemma rsi_of_percent: "0 \<le> g \<Longrightarrow> 0 \<le> l \<Longrightarrow> percent (Some (rsi_of (Fin g) (Fin l)))"
proof (cases "l = 0")
  case False
  assume "0 \<le> g" "0 \<le> l"
  then have "0 < l" "0 \<le> g / l" using False by simp_all
  then have "0 \<le> 100 - 100 / (1 + g / l)" "1 + g / l \<noteq> 0" "0 \<le> 100 / (1 + g / l)" by (auto simp: field_simps)
  then show ?thesis using False by (simp add: rsi_of_def zero_jsnum_def one_jsnum_def)
qed (simp add: rsi_of_def zero_jsnum_def)

lemma rsi_percent:
  assumes "list_all is_finite values" "0 < p" "i < length values"
  shows "percent (rsi_loop p values ! i)"
proof -
  let ?ok = "\<lambda>s. \<exists>g l. s = (Fin g, Fin l) \<and> 0 \<le> g \<and> 0 \<le> l"
  have step: "?ok (fst (rsi_step values p j s)) \<and> percent (snd (rsi_step values p j s))"
    if "?ok s" "j < length values" for j s
  proof (cases "j = 0")
    case False
    obtain g l where s: "s = (Fin g, Fin l)" "0 \<le> g" "0 \<le> l" using \<open>?ok s\<close> by blast
    have "is_finite (values ! j)" "is_finite (values ! (j - Suc 0))"
      using assms(1) that(2) by (simp_all add: list_all_length)
    then obtain c where c: "values ! j - values ! (j - Suc 0) = Fin c"
      by (auto simp: is_finite_iff)
    have p: "(1 :: rat) \<le> of_nat p" using assms(2) by simp
    have "0 \<le> g + max c 0 / of_nat p" "0 \<le> l + max (- c) 0 / of_nat p"
      "0 \<le> (g * (of_nat p - 1) + max c 0) / of_nat p" "0 \<le> (l * (of_nat p - 1) + max (- c) 0) / of_nat p"
      using s p by (auto intro!: divide_nonneg_nonneg add_nonneg_nonneg mult_nonneg_nonneg)
    moreover have "(of_nat p :: rat) \<noteq> 0" using assms(2) by simp
    ultimately show ?thesis
      using False rsi_of_percent
      by (simp add: rsi_step_def Let_def c s(1) num_def zero_jsnum_def one_jsnum_def)
  qed (use that in \<open>simp add: rsi_step_def\<close>)
  have "?ok (loop_state (rsi_step values p) (0, 0) i)"
    by (rule loop_invariant [where P = "\<lambda>_. ?ok"]) (use step assms(3) in \<open>auto simp: zero_jsnum_def\<close>)
  from step [OF this] show ?thesis using assms(3) by (simp add: rsi_loop_def index_loop_nth)
qed

lemma percentile_percent: "i < length values \<Longrightarrow> 0 < p \<Longrightarrow> percent (percentileRank p values ! i)"
proof -
  assume i: "i < length values" and p: "0 < p"
  show ?thesis
  proof (cases "p \<le> Suc i")
    case True
    let ?js = "[Suc i - p..<Suc i]" and ?Q = "\<lambda>j. values ! j < values ! i"
    have irr: "\<not> values ! i < values ! i" by (cases "values ! i") simp_all
    have "length (filter ?Q js) \<le> length (filter (\<lambda>j. j \<noteq> i) js)" for js
      by (induction js) (use irr in auto)
    then have "length (filter ?Q ?js) \<le> length (filter (\<lambda>j. j \<noteq> i) ?js)" .
    also have "\<dots> = p - 1"
    proof -
      have "filter (\<lambda>j. j \<noteq> i) ?js = [Suc i - p..<i]" using p True by (simp add: filter_True)
      then show ?thesis using p True by simp
    qed
    finally have b: "length (filter ?Q ?js) \<le> p - 1" .
    let ?d = "if p - 1 = 0 then 1 else p - 1"
    have "(0 :: rat) \<le> of_nat (length (filter ?Q ?js)) / of_nat ?d * 100"
      "of_nat (length (filter ?Q ?js)) / of_nat ?d * 100 \<le> (100 :: rat)" "(of_nat ?d :: rat) \<noteq> 0"
      using b by (auto simp: divide_le_eq)
    then show ?thesis using i True by (simp add: percentileRank_def Let_def num_def del: upt_Suc)
  qed (use i in \<open>simp add: percentileRank_def\<close>)
qed


definition sane_candle :: "candle \<Rightarrow> bool" where
  "sane_candle c \<longleftrightarrow> is_finite (c_high c) \<and> is_finite (c_low c) \<and> is_finite (c_close c) \<and> c_low c \<le> c_high c"

lemma sane_nth:
  assumes "list_all sane_candle cs" "i < length cs"
  obtains h l k where "c_high (cs ! i) = Fin h" "c_low (cs ! i) = Fin l" "c_close (cs ! i) = Fin k" "l \<le> h"
  using assms by (auto simp: list_all_length sane_candle_def is_finite_iff)

lemma true_range_nonneg:
  assumes "list_all sane_candle cs" "i < length cs"
  shows "\<exists>t. true_range_at cs i = Fin t \<and> 0 \<le> t"
proof -
  have j: "i - 1 < length cs" using assms(2) by simp
  obtain h l k where c: "c_high (cs ! i) = Fin h" "c_low (cs ! i) = Fin l" "c_close (cs ! i) = Fin k" "l \<le> h"
    by (rule sane_nth [OF assms])
  obtain h' l' k' where d: "c_high (cs ! (i - 1)) = Fin h'" "c_low (cs ! (i - 1)) = Fin l'"
    "c_close (cs ! (i - 1)) = Fin k'" "l' \<le> h'" by (rule sane_nth [OF assms(1) j])
  show ?thesis
  proof (cases "i = 0")
    case True
    then have "c_high (cs ! 0) = Fin h" "c_low (cs ! 0) = Fin l" using c by simp_all
    then show ?thesis using True c(4) by (simp add: true_range_at_def Let_def)
  next
    case False
    then show ?thesis using c d(3) by (simp add: true_range_at_def Let_def max_def)
  qed
qed

lemma directional_nonneg:
  assumes "list_all sane_candle cs" "i < length cs"
  shows "\<exists>p m. directional cs i = (Fin p, Fin m) \<and> 0 \<le> p \<and> 0 \<le> m"
proof -
  have j: "i - 1 < length cs" using assms(2) by simp
  obtain h l k where c: "c_high (cs ! i) = Fin h" "c_low (cs ! i) = Fin l" "c_close (cs ! i) = Fin k" "l \<le> h"
    by (rule sane_nth [OF assms])
  obtain h' l' k' where d: "c_high (cs ! (i - 1)) = Fin h'" "c_low (cs ! (i - 1)) = Fin l'"
    "c_close (cs ! (i - 1)) = Fin k'" "l' \<le> h'" by (rule sane_nth [OF assms(1) j])
  show ?thesis using c d by (auto simp: directional_def Let_def zero_jsnum_def)
qed

lemma dx_of_percent:
  assumes "0 \<le> t" "0 \<le> p" "0 \<le> m"
  shows "\<exists>d. dx_of (Fin t) (Fin p) (Fin m) = (if t = 0 then None else Some (Fin d)) \<and> 0 \<le> d \<and> d \<le> 100"
proof (cases "t = 0")
  case False
  define a b where "a = 100 * p / t" and "b = 100 * m / t"
  have ab: "0 \<le> a" "0 \<le> b" using assms by (simp_all add: a_def b_def)
  then have "a + b \<noteq> 0 \<Longrightarrow> 0 \<le> 100 * \<bar>a - b\<bar> / (a + b) \<and> 100 * \<bar>a - b\<bar> / (a + b) \<le> 100"
    by (cases "a \<le> b") (simp_all add: divide_le_eq abs_if)
  moreover have "dx_of (Fin t) (Fin p) (Fin m) =
      (if a + b = 0 then Some (Fin 0) else Some (Fin (100 * \<bar>a - b\<bar> / (a + b))))"
    using False by (simp add: dx_of_def Let_def zero_jsnum_def a_def b_def)
  ultimately show ?thesis using False by (cases "a + b = 0") auto
qed (auto simp: dx_of_def zero_jsnum_def)

lemma dx_percent:
  assumes "list_all sane_candle cs" "0 < p" "i < length cs"
  shows "percent (dx_series p cs ! i)" "dx_series p cs ! i = Some d \<Longrightarrow> is_finite d"
proof -
  let ?ok = "\<lambda>s. \<exists>a b c. s = (Fin a, Fin b, Fin c) \<and> 0 \<le> a \<and> 0 \<le> b \<and> 0 \<le> c"
  let ?good = "\<lambda>v. percent v \<and> (\<forall>d. v = Some d \<longrightarrow> is_finite d)"
  have step: "?ok (fst (dx_step cs p j s)) \<and> ?good (snd (dx_step cs p j s))" if ok: "?ok s" "j < length cs" for j s
  proof (cases "j = 0")
    case False
    obtain a b c where s: "s = (Fin a, Fin b, Fin c)" "0 \<le> a" "0 \<le> b" "0 \<le> c" using ok(1) by blast
    obtain t where t: "true_range_at cs j = Fin t" "0 \<le> t" using true_range_nonneg [OF assms(1) ok(2)] by blast
    obtain u w where d: "directional cs j = (Fin u, Fin w)" "0 \<le> u" "0 \<le> w"
      using directional_nonneg [OF assms(1) ok(2)] by blast
    have p: "(1 :: rat) \<le> of_nat p" "(of_nat p :: rat) \<noteq> 0" using assms(2) by simp_all
    have shrink: "0 \<le> x - x / of_nat p + y" if "0 \<le> x" "0 \<le> y" for x y :: rat
    proof -
      have "x * 1 \<le> x * of_nat p" by (rule mult_left_mono) (use that p in simp_all)
      then have "x / of_nat p \<le> x" using p by (simp add: divide_le_eq)
      then show ?thesis using that by simp
    qed
    have good: "?good (dx_of (Fin x) (Fin y) (Fin z))" if "0 \<le> x" "0 \<le> y" "0 \<le> z" for x y z
      using dx_of_percent [OF that] by (auto split: if_splits)
    have sums: "0 \<le> a + t" "0 \<le> b + u" "0 \<le> c + w" using s t d by simp_all
    show ?thesis
    proof (cases "j \<le> p")
      case True
      then have "dx_step cs p j s = ((Fin (a + t), Fin (b + u), Fin (c + w)),
          if j < p then None else dx_of (Fin (a + t)) (Fin (b + u)) (Fin (c + w)))"
        using False by (simp add: dx_step_def Let_def s(1) t(1) d(1))
      then show ?thesis using good [OF sums] sums by simp
    next
      case large: False
      let ?a = "a - a / of_nat p + t" and ?b = "b - b / of_nat p + u" and ?c = "c - c / of_nat p + w"
      have nn: "0 \<le> ?a" "0 \<le> ?b" "0 \<le> ?c" using shrink s t d by simp_all
      have "dx_step cs p j s = ((Fin ?a, Fin ?b, Fin ?c), dx_of (Fin ?a) (Fin ?b) (Fin ?c))"
        using False large p(2) by (simp add: dx_step_def Let_def s(1) t(1) d(1) num_def)
      then show ?thesis using good [OF nn] nn by simp
    qed
  qed (use that in \<open>auto simp: dx_step_def split: prod.splits\<close>)
  have "?ok (loop_state (dx_step cs p) (0, 0, 0) i)"
    by (rule loop_invariant [where P = "\<lambda>_. ?ok"]) (use step assms(3) in \<open>auto simp: zero_jsnum_def\<close>)
  from step [OF this] show "percent (dx_series p cs ! i)" "dx_series p cs ! i = Some d \<Longrightarrow> is_finite d"
    using assms(3) by (simp_all add: dx_series_def index_loop_nth)
qed

lemma adx_percent:
  assumes "list_all sane_candle cs" "0 < p" "i < length cs"
  shows "percent (adx p cs ! i)"
proof -
  let ?dx = "dx_series p cs"
  let ?ok = "\<lambda>s. \<exists>v x n. s = (v, Fin x, n) \<and> 0 \<le> x \<and> x \<le> 100 * of_nat n \<and>
     (case v of None \<Rightarrow> True | Some y \<Rightarrow> \<exists>a. y = Fin a \<and> 0 \<le> a \<and> a \<le> 100)"
  have len: "length ?dx = length cs" by (simp add: dx_series_def)
  have p: "(1 :: rat) \<le> of_nat p" "(of_nat p :: rat) \<noteq> 0" using assms(2) by simp_all
  have step: "?ok (fst (adx_step ?dx p j s)) \<and> percent (snd (adx_step ?dx p j s))" if ok: "?ok s" "j < length cs" for j s
  proof (cases "?dx ! j")
    case None
    then show ?thesis using ok(1) by (auto simp: adx_step_def)
  next
    case (Some y)
    obtain d where d: "?dx ! j = Some (Fin d)" "0 \<le> d" "d \<le> 100"
      using Some dx_percent [OF assms(1,2) ok(2)] by (auto simp: is_finite_iff)
    obtain v x n where s: "s = (v, Fin x, n)" "0 \<le> x" "x \<le> 100 * of_nat n"
      "case v of None \<Rightarrow> True | Some y \<Rightarrow> \<exists>a. y = Fin a \<and> 0 \<le> a \<and> a \<le> 100" using ok(1) by blast
    have seed: "0 \<le> (x + d) / of_nat p \<and> (x + d) / of_nat p \<le> 100" if "n + 1 = p"
    proof -
      have "x + d \<le> 100 * of_nat p" using s(3) d(3) that by (auto simp: algebra_simps)
      then show ?thesis using s(2) d(2) p by (simp add: divide_le_eq)
    qed
    have smooth: "0 \<le> (a * (of_nat p - 1) + d) / of_nat p \<and> (a * (of_nat p - 1) + d) / of_nat p \<le> 100"
      if "0 \<le> a" "a \<le> 100" for a :: rat
    proof -
      have "a * (of_nat p - 1) \<le> 100 * (of_nat p - 1)" using that p by (intro mult_right_mono) simp_all
      then have "a * (of_nat p - 1) + d \<le> 100 * of_nat p" using d(3) by (simp add: algebra_simps)
      then show ?thesis using that d(2) p by (simp add: divide_le_eq)
    qed
    show ?thesis
    proof (cases v)
      case None
      then show ?thesis using d s seed p
        by (auto simp: adx_step_def Let_def num_def algebra_simps)
    next
      case (Some w)
      then obtain a where "w = Fin a" "0 \<le> a" "a \<le> 100" using s(4) by auto
      then show ?thesis using Some d s smooth p by (auto simp: adx_step_def Let_def num_def one_jsnum_def)
    qed
  qed
  have "?ok (loop_state (adx_step ?dx p) (None, 0, 0) i)"
    by (rule loop_invariant [where P = "\<lambda>_. ?ok"]) (use step assms(3) in \<open>auto simp: zero_jsnum_def\<close>)
  from step [OF this] show ?thesis using assms(3) by (simp add: adx_def adx_loop_def index_loop_nth len)
qed

section \<open>Properties\<close>

text \<open>The moving average is the mean of its window.  The running sum, which adds the newest and
  subtracts the oldest value, agrees at every index with summing the last \<open>period\<close> values anew; before
  the window is full there is no value.\<close>

theorem moving_average_is_window_mean:
  assumes "list_all is_finite values" "0 < period" "i < length values"
  shows "\<exists>out. sma values period = Inr out \<and> length out = length values \<and>
     out ! i = (if period \<le> Suc i
       then Some (sum_over (\<lambda>j. values ! j) [Suc i - period..<Suc i] / num period) else None)"
  using sma_loop_window [OF assms] assms(2) causal_length [OF causal_sma]
  by (intro exI [of _ "sma_loop period values"]) (simp add: sma_def del: upt_Suc)

theorem moving_average_is_window_mean_witness:
  "\<exists>out. sma [Fin 1, Fin 2, Fin 6] 2 = Inr out \<and> out ! 2 = Some (sum_over (\<lambda>j. [Fin 1, Fin 2, Fin 6] ! j) [1..<3] / num 2)"
  using moving_average_is_window_mean [of "[Fin 1, Fin 2, Fin 6]" 2 2] by (auto simp del: upt_Suc)

end
