(* ===== verification/Features.thy ===== *)
theory Features
  imports Indicators
begin

text \<open>
  The feature snapshots strategies decide on
  (\<^verbatim>\<open>packages/trading-engine/src/features/featureExtractor.ts\<close>), one per closed candle.  Periods are
  natural numbers.  The composite scores, which stay null here, are left out.
\<close>

record feature_config =
  fc_emaFastPeriod :: nat
  fc_emaSlowPeriod :: nat
  fc_emaLongPeriod :: nat
  fc_rsiPeriod :: nat
  fc_atrPeriod :: nat
  fc_adxPeriod :: nat
  fc_bollingerPeriod :: nat
  fc_bollingerStdDev :: jsnum
  fc_donchianPeriod :: nat
  fc_slopePeriod :: nat
  fc_recentReturnPeriod :: nat
  fc_volatilityPercentilePeriod :: nat

definition DEFAULT_FEATURE_CONFIG :: feature_config where
  "DEFAULT_FEATURE_CONFIG =
     \<lparr>fc_emaFastPeriod = 9, fc_emaSlowPeriod = 21, fc_emaLongPeriod = 50, fc_rsiPeriod = 14, fc_atrPeriod = 14,
      fc_adxPeriod = 14, fc_bollingerPeriod = 20, fc_bollingerStdDev = 2, fc_donchianPeriod = 20,
      fc_slopePeriod = 5, fc_recentReturnPeriod = 10, fc_volatilityPercentilePeriod = 100\<rparr>"

definition minimumCandlesForFeatures :: "feature_config \<Rightarrow> nat" where
  "minimumCandlesForFeatures cfg =
     Max {fc_emaLongPeriod cfg + fc_slopePeriod cfg, fc_adxPeriod cfg * 2, fc_bollingerPeriod cfg, fc_donchianPeriod cfg + 1}"

definition slopeOf :: "jsnum option list \<Rightarrow> nat \<Rightarrow> nat \<Rightarrow> jsnum option" where
  "slopeOf series i lookback =
     (case (series ! i, if lookback \<le> i then series ! (i - lookback) else None) of
        (Some cur, Some past) \<Rightarrow> if past = 0 then None else Some ((cur - past) / js_abs past)
      | _ \<Rightarrow> None)"

datatype trend_direction = TrendUp | TrendFlat | TrendDown

record snapshot =
  ft_symbol :: string
  ft_interval :: interval
  ft_timestamp :: int
  ft_close :: jsnum
  ft_emaFast :: "jsnum option"
  ft_emaSlow :: "jsnum option"
  ft_emaLong :: "jsnum option"
  ft_emaFastSlope :: "jsnum option"
  ft_emaSlowSlope :: "jsnum option"
  ft_rsi :: "jsnum option"
  ft_atr :: "jsnum option"
  ft_atrPercent :: "jsnum option"
  ft_adx :: "jsnum option"
  ft_macd :: "jsnum option"
  ft_macdSignal :: "jsnum option"
  ft_macdHistogram :: "jsnum option"
  ft_bollingerUpper :: "jsnum option"
  ft_bollingerMiddle :: "jsnum option"
  ft_bollingerLower :: "jsnum option"
  ft_bollingerWidth :: "jsnum option"
  ft_priceDistanceFromEma :: "jsnum option"
  ft_recentReturn :: "jsnum option"
  ft_higherHighCount :: nat
  ft_lowerLowCount :: nat
  ft_donchianHigh :: "jsnum option"
  ft_donchianLow :: "jsnum option"
  ft_trendDirection :: trend_direction
  ft_volatilityPercentile :: "jsnum option"

definition trend_direction_of :: "jsnum option \<Rightarrow> jsnum option \<Rightarrow> jsnum option \<Rightarrow> jsnum \<Rightarrow> trend_direction" where
  "trend_direction_of fast slow long close =
     (case (fast, slow, long) of
        (Some f, Some s, Some l) \<Rightarrow>
          if s < f \<and> l < close then TrendUp else if f < s \<and> close < l then TrendDown else TrendFlat
      | _ \<Rightarrow> TrendFlat)"

text \<open>The series a snapshot is read from.\<close>

definition closes_of :: "candle list \<Rightarrow> jsnum list" where "closes_of cs = List.map c_close cs"
definition highs_of :: "candle list \<Rightarrow> jsnum list" where "highs_of cs = List.map c_high cs"
definition lows_of :: "candle list \<Rightarrow> jsnum list" where "lows_of cs = List.map c_low cs"

definition volatility_series :: "nat \<Rightarrow> nat \<Rightarrow> candle list \<Rightarrow> jsnum option list" where
  "volatility_series atrPeriod period cs =
     percentileRank period (List.map (\<lambda>v. or_default v 0) (atrPercent atrPeriod cs))"

definition snapshot_at :: "(jsnum \<Rightarrow> jsnum) \<Rightarrow> feature_config \<Rightarrow> candle list \<Rightarrow> nat \<Rightarrow> snapshot" where
  "snapshot_at root_of cfg cs i =
     (let candle = cs ! i;
          emaFast = ema_loop (fc_emaFastPeriod cfg) (closes_of cs);
          emaSlow = ema_loop (fc_emaSlowPeriod cfg) (closes_of cs);
          emaLong = ema_loop (fc_emaLongPeriod cfg) (closes_of cs);
          slow = emaSlow ! i;
          bb = bollinger_loop root_of (fc_bollingerPeriod cfg) (fc_bollingerStdDev cfg) (closes_of cs) ! i;
          md = macd_loop 12 26 9 (closes_of cs) ! i;
          dc = donchianChannel (fc_donchianPeriod cfg) (highs_of cs) (lows_of cs) ! i;
          atrPct = atrPercent (fc_atrPeriod cfg) cs ! i
      in \<lparr>ft_symbol = c_symbol candle, ft_interval = c_interval candle, ft_timestamp = c_closeTime candle,
          ft_close = c_close candle, ft_emaFast = emaFast ! i, ft_emaSlow = slow, ft_emaLong = emaLong ! i,
          ft_emaFastSlope = slopeOf emaFast i (fc_slopePeriod cfg), ft_emaSlowSlope = slopeOf emaSlow i (fc_slopePeriod cfg),
          ft_rsi = rsi_loop (fc_rsiPeriod cfg) (closes_of cs) ! i, ft_atr = atr (fc_atrPeriod cfg) cs ! i,
          ft_atrPercent = atrPct, ft_adx = adx (fc_adxPeriod cfg) cs ! i,
          ft_macd = map_option md_macd md, ft_macdSignal = map_option md_signal md,
          ft_macdHistogram = map_option md_histogram md,
          ft_bollingerUpper = map_option bb_upper bb, ft_bollingerMiddle = map_option bb_middle bb,
          ft_bollingerLower = map_option bb_lower bb, ft_bollingerWidth = map_option bb_width bb,
          ft_priceDistanceFromEma = distance_from slow (c_close candle),
          ft_recentReturn = rateOfChange (fc_recentReturnPeriod cfg) (closes_of cs) ! i,
          ft_higherHighCount = consecutiveHigherHighs (highs_of cs) ! i,
          ft_lowerLowCount = consecutiveLowerLows (lows_of cs) ! i,
          ft_donchianHigh = map_option dc_upper dc, ft_donchianLow = map_option dc_lower dc,
          ft_trendDirection = trend_direction_of (emaFast ! i) slow (emaLong ! i) (c_close candle),
          ft_volatilityPercentile = (if atrPct = None then None
            else volatility_series (fc_atrPeriod cfg) (fc_volatilityPercentilePeriod cfg) cs ! i)\<rparr>)"

definition snapshots :: "(jsnum \<Rightarrow> jsnum) \<Rightarrow> feature_config \<Rightarrow> candle list \<Rightarrow> snapshot list" where
  "snapshots root_of cfg cs = List.map (snapshot_at root_of cfg cs) [0..<length cs]"

text \<open>The indicators that check their period raise before anything is built.\<close>

definition extractFeatures ::
  "(jsnum \<Rightarrow> jsnum) \<Rightarrow> candle list \<Rightarrow> feature_config \<Rightarrow> indicator_error + snapshot list" where
  "extractFeatures root_of cs cfg =
     (case ema (closes_of cs) (fc_emaFastPeriod cfg) of Inl e \<Rightarrow> Inl e | Inr _ \<Rightarrow>
      case ema (closes_of cs) (fc_emaSlowPeriod cfg) of Inl e \<Rightarrow> Inl e | Inr _ \<Rightarrow>
      case ema (closes_of cs) (fc_emaLongPeriod cfg) of Inl e \<Rightarrow> Inl e | Inr _ \<Rightarrow>
      case rsi (closes_of cs) (fc_rsiPeriod cfg) of Inl e \<Rightarrow> Inl e | Inr _ \<Rightarrow>
      case macd (closes_of cs) 12 26 9 of Inl e \<Rightarrow> Inl e | Inr _ \<Rightarrow>
      case bollingerBands root_of (closes_of cs) (fc_bollingerPeriod cfg) (fc_bollingerStdDev cfg) of Inl e \<Rightarrow> Inl e
      | Inr _ \<Rightarrow> Inr (snapshots root_of cfg cs))"

section \<open>No look-ahead\<close>

lemma causal_prices [causal_intros]: "causal closes_of" "causal highs_of" "causal lows_of"
  unfolding closes_of_def highs_of_def lows_of_def by (simp_all add: causal_def take_map)

text \<open>A causal function of the closes, highs or lows, read at an index.\<close>

lemma causal_series:
  assumes "j < n"
  shows "causal F \<Longrightarrow> F (closes_of (take n cs)) ! j = F (closes_of cs) ! j"
    and "causal F \<Longrightarrow> F (highs_of (take n cs)) ! j = F (highs_of cs) ! j"
    and "causal F \<Longrightarrow> F (lows_of (take n cs)) ! j = F (lows_of cs) ! j"
    and "causal G \<Longrightarrow> G (take n cs) ! j = G cs ! j"
  using assms causal_prices by (simp_all add: causal_def)

lemma causal_slope_of:
  assumes "causal F" "j < n"
  shows "slopeOf (F (closes_of (take n cs))) j k = slopeOf (F (closes_of cs)) j k"
proof -
  have e: "F (closes_of (take n cs)) ! m = F (closes_of cs) ! m" if "m \<le> j" for m
    using that assms by (intro causal_series) simp_all
  show ?thesis using e [of j] e [of "j - k"] by (simp add: slopeOf_def split: option.split)
qed

lemma causal_donchian:
  assumes "j < n" "n \<le> length cs"
  shows "donchianChannel p (highs_of (take n cs)) (lows_of (take n cs)) ! j =
    donchianChannel p (highs_of cs) (lows_of cs) ! j"
proof -
  have l: "length (highs_of xs) = length xs" for xs by (simp add: highs_of_def)
  show ?thesis
    using assms by (simp add: donchianChannel_def l causal_series causal_highest causal_lowest)
qed

lemma causal_volatility [causal_intros]: "causal (volatility_series a p)"
proof -
  have "causal (\<lambda>cs. List.map (\<lambda>v. or_default v 0) (atrPercent a cs))"
    by (rule causal_map [OF causal_atr_percent])
  then show ?thesis unfolding volatility_series_def by (rule causal_comp [OF causal_percentile])
qed

lemma causal_snapshots: "causal (snapshots r cfg)"
  unfolding snapshots_def
proof (rule causal_index)
  fix cs :: "candle list" and n i assume i: "i < n" "n \<le> length cs"
  then have "take n cs ! i = cs ! i" by simp
  with i show "snapshot_at r cfg (take n cs) i = snapshot_at r cfg cs i"
    by (simp only: snapshot_at_def Let_def causal_series [OF i(1)] causal_intros causal_slope_of [OF causal_ema i(1)]
        causal_donchian [OF i])
qed

interpretation features: indicator "snapshots r cfg" for r cfg
  using causal_snapshots by (simp add: causal_indicator)

lemma extractFeatures_snapshots: "extractFeatures r cs cfg = Inr fs \<Longrightarrow> fs = snapshots r cfg cs"
  by (auto simp: extractFeatures_def split: sum.splits)

lemma extractFeatures_ok:
  "extractFeatures r cs cfg = Inr fs \<Longrightarrow> extractFeatures r ds cfg = Inr (snapshots r cfg ds)"
  by (auto simp: extractFeatures_def ema_def rsi_def bollingerBands_def sma_def macd_def split: sum.splits if_splits)


section \<open>Properties\<close>

text \<open>C24: no look-ahead.  If two histories agree up to a candle, the snapshots of that candle agree,
  whatever comes later: a decision replayed on a longer history sees exactly what it saw live.\<close>

theorem features_no_look_ahead:
  assumes "extractFeatures root_of cs cfg = Inr fs" and "take (Suc i) ds = take (Suc i) cs"
    and "i < length cs" and "i < length ds"
  shows "\<exists>gs. extractFeatures root_of ds cfg = Inr gs \<and> length gs = length ds \<and> gs ! i = fs ! i"
  using extractFeatures_ok [OF assms(1), of ds] extractFeatures_snapshots [OF assms(1)]
    features.same_past [OF assms(4,3,2), of root_of cfg] features.aligned by auto

text \<open>Oscillators in range.  On well-formed candles every RSI, ADX and volatility percentile of a
  snapshot that is present lies between 0 and 100.\<close>

theorem oscillators_in_range:
  assumes "extractFeatures root_of cs cfg = Inr fs" and "list_all sane_candle cs" and "f \<in> set fs"
    and "0 < fc_adxPeriod cfg" and "0 < fc_volatilityPercentilePeriod cfg"
  shows "percent (ft_rsi f) \<and> percent (ft_adx f) \<and> percent (ft_volatilityPercentile f)"
proof -
  have fs: "fs = snapshots root_of cfg cs" by (rule extractFeatures_snapshots [OF assms(1)])
  then obtain i where i: "i < length cs" "f = snapshot_at root_of cfg cs i"
    using assms(3) by (auto simp: snapshots_def)
  have "0 < fc_rsiPeriod cfg"
    using assms(1) by (auto simp: extractFeatures_def rsi_def split: sum.splits if_splits)
  moreover have "list_all is_finite (closes_of cs)"
    using assms(2) by (auto simp: closes_of_def list_all_iff sane_candle_def)
  ultimately have "percent (rsi_loop (fc_rsiPeriod cfg) (closes_of cs) ! i)"
    using rsi_percent i(1) by (simp add: closes_of_def)
  moreover have "percent (adx (fc_adxPeriod cfg) cs ! i)" by (rule adx_percent [OF assms(2,4) i(1)])
  moreover have "percent (volatility_series (fc_atrPeriod cfg) (fc_volatilityPercentilePeriod cfg) cs ! i)"
    using percentile_percent assms(5) i(1) causal_length [OF causal_atr_percent] by (simp add: volatility_series_def)
  ultimately show ?thesis by (simp add: i(2) snapshot_at_def Let_def)
qed

definition demo_candle :: "rat \<Rightarrow> candle" where
  "demo_candle x =
     \<lparr>c_symbol = ''R_10'', c_interval = M1, c_openTime = 0, c_closeTime = 1, c_open = Fin x, c_high = Fin (x + 1),
      c_low = Fin (x - 1), c_close = Fin x, c_tickCount = 1, c_isComplete = True, c_source = LIVE_TICKS\<rparr>"

definition small_config :: feature_config where
  "small_config = DEFAULT_FEATURE_CONFIG\<lparr>fc_rsiPeriod := 2, fc_adxPeriod := 1, fc_volatilityPercentilePeriod := 2\<rparr>"

lemma small_config_ok: "\<exists>fs. extractFeatures (\<lambda>x. x) cs small_config = Inr fs \<and> fs = snapshots (\<lambda>x. x) small_config cs"
  by (auto simp: extractFeatures_def small_config_def DEFAULT_FEATURE_CONFIG_def ema_def rsi_def macd_def bollingerBands_def sma_def)

theorem features_no_look_ahead_witness:
  "snapshots (\<lambda>x. x) small_config (List.map demo_candle [5, 6, 9]) ! 1 =
   snapshots (\<lambda>x. x) small_config (List.map demo_candle [5, 6, 1]) ! 1"
proof -
  obtain fs where fs: "extractFeatures (\<lambda>x. x) (List.map demo_candle [5, 6, 9]) small_config = Inr fs"
    "fs = snapshots (\<lambda>x. x) small_config (List.map demo_candle [5, 6, 9])" using small_config_ok by blast
  from features_no_look_ahead [OF fs(1), of 1 "List.map demo_candle [5, 6, 1]"] fs(2)
    extractFeatures_snapshots [of "\<lambda>x. x" "List.map demo_candle [5, 6, 1]" small_config]
  show ?thesis by (auto simp: numeral_2_eq_2)
qed

theorem oscillators_in_range_witness:
  "\<exists>f. f \<in> set (snapshots (\<lambda>x. x) small_config (List.map demo_candle [5, 6, 9])) \<and> percent (ft_rsi f)"
proof -
  obtain fs where fs: "extractFeatures (\<lambda>x. x) (List.map demo_candle [5, 6, 9]) small_config = Inr fs"
    "fs = snapshots (\<lambda>x. x) small_config (List.map demo_candle [5, 6, 9])" using small_config_ok by blast
  have "length fs = 3" using fs(2) by (simp add: features.aligned)
  then have f: "fs ! 2 \<in> set fs" by simp
  have "list_all sane_candle (List.map demo_candle [5, 6, 9])" by (simp add: sane_candle_def demo_candle_def)
  from oscillators_in_range [OF fs(1) this f] have "percent (ft_rsi (fs ! 2))"
    by (simp add: small_config_def DEFAULT_FEATURE_CONFIG_def)
  then show ?thesis using f fs(2) by blast
qed

end
