(* ===== verification/Regime.thy ===== *)
theory Regime
  imports Features Selector
begin

text \<open>
  The rule-based regime classifier
  (\<^verbatim>\<open>packages/trading-engine/src/regime/classifier.ts\<close>): component scores from a feature
  snapshot, the regime they map to, and a confidence that is capped when indicators are missing.  Reasons
  are constructors without the figures in their text.  The last section runs the pipeline: features of a
  history, their regime, and the strategy selected for it.
\<close>

datatype regime =
    STRONG_UPTREND | WEAK_UPTREND | STRONG_DOWNTREND | WEAK_DOWNTREND | RANGE_LOW_VOLATILITY
  | RANGE_HIGH_VOLATILITY | BREAKOUT_EXPANSION | VOLATILITY_COMPRESSION | TRANSITION | UNKNOWN

fun regime_name :: "regime \<Rightarrow> string" where
  "regime_name STRONG_UPTREND = ''STRONG_UPTREND''"
| "regime_name WEAK_UPTREND = ''WEAK_UPTREND''"
| "regime_name STRONG_DOWNTREND = ''STRONG_DOWNTREND''"
| "regime_name WEAK_DOWNTREND = ''WEAK_DOWNTREND''"
| "regime_name RANGE_LOW_VOLATILITY = ''RANGE_LOW_VOLATILITY''"
| "regime_name RANGE_HIGH_VOLATILITY = ''RANGE_HIGH_VOLATILITY''"
| "regime_name BREAKOUT_EXPANSION = ''BREAKOUT_EXPANSION''"
| "regime_name VOLATILITY_COMPRESSION = ''VOLATILITY_COMPRESSION''"
| "regime_name TRANSITION = ''TRANSITION''"
| "regime_name UNKNOWN = ''UNKNOWN''"

record regime_thresholds =
  rt_adxTrendThreshold :: jsnum
  rt_adxRangeThreshold :: jsnum
  rt_emaSlopeThreshold :: jsnum
  rt_strongTrendScore :: jsnum
  rt_weakTrendScore :: jsnum
  rt_rangeScoreThreshold :: jsnum
  rt_breakoutScoreThreshold :: jsnum
  rt_compressionVolatilityPercentile :: jsnum
  rt_highVolatilityPercentile :: jsnum
  rt_compressionBollingerWidth :: jsnum
  rt_minIndicatorsForConfidence :: jsnum
  rt_lowDataConfidenceCap :: jsnum

definition DEFAULT_REGIME_THRESHOLDS :: regime_thresholds where
  "DEFAULT_REGIME_THRESHOLDS =
     \<lparr>rt_adxTrendThreshold = 25, rt_adxRangeThreshold = 20, rt_emaSlopeThreshold = Fin (5 / 10000),
      rt_strongTrendScore = 65, rt_weakTrendScore = 45, rt_rangeScoreThreshold = 60, rt_breakoutScoreThreshold = 65,
      rt_compressionVolatilityPercentile = 25, rt_highVolatilityPercentile = 75,
      rt_compressionBollingerWidth = Fin (1 / 100), rt_minIndicatorsForConfidence = 8,
      rt_lowDataConfidenceCap = Fin (3 / 10)\<rparr>"

record regime_scores =
  rs_trend :: jsnum
  rs_momentum :: jsnum
  rs_volatility :: jsnum
  rs_range :: jsnum
  rs_breakout :: jsnum

datatype regime_reason =
    FastAboveSlow | FastBelowSlow | SameSlope | AdxExceedsTrend | PriceAboveLong | PriceBelowLong | AdxBelowRange
  | AveragesFlat | AboveDonchian | BelowDonchian | BreakoutWithTrend | StrongTrend | WeakTrend | Compression
  | RangeDominates | NothingDominates | FewIndicators

record regime_result =
  rr_regime :: regime
  rr_confidence :: jsnum
  rr_scores :: regime_scores
  rr_reasons :: "regime_reason list"
  rr_timestamp :: int

definition clamp_to :: "jsnum \<Rightarrow> jsnum \<Rightarrow> jsnum \<Rightarrow> jsnum" where
  "clamp_to lo hi v = js_min hi (js_max lo v)"

subsection \<open>Scores\<close>

definition alignment_points :: "snapshot \<Rightarrow> jsnum" where
  "alignment_points f =
     (case (ft_emaFast f, ft_emaSlow f) of (Some a, Some b) \<Rightarrow> if b < a \<or> a < b then 20 else 0 | _ \<Rightarrow> 0)"

definition same_slope :: "regime_thresholds \<Rightarrow> snapshot \<Rightarrow> bool" where
  "same_slope t f =
     (case (ft_emaFastSlope f, ft_emaSlowSlope f) of
        (Some a, Some b) \<Rightarrow>
          (rt_emaSlopeThreshold t < a \<and> 0 < b) \<or> (a < - rt_emaSlopeThreshold t \<and> b < 0)
      | _ \<Rightarrow> False)"

definition adx_points :: "regime_thresholds \<Rightarrow> snapshot \<Rightarrow> jsnum" where
  "adx_points t f =
     (case ft_adx f of
        None \<Rightarrow> 0
      | Some a \<Rightarrow> if rt_adxTrendThreshold t \<le> a then 30 else clamp_to 0 29 (a / rt_adxTrendThreshold t * 30))"

definition long_ema_agrees :: "snapshot \<Rightarrow> bool" where
  "long_ema_agrees f =
     (case ft_emaLong f of
        None \<Rightarrow> False
      | Some l \<Rightarrow> (ft_trendDirection f = TrendUp \<and> l < ft_close f) \<or> (ft_trendDirection f = TrendDown \<and> ft_close f < l))"

definition trend_score :: "regime_thresholds \<Rightarrow> snapshot \<Rightarrow> jsnum" where
  "trend_score t f =
     clamp_to 0 100
       (0 + alignment_points f + (if same_slope t f then 25 else 0) + adx_points t f
        + (if 2 \<le> ft_higherHighCount f \<or> 2 \<le> ft_lowerLowCount f then 10 else 0)
        + (if long_ema_agrees f then 15 else 0))"

definition momentum_score :: "snapshot \<Rightarrow> jsnum" where
  "momentum_score f =
     clamp_to 0 100
       (0 + (case ft_rsi f of Some r \<Rightarrow> clamp_to 0 35 (js_abs (r - 50) / 30 * 35) | None \<Rightarrow> 0)
        + (case ft_macdHistogram f of
             Some h \<Rightarrow> if 0 < ft_close f then clamp_to 0 30 (js_abs h / ft_close f / Fin (5 / 10000) * 30) else 0
           | None \<Rightarrow> 0)
        + (case ft_recentReturn f of Some r \<Rightarrow> clamp_to 0 35 (js_abs r / Fin (5 / 1000) * 35) | None \<Rightarrow> 0))"

definition volatility_score :: "snapshot \<Rightarrow> jsnum" where
  "volatility_score f =
     clamp_to 0 100
       (0 + (case ft_volatilityPercentile f of Some v \<Rightarrow> clamp_to 0 60 (v * Fin (6 / 10)) | None \<Rightarrow> 0)
        + (case ft_bollingerWidth f of Some w \<Rightarrow> clamp_to 0 40 (w / Fin (3 / 100) * 40) | None \<Rightarrow> 0))"

definition averages_flat :: "regime_thresholds \<Rightarrow> snapshot \<Rightarrow> bool" where
  "averages_flat t f =
     (case (ft_emaFastSlope f, ft_emaSlowSlope f) of
        (Some a, Some b) \<Rightarrow> js_abs a < rt_emaSlopeThreshold t \<and> js_abs b < rt_emaSlopeThreshold t
      | _ \<Rightarrow> False)"

definition range_score :: "regime_thresholds \<Rightarrow> snapshot \<Rightarrow> jsnum" where
  "range_score t f =
     clamp_to 0 100
       (0 + (if some_and (ft_adx f) (\<lambda>a. a < rt_adxRangeThreshold t) then 40 else 0)
        + (if averages_flat t f then 30 else 0)
        + (if some_and (ft_priceDistanceFromEma f) (\<lambda>d. js_abs d < Fin (2 / 1000)) then 15 else 0)
        + (if ft_higherHighCount f = 0 \<and> ft_lowerLowCount f = 0 then 15 else 0))"

definition outside_donchian :: "snapshot \<Rightarrow> regime_reason list" where
  "outside_donchian f =
     (case (ft_donchianHigh f, ft_donchianLow f) of
        (Some h, Some l) \<Rightarrow> if h < ft_close f then [AboveDonchian] else if ft_close f < l then [BelowDonchian] else []
      | _ \<Rightarrow> [])"

definition momentum_aligned :: "snapshot \<Rightarrow> bool" where
  "momentum_aligned f =
     (case (ft_macdHistogram f, ft_recentReturn f) of
        (Some h, Some r) \<Rightarrow> (0 < h \<and> 0 < r) \<or> (h < 0 \<and> r < 0) | _ \<Rightarrow> False)"

definition breakout_score :: "snapshot \<Rightarrow> jsnum" where
  "breakout_score f =
     clamp_to 0 100
       (0 + (if outside_donchian f \<noteq> [] then 40 else 0)
        + (if some_and (ft_volatilityPercentile f) (\<lambda>v. 60 < v) then 20 else 0)
        + (if some_and (ft_bollingerWidth f) (\<lambda>w. Fin (15 / 1000) < w) then 15 else 0)
        + (if momentum_aligned f then 25 else 0))"

definition score_reasons :: "regime_thresholds \<Rightarrow> snapshot \<Rightarrow> regime_reason list" where
  "score_reasons t f =
     (case (ft_emaFast f, ft_emaSlow f) of
        (Some a, Some b) \<Rightarrow> if b < a then [FastAboveSlow] else if a < b then [FastBelowSlow] else [] | _ \<Rightarrow> [])
     @ push_when (same_slope t f) SameSlope
     @ push_when (some_and (ft_adx f) (\<lambda>a. rt_adxTrendThreshold t \<le> a)) AdxExceedsTrend
     @ push_when (long_ema_agrees f) (if ft_trendDirection f = TrendUp then PriceAboveLong else PriceBelowLong)
     @ push_when (some_and (ft_adx f) (\<lambda>a. a < rt_adxRangeThreshold t)) AdxBelowRange
     @ push_when (averages_flat t f) AveragesFlat
     @ outside_donchian f"

definition computeScores :: "snapshot \<Rightarrow> regime_thresholds \<Rightarrow> regime_scores" where
  "computeScores f t =
     \<lparr>rs_trend = js_round (trend_score t f), rs_momentum = js_round (momentum_score f),
      rs_volatility = js_round (volatility_score f), rs_range = js_round (range_score t f),
      rs_breakout = js_round (breakout_score f)\<rparr>"

subsection \<open>The regime and its confidence\<close>

definition mapScoresToRegime :: "snapshot \<Rightarrow> regime_thresholds \<Rightarrow> regime_scores \<Rightarrow> regime \<times> regime_reason" where
  "mapScoresToRegime f t s =
     (let dir = ft_trendDirection f;
          compression = some_and (ft_volatilityPercentile f) (\<lambda>v. v \<le> rt_compressionVolatilityPercentile t)
            \<and> some_and (ft_bollingerWidth f) (\<lambda>w. w \<le> rt_compressionBollingerWidth t)
      in if rt_breakoutScoreThreshold t \<le> rs_breakout s \<and> rt_weakTrendScore t \<le> rs_trend s
         then (BREAKOUT_EXPANSION, BreakoutWithTrend)
         else if rt_strongTrendScore t \<le> rs_trend s \<and> dir \<noteq> TrendFlat
         then (if dir = TrendUp then STRONG_UPTREND else STRONG_DOWNTREND, StrongTrend)
         else if rt_weakTrendScore t \<le> rs_trend s \<and> dir \<noteq> TrendFlat
         then (if dir = TrendUp then WEAK_UPTREND else WEAK_DOWNTREND, WeakTrend)
         else if compression then (VOLATILITY_COMPRESSION, Compression)
         else if rt_rangeScoreThreshold t \<le> rs_range s
         then (if some_and (ft_volatilityPercentile f) (\<lambda>v. rt_highVolatilityPercentile t \<le> v)
               then RANGE_HIGH_VOLATILITY else RANGE_LOW_VOLATILITY, RangeDominates)
         else (TRANSITION, NothingDominates))"

fun computeConfidence :: "regime \<Rightarrow> regime_scores \<Rightarrow> jsnum" where
  "computeConfidence STRONG_UPTREND s = clamp_to 0 100 (rs_trend s + rs_momentum s / 4) / 100"
| "computeConfidence STRONG_DOWNTREND s = clamp_to 0 100 (rs_trend s + rs_momentum s / 4) / 100"
| "computeConfidence WEAK_UPTREND s = clamp_to 0 100 (rs_trend s * Fin (8 / 10)) / 100"
| "computeConfidence WEAK_DOWNTREND s = clamp_to 0 100 (rs_trend s * Fin (8 / 10)) / 100"
| "computeConfidence RANGE_LOW_VOLATILITY s = clamp_to 0 100 (rs_range s) / 100"
| "computeConfidence RANGE_HIGH_VOLATILITY s = clamp_to 0 100 (rs_range s) / 100"
| "computeConfidence BREAKOUT_EXPANSION s = clamp_to 0 100 (rs_breakout s) / 100"
| "computeConfidence VOLATILITY_COMPRESSION s = clamp_to 0 100 (100 - rs_volatility s) / 100"
| "computeConfidence TRANSITION s = Fin (35 / 100)"
| "computeConfidence UNKNOWN s = 0"

definition available_indicators :: "snapshot \<Rightarrow> nat" where
  "available_indicators f =
     length (filter (\<lambda>v. v \<noteq> None)
       [ft_emaFast f, ft_emaSlow f, ft_emaLong f, ft_emaFastSlope f, ft_emaSlowSlope f, ft_rsi f, ft_atr f,
        ft_atrPercent f, ft_adx f, ft_macdHistogram f, ft_bollingerWidth f, ft_donchianHigh f, ft_volatilityPercentile f])"

definition classify :: "snapshot \<Rightarrow> regime_thresholds \<Rightarrow> regime_result" where
  "classify f t =
     (let available = available_indicators f; scores = computeScores f t;
          (r, why) = mapScoresToRegime f t scores;
          scarce = (num available < rt_minIndicatorsForConfidence t);
          confidence = computeConfidence r scores;
          capped = (if scarce then js_min confidence (rt_lowDataConfidenceCap t) else confidence)
      in \<lparr>rr_regime = (if available = 0 then UNKNOWN else r), rr_confidence = to_fixed 3 capped, rr_scores = scores,
          rr_reasons = score_reasons t f @ [why] @ push_when scarce FewIndicators, rr_timestamp = ft_timestamp f\<rparr>)"


subsection \<open>Ranges\<close>

definition finite_option :: "jsnum option \<Rightarrow> bool" where
  "finite_option v \<longleftrightarrow> (case v of None \<Rightarrow> True | Some x \<Rightarrow> is_finite x)"

definition finite_snapshot :: "snapshot \<Rightarrow> bool" where
  "finite_snapshot f \<longleftrightarrow> is_finite (ft_close f) \<and>
     list_all finite_option
       [ft_emaFastSlope f, ft_emaSlowSlope f, ft_rsi f, ft_adx f, ft_macdHistogram f, ft_recentReturn f,
        ft_volatilityPercentile f, ft_bollingerWidth f, ft_priceDistanceFromEma f]"

lemma finite_arith [simp]:
  "is_finite x \<Longrightarrow> is_finite y \<Longrightarrow> is_finite (x + y)"
  "is_finite x \<Longrightarrow> is_finite y \<Longrightarrow> is_finite (x - y)"
  "is_finite x \<Longrightarrow> is_finite y \<Longrightarrow> is_finite (x * y)"
  "is_finite x \<Longrightarrow> is_finite (js_abs x)"
  "is_finite x \<Longrightarrow> a \<noteq> 0 \<Longrightarrow> is_finite (x / Fin a)"
  by (auto simp: is_finite_iff)

lemma finite_consts [simp]: "is_finite 0" "is_finite (Fin a)"
  by (simp_all add: zero_jsnum_def)

lemma clamp_to_fin: "is_finite x \<Longrightarrow> lo \<le> hi \<Longrightarrow> \<exists>r. clamp_to (Fin lo) (Fin hi) x = Fin r \<and> lo \<le> r \<and> r \<le> hi"
  by (auto simp: clamp_to_def is_finite_iff)

lemma clamp_to_finite [simp]: "is_finite x \<Longrightarrow> is_finite (clamp_to (Fin lo) (Fin hi) x)"
  by (auto simp: clamp_to_def is_finite_iff)

definition score :: "jsnum \<Rightarrow> bool" where
  "score x \<longleftrightarrow> (\<exists>n::int. x = Fin (of_int n) \<and> 0 \<le> n \<and> n \<le> 100)"

lemma score_round: "is_finite x \<Longrightarrow> score (js_round (clamp_to 0 100 x))"
proof -
  assume "is_finite x"
  then obtain r where r: "clamp_to (Fin 0) (Fin 100) x = Fin r" "0 \<le> r" "r \<le> 100"
    using clamp_to_fin [of x 0 100] by auto
  have "0 \<le> round_half_up r" using r(2) by (rule round_half_up_nonneg)
  moreover have "round_half_up r \<le> 100" using round_half_up_mono [OF r(3)] round_half_up_of_int [of 100] by simp
  moreover have "js_round (clamp_to 0 100 x) = Fin (of_int (round_half_up r))" by (simp add: r(1) zero_jsnum_def)
  ultimately show ?thesis unfolding score_def by blast
qed

lemma finite_options:
  assumes "finite_snapshot f"
  shows "ft_rsi f = Some x \<Longrightarrow> is_finite x" "ft_adx f = Some x \<Longrightarrow> is_finite x"
    "ft_macdHistogram f = Some x \<Longrightarrow> is_finite x" "ft_recentReturn f = Some x \<Longrightarrow> is_finite x"
    "ft_volatilityPercentile f = Some x \<Longrightarrow> is_finite x" "ft_bollingerWidth f = Some x \<Longrightarrow> is_finite x"
    "is_finite (ft_close f)"
  using assms by (auto simp: finite_snapshot_def finite_option_def)

lemma scores_in_range:
  assumes "finite_snapshot f" "rt_adxTrendThreshold t = Fin a" "0 < a"
  shows "score (rs_trend (computeScores f t)) \<and> score (rs_momentum (computeScores f t)) \<and>
    score (rs_volatility (computeScores f t)) \<and> score (rs_range (computeScores f t)) \<and>
    score (rs_breakout (computeScores f t))"
proof -
  note fin = finite_options [OF assms(1)]
  have adx: "is_finite (adx_points t f)"
    using fin(2) assms(2,3) by (auto simp: adx_points_def zero_jsnum_def split: option.splits)
  have align: "is_finite (alignment_points f)" by (auto simp: alignment_points_def split: option.splits)
  have macd: "is_finite (case ft_macdHistogram f of
      Some h \<Rightarrow> if 0 < ft_close f then clamp_to 0 30 (js_abs h / ft_close f / Fin (5 / 10000) * 30) else 0 | None \<Rightarrow> 0)"
  proof (cases "ft_macdHistogram f")
    case (Some h)
    obtain c where c: "ft_close f = Fin c" using fin(7) by (auto simp: is_finite_iff)
    then show ?thesis using fin(3) [OF Some] Some by (simp add: zero_jsnum_def)
  qed simp
  have trend: "score (rs_trend (computeScores f t))"
    using adx align unfolding computeScores_def regime_scores.simps trend_score_def
    by (intro score_round finite_arith(1)) simp_all
  have "is_finite (case ft_rsi f of Some r \<Rightarrow> clamp_to 0 35 (js_abs (r - 50) / 30 * 35) | None \<Rightarrow> 0)"
    by (cases "ft_rsi f") (use fin in \<open>simp_all add: zero_jsnum_def\<close>)
  moreover have "is_finite (case ft_recentReturn f of Some r \<Rightarrow> clamp_to 0 35 (js_abs r / Fin (5 / 1000) * 35) | None \<Rightarrow> 0)"
    by (cases "ft_recentReturn f") (use fin in \<open>simp_all add: zero_jsnum_def\<close>)
  ultimately have momentum: "score (rs_momentum (computeScores f t))"
    using macd unfolding computeScores_def regime_scores.simps momentum_score_def
    by (intro score_round finite_arith(1)) (assumption | rule finite_consts)+
  have "is_finite (case ft_volatilityPercentile f of Some v \<Rightarrow> clamp_to 0 60 (v * Fin (6 / 10)) | None \<Rightarrow> 0)"
    by (cases "ft_volatilityPercentile f") (use fin in \<open>simp_all add: zero_jsnum_def\<close>)
  moreover have "is_finite (case ft_bollingerWidth f of Some w \<Rightarrow> clamp_to 0 40 (w / Fin (3 / 100) * 40) | None \<Rightarrow> 0)"
    by (cases "ft_bollingerWidth f") (use fin in \<open>simp_all add: zero_jsnum_def\<close>)
  ultimately have volatility: "score (rs_volatility (computeScores f t))"
    unfolding computeScores_def regime_scores.simps volatility_score_def
    by (intro score_round finite_arith(1)) (assumption | rule finite_consts)+
  have range: "score (rs_range (computeScores f t))"
    unfolding computeScores_def regime_scores.simps range_score_def
    by (intro score_round finite_arith(1)) simp_all
  have "score (rs_breakout (computeScores f t))"
    unfolding computeScores_def regime_scores.simps breakout_score_def
    by (intro score_round finite_arith(1)) simp_all
  then show ?thesis using trend momentum volatility range by blast
qed

lemma fixed_unit: "0 \<le> r \<Longrightarrow> r \<le> 1 \<Longrightarrow> 0 \<le> fixed_rat 3 r \<and> fixed_rat 3 r \<le> 1"
proof -
  assume r: "0 \<le> r" "r \<le> 1"
  have "fixed_rat 3 1 = 1" by (simp add: fixed_rat_def round_half_up_def)
  then show ?thesis using r fixed_rat_nonneg fixed_rat_mono [OF r(2), of 3] by simp
qed

lemma confidence_unit:
  assumes "score (rs_trend s)" "score (rs_momentum s)" "score (rs_volatility s)" "score (rs_range s)" "score (rs_breakout s)"
  shows "\<exists>r. computeConfidence g s = Fin r \<and> 0 \<le> r \<and> r \<le> 1"
proof -
  have c: "\<exists>r. clamp_to (Fin 0) (Fin 100) x / Fin 100 = Fin r \<and> 0 \<le> r \<and> r \<le> 1" if x: "is_finite x" for x
  proof -
    obtain r where r: "clamp_to (Fin 0) (Fin 100) x = Fin r" "0 \<le> r" "r \<le> 100"
      using clamp_to_fin [OF x, of 0 100] by auto
    then show ?thesis by (intro exI [of _ "r / 100"]) simp
  qed
  have f: "is_finite (rs_trend s)" "is_finite (rs_momentum s)" "is_finite (rs_volatility s)" "is_finite (rs_range s)"
    "is_finite (rs_breakout s)" using assms by (auto simp: score_def)
  show ?thesis
  proof (cases "g = TRANSITION")
    case True
    then show ?thesis by (intro exI [of _ "35 / 100"]) simp
  next
    case False
    then show ?thesis by (cases g) (simp_all add: zero_jsnum_def c f)
  qed
qed

section \<open>Properties\<close>

text \<open>Scores and confidence in range.  On finite features the five scores are integers between 0 and
  100 and the confidence is a number between 0 and 1, at most the low-data cap when too few indicators
  are available (up to the three decimals it is rounded to).\<close>

theorem classification_in_range:
  assumes "finite_snapshot f" and "rt_adxTrendThreshold t = Fin a" and "0 < a"
    and "rt_lowDataConfidenceCap t = Fin cap" and "0 \<le> cap"
  shows "score (rs_trend (rr_scores (classify f t))) \<and> score (rs_momentum (rr_scores (classify f t))) \<and>
    score (rs_volatility (rr_scores (classify f t))) \<and> score (rs_range (rr_scores (classify f t))) \<and>
    score (rs_breakout (rr_scores (classify f t))) \<and>
    (\<exists>c. rr_confidence (classify f t) = Fin c \<and> 0 \<le> c \<and> c \<le> 1 \<and>
       (num (available_indicators f) < rt_minIndicatorsForConfidence t \<longrightarrow> c \<le> fixed_rat 3 cap))"
proof -
  note s = scores_in_range [OF assms(1-3)]
  obtain g why where g: "mapScoresToRegime f t (computeScores f t) = (g, why)" by force
  obtain r where r: "computeConfidence g (computeScores f t) = Fin r" "0 \<le> r" "r \<le> 1"
    using confidence_unit s by blast
  define m where "m = (if num (available_indicators f) < rt_minIndicatorsForConfidence t then min r cap else r)"
  have "rr_confidence (classify f t) = Fin (fixed_rat 3 m)"
    by (simp add: classify_def Let_def g r(1) assms(4) m_def)
  moreover have "0 \<le> m" "m \<le> 1" using r assms(5) by (auto simp: m_def)
  moreover have "num (available_indicators f) < rt_minIndicatorsForConfidence t \<longrightarrow> fixed_rat 3 m \<le> fixed_rat 3 cap"
    by (auto simp: m_def intro: fixed_rat_mono)
  moreover have "rr_scores (classify f t) = computeScores f t" by (simp add: classify_def Let_def g)
  ultimately show ?thesis using s fixed_unit [of m] by simp
qed

text \<open>A trend regime means aligned prices.  If features extracted from candles are classified as an
  uptrend, the fast average is above the slow one and the close above the long one; mirrored for a
  downtrend; and without a single indicator the regime is unknown.\<close>

theorem trend_regime_means_alignment:
  assumes "extractFeatures root_of cs cfg = Inr fs" and "f \<in> set fs" and "r = rr_regime (classify f t)"
  shows "(r = STRONG_UPTREND \<or> r = WEAK_UPTREND \<longrightarrow>
       (\<exists>a b l. ft_emaFast f = Some a \<and> ft_emaSlow f = Some b \<and> ft_emaLong f = Some l \<and> b < a \<and> l < ft_close f)) \<and>
     (r = STRONG_DOWNTREND \<or> r = WEAK_DOWNTREND \<longrightarrow>
       (\<exists>a b l. ft_emaFast f = Some a \<and> ft_emaSlow f = Some b \<and> ft_emaLong f = Some l \<and> a < b \<and> ft_close f < l)) \<and>
     (r = UNKNOWN \<longleftrightarrow> available_indicators f = 0)"
proof -
  have fs: "fs = snapshots root_of cfg cs" by (rule extractFeatures_snapshots [OF assms(1)])
  obtain i where "i < length cs" "f = snapshot_at root_of cfg cs i"
    using assms(2) by (auto simp: fs snapshots_def)
  then have dir: "ft_trendDirection f = trend_direction_of (ft_emaFast f) (ft_emaSlow f) (ft_emaLong f) (ft_close f)"
    by (simp add: snapshot_at_def Let_def)
  obtain g why where g: "mapScoresToRegime f t (computeScores f t) = (g, why)" by force
  have r: "r = (if available_indicators f = 0 then UNKNOWN else g)" by (simp add: assms(3) classify_def Let_def g)
  have "g \<noteq> UNKNOWN" and up: "g = STRONG_UPTREND \<or> g = WEAK_UPTREND \<Longrightarrow> ft_trendDirection f = TrendUp"
    and down: "g = STRONG_DOWNTREND \<or> g = WEAK_DOWNTREND \<Longrightarrow> ft_trendDirection f = TrendDown"
    using g by (auto simp: mapScoresToRegime_def Let_def split: if_splits) (cases "ft_trendDirection f"; simp)+
  then show ?thesis using r dir by (auto simp: trend_direction_of_def split: option.splits if_splits)
qed


section \<open>The pipeline\<close>

text \<open>Until its first window is full, an indicator has no value.\<close>

lemma ema_unfilled: "Suc i < p \<Longrightarrow> i < length vs \<Longrightarrow> ema_loop p vs ! i = None"
proof -
  assume i: "Suc i < p" "i < length vs"
  have "n \<le> i \<Longrightarrow> fst (loop_state (ema_step vs p) (None, 0) n) = None" for n
    by (induction n) (use i in \<open>auto simp: ema_step_def Let_def\<close>)
  from this [of i] show ?thesis using i by (simp add: ema_loop_def index_loop_nth ema_step_def Let_def)
qed

lemma atr_unfilled: "Suc i < p \<Longrightarrow> i < length cs \<Longrightarrow> atr p cs ! i = None"
proof -
  assume i: "Suc i < p" "i < length cs"
  have "n \<le> i \<Longrightarrow> fst (loop_state (atr_step (trueRange cs) p) (None, 0) n) = None" for n
    by (induction n) (use i in \<open>auto simp: atr_step_def Let_def\<close>)
  moreover have "length (trueRange cs) = length cs" by (simp add: trueRange_def)
  ultimately show ?thesis using i by (simp add: atr_def index_loop_nth atr_step_def Let_def)
qed

lemma unfilled:
  assumes "i < length vs"
  shows "i < p \<Longrightarrow> rsi_loop p vs ! i = None"
    and "Suc i < p \<Longrightarrow> sma_loop p vs ! i = None"
    and "i < p \<Longrightarrow> highestHigh p vs ! i = None"
  using assms
  by (simp_all add: rsi_loop_def sma_loop_def index_loop_nth rsi_step_def sma_step_def Let_def highestHigh_def split: if_splits)

lemma adx_unfilled: "i < p \<Longrightarrow> i < length cs \<Longrightarrow> adx p cs ! i = None"
proof -
  assume i: "i < p" "i < length cs"
  have "dx_series p cs ! i = None"
    using i by (auto simp: dx_series_def index_loop_nth dx_step_def Let_def split: prod.splits)
  moreover have "length (dx_series p cs) = length cs" by (simp add: dx_series_def)
  ultimately show ?thesis using i by (auto simp: adx_def adx_loop_def index_loop_nth adx_step_def split: prod.splits)
qed

lemma macd_unfilled: "Suc i < slow \<Longrightarrow> i < length vs \<Longrightarrow> macd_loop fast slow signal vs ! i = None"
proof -
  assume i: "Suc i < slow" "i < length vs"
  let ?l = "macd_line fast slow vs"
  have "?l ! j = None" if "j \<le> i" for j
    using that i ema_unfilled [of j slow vs] by (simp add: macd_line_def split: option.splits)
  moreover have "length ?l = length vs" by (simp add: macd_line_def)
  ultimately have "i < length (takeWhile (\<lambda>v. v = None) ?l)"
    using i(2) by (metis (mono_tags, lifting) le_less_linear less_le_trans nth_length_takeWhile)
  then show ?thesis by (simp add: macd_loop_def macd_from_def Let_def nth_append)
qed

lemma early_snapshot:
  assumes "i < length cs" "i < 8"
  shows "available_indicators (snapshot_at r DEFAULT_FEATURE_CONFIG cs i) = 0"
proof -
  have l: "i < length (closes_of cs)" "i < length (highs_of cs)" "length (highs_of cs) = length cs"
    using assms(1) by (simp_all add: closes_of_def highs_of_def)
  have atr: "atr 14 cs ! i = None" by (rule atr_unfilled) (use assms in simp_all)
  have ema: "ema_loop 9 (closes_of cs) ! i = None" "ema_loop 21 (closes_of cs) ! i = None" "ema_loop 50 (closes_of cs) ! i = None"
    using assms l(1) by (simp_all add: ema_unfilled)
  have "bollinger_loop r 20 2 (closes_of cs) ! i = None"
    using unfilled(2) [OF l(1), of 20] assms l by (simp add: bollinger_loop_def bollinger_at_def)
  moreover have "donchianChannel 20 (highs_of cs) (lows_of cs) ! i = None"
    using unfilled(3) [OF l(2), of 20] assms l by (simp add: donchianChannel_def donchian_at_def)
  moreover have "atrPercent 14 cs ! i = None" using atr assms(1) by (simp add: atrPercent_def)
  moreover have "adx 14 cs ! i = None" by (rule adx_unfilled) (use assms in simp_all)
  moreover have "rsi_loop 14 (closes_of cs) ! i = None" using unfilled(1) [OF l(1)] assms by simp
  moreover have "macd_loop 12 26 9 (closes_of cs) ! i = None" by (rule macd_unfilled) (use assms l in simp_all)
  ultimately show ?thesis
    using atr ema by (simp add: available_indicators_def snapshot_at_def Let_def DEFAULT_FEATURE_CONFIG_def slopeOf_def)
qed

text \<open>Without data nothing trades.  With the default periods no indicator has a value for the first
  eight candles of a history; such a snapshot is classified as unknown, and the selection chooses no
  strategy, whatever the candidates, their evidence and the configuration.\<close>

theorem short_history_trades_nothing:
  assumes "extractFeatures root_of cs DEFAULT_FEATURE_CONFIG = Inr fs" and "i < length fs" and "i < 8"
    and "r = classify (fs ! i) t"
  shows "rr_regime r = UNKNOWN \<and>
    se_selectedStrategyId (select cfg (regime_name (rr_regime r)) (rr_confidence r) candidates) = None"
proof -
  have fs: "fs = snapshots root_of DEFAULT_FEATURE_CONFIG cs" by (rule extractFeatures_snapshots [OF assms(1)])
  then have "fs ! i = snapshot_at root_of DEFAULT_FEATURE_CONFIG cs i" "i < length cs"
    using assms(2) by (simp_all add: snapshots_def)
  then have "available_indicators (fs ! i) = 0" using early_snapshot assms(3) by simp
  then have "rr_regime r = UNKNOWN" by (simp add: assms(4) classify_def Let_def split: prod.splits)
  then show ?thesis by (simp add: select_def noStrategy_def)
qed

subsection \<open>Concrete instances\<close>

definition trend_snapshot :: snapshot where
  "trend_snapshot =
     \<lparr>ft_symbol = ''R_10'', ft_interval = M1, ft_timestamp = 0, ft_close = 110, ft_emaFast = Some 108, ft_emaSlow = Some 105,
      ft_emaLong = Some 100, ft_emaFastSlope = Some (Fin (1 / 100)), ft_emaSlowSlope = Some (Fin (1 / 100)),
      ft_rsi = Some 60, ft_atr = None, ft_atrPercent = None, ft_adx = Some 30, ft_macd = None, ft_macdSignal = None,
      ft_macdHistogram = None, ft_bollingerUpper = None, ft_bollingerMiddle = None, ft_bollingerLower = None,
      ft_bollingerWidth = None, ft_priceDistanceFromEma = None, ft_recentReturn = None, ft_higherHighCount = 3,
      ft_lowerLowCount = 0, ft_donchianHigh = None, ft_donchianLow = None, ft_trendDirection = TrendUp,
      ft_volatilityPercentile = None\<rparr>"

theorem classification_in_range_witness:
  "rr_regime (classify trend_snapshot DEFAULT_REGIME_THRESHOLDS) = STRONG_UPTREND \<and>
   score (rs_trend (rr_scores (classify trend_snapshot DEFAULT_REGIME_THRESHOLDS)))"
proof -
  have "rr_regime (classify trend_snapshot DEFAULT_REGIME_THRESHOLDS) = STRONG_UPTREND" by code_simp
  moreover have "finite_snapshot trend_snapshot"
    by (simp add: finite_snapshot_def trend_snapshot_def finite_option_def)
  from classification_in_range [OF this, of DEFAULT_REGIME_THRESHOLDS 25 "3 / 10"]
  have "score (rs_trend (rr_scores (classify trend_snapshot DEFAULT_REGIME_THRESHOLDS)))"
    by (simp add: DEFAULT_REGIME_THRESHOLDS_def)
  ultimately show ?thesis by blast
qed

theorem short_history_trades_nothing_witness:
  "rr_regime (classify (snapshots (\<lambda>x. x) DEFAULT_FEATURE_CONFIG [demo_candle 5] ! 0) DEFAULT_REGIME_THRESHOLDS) = UNKNOWN"
proof -
  have "extractFeatures (\<lambda>x. x) [demo_candle 5] DEFAULT_FEATURE_CONFIG =
      Inr (snapshots (\<lambda>x. x) DEFAULT_FEATURE_CONFIG [demo_candle 5])"
    by (auto simp: extractFeatures_def DEFAULT_FEATURE_CONFIG_def ema_def rsi_def macd_def bollingerBands_def sma_def)
  from short_history_trades_nothing [OF this, of 0 _ DEFAULT_REGIME_THRESHOLDS] show ?thesis
    by (simp add: features.aligned)
qed

definition alignment_config :: feature_config where
  "alignment_config = DEFAULT_FEATURE_CONFIG
     \<lparr>fc_emaFastPeriod := 1, fc_emaSlowPeriod := 2, fc_emaLongPeriod := 2, fc_adxPeriod := 1, fc_slopePeriod := 1\<rparr>"

definition rising :: "candle list" where "rising = List.map demo_candle [1, 2, 4, 8]"

theorem trend_regime_means_alignment_witness:
  "rr_regime (classify (snapshots (\<lambda>x. x) alignment_config rising ! 3) DEFAULT_REGIME_THRESHOLDS) = STRONG_UPTREND \<and>
   (\<exists>a b. ft_emaFast (snapshots (\<lambda>x. x) alignment_config rising ! 3) = Some a \<and>
     ft_emaSlow (snapshots (\<lambda>x. x) alignment_config rising ! 3) = Some b \<and> b < a)"
proof -
  let ?fs = "snapshots (\<lambda>x. x) alignment_config rising"
  have ok: "extractFeatures (\<lambda>x. x) rising alignment_config = Inr ?fs"
    by (auto simp: extractFeatures_def alignment_config_def DEFAULT_FEATURE_CONFIG_def ema_def rsi_def macd_def
        bollingerBands_def sma_def)
  have up: "rr_regime (classify (?fs ! 3) DEFAULT_REGIME_THRESHOLDS) = STRONG_UPTREND" by code_simp
  have "?fs ! 3 \<in> set ?fs" by (rule nth_mem) (simp add: features.aligned rising_def)
  from trend_regime_means_alignment [OF ok this refl] up show ?thesis by fastforce
qed

end
