(* ===== verification/Strategies.thy ===== *)
theory Strategies
  imports Regime Simulator
begin

text \<open>
  The trading strategies (\<^verbatim>\<open>packages/trading-engine/src/strategies/types.ts\<close>,
  \<^verbatim>\<open>emaPullback.ts\<close>, \<^verbatim>\<open>bollingerReversion.ts\<close>, \<^verbatim>\<open>breakoutMomentum.ts\<close>,
  \<^verbatim>\<open>squeezeBreakout.ts\<close>).  A strategy is a record with its evaluation as a field, like the
  interface of the source; its parameters arrive parsed, so an evaluation takes them as a record, and the
  bounds of the schema are a predicate on that record.  Metadata is a map of its numeric entries.  Reasons
  are constructors without the figures of the texts.  The locale \<open>signal_rule\<close> is the contract every
  strategy owes its callers.
\<close>

subsection \<open>Decisions and contexts\<close>

type_synonym metadata = "string \<rightharpoonup> jsnum"

datatype strategy_reason =
    NoCandleOrFeatures | NoFeatures | NotEnoughCandles | CooldownActive | InsufficientHistory | NoTrendDirection
  | AdxTooLow | AdxTooHigh | VolatilityTooLow | TooExtended | NoPullback | ClosedOnWrongSide | RsiOutsideZone
  | NoRejection | ConfidenceTooLow | BandsExpanding | BreakingRange | NoBandRejection | NoBreakout | NoSqueeze
  | RangeIntact | NoMomentum | NotExpanding
  | TrendIntact | PullbackTouched | RsiCooled | RejectionCandle | AdxConfirms | RangingMarket | BandPierced
  | RsiExtreme | ClosedInside | NotBreakingExtreme | BrokeDonchian | EmasAligned | MacdAligned
  | VolatilityExpansion | Squeezed | MomentumConfirms | WidthExpanding

record decision =
  dc_action :: vote_action
  dc_confidence :: jsnum
  dc_entryReason :: "strategy_reason list"
  dc_invalidationReason :: "strategy_reason list"
  dc_proposedStake :: "jsnum option"
  dc_expiryDuration :: "jsnum option"
  dc_expiryUnit :: "string option"
  dc_signalTimestamp :: int
  dc_strategyId :: string
  dc_strategyVersion :: string
  dc_metadata :: metadata

record strategy_context =
  cx_candles :: "candle list"
  cx_features :: "snapshot list"
  cx_regime :: regime_result
  cx_candlesSinceLastSignal :: jsnum

record eligibility =
  el_supportedRegimes :: "regime list"
  el_minimumHistory :: nat
  el_minimumRegimeConfidence :: jsnum
  el_minimumStrategyConfidence :: jsnum
  el_allowedSymbols :: "string list"
  el_allowedIntervals :: "interval list"
  el_cooldownCandles :: jsnum

record strategy =
  sy_id :: string
  sy_version :: string
  sy_supportedRegimes :: "regime list"
  sy_minimumHistory :: nat
  sy_eligibility :: eligibility
  sy_evaluate :: "strategy_context \<Rightarrow> decision"

definition holdDecision :: "string \<Rightarrow> string \<Rightarrow> int \<Rightarrow> strategy_reason list \<Rightarrow> decision" where
  "holdDecision sid version timestamp reasons =
     \<lparr>dc_action = VHOLD, dc_confidence = 0, dc_entryReason = [], dc_invalidationReason = reasons,
      dc_proposedStake = None, dc_expiryDuration = None, dc_expiryUnit = None, dc_signalTimestamp = timestamp,
      dc_strategyId = sid, dc_strategyVersion = version, dc_metadata = Map.empty\<rparr>"

text \<open>Reading a list at an index that may be out of range.\<close>

definition elem_at :: "'a list \<Rightarrow> int \<Rightarrow> 'a option" where
  "elem_at xs i = (if 0 \<le> i \<and> i < int (length xs) then Some (xs ! nat i) else None)"

definition last_index :: "strategy_context \<Rightarrow> int" where
  "last_index c = int (length (cx_candles c)) - 1"

definition VOLATILITY_INDEX_SYMBOLS :: "string list" where
  "VOLATILITY_INDEX_SYMBOLS = [''R_10'', ''R_25'', ''R_50'', ''R_75'', ''R_100'']"

text \<open>The signal the strategies build, with the metadata their stop proposers read.\<close>

definition signal ::
  "string \<Rightarrow> string \<Rightarrow> vote_action \<Rightarrow> jsnum \<Rightarrow> int \<Rightarrow> jsnum \<Rightarrow> strategy_reason list \<Rightarrow> metadata \<Rightarrow> decision" where
  "signal sid version action confidence ts expiryCandles reasons structure =
     \<lparr>dc_action = action, dc_confidence = to_fixed 3 confidence, dc_entryReason = reasons,
      dc_invalidationReason = [], dc_proposedStake = None, dc_expiryDuration = Some expiryCandles,
      dc_expiryUnit = Some ''m'', dc_signalTimestamp = ts, dc_strategyId = sid, dc_strategyVersion = version,
      dc_metadata = structure\<rparr>"

subsection \<open>EMA pullback\<close>

datatype pullback_ema = FastEma | SlowEma

record ema_params =
  ep_pullbackEma :: pullback_ema
  ep_touchTolerance :: jsnum
  ep_rsiCoolMin :: jsnum
  ep_rsiCoolMax :: jsnum
  ep_adxMinimum :: jsnum
  ep_rejectionWickBodyRatio :: jsnum
  ep_cooldownCandles :: jsnum
  ep_minimumConfidence :: jsnum
  ep_expiryCandles :: jsnum

definition in_bounds :: "jsnum \<Rightarrow> jsnum \<Rightarrow> jsnum \<Rightarrow> bool" where
  "in_bounds lo hi x \<longleftrightarrow> lo \<le> x \<and> x \<le> hi"

definition int_in_bounds :: "jsnum \<Rightarrow> jsnum \<Rightarrow> jsnum \<Rightarrow> bool" where
  "int_in_bounds lo hi x \<longleftrightarrow> js_is_integer x \<and> in_bounds lo hi x"

definition ema_params_ok :: "ema_params \<Rightarrow> bool" where
  "ema_params_ok p \<longleftrightarrow>
     in_bounds (Fin (1 / 10000)) (Fin (2 / 100)) (ep_touchTolerance p) \<and> in_bounds 10 60 (ep_rsiCoolMin p) \<and>
     in_bounds 40 90 (ep_rsiCoolMax p) \<and> in_bounds 5 50 (ep_adxMinimum p) \<and>
     in_bounds (Fin (1 / 2)) 5 (ep_rejectionWickBodyRatio p) \<and> int_in_bounds 0 100 (ep_cooldownCandles p) \<and>
     in_bounds 0 1 (ep_minimumConfidence p) \<and> int_in_bounds 1 60 (ep_expiryCandles p)"

definition EMA_PULLBACK_DEFAULTS :: ema_params where
  "EMA_PULLBACK_DEFAULTS =
     \<lparr>ep_pullbackEma = FastEma, ep_touchTolerance = Fin (15 / 10000), ep_rsiCoolMin = 40, ep_rsiCoolMax = 60,
      ep_adxMinimum = 18, ep_rejectionWickBodyRatio = 1, ep_cooldownCandles = 5,
      ep_minimumConfidence = Fin (55 / 100), ep_expiryCandles = 5\<rparr>"

definition EMA_REGIMES :: "regime list" where
  "EMA_REGIMES = [STRONG_UPTREND, WEAK_UPTREND, STRONG_DOWNTREND, WEAK_DOWNTREND]"

definition ema_id :: string where "ema_id = ''ema-pullback-v1''"

definition ema_signal ::
  "ema_params \<Rightarrow> vote_action \<Rightarrow> int \<Rightarrow> jsnum \<Rightarrow> candle \<Rightarrow> jsnum \<Rightarrow> decision" where
  "ema_signal p action ts confidence candle targetEma =
     (if confidence < ep_minimumConfidence p then holdDecision ema_id ''1'' ts [ConfidenceTooLow]
      else signal ema_id ''1'' action (js_min confidence (Fin (95 / 100))) ts (ep_expiryCandles p)
        [TrendIntact, PullbackTouched, RsiCooled, RejectionCandle, AdxConfirms]
        [''pullbackLow'' \<mapsto> c_low candle, ''pullbackHigh'' \<mapsto> c_high candle, ''targetEma'' \<mapsto> targetEma])"

definition lower_wick :: "candle \<Rightarrow> jsnum" where
  "lower_wick candle = js_min (c_open candle) (c_close candle) - c_low candle"

definition upper_wick :: "candle \<Rightarrow> jsnum" where
  "upper_wick candle = c_high candle - js_max (c_open candle) (c_close candle)"

definition rejection_ratio :: "jsnum \<Rightarrow> jsnum \<Rightarrow> jsnum \<Rightarrow> bool" where
  "rejection_ratio wick body ratio = (if js_eq body 0 then 0 < wick else ratio \<le> wick / body)"

definition pullback_confidence :: "ema_params \<Rightarrow> jsnum \<Rightarrow> jsnum \<Rightarrow> jsnum \<Rightarrow> jsnum" where
  "pullback_confidence p adxv wick body =
     js_min (Fin (55 / 100) + (adxv - ep_adxMinimum p) / 60 + wick / (body + Fin (1 / 10 ^ 9)) / 20) (Fin (9 / 10))"

definition ema_long :: "ema_params \<Rightarrow> int \<Rightarrow> candle \<Rightarrow> jsnum \<Rightarrow> jsnum \<Rightarrow> jsnum \<Rightarrow> decision" where
  "ema_long p ts candle targetEma rsiv adxv =
     (let body = js_abs (c_close candle - c_open candle);
          tolerance = targetEma * ep_touchTolerance p;
          touched = (c_low candle \<le> targetEma + tolerance);
          closedBackAbove = (targetEma < c_close candle);
          rsiCooled = (ep_rsiCoolMin p \<le> rsiv \<and> rsiv \<le> ep_rsiCoolMax p + 10);
          bullishRejection = (c_open candle < c_close candle \<and>
            rejection_ratio (lower_wick candle) body (ep_rejectionWickBodyRatio p));
          blockers = push_when (\<not> touched) NoPullback @ push_when (\<not> closedBackAbove) ClosedOnWrongSide
            @ push_when (\<not> rsiCooled) RsiOutsideZone @ push_when (\<not> bullishRejection) NoRejection
      in if blockers \<noteq> [] then holdDecision ema_id ''1'' ts blockers
         else ema_signal p VBUY ts (pullback_confidence p adxv (lower_wick candle) body) candle targetEma)"

definition ema_short :: "ema_params \<Rightarrow> int \<Rightarrow> candle \<Rightarrow> jsnum \<Rightarrow> jsnum \<Rightarrow> jsnum \<Rightarrow> decision" where
  "ema_short p ts candle targetEma rsiv adxv =
     (let body = js_abs (c_close candle - c_open candle);
          tolerance = targetEma * ep_touchTolerance p;
          touched = (targetEma - tolerance \<le> c_high candle);
          closedBackBelow = (c_close candle < targetEma);
          rsiCooled = (rsiv \<le> ep_rsiCoolMax p \<and> ep_rsiCoolMin p - 10 \<le> rsiv);
          bearishRejection = (c_close candle < c_open candle \<and>
            rejection_ratio (upper_wick candle) body (ep_rejectionWickBodyRatio p));
          blockers = push_when (\<not> touched) NoPullback @ push_when (\<not> closedBackBelow) ClosedOnWrongSide
            @ push_when (\<not> rsiCooled) RsiOutsideZone @ push_when (\<not> bearishRejection) NoRejection
      in if blockers \<noteq> [] then holdDecision ema_id ''1'' ts blockers
         else ema_signal p VSELL ts (pullback_confidence p adxv (upper_wick candle) body) candle targetEma)"

definition ema_inputs_of :: "ema_params \<Rightarrow> snapshot \<Rightarrow> (jsnum \<times> jsnum \<times> jsnum) option" where
  "ema_inputs_of p f =
     (case (ft_emaFast f, ft_emaSlow f, ft_rsi f, ft_adx f) of
        (Some fast, Some slow, Some rsiv, Some adxv) \<Rightarrow>
          Some (if ep_pullbackEma p = FastEma then fast else slow, rsiv, adxv)
      | _ \<Rightarrow> None)"

definition evaluate_ema :: "ema_params \<Rightarrow> strategy_context \<Rightarrow> decision" where
  "evaluate_ema p c =
     (let ts = rr_timestamp (cx_regime c); hold = holdDecision ema_id ''1'' ts
      in case (elem_at (cx_candles c) (last_index c), elem_at (cx_features c) (last_index c)) of
           (Some candle, Some f) \<Rightarrow>
             if cx_candlesSinceLastSignal c < ep_cooldownCandles p then hold [CooldownActive]
             else (case ema_inputs_of p f of
                None \<Rightarrow> hold [InsufficientHistory]
              | Some (targetEma, rsiv, adxv) \<Rightarrow>
                  if ft_trendDirection f = TrendFlat then hold [NoTrendDirection]
                  else if adxv < ep_adxMinimum p then hold [AdxTooLow]
                  else if ft_trendDirection f = TrendUp then ema_long p ts candle targetEma rsiv adxv
                  else ema_short p ts candle targetEma rsiv adxv)
         | _ \<Rightarrow> hold [NoCandleOrFeatures])"

definition ema_strategy :: "ema_params \<Rightarrow> strategy" where
  "ema_strategy p =
     \<lparr>sy_id = ema_id, sy_version = ''1'', sy_supportedRegimes = EMA_REGIMES, sy_minimumHistory = 60,
      sy_eligibility = \<lparr>el_supportedRegimes = EMA_REGIMES, el_minimumHistory = 60,
        el_minimumRegimeConfidence = Fin (1 / 2), el_minimumStrategyConfidence = Fin (55 / 100),
        el_allowedSymbols = VOLATILITY_INDEX_SYMBOLS, el_allowedIntervals = [M1, M5],
        el_cooldownCandles = ep_cooldownCandles EMA_PULLBACK_DEFAULTS\<rparr>,
      sy_evaluate = evaluate_ema p\<rparr>"

subsection \<open>Bollinger reversion\<close>

record reversion_params =
  bp_adxMaximum :: jsnum
  bp_rsiOversold :: jsnum
  bp_rsiOverbought :: jsnum
  bp_maxBandExpansion :: jsnum
  bp_bandExpansionLookback :: int
  bp_majorLevelBuffer :: jsnum
  bp_cooldownCandles :: jsnum
  bp_minimumConfidence :: jsnum
  bp_expiryCandles :: jsnum

definition reversion_params_ok :: "reversion_params \<Rightarrow> bool" where
  "reversion_params_ok p \<longleftrightarrow>
     in_bounds 10 40 (bp_adxMaximum p) \<and> in_bounds 5 45 (bp_rsiOversold p) \<and> in_bounds 55 95 (bp_rsiOverbought p) \<and>
     in_bounds 0 2 (bp_maxBandExpansion p) \<and> 2 \<le> bp_bandExpansionLookback p \<and> bp_bandExpansionLookback p \<le> 30 \<and>
     in_bounds 0 (Fin (1 / 100)) (bp_majorLevelBuffer p) \<and> int_in_bounds 0 100 (bp_cooldownCandles p) \<and>
     in_bounds 0 1 (bp_minimumConfidence p) \<and> int_in_bounds 1 60 (bp_expiryCandles p)"

definition BOLLINGER_REVERSION_DEFAULTS :: reversion_params where
  "BOLLINGER_REVERSION_DEFAULTS =
     \<lparr>bp_adxMaximum = 22, bp_rsiOversold = 30, bp_rsiOverbought = 70, bp_maxBandExpansion = Fin (1 / 4),
      bp_bandExpansionLookback = 5, bp_majorLevelBuffer = Fin (5 / 10000), bp_cooldownCandles = 5,
      bp_minimumConfidence = Fin (55 / 100), bp_expiryCandles = 5\<rparr>"

definition REVERSION_REGIMES :: "regime list" where
  "REVERSION_REGIMES = [RANGE_LOW_VOLATILITY, RANGE_HIGH_VOLATILITY]"

definition reversion_id :: string where "reversion_id = ''bollinger-reversion-v1''"

text \<open>The bands now and one candle ago, and the other indicators the evaluation needs.\<close>

record band_inputs =
  bi_upper :: jsnum
  bi_lower :: jsnum
  bi_width :: jsnum
  bi_rsi :: jsnum
  bi_adx :: jsnum
  bi_prevUpper :: jsnum
  bi_prevLower :: jsnum
  bi_donchianHigh :: jsnum
  bi_donchianLow :: jsnum

definition band_inputs_of :: "snapshot \<Rightarrow> snapshot \<Rightarrow> band_inputs option" where
  "band_inputs_of f fPrev =
     (case (ft_bollingerUpper f, ft_bollingerLower f, ft_bollingerWidth f, ft_rsi f, ft_adx f) of
        (Some u, Some l, Some w, Some r, Some a) \<Rightarrow>
          (case (ft_bollingerUpper fPrev, ft_bollingerLower fPrev, ft_donchianHigh f, ft_donchianLow f) of
             (Some pu, Some pl, Some dh, Some dl) \<Rightarrow>
               Some \<lparr>bi_upper = u, bi_lower = l, bi_width = w, bi_rsi = r, bi_adx = a, bi_prevUpper = pu,
                     bi_prevLower = pl, bi_donchianHigh = dh, bi_donchianLow = dl\<rparr>
           | _ \<Rightarrow> None)
      | _ \<Rightarrow> None)"

definition bands_expanding :: "reversion_params \<Rightarrow> strategy_context \<Rightarrow> jsnum \<Rightarrow> bool" where
  "bands_expanding p c width =
     (case elem_at (cx_features c) (last_index c - bp_bandExpansionLookback p) of
        None \<Rightarrow> False
      | Some back \<Rightarrow>
          (case ft_bollingerWidth back of
             None \<Rightarrow> False
           | Some widthBack \<Rightarrow> 0 < widthBack \<and> bp_maxBandExpansion p < (width - widthBack) / widthBack))"

definition reversion_structure :: "candle \<Rightarrow> candle \<Rightarrow> snapshot \<Rightarrow> band_inputs \<Rightarrow> metadata" where
  "reversion_structure prev candle f b =
     (\<lambda>k. if k = ''bollingerLower'' then Some (bi_lower b)
          else if k = ''bollingerUpper'' then Some (bi_upper b)
          else if k = ''bollingerMiddle'' \<or> k = ''bollingerMid'' then ft_bollingerMiddle f
          else if k = ''extremeLow'' then Some (js_min (c_low prev) (c_low candle))
          else if k = ''extremeHigh'' then Some (js_max (c_high prev) (c_high candle))
          else None)"

definition reversion_reasons :: "strategy_reason list" where
  "reversion_reasons = [RangingMarket, BandPierced, RsiExtreme, ClosedInside, NotBreakingExtreme]"

text \<open>The signal of one side, if its conditions hold.\<close>

definition reversion_long ::
  "reversion_params \<Rightarrow> int \<Rightarrow> candle \<Rightarrow> candle \<Rightarrow> snapshot \<Rightarrow> band_inputs \<Rightarrow> decision option" where
  "reversion_long p ts prev candle f b =
     (let prevPiercedLower = (c_low prev \<le> bi_prevLower b \<or> c_close prev \<le> bi_prevLower b);
          closedBackInsideLower = (bi_lower b < c_close candle);
          rsiOversold = (bi_rsi b \<le> bp_rsiOversold p + 5);
          nearMajorLow = (c_close candle \<le> bi_donchianLow b * (1 + bp_majorLevelBuffer p));
          confidence = js_min (Fin (55 / 100) + (bp_rsiOversold p + 5 - bi_rsi b) / 60
            + (bp_adxMaximum p - bi_adx b) / 100) (Fin (9 / 10))
      in if prevPiercedLower \<and> closedBackInsideLower \<and> rsiOversold \<and> \<not> nearMajorLow \<and> bp_minimumConfidence p \<le> confidence
         then Some (signal reversion_id ''1'' VBUY (js_min confidence (Fin (95 / 100))) ts (bp_expiryCandles p)
           reversion_reasons (reversion_structure prev candle f b))
         else None)"

definition reversion_short ::
  "reversion_params \<Rightarrow> int \<Rightarrow> candle \<Rightarrow> candle \<Rightarrow> snapshot \<Rightarrow> band_inputs \<Rightarrow> decision option" where
  "reversion_short p ts prev candle f b =
     (let prevPiercedUpper = (bi_prevUpper b \<le> c_high prev \<or> bi_prevUpper b \<le> c_close prev);
          closedBackInsideUpper = (c_close candle < bi_upper b);
          rsiOverbought = (bp_rsiOverbought p - 5 \<le> bi_rsi b);
          nearMajorHigh = (bi_donchianHigh b * (1 - bp_majorLevelBuffer p) \<le> c_close candle);
          confidence = js_min (Fin (55 / 100) + (bi_rsi b - (bp_rsiOverbought p - 5)) / 60
            + (bp_adxMaximum p - bi_adx b) / 100) (Fin (9 / 10))
      in if prevPiercedUpper \<and> closedBackInsideUpper \<and> rsiOverbought \<and> \<not> nearMajorHigh \<and> bp_minimumConfidence p \<le> confidence
         then Some (signal reversion_id ''1'' VSELL (js_min confidence (Fin (95 / 100))) ts (bp_expiryCandles p)
           reversion_reasons (reversion_structure prev candle f b))
         else None)"

definition evaluate_reversion :: "reversion_params \<Rightarrow> strategy_context \<Rightarrow> decision" where
  "evaluate_reversion p c =
     (let ts = rr_timestamp (cx_regime c); hold = holdDecision reversion_id ''1'' ts; i = last_index c
      in case (elem_at (cx_candles c) i, elem_at (cx_candles c) (i - 1), elem_at (cx_features c) i,
           elem_at (cx_features c) (i - 1)) of
           (Some candle, Some prev, Some f, Some fPrev) \<Rightarrow>
             if cx_candlesSinceLastSignal c < bp_cooldownCandles p then hold [CooldownActive]
             else (case band_inputs_of f fPrev of
                None \<Rightarrow> hold [InsufficientHistory]
              | Some b \<Rightarrow>
                  if bp_adxMaximum p < bi_adx b then hold [AdxTooHigh]
                  else if bands_expanding p c (bi_width b) then hold [BandsExpanding]
                  else if bi_donchianHigh b < ft_close f \<or> ft_close f < bi_donchianLow b then hold [BreakingRange]
                  else (case reversion_long p ts prev candle f b of
                      Some d \<Rightarrow> d
                    | None \<Rightarrow>
                        (case reversion_short p ts prev candle f b of
                           Some d \<Rightarrow> d
                         | None \<Rightarrow> hold [NoBandRejection])))
         | _ \<Rightarrow> hold [NotEnoughCandles])"

definition reversion_strategy :: "reversion_params \<Rightarrow> strategy" where
  "reversion_strategy p =
     \<lparr>sy_id = reversion_id, sy_version = ''1'', sy_supportedRegimes = REVERSION_REGIMES, sy_minimumHistory = 60,
      sy_eligibility = \<lparr>el_supportedRegimes = REVERSION_REGIMES, el_minimumHistory = 60,
        el_minimumRegimeConfidence = Fin (1 / 2), el_minimumStrategyConfidence = Fin (55 / 100),
        el_allowedSymbols = VOLATILITY_INDEX_SYMBOLS, el_allowedIntervals = [M1, M5],
        el_cooldownCandles = bp_cooldownCandles BOLLINGER_REVERSION_DEFAULTS\<rparr>,
      sy_evaluate = evaluate_reversion p\<rparr>"

subsection \<open>Breakout momentum\<close>

record breakout_params =
  kp_donchianLookback :: jsnum
  kp_emaFastPeriod :: jsnum
  kp_emaSlowPeriod :: jsnum
  kp_adxThreshold :: jsnum
  kp_minVolatilityPercentile :: jsnum
  kp_maxExtensionFromEma :: jsnum
  kp_cooldownCandles :: jsnum
  kp_minimumConfidence :: jsnum
  kp_expiryCandles :: jsnum

definition breakout_params_ok :: "breakout_params \<Rightarrow> bool" where
  "breakout_params_ok p \<longleftrightarrow>
     int_in_bounds 5 100 (kp_donchianLookback p) \<and> int_in_bounds 3 50 (kp_emaFastPeriod p) \<and>
     int_in_bounds 10 200 (kp_emaSlowPeriod p) \<and> in_bounds 10 50 (kp_adxThreshold p) \<and>
     in_bounds 0 100 (kp_minVolatilityPercentile p) \<and>
     in_bounds (Fin (1 / 1000)) (Fin (1 / 10)) (kp_maxExtensionFromEma p) \<and>
     int_in_bounds 0 100 (kp_cooldownCandles p) \<and> in_bounds 0 1 (kp_minimumConfidence p) \<and>
     int_in_bounds 1 60 (kp_expiryCandles p)"

definition BREAKOUT_MOMENTUM_DEFAULTS :: breakout_params where
  "BREAKOUT_MOMENTUM_DEFAULTS =
     \<lparr>kp_donchianLookback = 20, kp_emaFastPeriod = 9, kp_emaSlowPeriod = 21, kp_adxThreshold = 25,
      kp_minVolatilityPercentile = 40, kp_maxExtensionFromEma = Fin (1 / 100), kp_cooldownCandles = 5,
      kp_minimumConfidence = Fin (6 / 10), kp_expiryCandles = 5\<rparr>"

definition BREAKOUT_REGIMES :: "regime list" where
  "BREAKOUT_REGIMES = [STRONG_UPTREND, STRONG_DOWNTREND, BREAKOUT_EXPANSION]"

definition breakout_id :: string where "breakout_id = ''breakout-momentum-v1''"

record breakout_inputs =
  ki_donchianHigh :: jsnum
  ki_donchianLow :: jsnum
  ki_emaFast :: jsnum
  ki_emaSlow :: jsnum
  ki_fastSlope :: jsnum
  ki_adx :: jsnum
  ki_macdHist :: jsnum
  ki_volPct :: jsnum

definition breakout_inputs_of :: "snapshot \<Rightarrow> breakout_inputs option" where
  "breakout_inputs_of f =
     (case (ft_donchianHigh f, ft_donchianLow f, ft_emaFast f, ft_emaSlow f, ft_emaFastSlope f) of
        (Some dh, Some dl, Some ef, Some es, Some sl) \<Rightarrow>
          (case (ft_adx f, ft_macdHistogram f, ft_volatilityPercentile f, ft_emaSlowSlope f) of
             (Some a, Some m, Some v, Some _) \<Rightarrow>
               Some \<lparr>ki_donchianHigh = dh, ki_donchianLow = dl, ki_emaFast = ef, ki_emaSlow = es, ki_fastSlope = sl,
                     ki_adx = a, ki_macdHist = m, ki_volPct = v\<rparr>
           | _ \<Rightarrow> None)
      | _ \<Rightarrow> None)"

definition long_breakout :: "snapshot \<Rightarrow> breakout_inputs \<Rightarrow> bool" where
  "long_breakout f b \<longleftrightarrow>
     ki_donchianHigh b < ft_close f \<and> ki_emaSlow b < ki_emaFast b \<and> 0 < ki_fastSlope b \<and> 0 < ki_macdHist b"

definition short_breakout :: "snapshot \<Rightarrow> breakout_inputs \<Rightarrow> bool" where
  "short_breakout f b \<longleftrightarrow>
     ft_close f < ki_donchianLow b \<and> ki_emaFast b < ki_emaSlow b \<and> ki_fastSlope b < 0 \<and> ki_macdHist b < 0"

definition breakout_blockers :: "breakout_params \<Rightarrow> snapshot \<Rightarrow> breakout_inputs \<Rightarrow> strategy_reason list" where
  "breakout_blockers p f b =
     push_when (ki_adx b < kp_adxThreshold p) AdxTooLow
     @ push_when (ki_volPct b < kp_minVolatilityPercentile p) VolatilityTooLow
     @ push_when (kp_maxExtensionFromEma p < js_abs (or_default (ft_priceDistanceFromEma f) 0)) TooExtended
     @ push_when (\<not> long_breakout f b \<and> \<not> short_breakout f b) NoBreakout"

definition breakout_confidence :: "breakout_params \<Rightarrow> breakout_inputs \<Rightarrow> jsnum" where
  "breakout_confidence p b =
     (let adxBoost = js_min ((ki_adx b - kp_adxThreshold p) / 25) (Fin (2 / 10));
          volBoost = js_min ((ki_volPct b - kp_minVolatilityPercentile p) / 300) (Fin (15 / 100))
      in js_min (Fin (6 / 10) + adxBoost + volBoost) (Fin (95 / 100)))"

definition evaluate_breakout :: "breakout_params \<Rightarrow> strategy_context \<Rightarrow> decision" where
  "evaluate_breakout p c =
     (let ts = rr_timestamp (cx_regime c); hold = holdDecision breakout_id ''1'' ts
      in case elem_at (cx_features c) (int (length (cx_features c)) - 1) of
           None \<Rightarrow> hold [NoFeatures]
         | Some f \<Rightarrow>
             if cx_candlesSinceLastSignal c < kp_cooldownCandles p then hold [CooldownActive]
             else (case breakout_inputs_of f of
                None \<Rightarrow> hold [InsufficientHistory]
              | Some b \<Rightarrow>
                  let blockers = breakout_blockers p f b; confidence = breakout_confidence p b
                  in if blockers \<noteq> [] then hold blockers
                     else if confidence < kp_minimumConfidence p then hold [ConfidenceTooLow]
                     else signal breakout_id ''1'' (if long_breakout f b then VBUY else VSELL) confidence ts
                       (kp_expiryCandles p) [BrokeDonchian, EmasAligned, AdxConfirms, MacdAligned, VolatilityExpansion]
                       [''donchianHigh'' \<mapsto> ki_donchianHigh b, ''donchianLow'' \<mapsto> ki_donchianLow b,
                        ''adx'' \<mapsto> ki_adx b, ''volatilityPercentile'' \<mapsto> ki_volPct b]))"

definition breakout_strategy :: "breakout_params \<Rightarrow> strategy" where
  "breakout_strategy p =
     \<lparr>sy_id = breakout_id, sy_version = ''1'', sy_supportedRegimes = BREAKOUT_REGIMES, sy_minimumHistory = 60,
      sy_eligibility = \<lparr>el_supportedRegimes = BREAKOUT_REGIMES, el_minimumHistory = 60,
        el_minimumRegimeConfidence = Fin (55 / 100), el_minimumStrategyConfidence = Fin (6 / 10),
        el_allowedSymbols = VOLATILITY_INDEX_SYMBOLS, el_allowedIntervals = [M1, M5],
        el_cooldownCandles = kp_cooldownCandles BREAKOUT_MOMENTUM_DEFAULTS\<rparr>,
      sy_evaluate = evaluate_breakout p\<rparr>"

subsection \<open>Squeeze breakout\<close>

record squeeze_params =
  qp_squeezeWidthThreshold :: jsnum
  qp_squeezeLookback :: int
  qp_maxSqueezeVolatilityPercentile :: jsnum
  qp_minBreakoutReturn :: jsnum
  qp_cooldownCandles :: jsnum
  qp_minimumConfidence :: jsnum
  qp_expiryCandles :: jsnum

definition squeeze_params_ok :: "squeeze_params \<Rightarrow> bool" where
  "squeeze_params_ok p \<longleftrightarrow>
     in_bounds (Fin (1 / 1000)) (Fin (5 / 100)) (qp_squeezeWidthThreshold p) \<and>
     3 \<le> qp_squeezeLookback p \<and> qp_squeezeLookback p \<le> 50 \<and>
     in_bounds 0 100 (qp_maxSqueezeVolatilityPercentile p) \<and> in_bounds 0 (Fin (5 / 100)) (qp_minBreakoutReturn p) \<and>
     int_in_bounds 0 100 (qp_cooldownCandles p) \<and> in_bounds 0 1 (qp_minimumConfidence p) \<and>
     int_in_bounds 1 60 (qp_expiryCandles p)"

definition SQUEEZE_BREAKOUT_DEFAULTS :: squeeze_params where
  "SQUEEZE_BREAKOUT_DEFAULTS =
     \<lparr>qp_squeezeWidthThreshold = Fin (8 / 1000), qp_squeezeLookback = 10, qp_maxSqueezeVolatilityPercentile = 30,
      qp_minBreakoutReturn = Fin (8 / 10000), qp_cooldownCandles = 8, qp_minimumConfidence = Fin (6 / 10),
      qp_expiryCandles = 5\<rparr>"

definition SQUEEZE_REGIMES :: "regime list" where
  "SQUEEZE_REGIMES = [VOLATILITY_COMPRESSION, BREAKOUT_EXPANSION]"

definition squeeze_id :: string where "squeeze_id = ''squeeze-breakout-v1''"

text \<open>The squeeze of the window before the breakout candle: whether one was found, and its least width.\<close>

definition squeeze_step :: "squeeze_params \<Rightarrow> snapshot \<Rightarrow> bool \<times> jsnum \<Rightarrow> bool \<times> jsnum" where
  "squeeze_step p f acc =
     (case ft_bollingerWidth f of
        None \<Rightarrow> acc
      | Some w \<Rightarrow>
          if w \<le> qp_squeezeWidthThreshold p \<and>
            (case ft_volatilityPercentile f of None \<Rightarrow> True | Some vp \<Rightarrow> vp \<le> qp_maxSqueezeVolatilityPercentile p)
          then (True, js_min (snd acc) w) else acc)"

definition squeeze_window :: "squeeze_params \<Rightarrow> strategy_context \<Rightarrow> snapshot list" where
  "squeeze_window p c =
     (let i = last_index c
      in take (nat i - nat (max 0 (i - qp_squeezeLookback p))) (drop (nat (max 0 (i - qp_squeezeLookback p))) (cx_features c)))"

definition find_squeeze :: "squeeze_params \<Rightarrow> strategy_context \<Rightarrow> bool \<times> jsnum" where
  "find_squeeze p c = fold (squeeze_step p) (squeeze_window p c) (False, PosInf)"

record squeeze_inputs =
  qi_width :: jsnum
  qi_donchianHigh :: jsnum
  qi_donchianLow :: jsnum
  qi_recentReturn :: jsnum

definition squeeze_inputs_of :: "snapshot \<Rightarrow> squeeze_inputs option" where
  "squeeze_inputs_of f =
     (case (ft_bollingerWidth f, ft_donchianHigh f, ft_donchianLow f, ft_recentReturn f, ft_volatilityPercentile f, ft_atrPercent f) of
        (Some w, Some dh, Some dl, Some r, Some _, Some _) \<Rightarrow>
          Some \<lparr>qi_width = w, qi_donchianHigh = dh, qi_donchianLow = dl, qi_recentReturn = r\<rparr>
      | _ \<Rightarrow> None)"

definition squeeze_confidence :: "jsnum \<Rightarrow> jsnum \<Rightarrow> jsnum" where
  "squeeze_confidence expansionRatio ret =
     js_min (Fin (6 / 10) + js_min ((expansionRatio - Fin (11 / 10)) / 4) (Fin (2 / 10))
       + js_min (js_abs ret / Fin (1 / 100)) (Fin (15 / 100))) (Fin (95 / 100))"

definition evaluate_squeeze :: "squeeze_params \<Rightarrow> strategy_context \<Rightarrow> decision" where
  "evaluate_squeeze p c =
     (let ts = rr_timestamp (cx_regime c); hold = holdDecision squeeze_id ''1'' ts
      in case elem_at (cx_features c) (last_index c) of
           None \<Rightarrow> hold [NoFeatures]
         | Some f \<Rightarrow>
             if cx_candlesSinceLastSignal c < qp_cooldownCandles p then hold [CooldownActive]
             else (case squeeze_inputs_of f of
                None \<Rightarrow> hold [InsufficientHistory]
              | Some q \<Rightarrow>
                  let (squeezeFound, minWidth) = find_squeeze p c;
                      brokeUp = (qi_donchianHigh q < ft_close f); brokeDown = (ft_close f < qi_donchianLow q);
                      momentumConfirms = (brokeUp \<and> qp_minBreakoutReturn p \<le> qi_recentReturn q \<or>
                        brokeDown \<and> qi_recentReturn q \<le> - qp_minBreakoutReturn p);
                      expansionRatio = qi_width q / (if js_eq minWidth 0 \<or> minWidth = NaN then Fin (1 / 10 ^ 9) else minWidth);
                      confidence = squeeze_confidence expansionRatio (qi_recentReturn q)
                  in if \<not> squeezeFound then hold [NoSqueeze]
                     else if \<not> brokeUp \<and> \<not> brokeDown then hold [RangeIntact]
                     else if \<not> momentumConfirms then hold [NoMomentum]
                     else if \<not> minWidth * Fin (11 / 10) < qi_width q then hold [NotExpanding]
                     else if confidence < qp_minimumConfidence p then hold [ConfidenceTooLow]
                     else signal squeeze_id ''1'' (if brokeUp then VBUY else VSELL) confidence ts (qp_expiryCandles p)
                       [Squeezed, BrokeDonchian, MomentumConfirms, WidthExpanding]
                       [''minSqueezeWidth'' \<mapsto> minWidth, ''expansionRatio'' \<mapsto> expansionRatio,
                        ''donchianLow'' \<mapsto> qi_donchianLow q, ''donchianHigh'' \<mapsto> qi_donchianHigh q,
                        ''squeezeLow'' \<mapsto> qi_donchianLow q, ''squeezeHigh'' \<mapsto> qi_donchianHigh q]))"

definition squeeze_strategy :: "squeeze_params \<Rightarrow> strategy" where
  "squeeze_strategy p =
     \<lparr>sy_id = squeeze_id, sy_version = ''1'', sy_supportedRegimes = SQUEEZE_REGIMES, sy_minimumHistory = 80,
      sy_eligibility = \<lparr>el_supportedRegimes = SQUEEZE_REGIMES, el_minimumHistory = 80,
        el_minimumRegimeConfidence = Fin (1 / 2), el_minimumStrategyConfidence = Fin (6 / 10),
        el_allowedSymbols = VOLATILITY_INDEX_SYMBOLS, el_allowedIntervals = [M1, M5],
        el_cooldownCandles = qp_cooldownCandles SQUEEZE_BREAKOUT_DEFAULTS\<rparr>,
      sy_evaluate = evaluate_squeeze p\<rparr>"

section \<open>The contract of a strategy\<close>

definition finite_ohlc :: "candle \<Rightarrow> bool" where
  "finite_ohlc c \<longleftrightarrow> is_finite (c_open c) \<and> is_finite (c_high c) \<and> is_finite (c_low c) \<and> is_finite (c_close c)"

definition sane_context :: "strategy_context \<Rightarrow> bool" where
  "sane_context c \<longleftrightarrow> list_all finite_snapshot (cx_features c) \<and> list_all finite_ohlc (cx_candles c)"

definition flat_hold :: "decision \<Rightarrow> bool" where
  "flat_hold d \<longleftrightarrow> (dc_action d = VHOLD \<longrightarrow> dc_confidence d = 0 \<and> dc_metadata d = Map.empty)"

definition unit_interval :: "rat \<Rightarrow> jsnum \<Rightarrow> bool" where
  "unit_interval hi x \<longleftrightarrow> (\<exists>k. x = Fin k \<and> 0 \<le> k \<and> k \<le> hi)"

text \<open>A strategy that names itself in its decisions and holds until its cooldown is over.\<close>

definition paced :: "jsnum \<Rightarrow> strategy \<Rightarrow> bool" where
  "paced n sy \<longleftrightarrow> (\<forall>c. dc_strategyId (sy_evaluate sy c) = sy_id sy) \<and>
     (\<forall>c. cx_candlesSinceLastSignal c < n \<longrightarrow> dc_action (sy_evaluate sy c) = VHOLD)"

text \<open>What the callers of a strategy rely on: the decision names the strategy and the candle, a held decision
  carries nothing, a strategy in its cooldown holds, and on finite data a signal is confident within its limit.\<close>

locale signal_rule =
  fixes rule :: "'p \<Rightarrow> strategy_context \<Rightarrow> decision"
    and ok :: "'p \<Rightarrow> bool" and sid :: string and cooldown :: "'p \<Rightarrow> jsnum" and limit :: rat
  assumes identity: "dc_strategyId (rule p c) = sid"
    and stamped: "dc_signalTimestamp (rule p c) = rr_timestamp (cx_regime c)"
    and waits: "cx_candlesSinceLastSignal c < cooldown p \<Longrightarrow> dc_action (rule p c) = VHOLD"
    and flat: "flat_hold (rule p c)"
    and confident: "ok p \<Longrightarrow> sane_context c \<Longrightarrow> dc_action (rule p c) \<noteq> VHOLD \<Longrightarrow> unit_interval limit (dc_confidence (rule p c))"
    and limit_range: "0 \<le> limit" "limit \<le> 1"
begin

lemma always_in_unit_interval: "ok p \<Longrightarrow> sane_context c \<Longrightarrow> unit_interval 1 (dc_confidence (rule p c))"
  using flat [of p c] confident [of p c] limit_range
  by (cases "dc_action (rule p c) = VHOLD") (auto simp: unit_interval_def flat_hold_def zero_jsnum_def)

lemma paced_rule: "sy_evaluate sy = rule p \<Longrightarrow> sy_id sy = sid \<Longrightarrow> paced (cooldown p) sy"
  using waits identity by (simp add: paced_def)

end

lemma hold_fields [simp]:
  "dc_action (holdDecision s v t r) = VHOLD" "dc_confidence (holdDecision s v t r) = 0"
  "dc_metadata (holdDecision s v t r) = Map.empty" "dc_strategyId (holdDecision s v t r) = s"
  "dc_signalTimestamp (holdDecision s v t r) = t"
  by (simp_all add: holdDecision_def)

lemma signal_fields [simp]:
  "dc_action (signal s v a k t e r m) = a" "dc_confidence (signal s v a k t e r m) = to_fixed 3 k"
  "dc_metadata (signal s v a k t e r m) = m" "dc_strategyId (signal s v a k t e r m) = s"
  "dc_signalTimestamp (signal s v a k t e r m) = t"
  by (simp_all add: signal_def)

lemma flat_hold_simps [simp]:
  "flat_hold (holdDecision s v t r)" "a \<noteq> VHOLD \<Longrightarrow> flat_hold (signal s v a k t e r m)"
  by (simp_all add: flat_hold_def)

text \<open>A confidence that is not below a minimum of the schema, capped and rounded to three decimals.\<close>

lemma capped_confidence:
  assumes "is_finite x" "in_bounds 0 1 least" "\<not> js_min x (Fin hi) < least" "fixed_rat 3 hi = hi"
  shows "unit_interval hi (to_fixed 3 (js_min x (Fin hi)))"
proof -
  obtain a b where ab: "x = Fin a" "least = Fin b" "0 \<le> b"
    using assms(1,2) by (cases least) (auto simp: is_finite_iff in_bounds_def)
  then have "0 \<le> min a hi" using assms(3) by auto
  then have "0 \<le> fixed_rat 3 (min a hi)" by (rule fixed_rat_nonneg)
  moreover have "fixed_rat 3 (min a hi) \<le> hi" using fixed_rat_mono [of "min a hi" hi 3] assms(4) by simp
  ultimately show ?thesis by (simp add: ab unit_interval_def)
qed

lemma elem_at_all: "list_all P xs \<Longrightarrow> elem_at xs i = Some x \<Longrightarrow> P x"
  by (auto simp: elem_at_def list_all_length split: if_splits)

lemma in_boundsD: "in_bounds (Fin a) (Fin b) x \<Longrightarrow> \<exists>r. x = Fin r \<and> a \<le> r \<and> r \<le> b"
  by (cases x) (auto simp: in_bounds_def)

subsection \<open>EMA pullback\<close>

lemma fixed_cap: "fixed_rat 3 (9 / 10) = 9 / 10" "fixed_rat 3 (95 / 100) = 95 / 100"
  by (simp_all add: fixed_rat_def round_half_up_def)

lemma ema_signal_fields [simp]:
  "dc_action (ema_signal p a ts k cd e) = (if k < ep_minimumConfidence p then VHOLD else a)"
  "dc_strategyId (ema_signal p a ts k cd e) = ema_id"
  "dc_signalTimestamp (ema_signal p a ts k cd e) = ts"
  "dc_confidence (ema_signal p a ts k cd e) =
     (if k < ep_minimumConfidence p then 0 else to_fixed 3 (js_min k (Fin (95 / 100))))"
  "dc_metadata (ema_signal p a ts k cd e) = (if k < ep_minimumConfidence p then Map.empty else
     [''pullbackLow'' \<mapsto> c_low cd, ''pullbackHigh'' \<mapsto> c_high cd, ''targetEma'' \<mapsto> e])"
  by (simp_all add: ema_signal_def)

lemma pullback_confident:
  assumes "is_finite adxv" "is_finite wick" "is_finite body" "ema_params_ok p"
    "\<not> pullback_confidence p adxv wick body < ep_minimumConfidence p" "Fin 0 \<le> body"
  shows "unit_interval (9 / 10) (to_fixed 3 (js_min (pullback_confidence p adxv wick body) (Fin (95 / 100))))"
proof -
  obtain b where b: "body = Fin b" "0 \<le> b" using assms(3,6) by (auto simp: is_finite_iff)
  have pos: "b + 1 / 10 ^ 9 \<noteq> 0" using b(2) by (simp add: add_nonneg_eq_0_iff)
  obtain w a where wa: "wick = Fin w" "adxv = Fin a" using assms(1,2) by (auto simp: is_finite_iff)
  obtain m where m: "ep_adxMinimum p = Fin m" using assms(4) by (cases "ep_adxMinimum p") (auto simp: ema_params_ok_def in_bounds_def)
  obtain x where x: "pullback_confidence p adxv wick body = js_min (Fin x) (Fin (9 / 10))"
    using b wa m pos by (simp add: pullback_confidence_def)
  then have same: "js_min (pullback_confidence p adxv wick body) (Fin (95 / 100)) = js_min (Fin x) (Fin (9 / 10))" by simp
  show ?thesis unfolding same
    using assms(4,5) x by (intro capped_confidence) (simp_all add: ema_params_ok_def fixed_cap)
qed

text \<open>What a signal of the EMA pullback means.\<close>

definition ema_conditions :: "ema_params \<Rightarrow> strategy_context \<Rightarrow> candle \<Rightarrow> snapshot \<Rightarrow> jsnum \<Rightarrow> jsnum \<Rightarrow> bool" where
  "ema_conditions p c candle f target adxv \<longleftrightarrow>
     elem_at (cx_candles c) (last_index c) = Some candle \<and> elem_at (cx_features c) (last_index c) = Some f \<and>
     (\<exists>rsiv. ema_inputs_of p f = Some (target, rsiv, adxv)) \<and>
     \<not> adxv < ep_adxMinimum p \<and> \<not> cx_candlesSinceLastSignal c < ep_cooldownCandles p"

lemma ema_inputs_adx: "ema_inputs_of p f = Some (t, r, a) \<Longrightarrow> ft_adx f = Some a"
  by (auto simp: ema_inputs_of_def split: option.splits)

definition confident_by :: "ema_params \<Rightarrow> decision \<Rightarrow> jsnum \<Rightarrow> candle \<Rightarrow> jsnum \<Rightarrow> bool" where
  "confident_by p d adxv candle wick \<longleftrightarrow>
     (let k = pullback_confidence p adxv wick (js_abs (c_close candle - c_open candle))
      in \<not> k < ep_minimumConfidence p \<and> dc_confidence d = to_fixed 3 (js_min k (Fin (95 / 100))))"

lemma ema_long_means:
  "dc_action (ema_long p ts candle target rsiv adxv) \<noteq> VHOLD \<Longrightarrow>
     dc_action (ema_long p ts candle target rsiv adxv) = VBUY \<and> target < c_close candle \<and>
     c_low candle \<le> target + target * ep_touchTolerance p \<and> c_open candle < c_close candle \<and>
     confident_by p (ema_long p ts candle target rsiv adxv) adxv candle (lower_wick candle)"
  by (simp add: ema_long_def Let_def confident_by_def split: if_splits)

lemma ema_short_means:
  "dc_action (ema_short p ts candle target rsiv adxv) \<noteq> VHOLD \<Longrightarrow>
     dc_action (ema_short p ts candle target rsiv adxv) = VSELL \<and> c_close candle < target \<and>
     target - target * ep_touchTolerance p \<le> c_high candle \<and> c_close candle < c_open candle \<and>
     confident_by p (ema_short p ts candle target rsiv adxv) adxv candle (upper_wick candle)"
  by (simp add: ema_short_def Let_def confident_by_def split: if_splits)

lemma ema_signal_means:
  assumes "dc_action (evaluate_ema p c) \<noteq> VHOLD"
  obtains candle f target adxv where "ema_conditions p c candle f target adxv"
    "dc_action (evaluate_ema p c) = VBUY \<longrightarrow> ft_trendDirection f = TrendUp \<and> target < c_close candle \<and>
       c_low candle \<le> target + target * ep_touchTolerance p \<and> c_open candle < c_close candle"
    "dc_action (evaluate_ema p c) = VSELL \<longrightarrow> ft_trendDirection f = TrendDown \<and> c_close candle < target \<and>
       target - target * ep_touchTolerance p \<le> c_high candle \<and> c_close candle < c_open candle"
    "\<exists>wick. (wick = lower_wick candle \<or> wick = upper_wick candle) \<and> confident_by p (evaluate_ema p c) adxv candle wick"
proof -
  obtain candle f target rsiv adxv where f: "elem_at (cx_candles c) (last_index c) = Some candle"
    "elem_at (cx_features c) (last_index c) = Some f" "ema_inputs_of p f = Some (target, rsiv, adxv)"
    using assms by (auto simp: evaluate_ema_def Let_def split: option.splits if_splits)
  have e: "evaluate_ema p c = (if ft_trendDirection f = TrendUp
      then ema_long p (rr_timestamp (cx_regime c)) candle target rsiv adxv
      else ema_short p (rr_timestamp (cx_regime c)) candle target rsiv adxv)"
    and g: "\<not> adxv < ep_adxMinimum p" "\<not> cx_candlesSinceLastSignal c < ep_cooldownCandles p"
      "ft_trendDirection f \<noteq> TrendFlat"
    using assms f by (auto simp: evaluate_ema_def Let_def split: if_splits)
  have con: "ema_conditions p c candle f target adxv" using f g by (simp add: ema_conditions_def)
  show ?thesis
  proof (cases "ft_trendDirection f = TrendUp")
    case True
    with e have "evaluate_ema p c = ema_long p (rr_timestamp (cx_regime c)) candle target rsiv adxv" by simp
    with assms ema_long_means [of p "rr_timestamp (cx_regime c)" candle target rsiv adxv] True show ?thesis
      by (intro that [OF con]) auto
  next
    case False
    with g(3) have down: "ft_trendDirection f = TrendDown" by (cases "ft_trendDirection f") simp_all
    with e have "evaluate_ema p c = ema_short p (rr_timestamp (cx_regime c)) candle target rsiv adxv" by simp
    with assms ema_short_means [of p "rr_timestamp (cx_regime c)" candle target rsiv adxv] down show ?thesis
      by (intro that [OF con]) auto
  qed
qed

lemma finite_wicks:
  assumes "finite_ohlc c"
  shows "is_finite (lower_wick c)" "is_finite (upper_wick c)" "is_finite (js_abs (c_close c - c_open c))"
    "Fin 0 \<le> js_abs (c_close c - c_open c)"
  using assms by (auto simp: finite_ohlc_def is_finite_iff lower_wick_def upper_wick_def)

lemma ema_sides_flat [simp]:
  "flat_hold (ema_long p ts candle target rsiv adxv)" "flat_hold (ema_short p ts candle target rsiv adxv)"
  by (simp_all add: ema_long_def ema_short_def ema_signal_def Let_def)

interpretation ema: signal_rule evaluate_ema ema_params_ok ema_id ep_cooldownCandles "9 / 10"
proof
  fix p :: ema_params and c
  show "dc_strategyId (evaluate_ema p c) = ema_id"
    by (simp add: evaluate_ema_def ema_long_def ema_short_def Let_def split: option.split)
  show "dc_signalTimestamp (evaluate_ema p c) = rr_timestamp (cx_regime c)"
    by (simp add: evaluate_ema_def ema_long_def ema_short_def Let_def split: option.split)
  show "cx_candlesSinceLastSignal c < ep_cooldownCandles p \<Longrightarrow> dc_action (evaluate_ema p c) = VHOLD"
    by (simp add: evaluate_ema_def Let_def split: option.split)
  show "flat_hold (evaluate_ema p c)" by (simp add: evaluate_ema_def Let_def split: option.split)
  assume ok: "ema_params_ok p" and c: "sane_context c" and a: "dc_action (evaluate_ema p c) \<noteq> VHOLD"
  from a show "unit_interval (9 / 10) (dc_confidence (evaluate_ema p c))"
  proof (rule ema_signal_means)
    fix candle f target adxv
    assume e: "ema_conditions p c candle f target adxv" and w: "\<exists>wick. (wick = lower_wick candle \<or> wick = upper_wick candle) \<and>
       confident_by p (evaluate_ema p c) adxv candle wick"
    have "finite_ohlc candle" "finite_snapshot f"
      using c e by (auto simp: sane_context_def ema_conditions_def intro: elem_at_all)
    with e have "is_finite adxv" by (auto simp: ema_conditions_def dest: ema_inputs_adx intro: finite_options)
    with w ok finite_wicks [OF \<open>finite_ohlc candle\<close>] show ?thesis
      by (auto simp: confident_by_def Let_def simp del: fin_numeral intro!: pullback_confident [simplified])
  qed
qed simp_all

subsection \<open>Bollinger reversion\<close>

lemma reversion_long_means:
  "reversion_long p ts prev candle f b = Some d \<Longrightarrow>
     dc_action d = VBUY \<and> dc_strategyId d = reversion_id \<and> dc_signalTimestamp d = ts \<and>
     bi_lower b < c_close candle \<and> bi_rsi b \<le> bp_rsiOversold p + 5 \<and>
     (\<exists>x. (x = (bp_rsiOversold p + 5 - bi_rsi b) \<or> x = bi_rsi b - (bp_rsiOverbought p - 5)) \<and>
        bp_minimumConfidence p \<le> js_min (Fin (55 / 100) + x / 60 + (bp_adxMaximum p - bi_adx b) / 100) (Fin (9 / 10)) \<and>
        dc_confidence d = to_fixed 3 (js_min (js_min (Fin (55 / 100) + x / 60 + (bp_adxMaximum p - bi_adx b) / 100)
          (Fin (9 / 10))) (Fin (95 / 100))))"
  by (auto simp: reversion_long_def Let_def split: if_splits)

lemma reversion_short_means:
  "reversion_short p ts prev candle f b = Some d \<Longrightarrow>
     dc_action d = VSELL \<and> dc_strategyId d = reversion_id \<and> dc_signalTimestamp d = ts \<and>
     c_close candle < bi_upper b \<and> bp_rsiOverbought p - 5 \<le> bi_rsi b \<and>
     (\<exists>x. (x = (bp_rsiOversold p + 5 - bi_rsi b) \<or> x = bi_rsi b - (bp_rsiOverbought p - 5)) \<and>
        bp_minimumConfidence p \<le> js_min (Fin (55 / 100) + x / 60 + (bp_adxMaximum p - bi_adx b) / 100) (Fin (9 / 10)) \<and>
        dc_confidence d = to_fixed 3 (js_min (js_min (Fin (55 / 100) + x / 60 + (bp_adxMaximum p - bi_adx b) / 100)
          (Fin (9 / 10))) (Fin (95 / 100))))"
  by (auto simp: reversion_short_def Let_def split: if_splits)

lemma reversion_confident:
  assumes "reversion_params_ok p" "is_finite (bi_rsi b)" "is_finite (bi_adx b)"
    and x: "x = bp_rsiOversold p + 5 - bi_rsi b \<or> x = bi_rsi b - (bp_rsiOverbought p - 5)"
    and least: "bp_minimumConfidence p \<le> js_min (Fin (55 / 100) + x / 60 + (bp_adxMaximum p - bi_adx b) / 100) (Fin (9 / 10))"
  shows "unit_interval (9 / 10) (to_fixed 3 (js_min
    (js_min (Fin (55 / 100) + x / 60 + (bp_adxMaximum p - bi_adx b) / 100) (Fin (9 / 10))) (Fin (95 / 100))))"
proof -
  have par: "is_finite (bp_rsiOversold p)" "is_finite (bp_rsiOverbought p)" "is_finite (bp_adxMaximum p)"
    "in_bounds 0 1 (bp_minimumConfidence p)"
    using assms(1) by (auto simp: reversion_params_ok_def dest!: in_boundsD)
  then obtain r where r: "Fin (55 / 100) + x / 60 + (bp_adxMaximum p - bi_adx b) / 100 = Fin r"
    using assms(2,3) x by (auto simp: is_finite_iff)
  have "js_min (js_min (Fin r) (Fin (9 / 10))) (Fin (95 / 100)) = js_min (Fin r) (Fin (9 / 10))" by simp
  moreover have "\<not> js_min (Fin r) (Fin (9 / 10)) < bp_minimumConfidence p"
    using least par(4) unfolding r by (cases "bp_minimumConfidence p") (auto simp: in_bounds_def)
  ultimately show ?thesis unfolding r using par(4) capped_confidence [of "Fin r" _ "9 / 10"] by (simp add: fixed_cap)
qed

definition reversion_conditions ::
  "reversion_params \<Rightarrow> strategy_context \<Rightarrow> candle \<Rightarrow> snapshot \<Rightarrow> band_inputs \<Rightarrow> bool" where
  "reversion_conditions p c candle f b \<longleftrightarrow>
     elem_at (cx_candles c) (last_index c) = Some candle \<and> elem_at (cx_features c) (last_index c) = Some f \<and>
     (\<exists>fPrev. band_inputs_of f fPrev = Some b) \<and> \<not> bp_adxMaximum p < bi_adx b \<and>
     \<not> (bi_donchianHigh b < ft_close f \<or> ft_close f < bi_donchianLow b)"

lemma reversion_signal_means:
  assumes "dc_action (evaluate_reversion p c) \<noteq> VHOLD"
  obtains candle prev f b where "reversion_conditions p c candle f b"
    "reversion_long p (rr_timestamp (cx_regime c)) prev candle f b = Some (evaluate_reversion p c) \<or>
     reversion_short p (rr_timestamp (cx_regime c)) prev candle f b = Some (evaluate_reversion p c)"
proof -
  obtain candle prev f g where at: "elem_at (cx_candles c) (last_index c) = Some candle"
    "elem_at (cx_candles c) (last_index c - 1) = Some prev" "elem_at (cx_features c) (last_index c) = Some f"
    "elem_at (cx_features c) (last_index c - 1) = Some g"
    using assms unfolding evaluate_reversion_def Let_def
    by (cases "elem_at (cx_candles c) (last_index c)"; cases "elem_at (cx_candles c) (last_index c - 1)";
        cases "elem_at (cx_features c) (last_index c)"; cases "elem_at (cx_features c) (last_index c - 1)") simp_all
  obtain b where b: "band_inputs_of f g = Some b"
    using assms at by (cases "band_inputs_of f g") (simp_all add: evaluate_reversion_def Let_def split: if_splits)
  let ?ts = "rr_timestamp (cx_regime c)"
  have g: "\<not> bp_adxMaximum p < bi_adx b" "\<not> (bi_donchianHigh b < ft_close f \<or> ft_close f < bi_donchianLow b)"
    and e: "evaluate_reversion p c = (case reversion_long p ?ts prev candle f b of Some d \<Rightarrow> d
      | None \<Rightarrow> (case reversion_short p ?ts prev candle f b of Some d \<Rightarrow> d
        | None \<Rightarrow> holdDecision reversion_id ''1'' ?ts [NoBandRejection]))"
    using assms at b by (simp_all add: evaluate_reversion_def Let_def split: if_splits)
  have "reversion_long p ?ts prev candle f b = Some (evaluate_reversion p c) \<or>
      reversion_short p ?ts prev candle f b = Some (evaluate_reversion p c)"
    using assms e by (cases "reversion_long p ?ts prev candle f b"; cases "reversion_short p ?ts prev candle f b") simp_all
  moreover have "reversion_conditions p c candle f b"
    using at b g unfolding reversion_conditions_def by blast
  ultimately show ?thesis using that by blast
qed

lemma reversion_sides_flat:
  "reversion_long p ts prev candle f b = Some d \<Longrightarrow> flat_hold d"
  "reversion_short p ts prev candle f b = Some d \<Longrightarrow> flat_hold d"
  by (auto simp: flat_hold_def dest: reversion_long_means reversion_short_means)

lemma band_inputs_finite:
  "band_inputs_of f g = Some b \<Longrightarrow> finite_snapshot f \<Longrightarrow> is_finite (bi_rsi b) \<and> is_finite (bi_adx b)"
  by (auto simp: band_inputs_of_def split: option.splits dest: finite_options)

interpretation reversion: signal_rule evaluate_reversion reversion_params_ok reversion_id bp_cooldownCandles "9 / 10"
proof
  fix p :: reversion_params and c
  show "dc_strategyId (evaluate_reversion p c) = reversion_id" "dc_signalTimestamp (evaluate_reversion p c) = rr_timestamp (cx_regime c)"
    by (simp_all add: evaluate_reversion_def Let_def split: option.split)
      (blast dest: reversion_long_means reversion_short_means)+
  show "cx_candlesSinceLastSignal c < bp_cooldownCandles p \<Longrightarrow> dc_action (evaluate_reversion p c) = VHOLD"
    by (simp add: evaluate_reversion_def Let_def split: option.split)
  show "flat_hold (evaluate_reversion p c)"
    by (simp add: evaluate_reversion_def Let_def split: option.split) (blast dest: reversion_sides_flat)
  assume ok: "reversion_params_ok p" and c: "sane_context c" and a: "dc_action (evaluate_reversion p c) \<noteq> VHOLD"
  from a obtain candle prev f b where e: "reversion_conditions p c candle f b" and
    d: "reversion_long p (rr_timestamp (cx_regime c)) prev candle f b = Some (evaluate_reversion p c) \<or>
     reversion_short p (rr_timestamp (cx_regime c)) prev candle f b = Some (evaluate_reversion p c)"
    by (rule reversion_signal_means)
  have "finite_snapshot f" using c e by (auto simp: sane_context_def reversion_conditions_def intro: elem_at_all)
  with e have fin: "is_finite (bi_rsi b)" "is_finite (bi_adx b)"
    by (auto simp: reversion_conditions_def dest: band_inputs_finite)
  from d obtain x where x: "x = bp_rsiOversold p + 5 - bi_rsi b \<or> x = bi_rsi b - (bp_rsiOverbought p - 5)"
      "bp_minimumConfidence p \<le> js_min (Fin (55 / 100) + x / 60 + (bp_adxMaximum p - bi_adx b) / 100) (Fin (9 / 10))"
    and k: "dc_confidence (evaluate_reversion p c) = to_fixed 3 (js_min (js_min (Fin (55 / 100) + x / 60
        + (bp_adxMaximum p - bi_adx b) / 100) (Fin (9 / 10))) (Fin (95 / 100)))"
    by (blast dest: reversion_long_means reversion_short_means)
  show "unit_interval (9 / 10) (dc_confidence (evaluate_reversion p c))"
    unfolding k by (rule reversion_confident [OF ok fin x])
qed simp_all

subsection \<open>Breakout momentum\<close>

lemma breakout_signal_means:
  assumes "dc_action (evaluate_breakout p c) \<noteq> VHOLD"
  obtains f b where "elem_at (cx_features c) (int (length (cx_features c)) - 1) = Some f" "breakout_inputs_of f = Some b"
    "breakout_blockers p f b = []" "\<not> breakout_confidence p b < kp_minimumConfidence p"
    "dc_confidence (evaluate_breakout p c) = to_fixed 3 (breakout_confidence p b)"
    "dc_action (evaluate_breakout p c) = (if long_breakout f b then VBUY else VSELL)"
  using assms
  by (simp add: evaluate_breakout_def Let_def split: option.splits if_splits)

lemma breakout_inputs_finite:
  "breakout_inputs_of f = Some b \<Longrightarrow> finite_snapshot f \<Longrightarrow> is_finite (ki_adx b) \<and> is_finite (ki_volPct b)"
  by (auto simp: breakout_inputs_of_def split: option.splits dest: finite_options)

lemma js_min_finite [simp]: "is_finite x \<Longrightarrow> is_finite y \<Longrightarrow> is_finite (js_min x y)"
  by (auto simp: is_finite_iff)

interpretation breakout: signal_rule evaluate_breakout breakout_params_ok breakout_id kp_cooldownCandles "95 / 100"
proof
  fix p :: breakout_params and c
  show "dc_strategyId (evaluate_breakout p c) = breakout_id" "dc_signalTimestamp (evaluate_breakout p c) = rr_timestamp (cx_regime c)"
    by (simp_all add: evaluate_breakout_def Let_def split: option.split)
  show "cx_candlesSinceLastSignal c < kp_cooldownCandles p \<Longrightarrow> dc_action (evaluate_breakout p c) = VHOLD"
    by (simp add: evaluate_breakout_def Let_def split: option.split)
  show "flat_hold (evaluate_breakout p c)" by (simp add: evaluate_breakout_def Let_def split: option.split)
  assume ok: "breakout_params_ok p" and c: "sane_context c" and a: "dc_action (evaluate_breakout p c) \<noteq> VHOLD"
  from a obtain f b where f: "elem_at (cx_features c) (int (length (cx_features c)) - 1) = Some f"
    "breakout_inputs_of f = Some b" and k: "\<not> breakout_confidence p b < kp_minimumConfidence p"
    and d: "dc_confidence (evaluate_breakout p c) = to_fixed 3 (breakout_confidence p b)"
    by (rule breakout_signal_means)
  have "finite_snapshot f" using c f(1) by (auto simp: sane_context_def intro: elem_at_all)
  with f(2) have fin: "is_finite (ki_adx b)" "is_finite (ki_volPct b)" by (auto dest: breakout_inputs_finite)
  have par: "is_finite (kp_adxThreshold p)" "is_finite (kp_minVolatilityPercentile p)" "in_bounds 0 1 (kp_minimumConfidence p)"
    using ok by (auto simp: breakout_params_ok_def dest!: in_boundsD)
  define x where "x = Fin (6 / 10) + js_min ((ki_adx b - kp_adxThreshold p) / 25) (Fin (2 / 10))
    + js_min ((ki_volPct b - kp_minVolatilityPercentile p) / 300) (Fin (15 / 100))"
  have "is_finite x" using fin par by (simp add: x_def)
  then show "unit_interval (95 / 100) (dc_confidence (evaluate_breakout p c))"
    using k d par(3) capped_confidence [of x "kp_minimumConfidence p" "95 / 100"]
    by (simp add: breakout_confidence_def Let_def x_def fixed_cap [simplified])
qed simp_all

subsection \<open>Squeeze breakout\<close>

lemma squeeze_fold_finite:
  assumes "list_all finite_snapshot fs" "fst acc \<longrightarrow> is_finite (snd acc)" "snd acc = PosInf \<or> is_finite (snd acc)"
  shows "(fst (fold (squeeze_step p) fs acc) \<longrightarrow> is_finite (snd (fold (squeeze_step p) fs acc)))"
  using assms
proof (induction fs arbitrary: acc)
  case (Cons f fs)
  have "ft_bollingerWidth f = Some w \<Longrightarrow> is_finite w" for w using Cons.prems(1) by (auto intro: finite_options)
  then have "(fst (squeeze_step p f acc) \<longrightarrow> is_finite (snd (squeeze_step p f acc))) \<and>
      (snd (squeeze_step p f acc) = PosInf \<or> is_finite (snd (squeeze_step p f acc)))"
    using Cons.prems(2,3) by (auto simp: squeeze_step_def js_min_def is_finite_iff split: option.splits)
  with Cons.IH [of "squeeze_step p f acc"] Cons.prems(1) show ?case by simp
qed simp

lemma find_squeeze_finite:
  assumes "list_all finite_snapshot (cx_features c)" "find_squeeze p c = (True, w)"
  shows "is_finite w"
proof -
  have "list_all finite_snapshot (squeeze_window p c)"
    using assms(1) by (auto simp: squeeze_window_def Let_def list_all_iff dest!: in_set_takeD in_set_dropD)
  from squeeze_fold_finite [OF this, of "(False, PosInf)" p] assms(2) show ?thesis by (simp add: find_squeeze_def)
qed

definition squeeze_ratio :: "squeeze_inputs \<Rightarrow> jsnum \<Rightarrow> jsnum" where
  "squeeze_ratio q w = qi_width q / (if js_eq w 0 \<or> w = NaN then Fin (1 / 10 ^ 9) else w)"

lemma squeeze_signal_means:
  assumes "dc_action (evaluate_squeeze p c) \<noteq> VHOLD"
  obtains f q w where "elem_at (cx_features c) (last_index c) = Some f" "squeeze_inputs_of f = Some q"
    "find_squeeze p c = (True, w)" "w * Fin (11 / 10) < qi_width q"
    "\<not> squeeze_confidence (squeeze_ratio q w) (qi_recentReturn q) < qp_minimumConfidence p"
    "dc_confidence (evaluate_squeeze p c) = to_fixed 3 (squeeze_confidence (squeeze_ratio q w) (qi_recentReturn q))"
    "dc_action (evaluate_squeeze p c) = VBUY \<longrightarrow> qi_donchianHigh q < ft_close f"
    "dc_action (evaluate_squeeze p c) = VSELL \<longrightarrow> ft_close f < qi_donchianLow q"
proof -
  obtain f where f: "elem_at (cx_features c) (last_index c) = Some f"
    using assms by (cases "elem_at (cx_features c) (last_index c)") (simp_all add: evaluate_squeeze_def Let_def)
  obtain q where q: "squeeze_inputs_of f = Some q"
    using assms f by (cases "squeeze_inputs_of f") (simp_all add: evaluate_squeeze_def Let_def split: if_splits)
  obtain found w where w: "find_squeeze p c = (found, w)" by (cases "find_squeeze p c")
  have found: found using assms f q w by (auto simp: evaluate_squeeze_def Let_def split: if_splits)
  show ?thesis
    using assms f q w found
    by (intro that [OF f q, of w]) (auto simp: evaluate_squeeze_def squeeze_ratio_def Let_def split: if_splits)
qed

lemma squeeze_inputs_finite:
  "squeeze_inputs_of f = Some q \<Longrightarrow> finite_snapshot f \<Longrightarrow> is_finite (qi_width q) \<and> is_finite (qi_recentReturn q)"
  by (auto simp: squeeze_inputs_of_def split: option.splits dest: finite_options)

interpretation squeeze: signal_rule evaluate_squeeze squeeze_params_ok squeeze_id qp_cooldownCandles "95 / 100"
proof
  fix p :: squeeze_params and c
  show "dc_strategyId (evaluate_squeeze p c) = squeeze_id" "dc_signalTimestamp (evaluate_squeeze p c) = rr_timestamp (cx_regime c)"
    by (simp_all add: evaluate_squeeze_def Let_def split: option.split prod.split)
  show "cx_candlesSinceLastSignal c < qp_cooldownCandles p \<Longrightarrow> dc_action (evaluate_squeeze p c) = VHOLD"
    by (simp add: evaluate_squeeze_def Let_def split: option.split)
  show "flat_hold (evaluate_squeeze p c)" by (simp add: evaluate_squeeze_def Let_def split: option.split prod.split)
  assume ok: "squeeze_params_ok p" and c: "sane_context c" and a: "dc_action (evaluate_squeeze p c) \<noteq> VHOLD"
  from a obtain f q w where f: "elem_at (cx_features c) (last_index c) = Some f" "squeeze_inputs_of f = Some q"
    and w: "find_squeeze p c = (True, w)"
    and k: "\<not> squeeze_confidence (squeeze_ratio q w) (qi_recentReturn q) < qp_minimumConfidence p"
      "dc_confidence (evaluate_squeeze p c) = to_fixed 3 (squeeze_confidence (squeeze_ratio q w) (qi_recentReturn q))"
    by (rule squeeze_signal_means)
  have "finite_snapshot f" using c f(1) by (auto simp: sane_context_def intro: elem_at_all)
  with f(2) have fin: "is_finite (qi_width q)" "is_finite (qi_recentReturn q)" by (auto dest: squeeze_inputs_finite)
  have "is_finite w" using c w by (auto simp: sane_context_def intro: find_squeeze_finite)
  with fin have "is_finite (squeeze_ratio q w)" by (auto simp: squeeze_ratio_def is_finite_iff)
  with fin have "is_finite (Fin (6 / 10) + js_min ((squeeze_ratio q w - Fin (11 / 10)) / 4) (Fin (2 / 10))
       + js_min (js_abs (qi_recentReturn q) / Fin (1 / 100)) (Fin (15 / 100)))" (is "is_finite ?x")
    by simp
  then show "unit_interval (95 / 100) (dc_confidence (evaluate_squeeze p c))"
    using k ok capped_confidence [of ?x "qp_minimumConfidence p" "95 / 100"]
    by (simp add: squeeze_confidence_def squeeze_params_ok_def fixed_cap [simplified])
qed simp_all

lemma strategies_paced:
  "paced (ep_cooldownCandles ep) (ema_strategy ep)" "paced (bp_cooldownCandles bp) (reversion_strategy bp)"
  "paced (kp_cooldownCandles kp) (breakout_strategy kp)" "paced (qp_cooldownCandles qp) (squeeze_strategy qp)"
  by (simp_all add: ema_strategy_def reversion_strategy_def breakout_strategy_def squeeze_strategy_def
      ema.paced_rule reversion.paced_rule breakout.paced_rule squeeze.paced_rule)

section \<open>Properties\<close>

lemma band_inputs_channel:
  "band_inputs_of f g = Some b \<Longrightarrow> ft_donchianHigh f = Some (bi_donchianHigh b) \<and> ft_donchianLow f = Some (bi_donchianLow b)"
  by (auto simp: band_inputs_of_def split: option.splits)

lemma squeeze_inputs_channel:
  "squeeze_inputs_of f = Some q \<Longrightarrow> ft_donchianHigh f = Some (qi_donchianHigh q) \<and> ft_donchianLow f = Some (qi_donchianLow q)"
  by (auto simp: squeeze_inputs_of_def split: option.splits)

lemma breakout_inputs_channel:
  "breakout_inputs_of f = Some b \<Longrightarrow> ft_donchianHigh f = Some (ki_donchianHigh b) \<and>
     ft_donchianLow f = Some (ki_donchianLow b) \<and> ft_emaFast f = Some (ki_emaFast b) \<and> ft_emaSlow f = Some (ki_emaSlow b)"
  by (auto simp: breakout_inputs_of_def split: option.splits)

lemma squeeze_breaks_channel:
  assumes "dc_action (evaluate_squeeze p c) \<noteq> VHOLD"
  obtains f q where "elem_at (cx_features c) (last_index c) = Some f" "squeeze_inputs_of f = Some q"
    "qi_donchianHigh q < ft_close f \<or> ft_close f < qi_donchianLow q"
proof -
  from assms obtain f q where "elem_at (cx_features c) (last_index c) = Some f" "squeeze_inputs_of f = Some q"
    and "dc_action (evaluate_squeeze p c) = VBUY \<longrightarrow> qi_donchianHigh q < ft_close f"
    and "dc_action (evaluate_squeeze p c) = VSELL \<longrightarrow> ft_close f < qi_donchianLow q"
    by (rule squeeze_signal_means)
  moreover have "dc_action (evaluate_squeeze p c) = VBUY \<or> dc_action (evaluate_squeeze p c) = VSELL"
    using assms by (cases "dc_action (evaluate_squeeze p c)") simp_all
  ultimately show ?thesis using that by blast
qed

lemma breakout_sides:
  assumes "dc_action (evaluate_breakout p c) \<noteq> VHOLD"
  obtains f b where "elem_at (cx_features c) (int (length (cx_features c)) - 1) = Some f" "breakout_inputs_of f = Some b"
    "dc_action (evaluate_breakout p c) = VBUY \<and> long_breakout f b \<or> dc_action (evaluate_breakout p c) = VSELL \<and> short_breakout f b"
proof -
  from assms obtain f b where f: "elem_at (cx_features c) (int (length (cx_features c)) - 1) = Some f"
    "breakout_inputs_of f = Some b" and k: "breakout_blockers p f b = []"
    and d: "dc_action (evaluate_breakout p c) = (if long_breakout f b then VBUY else VSELL)"
    by (rule breakout_signal_means)
  from k have "long_breakout f b \<or> short_breakout f b" by (auto simp: breakout_blockers_def)
  with d have "dc_action (evaluate_breakout p c) = VBUY \<and> long_breakout f b \<or>
      dc_action (evaluate_breakout p c) = VSELL \<and> short_breakout f b" by auto
  with f that show ?thesis by blast
qed

text \<open>The trend of a snapshot in a window of extracted features never points against its averages.\<close>

lemma window_trend:
  assumes features: "extractFeatures r cs cfg = Inr fs" and aligned: "cx_features c = drop k (take n fs)"
    and "elem_at (cx_features c) i = Some f" "ft_emaFast f = Some x" "ft_emaSlow f = Some y"
  shows "y < x \<longrightarrow> ft_trendDirection f \<noteq> TrendDown" "x < y \<longrightarrow> ft_trendDirection f \<noteq> TrendUp"
proof -
  have fs: "fs = snapshots r cfg cs" by (rule extractFeatures_snapshots [OF features])
  have "f \<in> set (cx_features c)" using assms(3) by (auto simp: elem_at_def split: if_splits)
  then have "f \<in> set (snapshots r cfg cs)" unfolding aligned fs by (auto dest: in_set_dropD in_set_takeD)
  then have "ft_trendDirection f = trend_direction_of (ft_emaFast f) (ft_emaSlow f) (ft_emaLong f) (ft_close f)"
    by (auto simp: snapshots_def snapshot_at_def Let_def)
  then show "y < x \<longrightarrow> ft_trendDirection f \<noteq> TrendDown" "x < y \<longrightarrow> ft_trendDirection f \<noteq> TrendUp"
    using assms(4,5) js_less_trans [of x y x]
    by (auto simp: trend_direction_of_def split: option.splits if_splits) (cases x; auto)+
qed

text \<open>C17: the setups exclude one another.  On a window of extracted features, the mean reversion never signals
  together with a breakout strategy, and the pullback and the momentum breakout never signal opposite sides: an
  ensemble of the four cannot be split by two strategies reading the same channel or the same averages.\<close>

theorem strategies_never_contradict:
  assumes features: "extractFeatures r cs cfg = Inr fs"
    and candles: "cx_candles c = drop k (take n cs)" and aligned: "cx_features c = drop k (take n fs)"
  shows "\<not> (dc_action (evaluate_reversion rp c) \<noteq> VHOLD \<and> dc_action (evaluate_breakout kp c) \<noteq> VHOLD) \<and>
    \<not> (dc_action (evaluate_reversion rp c) \<noteq> VHOLD \<and> dc_action (evaluate_squeeze qp c) \<noteq> VHOLD) \<and>
    \<not> (dc_action (evaluate_ema ep c) = VBUY \<and> dc_action (evaluate_breakout kp c) = VSELL) \<and>
    \<not> (dc_action (evaluate_ema ep c) = VSELL \<and> dc_action (evaluate_breakout kp c) = VBUY)"
proof -
  have fs: "fs = snapshots r cfg cs" by (rule extractFeatures_snapshots [OF features])
  have "length (cx_features c) = length (cx_candles c)" by (simp add: candles aligned fs snapshots_def)
  then have last: "int (length (cx_features c)) - 1 = last_index c" by (simp add: last_index_def)
  let ?at = "elem_at (cx_features c) (last_index c)"
  have reversion: "\<exists>f h l. ?at = Some f \<and> ft_donchianHigh f = Some h \<and> ft_donchianLow f = Some l \<and>
      \<not> h < ft_close f \<and> \<not> ft_close f < l" if "dc_action (evaluate_reversion rp c) \<noteq> VHOLD"
    using that by (rule reversion_signal_means) (auto simp: reversion_conditions_def dest: band_inputs_channel)
  have breakout: "\<exists>f h l x y. ?at = Some f \<and> ft_donchianHigh f = Some h \<and> ft_donchianLow f = Some l \<and>
      ft_emaFast f = Some x \<and> ft_emaSlow f = Some y \<and>
      (dc_action (evaluate_breakout kp c) = VBUY \<and> h < ft_close f \<and> y < x \<or>
       dc_action (evaluate_breakout kp c) = VSELL \<and> ft_close f < l \<and> x < y)"
    if "dc_action (evaluate_breakout kp c) \<noteq> VHOLD"
    using that by (rule breakout_sides)
      (auto simp: last long_breakout_def short_breakout_def dest!: breakout_inputs_channel)
  have squeeze: "\<exists>f h l. ?at = Some f \<and> ft_donchianHigh f = Some h \<and> ft_donchianLow f = Some l \<and>
      (h < ft_close f \<or> ft_close f < l)" if "dc_action (evaluate_squeeze qp c) \<noteq> VHOLD"
    using that by (rule squeeze_breaks_channel) (auto dest: squeeze_inputs_channel)
  have pullback: "\<exists>f. ?at = Some f \<and> (dc_action (evaluate_ema ep c) = VBUY \<longrightarrow> ft_trendDirection f = TrendUp) \<and>
      (dc_action (evaluate_ema ep c) = VSELL \<longrightarrow> ft_trendDirection f = TrendDown)"
    if "dc_action (evaluate_ema ep c) \<noteq> VHOLD"
    using that by (rule ema_signal_means) (auto simp: ema_conditions_def)
  note sides = window_trend [OF features aligned]
  show ?thesis
  proof (intro conjI notI)
    assume "dc_action (evaluate_reversion rp c) \<noteq> VHOLD \<and> dc_action (evaluate_breakout kp c) \<noteq> VHOLD"
    with reversion breakout show False by force
  next
    assume "dc_action (evaluate_reversion rp c) \<noteq> VHOLD \<and> dc_action (evaluate_squeeze qp c) \<noteq> VHOLD"
    with reversion squeeze show False by force
  next
    assume "dc_action (evaluate_ema ep c) = VBUY \<and> dc_action (evaluate_breakout kp c) = VSELL"
    with pullback breakout sides show False by force
  next
    assume "dc_action (evaluate_ema ep c) = VSELL \<and> dc_action (evaluate_breakout kp c) = VBUY"
    with pullback breakout sides show False by force
  qed
qed

definition rising_context :: strategy_context where
  "rising_context = \<lparr>cx_candles = drop 0 (take 4 rising), cx_features = drop 0 (take 4 (snapshots (\<lambda>x. x) alignment_config rising)),
     cx_regime = classify (snapshots (\<lambda>x. x) alignment_config rising ! 3) DEFAULT_REGIME_THRESHOLDS,
     cx_candlesSinceLastSignal = PosInf\<rparr>"

theorem strategies_never_contradict_witness:
  "length (cx_candles rising_context) = 4 \<and>
   \<not> (dc_action (evaluate_ema EMA_PULLBACK_DEFAULTS rising_context) = VBUY \<and>
      dc_action (evaluate_breakout BREAKOUT_MOMENTUM_DEFAULTS rising_context) = VSELL)"
proof -
  have ok: "extractFeatures (\<lambda>x. x) rising alignment_config = Inr (snapshots (\<lambda>x. x) alignment_config rising)"
    by (auto simp: extractFeatures_def alignment_config_def DEFAULT_FEATURE_CONFIG_def ema_def rsi_def macd_def
        bollingerBands_def sma_def)
  have "cx_candles rising_context = drop 0 (take 4 rising)"
    "cx_features rising_context = drop 0 (take 4 (snapshots (\<lambda>x. x) alignment_config rising))"
    by (simp_all add: rising_context_def)
  from strategies_never_contradict [OF ok this] this(1) show ?thesis by (simp add: rising_def)
qed

text \<open>An EMA pullback signal is a rejection candle at the average in an established trend: the trend of the
  features agrees with the side, the candle reached the average within the tolerance, closed back on the side of
  the trend and with its body in that direction, the ADX is not below its minimum and the cooldown is over.\<close>

theorem pullback_trades_with_trend:
  "(dc_action (evaluate_ema p c) = VBUY \<longrightarrow>
     (\<exists>candle f e a. elem_at (cx_candles c) (last_index c) = Some candle \<and> elem_at (cx_features c) (last_index c) = Some f \<and>
        (if ep_pullbackEma p = FastEma then ft_emaFast f else ft_emaSlow f) = Some e \<and> ft_adx f = Some a \<and>
        ft_trendDirection f = TrendUp \<and> c_low candle \<le> e + e * ep_touchTolerance p \<and> e < c_close candle \<and>
        c_open candle < c_close candle \<and> \<not> a < ep_adxMinimum p \<and> \<not> cx_candlesSinceLastSignal c < ep_cooldownCandles p)) \<and>
   (dc_action (evaluate_ema p c) = VSELL \<longrightarrow>
     (\<exists>candle f e a. elem_at (cx_candles c) (last_index c) = Some candle \<and> elem_at (cx_features c) (last_index c) = Some f \<and>
        (if ep_pullbackEma p = FastEma then ft_emaFast f else ft_emaSlow f) = Some e \<and> ft_adx f = Some a \<and>
        ft_trendDirection f = TrendDown \<and> e - e * ep_touchTolerance p \<le> c_high candle \<and> c_close candle < e \<and>
        c_close candle < c_open candle \<and> \<not> a < ep_adxMinimum p \<and> \<not> cx_candlesSinceLastSignal c < ep_cooldownCandles p))"
proof (cases "dc_action (evaluate_ema p c) = VHOLD")
  case False
  then obtain candle f e a where k: "ema_conditions p c candle f e a"
    "dc_action (evaluate_ema p c) = VBUY \<longrightarrow> ft_trendDirection f = TrendUp \<and> e < c_close candle \<and>
       c_low candle \<le> e + e * ep_touchTolerance p \<and> c_open candle < c_close candle"
    "dc_action (evaluate_ema p c) = VSELL \<longrightarrow> ft_trendDirection f = TrendDown \<and> c_close candle < e \<and>
       e - e * ep_touchTolerance p \<le> c_high candle \<and> c_close candle < c_open candle"
    by (rule ema_signal_means)
  from k(1) have "(if ep_pullbackEma p = FastEma then ft_emaFast f else ft_emaSlow f) = Some e" "ft_adx f = Some a"
    by (auto simp: ema_conditions_def ema_inputs_of_def split: option.splits if_splits)
  with k show ?thesis unfolding ema_conditions_def by blast
qed simp

end
