(* ===== verification/CfdProposals.thy ===== *)
theory CfdProposals
  imports Strategies Sizing
begin

text \<open>
  Stops and targets of CFD positions
  (\<^verbatim>\<open>packages/trading-engine/src/strategies/cfdCapability.ts\<close> and the proposers it dispatches to:
  \<^verbatim>\<open>emaPullbackCfd.ts\<close>, \<^verbatim>\<open>trendStructurePullbackCfd.ts\<close>, \<^verbatim>\<open>squeezeBreakoutCfd.ts\<close>,
  \<^verbatim>\<open>breakoutMomentumCfd.ts\<close>, \<^verbatim>\<open>bollingerReversionCfd.ts\<close>, \<^verbatim>\<open>xauMtfStructureMomentumCfd.ts\<close>,
  \<^verbatim>\<open>xauVolatilityExpansionRetestCfd.ts\<close>, \<^verbatim>\<open>xauTrendPullbackCfd.ts\<close>, \<^verbatim>\<open>xauTrendBreakoutV2Cfd.ts\<close>).
  A proposer that fails closed returns \<^const>\<open>None\<close>.  The reasons, texts for a reader, are left out.
\<close>

subsection \<open>Parameters and proposals\<close>

datatype stop_method =
    StructureStop | AtrFallback | BandStructure | SqueezeStructure | StrategyMetadata | AtrStructureConservative | AtrStop

datatype target_method = FixedR | BollingerMid | StructureRoomCapped

record proposal =
  sp_direction :: direction
  sp_entryPrice :: jsnum
  sp_stopLoss :: jsnum
  sp_takeProfit :: "jsnum option"
  sp_stopDistance :: jsnum
  sp_targetDistance :: "jsnum option"
  sp_riskRewardRatio :: "jsnum option"
  sp_stopMethod :: stop_method
  sp_targetMethod :: target_method

record cfd_params =
  cp_targetRMultiple :: jsnum
  cp_stopAtrMultiple :: jsnum
  cp_structureBufferAtr :: jsnum
  cp_tickSize :: jsnum

record cfd_overrides =
  co_tickSize :: jsnum
  co_targetRMultiple :: "jsnum option"
  co_stopAtrMultiple :: "jsnum option"
  co_structureBufferAtr :: "jsnum option"
  co_structureBufferTicks :: "jsnum option"
  co_minRiskRewardRatio :: "jsnum option"

text \<open>Overrides replace the defaults where they are given.\<close>

definition mergeCfdParams :: "cfd_params \<Rightarrow> cfd_overrides \<Rightarrow> cfd_params" where
  "mergeCfdParams defaults v =
     \<lparr>cp_targetRMultiple = or_default (co_targetRMultiple v) (cp_targetRMultiple defaults),
      cp_stopAtrMultiple = or_default (co_stopAtrMultiple v) (cp_stopAtrMultiple defaults),
      cp_structureBufferAtr = or_default (co_structureBufferAtr v) (cp_structureBufferAtr defaults),
      cp_tickSize = co_tickSize v\<rparr>"

definition DEFAULT_EMA_PULLBACK_CFD_PARAMS :: cfd_params where
  "DEFAULT_EMA_PULLBACK_CFD_PARAMS =
     \<lparr>cp_targetRMultiple = 2, cp_stopAtrMultiple = Fin (3 / 2), cp_structureBufferAtr = Fin (1 / 4), cp_tickSize = Fin (1 / 100)\<rparr>"

definition DEFAULT_TREND_STRUCTURE_PULLBACK_CFD_PARAMS :: cfd_params where
  "DEFAULT_TREND_STRUCTURE_PULLBACK_CFD_PARAMS =
     \<lparr>cp_targetRMultiple = 2, cp_stopAtrMultiple = Fin (3 / 2), cp_structureBufferAtr = Fin (1 / 4), cp_tickSize = Fin (1 / 100)\<rparr>"

definition DEFAULT_SQUEEZE_BREAKOUT_CFD_PARAMS :: cfd_params where
  "DEFAULT_SQUEEZE_BREAKOUT_CFD_PARAMS =
     \<lparr>cp_targetRMultiple = 2, cp_stopAtrMultiple = Fin (3 / 2), cp_structureBufferAtr = Fin (1 / 4), cp_tickSize = Fin (1 / 100)\<rparr>"

definition DEFAULT_XAU_MTF_STRUCTURE_MOMENTUM_CFD_PARAMS :: cfd_params where
  "DEFAULT_XAU_MTF_STRUCTURE_MOMENTUM_CFD_PARAMS =
     \<lparr>cp_targetRMultiple = 2, cp_stopAtrMultiple = Fin (3 / 2), cp_structureBufferAtr = Fin (15 / 100), cp_tickSize = Fin (1 / 100)\<rparr>"

definition DEFAULT_XAU_VOLATILITY_EXPANSION_RETEST_CFD_PARAMS :: cfd_params where
  "DEFAULT_XAU_VOLATILITY_EXPANSION_RETEST_CFD_PARAMS =
     \<lparr>cp_targetRMultiple = 2, cp_stopAtrMultiple = Fin (3 / 2), cp_structureBufferAtr = Fin (15 / 100), cp_tickSize = Fin (1 / 100)\<rparr>"

definition DEFAULT_XAU_TREND_PULLBACK_CFD_PARAMS :: cfd_params where
  "DEFAULT_XAU_TREND_PULLBACK_CFD_PARAMS =
     \<lparr>cp_targetRMultiple = 2, cp_stopAtrMultiple = Fin (3 / 2), cp_structureBufferAtr = Fin (15 / 100), cp_tickSize = Fin (1 / 100)\<rparr>"

definition DEFAULT_XAU_TREND_BREAKOUT_V2_CFD_PARAMS :: cfd_params where
  "DEFAULT_XAU_TREND_BREAKOUT_V2_CFD_PARAMS =
     \<lparr>cp_targetRMultiple = 2, cp_stopAtrMultiple = Fin (3 / 2), cp_structureBufferAtr = Fin (15 / 100), cp_tickSize = Fin (1 / 100)\<rparr>"

subsection \<open>The steps the proposers share\<close>

definition positive_atr :: "snapshot \<Rightarrow> jsnum option" where
  "positive_atr f = (case ft_atr f of Some a \<Rightarrow> if 0 < a then Some a else None | None \<Rightarrow> None)"

definition atr_buffer :: "snapshot \<Rightarrow> jsnum \<Rightarrow> jsnum \<Rightarrow> jsnum" where
  "atr_buffer f multiple tickSz = (case positive_atr f of Some a \<Rightarrow> a * multiple | None \<Rightarrow> tickSz * 2)"

definition atr_fallback :: "direction \<Rightarrow> jsnum \<Rightarrow> snapshot \<Rightarrow> jsnum \<Rightarrow> (jsnum \<times> stop_method) option" where
  "atr_fallback dir entry f multiple =
     (case positive_atr f of
        None \<Rightarrow> None
      | Some a \<Rightarrow> Some (if dir = BUY then entry - a * multiple else entry + a * multiple, AtrFallback))"

text \<open>A stop beyond the structure on the adverse side of the entry, or the ATR fallback.\<close>

definition structure_stop ::
  "direction \<Rightarrow> jsnum \<Rightarrow> snapshot \<Rightarrow> jsnum option \<Rightarrow> jsnum option \<Rightarrow> stop_method \<Rightarrow> jsnum \<Rightarrow> jsnum \<Rightarrow>
   (jsnum \<times> stop_method) option" where
  "structure_stop dir entry f low high m buffer stopAtr =
     (if dir = BUY
      then (case low of
              Some l \<Rightarrow> if l < entry then Some (l - buffer, m) else atr_fallback dir entry f stopAtr
            | None \<Rightarrow> atr_fallback dir entry f stopAtr)
      else (case high of
              Some h \<Rightarrow> if entry < h then Some (h + buffer, m) else atr_fallback dir entry f stopAtr
            | None \<Rightarrow> atr_fallback dir entry f stopAtr))"

definition fails_closed :: "direction \<Rightarrow> jsnum \<Rightarrow> jsnum \<Rightarrow> bool" where
  "fails_closed dir entry stopLoss \<longleftrightarrow>
     \<not> is_finite stopLoss \<or> dir = BUY \<and> entry \<le> stopLoss \<or> dir = SELL \<and> stopLoss \<le> entry"

definition target_at :: "direction \<Rightarrow> jsnum \<Rightarrow> jsnum \<Rightarrow> jsnum" where
  "target_at dir entry targetDistance = (if dir = BUY then entry + targetDistance else entry - targetDistance)"

definition make_proposal ::
  "direction \<Rightarrow> jsnum \<Rightarrow> jsnum \<Rightarrow> jsnum \<Rightarrow> jsnum \<Rightarrow> jsnum \<Rightarrow> jsnum \<Rightarrow> stop_method \<Rightarrow> target_method \<Rightarrow> proposal" where
  "make_proposal dir entry stopLoss takeProfit stopDistance targetDistance rr sm tm =
     \<lparr>sp_direction = dir, sp_entryPrice = entry, sp_stopLoss = to_fixed 8 stopLoss,
      sp_takeProfit = Some (to_fixed 8 takeProfit), sp_stopDistance = to_fixed 8 stopDistance,
      sp_targetDistance = Some (to_fixed 8 targetDistance), sp_riskRewardRatio = Some rr,
      sp_stopMethod = sm, sp_targetMethod = tm\<rparr>"

text \<open>The target at a multiple of the stop distance; a target of the metadata replaces the price but not the distance.\<close>

definition at_multiple ::
  "direction \<Rightarrow> jsnum \<Rightarrow> jsnum \<Rightarrow> jsnum \<Rightarrow> jsnum option \<Rightarrow> stop_method \<Rightarrow> target_method \<Rightarrow> proposal option" where
  "at_multiple dir entry stopLoss multiple metaTarget sm tm =
     (let stopDistance = js_abs (entry - stopLoss);
          targetDistance = stopDistance * multiple;
          takeProfit = or_default metaTarget (target_at dir entry targetDistance)
      in if stopDistance \<le> 0 then None
         else if \<not> is_finite takeProfit \<or> targetDistance \<le> 0 then None
         else Some (make_proposal dir entry stopLoss takeProfit stopDistance targetDistance multiple sm tm))"

definition last_candle :: "candle list \<Rightarrow> candle option" where
  "last_candle cs = (if cs = [] then None else Some (last cs))"

definition or_else :: "'a option \<Rightarrow> 'a option \<Rightarrow> 'a option" where
  "or_else x y = (case x of Some v \<Rightarrow> Some v | None \<Rightarrow> y)"

record proposal_input =
  pi_direction :: direction
  pi_entryPrice :: jsnum
  pi_features :: snapshot
  pi_candles :: "candle list"
  pi_metadata :: metadata

definition swing_low :: "proposal_input \<Rightarrow> string \<Rightarrow> jsnum option" where
  "swing_low inp key = or_else (pi_metadata inp key) (map_option c_low (last_candle (pi_candles inp)))"

definition swing_high :: "proposal_input \<Rightarrow> string \<Rightarrow> jsnum option" where
  "swing_high inp key = or_else (pi_metadata inp key) (map_option c_high (last_candle (pi_candles inp)))"

definition guarded :: "direction \<Rightarrow> jsnum \<Rightarrow> (jsnum \<times> stop_method) option \<Rightarrow> (jsnum \<Rightarrow> stop_method \<Rightarrow> proposal option) \<Rightarrow> proposal option" where
  "guarded dir entry stop k =
     (case stop of None \<Rightarrow> None | Some (stopLoss, sm) \<Rightarrow> if fails_closed dir entry stopLoss then None else k stopLoss sm)"

subsection \<open>The proposers\<close>

definition pullback_stop :: "cfd_params \<Rightarrow> proposal_input \<Rightarrow> (jsnum \<times> stop_method) option" where
  "pullback_stop p inp =
     structure_stop (pi_direction inp) (pi_entryPrice inp) (pi_features inp) (swing_low inp ''pullbackLow'')
       (swing_high inp ''pullbackHigh'') StructureStop
       (atr_buffer (pi_features inp) (cp_structureBufferAtr p) (cp_tickSize p)) (cp_stopAtrMultiple p)"

definition proposeEmaPullbackStopTarget :: "cfd_overrides \<Rightarrow> proposal_input \<Rightarrow> proposal option" where
  "proposeEmaPullbackStopTarget v inp =
     (let p = mergeCfdParams DEFAULT_EMA_PULLBACK_CFD_PARAMS v; dir = pi_direction inp; entry = pi_entryPrice inp
      in guarded dir entry (pullback_stop p inp)
           (\<lambda>stopLoss sm. at_multiple dir entry stopLoss (cp_targetRMultiple p) None sm FixedR))"

definition proposeTrendStructurePullbackStopTarget :: "cfd_overrides \<Rightarrow> proposal_input \<Rightarrow> proposal option" where
  "proposeTrendStructurePullbackStopTarget v inp =
     (let p = mergeCfdParams DEFAULT_TREND_STRUCTURE_PULLBACK_CFD_PARAMS v; dir = pi_direction inp; entry = pi_entryPrice inp
      in guarded dir entry (pullback_stop p inp)
           (\<lambda>stopLoss sm. at_multiple dir entry stopLoss (cp_targetRMultiple p) None sm FixedR))"

definition proposeSqueezeBreakoutStopTarget :: "cfd_overrides \<Rightarrow> proposal_input \<Rightarrow> proposal option" where
  "proposeSqueezeBreakoutStopTarget v inp =
     (let p = mergeCfdParams DEFAULT_SQUEEZE_BREAKOUT_CFD_PARAMS v; dir = pi_direction inp; entry = pi_entryPrice inp;
          f = pi_features inp;
          low = or_else (pi_metadata inp ''squeezeLow'') (or_else (pi_metadata inp ''donchianLow'') (ft_donchianLow f));
          high = or_else (pi_metadata inp ''squeezeHigh'') (or_else (pi_metadata inp ''donchianHigh'') (ft_donchianHigh f))
      in guarded dir entry
           (structure_stop dir entry f low high SqueezeStructure
             (atr_buffer f (cp_structureBufferAtr p) (cp_tickSize p)) (cp_stopAtrMultiple p))
           (\<lambda>stopLoss sm. at_multiple dir entry stopLoss (cp_targetRMultiple p) None sm FixedR))"

text \<open>The target of these two is capped by the room the structure leaves.\<close>

definition room_capped :: "jsnum \<Rightarrow> metadata \<Rightarrow> jsnum" where
  "room_capped targetR md =
     (let intendedR = or_default (md ''intendedR'') targetR
      in case md ''structuralRoomR'' of Some room \<Rightarrow> if 0 < room then js_min intendedR room else intendedR
         | None \<Rightarrow> intendedR)"

definition proposeXauMtfStructureMomentumStopTarget :: "cfd_overrides \<Rightarrow> proposal_input \<Rightarrow> proposal option" where
  "proposeXauMtfStructureMomentumStopTarget v inp =
     (let p = mergeCfdParams DEFAULT_XAU_MTF_STRUCTURE_MOMENTUM_CFD_PARAMS v; dir = pi_direction inp; entry = pi_entryPrice inp
      in guarded dir entry (pullback_stop p inp)
           (\<lambda>stopLoss sm. at_multiple dir entry stopLoss (room_capped (cp_targetRMultiple p) (pi_metadata inp)) None sm
             StructureRoomCapped))"

definition proposeXauVolatilityExpansionRetestStopTarget :: "cfd_overrides \<Rightarrow> proposal_input \<Rightarrow> proposal option" where
  "proposeXauVolatilityExpansionRetestStopTarget v inp =
     (let p = mergeCfdParams DEFAULT_XAU_VOLATILITY_EXPANSION_RETEST_CFD_PARAMS v; dir = pi_direction inp;
          entry = pi_entryPrice inp
      in guarded dir entry (pullback_stop p inp)
           (\<lambda>stopLoss sm. at_multiple dir entry stopLoss (room_capped (cp_targetRMultiple p) (pi_metadata inp)) None sm
             StructureRoomCapped))"

text \<open>A stop of the metadata, else the wider of the ATR and the structure stop.\<close>

definition conservative_stop ::
  "cfd_params \<Rightarrow> proposal_input \<Rightarrow> jsnum option \<Rightarrow> jsnum option \<Rightarrow> (jsnum \<times> stop_method) option" where
  "conservative_stop p inp low high =
     (let dir = pi_direction inp; entry = pi_entryPrice inp
      in case pi_metadata inp ''stopLoss'' of
           Some s \<Rightarrow> Some (s, StrategyMetadata)
         | None \<Rightarrow>
             (case positive_atr (pi_features inp) of
                None \<Rightarrow> None
              | Some a \<Rightarrow>
                  let buffer = a * cp_structureBufferAtr p
                  in if dir = BUY
                     then (let atrStop = entry - a * cp_stopAtrMultiple p
                           in if some_and low (\<lambda>l. l < entry) then Some (js_min atrStop (the low - buffer), AtrStructureConservative)
                              else Some (atrStop, AtrStop))
                     else (let atrStop = entry + a * cp_stopAtrMultiple p
                           in if some_and high (\<lambda>h. entry < h) then Some (js_max atrStop (the high + buffer), AtrStructureConservative)
                              else Some (atrStop, AtrStop))))"

definition proposeXauTrendPullbackStopTarget :: "cfd_overrides \<Rightarrow> proposal_input \<Rightarrow> proposal option" where
  "proposeXauTrendPullbackStopTarget v inp =
     (let p = mergeCfdParams DEFAULT_XAU_TREND_PULLBACK_CFD_PARAMS v; dir = pi_direction inp; entry = pi_entryPrice inp;
          md = pi_metadata inp
      in guarded dir entry (conservative_stop p inp (md ''pullbackLow'') (md ''pullbackHigh''))
           (\<lambda>stopLoss sm. at_multiple dir entry stopLoss (or_default (md ''intendedR'') (cp_targetRMultiple p)) (md ''takeProfit'')
             sm FixedR))"

definition proposeXauTrendBreakoutV2StopTarget :: "cfd_overrides \<Rightarrow> proposal_input \<Rightarrow> proposal option" where
  "proposeXauTrendBreakoutV2StopTarget v inp =
     (let p = mergeCfdParams DEFAULT_XAU_TREND_BREAKOUT_V2_CFD_PARAMS v; dir = pi_direction inp; entry = pi_entryPrice inp;
          md = pi_metadata inp
      in guarded dir entry
           (conservative_stop p inp (or_else (md ''consolidationLow'') (md ''pullbackLow''))
             (or_else (md ''consolidationHigh'') (md ''pullbackHigh'')))
           (\<lambda>stopLoss sm. at_multiple dir entry stopLoss (or_default (md ''intendedR'') (cp_targetRMultiple p)) (md ''takeProfit'')
             sm FixedR))"

text \<open>The breakout proposer does not check the side of its stop.\<close>

definition proposeBreakoutMomentumStopTarget :: "cfd_overrides \<Rightarrow> proposal_input \<Rightarrow> proposal option" where
  "proposeBreakoutMomentumStopTarget v inp =
     (let dir = pi_direction inp; entry = pi_entryPrice inp; f = pi_features inp;
          buffer = or_default (co_structureBufferTicks v) 2 * co_tickSize v;
          stop = structure_stop dir entry f (or_else (ft_donchianLow f) (pi_metadata inp ''donchianLow''))
            (or_else (ft_donchianHigh f) (pi_metadata inp ''donchianHigh'')) StructureStop buffer
            (or_default (co_stopAtrMultiple v) (Fin (3 / 2)))
      in case stop of
           None \<Rightarrow> None
         | Some (stopLoss, sm) \<Rightarrow>
             if \<not> is_finite stopLoss then None
             else at_multiple dir entry stopLoss (or_default (co_targetRMultiple v) 2) None sm FixedR)"

record reversion_cfd_params =
  rv_targetRMultiple :: jsnum
  rv_minRiskRewardRatio :: jsnum
  rv_stopBufferAtr :: jsnum
  rv_stopAtrMultiple :: jsnum
  rv_tickSize :: jsnum

definition reversion_cfd_params_of :: "cfd_overrides \<Rightarrow> reversion_cfd_params" where
  "reversion_cfd_params_of v =
     \<lparr>rv_targetRMultiple = or_default (co_targetRMultiple v) 2,
      rv_minRiskRewardRatio = or_default (co_minRiskRewardRatio v) (Fin (3 / 2)),
      rv_stopBufferAtr = or_default (co_structureBufferAtr v) (Fin (35 / 100)),
      rv_stopAtrMultiple = or_default (co_stopAtrMultiple v) (Fin (5 / 4)), rv_tickSize = co_tickSize v\<rparr>"

definition extreme_of :: "(jsnum \<Rightarrow> jsnum \<Rightarrow> jsnum) \<Rightarrow> jsnum option \<Rightarrow> jsnum option \<Rightarrow> jsnum option" where
  "extreme_of pick band swing =
     (case (band, swing) of (Some b, Some s) \<Rightarrow> Some (pick b s) | (_, Some s) \<Rightarrow> Some s | (_, None) \<Rightarrow> band)"

text \<open>The middle band as a target when its ratio reaches the minimum.\<close>

definition mid_target :: "direction \<Rightarrow> jsnum \<Rightarrow> jsnum option \<Rightarrow> jsnum \<Rightarrow> jsnum \<Rightarrow> (jsnum \<times> jsnum) option" where
  "mid_target dir entry mid stopDistance minRr =
     (case mid of
        None \<Rightarrow> None
      | Some m \<Rightarrow>
          let midRr = js_abs (m - entry) / stopDistance
          in if is_finite m \<and> (if dir = BUY then entry < m else m < entry) \<and> minRr \<le> midRr + Fin (1 / 10 ^ 9)
             then Some (m, to_fixed 4 midRr) else None)"

definition proposeBollingerReversionStopTarget :: "cfd_overrides \<Rightarrow> proposal_input \<Rightarrow> proposal option" where
  "proposeBollingerReversionStopTarget v inp =
     (let p = reversion_cfd_params_of v; dir = pi_direction inp; entry = pi_entryPrice inp; f = pi_features inp;
          md = pi_metadata inp;
          low = extreme_of js_min (or_else (md ''bollingerLower'') (ft_bollingerLower f)) (swing_low inp ''extremeLow'');
          high = extreme_of js_max (or_else (md ''bollingerUpper'') (ft_bollingerUpper f)) (swing_high inp ''extremeHigh'');
          mid = or_else (md ''bollingerMid'') (or_else (md ''bollingerMiddle'') (ft_bollingerMiddle f))
      in guarded dir entry
           (structure_stop dir entry f low high BandStructure (atr_buffer f (rv_stopBufferAtr p) (rv_tickSize p))
             (rv_stopAtrMultiple p))
           (\<lambda>stopLoss sm.
              let stopDistance = js_abs (entry - stopLoss)
              in if stopDistance \<le> 0 then None
                 else (case mid_target dir entry mid stopDistance (rv_minRiskRewardRatio p) of
                     Some (takeProfit, rr) \<Rightarrow>
                       Some (make_proposal dir entry stopLoss takeProfit stopDistance (js_abs (takeProfit - entry)) rr sm BollingerMid)
                   | None \<Rightarrow>
                       if rv_targetRMultiple p + Fin (1 / 10 ^ 9) < rv_minRiskRewardRatio p then None
                       else
                         let takeProfit = target_at dir entry (stopDistance * rv_targetRMultiple p)
                         in Some (make_proposal dir entry stopLoss takeProfit stopDistance (js_abs (takeProfit - entry))
                              (rv_targetRMultiple p) sm FixedR))))"

subsection \<open>The dispatcher\<close>

definition CFD_CAPABLE_STRATEGY_IDS :: "string list" where
  "CFD_CAPABLE_STRATEGY_IDS =
     [''breakout-momentum-v1'', ''ema-pullback-v1'', ''bollinger-reversion-v1'', ''squeeze-breakout-v1'',
      ''trend-structure-pullback-v1'', ''trend-structure-pullback-v2'', ''xau-mtf-structure-momentum-v1'',
      ''xau-volatility-expansion-retest-v1'', ''xau-trend-pullback-v1'', ''xau-trend-breakout-v2'']"

definition isCfdCapableStrategy :: "string \<Rightarrow> bool" where
  "isCfdCapableStrategy sid \<longleftrightarrow> sid \<in> set CFD_CAPABLE_STRATEGY_IDS"

definition proposeCfdStopTarget :: "string \<Rightarrow> cfd_overrides \<Rightarrow> proposal_input \<Rightarrow> proposal option" where
  "proposeCfdStopTarget sid v inp =
     (if \<not> isCfdCapableStrategy sid then None
      else if sid = ''breakout-momentum-v1'' then proposeBreakoutMomentumStopTarget v inp
      else if sid = ''ema-pullback-v1'' then proposeEmaPullbackStopTarget v inp
      else if sid = ''bollinger-reversion-v1'' then proposeBollingerReversionStopTarget v inp
      else if sid = ''squeeze-breakout-v1'' then proposeSqueezeBreakoutStopTarget v inp
      else if sid = ''trend-structure-pullback-v1'' \<or> sid = ''trend-structure-pullback-v2''
      then proposeTrendStructurePullbackStopTarget v inp
      else if sid = ''xau-mtf-structure-momentum-v1'' then proposeXauMtfStructureMomentumStopTarget v inp
      else if sid = ''xau-volatility-expansion-retest-v1'' then proposeXauVolatilityExpansionRetestStopTarget v inp
      else if sid = ''xau-trend-pullback-v1'' then proposeXauTrendPullbackStopTarget v inp
      else if sid = ''xau-trend-breakout-v2'' then proposeXauTrendBreakoutV2StopTarget v inp
      else None)"

section \<open>Properties\<close>

definition adverse_stop :: "direction \<Rightarrow> rat \<Rightarrow> rat \<Rightarrow> bool" where
  "adverse_stop dir e s \<longleftrightarrow> (if dir = BUY then s < e else e < s)"

definition favourable_target :: "direction \<Rightarrow> rat \<Rightarrow> rat \<Rightarrow> bool" where
  "favourable_target dir e t \<longleftrightarrow> (if dir = BUY then e < t else t < e)"

lemma closed_side:
  "\<not> fails_closed dir (Fin e) stopLoss \<Longrightarrow> \<exists>s. stopLoss = Fin s \<and> adverse_stop dir e s"
  by (cases stopLoss; cases dir) (auto simp: fails_closed_def adverse_stop_def)

text \<open>A proposal whose prices, before they are rounded to eight decimals, lie on their sides of the entry.\<close>

definition sided_proposal :: "direction \<Rightarrow> rat \<Rightarrow> jsnum option \<Rightarrow> proposal \<Rightarrow> bool" where
  "sided_proposal dir e metaTarget p \<longleftrightarrow>
     sp_direction p = dir \<and> sp_entryPrice p = Fin e \<and>
     (\<exists>s t. sp_stopLoss p = Fin (fixed_rat 8 s) \<and> sp_takeProfit p = Some (Fin (fixed_rat 8 t)) \<and>
        sp_stopDistance p = Fin (fixed_rat 8 \<bar>e - s\<bar>) \<and> adverse_stop dir e s \<and> (metaTarget = None \<longrightarrow> favourable_target dir e t))"

lemma make_proposal_sided:
  assumes "adverse_stop dir e s" "metaTarget = None \<longrightarrow> favourable_target dir e t"
  shows "sided_proposal dir e metaTarget (make_proposal dir (Fin e) (Fin s) (Fin t) (Fin \<bar>e - s\<bar>) td rr sm tm)"
  using assms unfolding sided_proposal_def make_proposal_def by auto

lemma at_multiple_sided:
  assumes "at_multiple dir (Fin e) (Fin s) m metaTarget sm tm = Some p" "adverse_stop dir e s"
  shows "sided_proposal dir e metaTarget p"
proof -
  define d where "d = \<bar>e - s\<bar>"
  have d: "0 < d" using assms(2) by (auto simp: adverse_stop_def d_def split: if_splits)
  have dm: "Fin d * m = Fin x \<Longrightarrow> \<not> Fin d * m \<le> 0 \<Longrightarrow> 0 < x" for x by simp
  from assms(1) d have tp: "is_finite (or_default metaTarget (target_at dir (Fin e) (Fin d * m)))" "\<not> Fin d * m \<le> 0"
    and p: "p = make_proposal dir (Fin e) (Fin s) (or_default metaTarget (target_at dir (Fin e) (Fin d * m))) (Fin d) (Fin d * m) m sm tm"
    by (auto simp: at_multiple_def Let_def d_def split: if_splits)
  obtain t where t: "or_default metaTarget (target_at dir (Fin e) (Fin d * m)) = Fin t" using tp(1) by (auto simp: is_finite_iff)
  have "favourable_target dir e t" if none: "metaTarget = None"
  proof -
    have "\<exists>x. Fin d * m = Fin x"
      using t none by (cases "Fin d * m") (auto simp: target_at_def plus_jsnum_def minus_jsnum_def split: if_splits)
    then obtain x where x: "Fin d * m = Fin x" by blast
    with tp(2) have "0 < x" by simp
    with t none x show ?thesis by (auto simp: target_at_def favourable_target_def split: if_splits)
  qed
  with assms(2) show ?thesis unfolding p t unfolding d_def by (intro make_proposal_sided) simp_all
qed

lemma guarded_sided:
  assumes "guarded dir (Fin e) stop k = Some p"
    and "\<And>s sm. adverse_stop dir e s \<Longrightarrow> k (Fin s) sm = Some p \<Longrightarrow> sided_proposal dir e mt p"
  shows "sided_proposal dir e mt p"
  using assms closed_side by (fastforce simp: guarded_def split: option.splits if_splits prod.splits)

definition positive_option :: "jsnum option \<Rightarrow> bool" where
  "positive_option v \<longleftrightarrow> (case v of None \<Rightarrow> True | Some x \<Rightarrow> is_finite x \<and> 0 < x)"

definition overrides_ok :: "cfd_overrides \<Rightarrow> bool" where
  "overrides_ok v \<longleftrightarrow> is_finite (co_tickSize v) \<and> 0 < co_tickSize v \<and>
     list_all positive_option [co_targetRMultiple v, co_stopAtrMultiple v, co_structureBufferTicks v]"

lemma positive_default:
  "positive_option v \<Longrightarrow> 0 < d \<Longrightarrow> \<exists>x. or_default v (Fin d) = Fin x \<and> 0 < x"
  by (cases v) (auto simp: positive_option_def is_finite_iff)

lemma breakout_proposal_sided:
  assumes "proposeBreakoutMomentumStopTarget v inp = Some p" "pi_entryPrice inp = Fin e" "overrides_ok v"
  shows "sided_proposal (pi_direction inp) e None p"
proof -
  obtain tk where tk: "co_tickSize v = Fin tk" "0 < tk" using assms(3) by (auto simp: overrides_ok_def is_finite_iff)
  obtain n where n: "or_default (co_structureBufferTicks v) (Fin 2) = Fin n" "0 < n"
    using assms(3) positive_default [of "co_structureBufferTicks v" 2] by (auto simp: overrides_ok_def)
  obtain m where m: "or_default (co_stopAtrMultiple v) (Fin (3 / 2)) = Fin m" "0 < m"
    using assms(3) positive_default [of "co_stopAtrMultiple v" "3 / 2"] by (auto simp: overrides_ok_def)
  have pos: "0 < n * tk" using n tk by simp
  have fallback: "adverse_stop (pi_direction inp) e s"
    if "atr_fallback (pi_direction inp) (Fin e) (pi_features inp) (Fin m) = Some (Fin s, sm)" for s sm
  proof -
    from that obtain a where a: "0 < a" and s: "Fin s = (if pi_direction inp = BUY then Fin e - a * Fin m else Fin e + a * Fin m)"
      by (auto simp: atr_fallback_def positive_atr_def split: option.splits if_splits)
    from a m(2) s have "\<exists>r. a = Fin r \<and> 0 < r"
      by (cases a) (auto simp: plus_jsnum_def minus_jsnum_def times_jsnum_def js_inf_def split: if_splits)
    then obtain r where r: "a = Fin r" "0 < r" by blast
    have "0 < r * m" using r(2) m(2) by simp
    with s r(1) show ?thesis by (auto simp: adverse_stop_def split: if_splits)
  qed
  have stop: "adverse_stop (pi_direction inp) e s"
    if "structure_stop (pi_direction inp) (Fin e) (pi_features inp) low high StructureStop (Fin (n * tk)) (Fin m) = Some (Fin s, sm)"
    for low high s sm
  proof (cases "pi_direction inp")
    case BUY
    have "adverse_stop BUY e s" if "low = Some l" "l < Fin e" "Fin s = l - Fin (n * tk)" for l
      using that pos by (cases l) (auto simp: adverse_stop_def minus_jsnum_def)
    with that BUY fallback show ?thesis by (auto simp: structure_stop_def split: option.splits if_splits)
  next
    case SELL
    have "adverse_stop SELL e s" if "high = Some h" "Fin e < h" "Fin s = h + Fin (n * tk)" for h
      using that pos by (cases h) (auto simp: adverse_stop_def plus_jsnum_def)
    with that SELL fallback show ?thesis by (auto simp: structure_stop_def split: option.splits if_splits)
  qed
  have nt: "or_default (co_structureBufferTicks v) 2 * co_tickSize v = Fin (n * tk)" using n(1) tk(1) by simp
  from assms(1,2) obtain stopLoss sm where sl: "is_finite stopLoss"
    "structure_stop (pi_direction inp) (Fin e) (pi_features inp) (or_else (ft_donchianLow (pi_features inp)) (pi_metadata inp ''donchianLow''))
      (or_else (ft_donchianHigh (pi_features inp)) (pi_metadata inp ''donchianHigh'')) StructureStop (Fin (n * tk)) (Fin m) = Some (stopLoss, sm)"
    "at_multiple (pi_direction inp) (Fin e) stopLoss (or_default (co_targetRMultiple v) 2) None sm FixedR = Some p"
    unfolding proposeBreakoutMomentumStopTarget_def Let_def nt m(1) by (auto split: option.splits if_splits)
  then obtain s where "stopLoss = Fin s" by (auto simp: is_finite_iff)
  with sl stop show ?thesis by (auto intro: at_multiple_sided)
qed

lemma reversion_proposal_sided:
  assumes "proposeBollingerReversionStopTarget v inp = Some p" "pi_entryPrice inp = Fin e" "overrides_ok v"
  shows "sided_proposal (pi_direction inp) e None p"
proof -
  define q where "q = reversion_cfd_params_of v"
  obtain m where m: "rv_targetRMultiple q = Fin m" "0 < m"
    using assms(3) positive_default [of "co_targetRMultiple v" 2] by (auto simp: overrides_ok_def q_def reversion_cfd_params_of_def)
  show ?thesis
    using assms(1) unfolding proposeBollingerReversionStopTarget_def Let_def assms(2) q_def [symmetric]
  proof (rule guarded_sided)
    fix s sm
    assume s: "adverse_stop (pi_direction inp) e s"
    define d where "d = \<bar>e - s\<bar>"
    have d: "0 < d" "js_abs (Fin e - Fin s) = Fin d"
      using s by (auto simp: adverse_stop_def d_def split: if_splits)
    let ?mid = "or_else (pi_metadata inp ''bollingerMid'')
      (or_else (pi_metadata inp ''bollingerMiddle'') (ft_bollingerMiddle (pi_features inp)))"
    assume k: "(if js_abs (Fin e - Fin s) \<le> 0 then None
        else case mid_target (pi_direction inp) (Fin e) ?mid (js_abs (Fin e - Fin s)) (rv_minRiskRewardRatio q) of
          None \<Rightarrow> if rv_targetRMultiple q + Fin (1 / 10 ^ 9) < rv_minRiskRewardRatio q then None
            else Some (make_proposal (pi_direction inp) (Fin e) (Fin s)
              (target_at (pi_direction inp) (Fin e) (js_abs (Fin e - Fin s) * rv_targetRMultiple q)) (js_abs (Fin e - Fin s))
              (js_abs (target_at (pi_direction inp) (Fin e) (js_abs (Fin e - Fin s) * rv_targetRMultiple q) - Fin e))
              (rv_targetRMultiple q) sm FixedR)
        | Some (takeProfit, rr) \<Rightarrow> Some (make_proposal (pi_direction inp) (Fin e) (Fin s) takeProfit (js_abs (Fin e - Fin s))
              (js_abs (takeProfit - Fin e)) rr sm BollingerMid)) = Some p"
    show "sided_proposal (pi_direction inp) e None p"
    proof (cases "mid_target (pi_direction inp) (Fin e) ?mid (Fin d) (rv_minRiskRewardRatio q)")
      case None
      define t where "t = (if pi_direction inp = BUY then e + d * m else e - d * m)"
      have "0 < d * m" using d(1) m(2) by simp
      then have "favourable_target (pi_direction inp) e t" by (simp add: favourable_target_def t_def)
      moreover have "target_at (pi_direction inp) (Fin e) (Fin d * rv_targetRMultiple q) = Fin t"
        by (simp add: target_at_def t_def m(1))
      ultimately show ?thesis
        using k s unfolding d(2) None by (auto simp: d_def m(1) split: if_splits intro!: make_proposal_sided)
    next
      case (Some tr)
      then obtain t rr where tr: "tr = (Fin t, rr)" "favourable_target (pi_direction inp) e t"
        by (auto simp: mid_target_def Let_def favourable_target_def is_finite_iff split: option.splits if_splits)
      with k s Some show ?thesis
        unfolding d(2) by (auto simp: d_def split: if_splits intro!: make_proposal_sided)
    qed
  qed
qed

lemma pullback_proposals_sided:
  assumes "pi_entryPrice inp = Fin e"
  shows "proposeEmaPullbackStopTarget v inp = Some p \<Longrightarrow> sided_proposal (pi_direction inp) e None p"
    and "proposeTrendStructurePullbackStopTarget v inp = Some p \<Longrightarrow> sided_proposal (pi_direction inp) e None p"
    and "proposeSqueezeBreakoutStopTarget v inp = Some p \<Longrightarrow> sided_proposal (pi_direction inp) e None p"
    and "proposeXauMtfStructureMomentumStopTarget v inp = Some p \<Longrightarrow> sided_proposal (pi_direction inp) e None p"
    and "proposeXauVolatilityExpansionRetestStopTarget v inp = Some p \<Longrightarrow> sided_proposal (pi_direction inp) e None p"
    and "proposeXauTrendPullbackStopTarget v inp = Some p \<Longrightarrow> sided_proposal (pi_direction inp) e (pi_metadata inp ''takeProfit'') p"
    and "proposeXauTrendBreakoutV2StopTarget v inp = Some p \<Longrightarrow> sided_proposal (pi_direction inp) e (pi_metadata inp ''takeProfit'') p"
  unfolding proposeEmaPullbackStopTarget_def proposeTrendStructurePullbackStopTarget_def proposeSqueezeBreakoutStopTarget_def
    proposeXauMtfStructureMomentumStopTarget_def proposeXauVolatilityExpansionRetestStopTarget_def
    proposeXauTrendPullbackStopTarget_def proposeXauTrendBreakoutV2StopTarget_def Let_def assms
  by (erule guarded_sided, erule at_multiple_sided, assumption)+

lemma if_SomeE: "(if c then x else y) = Some p \<Longrightarrow> (x = Some p \<Longrightarrow> Q) \<Longrightarrow> (y = Some p \<Longrightarrow> Q) \<Longrightarrow> Q"
  by (cases c) simp_all

lemma sided_weaken: "sided_proposal dir e None p \<Longrightarrow> sided_proposal dir e mt p"
  by (auto simp: sided_proposal_def)

lemma proposal_sided:
  assumes "proposeCfdStopTarget sid v inp = Some p" "pi_entryPrice inp = Fin e" "overrides_ok v"
  shows "sided_proposal (pi_direction inp) e (pi_metadata inp ''takeProfit'') p"
proof -
  note weak = breakout_proposal_sided [OF _ assms(2,3)] reversion_proposal_sided [OF _ assms(2,3)]
    pullback_proposals_sided(1-5) [OF assms(2)]
  show ?thesis
    using assms(1) unfolding proposeCfdStopTarget_def
    by (elim if_SomeE, simp_all only: option.distinct)
      (erule weak [THEN sided_weaken] pullback_proposals_sided(6,7) [OF assms(2)])+
qed

text \<open>C16: whatever strategy is asked, a proposal that comes back protects its position: for a finite entry and
  positive overrides the stop lies, before the rounding to eight decimals, on the adverse side of the entry at the
  stop distance reported, and the target, unless the strategy's metadata dictated its price, on the favourable side.\<close>

theorem proposals_protect:
  assumes "proposeCfdStopTarget sid v inp = Some p" "pi_entryPrice inp = Fin e" "overrides_ok v"
  shows "sp_direction p = pi_direction inp \<and> sp_entryPrice p = Fin e \<and>
    (\<exists>s t. sp_stopLoss p = Fin (fixed_rat 8 s) \<and> sp_takeProfit p = Some (Fin (fixed_rat 8 t)) \<and>
       sp_stopDistance p = Fin (fixed_rat 8 \<bar>e - s\<bar>) \<and>
       (if pi_direction inp = BUY then s < e else e < s) \<and>
       (pi_metadata inp ''takeProfit'' = None \<longrightarrow> (if pi_direction inp = BUY then e < t else t < e)))"
  using proposal_sided [OF assms] unfolding sided_proposal_def adverse_stop_def favourable_target_def .

definition demo_overrides :: cfd_overrides where
  "demo_overrides = \<lparr>co_tickSize = Fin (1 / 100), co_targetRMultiple = Some 2, co_stopAtrMultiple = None,
     co_structureBufferAtr = None, co_structureBufferTicks = None, co_minRiskRewardRatio = Some (Fin (3 / 2))\<rparr>"

definition demo_proposal_input :: proposal_input where
  "demo_proposal_input = \<lparr>pi_direction = BUY, pi_entryPrice = Fin 100, pi_features = snapshots (\<lambda>x. x) alignment_config rising ! 3,
     pi_candles = [], pi_metadata = [''pullbackLow'' \<mapsto> Fin 98, ''pullbackHigh'' \<mapsto> Fin 101]\<rparr>"

theorem proposals_protect_witness:
  "\<exists>p s t. proposeCfdStopTarget ''ema-pullback-v1'' demo_overrides demo_proposal_input = Some p \<and>
     sp_stopLoss p = Fin (fixed_rat 8 s) \<and> s < 100 \<and> sp_takeProfit p = Some (Fin (fixed_rat 8 t)) \<and> 100 < t"
proof -
  have "proposeCfdStopTarget ''ema-pullback-v1'' demo_overrides demo_proposal_input \<noteq> None" by code_simp
  then obtain p where p: "proposeCfdStopTarget ''ema-pullback-v1'' demo_overrides demo_proposal_input = Some p" by auto
  have e: "pi_entryPrice demo_proposal_input = Fin 100" and v: "overrides_ok demo_overrides"
    and d: "pi_direction demo_proposal_input = BUY" "pi_metadata demo_proposal_input ''takeProfit'' = None"
    by (simp_all add: demo_proposal_input_def demo_overrides_def overrides_ok_def positive_option_def)
  from proposals_protect [OF p e v] p d show ?thesis by auto
qed

end
