(* ===== verification/Metrics.thy ===== *)
theory Metrics
  imports Simulator Indicators
begin

text \<open>
  The figures of a backtest (\<^verbatim>\<open>packages/trading-engine/src/backtest/metrics.ts\<close> and
  \<^verbatim>\<open>cfdMetrics.ts\<close>): one pass over the settled trades that keeps the balance to the cent, the streaks and
  the drawdown, and the grouping by a key.  The pass of the CFD summary extends the other by its sums of R multiples.
\<close>

record equity_point =
  eq_time :: int
  eq_balance :: jsnum
  eq_equity :: jsnum
  eq_drawdown :: jsnum

record tally =
  ty_balance :: jsnum
  ty_peak :: jsnum
  ty_grossProfit :: jsnum
  ty_grossLoss :: jsnum
  ty_wins :: nat
  ty_losses :: nat
  ty_pushes :: nat
  ty_winStreak :: nat
  ty_lossStreak :: nat
  ty_longestWinStreak :: nat
  ty_longestLossStreak :: nat
  ty_maxDrawdown :: jsnum
  ty_maxDrawdownPercent :: jsnum
  ty_holdingSum :: int
  ty_curve :: "equity_point list"

record settled =
  st_profit :: jsnum
  st_outcome :: contract_outcome
  st_entryTime :: int
  st_exitTime :: int

text \<open>The outcome of a trade moves the counters, the streaks and the gross sums.\<close>

definition count_outcome :: "'b settled_scheme \<Rightarrow> 'a tally_scheme \<Rightarrow> 'a tally_scheme" where
  "count_outcome t s =
     (case st_outcome t of
        WIN \<Rightarrow> s\<lparr>ty_wins := ty_wins s + 1, ty_grossProfit := addMoney (ty_grossProfit s) (st_profit t),
          ty_winStreak := ty_winStreak s + 1, ty_lossStreak := 0,
          ty_longestWinStreak := max (ty_longestWinStreak s) (ty_winStreak s + 1)\<rparr>
      | LOSS \<Rightarrow> s\<lparr>ty_losses := ty_losses s + 1, ty_grossLoss := addMoney (ty_grossLoss s) (js_abs (st_profit t)),
          ty_lossStreak := ty_lossStreak s + 1, ty_winStreak := 0,
          ty_longestLossStreak := max (ty_longestLossStreak s) (ty_lossStreak s + 1)\<rparr>
      | PUSH \<Rightarrow> s\<lparr>ty_pushes := ty_pushes s + 1, ty_winStreak := 0, ty_lossStreak := 0\<rparr>)"

definition mark_drawdown :: "'b settled_scheme \<Rightarrow> 'a tally_scheme \<Rightarrow> 'a tally_scheme" where
  "mark_drawdown t s =
     (let peak = js_max (ty_peak s) (ty_balance s);
          ddAbs = roundMoney (peak - ty_balance s);
          ddPct = (if 0 < peak then ddAbs / peak else 0)
      in s\<lparr>ty_peak := peak, ty_maxDrawdown := js_max (ty_maxDrawdown s) ddAbs,
           ty_maxDrawdownPercent := js_max (ty_maxDrawdownPercent s) ddPct,
           ty_curve := ty_curve s @ [\<lparr>eq_time = st_exitTime t, eq_balance = ty_balance s, eq_equity = ty_balance s,
             eq_drawdown = ddPct\<rparr>]\<rparr>)"

definition tally_step :: "'b settled_scheme \<Rightarrow> 'a tally_scheme \<Rightarrow> 'a tally_scheme" where
  "tally_step t s =
     mark_drawdown t (count_outcome t (s\<lparr>ty_balance := addMoney (ty_balance s) (st_profit t),
       ty_holdingSum := ty_holdingSum s + (st_exitTime t - st_entryTime t)\<rparr>))"

definition tally_start :: "jsnum \<Rightarrow> tally" where
  "tally_start startingBalance =
     \<lparr>ty_balance = startingBalance, ty_peak = startingBalance, ty_grossProfit = 0, ty_grossLoss = 0, ty_wins = 0,
      ty_losses = 0, ty_pushes = 0, ty_winStreak = 0, ty_lossStreak = 0, ty_longestWinStreak = 0,
      ty_longestLossStreak = 0, ty_maxDrawdown = 0, ty_maxDrawdownPercent = 0, ty_holdingSum = 0, ty_curve = []\<rparr>"

definition per :: "jsnum \<Rightarrow> nat \<Rightarrow> jsnum" where
  "per x n = (if 0 < n then x / num n else 0)"

record summary =
  su_totalTrades :: nat
  su_winningTrades :: nat
  su_losingTrades :: nat
  su_pushTrades :: nat
  su_winRate :: jsnum
  su_grossProfit :: jsnum
  su_grossLoss :: jsnum
  su_netProfit :: jsnum
  su_averageWin :: jsnum
  su_averageLoss :: jsnum
  su_expectancy :: jsnum
  su_profitFactor :: "jsnum option"
  su_maxDrawdown :: jsnum
  su_maxDrawdownPercent :: jsnum
  su_longestWinStreak :: nat
  su_longestLossStreak :: nat
  su_averageHoldingMs :: jsnum
  su_endingBalance :: jsnum
  su_returnPercent :: jsnum
  su_rejectedSignalCount :: nat
  su_noTradeCount :: nat

definition profit_factor :: "jsnum \<Rightarrow> jsnum \<Rightarrow> jsnum option" where
  "profit_factor grossProfit grossLoss =
     (if 0 < grossLoss then Some (to_fixed 4 (grossProfit / grossLoss)) else None)"

definition return_percent :: "jsnum \<Rightarrow> jsnum \<Rightarrow> jsnum" where
  "return_percent startingBalance balance =
     (if 0 < startingBalance then ((balance - startingBalance) / startingBalance) * 100 else 0)"

definition computeSummary :: "'b settled_scheme list \<Rightarrow> jsnum \<Rightarrow> nat \<Rightarrow> nat \<Rightarrow> summary \<times> equity_point list" where
  "computeSummary trades startingBalance rejected noTrade =
     (let s = fold tally_step trades (tally_start startingBalance);
          n = length trades;
          netProfit = roundMoney (ty_grossProfit s - ty_grossLoss s)
      in (\<lparr>su_totalTrades = n, su_winningTrades = ty_wins s, su_losingTrades = ty_losses s, su_pushTrades = ty_pushes s,
           su_winRate = per (num (ty_wins s)) n, su_grossProfit = ty_grossProfit s, su_grossLoss = ty_grossLoss s,
           su_netProfit = netProfit, su_averageWin = roundMoney (per (ty_grossProfit s) (ty_wins s)),
           su_averageLoss = roundMoney (per (ty_grossLoss s) (ty_losses s)),
           su_expectancy = to_fixed 4 (per netProfit n), su_profitFactor = profit_factor (ty_grossProfit s) (ty_grossLoss s),
           su_maxDrawdown = ty_maxDrawdown s, su_maxDrawdownPercent = to_fixed 6 (ty_maxDrawdownPercent s),
           su_longestWinStreak = ty_longestWinStreak s, su_longestLossStreak = ty_longestLossStreak s,
           su_averageHoldingMs = per (Fin (of_int (ty_holdingSum s))) n, su_endingBalance = ty_balance s,
           su_returnPercent = to_fixed 4 (return_percent startingBalance (ty_balance s)),
           su_rejectedSignalCount = rejected, su_noTradeCount = noTrade\<rparr>, ty_curve s))"

subsection \<open>The CFD summary\<close>

record cfd_settled = settled +
  cs_barsHeld :: nat
  cs_netR :: "jsnum option"
  cs_grossR :: "jsnum option"

record cfd_tally = tally +
  ty_barsHeldSum :: nat
  ty_netRSum :: jsnum
  ty_netRCount :: nat
  ty_grossRSum :: jsnum
  ty_grossRCount :: nat

definition add_r :: "jsnum option \<Rightarrow> jsnum \<times> nat \<Rightarrow> jsnum \<times> nat" where
  "add_r r acc = (case r of None \<Rightarrow> acc | Some x \<Rightarrow> (fst acc + x, snd acc + 1))"

definition cfd_tally_step :: "cfd_settled \<Rightarrow> cfd_tally \<Rightarrow> cfd_tally" where
  "cfd_tally_step t s =
     (let net = add_r (cs_netR t) (ty_netRSum s, ty_netRCount s);
          gross = add_r (cs_grossR t) (ty_grossRSum s, ty_grossRCount s)
      in tally_step t
           (s\<lparr>ty_barsHeldSum := ty_barsHeldSum s + cs_barsHeld t, ty_netRSum := fst net, ty_netRCount := snd net,
              ty_grossRSum := fst gross, ty_grossRCount := snd gross\<rparr>))"

definition cfd_tally_start :: "jsnum \<Rightarrow> cfd_tally" where
  "cfd_tally_start startingBalance =
     tally.extend (tally_start startingBalance)
       (cfd_tally.fields 0 0 0 0 0)"

record cfd_summary = summary +
  cu_expectancyR :: jsnum
  cu_averageR :: "jsnum option"
  cu_averageGrossR :: "jsnum option"
  cu_averageBarsHeld :: jsnum
  cu_exposureBars :: nat

definition average_r :: "jsnum \<Rightarrow> nat \<Rightarrow> jsnum option" where
  "average_r s n = (if 0 < n then Some (to_fixed 4 (s / num n)) else None)"

definition computeCfdSummary :: "cfd_settled list \<Rightarrow> jsnum \<Rightarrow> nat \<Rightarrow> nat \<Rightarrow> cfd_summary \<times> equity_point list" where
  "computeCfdSummary trades startingBalance rejected noTrade =
     (let s = fold cfd_tally_step trades (cfd_tally_start startingBalance);
          n = length trades;
          netProfit = roundMoney (ty_grossProfit s - ty_grossLoss s);
          averageR = average_r (ty_netRSum s) (ty_netRCount s)
      in (\<lparr>su_totalTrades = n, su_winningTrades = ty_wins s, su_losingTrades = ty_losses s, su_pushTrades = ty_pushes s,
           su_winRate = per (num (ty_wins s)) n, su_grossProfit = ty_grossProfit s, su_grossLoss = ty_grossLoss s,
           su_netProfit = netProfit, su_averageWin = roundMoney (per (ty_grossProfit s) (ty_wins s)),
           su_averageLoss = roundMoney (per (ty_grossLoss s) (ty_losses s)),
           su_expectancy = to_fixed 4 (per netProfit n), su_profitFactor = profit_factor (ty_grossProfit s) (ty_grossLoss s),
           su_maxDrawdown = ty_maxDrawdown s, su_maxDrawdownPercent = ty_maxDrawdownPercent s,
           su_longestWinStreak = ty_longestWinStreak s, su_longestLossStreak = ty_longestLossStreak s,
           su_averageHoldingMs = per (Fin (of_int (ty_holdingSum s))) n, su_endingBalance = ty_balance s,
           su_returnPercent = return_percent startingBalance (ty_balance s),
           su_rejectedSignalCount = rejected, su_noTradeCount = noTrade,
           cu_expectancyR = or_default averageR 0, cu_averageR = averageR,
           cu_averageGrossR = average_r (ty_grossRSum s) (ty_grossRCount s),
           cu_averageBarsHeld = per (num (ty_barsHeldSum s)) n, cu_exposureBars = ty_barsHeldSum s\<rparr>, ty_curve s))"

subsection \<open>Performance by group\<close>

record grouped =
  gp_key :: string
  gp_trades :: nat
  gp_wins :: nat
  gp_losses :: nat
  gp_winRate :: jsnum
  gp_netProfit :: jsnum
  gp_profitFactor :: "jsnum option"
  gp_expectancy :: jsnum

text \<open>Keys in the order of their first trade; the group of a key keeps the order of the trades.\<close>

definition keys_in_order :: "('a \<Rightarrow> string) \<Rightarrow> 'a list \<Rightarrow> string list" where
  "keys_in_order keyFn trades = rev (fold (\<lambda>t ks. if keyFn t \<in> set ks then ks else keyFn t # ks) trades [])"

definition group_step :: "'b settled_scheme \<Rightarrow> jsnum \<times> jsnum \<times> jsnum \<times> nat \<times> nat \<Rightarrow> jsnum \<times> jsnum \<times> jsnum \<times> nat \<times> nat" where
  "group_step t acc =
     (case acc of (net, gp, gl, wins, losses) \<Rightarrow>
        (addMoney net (st_profit t),
         (if st_outcome t = WIN then addMoney gp (st_profit t) else gp),
         (if st_outcome t = LOSS then addMoney gl (js_abs (st_profit t)) else gl),
         (if st_outcome t = WIN then wins + 1 else wins), (if st_outcome t = LOSS then losses + 1 else losses)))"

definition group_of :: "string \<Rightarrow> 'b settled_scheme list \<Rightarrow> grouped" where
  "group_of key members =
     (case fold group_step members (0, 0, 0, 0, 0) of (net, gp, gl, wins, losses) \<Rightarrow>
        \<lparr>gp_key = key, gp_trades = length members, gp_wins = wins, gp_losses = losses,
         gp_winRate = per (num wins) (length members), gp_netProfit = net, gp_profitFactor = profit_factor gp gl,
         gp_expectancy = roundMoney (per net (length members))\<rparr>)"

definition groupPerformance :: "('b settled_scheme \<Rightarrow> string) \<Rightarrow> 'b settled_scheme list \<Rightarrow> grouped list" where
  "groupPerformance keyFn trades =
     List.map (\<lambda>key. group_of key (filter (\<lambda>t. keyFn t = key) trades)) (keys_in_order keyFn trades)"

section \<open>Properties\<close>

text \<open>Amounts of whole cents.\<close>

definition money :: "int \<Rightarrow> jsnum" where "money n = Fin (of_int n / 100)"

lemma money_simps [simp]:
  "addMoney (money a) (money b) = money (a + b)"
  "js_max (money a) (money b) = money (max a b)"
  "roundMoney (money a - money b) = money (a - b)"
  "js_abs (money a) = money \<bar>a\<bar>"
  "0 < money a \<longleftrightarrow> 0 < a" "Fin 0 < money a \<longleftrightarrow> 0 < a"
  "addMoney (Fin 0) (money b) = money b"
proof -
  have d: "money a - money b = money (a - b)" for a b by (simp add: money_def diff_divide_distrib)
  show "addMoney (money a) (money b) = money (a + b)" for a b
    by (simp add: money_def addMoney_def toCents_def fromCents_def add_divide_distrib)
  show "js_max (money a) (money b) = money (max a b)"
    by (simp add: money_def js_max_def max_def)
  have "roundMoney (money m) = money m" for m by (simp add: money_def)
  then show "roundMoney (money a - money b) = money (a - b)" by (simp only: d)
  show "js_abs (money a) = money \<bar>a\<bar>" by (simp add: money_def)
  show "0 < money a \<longleftrightarrow> 0 < a" "Fin 0 < money a \<longleftrightarrow> 0 < a" by (simp_all add: money_def)
  show "addMoney (Fin 0) (money b) = money b"
    by (simp add: money_def addMoney_def toCents_def fromCents_def round_half_up_def)
qed

lemma money_inject [simp]: "money a = money b \<longleftrightarrow> a = b"
  by (simp add: money_def)

lemma money_div: "b \<noteq> 0 \<Longrightarrow> money a / money b = Fin (of_int a / of_int b)"
  by (simp add: money_def)

lemma money_zero: "0 = money 0" "Fin 0 = money 0" by (simp_all add: money_def)

text \<open>A trade whose profit is money and whose outcome is the sign of its profit.\<close>

definition honest :: "'b settled_scheme \<Rightarrow> bool" where
  "honest t \<longleftrightarrow> (\<exists>n. st_profit t = money n \<and> st_outcome t = (if 0 < n then WIN else if n < 0 then LOSS else PUSH))"

text \<open>What the pass keeps: a balance that is the start plus the profits minus the losses, a peak that is never
  below it, a drawdown that the losses account for, and counters that add up.\<close>

definition books :: "int \<Rightarrow> int \<Rightarrow> 'a tally_scheme \<Rightarrow> bool" where
  "books b0 net s \<longleftrightarrow>
     (\<exists>pk gp gl dd pct. ty_balance s = money (b0 + net) \<and> ty_peak s = money pk \<and> ty_grossProfit s = money gp \<and>
        ty_grossLoss s = money gl \<and> ty_maxDrawdown s = money dd \<and> ty_maxDrawdownPercent s = Fin pct \<and>
        net = gp - gl \<and> b0 + net \<le> pk \<and> b0 \<le> pk \<and> 0 \<le> gp \<and> 0 \<le> gl \<and> 0 \<le> dd \<and> 0 \<le> pct \<and>
        pk - (b0 + net) \<le> dd \<and> pk - (b0 + net) \<le> gl \<and> dd \<le> gl)"

definition counters_add_up :: "nat \<Rightarrow> 'a tally_scheme \<Rightarrow> bool" where
  "counters_add_up n s \<longleftrightarrow>
     ty_wins s + ty_losses s + ty_pushes s = n \<and> ty_winStreak s \<le> ty_longestWinStreak s \<and> ty_longestWinStreak s \<le> ty_wins s \<and>
     ty_lossStreak s \<le> ty_longestLossStreak s \<and> ty_longestLossStreak s \<le> ty_losses s"

lemma mark_drawdown_books:
  assumes s: "ty_balance s = money b" "ty_peak s = money pk" "ty_maxDrawdown s = money dd" "ty_maxDrawdownPercent s = Fin pct"
    and pos: "0 \<le> pct"
  shows "ty_balance (mark_drawdown t s) = money b" "ty_peak (mark_drawdown t s) = money (max pk b)"
    "ty_maxDrawdown (mark_drawdown t s) = money (max dd (max pk b - b))"
    "ty_grossProfit (mark_drawdown t s) = ty_grossProfit s" "ty_grossLoss (mark_drawdown t s) = ty_grossLoss s"
    "\<exists>p. ty_maxDrawdownPercent (mark_drawdown t s) = Fin p \<and> 0 \<le> p"
    "counters_add_up n (mark_drawdown t s) = counters_add_up n s"
proof -
  show "ty_balance (mark_drawdown t s) = money b" "ty_peak (mark_drawdown t s) = money (max pk b)"
    "ty_maxDrawdown (mark_drawdown t s) = money (max dd (max pk b - b))"
    "ty_grossProfit (mark_drawdown t s) = ty_grossProfit s" "ty_grossLoss (mark_drawdown t s) = ty_grossLoss s"
    "counters_add_up n (mark_drawdown t s) = counters_add_up n s"
    by (simp_all add: mark_drawdown_def Let_def s counters_add_up_def)
  have "money (max pk b - b) / money (max pk b) = Fin (of_int (max pk b - b) / of_int (max pk b))" if "0 < max pk b"
    using that by (intro money_div) simp
  then show "\<exists>p. ty_maxDrawdownPercent (mark_drawdown t s) = Fin p \<and> 0 \<le> p"
    using pos by (auto simp: mark_drawdown_def Let_def s max_def)
qed

lemma count_outcome_fields:
  assumes "st_profit t = money n" "st_outcome t = (if 0 < n then WIN else if n < 0 then LOSS else PUSH)"
    and "ty_grossProfit s = money gp" "ty_grossLoss s = money gl"
  shows "ty_grossProfit (count_outcome t s) = money (gp + max n 0)" "ty_grossLoss (count_outcome t s) = money (gl + max (- n) 0)"
    "ty_balance (count_outcome t s) = ty_balance s" "ty_peak (count_outcome t s) = ty_peak s"
    "ty_maxDrawdown (count_outcome t s) = ty_maxDrawdown s" "ty_maxDrawdownPercent (count_outcome t s) = ty_maxDrawdownPercent s"
    "counters_add_up k s \<Longrightarrow> counters_add_up (k + 1) (count_outcome t s)"
  using assms by (auto simp: count_outcome_def counters_add_up_def max_def)

lemma tally_step_books:
  assumes "books b0 net s" "counters_add_up k s" and t: "st_profit t = money n" "st_outcome t = (if 0 < n then WIN else if n < 0 then LOSS else PUSH)"
  shows "books b0 (net + n) (tally_step t s)" "counters_add_up (k + 1) (tally_step t s)"
proof -
  obtain pk gp gl dd pct where s: "ty_balance s = money (b0 + net)" "ty_peak s = money pk" "ty_grossProfit s = money gp"
      "ty_grossLoss s = money gl" "ty_maxDrawdown s = money dd" "ty_maxDrawdownPercent s = Fin pct"
    and b: "net = gp - gl" "b0 + net \<le> pk" "b0 \<le> pk" "0 \<le> gp" "0 \<le> gl" "0 \<le> dd" "0 \<le> pct"
      "pk - (b0 + net) \<le> dd" "pk - (b0 + net) \<le> gl" "dd \<le> gl"
    using assms(1) unfolding books_def by blast
  define u where "u = s\<lparr>ty_balance := addMoney (ty_balance s) (st_profit t),
    ty_holdingSum := ty_holdingSum s + (st_exitTime t - st_entryTime t)\<rparr>"
  have u: "ty_balance u = money (b0 + (net + n))" "ty_peak u = money pk" "ty_grossProfit u = money gp" "ty_grossLoss u = money gl"
      "ty_maxDrawdown u = money dd" "ty_maxDrawdownPercent u = Fin pct" "counters_add_up k u"
    using s assms(2) by (simp_all add: u_def t(1) counters_add_up_def add.assoc)
  note c = count_outcome_fields [OF t u(3,4)]
  note m = mark_drawdown_books [where s = "count_outcome t u" and t = t, unfolded c, OF u(1,2,5,6) b(7)]
  have e: "tally_step t s = mark_drawdown t (count_outcome t u)" by (simp add: tally_step_def u_def)
  show "counters_add_up (k + 1) (tally_step t s)" unfolding e m by (rule c(7) [OF u(7)])
  show "books b0 (net + n) (tally_step t s)"
    unfolding books_def e m(1-5) c(1,2)
    using m(6) b
    by (intro exI [of _ "max pk (b0 + (net + n))"] exI [of _ "gp + max n 0"] exI [of _ "gl + max (- n) 0"]
        exI [of _ "max dd (max pk (b0 + (net + n)) - (b0 + (net + n)))"]) auto
qed

definition net_cents :: "'b settled_scheme list \<Rightarrow> int" where
  "net_cents ts = sum_list (List.map (\<lambda>t. cents (rat_of (st_profit t))) ts)"

lemma fold_books:
  assumes "\<forall>t\<in>set ts. honest t" "books b0 net s" "counters_add_up k s"
  shows "books b0 (net + net_cents ts) (fold tally_step ts s) \<and> counters_add_up (k + length ts) (fold tally_step ts s)"
  using assms
proof (induction ts arbitrary: net k s)
  case (Cons t ts)
  obtain n where n: "st_profit t = money n" "st_outcome t = (if 0 < n then WIN else if n < 0 then LOSS else PUSH)"
    using Cons.prems(1) by (auto simp: honest_def)
  have "cents (rat_of (st_profit t)) = n" by (simp add: n money_def cents_def)
  with Cons.IH [OF _ tally_step_books [OF Cons.prems(2,3) n]] Cons.prems(1) show ?case
    by (simp add: net_cents_def add.assoc)
qed (simp add: net_cents_def)

lemma books_start: "books b0 0 (tally_start (money b0))" "counters_add_up 0 (tally_start (money b0))"
  by (auto simp: books_def tally_start_def zero_jsnum_def money_zero intro!: exI [of _ b0] exI [of _ 0])
    (simp_all add: counters_add_up_def tally_start_def)

lemma curve_length: "length (ty_curve (fold tally_step ts s)) = length (ty_curve s) + length ts"
  by (induction ts arbitrary: s)
    (simp_all add: tally_step_def mark_drawdown_def count_outcome_def Let_def split: contract_outcome.split)


definition demo_trades :: "settled list" where
  "demo_trades = [\<lparr>st_profit = money 250, st_outcome = WIN, st_entryTime = 0, st_exitTime = 60\<rparr>,
     \<lparr>st_profit = money (- 100), st_outcome = LOSS, st_entryTime = 60, st_exitTime = 120\<rparr>]"


subsection \<open>The two summaries\<close>

lemma truncate_step: "tally.truncate (cfd_tally_step t s) = tally_step t (tally.truncate s)"
  by (simp add: cfd_tally_step_def tally_step_def mark_drawdown_def count_outcome_def tally.truncate_def Let_def
      split: contract_outcome.split)

lemma truncate_start: "tally.truncate (cfd_tally_start b) = tally_start b"
  by (simp add: cfd_tally_start_def tally.truncate_def tally.extend_def tally_start_def)

lemma truncate_fold: "tally.truncate (fold cfd_tally_step ts s) = fold tally_step ts (tally.truncate s)"
  by (induction ts arbitrary: s) (simp_all add: truncate_step)

text \<open>Both backtests keep the same books: on the same trades the CFD summary reports the counts, the money,
  the streaks and the curve of the contract summary; only the two percentages are left unrounded.\<close>

theorem cfd_summary_agrees:
  "case (computeCfdSummary ts b r n, computeSummary ts b r n) of ((cu, curve), (su, curve')) \<Rightarrow>
     curve = curve' \<and>
     su = summary.truncate (cu\<lparr>su_maxDrawdownPercent := to_fixed 6 (su_maxDrawdownPercent cu),
       su_returnPercent := to_fixed 4 (su_returnPercent cu)\<rparr>)"
proof -
  define s where "s = fold cfd_tally_step ts (cfd_tally_start b)"
  have "fold tally_step ts (tally_start b) = tally.truncate s"
    unfolding s_def truncate_fold truncate_start ..
  then show ?thesis
    by (simp add: computeCfdSummary_def computeSummary_def s_def [symmetric] Let_def tally.truncate_def summary.truncate_def)
qed

end
