(* ===== verification/CfdBacktest.thy ===== *)
theory CfdBacktest
  imports CfdProposals Metrics
begin

text \<open>
  The CFD backtester (\<^verbatim>\<open>packages/trading-engine/src/backtest/cfdBacktester.ts\<close>): at most one position, managed
  bar by bar through the bar simulator, opened by the first eligible strategy whose proposal passes validation and
  sizing.  The strategies are those of the configuration, records with their evaluation; the progress hook is a
  function from the bar to whether to go on; the square root of the features is an argument.  The feature record
  attached to a trade and the texts of its reasons are left out.
\<close>

record backtest_config =
  bc_startingBalance :: jsnum
  bc_riskPerTradePercent :: jsnum
  bc_minRiskRewardRatio :: jsnum
  bc_maxHoldBars :: jsnum
  bc_instrument :: instrument
  bc_strategies :: "strategy list"
  bc_featureConfig :: "feature_config option"
  bc_regimeThresholds :: "regime_thresholds option"
  bc_contextWindowSize :: "nat option"
  bc_targetRMultiple :: "jsnum option"
  bc_testSplit :: "jsnum option"

datatype trade_exit = Simulated close_reason | MaxHoldTime

record open_cfd =
  oc_strategyId :: string
  oc_strategyVersion :: string
  oc_regime :: regime
  oc_regimeConfidence :: jsnum
  oc_action :: direction
  oc_entryTime :: int
  oc_entryPrice :: jsnum
  oc_volume :: jsnum
  oc_riskAmount :: jsnum
  oc_riskPercent :: jsnum
  oc_stopLoss :: jsnum
  oc_takeProfit :: jsnum
  oc_confidence :: jsnum
  oc_entryIndex :: nat
  oc_spreadBps :: jsnum
  oc_slippageBps :: jsnum

record cfd_trade = cfd_settled +
  ct_open :: open_cfd
  ct_exitPrice :: jsnum
  ct_exitTriggerPrice :: jsnum
  ct_grossPnl :: jsnum
  ct_closeReason :: trade_exit
  ct_isOutOfSample :: bool

record backtest_state =
  bs_trades :: "cfd_trade list"
  bs_open :: "open_cfd option"
  bs_noTrade :: nat
  bs_rejected :: nat
  bs_lastSignal :: "string \<rightharpoonup> nat"
  bs_equity :: jsnum

text \<open>What a run fixes before its loop.\<close>

record backtest_env =
  be_cfg :: backtest_config
  be_candles :: "candle list"
  be_features :: "snapshot list"
  be_thresholds :: regime_thresholds
  be_windowSize :: nat
  be_testStart :: jsnum
  be_costs :: "jsnum \<times> jsnum"

definition bar_of :: "candle \<Rightarrow> cfd_bar" where
  "bar_of c = \<lparr>bar_open = c_open c, bar_high = c_high c, bar_low = c_low c, bar_close = c_close c\<rparr>"

definition bar_input :: "backtest_config \<Rightarrow> open_cfd \<Rightarrow> candle \<Rightarrow> jsnum option \<Rightarrow> sim_input" where
  "bar_input cfg oc candle takeProfit =
     \<lparr>sim_direction = oc_action oc, sim_entryPrice = oc_entryPrice oc, sim_stopLoss = oc_stopLoss oc,
      sim_takeProfit = takeProfit, sim_volume = oc_volume oc, sim_instrument = bc_instrument cfg,
      sim_bars = [bar_of candle], sim_spreadBps = oc_spreadBps oc, sim_slippageBps = oc_slippageBps oc\<rparr>"

definition outcome_of :: "jsnum \<Rightarrow> contract_outcome" where
  "outcome_of profit = (if 0 < profit then WIN else if profit < 0 then LOSS else PUSH)"

definition closed_trade :: "open_cfd \<Rightarrow> candle \<Rightarrow> sim_result \<Rightarrow> trade_exit \<Rightarrow> nat \<Rightarrow> bool \<Rightarrow> cfd_trade" where
  "closed_trade oc candle res reason barsHeld oos =
     \<lparr>st_profit = sr_netPnl res, st_outcome = outcome_of (sr_netPnl res), st_entryTime = oc_entryTime oc,
      st_exitTime = c_closeTime candle, cs_barsHeld = barsHeld, cs_netR = sr_netR res, cs_grossR = sr_grossR res,
      ct_open = oc, ct_exitPrice = sr_exitPrice res, ct_exitTriggerPrice = sr_exitTriggerPrice res,
      ct_grossPnl = sr_grossPnl res, ct_closeReason = reason, ct_isOutOfSample = oos\<rparr>"

text \<open>An open position on a bar: the stop or the target within the bar, else the holding limit or the last bar.\<close>

definition manage_open :: "backtest_env \<Rightarrow> nat \<Rightarrow> open_cfd \<Rightarrow> backtest_state \<Rightarrow> backtest_state" where
  "manage_open env i oc s =
     (let cfg = be_cfg env; candle = be_candles env ! i; barsHeld = i - oc_entryIndex oc;
          lastBar = (i = length (be_candles env) - 1)
      in case simulate (bar_input cfg oc candle (Some (oc_takeProfit oc))) of
           None \<Rightarrow> s
         | Some sim \<Rightarrow>
             let slTpHit = (sr_closeReason sim = STOP_LOSS \<or> sr_closeReason sim = TAKE_PROFIT);
                 forceExit = (bc_maxHoldBars cfg \<le> num barsHeld \<or> lastBar)
             in if \<not> (slTpHit \<or> forceExit) then s
                else
                  let reason = (if slTpHit then Simulated (sr_closeReason sim)
                        else if lastBar then Simulated STRATEGY_EXIT else MaxHoldTime)
                  in case (if slTpHit then Some sim else simulate (bar_input cfg oc candle None)) of
                       None \<Rightarrow> s
                     | Some used \<Rightarrow>
                         s\<lparr>bs_trades := bs_trades s @ [closed_trade oc candle used reason barsHeld (be_testStart env \<le> num i)],
                           bs_equity := roundMoney (bs_equity s + sr_netPnl used), bs_open := None\<rparr>)"

definition window_of :: "nat \<Rightarrow> nat \<Rightarrow> 'a list \<Rightarrow> 'a list" where
  "window_of len i xs = drop (i + 1 - len) (take (i + 1) xs)"

definition eligible :: "regime_result \<Rightarrow> candle list \<Rightarrow> strategy \<Rightarrow> bool" where
  "eligible r window sy \<longleftrightarrow>
     sy_minimumHistory sy \<le> length window \<and> rr_regime r \<in> set (sy_supportedRegimes sy) \<and>
     el_minimumRegimeConfidence (sy_eligibility sy) \<le> rr_confidence r"

fun direction_of :: "vote_action \<Rightarrow> direction option" where
  "direction_of VBUY = Some BUY"
| "direction_of VSELL = Some SELL"
| "direction_of VHOLD = None"

definition context_at :: "backtest_env \<Rightarrow> nat \<Rightarrow> regime_result \<Rightarrow> (string \<rightharpoonup> nat) \<Rightarrow> strategy \<Rightarrow> strategy_context" where
  "context_at env i r lastSignal sy =
     \<lparr>cx_candles = window_of (be_windowSize env) i (be_candles env),
      cx_features = window_of (be_windowSize env) i (be_features env), cx_regime = r,
      cx_candlesSinceLastSignal = (case lastSignal (sy_id sy) of None \<Rightarrow> PosInf | Some k \<Rightarrow> num (i - k))\<rparr>"

definition backtest_overrides :: "backtest_config \<Rightarrow> cfd_overrides" where
  "backtest_overrides cfg =
     \<lparr>co_tickSize = tickSize (bc_instrument cfg), co_targetRMultiple = Some (or_default (bc_targetRMultiple cfg) 2),
      co_stopAtrMultiple = None, co_structureBufferAtr = None, co_structureBufferTicks = None,
      co_minRiskRewardRatio = Some (bc_minRiskRewardRatio cfg)\<rparr>"

definition backtest_limits :: "backtest_config \<Rightarrow> cfd_limits" where
  "backtest_limits cfg = DEFAULT_CFD_RISK_LIMITS
     \<lparr>riskPerTradePercent := bc_riskPerTradePercent cfg, minRiskRewardRatio := bc_minRiskRewardRatio cfg\<rparr>"

text \<open>The position a decision opens, if its proposal, its validation and its sizing succeed.\<close>

definition open_position ::
  "backtest_env \<Rightarrow> nat \<Rightarrow> regime_result \<Rightarrow> strategy \<Rightarrow> decision \<Rightarrow> direction \<Rightarrow> jsnum \<Rightarrow> open_cfd option" where
  "open_position env i r sy d dir equity =
     (let cfg = be_cfg env; candle = be_candles env ! i;
          entry = fillPrice (applyExecutableFill dir (c_close candle) (fst (be_costs env)) (snd (be_costs env)))
      in case proposeCfdStopTarget (sy_id sy) (backtest_overrides cfg)
             \<lparr>pi_direction = dir, pi_entryPrice = entry, pi_features = be_features env ! i,
              pi_candles = window_of (be_windowSize env) i (be_candles env), pi_metadata = dc_metadata d\<rparr> of
           None \<Rightarrow> None
         | Some p \<Rightarrow>
             (case sp_takeProfit p of
                None \<Rightarrow> None
              | Some takeProfit \<Rightarrow>
                  if \<not> sv_valid (validate_stops (sp_direction p) entry (sp_stopLoss p) (Some takeProfit) (backtest_limits cfg) None)
                  then None
                  else (case calculate \<lparr>si_equity = equity, si_direction = sp_direction p, si_entryPrice = entry,
                        si_stopLoss = sp_stopLoss p, si_riskPercent = bc_riskPerTradePercent cfg,
                        si_instrument = bc_instrument cfg\<rparr> of
                      Inl _ \<Rightarrow> None
                    | Inr z \<Rightarrow> Some
                        \<lparr>oc_strategyId = dc_strategyId d, oc_strategyVersion = dc_strategyVersion d, oc_regime = rr_regime r,
                         oc_regimeConfidence = rr_confidence r, oc_action = dir, oc_entryTime = c_closeTime candle,
                         oc_entryPrice = entry, oc_volume = sz_volume z, oc_riskAmount = sz_riskAmount z,
                         oc_riskPercent = bc_riskPerTradePercent cfg, oc_stopLoss = sp_stopLoss p,
                         oc_takeProfit = takeProfit, oc_confidence = dc_confidence d, oc_entryIndex = i,
                         oc_spreadBps = fst (be_costs env), oc_slippageBps = snd (be_costs env)\<rparr>)))"

text \<open>A bar without a position: the first eligible strategy with a stop and target implementation decides.\<close>

definition try_open :: "backtest_env \<Rightarrow> nat \<Rightarrow> backtest_state \<Rightarrow> backtest_state" where
  "try_open env i s =
     (let r = classify (be_features env ! i) (be_thresholds env);
          window = window_of (be_windowSize env) i (be_candles env);
          eligibles = filter (eligible r window) (bc_strategies (be_cfg env));
          capable = filter (\<lambda>sy. isCfdCapableStrategy (sy_id sy)) eligibles
      in if eligibles = [] then s\<lparr>bs_noTrade := bs_noTrade s + 1\<rparr>
         else case capable of
           [] \<Rightarrow> s\<lparr>bs_rejected := bs_rejected s + 1\<rparr>
         | chosen # _ \<Rightarrow>
             let d = sy_evaluate chosen (context_at env i r (bs_lastSignal s) chosen)
             in case direction_of (dc_action d) of
                  None \<Rightarrow> s\<lparr>bs_noTrade := bs_noTrade s + 1\<rparr>
                | Some dir \<Rightarrow>
                    (case open_position env i r chosen d dir (bs_equity s) of
                       None \<Rightarrow> s\<lparr>bs_rejected := bs_rejected s + 1\<rparr>
                     | Some oc \<Rightarrow> s\<lparr>bs_lastSignal := (bs_lastSignal s)(sy_id chosen \<mapsto> i), bs_open := Some oc\<rparr>))"

definition backtest_step :: "backtest_env \<Rightarrow> nat \<Rightarrow> backtest_state \<Rightarrow> backtest_state" where
  "backtest_step env i s = (case bs_open s of Some oc \<Rightarrow> manage_open env i oc s | None \<Rightarrow> try_open env i s)"

text \<open>The loop, and whether the hook cancelled it.\<close>

fun backtest_loop ::
  "(nat \<Rightarrow> bool) \<Rightarrow> nat \<Rightarrow> backtest_env \<Rightarrow> nat list \<Rightarrow> backtest_state \<Rightarrow> backtest_state \<times> bool" where
  "backtest_loop goOn chunk env [] s = (s, False)"
| "backtest_loop goOn chunk env (i # rest) s =
     (if chunk \<noteq> 0 \<and> i mod chunk = 0 \<and> \<not> goOn i then (s, True)
      else backtest_loop goOn chunk env rest (backtest_step env i s))"

definition backtest_start :: "backtest_config \<Rightarrow> backtest_state" where
  "backtest_start cfg =
     \<lparr>bs_trades = [], bs_open = None, bs_noTrade = 0, bs_rejected = 0, bs_lastSignal = Map.empty,
      bs_equity = bc_startingBalance cfg\<rparr>"

definition min_history :: "backtest_config \<Rightarrow> nat" where
  "min_history cfg =
     fold max (List.map sy_minimumHistory (bc_strategies cfg))
       (minimumCandlesForFeatures (or_default (bc_featureConfig cfg) DEFAULT_FEATURE_CONFIG))"

definition backtest_env_of :: "backtest_config \<Rightarrow> candle list \<Rightarrow> snapshot list \<Rightarrow> backtest_env" where
  "backtest_env_of cfg cs fs =
     (let inst = bc_instrument cfg; testSplit = or_default (bc_testSplit cfg) 0
      in \<lparr>be_cfg = cfg, be_candles = cs, be_features = fs,
          be_thresholds = or_default (bc_regimeThresholds cfg) DEFAULT_REGIME_THRESHOLDS,
          be_windowSize = or_default (bc_contextWindowSize cfg) 200,
          be_testStart = (if 0 < testSplit then js_floor (num (length cs) * (1 - testSplit)) else num (length cs)),
          be_costs = resolveInstrumentCosts inst (or_default (spreadBps inst) NaN) (or_default (slippageBps inst) NaN)\<rparr>)"

text \<open>A position opened on the last candle is closed on that same candle.\<close>

definition close_at_end :: "backtest_env \<Rightarrow> backtest_state \<Rightarrow> cfd_trade list" where
  "close_at_end env s =
     (case bs_open s of
        None \<Rightarrow> bs_trades s
      | Some oc \<Rightarrow>
          let end_candle = last (be_candles env)
          in (case simulate (bar_input (be_cfg env) oc end_candle None) of
                None \<Rightarrow> bs_trades s
              | Some used \<Rightarrow> bs_trades s @ [closed_trade oc end_candle used (Simulated STRATEGY_EXIT)
                  (length (be_candles env) - 1 - oc_entryIndex oc) True]))"

record backtest_result =
  br_cancelled :: bool
  br_summary :: cfd_summary
  br_curve :: "equity_point list"
  br_trades :: "cfd_trade list"
  br_validation :: "(cfd_summary \<times> cfd_summary) option"

definition cfd_settled_of :: "cfd_trade \<Rightarrow> cfd_settled" where
  "cfd_settled_of t = cfd_settled.truncate t"

definition run_backtest ::
  "(jsnum \<Rightarrow> jsnum) \<Rightarrow> backtest_config \<Rightarrow> (nat \<Rightarrow> bool) \<Rightarrow> nat option \<Rightarrow> candle list \<Rightarrow> indicator_error + backtest_result" where
  "run_backtest root_of cfg goOn chunkSize cs =
     (case extractFeatures root_of cs (or_default (bc_featureConfig cfg) DEFAULT_FEATURE_CONFIG) of
        Inl e \<Rightarrow> Inl e
      | Inr fs \<Rightarrow>
          let env = backtest_env_of cfg cs fs;
              (s, cancelled) = backtest_loop goOn (or_default chunkSize 250) env [min_history cfg..<length cs] (backtest_start cfg);
              trades = (if cancelled then bs_trades s else close_at_end env s);
              settled = List.map cfd_settled_of trades;
              trainTrades = List.map cfd_settled_of (filter (\<lambda>t. \<not> ct_isOutOfSample t) trades);
              testTrades = List.map cfd_settled_of (filter ct_isOutOfSample trades);
              (su, curve) = computeCfdSummary settled (bc_startingBalance cfg) (bs_rejected s) (bs_noTrade s)
          in Inr \<lparr>br_cancelled = cancelled, br_summary = su, br_curve = curve, br_trades = trades,
               br_validation = (if 0 < or_default (bc_testSplit cfg) 0
                 then Some (fst (computeCfdSummary trainTrades (bc_startingBalance cfg) (bs_rejected s) (bs_noTrade s)),
                            fst (computeCfdSummary testTrades (bc_startingBalance cfg) 0 0))
                 else None)\<rparr>)"

section \<open>No look-ahead\<close>

text \<open>Two environments that agree on the first n candles, neither of them ending there.\<close>

definition agree :: "nat \<Rightarrow> backtest_env \<Rightarrow> backtest_env \<Rightarrow> bool" where
  "agree n a b \<longleftrightarrow>
     be_cfg a = be_cfg b \<and> be_thresholds a = be_thresholds b \<and> be_windowSize a = be_windowSize b \<and> be_costs a = be_costs b \<and>
     take n (be_candles a) = take n (be_candles b) \<and> take n (be_features a) = take n (be_features b) \<and>
     n < length (be_candles a) \<and> n < length (be_candles b) \<and> length (be_features a) = length (be_candles a) \<and>
     length (be_features b) = length (be_candles b) \<and> (\<forall>i<n. be_testStart a \<le> num i \<longleftrightarrow> be_testStart b \<le> num i)"

lemma take_agree:
  assumes "take n xs = take n ys" "i < n" "n \<le> length xs" "n \<le> length ys"
  shows "xs ! i = ys ! i" "take (i + 1) xs = take (i + 1) ys" "window_of w i xs = window_of w i ys"
proof -
  show "xs ! i = ys ! i" using assms by (metis nth_take)
  show t: "take (i + 1) xs = take (i + 1) ys"
    using assms(1,2) by (metis Suc_eq_plus1 Suc_leI min.absorb1 take_take)
  show "window_of w i xs = window_of w i ys" by (simp only: window_of_def t)
qed

lemma agree_reads:
  assumes "agree n a b" "i < n"
  shows "be_candles a ! i = be_candles b ! i" "be_features a ! i = be_features b ! i"
    "window_of w i (be_candles a) = window_of w i (be_candles b)"
    "window_of w i (be_features a) = window_of w i (be_features b)"
    "i \<noteq> length (be_candles a) - 1" "i \<noteq> length (be_candles b) - 1"
    "be_testStart a \<le> num i \<longleftrightarrow> be_testStart b \<le> num i"
    "be_cfg a = be_cfg b" "be_thresholds a = be_thresholds b" "be_windowSize a = be_windowSize b" "be_costs a = be_costs b"
  using assms take_agree [of n "be_candles a" "be_candles b" i] take_agree [of n "be_features a" "be_features b" i]
  by (auto simp: agree_def)

lemma agree_parts:
  assumes "agree n a b" "i < n"
  shows "manage_open a i = manage_open b i" "try_open a i = try_open b i"
proof -
  note reads = agree_reads [OF assms]
  have last: "(i = length (be_candles a) - 1) = False" "(i = length (be_candles b) - 1) = False"
    using reads(5,6) by simp_all
  show "manage_open a i = manage_open b i" by (intro ext) (simp only: manage_open_def reads last)
  have "context_at a i = context_at b i" "open_position a i = open_position b i"
    by (intro ext, simp only: context_at_def open_position_def reads)+
  then show "try_open a i = try_open b i" by (intro ext) (simp only: try_open_def reads)
qed

lemma agree_loop:
  assumes "agree n a b" "\<forall>i\<in>set rest. i < n"
  shows "backtest_loop goOn chunk a rest s = backtest_loop goOn chunk b rest s"
  using assms(2)
proof (induction rest arbitrary: s)
  case (Cons i rest)
  then have "backtest_step a i s = backtest_step b i s"
    using agree_parts [OF assms(1), of i] by (simp add: backtest_step_def split: option.split)
  moreover have "backtest_loop goOn chunk a rest t = backtest_loop goOn chunk b rest t" for t using Cons by simp
  ultimately show ?case by (simp only: backtest_loop.simps)
qed simp

lemma loop_append:
  "backtest_loop goOn chunk env (xs @ ys) s =
     (case backtest_loop goOn chunk env xs s of (t, c) \<Rightarrow> if c then (t, c) else backtest_loop goOn chunk env ys t)"
  by (induction xs arbitrary: s) simp_all

text \<open>Trades are only ever appended, each at the close of the bar being processed.\<close>

lemma step_appends:
  "\<exists>ts. bs_trades (backtest_step env i s) = bs_trades s @ ts \<and> (\<forall>t\<in>set ts. st_exitTime t = c_closeTime (be_candles env ! i))"
  by (auto simp: backtest_step_def manage_open_def try_open_def closed_trade_def Let_def split: option.split list.split)

lemma loop_appends:
  "\<exists>ts. bs_trades (fst (backtest_loop goOn chunk env is s)) = bs_trades s @ ts \<and>
     (\<forall>t\<in>set ts. \<exists>i\<in>set is. st_exitTime t = c_closeTime (be_candles env ! i))"
proof (induction "is" arbitrary: s)
  case (Cons i rest)
  obtain ts where ts: "bs_trades (backtest_step env i s) = bs_trades s @ ts"
    "\<forall>t\<in>set ts. st_exitTime t = c_closeTime (be_candles env ! i)" using step_appends by blast
  obtain us where us: "bs_trades (fst (backtest_loop goOn chunk env rest (backtest_step env i s))) =
      bs_trades (backtest_step env i s) @ us"
    "\<forall>t\<in>set us. \<exists>i\<in>set rest. st_exitTime t = c_closeTime (be_candles env ! i)" using Cons.IH by blast
  show ?case using ts us by (auto intro!: exI [of _ "ts @ us"])
qed simp

lemma end_appends:
  "\<exists>ts. close_at_end env s = bs_trades s @ ts \<and> (\<forall>t\<in>set ts. st_exitTime t = c_closeTime (last (be_candles env)))"
  by (auto simp: close_at_end_def closed_trade_def Let_def split: option.split)

lemma run_result:
  assumes "run_backtest r cfg goOn k cs = Inr res"
  obtains fs s c where "extractFeatures r cs (or_default (bc_featureConfig cfg) DEFAULT_FEATURE_CONFIG) = Inr fs"
    "backtest_loop goOn (or_default k 250) (backtest_env_of cfg cs fs) [min_history cfg..<length cs] (backtest_start cfg) = (s, c)"
    "br_trades res = (if c then bs_trades s else close_at_end (backtest_env_of cfg cs fs) s)"
    "br_cancelled res = c"
    "br_summary res = fst (computeCfdSummary (List.map cfd_settled_of (br_trades res)) (bc_startingBalance cfg) (bs_rejected s) (bs_noTrade s))"
proof -
  obtain fs where fs: "extractFeatures r cs (or_default (bc_featureConfig cfg) DEFAULT_FEATURE_CONFIG) = Inr fs"
    using assms by (auto simp: run_backtest_def split: sum.splits)
  obtain s c where s: "backtest_loop goOn (or_default k 250) (backtest_env_of cfg cs fs) [min_history cfg..<length cs]
    (backtest_start cfg) = (s, c)" by fastforce
  show ?thesis
    using that [OF fs s] assms by (auto simp: run_backtest_def fs s Let_def split: prod.splits)
qed

lemma same_closes: "i < length cs \<Longrightarrow> n \<le> i \<Longrightarrow> c_closeTime (cs ! i) \<in> c_closeTime ` set (drop n cs)"
  by (intro imageI, simp add: in_set_conv_nth) (auto intro!: exI [of _ "i - n"])

text \<open>How a run splits at candle n: what the loop did before it, and trades that exit at it or later.\<close>

lemma run_splits:
  assumes "run_backtest r cfg goOn k cs = Inr res" "n < length cs"
    and "extractFeatures r cs (or_default (bc_featureConfig cfg) DEFAULT_FEATURE_CONFIG) = Inr fs"
  shows "\<exists>late. br_trades res = bs_trades (fst (backtest_loop goOn (or_default k 250) (backtest_env_of cfg cs fs)
      [min_history cfg..<n] (backtest_start cfg))) @ late \<and>
    (\<forall>t\<in>set late. st_exitTime t \<in> c_closeTime ` set (drop n cs))"
proof -
  let ?env = "backtest_env_of cfg cs fs" and ?k = "or_default k 250"
  have cs: "be_candles ?env = cs" by (simp add: backtest_env_of_def Let_def)
  obtain s c where s: "backtest_loop goOn ?k ?env [min_history cfg..<length cs] (backtest_start cfg) = (s, c)"
    and res: "br_trades res = (if c then bs_trades s else close_at_end ?env s)"
    using run_result [OF assms(1)] assms(3) by (metis sum.inject(2))
  obtain s1 c1 where s1: "backtest_loop goOn ?k ?env [min_history cfg..<n] (backtest_start cfg) = (s1, c1)" by fastforce
  have split: "[min_history cfg..<length cs] = [min_history cfg..<n] @ [max (min_history cfg) n..<length cs]"
    using assms(2) upt_add_eq_append [of "min_history cfg" n "length cs - n"]
    by (cases "min_history cfg \<le> n") (simp_all add: max_def)
  have "cs \<noteq> []" using assms(2) by auto
  then have last: "c_closeTime (last cs) \<in> c_closeTime ` set (drop n cs)"
    using assms(2) by (simp add: last_conv_nth same_closes)
  show ?thesis
  proof (cases c1)
    case True
    then have "s = s1" "c" using s s1 by (simp_all add: split loop_append)
    then show ?thesis using res s1 by simp
  next
    case False
    then have rest: "backtest_loop goOn ?k ?env [max (min_history cfg) n..<length cs] s1 = (s, c)"
      using s s1 by (simp add: split loop_append)
    obtain ts where ts: "bs_trades s = bs_trades s1 @ ts"
      "\<forall>t\<in>set ts. \<exists>i\<in>set [max (min_history cfg) n..<length cs]. st_exitTime t = c_closeTime (cs ! i)"
      using loop_appends [of goOn ?k ?env "[max (min_history cfg) n..<length cs]" s1] by (auto simp: rest cs)
    have late: "\<forall>t\<in>set ts. st_exitTime t \<in> c_closeTime ` set (drop n cs)"
      using ts(2) same_closes [of _ cs n] by fastforce
    obtain us where us: "close_at_end ?env s = bs_trades s @ us" "\<forall>t\<in>set us. st_exitTime t = c_closeTime (last cs)"
      using end_appends [of ?env s] by (auto simp: cs)
    show ?thesis
    proof (cases c)
      case True
      then show ?thesis using res ts(1) late s1 by auto
    next
      case False
      have "br_trades res = bs_trades s1 @ ts @ us" using res ts(1) us(1) False by simp
      moreover have "\<forall>t\<in>set (ts @ us). st_exitTime t \<in> c_closeTime ` set (drop n cs)" using late us(2) last by auto
      ultimately show ?thesis using s1 by auto
    qed
  qed
qed


section \<open>Every trade is sound\<close>

text \<open>Stop and target on their sides of a positive entry, and a volume of the instrument whose loss at the stop is
  within a cent of the risk budget.\<close>

definition sound_open :: "backtest_config \<Rightarrow> open_cfd \<Rightarrow> bool" where
  "sound_open cfg oc \<longleftrightarrow>
     (\<exists>e s t v r p. oc_entryPrice oc = Fin e \<and> oc_stopLoss oc = Fin s \<and> oc_takeProfit oc = Fin t \<and> oc_volume oc = Fin v \<and>
        oc_riskAmount oc = Fin r \<and> 0 < e \<and> (if oc_action oc = BUY then s < e \<and> e < t else t < e \<and> e < s) \<and> 0 < v \<and>
        minVolume (bc_instrument cfg) \<le> Fin v \<and> Fin v \<le> maxVolume (bc_instrument cfg) \<and>
        lossAtStopPerUnitVolume (oc_action oc) (Fin e) (Fin s) (bc_instrument cfg) = Fin p \<and> money_rat (p * v) \<le> r + 1 / 100)"

definition sane_run :: "backtest_config \<Rightarrow> candle list \<Rightarrow> bool" where
  "sane_run cfg cs \<longleftrightarrow>
     is_money (bc_startingBalance cfg) \<and> is_finite (bc_riskPerTradePercent cfg) \<and> positive_option (bc_targetRMultiple cfg) \<and>
     (\<exists>a b. spreadBps (bc_instrument cfg) = Some (Fin a) \<and> slippageBps (bc_instrument cfg) = Some (Fin b)) \<and>
     list_all finite_ohlc cs"

lemma calculate_sane:
  assumes "calculate inp = Inr z"
  shows "sane_instrument (si_instrument inp)"
proof -
  have "iv_valid (validateInstrumentMetadata (si_instrument inp))"
    using assms by (auto simp: calculate_def calculateRaw_def Let_def split: sum.splits if_splits)
  then show ?thesis by (rule validate_sane)
qed

lemma calculate_loss:
  assumes "calculate inp = Inr z" "sz_volume z = Fin v" "sz_riskAmount z = Fin r"
    and "lossAtStopPerUnitVolume (si_direction inp) (si_entryPrice inp) (si_stopLoss inp) (si_instrument inp) = Fin p"
  shows "money_rat (p * v) \<le> r + 1 / 100"
  using assms
  by (auto simp: calculate_def calculateRaw_def Let_def LOSS_TOLERANCE_def split: sum.splits if_splits)

lemma overrides_sane:
  assumes "sane_instrument (bc_instrument cfg)" "positive_option (bc_targetRMultiple cfg)"
  shows "overrides_ok (backtest_overrides cfg)"
proof -
  obtain ts where "tickSize (bc_instrument cfg) = Fin ts" "0 < ts" using assms(1) by (elim sane_fields)
  moreover have "positive_option (Some (or_default (bc_targetRMultiple cfg) 2))"
    using assms(2) by (cases "bc_targetRMultiple cfg") (auto simp: positive_option_def)
  ultimately show ?thesis by (simp add: overrides_ok_def backtest_overrides_def positive_option_def)
qed

lemma open_position_sound:
  assumes oc: "open_position env i r sy d dir equity = Some oc"
    and fin: "is_finite equity" "is_finite (bc_riskPerTradePercent (be_cfg env))" "positive_option (bc_targetRMultiple (be_cfg env))"
  shows "sound_open (be_cfg env) oc" "oc_entryIndex oc = i" "oc_entryTime oc = c_closeTime (be_candles env ! i)"
    "oc_strategyId oc = dc_strategyId d" "oc_spreadBps oc = fst (be_costs env)" "oc_slippageBps oc = snd (be_costs env)"
    "sane_instrument (bc_instrument (be_cfg env))" "oc_action oc = dir"
proof -
  let ?cfg = "be_cfg env" and ?inst = "bc_instrument (be_cfg env)"
  define entry where "entry = fillPrice (applyExecutableFill dir (c_close (be_candles env ! i)) (fst (be_costs env)) (snd (be_costs env)))"
  obtain p tp z where p: "proposeCfdStopTarget (sy_id sy) (backtest_overrides ?cfg)
        \<lparr>pi_direction = dir, pi_entryPrice = entry, pi_features = be_features env ! i,
         pi_candles = window_of (be_windowSize env) i (be_candles env), pi_metadata = dc_metadata d\<rparr> = Some p"
    and tp: "sp_takeProfit p = Some tp"
    and valid: "sv_valid (validate_stops (sp_direction p) entry (sp_stopLoss p) (Some tp) (backtest_limits ?cfg) None)"
    and z: "calculate \<lparr>si_equity = equity, si_direction = sp_direction p, si_entryPrice = entry, si_stopLoss = sp_stopLoss p,
        si_riskPercent = bc_riskPerTradePercent ?cfg, si_instrument = ?inst\<rparr> = Inr z"
    and e: "oc_entryPrice oc = entry" "oc_stopLoss oc = sp_stopLoss p" "oc_takeProfit oc = tp" "oc_volume oc = sz_volume z"
      "oc_riskAmount oc = sz_riskAmount z" "oc_action oc = dir"
    and rest: "oc_entryIndex oc = i" "oc_entryTime oc = c_closeTime (be_candles env ! i)" "oc_strategyId oc = dc_strategyId d"
      "oc_spreadBps oc = fst (be_costs env)" "oc_slippageBps oc = snd (be_costs env)"
    using oc unfolding open_position_def Let_def entry_def [symmetric]
    by (auto split: option.splits if_splits sum.splits)
  have sane: "sane_instrument ?inst" using calculate_sane [OF z] by simp
  obtain en where en: "entry = Fin en" "0 < en"
    using valid by (cases entry) (auto simp: validate_stops_def Let_def)
  have "sided_proposal dir en (dc_metadata d ''takeProfit'') p"
    using proposal_sided [OF p, of en] overrides_sane [OF sane fin(3)] en(1) by simp
  then obtain s t where st: "sp_stopLoss p = Fin s" "tp = Fin t" "sp_direction p = dir"
    using tp by (auto simp: sided_proposal_def)
  have sides: "if dir = BUY then s < en \<and> en < t else t < en \<and> en < s"
    using valid_stops_sides [OF valid] st en(1) by (cases dir) auto
  obtain v r l pl where v: "sz_volume z = Fin v" "sz_riskAmount z = Fin r" "0 < v" "minVolume ?inst \<le> Fin v" "Fin v \<le> maxVolume ?inst"
    and pl: "lossAtStopPerUnitVolume dir (Fin en) (Fin s) ?inst = Fin pl"
    using calculate_bounds [OF z] fin(1,2) st en(1) by auto
  have "money_rat (pl * v) \<le> r + 1 / 100" using calculate_loss [OF z v(1,2)] pl st en(1) by simp
  with v pl sides en e st show "sound_open ?cfg oc" unfolding sound_open_def by auto
  show "oc_entryIndex oc = i" "oc_entryTime oc = c_closeTime (be_candles env ! i)"
    "oc_strategyId oc = dc_strategyId d" "oc_spreadBps oc = fst (be_costs env)" "oc_slippageBps oc = snd (be_costs env)"
    "sane_instrument ?inst" "oc_action oc = dir"
    using rest sane e(6) by simp_all
qed

text \<open>A simulated bar of a sound position settles in whole cents.\<close>

lemma simulate_one_bar:
  assumes "simulate inp = Some u" "sim_bars inp = [bar]"
  shows "\<exists>p c n r. u = buildResult inp p c n r \<and> (p = sim_stopLoss inp \<or> sim_takeProfit inp = Some p \<or> p = bar_close bar)"
proof (cases "target_hit inp bar")
  case True
  then obtain t where "sim_takeProfit inp = Some t" using target_hit_some by blast
  with assms show ?thesis by (auto simp: simulate_def Let_def split: if_splits)
next
  case False
  with assms show ?thesis by (auto simp: simulate_def Let_def split: if_splits)
qed

definition finite_costs :: "open_cfd \<Rightarrow> bool" where
  "finite_costs oc \<longleftrightarrow> is_finite (oc_spreadBps oc) \<and> is_finite (oc_slippageBps oc)"

lemma simulate_money:
  assumes "simulate (bar_input cfg oc candle tp) = Some u" "sound_open cfg oc" "sane_instrument (bc_instrument cfg)"
    and "finite_costs oc" "finite_ohlc candle" "tp = None \<or> tp = Some (oc_takeProfit oc)"
  shows "\<exists>n. sr_netPnl u = money n"
proof -
  obtain e s t v where f: "oc_entryPrice oc = Fin e" "oc_stopLoss oc = Fin s" "oc_takeProfit oc = Fin t" "oc_volume oc = Fin v"
    using assms(2) unfolding sound_open_def by blast
  obtain a b where c: "oc_spreadBps oc = Fin a" "oc_slippageBps oc = Fin b"
    using assms(4) by (auto simp: finite_costs_def is_finite_iff)
  obtain k where k: "c_close candle = Fin k" using assms(5) by (auto simp: finite_ohlc_def is_finite_iff)
  let ?inp = "bar_input cfg oc candle tp"
  have "\<exists>p c n r. u = buildResult ?inp (Fin p) c n r"
    using simulate_one_bar [OF assms(1)] assms(6) f(2,3) k by (auto simp: bar_input_def bar_of_def)
  then obtain p c n r where u: "u = buildResult ?inp (Fin p) c n r" by blast
  obtain q where q: "fillPrice (applyExitFill (oc_action oc) (Fin p) (Fin a) (Fin b)) = Fin q"
    by (simp add: applyExitFill_def fill_rat)
  obtain j where j: "\<And>dir x y w. floatingPnl dir (Fin x) (Fin y) (Fin w) (bc_instrument cfg) =
      Fin (money_rat ((if dir = BUY then y - x else x - y) * j * w))"
    using floatingPnl_sane [OF assms(3)] by metis
  have "sr_netPnl u = floatingPnl (oc_action oc) (Fin e) (Fin q) (Fin v) (bc_instrument cfg)"
    by (simp add: u buildResult_def Let_def bar_input_def f c q)
  also have "\<dots> = Fin (money_rat ((if oc_action oc = BUY then q - e else e - q) * j * v))" by (rule j)
  finally show ?thesis by (auto simp: money_def money_rat_def)
qed

definition entry_index :: "cfd_trade \<Rightarrow> nat" where "entry_index t = oc_entryIndex (ct_open t)"
definition exit_index :: "cfd_trade \<Rightarrow> nat" where "exit_index t = oc_entryIndex (ct_open t) + cs_barsHeld t"

text \<open>What holds of a trade, and of the state before bar i.\<close>

definition sound_trade :: "backtest_config \<Rightarrow> candle list \<Rightarrow> cfd_trade \<Rightarrow> bool" where
  "sound_trade cfg cs t \<longleftrightarrow>
     sound_open cfg (ct_open t) \<and> honest t \<and> exit_index t < length cs \<and>
     st_entryTime t = c_closeTime (cs ! entry_index t) \<and> st_exitTime t = c_closeTime (cs ! exit_index t) \<and>
     (1 < cs_barsHeld t \<longrightarrow> \<not> bc_maxHoldBars cfg \<le> num (cs_barsHeld t - 1)) \<and>
     (cs_barsHeld t = 0 \<longrightarrow> entry_index t = length cs - 1)"

definition one_at_a_time :: "cfd_trade list \<Rightarrow> bool" where
  "one_at_a_time ts \<longleftrightarrow> sorted_wrt (\<lambda>a b. exit_index a < entry_index b) ts"

definition open_ok :: "backtest_env \<Rightarrow> nat \<Rightarrow> cfd_trade list \<Rightarrow> open_cfd \<Rightarrow> bool" where
  "open_ok env i ts oc \<longleftrightarrow>
     sound_open (be_cfg env) oc \<and> sane_instrument (bc_instrument (be_cfg env)) \<and> finite_costs oc \<and> oc_entryIndex oc < i \<and>
     oc_entryTime oc = c_closeTime (be_candles env ! oc_entryIndex oc) \<and> (\<forall>t\<in>set ts. exit_index t < oc_entryIndex oc) \<and>
     (oc_entryIndex oc + 1 < i \<longrightarrow> \<not> bc_maxHoldBars (be_cfg env) \<le> num (i - 1 - oc_entryIndex oc))"

definition state_ok :: "int \<Rightarrow> backtest_env \<Rightarrow> nat \<Rightarrow> backtest_state \<Rightarrow> bool" where
  "state_ok b0 env i s \<longleftrightarrow>
     bs_equity s = money (b0 + net_cents (bs_trades s)) \<and> one_at_a_time (bs_trades s) \<and>
     (\<forall>t\<in>set (bs_trades s). sound_trade (be_cfg env) (be_candles env) t \<and> exit_index t < i) \<and>
     (\<forall>oc. bs_open s = Some oc \<longrightarrow> open_ok env i (bs_trades s) oc)"

definition env_ok :: "backtest_env \<Rightarrow> bool" where
  "env_ok env \<longleftrightarrow> list_all finite_ohlc (be_candles env) \<and> is_finite (fst (be_costs env)) \<and> is_finite (snd (be_costs env)) \<and>
     is_finite (bc_riskPerTradePercent (be_cfg env)) \<and> positive_option (bc_targetRMultiple (be_cfg env))"

lemma closed_trade_fields [simp]:
  "entry_index (closed_trade oc c u r n f) = oc_entryIndex oc" "exit_index (closed_trade oc c u r n f) = oc_entryIndex oc + n"
  "st_profit (closed_trade oc c u r n f) = sr_netPnl u" "ct_open (closed_trade oc c u r n f) = oc"
  "st_entryTime (closed_trade oc c u r n f) = oc_entryTime oc" "st_exitTime (closed_trade oc c u r n f) = c_closeTime c"
  "cs_barsHeld (closed_trade oc c u r n f) = n" "st_outcome (closed_trade oc c u r n f) = outcome_of (sr_netPnl u)"
  by (simp_all add: closed_trade_def entry_index_def exit_index_def)

lemma honest_closed: "sr_netPnl u = money n \<Longrightarrow> honest (closed_trade oc c u r k f)"
  by (auto simp: honest_def outcome_of_def money_def)

text \<open>Closing a position that is open at bar i, on bar j.\<close>

lemma closing_ok:
  assumes env: "env_ok env" and oc: "open_ok env i ts oc" and j: "oc_entryIndex oc + k = j" "j < length (be_candles env)"
    and u: "simulate (bar_input (be_cfg env) oc (be_candles env ! j) tp) = Some u" "tp = None \<or> tp = Some (oc_takeProfit oc)"
    and hold: "1 < k \<longrightarrow> \<not> bc_maxHoldBars (be_cfg env) \<le> num (k - 1)" "k = 0 \<longrightarrow> oc_entryIndex oc = length (be_candles env) - 1"
  shows "sound_trade (be_cfg env) (be_candles env) (closed_trade oc (be_candles env ! j) u r k f)"
    "\<exists>n. sr_netPnl u = money n"
    "one_at_a_time ts \<Longrightarrow> one_at_a_time (ts @ [closed_trade oc (be_candles env ! j) u r k f])"
proof -
  have fin: "finite_ohlc (be_candles env ! j)" using env j(2) by (auto simp: env_ok_def list_all_length)
  show m: "\<exists>n. sr_netPnl u = money n"
    using simulate_money [OF u(1) _ _ _ fin u(2)] oc unfolding open_ok_def by blast
  show "sound_trade (be_cfg env) (be_candles env) (closed_trade oc (be_candles env ! j) u r k f)"
    using m oc j hold by (auto simp: sound_trade_def open_ok_def intro: honest_closed)
  show "one_at_a_time ts \<Longrightarrow> one_at_a_time (ts @ [closed_trade oc (be_candles env ! j) u r k f])"
    using oc by (auto simp: one_at_a_time_def sorted_wrt_append open_ok_def)
qed

lemma net_cents_append [simp]: "net_cents (ts @ us) = net_cents ts + net_cents us"
  by (simp add: net_cents_def)

lemma net_cents_single: "st_profit t = money n \<Longrightarrow> net_cents [t] = n"
  by (simp add: net_cents_def money_def cents_def)

lemma equity_step: "roundMoney (money a + money n) = money (a + n)"
proof -
  have "money a + money n = money (a + n)" by (simp add: money_def add_divide_distrib)
  moreover have "roundMoney (money (a + n)) = money (a + n)" unfolding money_def roundMoney_fin money_rat_of_cents ..
  ultimately show ?thesis by simp
qed

lemma bar_simulates: "\<exists>u. simulate (bar_input cfg oc candle tp) = Some u"
  by (simp add: simulate_def Let_def bar_input_def)

text \<open>What managing an open position can do.\<close>

lemma manage_cases:
  obtains (kept) "manage_open env i oc s = s" "i \<noteq> length (be_candles env) - 1"
      "\<not> bc_maxHoldBars (be_cfg env) \<le> num (i - oc_entryIndex oc)"
  | (closed) u tp r f where "simulate (bar_input (be_cfg env) oc (be_candles env ! i) tp) = Some u"
      "tp = None \<or> tp = Some (oc_takeProfit oc)"
      "manage_open env i oc s = s\<lparr>bs_trades := bs_trades s @ [closed_trade oc (be_candles env ! i) u r (i - oc_entryIndex oc) f],
        bs_equity := roundMoney (bs_equity s + sr_netPnl u), bs_open := None\<rparr>"
proof -
  obtain u v where u: "simulate (bar_input (be_cfg env) oc (be_candles env ! i) (Some (oc_takeProfit oc))) = Some u"
    and v: "simulate (bar_input (be_cfg env) oc (be_candles env ! i) None) = Some v" using bar_simulates by blast
  show ?thesis
  proof (cases "sr_closeReason u = STOP_LOSS \<or> sr_closeReason u = TAKE_PROFIT")
    case True
    with u show ?thesis by (intro closed [OF u]) (auto simp: manage_open_def Let_def)
  next
    case no_hit: False
    show ?thesis
    proof (cases "bc_maxHoldBars (be_cfg env) \<le> num (i - oc_entryIndex oc) \<or> i = length (be_candles env) - 1")
      case True
      with no_hit u v show ?thesis by (intro closed [OF v]) (auto simp: manage_open_def Let_def)
    next
      case False
      with no_hit u show ?thesis by (intro kept) (auto simp: manage_open_def Let_def)
    qed
  qed
qed

lemma try_cases:
  obtains (idle) "bs_trades (try_open env i s) = bs_trades s" "bs_equity (try_open env i s) = bs_equity s"
      "bs_open (try_open env i s) = bs_open s" "bs_lastSignal (try_open env i s) = bs_lastSignal s"
  | (opened) sy d dir oc where "sy \<in> set (bc_strategies (be_cfg env))"
      "d = sy_evaluate sy (context_at env i (classify (be_features env ! i) (be_thresholds env)) (bs_lastSignal s) sy)"
      "direction_of (dc_action d) = Some dir"
      "open_position env i (classify (be_features env ! i) (be_thresholds env)) sy d dir (bs_equity s) = Some oc"
      "try_open env i s = s\<lparr>bs_lastSignal := (bs_lastSignal s)(sy_id sy \<mapsto> i), bs_open := Some oc\<rparr>"
proof -
  let ?r = "classify (be_features env ! i) (be_thresholds env)"
  define es where "es = filter (eligible ?r (window_of (be_windowSize env) i (be_candles env))) (bc_strategies (be_cfg env))"
  define cs where "cs = filter (\<lambda>sy. isCfdCapableStrategy (sy_id sy)) es"
  have t: "try_open env i s = (if es = [] then s\<lparr>bs_noTrade := bs_noTrade s + 1\<rparr>
      else case cs of [] \<Rightarrow> s\<lparr>bs_rejected := bs_rejected s + 1\<rparr>
      | sy # _ \<Rightarrow> (let d = sy_evaluate sy (context_at env i ?r (bs_lastSignal s) sy)
          in case direction_of (dc_action d) of None \<Rightarrow> s\<lparr>bs_noTrade := bs_noTrade s + 1\<rparr>
          | Some dir \<Rightarrow> (case open_position env i ?r sy d dir (bs_equity s) of
              None \<Rightarrow> s\<lparr>bs_rejected := bs_rejected s + 1\<rparr>
            | Some oc \<Rightarrow> s\<lparr>bs_lastSignal := (bs_lastSignal s)(sy_id sy \<mapsto> i), bs_open := Some oc\<rparr>)))"
    unfolding try_open_def Let_def es_def cs_def ..
  show ?thesis
  proof (cases "\<exists>sy rest. cs = sy # rest \<and> es \<noteq> []")
    case True
    then obtain sy rest where sy: "cs = sy # rest" "es \<noteq> []" by blast
    then have "sy \<in> set cs" by simp
    then have mem: "sy \<in> set (bc_strategies (be_cfg env))" by (simp add: cs_def es_def)
    define d where "d = sy_evaluate sy (context_at env i ?r (bs_lastSignal s) sy)"
    show ?thesis
    proof (cases "direction_of (dc_action d)")
      case None
      with t sy show ?thesis by (intro idle) (simp_all add: d_def)
    next
      case (Some dir)
      show ?thesis
      proof (cases "open_position env i ?r sy d dir (bs_equity s)")
        case None
        with t sy Some show ?thesis by (intro idle) (simp_all add: d_def)
      next
        case opened': (Some oc)
        with t sy Some show ?thesis by (intro opened [OF mem d_def Some]) (simp_all add: d_def [symmetric])
      qed
    qed
  next
    case False
    then have "es = [] \<or> cs = []" by (cases cs) auto
    with t show ?thesis by (intro idle) auto
  qed
qed

lemma state_step:
  assumes env: "env_ok env" and st: "state_ok b0 env i s" and i: "i < length (be_candles env)"
  shows "state_ok b0 env (i + 1) (backtest_step env i s)"
proof -
  have eq: "bs_equity s = money (b0 + net_cents (bs_trades s))" and one: "one_at_a_time (bs_trades s)"
    and tr: "\<And>t. t \<in> set (bs_trades s) \<Longrightarrow> sound_trade (be_cfg env) (be_candles env) t \<and> exit_index t < i"
    and op: "\<And>oc. bs_open s = Some oc \<Longrightarrow> open_ok env i (bs_trades s) oc"
    using st by (simp_all add: state_ok_def)
  have tr': "\<And>t. t \<in> set (bs_trades s) \<Longrightarrow> sound_trade (be_cfg env) (be_candles env) t \<and> exit_index t < i + 1"
    using tr by (meson less_SucI Suc_eq_plus1 trans_less_add1)
  show ?thesis
  proof (cases "bs_open s")
    case (Some oc)
    note oc = op [OF Some]
    have step: "backtest_step env i s = manage_open env i oc s" by (simp add: backtest_step_def Some)
    show ?thesis
    proof (cases rule: manage_cases [of env i oc s])
      case kept
      then have "open_ok env (i + 1) (bs_trades s) oc" using oc by (simp add: open_ok_def)
      with kept Some eq one tr' show ?thesis unfolding step by (simp add: state_ok_def)
    next
      case (closed u tp r f)
      have k: "oc_entryIndex oc + (i - oc_entryIndex oc) = i" "0 < i - oc_entryIndex oc" using oc by (auto simp: open_ok_def)
      have hold: "1 < i - oc_entryIndex oc \<longrightarrow> \<not> bc_maxHoldBars (be_cfg env) \<le> num (i - oc_entryIndex oc - 1)"
        using oc by (auto simp: open_ok_def diff_commute)
      have "i - oc_entryIndex oc = 0 \<longrightarrow> oc_entryIndex oc = length (be_candles env) - 1" using k(2) by simp
      note c = closing_ok [OF env oc k(1) i closed(1,2) hold this]
      obtain n where n: "sr_netPnl u = money n" using c(2) by blast
      let ?t = "closed_trade oc (be_candles env ! i) u r (i - oc_entryIndex oc) f"
      have "roundMoney (bs_equity s + sr_netPnl u) = money (b0 + net_cents (bs_trades s @ [?t]))"
        by (simp add: eq n equity_step net_cents_single add.assoc)
      moreover have "exit_index ?t < i + 1" using k(1) by simp
      ultimately show ?thesis
        using c(1) c(3) [OF one] tr' unfolding step closed(3) by (auto simp: state_ok_def)
    qed
  next
    case None
    have step: "backtest_step env i s = try_open env i s" by (simp add: backtest_step_def None)
    show ?thesis
    proof (cases rule: try_cases [of env i s])
      case idle
      with None eq one tr' show ?thesis unfolding step by (simp add: state_ok_def)
    next
      case (opened sy d dir oc)
      have "is_finite (bs_equity s)" by (simp add: eq money_def)
      note o = open_position_sound [OF opened(4) this]
      have "open_ok env (i + 1) (bs_trades s) oc"
        using o env tr by (auto simp: open_ok_def env_ok_def finite_costs_def)
      with opened(5) eq one tr' show ?thesis unfolding step by (simp add: state_ok_def)
    qed
  qed
qed

lemma loop_state:
  assumes "env_ok env" "state_ok b0 env m s" "m \<le> n" "n \<le> length (be_candles env)"
  shows "\<exists>k\<le>n. state_ok b0 env k (fst (backtest_loop goOn chunk env [m..<n] s)) \<and>
    (\<not> snd (backtest_loop goOn chunk env [m..<n] s) \<longrightarrow> k = n)"
  using assms(2-4)
proof (induction "n - m" arbitrary: m s)
  case 0
  then show ?case by auto
next
  case (Suc x)
  then have e: "[m..<n] = m # [Suc m..<n]" by (simp add: upt_conv_Cons)
  have "state_ok b0 env (Suc m) (backtest_step env m s)" using state_step [OF assms(1) Suc.prems(1)] Suc.hyps(2) Suc.prems(3) by simp
  from Suc.hyps(1) [OF _ this] Suc.hyps(2) Suc.prems show ?case unfolding e by auto
qed

lemma sane_env: "sane_run cfg cs \<Longrightarrow> env_ok (backtest_env_of cfg cs fs)"
  by (auto simp: sane_run_def env_ok_def backtest_env_of_def resolveInstrumentCosts_def Let_def)

lemma state_start: "bc_startingBalance cfg = money b0 \<Longrightarrow> state_ok b0 env m (backtest_start cfg)"
  by (simp add: state_ok_def backtest_start_def one_at_a_time_def net_cents_def)

lemma end_ok:
  assumes "env_ok env" "state_ok b0 env (length (be_candles env)) s" "be_candles env \<noteq> []"
    and last: "\<And>oc. bs_open s = Some oc \<Longrightarrow> oc_entryIndex oc = length (be_candles env) - 1"
  shows "one_at_a_time (close_at_end env s) \<and> (\<forall>t\<in>set (close_at_end env s). sound_trade (be_cfg env) (be_candles env) t)"
proof (cases "bs_open s")
  case None
  with assms(2) show ?thesis by (simp add: close_at_end_def state_ok_def)
next
  case (Some oc)
  let ?j = "length (be_candles env) - 1"
  have oc: "open_ok env (length (be_candles env)) (bs_trades s) oc" using assms(2) Some by (simp add: state_ok_def)
  have j: "oc_entryIndex oc + 0 = ?j" "?j < length (be_candles env)" "last (be_candles env) = be_candles env ! ?j"
    using last [OF Some] assms(3) by (simp_all add: last_conv_nth)
  obtain u where u: "simulate (bar_input (be_cfg env) oc (be_candles env ! ?j) None) = Some u"
    using bar_simulates by blast
  have e: "close_at_end env s = bs_trades s @ [closed_trade oc (be_candles env ! ?j) u (Simulated STRATEGY_EXIT) 0 True]"
    using u j by (simp add: close_at_end_def Some Let_def)
  have hold: "1 < (0::nat) \<longrightarrow> \<not> bc_maxHoldBars (be_cfg env) \<le> num (0 - 1)" "(0::nat) = 0 \<longrightarrow> oc_entryIndex oc = ?j"
    using j(1) by simp_all
  note c = closing_ok [OF assms(1) oc j(1,2) u _ hold]
  show ?thesis using c assms(2) unfolding e by (auto simp: state_ok_def)
qed

lemma opens_now:
  assumes "bs_open (backtest_step env i s) = Some oc" "i = length (be_candles env) - 1"
  shows "oc_entryIndex oc = i"
proof (cases "bs_open s")
  case (Some oc')
  then have e: "backtest_step env i s = manage_open env i oc' s" by (simp add: backtest_step_def)
  show ?thesis
    by (rule manage_cases [of env i oc' s]) (use assms e in auto)
next
  case None
  then have e: "backtest_step env i s = try_open env i s" by (simp add: backtest_step_def)
  have "open_position env i r sy d dir q = Some p \<Longrightarrow> oc_entryIndex p = i" for r sy d dir q p
    by (auto simp: open_position_def Let_def split: option.splits if_splits sum.splits)
  then show ?thesis
    by (cases rule: try_cases [of env i s]) (use assms e None in auto)
qed

lemma last_open:
  assumes "backtest_loop goOn chunk env [m..<length (be_candles env)] s = (t, False)" "bs_open t = Some oc" "bs_open s = None"
  shows "oc_entryIndex oc = length (be_candles env) - 1"
proof -
  let ?n = "length (be_candles env)"
  have m: "m < ?n" using assms by (cases "m < ?n") auto
  then have e: "[m..<?n] = [m..<?n - 1] @ [?n - 1]" by (cases ?n) simp_all
  obtain u c where u: "backtest_loop goOn chunk env [m..<?n - 1] s = (u, c)" by fastforce
  then have "t = backtest_step env (?n - 1) u"
    using assms(1) unfolding e loop_append by (auto split: if_splits)
  with assms(2) opens_now [of env "?n - 1" u oc] show ?thesis by simp
qed

lemma cfd_summary_ending:
  assumes "\<forall>t\<in>set ts. honest t"
  shows "su_endingBalance (fst (computeCfdSummary ts (money b0) r n)) = money (b0 + net_cents ts) \<and>
    su_netProfit (fst (computeCfdSummary ts (money b0) r n)) = money (net_cents ts)"
proof -
  define s where "s = fold cfd_tally_step ts (cfd_tally_start (money b0))"
  have "tally.truncate s = fold tally_step ts (tally_start (money b0))"
    unfolding s_def truncate_fold truncate_start ..
  with fold_books [OF assms books_start] have "books b0 (net_cents ts) (tally.truncate s)" by simp
  then show ?thesis
    by (auto simp: books_def tally.truncate_def computeCfdSummary_def s_def [symmetric] Let_def)
qed

lemma settled_same: "net_cents (List.map cfd_settled_of ts) = net_cents ts" "honest (cfd_settled_of t) = honest t"
  by (induction ts) (simp_all add: net_cents_def honest_def cfd_settled_of_def cfd_settled.truncate_def)


subsection \<open>Cooldowns\<close>

lemma open_position_names:
  "open_position env i r sy d dir q = Some oc \<Longrightarrow> oc_entryIndex oc = i \<and> oc_strategyId oc = dc_strategyId d"
  by (auto simp: open_position_def Let_def split: option.splits if_splits sum.splits)

definition spaced :: "(string \<Rightarrow> jsnum) \<Rightarrow> open_cfd \<Rightarrow> open_cfd \<Rightarrow> bool" where
  "spaced cd a b \<longleftrightarrow> (oc_strategyId a = oc_strategyId b \<longrightarrow>
     \<not> num (oc_entryIndex b - oc_entryIndex a) < cd (oc_strategyId a))"

definition cool :: "(string \<Rightarrow> jsnum) \<Rightarrow> backtest_state \<Rightarrow> bool" where
  "cool cd s \<longleftrightarrow>
     sorted_wrt (\<lambda>a b. spaced cd (ct_open a) (ct_open b)) (bs_trades s) \<and>
     (\<forall>t\<in>set (bs_trades s). \<exists>k. bs_lastSignal s (oc_strategyId (ct_open t)) = Some k \<and> oc_entryIndex (ct_open t) \<le> k) \<and>
     (\<forall>oc. bs_open s = Some oc \<longrightarrow> bs_lastSignal s (oc_strategyId oc) = Some (oc_entryIndex oc) \<and>
        (\<forall>t\<in>set (bs_trades s). spaced cd (ct_open t) oc))"

lemma num_less_mono: "a \<le> b \<Longrightarrow> num b < c \<Longrightarrow> num a < c"
  by (cases c) (auto simp: num_def)

lemma cool_step:
  assumes s: "cool cd s" "\<forall>k. \<forall>sid. bs_lastSignal s sid = Some k \<longrightarrow> k < i"
    and paced: "\<forall>sy\<in>set (bc_strategies (be_cfg env)). paced (cd (sy_id sy)) sy"
  shows "cool cd (backtest_step env i s) \<and> (\<forall>k. \<forall>sid. bs_lastSignal (backtest_step env i s) sid = Some k \<longrightarrow> k < i + 1)"
proof (cases "bs_open s")
  case (Some oc)
  then have e: "backtest_step env i s = manage_open env i oc s" by (simp add: backtest_step_def)
  show ?thesis
  proof (cases rule: manage_cases [of env i oc s])
    case kept
    with s show ?thesis unfolding e by (auto intro: less_SucI)
  next
    case (closed u tp r f)
    with s Some show ?thesis unfolding e by (auto simp: cool_def sorted_wrt_append intro: less_SucI)
  qed
next
  case None
  then have e: "backtest_step env i s = try_open env i s" by (simp add: backtest_step_def)
  show ?thesis
  proof (cases rule: try_cases [of env i s])
    case idle
    with s None show ?thesis unfolding e by (auto simp: cool_def intro: less_SucI)
  next
    case (opened sy d dir oc)
    have names: "oc_entryIndex oc = i" "oc_strategyId oc = sy_id sy"
      using open_position_names [OF opened(4)] paced opened(1,2) by (auto simp: paced_def)
    have act: "dc_action d \<noteq> VHOLD" using opened(3) by auto
    have gap: "\<not> num (i - k) < cd (sy_id sy)" if "bs_lastSignal s (sy_id sy) = Some k" for k
      using act paced opened(1,2) that by (auto simp: paced_def context_at_def)
    have "spaced cd (ct_open t) oc" if t: "t \<in> set (bs_trades s)" for t
    proof -
      obtain k where k: "bs_lastSignal s (oc_strategyId (ct_open t)) = Some k" "oc_entryIndex (ct_open t) \<le> k"
        using s(1) t by (auto simp: cool_def)
      have "i - k \<le> i - oc_entryIndex (ct_open t)" using k(2) by simp
      with gap [of k] k(1) num_less_mono show ?thesis by (auto simp: spaced_def names)
    qed
    moreover have "\<exists>k. ((bs_lastSignal s)(sy_id sy \<mapsto> i)) (oc_strategyId (ct_open t)) = Some k \<and> oc_entryIndex (ct_open t) \<le> k"
      if t: "t \<in> set (bs_trades s)" for t
    proof -
      obtain k where k: "bs_lastSignal s (oc_strategyId (ct_open t)) = Some k" "oc_entryIndex (ct_open t) \<le> k"
        using s(1) t by (auto simp: cool_def)
      with s(2) have "k < i" by blast
      with k show ?thesis by auto
    qed
    moreover have "\<forall>k. \<forall>sid. ((bs_lastSignal s)(sy_id sy \<mapsto> i)) sid = Some k \<longrightarrow> k < i + 1"
      using s(2) by (auto intro: less_SucI)
    ultimately show ?thesis
      using s(1) unfolding e opened(5) by (simp add: cool_def names)
  qed
qed

lemma cool_loop:
  assumes "cool cd s" "\<forall>k. \<forall>sid. bs_lastSignal s sid = Some k \<longrightarrow> k < m"
    and paced: "\<forall>sy\<in>set (bc_strategies (be_cfg env)). paced (cd (sy_id sy)) sy"
  shows "cool cd (fst (backtest_loop goOn chunk env [m..<n] s))"
  using assms(1,2)
proof (induction "n - m" arbitrary: m s)
  case (Suc x)
  then have e: "[m..<n] = m # [Suc m..<n]" by (simp add: upt_conv_Cons)
  from cool_step [OF Suc.prems paced] Suc.hyps(1) [of "Suc m" "backtest_step env m s"] Suc.hyps(2) Suc.prems(1)
  show ?case unfolding e by simp
qed simp

text \<open>C18: a strategy waits out its cooldown.  If every configured strategy holds while its cooldown runs, two
  trades of the same strategy are entered at least its cooldown of bars apart.\<close>

theorem entries_respect_cooldown:
  assumes "run_backtest r cfg goOn k cs = Inr res" "\<forall>sy\<in>set (bc_strategies cfg). paced (cd (sy_id sy)) sy"
  shows "sorted_wrt (\<lambda>a b. oc_strategyId (ct_open a) = oc_strategyId (ct_open b) \<longrightarrow>
    \<not> num (entry_index b - entry_index a) < cd (oc_strategyId (ct_open a))) (br_trades res)"
proof -
  from assms(1) obtain fs s c where s: "backtest_loop goOn (or_default k 250) (backtest_env_of cfg cs fs)
      [min_history cfg..<length cs] (backtest_start cfg) = (s, c)"
    and t: "br_trades res = (if c then bs_trades s else close_at_end (backtest_env_of cfg cs fs) s)"
    by (rule run_result)
  have "be_cfg (backtest_env_of cfg cs fs) = cfg" by (simp add: backtest_env_of_def Let_def)
  with assms(2) have "cool cd s"
    using cool_loop [of cd "backtest_start cfg" "min_history cfg" "backtest_env_of cfg cs fs" goOn "or_default k 250" "length cs"]
    by (simp add: s) (simp add: cool_def backtest_start_def)
  then have "sorted_wrt (\<lambda>a b. spaced cd (ct_open a) (ct_open b)) (br_trades res)"
    using t by (auto simp: cool_def close_at_end_def Let_def sorted_wrt_append split: option.splits if_splits)
  then show ?thesis by (simp add: spaced_def entry_index_def)
qed

subsection \<open>The last candle\<close>

text \<open>C40: a position entered at the close of the last candle is settled against that same candle: when the low before
  its entry lies at or below the stop, the trade is booked as stopped out at the stop price on the bar of its entry,
  and reported as a strategy exit.\<close>

theorem last_entry_meets_its_own_bar:
  assumes "be_candles env \<noteq> []" "bs_open s = None"
    and "bs_open (try_open env (length (be_candles env) - 1) s) = Some oc"
    and "oc_action oc = BUY" "c_low (last (be_candles env)) \<le> oc_stopLoss oc"
  shows "\<exists>t. close_at_end env (try_open env (length (be_candles env) - 1) s) = bs_trades s @ [t] \<and> ct_open t = oc \<and>
    st_entryTime t = oc_entryTime oc \<and> cs_barsHeld t = 0 \<and> ct_exitTriggerPrice t = oc_stopLoss oc \<and>
    ct_closeReason t = Simulated STRATEGY_EXIT"
proof -
  let ?j = "length (be_candles env) - 1" and ?s = "try_open env (length (be_candles env) - 1) s"
  have "oc_entryIndex oc = ?j \<and> bs_trades ?s = bs_trades s"
  proof (cases rule: try_cases [of env ?j s])
    case idle
    with assms(2,3) show ?thesis by simp
  next
    case (opened sy d dir oc')
    with assms(3) open_position_names show ?thesis by auto
  qed
  then have idx: "oc_entryIndex oc = ?j" and tr: "bs_trades ?s = bs_trades s" by blast+
  obtain u where u: "simulate (bar_input (be_cfg env) oc (last (be_candles env)) None) = Some u" using bar_simulates by blast
  have "stop_hit (bar_input (be_cfg env) oc (last (be_candles env)) None) (bar_of (last (be_candles env)))"
    using assms(4,5) by (simp add: stop_hit_def hitOnBar_def bar_input_def bar_of_def)
  then have "sr_exitTriggerPrice u = oc_stopLoss oc"
    using u by (auto simp: simulate_def Let_def bar_input_def)
  then show ?thesis using u idx assms(3) tr by (simp add: close_at_end_def Let_def closed_trade_def)
qed

definition demo_buyer :: strategy where
  "demo_buyer = \<lparr>sy_id = ema_id, sy_version = ''1'', sy_supportedRegimes = [rr_regime (classify trend_snapshot DEFAULT_REGIME_THRESHOLDS)],
     sy_minimumHistory = 1, sy_eligibility = sy_eligibility (ema_strategy EMA_PULLBACK_DEFAULTS)
       \<lparr>el_minimumRegimeConfidence := 0\<rparr>,
     sy_evaluate = (\<lambda>c. signal ema_id ''1'' VBUY (Fin (3 / 5)) (rr_timestamp (cx_regime c)) 5 []
       [''pullbackLow'' \<mapsto> Fin 98])\<rparr>"

definition demo_backtest :: "strategy list \<Rightarrow> backtest_config" where
  "demo_backtest sys = \<lparr>bc_startingBalance = money 100000, bc_riskPerTradePercent = Fin (1 / 2),
     bc_minRiskRewardRatio = Fin (3 / 2), bc_maxHoldBars = 48, bc_instrument = demo_instrument, bc_strategies = sys,
     bc_featureConfig = Some alignment_config, bc_regimeThresholds = None, bc_contextWindowSize = None,
     bc_targetRMultiple = None, bc_testSplit = None\<rparr>"

definition spike :: candle where "spike = (demo_candle 100)\<lparr>c_low := Fin 95\<rparr>"

lemma buyer_regime: "rr_confidence (classify trend_snapshot DEFAULT_REGIME_THRESHOLDS) \<noteq> NaN" by code_simp


lemma buyer_class: "rr_regime (classify trend_snapshot DEFAULT_REGIME_THRESHOLDS) = STRONG_UPTREND" by code_simp

lemma buyer_confidence: "rr_confidence (classify trend_snapshot DEFAULT_REGIME_THRESHOLDS) = Fin (3 / 10)" by code_simp

lemma buyer_fill: "fillPrice (applyExecutableFill BUY (Fin 100) (Fin 2) (Fin 1)) = Fin (10002 / 100)"
  by (simp add: fill_rat fixed_rat_def round_half_up_def)

lemma buyer_proposal: "proposeCfdStopTarget ema_id (backtest_overrides (demo_backtest sys))
    \<lparr>pi_direction = BUY, pi_entryPrice = Fin (10002 / 100), pi_features = trend_snapshot, pi_candles = cs, pi_metadata = [''pullbackLow'' \<mapsto> Fin 98]\<rparr> =
   Some (make_proposal BUY (Fin (10002 / 100)) (Fin (9798 / 100)) (Fin (1041 / 10)) (Fin (204 / 100)) (Fin (408 / 100)) 2 StructureStop FixedR)"
  by (simp add: proposeCfdStopTarget_def isCfdCapableStrategy_def CFD_CAPABLE_STRATEGY_IDS_def ema_id_def proposeEmaPullbackStopTarget_def
    Let_def pullback_stop_def structure_stop_def swing_low_def or_else_def guarded_def atr_buffer_def positive_atr_def trend_snapshot_def
    mergeCfdParams_def backtest_overrides_def demo_backtest_def demo_instrument_def fails_closed_def at_multiple_def target_at_def DEFAULT_EMA_PULLBACK_CFD_PARAMS_def)

lemma buyer_valid: "sv_valid (validate_stops BUY (Fin (10002 / 100)) (Fin (9798 / 100)) (Some (Fin (1041 / 10))) (backtest_limits (demo_backtest sys)) None)"
  by (simp add: validate_stops_def Let_def backtest_limits_def demo_backtest_def DEFAULT_CFD_RISK_LIMITS_def fixed_rat_def round_half_up_def)

lemma buyer_size: "\<exists>z. calculate \<lparr>si_equity = money 100000, si_direction = BUY, si_entryPrice = Fin (10002 / 100), si_stopLoss = Fin (9798 / 100),
   si_riskPercent = Fin (1 / 2), si_instrument = demo_instrument\<rparr> = Inr z"
  by (simp add: calculate_def calculateRaw_def demo_instrument_valid Let_def money_def
      lossAtStopPerUnitVolume_def normalizeVolumeDown_def fixed_rat_def round_half_up_def
      money_rat_def cents_def LOSS_TOLERANCE_def)
    (simp add: demo_instrument_def fixed_rat_def round_half_up_def money_rat_def cents_def)

lemma buyer_env: "be_cfg (backtest_env_of (demo_backtest sys) cs fs) = demo_backtest sys"
    "be_candles (backtest_env_of (demo_backtest sys) cs fs) = cs" "be_features (backtest_env_of (demo_backtest sys) cs fs) = fs"
    "be_thresholds (backtest_env_of (demo_backtest sys) cs fs) = DEFAULT_REGIME_THRESHOLDS"
    "be_costs (backtest_env_of (demo_backtest sys) cs fs) = (Fin 2, Fin 1)"
  by (simp_all add: backtest_env_of_def Let_def demo_backtest_def resolveInstrumentCosts_def demo_instrument_def)

lemma buyer_entry_price: "fillPrice (applyExecutableFill BUY (c_close spike) (Fin 2) (Fin 1)) = Fin (10002 / 100)"
  using buyer_fill by (simp add: spike_def demo_candle_def)

lemma buyer_prices: "to_fixed 8 (Fin (9798 / 100)) = Fin (9798 / 100)" "to_fixed 8 (Fin (1041 / 10)) = Fin (1041 / 10)"
  by (simp_all add: fixed_rat_def round_half_up_def)

lemma buyer_position:
  assumes "dc_metadata d = [''pullbackLow'' \<mapsto> Fin 98]"
  shows "\<exists>oc. open_position (backtest_env_of (demo_backtest [demo_buyer]) [spike] [trend_snapshot]) 0 r demo_buyer d BUY (money 100000) = Some oc \<and>
    oc_action oc = BUY \<and> oc_stopLoss oc = Fin (9798 / 100)"
proof -
  have id: "sy_id demo_buyer = ema_id" by (simp add: demo_buyer_def)
  obtain z where z: "calculate \<lparr>si_equity = money 100000, si_direction = BUY, si_entryPrice = Fin (10002 / 100), si_stopLoss = Fin (9798 / 100),
      si_riskPercent = Fin (1 / 2), si_instrument = demo_instrument\<rparr> = Inr z"
    using buyer_size by blast
  have cfg: "bc_instrument (demo_backtest [demo_buyer]) = demo_instrument"
    "bc_riskPerTradePercent (demo_backtest [demo_buyer]) = Fin (1 / 2)"
    by (simp_all only: demo_backtest_def backtest_config.simps)
  show ?thesis
    unfolding open_position_def Let_def buyer_env id assms fst_conv snd_conv nth_Cons_0 buyer_entry_price buyer_proposal option.case
    by (simp only: make_proposal_def buyer_prices proposal.simps option.case buyer_valid cfg z sum.case simp_thms if_True if_False
        option.inject ex_simps ex1_eq open_cfd.simps)
qed

lemma buyer_opens:
  "\<exists>oc. bs_open (try_open (backtest_env_of (demo_backtest [demo_buyer]) [spike] [trend_snapshot]) 0
     (backtest_start (demo_backtest [demo_buyer]))) = Some oc \<and> oc_action oc = BUY \<and> Fin 95 \<le> oc_stopLoss oc"
proof -
  let ?env = "backtest_env_of (demo_backtest [demo_buyer]) [spike] [trend_snapshot]"
  let ?r = "classify trend_snapshot DEFAULT_REGIME_THRESHOLDS"
  let ?s = "backtest_start (demo_backtest [demo_buyer])"
  have eq: "bs_equity ?s = money 100000" by (simp add: backtest_start_def demo_backtest_def)
  have win: "window_of (be_windowSize ?env) 0 [spike] = [spike]"
    by (simp add: window_of_def backtest_env_of_def demo_backtest_def Let_def)
  have ok: "eligible ?r [spike] demo_buyer"
    by (simp add: eligible_def buyer_class buyer_confidence) (simp add: demo_buyer_def buyer_class)
  have strategies: "bc_strategies (demo_backtest [demo_buyer]) = [demo_buyer]" by (simp add: demo_backtest_def)
  have capable: "isCfdCapableStrategy (sy_id demo_buyer)"
    by (simp add: demo_buyer_def isCfdCapableStrategy_def CFD_CAPABLE_STRATEGY_IDS_def ema_id_def)
  let ?d = "sy_evaluate demo_buyer (context_at ?env 0 ?r (bs_lastSignal ?s) demo_buyer)"
  have d: "dc_metadata ?d = [''pullbackLow'' \<mapsto> Fin 98]" "dc_action ?d = VBUY"
    by (simp_all add: demo_buyer_def signal_def)
  from buyer_position [OF d(1)] obtain oc where
    oc: "open_position ?env 0 ?r demo_buyer ?d BUY (money 100000) = Some oc" "oc_action oc = BUY" "oc_stopLoss oc = Fin (9798 / 100)"
    by blast
  have "bs_open (try_open ?env 0 ?s) = Some oc"
    unfolding try_open_def Let_def buyer_env nth_Cons_0 win strategies
    using ok capable oc(1) d(2) eq by (simp add: buyer_env)
  with oc(2,3) show ?thesis by simp
qed

theorem last_entry_meets_its_own_bar_witness:
  "\<exists>t. close_at_end (backtest_env_of (demo_backtest [demo_buyer]) [spike] [trend_snapshot])
     (try_open (backtest_env_of (demo_backtest [demo_buyer]) [spike] [trend_snapshot]) 0
       (backtest_start (demo_backtest [demo_buyer]))) = [t] \<and>
   cs_barsHeld t = 0 \<and> ct_exitTriggerPrice t = oc_stopLoss (ct_open t)"
proof -
  let ?env = "backtest_env_of (demo_backtest [demo_buyer]) [spike] [trend_snapshot]"
  let ?s = "backtest_start (demo_backtest [demo_buyer])"
  have low: "c_low spike = Fin 95" by (simp add: spike_def)
  obtain oc where oc: "bs_open (try_open ?env 0 ?s) = Some oc" "oc_action oc = BUY" "Fin 95 \<le> oc_stopLoss oc"
    using buyer_opens by blast
  have s: "bs_open ?s = None" "bs_trades ?s = []" by (simp_all add: backtest_start_def)
  have "be_candles ?env \<noteq> []" "bs_open (try_open ?env (length (be_candles ?env) - 1) ?s) = Some oc"
    "c_low (last (be_candles ?env)) \<le> oc_stopLoss oc"
    using oc low by (simp_all add: buyer_env)
  from last_entry_meets_its_own_bar [OF this(1) s(1) this(2) oc(2) this(3)] show ?thesis by (auto simp: buyer_env s)
qed

lemma buyer_runs: "\<exists>res. run_backtest (\<lambda>x. x) (demo_backtest sys) goOn k cs = Inr res"
  by (simp add: run_backtest_def extractFeatures_def demo_backtest_def alignment_config_def DEFAULT_FEATURE_CONFIG_def
      ema_def rsi_def macd_def bollingerBands_def sma_def Let_def split: prod.split)

definition long_history :: "rat \<Rightarrow> candle list" where
  "long_history x = List.map demo_candle (replicate 30 100 @ [x])"


lemma buyer_sane: "sane_run (demo_backtest sys) (long_history x)" "bc_startingBalance (demo_backtest sys) = money 100000"
proof -
  have "finite_ohlc (demo_candle y)" for y by (simp add: finite_ohlc_def demo_candle_def one_jsnum_def)
  moreover have cents: "is_money (money n)" for n by (auto simp: is_money_def money_def)
  ultimately show "sane_run (demo_backtest sys) (long_history x)"
    using cents by (simp add: sane_run_def demo_backtest_def demo_instrument_def long_history_def list_all_iff positive_option_def)
  show "bc_startingBalance (demo_backtest sys) = money 100000" by (simp add: demo_backtest_def)
qed


definition volatility_strategies :: "strategy list" where
  "volatility_strategies = [ema_strategy EMA_PULLBACK_DEFAULTS, reversion_strategy BOLLINGER_REVERSION_DEFAULTS,
     breakout_strategy BREAKOUT_MOMENTUM_DEFAULTS, squeeze_strategy SQUEEZE_BREAKOUT_DEFAULTS]"

definition cooldown_of :: "string \<Rightarrow> jsnum" where
  "cooldown_of sid =
     (if sid = ema_id then ep_cooldownCandles EMA_PULLBACK_DEFAULTS
      else if sid = reversion_id then bp_cooldownCandles BOLLINGER_REVERSION_DEFAULTS
      else if sid = breakout_id then kp_cooldownCandles BREAKOUT_MOMENTUM_DEFAULTS
      else qp_cooldownCandles SQUEEZE_BREAKOUT_DEFAULTS)"

lemma volatility_paced: "\<forall>sy\<in>set volatility_strategies. paced (cooldown_of (sy_id sy)) sy"
proof -
  have ids: "sy_id (ema_strategy ep) = ema_id" "sy_id (reversion_strategy bp) = reversion_id"
    "sy_id (breakout_strategy kp) = breakout_id" "sy_id (squeeze_strategy qp) = squeeze_id" for ep bp kp qp
    by (simp_all add: ema_strategy_def reversion_strategy_def breakout_strategy_def squeeze_strategy_def)
  have "cooldown_of ema_id = ep_cooldownCandles EMA_PULLBACK_DEFAULTS"
    "cooldown_of reversion_id = bp_cooldownCandles BOLLINGER_REVERSION_DEFAULTS"
    "cooldown_of breakout_id = kp_cooldownCandles BREAKOUT_MOMENTUM_DEFAULTS"
    "cooldown_of squeeze_id = qp_cooldownCandles SQUEEZE_BREAKOUT_DEFAULTS"
    by (simp_all add: cooldown_of_def ema_id_def reversion_id_def breakout_id_def squeeze_id_def)
  then show ?thesis by (simp add: volatility_strategies_def ids strategies_paced)
qed

theorem entries_respect_cooldown_witness:
  "\<exists>res. run_backtest (\<lambda>x. x) (demo_backtest volatility_strategies) (\<lambda>i. True) None (long_history 100) = Inr res \<and>
     sorted_wrt (\<lambda>a b. oc_strategyId (ct_open a) = oc_strategyId (ct_open b) \<longrightarrow>
       \<not> num (entry_index b - entry_index a) < cooldown_of (oc_strategyId (ct_open a))) (br_trades res)"
proof -
  obtain res where r:
    "run_backtest (\<lambda>x. x) (demo_backtest volatility_strategies) (\<lambda>i. True) None (long_history 100) = Inr res"
    using buyer_runs by meson
  have "\<forall>sy\<in>set (bc_strategies (demo_backtest volatility_strategies)). paced (cooldown_of (sy_id sy)) sy"
    using volatility_paced by (simp add: demo_backtest_def)
  from entries_respect_cooldown [OF r this] r show ?thesis by blast
qed

end
