(* ===== verification/Mt5Adapter.thy ===== *)
theory Mt5Adapter
  imports Circuit Recovery Rollout
begin

text \<open>
  The adapter of MetaTrader 5 (\<^verbatim>\<open>packages/trading-engine/src/broker/derivMt5Broker.ts\<close>,
  \<^verbatim>\<open>broker/mt5/symbolMap.ts\<close>, \<^verbatim>\<open>mt5BrokerError.ts\<close>, and the factory
  \<^verbatim>\<open>apps/worker/src/cfd/mt5AdapterFactory.ts\<close>).  The \<open>world\<close> is one worker process: the tables of the
  database, which other processes share, the state of the adapter, and what was sent over the bridge.  Replies of the
  bridge and clock readings are arguments; every call of the bridge is a call of the program, between which other
  programs may run.  A thrown error carries the code that \<open>mt5ErrorCodeFromUnknown\<close> reads from it.  Left out:
  logging, display fields of positions and accounts, and today's realized profit, which no decision reads.
\<close>

subsection \<open>Errors\<close>

definition AUTONOMOUS_DECISION_CODES :: "string list" where
  "AUTONOMOUS_DECISION_CODES =
     [''BUY'', ''SELL'', ''NO_TRADE'', ''STRATEGY_HOLD'', ''REGIME_INCOMPATIBLE'', ''STRATEGY_NOT_ALLOWED'',
      ''SYMBOL_NOT_ALLOWED'', ''BROKER_SYMBOL_MAPPING_MISSING'', ''BROKER_SYMBOL_MAPPING_UNVERIFIED'',
      ''BROKER_SYMBOL_UNAVAILABLE'', ''INSTRUMENT_METADATA_MISSING'', ''QUOTE_STALE'', ''STOP_INVALID'',
      ''MT5_INVALID_STOP_DISTANCE_PRECHECK'', ''MT5_STOP_METADATA_UNAVAILABLE'', ''MT5_PRICE_IN_FREEZE_LEVEL'',
      ''MT5_BROKER_ADJUSTED_STOP_RISK_BLOCKED'', ''RISK_BLOCKED'', ''MIN_VOLUME_EXCEEDS_RISK'',
      ''BROKER_MIN_VOLUME_EXCEEDS_ENGINE_MAX_VOLUME'', ''MAX_CONCURRENT_POSITIONS'', ''EVIDENCE_BLOCKED'',
      ''LIFECYCLE_BLOCKED'', ''EXECUTION_REJECTED'', ''EXECUTION_AMBIGUOUS'', ''MT5_BRIDGE_UNAVAILABLE'',
      ''MT5_BRIDGE_TIMEOUT'', ''MT5_BRIDGE_UNHEALTHY'', ''MT5_EA_OFFLINE'', ''MT5_EA_TIMEOUT'',
      ''MT5_MAILBOX_BACKLOG'', ''RECONCILIATION_UNAVAILABLE'', ''SUBMIT'', ''OPENED'']"

definition isAutonomousDecisionCode :: "string \<Rightarrow> bool" where
  "isAutonomousDecisionCode v \<longleftrightarrow> v \<in> set AUTONOMOUS_DECISION_CODES"

text \<open>A message that names no bridge code, such as one of the database, is taken for an unavailable bridge.\<close>

fun mt5ErrorCodeFromUnknown :: "db_error \<Rightarrow> string" where
  "mt5ErrorCodeFromUnknown (Bridge_failure code) = code"
| "mt5ErrorCodeFromUnknown _ = MT5_BRIDGE_UNAVAILABLE"

definition toAutonomousMt5DecisionCode :: "string \<Rightarrow> string" where
  "toAutonomousMt5DecisionCode code =
     (if code = ''MT5_BRIDGE_UNREACHABLE'' \<or> code = ''MT5_BRIDGE_HTTP_ERROR'' then MT5_BRIDGE_UNAVAILABLE
      else if code = ''MT5_MAILBOX_IO_TIMEOUT'' then ''MT5_BRIDGE_UNHEALTHY''
      else if isAutonomousDecisionCode code then code
      else if isMt5BridgeFailureCode (Some code) then MT5_BRIDGE_UNAVAILABLE
      else ''EXECUTION_REJECTED'')"

subsection \<open>Symbols\<close>

record symbol_info =
  sy_name :: string
  sy_digits :: jsnum
  sy_point :: jsnum
  sy_tickSize :: jsnum
  sy_tickValue :: jsnum
  sy_contractSize :: jsnum
  sy_volumeMin :: jsnum
  sy_volumeMax :: jsnum
  sy_volumeStep :: jsnum
  sy_stopsLevel :: "jsnum option"
  sy_freezeLevel :: "jsnum option"
  sy_tradeMode :: string
  sy_tradeAllowed :: bool
  sy_fillingModeMask :: "int option"
  sy_fillingModes :: "string list option"
  sy_fillingMode :: "string option"
  sy_marginInitial :: "jsnum option"
  sy_bid :: "jsnum option"
  sy_ask :: "jsnum option"

definition supported_fillings :: "symbol_info \<Rightarrow> filling_mode list" where
  "supported_fillings sy = parseSupportedFillingModes (sy_fillingModeMask sy) (sy_fillingModes sy) (sy_fillingMode sy)"

definition market_mid :: "symbol_info \<Rightarrow> jsnum" where
  "market_mid sy =
     (case (sy_bid sy, sy_ask sy) of
        (Some b, Some a) \<Rightarrow> if js_eq b 0 \<or> b = NaN \<or> js_eq a 0 \<or> a = NaN then 0 else (b + a) / 2
      | _ \<Rightarrow> 0)"

definition inferMarginRate :: "symbol_info \<Rightarrow> jsnum" where
  "inferMarginRate sy =
     (case sy_marginInitial sy of
        Some m \<Rightarrow>
          if 0 < m \<and> 0 < sy_contractSize sy \<and> 0 < market_mid sy \<and> 0 < market_mid sy * sy_contractSize sy
          then to_fixed 8 (m / (market_mid sy * sy_contractSize sy)) else Fin (1 / 100)
      | None \<Rightarrow> Fin (1 / 100))"

record mapped_symbol =
  mp_instrument :: instrument
  mp_tradeMode :: string
  mp_tradeAllowed :: bool
  mp_selectedFillingMode :: "filling_mode option"
  mp_stopsLevel :: "jsnum option"
  mp_freezeLevel :: "jsnum option"
  mp_point :: "jsnum option"
  mp_tradable :: bool

text \<open>The instrument is verified when its fields are complete and nothing is wrong with the symbol.\<close>

definition mapMt5SymbolToInstrument :: "symbol_info \<Rightarrow> string \<Rightarrow> mapped_symbol" where
  "mapMt5SymbolToInstrument sy ccy =
     (let tick = (if 0 < sy_tickSize sy then sy_tickSize sy else sy_point sy);
          base = \<lparr>inst_symbol = sy_name sy, enabled = (sy_tradeAllowed sy \<and> sy_tradeMode sy = ''FULL''),
            verified = False, contractSize = sy_contractSize sy, volumeStep = sy_volumeStep sy,
            minVolume = sy_volumeMin sy, maxVolume = sy_volumeMax sy, tickSize = tick,
            tickValue = sy_tickValue sy, marginRate = inferMarginRate sy, spreadBps = Some 0, slippageBps = Some 0,
            pricePrecision = sy_digits sy, currency = ccy\<rparr>;
          tradable = (sy_tradeAllowed sy \<and> sy_tradeMode sy \<noteq> ''DISABLED'');
          complete = iv_valid (validateInstrumentMetadata (base\<lparr>enabled := True, verified := True\<rparr>));
          filling = selectFillingMode (supported_fillings sy);
          fieldComplete = (0 < contractSize base \<and> 0 < volumeStep base \<and> 0 < minVolume base \<and>
            minVolume base \<le> maxVolume base \<and> 0 < tickSize base \<and> 0 < tickValue base);
          ver = (fieldComplete \<and> tradable \<and> complete \<and> filling \<noteq> None \<and> sy_tradeAllowed sy \<and>
            sy_tradeMode sy \<in> {''FULL'', ''LONGONLY'', ''SHORTONLY''})
      in \<lparr>mp_instrument = base\<lparr>verified := ver\<rparr>, mp_tradeMode = sy_tradeMode sy,
          mp_tradeAllowed = sy_tradeAllowed sy, mp_selectedFillingMode = filling,
          mp_stopsLevel = only_finite (sy_stopsLevel sy), mp_freezeLevel = only_finite (sy_freezeLevel sy),
          mp_point = only_finite (Some (sy_point sy)), mp_tradable = tradable\<rparr>)"

definition live_of :: "symbol_info \<Rightarrow> live_symbol" where
  "live_of sy =
     \<lparr>lv_point = Some (sy_point sy), lv_tickSize = Some (sy_tickSize sy), lv_digits = Some (sy_digits sy),
      lv_stopsLevel = sy_stopsLevel sy, lv_freezeLevel = sy_freezeLevel sy\<rparr>"

subsection \<open>The worker process\<close>

record mt5_account = account_info +
  ma_currency :: string
  ma_balance :: jsnum
  ma_equity :: jsnum

record bridge_order =
  bo_symbol :: string
  bo_direction :: direction
  bo_volume :: jsnum
  bo_stopLoss :: jsnum
  bo_takeProfit :: jsnum
  bo_comment :: string
  bo_magic :: int
  bo_idempotencyKey :: string
  bo_fillingMode :: filling_mode

record bridge_modify =
  bm_positionTicket :: string
  bm_stopLoss :: jsnum
  bm_takeProfit :: "jsnum option"

record closed_result =
  cz_brokerPositionId :: string
  cz_closePrice :: jsnum
  cz_realizedPnl :: jsnum
  cz_closedAt :: int

record runtime =
  rt_lastReconcileOkAt :: "int option"
  rt_lastReconcileError :: "string option"
  rt_lastCreatedExpirySweepAt :: "int option"
  rt_hasAdapter :: bool

record world =
  w_db :: db
  w_runtime :: "string \<Rightarrow> runtime"
  w_connected :: bool
  w_account :: "mt5_account option"
  w_completedOpens :: "string \<Rightarrow> open_result option"
  w_inFlightOpens :: "string set"
  w_closedResults :: "string \<Rightarrow> closed_result option"
  w_orders :: "bridge_order list"
  w_modifies :: "bridge_modify list"
  w_closes :: "string list"

text \<open>A call of the database is a call of the worker that leaves the rest of the world alone.\<close>

primrec lift :: "(db, 'a) prog \<Rightarrow> (world, 'a) prog" where
  "lift (Done x) = Done x"
| "lift (Throw e) = Throw e"
| "lift (Atomic f) =
     Atomic (\<lambda>w. map_option (map_prod (\<lambda>d. w\<lparr>w_db := d\<rparr>) id) (map_option (map_prod id lift) (f (w_db w))))"

subsection \<open>Configuration\<close>

record adapter_config =
  dc_requireDemoAccount :: bool
  dc_executionEnvironment :: "string option"
  dc_maxQuoteAgeMs :: jsnum
  dc_maxTestVolume :: jsnum
  dc_maxTestRiskPercent :: jsnum
  dc_magic :: int
  dc_expectedBroker :: "string option"
  dc_expectedServer :: "string option"
  dc_expectedLogin :: "string option"
  dc_expectedEnvironment :: "string option"

text \<open>The constructor: an adapter has one environment, and contradicting settings build none.\<close>

definition adapter_environment :: "adapter_config \<Rightarrow> string + string" where
  "adapter_environment cfg =
     (let env = or_default (dc_executionEnvironment cfg)
            (if \<not> dc_requireDemoAccount cfg \<or> dc_expectedEnvironment cfg = Some ''live'' then ''live'' else ''demo'')
      in if \<not> dc_requireDemoAccount cfg \<and> env \<noteq> ''live'' then Inl ''REAL_MT5_EXECUTION_NOT_IMPLEMENTED''
         else if dc_requireDemoAccount cfg \<and> env = ''live'' then Inl ''MT5_ENVIRONMENT_MISMATCH''
         else if env = ''live'' \<and> dc_expectedEnvironment cfg = Some ''demo'' then Inl ''MT5_ENVIRONMENT_MISMATCH''
         else if env = ''demo'' \<and> dc_expectedEnvironment cfg = Some ''live'' then Inl ''MT5_ENVIRONMENT_MISMATCH''
         else Inr env)"

text \<open>The settings of the worker that the factory reads beyond the gates'.\<close>

record factory_config =
  fc_mt5 :: mt5_config
  fc_maxQuoteAgeMs :: jsnum
  fc_maxTestVolume :: jsnum
  fc_maxTestRiskPercent :: jsnum
  fc_magic :: int
  fc_liveExpectedBroker :: "string option"
  fc_liveExpectedServer :: "string option"
  fc_liveExpectedLogin :: "string option"

definition REAL_MT5_NOT_IMPLEMENTED :: string where
  "REAL_MT5_NOT_IMPLEMENTED = ''REAL_MT5_EXECUTION_NOT_IMPLEMENTED''"

definition assertMt5DemoAdapterAllowed :: "mt5_config \<Rightarrow> string + unit" where
  "assertMt5DemoAdapterAllowed cfg = (if isMt5RealPath cfg then Inl REAL_MT5_NOT_IMPLEMENTED else Inr ())"

definition buildDerivMt5BrokerConfig :: "factory_config \<Rightarrow> string + adapter_config" where
  "buildDerivMt5BrokerConfig cfg = map_sum id (\<lambda>_.
     \<lparr>dc_requireDemoAccount = True, dc_executionEnvironment = Some ''demo'', dc_maxQuoteAgeMs = fc_maxQuoteAgeMs cfg,
      dc_maxTestVolume = fc_maxTestVolume cfg, dc_maxTestRiskPercent = fc_maxTestRiskPercent cfg,
      dc_magic = fc_magic cfg, dc_expectedBroker = mc_EXPECTED_BROKER (fc_mt5 cfg),
      dc_expectedServer = mc_EXPECTED_SERVER (fc_mt5 cfg), dc_expectedLogin = mc_EXPECTED_LOGIN (fc_mt5 cfg),
      dc_expectedEnvironment = Some ''demo''\<rparr>) (assertMt5DemoAdapterAllowed (fc_mt5 cfg))"

definition first_some_of :: "'a option \<Rightarrow> 'a option \<Rightarrow> 'a option" where
  "first_some_of x y = (case x of Some v \<Rightarrow> Some v | None \<Rightarrow> y)"

definition buildLiveMt5BrokerConfig :: "factory_config \<Rightarrow> live_reason list + adapter_config" where
  "buildLiveMt5BrokerConfig cfg =
     (case resolveLiveExecutionPolicy (fc_mt5 cfg) of
        Inl rs \<Rightarrow> Inl rs
      | Inr pol \<Rightarrow>
          Inr \<lparr>dc_requireDemoAccount = False, dc_executionEnvironment = Some ''live'',
               dc_maxQuoteAgeMs = fc_maxQuoteAgeMs cfg, dc_maxTestVolume = lp_maxLotSize pol,
               dc_maxTestRiskPercent = lp_maxRiskPerTradePercent pol, dc_magic = fc_magic cfg,
               dc_expectedBroker = first_some_of (lp_expectedBroker pol)
                 (first_some_of (fc_liveExpectedBroker cfg) (mc_EXPECTED_BROKER (fc_mt5 cfg))),
               dc_expectedServer = first_some_of (lp_expectedServer pol)
                 (first_some_of (fc_liveExpectedServer cfg) (mc_EXPECTED_SERVER (fc_mt5 cfg))),
               dc_expectedLogin = first_some_of (lp_expectedLogin pol)
                 (first_some_of (fc_liveExpectedLogin cfg) (mc_EXPECTED_LOGIN (fc_mt5 cfg))),
               dc_expectedEnvironment = Some ''live''\<rparr>)"

definition adapterMatchesEnvironment :: "world \<Rightarrow> bool \<Rightarrow> bool" where
  "adapterMatchesEnvironment w live \<longleftrightarrow>
     w_connected w \<and>
     (case w_account w of None \<Rightarrow> False
      | Some a \<Rightarrow> ac_tradeMode a = (if live then ''REAL'' else ''DEMO''))"

subsection \<open>Replies of the bridge\<close>

text \<open>An answer, or a failure: whether the reply was marked ok (and merely carried no result), its code, its
  message, and whether it asks for reconciliation.\<close>

datatype 'a reply = Answer 'a | Failure bool "string option" "string option" bool

definition failure_code :: "'a reply \<Rightarrow> string \<Rightarrow> string" where
  "failure_code r dflt = (case r of Answer _ \<Rightarrow> dflt | Failure _ c _ _ \<Rightarrow> or_default c dflt)"

definition throwIfTransportFailed :: "'a reply \<Rightarrow> db_error option" where
  "throwIfTransportFailed r =
     (case r of
        Answer _ \<Rightarrow> None
      | Failure ok c _ _ \<Rightarrow>
          let code = or_default c MT5_BRIDGE_UNAVAILABLE
          in if ok then None
             else if isMt5BridgeFailureCode (Some code) \<or>
                     code \<in> {''MT5_EA_TIMEOUT'', ''MT5_EA_OFFLINE'', ''MT5_MAILBOX_BACKLOG''}
             then Some (Bridge_failure code) else None)"

text \<open>A call that answers nothing on an application failure and throws on a transport failure.\<close>

definition optional_reply :: "'a reply \<Rightarrow> db_error + 'a option" where
  "optional_reply r =
     (case r of Answer x \<Rightarrow> Inr (Some x)
      | Failure _ _ _ _ \<Rightarrow> (case throwIfTransportFailed r of Some e \<Rightarrow> Inl e | None \<Rightarrow> Inr None))"

definition getInstrumentMetadata :: "string \<Rightarrow> symbol_info reply \<Rightarrow> (world, instrument option) prog" where
  "getInstrumentMetadata ccy r =
     bind (ask (optional_reply r)) (\<lambda>s. Done (map_option (\<lambda>sy. mp_instrument (mapMt5SymbolToInstrument sy ccy)) s))"

definition getLiveSymbol :: "symbol_info reply \<Rightarrow> (world, symbol_info option) prog" where
  "getLiveSymbol r = ask (optional_reply r)"

definition getQuote :: "adapter_config \<Rightarrow> int \<Rightarrow> market_quote reply \<Rightarrow> (world, market_quote option) prog" where
  "getQuote cfg now r =
     bind (ask (optional_reply r)) (\<lambda>q. Done (case q of
        Some quote \<Rightarrow> if isQuoteFresh (Some (mq_timestamp quote)) (Fin (of_int now)) (dc_maxQuoteAgeMs cfg)
                      then Some quote else None
      | None \<Rightarrow> None))"

subsection \<open>The account\<close>

definition guard_of :: "adapter_config \<Rightarrow> string \<Rightarrow> mt5_account \<Rightarrow> guard_input" where
  "guard_of cfg env a =
     \<lparr>gi_account = account_info.truncate a, gi_expectedBroker = dc_expectedBroker cfg,
      gi_expectedServer = dc_expectedServer cfg, gi_expectedLogin = dc_expectedLogin cfg,
      gi_expectedEnvironment = Some env\<rparr>"

text \<open>The code read from the message of a refused account: the code its first reason starts with.\<close>

fun account_code :: "account_reason list \<Rightarrow> string" where
  "account_code (AccountIsReal # _) = ''MT5_ACCOUNT_IS_REAL''"
| "account_code (AccountIsContest # _) = ''MT5_ACCOUNT_IS_CONTEST''"
| "account_code (AccountIsDemo # _) = ''MT5_ACCOUNT_IS_DEMO''"
| "account_code (AccountModeUnknown # _) = ''MT5_ACCOUNT_MODE_UNKNOWN''"
| "account_code _ = MT5_BRIDGE_UNAVAILABLE"

fun environment_failure :: "environment_error \<Rightarrow> db_error" where
  "environment_failure (AccountRefused rs) = Bridge_failure (account_code rs)"
| "environment_failure NettingNotSupported = Bridge_failure ''MT5_NETTING_MODE_NOT_SUPPORTED''"

definition assertAccountEnvironment :: "adapter_config \<Rightarrow> string \<Rightarrow> mt5_account \<Rightarrow> db_error + unit" where
  "assertAccountEnvironment cfg env a =
     map_sum environment_failure id (assertMt5EnvironmentOrThrow (guard_of cfg env a) None)"

definition fetchAccount :: "mt5_account reply \<Rightarrow> (world, mt5_account) prog" where
  "fetchAccount r =
     ask (case r of Answer a \<Rightarrow> Inr a | Failure _ _ _ _ \<Rightarrow> Inl (Bridge_failure (failure_code r MT5_BRIDGE_UNAVAILABLE)))"

definition put_connection :: "bool \<Rightarrow> mt5_account option \<Rightarrow> (world, unit) prog" where
  "put_connection c a = command (\<lambda>w. (w\<lparr>w_connected := c, w_account := a\<rparr>, ()))"

definition set_connected :: "bool \<Rightarrow> (world, unit) prog" where
  "set_connected c = command (\<lambda>w. (w\<lparr>w_connected := c\<rparr>, ()))"

text \<open>Connecting: a ping, then the account, which must be of the environment of the adapter.\<close>

definition connect :: "adapter_config \<Rightarrow> string \<Rightarrow> unit reply \<Rightarrow> mt5_account reply \<Rightarrow> (world, unit) prog" where
  "connect cfg env ping account =
     (case ping of
        Failure False _ _ _ \<Rightarrow>
          bind (set_connected False) (\<lambda>_. Throw (Bridge_failure (failure_code ping MT5_BRIDGE_UNAVAILABLE)))
      | _ \<Rightarrow>
          bind (fetchAccount account) (\<lambda>a.
            case assertAccountEnvironment cfg env a of
              Inl e \<Rightarrow> bind (set_connected False) (\<lambda>_. Throw e)
            | Inr _ \<Rightarrow> put_connection True (Some a)))"

definition disconnect :: "(world, unit) prog" where
  "disconnect = put_connection False None"

text \<open>Reading the account remembers it before the guard looks at it.\<close>

definition getAccount :: "adapter_config \<Rightarrow> string \<Rightarrow> mt5_account reply \<Rightarrow> (world, mt5_account) prog" where
  "getAccount cfg env r =
     bind (fetchAccount r) (\<lambda>a.
     bind (command (\<lambda>w. (w\<lparr>w_account := Some a\<rparr>, ()))) (\<lambda>_.
     bind (ask (assertAccountEnvironment cfg env a)) (\<lambda>_. Done a)))"

definition getOrConnectMt5Adapter ::
  "adapter_config \<Rightarrow> string \<Rightarrow> unit reply \<Rightarrow> mt5_account reply \<Rightarrow> (world, unit) prog" where
  "getOrConnectMt5Adapter cfg env ping account =
     bind (query (\<lambda>w. adapterMatchesEnvironment w (env = ''live''))) (\<lambda>ok.
       if ok then Done () else bind disconnect (\<lambda>_. connect cfg env ping account))"

text \<open>The guard in front of every order: the remembered account, once more.\<close>

definition hedging_failure :: "adapter_config \<Rightarrow> string \<Rightarrow> world \<Rightarrow> db_error option" where
  "hedging_failure cfg env w =
     (case w_account w of
        None \<Rightarrow> Some (Bridge_failure MT5_BRIDGE_UNAVAILABLE)
      | Some a \<Rightarrow>
          if \<not> w_connected w then Some (Bridge_failure MT5_BRIDGE_UNAVAILABLE)
          else let result = validateMt5ExecutionEnvironment (guard_of cfg env a)
               in if \<not> er_ok result then Some (Bridge_failure (account_code (er_reasons result)))
                  else (case assertMt5HedgingMode (ac_marginMode a) of
                          Inl e \<Rightarrow> Some (environment_failure e) | Inr _ \<Rightarrow> None))"

definition assertEnvironmentHedging :: "adapter_config \<Rightarrow> string \<Rightarrow> (world, unit) prog" where
  "assertEnvironmentHedging cfg env =
     bind (query (hedging_failure cfg env)) (\<lambda>r. case r of Some e \<Rightarrow> Throw e | None \<Rightarrow> Done ())"

subsection \<open>Opening a position\<close>

record order_request =
  oq_idempotencyKey :: string
  oq_symbol :: string
  oq_direction :: direction
  oq_volume :: jsnum
  oq_stopLoss :: jsnum
  oq_takeProfit :: "jsnum option"
  oq_quote :: market_quote
  oq_instrument :: instrument

record bridge_open = bridge_position +
  bq_orderTicket :: "string option"
  bq_dealTicket :: "string option"
  bq_symbol :: string
  bq_direction :: direction
  bq_volume :: jsnum
  bq_entryPrice :: jsnum
  bq_stopLoss :: jsnum
  bq_takeProfit :: "jsnum option"

record open_fill =
  fl_positionTicket :: string
  fl_orderTicket :: string
  fl_dealTicket :: "string option"
  fl_fillPrice :: jsnum
  fl_volume :: jsnum

text \<open>The replies and the clock of one call: the symbol, the open positions (asked for the key before and after
  sending), and the answer to the order.\<close>

record open_replies =
  or_now :: int
  or_symbol :: "symbol_info reply"
  or_before :: "bridge_open list reply"
  or_answer :: "open_fill reply"
  or_after :: "bridge_open list reply"

text \<open>A refusal is its reasons; their texts are left out, a text that is no code becomes one word.\<close>

type_synonym open_outcome = "string list + open_result"

fun instrument_refusal :: "instrument_reason \<Rightarrow> string" where
  "instrument_refusal _ = ''instrument metadata''"

definition volume_spec_of :: "instrument \<Rightarrow> volume_spec" where
  "volume_spec_of inst = \<lparr>vs_min = minVolume inst, vs_max = maxVolume inst, vs_step = volumeStep inst\<rparr>"

definition order_reference :: "direction \<Rightarrow> market_quote \<Rightarrow> jsnum" where
  "order_reference dir q = (if dir = BUY then mq_ask q else mq_bid q)"

definition symbol_refusal :: "direction \<Rightarrow> symbol_info \<Rightarrow> string option" where
  "symbol_refusal dir sy =
     (if \<not> sy_tradeAllowed sy \<or> sy_tradeMode sy = ''DISABLED'' then Some ''MT5_SYMBOL_NOT_TRADEABLE''
      else if dir = BUY \<and> sy_tradeMode sy = ''SHORTONLY'' then Some ''MT5_ORDER_TYPE_UNSUPPORTED''
      else if dir = SELL \<and> sy_tradeMode sy = ''LONGONLY'' then Some ''MT5_ORDER_TYPE_UNSUPPORTED''
      else if selectFillingMode (supported_fillings sy) = None then Some ''FILLING_MODE_UNSUPPORTED''
      else None)"

definition risk_refused :: "adapter_config \<Rightarrow> jsnum \<Rightarrow> order_request \<Rightarrow> jsnum \<Rightarrow> bool" where
  "risk_refused cfg equity req lots \<longleftrightarrow>
     (let perUnit = lossAtStopPerUnitVolume (oq_direction req) (order_reference (oq_direction req) (oq_quote req))
                      (oq_stopLoss req) (oq_instrument req);
          maxRisk = (equity * dc_maxTestRiskPercent cfg) / 100
      in 0 < maxRisk \<and> maxRisk + Fin (1 / 10 ^ 6) < perUnit * lots)"

definition stops_of :: "order_request \<Rightarrow> jsnum \<Rightarrow> symbol_info \<Rightarrow> stop_result" where
  "stops_of req target sy =
     validateAndNormalizeMt5Stops
       \<lparr>sv_direction = oq_direction req, sv_stopLoss = oq_stopLoss req, sv_takeProfit = target,
        sv_bid = mq_bid (oq_quote req), sv_ask = mq_ask (oq_quote req), sv_point = Some (sy_point sy),
        sv_tickSize = Some (if 0 < sy_tickSize sy then sy_tickSize sy else sy_point sy),
        sv_digits = Some (sy_digits sy), sv_stopsLevel = sy_stopsLevel sy, sv_freezeLevel = sy_freezeLevel sy\<rparr>"

text \<open>The checks between the symbol and the broker: the order to send, or the refusal.\<close>

definition plan_order ::
  "adapter_config \<Rightarrow> (string \<Rightarrow> string) \<Rightarrow> jsnum \<Rightarrow> order_request \<Rightarrow> symbol_info \<Rightarrow> jsnum \<Rightarrow> string list + bridge_order" where
  "plan_order cfg orderComment equity req sy lots =
     (let volumeReasons = assertMt5VolumeValid lots (volume_spec_of (oq_instrument req))
      in if volumeReasons \<noteq> [] then Inl (List.map (\<lambda>_. ''volume'') volumeReasons)
         else if dc_maxTestVolume cfg < lots - lot_slack then Inl [''MT5_MAX_TEST_VOLUME'']
         else if risk_refused cfg equity req lots then Inl [''RISK_EXCEEDS_MT5_MAX_TEST_RISK_PERCENT'']
         else if \<not> 0 < oq_stopLoss req then Inl [''STOP_LOSS_REQUIRED'']
         else case (oq_takeProfit req, selectFillingMode (supported_fillings sy)) of
           (Some target, Some mode) \<Rightarrow>
             if \<not> 0 < target then Inl [''TAKE_PROFIT_REQUIRED'']
             else (let v = stops_of req target sy
                   in case (sr_normalizedStopLoss v, sr_normalizedTakeProfit v) of
                        (Some sl, Some tp) \<Rightarrow>
                          if \<not> sr_ok v then Inl [or_default (sr_reasonCode v) MT5_INVALID_STOP_DISTANCE_PRECHECK]
                          else Inr \<lparr>bo_symbol = oq_symbol req, bo_direction = oq_direction req,
                                    bo_volume = mt5VolumeFromLots lots, bo_stopLoss = sl, bo_takeProfit = tp,
                                    bo_comment = orderComment (oq_idempotencyKey req), bo_magic = dc_magic cfg,
                                    bo_idempotencyKey = oq_idempotencyKey req, bo_fillingMode = mode\<rparr>
                      | _ \<Rightarrow> Inl [or_default (sr_reasonCode v) MT5_INVALID_STOP_DISTANCE_PRECHECK])
         | (None, _) \<Rightarrow> Inl [''TAKE_PROFIT_REQUIRED'']
         | (_, None) \<Rightarrow> Inl [''FILLING_MODE_UNSUPPORTED''])"

text \<open>A position of the broker with the comment of the key is this order's, and its result is remembered.\<close>

definition adopted_result :: "bridge_open \<Rightarrow> open_result" where
  "adopted_result p =
     \<lparr>ot_accepted = True, ot_brokerPositionId = Some (bpos_positionTicket p), ot_entryPrice = Some (bq_entryPrice p),
      ot_position = Some \<lparr>bf_volume = bq_volume p, bf_orderTicket = Some (or_default (bq_orderTicket p) ''0''),
                          bf_dealTicket = bq_dealTicket p\<rparr>\<rparr>"

definition filled_result :: "open_fill \<Rightarrow> open_result" where
  "filled_result f =
     \<lparr>ot_accepted = True, ot_brokerPositionId = Some (fl_positionTicket f), ot_entryPrice = Some (fl_fillPrice f),
      ot_position = Some \<lparr>bf_volume = fl_volume f, bf_orderTicket = Some (fl_orderTicket f),
                          bf_dealTicket = fl_dealTicket f\<rparr>\<rparr>"

definition remember_open :: "string \<Rightarrow> open_result \<Rightarrow> world \<Rightarrow> world" where
  "remember_open key r w = w\<lparr>w_completedOpens := (w_completedOpens w)(key := Some r)\<rparr>"

definition tryAdoptOpenByIdempotency ::
  "adapter_config \<Rightarrow> (string \<Rightarrow> string) \<Rightarrow> string \<Rightarrow> bridge_open list reply \<Rightarrow> (world, open_result option) prog" where
  "tryAdoptOpenByIdempotency cfg orderComment key r =
     command (\<lambda>w. case r of
         Failure _ _ _ _ \<Rightarrow> (w, None)
       | Answer ps \<Rightarrow>
           (case findMt5PositionByIdempotency ps (dc_magic cfg) (orderComment key) of
              None \<Rightarrow> (w, None)
            | Some p \<Rightarrow> (remember_open key (adopted_result p) w, Some (adopted_result p))))"

text \<open>Sending marks the key in flight; whatever the answer, the mark is removed in the end.\<close>

definition send_order :: "bridge_order \<Rightarrow> (world, unit) prog" where
  "send_order o' = command (\<lambda>w. (w\<lparr>w_inFlightOpens := insert (bo_idempotencyKey o') (w_inFlightOpens w),
      w_orders := w_orders w @ [o']\<rparr>, ()))"

definition landed :: "string \<Rightarrow> world \<Rightarrow> world" where
  "landed key w = w\<lparr>w_inFlightOpens := w_inFlightOpens w - {key}\<rparr>"

definition receive_answer ::
  "adapter_config \<Rightarrow> (string \<Rightarrow> string) \<Rightarrow> string \<Rightarrow> open_replies \<Rightarrow> (world, open_outcome) prog" where
  "receive_answer cfg orderComment key rp =
     (case or_answer rp of
        Answer f \<Rightarrow> command (\<lambda>w. (landed key (remember_open key (filled_result f) w), Inr (filled_result f)))
      | Failure _ code message needsReconcile \<Rightarrow>
          if needsReconcile \<or> code = Some ''MT5_EA_TIMEOUT''
          then bind (tryAdoptOpenByIdempotency cfg orderComment key (or_after rp)) (\<lambda>a.
               command (\<lambda>w. (landed key w, case a of
                   Some r \<Rightarrow> Inr r
                 | None \<Rightarrow> Inl (filter (\<lambda>s. s \<noteq> [])
                     [AMBIGUOUS_TIMEOUT_QUERY_BEFORE_RESUBMIT, or_default code ''TIMEOUT'']))))
          else command (\<lambda>w. (landed key w,
                 Inl (filter (\<lambda>s. s \<noteq> []) [or_default code ''ORDER_REJECTED'', or_default message []]))))"

definition submit_order ::
  "adapter_config \<Rightarrow> (string \<Rightarrow> string) \<Rightarrow> bridge_order \<Rightarrow> open_replies \<Rightarrow> (world, open_outcome) prog" where
  "submit_order cfg orderComment o' rp =
     (let key = bo_idempotencyKey o'
      in bind (query (\<lambda>w. key \<in> w_inFlightOpens w)) (\<lambda>busy.
         bind (tryAdoptOpenByIdempotency cfg orderComment key (or_before rp)) (\<lambda>existing.
           case existing of
             Some r \<Rightarrow> Done (Inr r)
           | None \<Rightarrow>
               if busy then Done (Inl [''DUPLICATE_IN_FLIGHT''])
               else bind (send_order o') (\<lambda>_. receive_answer cfg orderComment key rp))))"

definition open_checked ::
  "adapter_config \<Rightarrow> (string \<Rightarrow> string) \<Rightarrow> order_request \<Rightarrow> open_replies \<Rightarrow> symbol_info \<Rightarrow> (world, open_outcome) prog" where
  "open_checked cfg orderComment req rp sy =
     (case symbol_refusal (oq_direction req) sy of
        Some c \<Rightarrow> Done (Inl [c])
      | None \<Rightarrow>
          (case normalizeLotsToMt5Step (oq_volume req) (volume_spec_of (oq_instrument req)) of
             Inl _ \<Rightarrow> Throw (Bridge_failure MT5_BRIDGE_UNAVAILABLE)
           | Inr nv \<Rightarrow>
               bind (query (\<lambda>w. case w_account w of Some a \<Rightarrow> ma_equity a | None \<Rightarrow> 0)) (\<lambda>equity.
                 case plan_order cfg orderComment equity req sy (nv_lots nv) of
                   Inl rs \<Rightarrow> Done (Inl rs)
                 | Inr o' \<Rightarrow> submit_order cfg orderComment o' rp)))"

definition openMarketPosition ::
  "adapter_config \<Rightarrow> string \<Rightarrow> (string \<Rightarrow> string) \<Rightarrow> order_request \<Rightarrow> open_replies \<Rightarrow> (world, open_outcome) prog" where
  "openMarketPosition cfg env orderComment req rp =
     bind (assertEnvironmentHedging cfg env) (\<lambda>_.
     bind (query (\<lambda>w. w_completedOpens w (oq_idempotencyKey req))) (\<lambda>cached.
       case cached of
         Some r \<Rightarrow> Done (Inr r)
       | None \<Rightarrow>
           let validation = validateInstrumentMetadata (oq_instrument req)
           in if \<not> iv_valid validation then Done (Inl (List.map instrument_refusal (iv_reasons validation)))
              else if \<not> isQuoteFresh (Some (mq_timestamp (oq_quote req))) (Fin (of_int (or_now rp))) (dc_maxQuoteAgeMs cfg)
              then Done (Inl [''STALE_QUOTE''])
              else (case or_symbol rp of
                 Failure _ c _ _ \<Rightarrow> Done (Inl (filter (\<lambda>s. s \<noteq> []) [or_default c ''MT5_SYMBOL_NOT_FOUND'']))
               | Answer sy \<Rightarrow> bind (ask (Inr sy)) (open_checked cfg orderComment req rp))))"

subsection \<open>Modifying and closing\<close>

definition getOpenPositions :: "bridge_open list reply \<Rightarrow> (world, bridge_open list) prog" where
  "getOpenPositions r =
     ask (case r of Answer ps \<Rightarrow> Inr ps | Failure _ _ _ _ \<Rightarrow> Inl (Bridge_failure (failure_code r MT5_BRIDGE_UNAVAILABLE)))"

definition MT5_PRICE_IN_FREEZE_LEVEL :: string where "MT5_PRICE_IN_FREEZE_LEVEL = ''MT5_PRICE_IN_FREEZE_LEVEL''"

record modify_replies =
  mr_now :: int
  mr_positions :: "bridge_open list reply"
  mr_symbol :: "symbol_info reply"
  mr_quote :: "market_quote reply"
  mr_answer :: "bridge_open reply"

definition frozen_price :: "bridge_open \<Rightarrow> symbol_info option \<Rightarrow> market_quote option \<Rightarrow> bool" where
  "frozen_price p live quote =
     (case (live, quote) of
        (Some sy, Some q) \<Rightarrow>
          isPriceInFreezeLevel (if bq_direction p = BUY then mq_bid q else mq_ask q) (Some (bq_stopLoss p))
            (bq_takeProfit p) (sy_freezeLevel sy) (Some (sy_point sy))
      | _ \<Rightarrow> False)"

definition send_modify :: "bridge_modify \<Rightarrow> bridge_open reply \<Rightarrow> (world, bridge_open) prog" where
  "send_modify m r =
     bind (command (\<lambda>w. (w\<lparr>w_modifies := w_modifies w @ [m]\<rparr>, ()))) (\<lambda>_.
       ask (case r of Answer p \<Rightarrow> Inr p | Failure _ _ _ _ \<Rightarrow> Inl (Bridge_failure MT5_BRIDGE_UNAVAILABLE)))"

definition modifyPosition ::
  "adapter_config \<Rightarrow> string \<Rightarrow> bridge_modify \<Rightarrow> modify_replies \<Rightarrow> (world, bridge_open) prog" where
  "modifyPosition cfg env m rp =
     bind (assertEnvironmentHedging cfg env) (\<lambda>_.
     bind (getOpenPositions (mr_positions rp)) (\<lambda>open_ps.
       case find (\<lambda>p. bpos_positionTicket p = bm_positionTicket m) open_ps of
         None \<Rightarrow> send_modify m (mr_answer rp)
       | Some p \<Rightarrow>
           bind (getLiveSymbol (mr_symbol rp)) (\<lambda>live.
           bind (getQuote cfg (mr_now rp) (mr_quote rp)) (\<lambda>quote.
             if frozen_price p live quote then Throw (Bridge_failure MT5_PRICE_IN_FREEZE_LEVEL)
             else send_modify m (mr_answer rp)))))"

definition closePosition ::
  "adapter_config \<Rightarrow> string \<Rightarrow> string \<Rightarrow> closed_result reply \<Rightarrow> (world, closed_result) prog" where
  "closePosition cfg env ident r =
     bind (assertEnvironmentHedging cfg env) (\<lambda>_.
     bind (query (\<lambda>w. w_closedResults w ident)) (\<lambda>cached.
       case cached of
         Some c \<Rightarrow> Done c
       | None \<Rightarrow>
           bind (command (\<lambda>w. (w\<lparr>w_closes := w_closes w @ [ident]\<rparr>, ()))) (\<lambda>_.
             case r of
               Failure _ _ _ _ \<Rightarrow> Throw (Bridge_failure MT5_BRIDGE_UNAVAILABLE)
             | Answer c \<Rightarrow> command (\<lambda>w. (w\<lparr>w_closedResults := (w_closedResults w)(ident := Some c)\<rparr>, c)))))"

subsection \<open>The dry run of a test order\<close>

record dry_run =
  dr_ok :: bool
  dr_reasons :: "string list"
  dr_proposedVolume :: "jsnum option"
  dr_estimatedLossAtStop :: "jsnum option"
  dr_estimatedRiskPercent :: "jsnum option"
  dr_selectedFillingMode :: "filling_mode option"

text \<open>Asks for the symbol and a quote and reports what a test order would meet; it sends nothing.\<close>

definition dry_run_report ::
  "adapter_config \<Rightarrow> mt5_account option \<Rightarrow> direction \<Rightarrow> jsnum \<Rightarrow> jsnum \<Rightarrow> jsnum option \<Rightarrow> symbol_info option \<Rightarrow>
   market_quote option \<Rightarrow> int \<Rightarrow> string + dry_run" where
  "dry_run_report cfg account dir sl tp lots live quote now =
     (let inst = map_option (\<lambda>sy. mp_instrument (mapMt5SymbolToInstrument sy
                   (case account of Some a \<Rightarrow> ma_currency a | None \<Rightarrow> ''USD''))) live;
          selected = Option.bind live (\<lambda>sy. selectFillingMode (supported_fillings sy));
          raw = map_option (\<lambda>i. js_min (or_default lots (minVolume i)) (dc_maxTestVolume cfg)) inst;
          reasons0 = push_when (live = None) ''MT5_SYMBOL_NOT_FOUND''
            @ push_when (some_and live (\<lambda>sy. \<not> sy_tradeAllowed sy \<or> sy_tradeMode sy = ''DISABLED'')) ''MT5_SYMBOL_NOT_TRADEABLE''
            @ push_when (some_and live (\<lambda>sy. dir = BUY \<and> sy_tradeMode sy = ''SHORTONLY'')) ''MT5_ORDER_TYPE_UNSUPPORTED''
            @ push_when (some_and live (\<lambda>sy. dir = SELL \<and> sy_tradeMode sy = ''LONGONLY'')) ''MT5_ORDER_TYPE_UNSUPPORTED''
            @ push_when (selected = None) ''FILLING_MODE_UNSUPPORTED''
            @ push_when (\<not> some_and quote (\<lambda>q. \<not> dc_maxQuoteAgeMs cfg < Fin (of_int now) - mq_timestamp q)) ''STALE_QUOTE'';
          report = (\<lambda>volumeReasons nv.
            let perUnit = (case (inst, quote) of
                  (Some i, Some q) \<Rightarrow> Some (lossAtStopPerUnitVolume dir (order_reference dir q) sl i) | _ \<Rightarrow> None);
                loss = (case (perUnit, nv) of (Some l, Some v) \<Rightarrow> Some (l * v) | _ \<Rightarrow> None);
                equity = (case account of Some a \<Rightarrow> ma_equity a | None \<Rightarrow> 0);
                reasons = reasons0 @ volumeReasons @ push_when (\<not> 0 < sl) ''STOP_LOSS_REQUIRED''
                  @ push_when (\<not> 0 < tp) ''TAKE_PROFIT_REQUIRED''
            in \<lparr>dr_ok = (reasons = []), dr_reasons = reasons, dr_proposedVolume = nv, dr_estimatedLossAtStop = loss,
                dr_estimatedRiskPercent = (case loss of Some l \<Rightarrow>
                   if 0 < equity then Some (to_fixed 6 ((l / equity) * 100)) else None | None \<Rightarrow> None),
                dr_selectedFillingMode = selected\<rparr>)
      in case (inst, raw) of
           (Some i, Some v) \<Rightarrow>
             map_sum id (\<lambda>nv. report (List.map (\<lambda>_. ''volume'') (assertMt5VolumeValid (nv_lots nv) (volume_spec_of i)))
                           (Some (nv_lots nv)))
               (normalizeLotsToMt5Step v (volume_spec_of i))
         | _ \<Rightarrow> Inr (report [] None))"

definition preflightTestTrade ::
  "adapter_config \<Rightarrow> string \<Rightarrow> direction \<Rightarrow> jsnum \<Rightarrow> jsnum \<Rightarrow> jsnum option \<Rightarrow> symbol_info reply \<Rightarrow> market_quote reply \<Rightarrow>
   int \<Rightarrow> (world, dry_run) prog" where
  "preflightTestTrade cfg env dir sl tp lots symbol quote now =
     bind (assertEnvironmentHedging cfg env) (\<lambda>_.
     bind (getLiveSymbol symbol) (\<lambda>live.
     bind (query w_account) (\<lambda>account.
       case dry_run_report cfg account dir sl tp lots live
              (case quote of Answer q \<Rightarrow> Some q | Failure _ _ _ _ \<Rightarrow> None) now of
         Inl _ \<Rightarrow> Throw (Bridge_failure MT5_BRIDGE_UNAVAILABLE)
       | Inr d \<Rightarrow> Done d)))"

end
