(* ===== verification/Mt5Orders.thy ===== *)
theory Mt5Orders
  imports Mt5Adapter
begin

text \<open>
  What the adapter of MetaTrader 5 sends.  The calls of the adapter run interleaved, bridge call by bridge call: whatever
  the interleaving, every order that reaches the bridge has passed the checks of \<open>openMarketPosition\<close> against its own
  request; run alone, an order is sent at most once and only under a matching hedging account.
\<close>

subsection \<open>The calls of the adapter\<close>

datatype mt5_call =
    Call_open adapter_config string "string \<Rightarrow> string" order_request open_replies
  | Call_modify adapter_config string bridge_modify modify_replies
  | Call_close adapter_config string string "closed_result reply"
  | Call_connect adapter_config string "unit reply" "mt5_account reply"
  | Call_account adapter_config string "mt5_account reply"
  | Call_disconnect
  | Call_dry_run adapter_config string direction jsnum jsnum "jsnum option" "symbol_info reply" "market_quote reply" int

definition discard :: "(world, 'a) prog \<Rightarrow> (world, unit) prog" where
  "discard p = bind p (\<lambda>_. Done ())"

primrec serve_call :: "nat \<Rightarrow> mt5_call \<Rightarrow> (world, unit) prog" where
  "serve_call _ (Call_open cfg env oc req rp) = discard (openMarketPosition cfg env oc req rp)"
| "serve_call _ (Call_modify cfg env m rp) = discard (modifyPosition cfg env m rp)"
| "serve_call _ (Call_close cfg env ident r) = discard (closePosition cfg env ident r)"
| "serve_call _ (Call_connect cfg env ping r) = getOrConnectMt5Adapter cfg env ping r"
| "serve_call _ (Call_account cfg env r) = discard (getAccount cfg env r)"
| "serve_call _ Call_disconnect = disconnect"
| "serve_call _ (Call_dry_run cfg env dir sl tp lots sy q now) =
     discard (preflightTestTrade cfg env dir sl tp lots sy q now)"

subsection \<open>The orders that are sent\<close>

text \<open>An order that keeps the limits: its volume is positive, not above the cap of the adapter and within the
  instrument's; the loss at the requested stop is within the risk percent of the equity the adapter knew; stop and
  target are on their sides of the quote, at least the broker's minimum distance away.  Each up to the tolerances of
  the code.\<close>

definition volume_kept :: "adapter_config \<Rightarrow> instrument \<Rightarrow> rat \<Rightarrow> bool" where
  "volume_kept cfg inst lots \<longleftrightarrow> 0 < lots \<and>
     (\<forall>lo. minVolume inst = Fin lo \<longrightarrow> lo - 1 / 10 ^ 12 \<le> lots) \<and>
     (\<forall>hi. maxVolume inst = Fin hi \<longrightarrow> lots \<le> hi + 1 / 10 ^ 12) \<and>
     (\<forall>cap. dc_maxTestVolume cfg = Fin cap \<longrightarrow> lots \<le> cap + 1 / 10 ^ 12)"

definition risk_kept :: "adapter_config \<Rightarrow> order_request \<Rightarrow> jsnum \<Rightarrow> rat \<Rightarrow> bool" where
  "risk_kept cfg req equity lots \<longleftrightarrow>
     (\<forall>e c k. equity = Fin e \<and> 0 < e * c \<and> dc_maxTestRiskPercent cfg = Fin c \<and>
        lossAtStopPerUnitVolume (oq_direction req) (order_reference (oq_direction req) (oq_quote req))
          (oq_stopLoss req) (oq_instrument req) = Fin k \<longrightarrow> k * lots \<le> e * c / 100 + 1 / 10 ^ 6)"

definition prices_kept :: "order_request \<Rightarrow> bridge_order \<Rightarrow> bool" where
  "prices_kept req b \<longleftrightarrow>
     (\<exists>bid ask eps md sl tp. mq_bid (oq_quote req) = Fin bid \<and> mq_ask (oq_quote req) = Fin ask \<and> 0 < bid \<and> bid \<le> ask \<and>
        0 < eps \<and> 0 \<le> md \<and> bo_stopLoss b = Fin sl \<and> bo_takeProfit b = Fin tp \<and>
        geometry_ok (bo_direction b) (if bo_direction b = BUY then bid else ask) eps md sl tp)"

definition order_kept :: "mt5_call set \<Rightarrow> bridge_order \<Rightarrow> bool" where
  "order_kept calls b \<longleftrightarrow>
     (\<exists>cfg env oc req rp lots. Call_open cfg env oc req rp \<in> calls \<and>
        bo_idempotencyKey b = oq_idempotencyKey req \<and> bo_direction b = oq_direction req \<and>
        bo_symbol b = oq_symbol req \<and> bo_comment b = oc (oq_idempotencyKey req) \<and> bo_magic b = dc_magic cfg \<and>
        bo_volume b = mt5VolumeFromLots (Fin lots) \<and> sane_instrument (oq_instrument req) \<and>
        volume_kept cfg (oq_instrument req) lots \<and> prices_kept req b)"

lemma stops_geometry:
  assumes "sr_ok (validateAndNormalizeMt5Stops st)"
  shows "\<exists>bid ask eps md sl tp. sv_bid st = Fin bid \<and> sv_ask st = Fin ask \<and> 0 < bid \<and> bid \<le> ask \<and> 0 < eps \<and> 0 \<le> md \<and>
     sr_normalizedStopLoss (validateAndNormalizeMt5Stops st) = Some (Fin sl) \<and>
     sr_normalizedTakeProfit (validateAndNormalizeMt5Stops st) = Some (Fin tp) \<and>
     geometry_ok (sv_direction st) (if sv_direction st = BUY then bid else ask) eps md sl tp"
proof (rule validate_passedE [OF validate_ok_passed [OF assms]])
  fix bid ask pt t dg lv sl tp :: rat
  assume st: "sv_bid st = Fin bid" "sv_ask st = Fin ask" "0 < bid" "bid \<le> ask" "0 < pt" "0 < t" "0 \<le> lv"
    "sv_stopLoss st = Fin sl" "sv_takeProfit st = Fin tp"
    and v: "validateAndNormalizeMt5Stops st = validate_distances st (Fin pt) (Fin t) (Fin dg) (Fin lv)"
  have fin: "\<exists>x. normalizeStopPriceToTick (Fin a) (Fin t) (Fin dg) d k = Fin x" for a d k
    by (cases d; cases k) (simp_all add: normalizeStopPriceToTick_def Let_def fixed_digits_def tick_slack_def st(6) less_imp_neq [symmetric])
  obtain x where x: "normalizeStopPriceToTick (Fin sl) (Fin t) (Fin dg) (sv_direction st) StopLossPrice = Fin x"
    using fin by blast
  obtain y where y: "normalizeStopPriceToTick (Fin tp) (Fin t) (Fin dg) (sv_direction st) TakeProfitPrice = Fin y"
    using fin by blast
  have e: "0 < rat_eps pt t" by (simp add: rat_eps_def less_max_iff_disj)
  have m: "resolveMinimumStopDistance (Fin lv) (Fin pt) = Fin (lv * pt)" "0 \<le> lv * pt"
    using st by (simp_all add: resolveMinimumStopDistance_def)
  have ref: "reference_price (sv_direction st) (Fin bid) (Fin ask) = Fin (if sv_direction st = BUY then bid else ask)"
    by (simp add: reference_price_def)
  have "geometry_ok (sv_direction st) (if sv_direction st = BUY then bid else ask) (rat_eps pt t) (lv * pt) x y"
    using assms distance_reasons_iff [OF e m(2)]
    by (simp add: v validate_distances_def Let_def st x y m(1) ref stop_eps_fin)
  moreover have "sr_normalizedStopLoss (validateAndNormalizeMt5Stops st) = Some (Fin x)"
    "sr_normalizedTakeProfit (validateAndNormalizeMt5Stops st) = Some (Fin y)"
    by (simp_all add: v validate_distances_def Let_def st x y)
  ultimately show ?thesis using st(1-4) e m(2) by blast
qed

lemma volume_checked:
  assumes "assertMt5VolumeValid lots (volume_spec_of inst) = []" and "\<not> dc_maxTestVolume cfg < lots - lot_slack"
  shows "\<exists>v. lots = Fin v \<and> volume_kept cfg inst v"
proof -
  obtain v where v: "lots = Fin v" "0 < v"
    using assms(1) by (auto simp: assertMt5VolumeValid_def Let_def is_finite_iff)
  moreover have "volume_kept cfg inst v"
    using assms v by (auto simp: assertMt5VolumeValid_def Let_def volume_kept_def volume_spec_of_def lot_slack_def)
  ultimately show ?thesis by blast
qed

lemma planned_order:
  assumes "plan_order cfg oc equity req sy lots = Inr b" and "iv_valid (validateInstrumentMetadata (oq_instrument req))"
    and "Call_open cfg env oc req rp \<in> calls"
  shows "order_kept calls b"
proof -
  from assms(1) obtain target mode where c:
    "assertMt5VolumeValid lots (volume_spec_of (oq_instrument req)) = []" "\<not> dc_maxTestVolume cfg < lots - lot_slack"
    "\<not> risk_refused cfg equity req lots" "oq_takeProfit req = Some target" "sr_ok (stops_of req target sy)"
    and b: "b = \<lparr>bo_symbol = oq_symbol req, bo_direction = oq_direction req, bo_volume = mt5VolumeFromLots lots,
      bo_stopLoss = the (sr_normalizedStopLoss (stops_of req target sy)),
      bo_takeProfit = the (sr_normalizedTakeProfit (stops_of req target sy)),
      bo_comment = oc (oq_idempotencyKey req), bo_magic = dc_magic cfg,
      bo_idempotencyKey = oq_idempotencyKey req, bo_fillingMode = mode\<rparr>"
    by (auto simp: plan_order_def Let_def split: if_splits option.splits)
  obtain v where v: "lots = Fin v" "volume_kept cfg (oq_instrument req) v" using volume_checked c by blast
  have "prices_kept req b"
  proof -
    obtain bid ask eps md sl tp where g: "mq_bid (oq_quote req) = Fin bid" "mq_ask (oq_quote req) = Fin ask" "0 < bid"
      "bid \<le> ask" "0 < eps" "0 \<le> md" "sr_normalizedStopLoss (stops_of req target sy) = Some (Fin sl)"
      "sr_normalizedTakeProfit (stops_of req target sy) = Some (Fin tp)"
      "geometry_ok (oq_direction req) (if oq_direction req = BUY then bid else ask) eps md sl tp"
      using stops_geometry [OF c(5) [unfolded stops_of_def]] unfolding stops_of_def stop_input.simps by blast
    show ?thesis unfolding prices_kept_def
      by (rule exI [of _ bid], rule exI [of _ ask], rule exI [of _ eps], rule exI [of _ md], rule exI [of _ sl],
          rule exI [of _ tp]) (use g in \<open>simp add: b\<close>)
  qed
  then show ?thesis using assms(2,3) v validate_sane unfolding order_kept_def b by fastforce
qed

lemma planned_risk:
  assumes "plan_order cfg oc equity req sy lots = Inr b"
  shows "\<exists>v. bo_volume b = mt5VolumeFromLots (Fin v) \<and> risk_kept cfg req equity v \<and>
    bo_idempotencyKey b = oq_idempotencyKey req"
proof -
  have c: "assertMt5VolumeValid lots (volume_spec_of (oq_instrument req)) = []" "\<not> dc_maxTestVolume cfg < lots - lot_slack"
    "\<not> risk_refused cfg equity req lots" "bo_volume b = mt5VolumeFromLots lots" "bo_idempotencyKey b = oq_idempotencyKey req"
    using assms by (auto simp: plan_order_def Let_def split: if_splits option.splits)
  obtain v where v: "lots = Fin v" "volume_kept cfg (oq_instrument req) v" using volume_checked c by blast
  have "risk_kept cfg req equity v"
    using c(3) v by (auto simp: risk_refused_def risk_kept_def Let_def not_less)
  then show ?thesis using c v by auto
qed
subsection \<open>Every call keeps the orders checked\<close>

definition orders_inv :: "mt5_call set \<Rightarrow> world \<Rightarrow> bool" where
  "orders_inv calls w \<longleftrightarrow> (\<forall>b \<in> set (w_orders w). order_kept calls b)"

text \<open>A call is quiet when it sends no order.\<close>

abbreviation any_step :: "'s \<Rightarrow> 's \<Rightarrow> bool" where "any_step \<equiv> \<lambda>_ _. True"

abbreviation keeps :: "mt5_call set \<Rightarrow> (world, 'a) prog \<Rightarrow> bool" where
  "keeps calls p \<equiv> upholds (orders_inv calls) any_step any_step (\<lambda>_. True) p"

lemma keeps_command:
  "(\<And>w. w_orders (fst (g w)) = w_orders w) \<Longrightarrow> keeps calls (command g)"
  by (rule upholds_command) (simp add: orders_inv_def)

lemma keeps_query [simp, intro]: "keeps calls (query g)"
  by (rule upholds_query) simp

lemma keeps_ask [simp, intro]: "keeps calls (ask r)"
  unfolding ask_def by (rule up_atomic) (auto intro!: exI [of _ "\<lambda>_. True"] up_done up_throw split: sum.splits)

lemma keeps_pure [simp, intro]: "keeps calls (Done x)" "keeps calls (Throw e)"
  by (rule up_done, rule up_throw)

lemma keeps_bind [intro]: "keeps calls p \<Longrightarrow> (\<And>x. keeps calls (k x)) \<Longrightarrow> keeps calls (bind p k)"
  by (rule upholds_bind)

lemma keeps_discard: "keeps calls p \<Longrightarrow> keeps calls (discard p)"
  unfolding discard_def by (rule keeps_bind) simp_all

text \<open>The quiet commands.\<close>

lemma keeps_adopt [simp]: "keeps calls (tryAdoptOpenByIdempotency cfg oc key r)"
  unfolding tryAdoptOpenByIdempotency_def
  by (rule keeps_command) (auto simp: remember_open_def split: reply.splits option.splits)

lemma keeps_connection [simp]: "keeps calls (put_connection c a)" "keeps calls (set_connected c)"
  unfolding put_connection_def set_connected_def by (rule keeps_command, simp)+

lemma keeps_hedging [simp]: "keeps calls (assertEnvironmentHedging cfg env)"
  unfolding assertEnvironmentHedging_def by (intro keeps_bind) (auto split: option.split)

lemma keeps_receive [simp]: "keeps calls (receive_answer cfg oc key rp)"
  unfolding receive_answer_def
  by (auto intro!: keeps_bind keeps_command simp: landed_def remember_open_def split: reply.splits option.splits)

lemma keeps_send: "order_kept calls b \<Longrightarrow> keeps calls (send_order b)"
  unfolding send_order_def by (rule upholds_command) (simp add: orders_inv_def)

lemma keeps_submit: "order_kept calls b \<Longrightarrow> keeps calls (submit_order cfg oc b rp)"
  unfolding submit_order_def Let_def
  by (intro keeps_bind keeps_query keeps_adopt) (auto intro!: keeps_bind keeps_send split: option.split)

lemma keeps_open_checked:
  assumes "iv_valid (validateInstrumentMetadata (oq_instrument req))" and "Call_open cfg env oc req rp \<in> calls"
  shows "keeps calls (open_checked cfg oc req rp sy)"
  unfolding open_checked_def
  by (auto intro!: keeps_bind keeps_submit planned_order [OF _ assms] split: option.split sum.split)

lemma keeps_open:
  assumes "Call_open cfg env oc req rp \<in> calls"
  shows "keeps calls (openMarketPosition cfg env oc req rp)"
  unfolding openMarketPosition_def Let_def
  by (intro keeps_bind keeps_hedging keeps_query)
    (auto intro!: keeps_bind keeps_open_checked [OF _ assms] split: option.split reply.split)

lemma keeps_modify [simp]: "keeps calls (modifyPosition cfg env m rp)"
  unfolding modifyPosition_def getOpenPositions_def getLiveSymbol_def getQuote_def send_modify_def
  by (intro keeps_bind keeps_hedging) (auto intro!: keeps_bind keeps_command split: option.split reply.split)

lemma keeps_close [simp]: "keeps calls (closePosition cfg env ident r)"
  unfolding closePosition_def
  by (intro keeps_bind keeps_hedging) (auto intro!: keeps_bind keeps_command split: option.split reply.split)

lemma keeps_account [simp]: "keeps calls (getAccount cfg env r)" "keeps calls (getOrConnectMt5Adapter cfg env ping r)"
  "keeps calls disconnect"
  unfolding getAccount_def getOrConnectMt5Adapter_def connect_def disconnect_def fetchAccount_def
  by (auto intro!: keeps_bind keeps_command split: reply.split sum.split bool.split)

lemma keeps_dry_run [simp]: "keeps calls (preflightTestTrade cfg env dir sl tp lots sy q now)"
  unfolding preflightTestTrade_def getLiveSymbol_def
  by (auto intro!: keeps_bind split: sum.split)

lemma keeps_call: "c \<in> calls \<Longrightarrow> keeps calls (serve_call t c)"
  by (cases c) (simp_all add: keeps_discard keeps_open)

interpretation calls: guarded_system serve_call calls "orders_inv calls" "\<lambda>_. any_step" "\<lambda>_. any_step" any_step
  for calls
  by unfold_locales (simp_all add: keeps_call)


subsection \<open>One call alone\<close>

text \<open>The account under which an order may be sent: the one of the environment, with hedging, and the configured
  login, if any.\<close>

definition account_fits :: "adapter_config \<Rightarrow> string \<Rightarrow> mt5_account \<Rightarrow> bool" where
  "account_fits cfg env a \<longleftrightarrow>
     ac_tradeMode a = (if env = ''demo'' then ''DEMO'' else ''REAL'') \<and> ac_marginMode a = ''HEDGING'' \<and>
     (\<forall>l. dc_expectedLogin cfg = Some l \<and> l \<noteq> [] \<longrightarrow> ac_login a = l)"

lemma truthy_Some: "truthy (Some l) \<longleftrightarrow> l \<noteq> []"
  by (cases l) simp_all

lemma hedging_passes:
  assumes "hedging_failure cfg env w = None"
  shows "\<exists>a. w_account w = Some a \<and> w_connected w \<and> account_fits cfg env a"
proof -
  obtain a where a: "w_account w = Some a" "w_connected w"
    "er_ok (validateMt5ExecutionEnvironment (guard_of cfg env a))" "ac_marginMode a = ''HEDGING''"
    using assms by (auto simp: hedging_failure_def Let_def assertMt5HedgingMode_def split: option.splits if_splits)
  have "account_fits cfg env a"
    using a(3,4)
    by (auto simp: account_fits_def validateMt5ExecutionEnvironment_def Let_def guard_of_def assertMt5DemoAccount_def
        assertMt5LiveAccount_def allowlist_reasons_def account_info.truncate_def truthy_Some split: if_splits)
  with a show ?thesis by blast
qed

lemma exec_adopt:
  assumes "exec (tryAdoptOpenByIdempotency cfg oc key r) w = Some (w', x)"
  shows "w_orders w' = w_orders w \<and> w_inFlightOpens w' = w_inFlightOpens w \<and>
    (\<exists>y. x = Inr y \<and> (\<forall>z. y = Some z \<longrightarrow> w_completedOpens w' key = Some z))"
  using assms unfolding tryAdoptOpenByIdempotency_def
  by (auto simp: remember_open_def split: reply.splits option.splits)

lemma exec_receive:
  assumes "exec (receive_answer cfg oc key rp) w = Some (w', x)"
  shows "w_orders w' = w_orders w \<and> key \<notin> w_inFlightOpens w' \<and>
    (\<forall>z. x = Inr (Inr z) \<longrightarrow> w_completedOpens w' key = Some z)"
  using assms unfolding receive_answer_def
  by (auto simp: landed_def remember_open_def split: reply.splits option.splits sum.splits if_splits dest!: exec_adopt)

lemma exec_submit:
  assumes "exec (submit_order cfg oc b rp) w = Some (w', x)" and "bo_idempotencyKey b = key"
  shows "(w_orders w' = w_orders w \<or> w_orders w' = w_orders w @ [b] \<and> key \<notin> w_inFlightOpens w \<and> key \<notin> w_inFlightOpens w') \<and>
    (\<forall>z. x = Inr (Inr z) \<longrightarrow> w_completedOpens w' key = Some z)"
  using assms unfolding submit_order_def send_order_def
  by (auto split: option.splits sum.splits if_splits dest!: exec_adopt exec_receive)


subsection \<open>Concrete calls\<close>

definition test_instrument :: instrument where
  "test_instrument =
     \<lparr>inst_symbol = ''V10'', enabled = True, verified = True, contractSize = 1, volumeStep = 1, minVolume = 1,
      maxVolume = 10, tickSize = Fin (1 / 100), tickValue = Fin (1 / 100), marginRate = 1, spreadBps = Some 0,
      slippageBps = Some 0, pricePrecision = 2, currency = ''USD''\<rparr>"

definition test_symbol :: symbol_info where
  "test_symbol =
     \<lparr>sy_name = ''V10'', sy_digits = 2, sy_point = Fin (1 / 100), sy_tickSize = Fin (1 / 100), sy_tickValue = Fin (1 / 100),
      sy_contractSize = 1, sy_volumeMin = 1, sy_volumeMax = 10, sy_volumeStep = 1, sy_stopsLevel = Some 50,
      sy_freezeLevel = Some 0, sy_tradeMode = ''FULL'', sy_tradeAllowed = True, sy_fillingModeMask = None,
      sy_fillingModes = Some [''FOK''], sy_fillingMode = None, sy_marginInitial = None, sy_bid = Some 100, sy_ask = Some 101\<rparr>"

definition test_config :: adapter_config where
  "test_config =
     \<lparr>dc_requireDemoAccount = True, dc_executionEnvironment = Some ''demo'', dc_maxQuoteAgeMs = 1000, dc_maxTestVolume = 5,
      dc_maxTestRiskPercent = 5, dc_magic = 7, dc_expectedBroker = None, dc_expectedServer = None,
      dc_expectedLogin = Some ''42'', dc_expectedEnvironment = Some ''demo''\<rparr>"

definition test_account :: mt5_account where
  "test_account =
     \<lparr>ac_tradeMode = ''DEMO'', ac_marginMode = ''HEDGING'', ac_login = ''42'', ac_company = ''Broker'', ac_server = ''Demo'',
      ma_currency = ''USD'', ma_balance = 1000, ma_equity = 1000\<rparr>"

definition test_request :: "string \<Rightarrow> order_request" where
  "test_request key =
     \<lparr>oq_idempotencyKey = key, oq_symbol = ''V10'', oq_direction = BUY, oq_volume = 2, oq_stopLoss = 90,
      oq_takeProfit = Some 120, oq_quote = \<lparr>mq_bid = 100, mq_ask = 101, mq_timestamp = 0\<rparr>, oq_instrument = test_instrument\<rparr>"

definition test_fill :: open_fill where
  "test_fill = \<lparr>fl_positionTicket = ''9'', fl_orderTicket = ''8'', fl_dealTicket = None, fl_fillPrice = 101, fl_volume = 2\<rparr>"

definition test_replies :: open_replies where
  "test_replies =
     \<lparr>or_now = 5, or_symbol = Answer test_symbol, or_before = Answer [], or_answer = Answer test_fill, or_after = Answer []\<rparr>"

definition idle_world :: "db \<Rightarrow> world" where
  "idle_world d =
     \<lparr>w_db = d, w_runtime = (\<lambda>_. \<lparr>rt_lastReconcileOkAt = None, rt_lastReconcileError = None, rt_lastCreatedExpirySweepAt = None,
        rt_hasAdapter = True\<rparr>),
      w_connected = True, w_account = Some test_account, w_completedOpens = (\<lambda>_. None), w_inFlightOpens = {},
      w_closedResults = (\<lambda>_. None), w_orders = [], w_modifies = [], w_closes = []\<rparr>"

abbreviation test_open :: "string \<Rightarrow> mt5_call" where
  "test_open key \<equiv> Call_open test_config ''demo'' (\<lambda>k. k) (test_request key) test_replies"

text \<open>The order of the test request.\<close>

definition test_order :: "string \<Rightarrow> bridge_order" where
  "test_order key =
     \<lparr>bo_symbol = ''V10'', bo_direction = BUY, bo_volume = 2, bo_stopLoss = 90, bo_takeProfit = 120, bo_comment = key,
      bo_magic = 7, bo_idempotencyKey = key, bo_fillingMode = FOK\<rparr>"

lemma test_fields:
  "oq_idempotencyKey (test_request key) = key" "oq_instrument (test_request key) = test_instrument"
  "oq_direction (test_request key) = BUY" "or_symbol test_replies = Answer test_symbol"
  "bo_idempotencyKey (test_order key) = key" "or_before test_replies = Answer []" "or_answer test_replies = Answer test_fill"
  by (simp_all add: test_request_def test_replies_def test_order_def)

lemma test_checks:
  "iv_valid (validateInstrumentMetadata test_instrument)"
  "isQuoteFresh (Some (mq_timestamp (oq_quote (test_request key)))) (Fin (of_int (or_now test_replies)))
     (dc_maxQuoteAgeMs test_config)"
  "symbol_refusal BUY test_symbol = None"
  "normalizeLotsToMt5Step (oq_volume (test_request key)) (volume_spec_of test_instrument) =
     Inr \<lparr>nv_lots = Fin 2, nv_mt5Volume = Fin 2, nv_steppedDown = False\<rparr>"
  "plan_order test_config (\<lambda>k. k) (ma_equity test_account) (test_request key) test_symbol (Fin 2) = Inr (test_order key)"
  by code_simp+

lemma test_hedging:
  assumes "w_account w = Some test_account" and "w_connected w"
  shows "hedging_failure test_config ''demo'' w = None"
proof -
  have "er_ok (validateMt5ExecutionEnvironment (guard_of test_config ''demo'' test_account))"
    "assertMt5HedgingMode (ac_marginMode test_account) = Inr ()" by code_simp+
  then show ?thesis using assms by (simp add: hedging_failure_def)
qed

text \<open>The test request passes every check, and what is left is to submit its order.\<close>

lemma test_open_program:
  "openMarketPosition test_config ''demo'' (\<lambda>k. k) (test_request key) test_replies =
     bind (assertEnvironmentHedging test_config ''demo'') (\<lambda>_.
     bind (query (\<lambda>w. w_completedOpens w key)) (\<lambda>cached. case cached of Some r \<Rightarrow> Done (Inr r)
       | None \<Rightarrow> bind (ask (Inr test_symbol)) (\<lambda>sy. open_checked test_config (\<lambda>k. k) (test_request key) test_replies sy)))"
  by (simp add: openMarketPosition_def Let_def test_checks(1,2) test_fields cong: option.case_cong)

lemma test_open_checked:
  "open_checked test_config (\<lambda>k. k) (test_request key) test_replies test_symbol =
     bind (query (\<lambda>w. case w_account w of Some a \<Rightarrow> ma_equity a | None \<Rightarrow> 0)) (\<lambda>equity.
       case plan_order test_config (\<lambda>k. k) equity (test_request key) test_symbol (Fin 2) of
         Inl rs \<Rightarrow> Done (Inl rs)
       | Inr b \<Rightarrow> submit_order test_config (\<lambda>k. k) b test_replies)"
  using test_checks(4) by (simp add: open_checked_def test_checks(3) test_fields)

lemmas test_run = discard_def test_open_program test_open_checked test_checks(5) submit_order_def send_order_def
  receive_answer_def tryAdoptOpenByIdempotency_def findMt5PositionByIdempotency_def assertEnvironmentHedging_def
  test_hedging query_def command_def ask_def test_fields idle_world_def remember_open_def landed_def finished_def Let_def

definition twin_calls :: "mt5_call event list" where
  "twin_calls = [Accept (test_open ''k''), Accept (test_open ''k'')]
     @ List.map Perform [0, 0, 0, 0, 0, 1, 1, 1, 1, 1, 0, 1, 0, 1, 0, 1]"

definition single_file :: "mt5_call event list" where
  "single_file = [Accept (test_open ''k''), Accept (test_open ''k'')]
     @ List.map Perform [0, 0, 0, 0, 0, 0, 0, 0, 1, 1]"




end
