(* ===== verification/Mt5Execution.thy ===== *)
theory Mt5Execution
  imports Mt5Adapter CfdProposals Lifecycle Risk
begin

text \<open>
  The execution of a signal on MetaTrader 5: \<^verbatim>\<open>executeCfdSignal\<close> of
  \<^verbatim>\<open>apps/worker/src/cfd/mt5CfdRuntime.ts\<close>, from the gates to the stored position.  It is one program
  over the world of \<open>Mt5Adapter\<close>, cut into the stages the source has; a stage answers a final result or what the
  next stage needs.  What a call reads from outside the modelled tables (the clock, the bridge, the rows of the
  mapping, profile, lifecycle and engine tables) is a field of \<open>readings\<close>.  Left out: logging, notifications,
  events published, the metadata and the reasons of the stored rows, and the texts of messages, which are stored empty.
\<close>

subsection \<open>Input\<close>

record app_config =
  xc_mt5 :: mt5_config
  xc_maxConcurrentPositions :: int
  xc_maxVolume :: jsnum
  xc_maxRiskPercent :: jsnum
  xc_demoXauMaxRiskPercent :: "jsnum option"
  xc_maxQuoteAgeMs :: jsnum
  xc_lossCooldownMinutes :: jsnum
  xc_demoTradingEnabled :: bool
  xc_adapter :: adapter_config
  xc_environment :: string

record signal_input =
  xi_signalId :: string
  xi_symbol :: string
  xi_strategyId :: string
  xi_interval :: string
  xi_action :: vote_action
  xi_metadata :: metadata
  xi_close :: jsnum
  xi_features :: snapshot
  xi_candles :: "candle list"

record risk_profile =
  pf_volumeOverrideLots :: "jsnum option"
  pf_maxConcurrentPositions :: "int option"
  pf_stopLossDistanceOverride :: "jsnum option"
  pf_riskPerTradePercent :: "jsnum option"
  pf_maxTotalOpenRiskPercent :: "jsnum option"
  pf_minRiskRewardRatio :: "jsnum option"
  pf_minCooldownSeconds :: jsnum
  pf_maxDailyLoss :: jsnum
  pf_maxDailyTrades :: jsnum
  pf_maxConsecutiveLosses :: jsnum

record engine_row =
  en_emergencyStop :: bool
  en_liveTradingArmed :: bool

text \<open>When the market is asked, and when the clock is read.\<close>

datatype market_point = Preflight | Final | Retry nat

datatype moment = Health | Market market_point | Recovering | Risking | Resuming | Creating | Refusing | Submitting nat | Answered

record readings =
  rd_now :: "moment \<Rightarrow> int"
  rd_circuit :: circuit
  rd_mappings :: "string \<Rightarrow> symbol_mapping option"
  rd_profile :: "risk_profile option"
  rd_lifecycle :: "string option"
  rd_engine :: "engine_row option"
  rd_engineNow :: "engine_row option"
  rd_ping :: "unit reply"
  rd_connect :: "mt5_account reply"
  rd_account :: "mt5_account reply"
  rd_instrument :: "symbol_info reply"
  rd_quote :: "market_point \<Rightarrow> market_quote reply"
  rd_symbol :: "market_point \<Rightarrow> symbol_info reply"
  rd_frozenSymbol :: "symbol_info reply"
  rd_open :: "nat \<Rightarrow> open_replies"
  rd_adopt :: "nat \<Rightarrow> bridge_open list reply"
  rd_recover :: "bridge_open list reply"
  rd_thread :: nat
  rd_positionId :: string
  rd_intentId :: string

subsection \<open>Results and stages\<close>

record exec_result =
  xr_opened :: bool
  xr_decisionCode :: string
  xr_requestedVolume :: "jsnum option"
  xr_acceptedVolume :: "jsnum option"

definition refusal :: "string \<Rightarrow> jsnum option \<Rightarrow> exec_result" where
  "refusal code requested =
     \<lparr>xr_opened = False, xr_decisionCode = code, xr_requestedVolume = requested, xr_acceptedVolume = None\<rparr>"

definition opened :: "jsnum option \<Rightarrow> open_result \<Rightarrow> exec_result" where
  "opened requested r =
     \<lparr>xr_opened = True, xr_decisionCode = ''OPENED'', xr_requestedVolume = requested,
      xr_acceptedVolume = map_option bf_volume (ot_position r)\<rparr>"

type_synonym 'a stage = "(world, exec_result + 'a) prog"

definition stop_with :: "string \<Rightarrow> 'a stage" where
  "stop_with code = Done (Inl (refusal code None))"

definition proceed :: "'a stage \<Rightarrow> ('a \<Rightarrow> 'b stage) \<Rightarrow> 'b stage" where
  "proceed p k = bind p (\<lambda>r. case r of Inl x \<Rightarrow> Done (Inl x) | Inr y \<Rightarrow> k y)"

text \<open>An exception that is no error of the bridge.\<close>

definition program_error :: db_error where
  "program_error = Bridge_failure MT5_BRIDGE_UNAVAILABLE"

subsection \<open>Health and gates\<close>

definition RECONCILE_STALE_MS :: int where "RECONCILE_STALE_MS = 60000"

definition executionBlockIfUnhealthy :: "circuit \<Rightarrow> runtime \<Rightarrow> int \<Rightarrow> string option" where
  "executionBlockIfUnhealthy c rt now =
     (if circuitState (Circuit.snapshot c) = OPEN then Some MT5_BRIDGE_UNHEALTHY
      else if \<not> some_and (rt_lastReconcileOkAt rt) (\<lambda>t. now - t < RECONCILE_STALE_MS)
      then Some ''RECONCILIATION_UNAVAILABLE''
      else None)"

definition mt5MappingExecutionMode :: "app_config \<Rightarrow> string" where
  "mt5MappingExecutionMode cfg =
     (if mc_EXECUTION_MODE (xc_mt5 cfg) = ''broker_real_mt5'' then ''broker_real_mt5'' else ''broker_demo_mt5'')"

definition loadMapping :: "app_config \<Rightarrow> readings \<Rightarrow> (world, symbol_mapping option) prog" where
  "loadMapping cfg rd =
     (let preferred = mt5MappingExecutionMode cfg
      in bind (ask (Inr (rd_mappings rd preferred))) (\<lambda>p.
           if p \<noteq> None then Done p
           else ask (Inr (rd_mappings rd
                  (if preferred = ''broker_real_mt5'' then ''broker_demo_mt5'' else ''broker_real_mt5'')))))"

definition loadLifecycle :: "string option \<Rightarrow> string" where
  "loadLifecycle row = or_default row ''EXPERIMENTAL''"

text \<open>What the gates leave to the later stages.\<close>

record admission =
  gs_profile :: "risk_profile option"
  gs_maxConcurrent :: int
  gs_ownedCount :: nat
  gs_lifecycle :: "string option"
  gs_mapping :: "symbol_mapping option"
  gs_brokerSymbol :: string

definition action_name :: "vote_action \<Rightarrow> string" where
  "action_name a = (case a of VBUY \<Rightarrow> ''BUY'' | VSELL \<Rightarrow> ''SELL'' | VHOLD \<Rightarrow> ''HOLD'')"

definition holds_slot :: "position_row option \<Rightarrow> bool" where
  "holds_slot p \<longleftrightarrow> some_and p (\<lambda>r. ps_status r \<in> {''PENDING'', ''OPEN'', ''OPEN_REQUESTED'', ''CLOSE_REQUESTED''})"

definition submission_of ::
  "app_config \<Rightarrow> signal_input \<Rightarrow> nat \<Rightarrow> string option \<Rightarrow> symbol_mapping option \<Rightarrow> int \<Rightarrow> bool option \<Rightarrow>
   submission_order option \<Rightarrow> submission" where
  "submission_of cfg x owned lc mapping eff armed ord =
     \<lparr>sb_config = xc_mt5 cfg, sb_symbol = xi_symbol x, sb_strategyId = xi_strategyId x,
      sb_openOwnedCount = Fin (of_nat owned), sb_lifecycle = lc, sb_mapping = mapping,
      sb_effectiveMaxConcurrentPositions = Some (Fin (of_int eff)), sb_liveTradingArmed = armed, sb_liveOrder = ord\<rparr>"

definition gate_stage :: "app_config \<Rightarrow> string \<Rightarrow> signal_input \<Rightarrow> readings \<Rightarrow> admission stage" where
  "gate_stage cfg u x rd =
     bind (loadMapping cfg rd) (\<lambda>mapping.
     bind (ask (Inr (rd_profile rd))) (\<lambda>profile.
     bind (lift (query (countMt5ConsumedCapacitySlots u))) (\<lambda>openOwned.
     bind (lift (query (find_position_by_key (executionIntentIdempotencyKey (xi_signalId x))))) (\<lambda>existing.
     bind (ask (Inr (Some (loadLifecycle (rd_lifecycle rd))))) (\<lambda>lc.
       let mapped = resolveBrokerSymbolMapping (xi_symbol x) mapping;
           eff = resolveMt5EffectiveMaxConcurrentPositions (Option.bind profile pf_maxConcurrentPositions)
                   (xc_maxConcurrentPositions cfg);
           owned = (if holds_slot existing then openOwned - 1 else openOwned);
           g = gateMt5EngineSubmission (submission_of cfg x owned lc mapping eff None None)
       in if \<not> ga_allowed g
          then stop_with (autonomousDecisionFromGate (action_name (xi_action x)) (ga_decisionCode g))
          else case rs_brokerSymbol mapped of
                 None \<Rightarrow> stop_with ''BROKER_SYMBOL_MAPPING_MISSING''
               | Some b \<Rightarrow>
                   if b = [] then stop_with ''BROKER_SYMBOL_MAPPING_MISSING''
                   else Done (Inr \<lparr>gs_profile = profile, gs_maxConcurrent = eff, gs_ownedCount = owned,
                          gs_lifecycle = lc, gs_mapping = mapping, gs_brokerSymbol = b\<rparr>))))))"

definition entry_stage :: "app_config \<Rightarrow> string \<Rightarrow> signal_input \<Rightarrow> readings \<Rightarrow> admission stage" where
  "entry_stage cfg u x rd =
     (case assertCfdExecutionReachable (xc_mt5 cfg) of
        Inl _ \<Rightarrow> Throw program_error
      | Inr _ \<Rightarrow>
          if \<not> isCfdCapableStrategy (xi_strategyId x) then stop_with ''NO_TRADE''
          else if xi_action x = VHOLD then stop_with ''STRATEGY_HOLD''
          else bind (query (\<lambda>w. executionBlockIfUnhealthy (rd_circuit rd) (w_runtime w u) (rd_now rd Health))) (\<lambda>b.
                 case b of Some code \<Rightarrow> stop_with code | None \<Rightarrow> gate_stage cfg u x rd))"

subsection \<open>Instrument and proposal\<close>

definition obtain_adapter :: "app_config \<Rightarrow> string \<Rightarrow> readings \<Rightarrow> (world, unit) prog" where
  "obtain_adapter cfg u rd =
     bind (query (\<lambda>w. rt_hasAdapter (w_runtime w u))) (\<lambda>has.
       if has then Done ()
       else bind (getOrConnectMt5Adapter (xc_adapter cfg) (xc_environment cfg) (rd_ping rd) (rd_connect rd)) (\<lambda>_.
            command (\<lambda>w. (w\<lparr>w_runtime := (w_runtime w)(u := (w_runtime w u)\<lparr>rt_hasAdapter := True\<rparr>)\<rparr>, ()))))"

definition instrument_stage :: "app_config \<Rightarrow> string \<Rightarrow> readings \<Rightarrow> instrument stage" where
  "instrument_stage cfg u rd =
     bind (obtain_adapter cfg u rd) (\<lambda>_.
     bind (query (\<lambda>w. case w_account w of Some a \<Rightarrow> ma_currency a | None \<Rightarrow> ''USD'')) (\<lambda>ccy.
     bind (getInstrumentMetadata ccy (rd_instrument rd)) (\<lambda>live.
       case live of
         None \<Rightarrow> stop_with ''INSTRUMENT_METADATA_MISSING''
       | Some inst \<Rightarrow>
           if \<not> enabled inst \<or> \<not> verified inst then stop_with ''INSTRUMENT_METADATA_MISSING''
           else Done (Inr inst))))"

text \<open>The proposal of the strategy at the close of the candle, under the stop distance the trader may have fixed.\<close>

definition propose_entry :: "signal_input \<Rightarrow> instrument \<Rightarrow> proposal option" where
  "propose_entry x inst =
     proposeCfdStopTarget (xi_strategyId x)
       \<lparr>co_tickSize = tickSize inst, co_targetRMultiple = None, co_stopAtrMultiple = None, co_structureBufferAtr = None,
        co_structureBufferTicks = None, co_minRiskRewardRatio = None\<rparr>
       (CfdProposals.proposal_input.make (if xi_action x = VBUY then BUY else SELL) (xi_close x) (xi_features x)
          (xi_candles x) (xi_metadata x))"

definition override_stop :: "jsnum \<Rightarrow> jsnum option \<Rightarrow> proposal \<Rightarrow> proposal" where
  "override_stop entry distance p =
     (case applyStopLossDistanceOverride (sp_direction p) entry (sp_stopLoss p) distance of
        (stop, True, Some d) \<Rightarrow> p\<lparr>sp_stopLoss := stop, sp_stopDistance := d\<rparr>
      | _ \<Rightarrow> p)"

definition write_proposal :: "proposal \<Rightarrow> signal_row \<Rightarrow> signal_row" where
  "write_proposal p s =
     s\<lparr>sg_proposedEntryPrice := Some (sp_entryPrice p), sg_stopLoss := Some (sp_stopLoss p),
       sg_takeProfit := sp_takeProfit p, sg_stopDistance := Some (sp_stopDistance p),
       sg_targetDistance := sp_targetDistance p, sg_riskRewardRatio := sp_riskRewardRatio p\<rparr>"

definition proposal_stage :: "signal_input \<Rightarrow> admission \<Rightarrow> instrument \<Rightarrow> proposal stage" where
  "proposal_stage x gs inst =
     (case propose_entry x inst of
        None \<Rightarrow> stop_with ''STOP_INVALID''
      | Some raw \<Rightarrow>
          let p = override_stop (xi_close x) (Option.bind (gs_profile gs) pf_stopLossDistanceOverride) raw
          in bind (lift (query (\<lambda>d. find (\<lambda>s. sg_id s = xi_signalId x) (db_signals d)))) (\<lambda>_.
             bind (lift (attempt (update_signal_row (xi_signalId x) (write_proposal p)))) (\<lambda>_. Done (Inr p))))"

subsection \<open>The market before the order\<close>

definition fill_price :: "direction \<Rightarrow> market_quote \<Rightarrow> jsnum" where
  "fill_price dir q = (if dir = BUY then mq_ask q else mq_bid q)"

text \<open>The stops as the adaptation sees them: the metadata of the live symbol, or of the instrument.\<close>

definition stops_at ::
  "direction \<Rightarrow> jsnum \<Rightarrow> jsnum \<Rightarrow> market_quote \<Rightarrow> instrument \<Rightarrow> symbol_info option \<Rightarrow> jsnum \<Rightarrow> adapt_input" where
  "stops_at dir sl tp q inst sy R =
     (let live = map_option live_of sy
      in \<lparr>ai_stops = \<lparr>sv_direction = dir, sv_stopLoss = sl, sv_takeProfit = tp, sv_bid = mq_bid q, sv_ask = mq_ask q,
                       sv_point = Option.bind live lv_point,
                       sv_tickSize = Some (or_default (Option.bind live lv_tickSize) (tickSize inst)),
                       sv_digits = Some (or_default (Option.bind live lv_digits) (pricePrecision inst)),
                       sv_stopsLevel = Option.bind live lv_stopsLevel,
                       sv_freezeLevel = Option.bind live lv_freezeLevel\<rparr>,
          ai_entryPrice = fill_price dir q, ai_targetRMultiple = R, ai_safetyTicks = None\<rparr>)"

definition intended_R :: "proposal \<Rightarrow> jsnum" where
  "intended_R p = (case sp_riskRewardRatio p of Some r \<Rightarrow> if is_finite r \<and> 0 < r then r else 2 | None \<Rightarrow> 2)"

definition stop_code :: "string option \<Rightarrow> string" where
  "stop_code reason =
     (if reason = Some MT5_STOP_METADATA_UNAVAILABLE then MT5_STOP_METADATA_UNAVAILABLE
      else MT5_INVALID_STOP_DISTANCE_PRECHECK)"

text \<open>A stop and a target the broker accepts, for the direction and multiple of the strategy.\<close>

record adapted =
  ap_direction :: direction
  ap_intendedR :: jsnum
  ap_stopLoss :: jsnum
  ap_takeProfit :: jsnum
  ap_stopDistance :: jsnum
  ap_targetDistance :: jsnum
  ap_brokerAdjusted :: bool
  ap_quoted :: market_quote

definition adapted_of :: "proposal \<Rightarrow> market_quote \<Rightarrow> adapt_result \<Rightarrow> adapted option" where
  "adapted_of p q a =
     (case (ar_adjustedStopLoss a, ar_adjustedTakeProfit a) of
        (Some sl, Some tp) \<Rightarrow>
          if \<not> ar_ok a then None
          else Some \<lparr>ap_direction = sp_direction p, ap_intendedR = intended_R p, ap_stopLoss = sl, ap_takeProfit = tp,
                 ap_stopDistance = or_default (ar_adjustedStopDistance a) (js_abs (fill_price (sp_direction p) q - sl)),
                 ap_targetDistance = js_abs (tp - fill_price (sp_direction p) q),
                 ap_brokerAdjusted = ar_brokerAdjusted a, ap_quoted = q\<rparr>
      | _ \<Rightarrow> None)"

definition preflight_stage :: "app_config \<Rightarrow> string \<Rightarrow> readings \<Rightarrow> instrument \<Rightarrow> proposal \<Rightarrow> adapted stage" where
  "preflight_stage cfg u rd inst p =
     bind (obtain_adapter cfg u rd) (\<lambda>_.
     bind (getQuote (xc_adapter cfg) (rd_now rd (Market Preflight)) (rd_quote rd Preflight)) (\<lambda>quote.
       case quote of
         None \<Rightarrow> stop_with ''QUOTE_STALE''
       | Some q \<Rightarrow>
           bind (getLiveSymbol (rd_symbol rd Preflight)) (\<lambda>live.
             case adaptMt5BrokerStops (stops_at (sp_direction p) (sp_stopLoss p) (or_default (sp_takeProfit p) NaN) q inst
                    live (intended_R p)) of
               None \<Rightarrow> diverge
             | Some a \<Rightarrow>
                 (case adapted_of p q a of
                    None \<Rightarrow> stop_with (stop_code (ar_reasonCode a))
                  | Some y \<Rightarrow> Done (Inr y)))))"

subsection \<open>Size\<close>

record sized = adapted +
  zs_account :: mt5_account
  zs_riskPercent :: jsnum
  zs_limits :: cfd_limits
  zs_riskReward :: "jsnum option"
  zs_volume :: jsnum
  zs_requested :: jsnum
  zs_riskAmount :: jsnum

definition MT5_BROKER_ADJUSTED_STOP_RISK_BLOCKED :: string where
  "MT5_BROKER_ADJUSTED_STOP_RISK_BLOCKED = ''MT5_BROKER_ADJUSTED_STOP_RISK_BLOCKED''"

definition risk_percent :: "app_config \<Rightarrow> signal_input \<Rightarrow> risk_profile option \<Rightarrow> jsnum" where
  "risk_percent cfg x profile =
     js_min (or_default (Option.bind profile pf_riskPerTradePercent) (Fin (1 / 2)))
       (rc_selectedRiskCap (resolveMt5EngineRiskCap
          \<lparr>rc_executionMode = mc_EXECUTION_MODE (xc_mt5 cfg), rc_symbol = xi_symbol x, rc_interval = xi_interval x,
           rc_strategyId = xi_strategyId x, rc_globalCap = xc_maxRiskPercent cfg,
           rc_demoXauCap = xc_demoXauMaxRiskPercent cfg\<rparr>))"

definition limits_of :: "jsnum \<Rightarrow> admission \<Rightarrow> cfd_limits" where
  "limits_of pct gs =
     resolveCfdRiskLimits (Some pct) (Option.bind (gs_profile gs) pf_maxTotalOpenRiskPercent)
       (Some (Fin (of_int (gs_maxConcurrent gs)))) (Option.bind (gs_profile gs) pf_minRiskRewardRatio)"

definition raw_sizing ::
  "mt5_account \<Rightarrow> cfd_limits \<Rightarrow> direction \<Rightarrow> jsnum \<Rightarrow> jsnum \<Rightarrow> instrument \<Rightarrow> sizing_reason + jsnum \<times> jsnum \<times> jsnum" where
  "raw_sizing acc limits dir entry sl inst =
     calculateRaw \<lparr>si_equity = ma_equity acc, si_direction = dir, si_entryPrice = entry, si_stopLoss = sl,
                   si_riskPercent = riskPerTradePercent limits, si_instrument = inst\<rparr>"

text \<open>The lot size the trader fixed, when it is positive, or the risk-sized volume.\<close>

definition engine_volume ::
  "app_config \<Rightarrow> risk_profile option \<Rightarrow> mt5_account \<Rightarrow> cfd_limits \<Rightarrow> direction \<Rightarrow> jsnum \<Rightarrow> jsnum \<Rightarrow> instrument \<Rightarrow> jsnum \<Rightarrow>
   string + volume_decision" where
  "engine_volume cfg profile acc limits dir entry sl inst raw =
     (let inp = (\<lambda>v. \<lparr>vi_equity = ma_equity acc, vi_riskPerTradePercent = riskPerTradePercent limits, vi_riskSizedVolume = v,
                      vi_direction = dir, vi_entryPrice = entry, vi_stopLoss = sl, vi_instrument = inst,
                      vi_engineMaxVolume = xc_maxVolume cfg\<rparr>)
      in case Option.bind profile pf_volumeOverrideLots of
           Some lots \<Rightarrow> if 0 < lots then resolveMt5FixedVolumeOverride (inp lots) else resolveMt5EngineVolume (inp raw)
         | None \<Rightarrow> resolveMt5EngineVolume (inp raw))"

definition volume_reason_code :: "string option \<Rightarrow> string" where
  "volume_reason_code r =
     (if r = Some MIN_VOLUME_EXCEEDS_RISK \<or> r = Some BROKER_MIN_VOLUME_EXCEEDS_ENGINE_MAX_VOLUME \<or> r = Some ''STOP_INVALID''
      then or_default r [] else ''RISK_BLOCKED'')"

definition preflight_volume_code :: "bool \<Rightarrow> string option \<Rightarrow> string" where
  "preflight_volume_code adjusted r =
     (if adjusted \<and> (r = Some MIN_VOLUME_EXCEEDS_RISK \<or> volume_reason_code r = ''RISK_BLOCKED'')
      then MT5_BROKER_ADJUSTED_STOP_RISK_BLOCKED else volume_reason_code r)"

definition refreshed_volume_code :: "bool \<Rightarrow> string option \<Rightarrow> string" where
  "refreshed_volume_code adjusted r =
     (if adjusted \<and> (r = Some MIN_VOLUME_EXCEEDS_RISK \<or> r = Some ''RISK_BLOCKED'')
      then MT5_BROKER_ADJUSTED_STOP_RISK_BLOCKED else volume_reason_code r)"

definition sizing_code :: "bool \<Rightarrow> string" where
  "sizing_code adjusted = (if adjusted then MT5_BROKER_ADJUSTED_STOP_RISK_BLOCKED else ''RISK_BLOCKED'')"

text \<open>The outcome of sizing: volume, volume asked for and risk amount, a refusal with its code and the volume asked
  for, or the error that the instrument has no volume step.\<close>

datatype size_outcome = Sized jsnum jsnum jsnum | Size_refused string "jsnum option" | Size_error

definition size_order ::
  "(bool \<Rightarrow> string option \<Rightarrow> string) \<Rightarrow> app_config \<Rightarrow> risk_profile option \<Rightarrow> mt5_account \<Rightarrow> cfd_limits \<Rightarrow> direction \<Rightarrow>
   jsnum \<Rightarrow> jsnum \<Rightarrow> bool \<Rightarrow> instrument \<Rightarrow> size_outcome" where
  "size_order code cfg profile acc limits dir entry sl adjusted inst =
     (case raw_sizing acc limits dir entry sl inst of
        Inl _ \<Rightarrow> Size_refused (sizing_code adjusted) None
      | Inr (raw, riskAmount, perUnitLoss) \<Rightarrow>
          (case engine_volume cfg profile acc limits dir entry sl inst raw of
             Inl _ \<Rightarrow> Size_error
           | Inr vd \<Rightarrow>
               (case vd_finalVolume vd of
                  Some v \<Rightarrow>
                    if \<not> vd_wouldSubmit vd then Size_refused (code adjusted (vd_reasonCode vd)) (Some (vd_riskSizedVolume vd))
                    else Sized v (vd_riskSizedVolume vd) (roundMoney (perUnitLoss * v))
                | None \<Rightarrow> Size_refused (code adjusted (vd_reasonCode vd)) (Some (vd_riskSizedVolume vd)))))"

definition sizing_stage ::
  "app_config \<Rightarrow> signal_input \<Rightarrow> readings \<Rightarrow> admission \<Rightarrow> instrument \<Rightarrow> adapted \<Rightarrow> sized stage" where
  "sizing_stage cfg x rd gs inst ap =
     bind (getAccount (xc_adapter cfg) (xc_environment cfg) (rd_account rd)) (\<lambda>acc.
       let pct = risk_percent cfg x (gs_profile gs);
           limits = limits_of pct gs;
           entry = fill_price (ap_direction ap) (ap_quoted ap);
           check = validate_stops (ap_direction ap) entry (ap_stopLoss ap) (Some (ap_takeProfit ap)) limits None
       in if \<not> sv_valid check then stop_with ''STOP_INVALID''
          else case size_order preflight_volume_code cfg (gs_profile gs) acc limits (ap_direction ap) entry (ap_stopLoss ap)
                      (ap_brokerAdjusted ap) inst of
                 Size_error \<Rightarrow> Throw program_error
               | Size_refused code requested \<Rightarrow> Done (Inl (refusal code requested))
               | Sized v requested riskAmount \<Rightarrow>
                   Done (Inr (adapted.extend ap
                     (sized.fields acc pct limits (sv_riskReward check) v requested riskAmount))))"

definition write_sized :: "sized \<Rightarrow> signal_row \<Rightarrow> signal_row" where
  "write_sized z s =
     s\<lparr>sg_proposedVolume := Some (zs_volume z),
       sg_proposedEntryPrice := Some (fill_price (ap_direction z) (ap_quoted z)), sg_stopLoss := Some (ap_stopLoss z),
       sg_takeProfit := Some (ap_takeProfit z), sg_stopDistance := Some (ap_stopDistance z),
       sg_targetDistance := Some (ap_targetDistance z), sg_riskRewardRatio := Some (ap_intendedR z)\<rparr>"

subsection \<open>The duplicate guard\<close>

text \<open>What the guard leaves: the rows of the signal, and whether its created intent is to be resumed.\<close>

record guarded_rows =
  du_position :: "position_row option"
  du_intent :: "intent_row option"
  du_resume :: bool

definition recover_from_broker ::
  "app_config \<Rightarrow> (string \<Rightarrow> string) \<Rightarrow> intent_row \<Rightarrow> string \<Rightarrow> bridge_open list reply \<Rightarrow> int \<Rightarrow> (world, open_result option) prog" where
  "recover_from_broker cfg orderComment t pid r now =
     bind (tryAdoptOpenByIdempotency (xc_adapter cfg) orderComment (it_idempotencyKey t) r) (\<lambda>adopted.
       lift (tryRecoverExecutionIntentFromBroker t pid adopted now))"

definition prevented :: "position_row option \<Rightarrow> exec_result" where
  "prevented p =
     \<lparr>xr_opened = some_and p (\<lambda>r. ps_status r = ''OPEN''), xr_decisionCode = ''NO_TRADE'', xr_requestedVolume = None,
      xr_acceptedVolume = None\<rparr>"

definition duplicate_stage ::
  "app_config \<Rightarrow> (string \<Rightarrow> string) \<Rightarrow> signal_input \<Rightarrow> readings \<Rightarrow> guarded_rows stage" where
  "duplicate_stage cfg orderComment x rd =
     bind (lift (query (find_position_by_key (executionIntentIdempotencyKey (xi_signalId x))))) (\<lambda>existing.
     bind (lift (query (findExecutionIntentBySignal (xi_signalId x)))) (\<lambda>intent.
       case shouldBlockDuplicateExecution intent existing of
         Block_duplicate _ \<Rightarrow>
           (case (existing, intent) of
              (Some p, Some t) \<Rightarrow>
                if ps_status p = ''PENDING''
                then bind (recover_from_broker cfg orderComment t (ps_id p) (rd_recover rd) (rd_now rd Recovering)) (\<lambda>r.
                       case r of
                         Some a \<Rightarrow>
                           if ot_accepted a then bind recordPositionEvent (\<lambda>_. Done (Inl (opened None a)))
                           else Done (Inl (prevented existing))
                       | None \<Rightarrow> Done (Inl (prevented existing)))
                else Done (Inl (prevented existing))
            | _ \<Rightarrow> Done (Inl (prevented existing)))
       | Resume_before_submit \<Rightarrow>
           Done (Inr \<lparr>du_position = existing, du_intent = intent, du_resume = True\<rparr>)
       | No_duplicate \<Rightarrow>
           Done (Inr \<lparr>du_position = existing, du_intent = intent, du_resume = False\<rparr>)))"

subsection \<open>The risk manager\<close>

definition sum_numbers :: "jsnum option list \<Rightarrow> jsnum" where
  "sum_numbers xs = foldl (\<lambda>acc v. acc + or_default v 0) 0 xs"

definition positions_with :: "string \<Rightarrow> string \<Rightarrow> db \<Rightarrow> position_row list" where
  "positions_with u status d = filter (\<lambda>p. ps_userId p = u \<and> ps_status p = status) (db_positions d)"

definition closed_today :: "string \<Rightarrow> int \<Rightarrow> db \<Rightarrow> position_row list" where
  "closed_today u now d =
     filter (\<lambda>p. some_and (ps_closedAt p) (\<lambda>t. utcDayStart now \<le> t)) (positions_with u ''CLOSED'' d)"

text \<open>The last ten closed positions, latest first; the database puts missing times first.\<close>

definition recent_closed :: "string \<Rightarrow> db \<Rightarrow> position_row list" where
  "recent_closed u d =
     (let ps = positions_with u ''CLOSED'' d
      in take 10 (filter (\<lambda>p. ps_closedAt p = None) ps
           @ sort_key (\<lambda>p. - or_default (ps_closedAt p) 0) (filter (\<lambda>p. ps_closedAt p \<noteq> None) ps)))"

text \<open>Rows are stored in the order of their creation.\<close>

definition last_trade :: "string \<Rightarrow> db \<Rightarrow> position_row option" where
  "last_trade u d = find (\<lambda>p. ps_userId p = u) (rev (db_positions d))"

record risk_facts =
  fa_openCount :: nat
  fa_totalOpenRisk :: jsnum
  fa_closedTodayCount :: nat
  fa_dailyRealized :: jsnum
  fa_losses :: nat
  fa_lastLossClosedAt :: "int option"
  fa_lastTradeAt :: "int option"

definition gather_risk :: "string \<Rightarrow> int \<Rightarrow> (world, risk_facts) prog" where
  "gather_risk u now =
     bind (lift (query (positions_with u ''OPEN''))) (\<lambda>openPositions.
     bind (lift (query (closed_today u now))) (\<lambda>closedToday.
     bind (lift (query (recent_closed u))) (\<lambda>recentClosed.
     bind (lift (query (last_trade u))) (\<lambda>lastTrade.
       let (losses, lastLoss) = computeConsecutiveLossStreak
             (List.map (\<lambda>p. \<lparr>realizedPnl = ps_realizedPnl p, closedAt = ps_closedAt p\<rparr>) recentClosed)
       in Done \<lparr>fa_openCount = length openPositions,
                fa_totalOpenRisk = sum_numbers (List.map ps_riskAmount openPositions),
                fa_closedTodayCount = length closedToday,
                fa_dailyRealized = sum_numbers (List.map ps_realizedPnl closedToday),
                fa_losses = losses, fa_lastLossClosedAt = lastLoss,
                fa_lastTradeAt = Option.bind lastTrade ps_openedAt\<rparr>))))"

definition daily_loss_abs :: "jsnum \<Rightarrow> jsnum" where
  "daily_loss_abs realized = (if realized < 0 then js_abs realized else 0)"

definition is_live :: "app_config \<Rightarrow> bool" where
  "is_live cfg \<longleftrightarrow> mc_EXECUTION_MODE (xc_mt5 cfg) = ''broker_real_mt5''"

definition stop_engaged :: "engine_row option \<Rightarrow> bool" where
  "stop_engaged e = some_and e en_emergencyStop"

definition armed :: "engine_row option \<Rightarrow> bool" where
  "armed e = some_and e en_liveTradingArmed"

definition live_submission :: "app_config \<Rightarrow> signal_input \<Rightarrow> admission \<Rightarrow> engine_row option \<Rightarrow> sized \<Rightarrow> risk_facts \<Rightarrow> submission" where
  "live_submission cfg x gs engine z f =
     submission_of cfg x (gs_ownedCount gs) (gs_lifecycle gs) (gs_mapping gs) (gs_maxConcurrent gs) (Some (armed engine))
       (Some \<lparr>so_volume = zs_volume z, so_riskPercent = Some (zs_riskPercent z),
              so_dailyLossAbs = Some (daily_loss_abs (fa_dailyRealized f)), so_equity = Some (ma_equity (zs_account z)),
              so_balance = Some (ma_balance (zs_account z)), so_emergencyStop = stop_engaged engine\<rparr>)"

definition risk_question ::
  "app_config \<Rightarrow> admission \<Rightarrow> engine_row option \<Rightarrow> instrument \<Rightarrow> sized \<Rightarrow> risk_facts \<Rightarrow> int \<Rightarrow> cfd_risk_input" where
  "risk_question cfg gs engine inst z f now =
     (let pr = gs_profile gs
      in \<lparr>cr_limits = Some (zs_limits z), cr_emergencyStop = stop_engaged engine,
          cr_tradingEnabled = (if is_live cfg then armed engine else xc_demoTradingEnabled cfg),
          cr_marketDataFresh = True, cr_instrument = Some inst, cr_equity = ma_equity (zs_account z),
          cr_openPositionCount = Fin (of_nat (fa_openCount f)), cr_totalOpenRiskAmount = fa_totalOpenRisk f,
          cr_dailyRealizedLoss = fa_dailyRealized f, cr_consecutiveLosses = Fin (of_nat (fa_losses f)),
          cr_lastLossClosedAt = fa_lastLossClosedAt f, cr_lastTradeAt = fa_lastTradeAt f,
          cr_minCooldownSeconds = (case pr of Some q \<Rightarrow> pf_minCooldownSeconds q | None \<Rightarrow> 120),
          cr_maxDailyLoss = (case pr of Some q \<Rightarrow> pf_maxDailyLoss q | None \<Rightarrow> 5),
          cr_maxDailyTrades = (case pr of Some q \<Rightarrow> pf_maxDailyTrades q | None \<Rightarrow> 10),
          cr_dailyTradeCount = Fin (of_nat (fa_closedTodayCount f + fa_openCount f)),
          cr_maxConsecutiveLosses = (case pr of Some q \<Rightarrow> pf_maxConsecutiveLosses q | None \<Rightarrow> 3),
          cr_consecutiveLossCooldownMs = Some (xc_lossCooldownMinutes cfg * 60000),
          cr_idempotencyKeyExists = False, cr_stopLossPresent = True, cr_riskRewardRatio = zs_riskReward z,
          cr_volume = Some (zs_volume z), cr_now = now\<rparr>)"

definition risk_stage ::
  "app_config \<Rightarrow> string \<Rightarrow> signal_input \<Rightarrow> readings \<Rightarrow> admission \<Rightarrow> instrument \<Rightarrow> sized \<Rightarrow> risk_facts stage" where
  "risk_stage cfg u x rd gs inst z =
     bind (gather_risk u (rd_now rd Risking)) (\<lambda>f.
     bind (ask (Inr (rd_engine rd))) (\<lambda>engine.
       let g = gateMt5EngineSubmission (live_submission cfg x gs engine z f)
       in if is_live cfg \<and> \<not> ga_allowed g
          then Done (Inl (refusal (autonomousDecisionFromGate (action_name (xi_action x)) (ga_decisionCode g))
                 (Some (zs_requested z))))
          else case cfd_risk_evaluate (risk_question cfg gs engine inst z f (rd_now rd Risking)) of
                 Inl _ \<Rightarrow> stop_with ''RISK_BLOCKED''
               | Inr _ \<Rightarrow> Done (Inr f)))"

subsection \<open>Refusing a reserved order\<close>

text \<open>Once its slot is reserved, a refused order gives it back: the position and the intent are rejected.\<close>

definition fail_closed :: "readings \<Rightarrow> string \<Rightarrow> string \<Rightarrow> string \<Rightarrow> (world, unit) prog" where
  "fail_closed rd pid iid code =
     bind (lift (failClosedPendingExecution pid iid code [] (rd_now rd Refusing))) (\<lambda>_. Done ())"

definition reject_reserved ::
  "readings \<Rightarrow> string \<Rightarrow> string \<Rightarrow> string \<Rightarrow> exec_result \<Rightarrow> 'a stage" where
  "reject_reserved rd pid iid code r =
     bind (fail_closed rd pid iid code) (\<lambda>_. bind recordPositionEvent (\<lambda>_. Done (Inl r)))"

subsection \<open>The order\<close>

text \<open>What is going to be sent: the rows of the reservation and the last accepted parameters.\<close>

record order_plan =
  op_positionId :: string
  op_intent :: intent_row
  op_direction :: direction
  op_brokerSymbol :: string
  op_volume :: jsnum
  op_requested :: jsnum
  op_stopLoss :: jsnum
  op_takeProfit :: jsnum
  op_riskPercent :: jsnum
  op_quote :: market_quote

definition direction_name :: "direction \<Rightarrow> string" where
  "direction_name d = (if d = BUY then ''BUY'' else ''SELL'')"

definition EXECUTION_INTENT_PARAMETER_MISMATCH :: string where
  "EXECUTION_INTENT_PARAMETER_MISMATCH = ''EXECUTION_INTENT_PARAMETER_MISMATCH''"

definition proposed_params :: "signal_input \<Rightarrow> admission \<Rightarrow> sized \<Rightarrow> frozen_params" where
  "proposed_params x gs z =
     \<lparr>fz_internalSymbol = xi_symbol x, fz_brokerSymbol = gs_brokerSymbol gs,
      fz_direction = direction_name (ap_direction z), fz_volume = zs_volume z, fz_stopLoss = ap_stopLoss z,
      fz_takeProfit = ap_takeProfit z, fz_strategyId = xi_strategyId x, fz_riskAmount = zs_riskAmount z,
      fz_riskPercent = riskPerTradePercent (zs_limits z), fz_initialRiskReward = Some (ap_intendedR z)\<rparr>"

text \<open>Resuming a created intent: its frozen parameters must still be what the strategy proposes, and still be
  acceptable to the broker.\<close>

definition resume_stage ::
  "app_config \<Rightarrow> signal_input \<Rightarrow> readings \<Rightarrow> admission \<Rightarrow> instrument \<Rightarrow> sized \<Rightarrow> position_row \<Rightarrow> intent_row \<Rightarrow> order_plan stage" where
  "resume_stage cfg x rd gs inst z p t =
     (case extractFrozenExecutionParams t p of
        Inl e \<Rightarrow> Throw e
      | Inr frozen \<Rightarrow>
          if \<not> fst (compareProposedToFrozenExecutionParams frozen (proposed_params x gs z))
          then reject_reserved rd (ps_id p) (it_id t) EXECUTION_INTENT_PARAMETER_MISMATCH (refusal ''NO_TRADE'' None)
          else bind (getLiveSymbol (rd_frozenSymbol rd)) (\<lambda>live.
            case adaptMt5BrokerStops (stops_at (side_of (fz_direction frozen)) (fz_stopLoss frozen) (fz_takeProfit frozen)
                   (ap_quoted z) inst live (or_default (fz_initialRiskReward frozen) 2)) of
              None \<Rightarrow> diverge
            | Some a \<Rightarrow>
                if validateFrozenIntentSubmitSafety frozen (ap_quoted z) (xc_maxQuoteAgeMs cfg) a (rd_now rd Resuming) \<noteq> None
                then reject_reserved rd (ps_id p) (it_id t) EXECUTION_INTENT_STALE (refusal ''NO_TRADE'' None)
                else Done (Inr
                  \<lparr>op_positionId = ps_id p, op_intent = t, op_direction = side_of (fz_direction frozen),
                   op_brokerSymbol = fz_brokerSymbol frozen, op_volume = fz_volume frozen, op_requested = zs_requested z,
                   op_stopLoss = fz_stopLoss frozen, op_takeProfit = fz_takeProfit frozen,
                   op_riskPercent = fz_riskPercent frozen, op_quote = ap_quoted z\<rparr>)))"

text \<open>Refreshing the parameters on a new quote, before the order is sent and before it is sent again.\<close>

definition refreshed_plan :: "order_plan \<Rightarrow> market_quote \<Rightarrow> jsnum \<Rightarrow> jsnum \<Rightarrow> jsnum \<Rightarrow> jsnum \<Rightarrow> order_plan" where
  "refreshed_plan o' q sl tp v requested =
     o'\<lparr>op_quote := q, op_stopLoss := sl, op_takeProfit := tp, op_volume := v, op_requested := requested\<rparr>"

definition refresh_of :: "sized \<Rightarrow> order_plan \<Rightarrow> finalize_result \<Rightarrow> jsnum \<Rightarrow> refresh_input" where
  "refresh_of z o' fin riskAmount =
     (let entry = fill_price (op_direction o') (op_quote o')
      in \<lparr>rf_volume = op_volume o', rf_entryPrice = Some entry, rf_stopLoss = op_stopLoss o',
          rf_takeProfit = op_takeProfit o',
          rf_stopDistance = Some (or_default (fr_stopDistance fin) (js_abs (entry - op_stopLoss o'))),
          rf_targetDistance = Some (or_default (fr_targetDistance fin) (js_abs (op_takeProfit o' - entry))),
          rf_riskAmount = riskAmount, rf_riskPercent = op_riskPercent o',
          rf_initialRiskReward = Some (ap_intendedR z)\<rparr>)"

definition refresh_sized ::
  "app_config \<Rightarrow> signal_input \<Rightarrow> readings \<Rightarrow> admission \<Rightarrow> instrument \<Rightarrow> sized \<Rightarrow> order_plan \<Rightarrow> market_quote \<Rightarrow> finalize_result \<Rightarrow>
   jsnum \<Rightarrow> jsnum \<Rightarrow> order_plan stage" where
  "refresh_sized cfg x rd gs inst z o' q fin sl tp =
     (let entry = fill_price (op_direction o') q;
          reject = (\<lambda>code requested. reject_reserved rd (op_positionId o') (it_id (op_intent o')) code (refusal code (Some requested)))
      in if \<not> sv_valid (validate_stops (op_direction o') entry sl (Some tp) (zs_limits z) None)
         then reject ''STOP_INVALID'' (op_requested o')
         else case size_order refreshed_volume_code cfg (gs_profile gs) (zs_account z) (zs_limits z) (op_direction o') entry sl
                     (ar_brokerAdjusted (fr_adaptation fin)) inst of
                Size_error \<Rightarrow> Throw program_error
              | Size_refused code requested \<Rightarrow> reject code (or_default requested (op_requested o'))
              | Sized v requested riskAmount \<Rightarrow>
                  let o2 = refreshed_plan o' q sl tp v requested
                  in bind (lift (refreshPendingExecutionParams (op_positionId o') (it_id (op_intent o')) (xi_signalId x)
                            (refresh_of z o2 fin riskAmount)))
                       (\<lambda>_. Done (Inr o2)))"

definition refresh_stage ::
  "app_config \<Rightarrow> signal_input \<Rightarrow> readings \<Rightarrow> admission \<Rightarrow> instrument \<Rightarrow> sized \<Rightarrow> market_point \<Rightarrow> order_plan \<Rightarrow> order_plan stage" where
  "refresh_stage cfg x rd gs inst z pt o' =
     (let reject = (\<lambda>code. reject_reserved rd (op_positionId o') (it_id (op_intent o')) code
            (refusal code (Some (op_requested o'))))
      in bind (getQuote (xc_adapter cfg) (rd_now rd (Market pt)) (rd_quote rd pt)) (\<lambda>quote.
         case quote of
           None \<Rightarrow> reject ''QUOTE_STALE''
         | Some q \<Rightarrow>
             bind (getLiveSymbol (rd_symbol rd pt)) (\<lambda>live.
               case finalizeMt5StopsForSubmit
                      (stops_at (op_direction o') (op_stopLoss o') (op_takeProfit o') q inst live (ap_intendedR z))
                      (ap_intendedR z) of
                 None \<Rightarrow> diverge
               | Some fin \<Rightarrow>
                   (case (fr_stopLoss fin, fr_takeProfit fin) of
                      (Some sl, Some tp) \<Rightarrow>
                        if \<not> fr_ok fin then reject (stop_code (fr_reasonCode fin))
                        else refresh_sized cfg x rd gs inst z o' q fin sl tp
                    | _ \<Rightarrow> reject (stop_code (fr_reasonCode fin))))))"

subsection \<open>Reserving\<close>

definition pending_of :: "string \<Rightarrow> signal_input \<Rightarrow> admission \<Rightarrow> sized \<Rightarrow> Intents.pending_input" where
  "pending_of u x gs z =
     Intents.pending_input.make u (xi_signalId x) (xi_symbol x) (gs_brokerSymbol gs) (xi_strategyId x)
       (direction_name (ap_direction z)) (zs_volume z) (ap_stopLoss z) (Some (ap_takeProfit z)) (zs_riskAmount z)
       (riskPerTradePercent (zs_limits z)) (Some (ap_intendedR z)) (gs_maxConcurrent gs)"

definition reserve_stage ::
  "app_config \<Rightarrow> (string \<Rightarrow> int) \<Rightarrow> (string \<Rightarrow> string) \<Rightarrow> string \<Rightarrow> signal_input \<Rightarrow> readings \<Rightarrow> admission \<Rightarrow> instrument \<Rightarrow>
   sized \<Rightarrow> order_plan stage" where
  "reserve_stage cfg hashtext orderComment u x rd gs inst z =
     bind (lift (createPendingPositionWithExecutionIntent hashtext orderComment (rd_thread rd) (rd_positionId rd)
             (rd_intentId rd) (rd_now rd Creating) (pending_of u x gs z))) (\<lambda>created.
       case created of
         Create_blocked _ _ \<Rightarrow> stop_with ''MAX_CONCURRENT_POSITIONS''
       | Create_ok p t _ _ \<Rightarrow>
           bind recordPositionEvent (\<lambda>_.
             refresh_stage cfg x rd gs inst z Final
               \<lparr>op_positionId = ps_id p, op_intent = t, op_direction = ap_direction z,
                op_brokerSymbol = gs_brokerSymbol gs, op_volume = zs_volume z, op_requested = zs_requested z,
                op_stopLoss = ap_stopLoss z, op_takeProfit = ap_takeProfit z,
                op_riskPercent = riskPerTradePercent (zs_limits z), op_quote = ap_quoted z\<rparr>))"

definition plan_stage ::
  "app_config \<Rightarrow> (string \<Rightarrow> int) \<Rightarrow> (string \<Rightarrow> string) \<Rightarrow> string \<Rightarrow> signal_input \<Rightarrow> readings \<Rightarrow> admission \<Rightarrow> instrument \<Rightarrow>
   sized \<Rightarrow> guarded_rows \<Rightarrow> order_plan stage" where
  "plan_stage cfg hashtext orderComment u x rd gs inst z du =
     (case (du_resume du, du_position du, du_intent du) of
        (True, Some p, Some t) \<Rightarrow> resume_stage cfg x rd gs inst z p t
      | _ \<Rightarrow> reserve_stage cfg hashtext orderComment u x rd gs inst z)"

subsection \<open>The live policy\<close>

definition live_order_of :: "signal_input \<Rightarrow> admission \<Rightarrow> sized \<Rightarrow> risk_facts \<Rightarrow> engine_row option \<Rightarrow> order_plan \<Rightarrow> live_order" where
  "live_order_of x gs z f engine o' =
     \<lparr>lo_symbol = xi_symbol x, lo_volume = op_volume o', lo_riskPercent = Some (op_riskPercent o'),
      lo_openLivePositions = Fin (of_nat (gs_ownedCount gs)),
      lo_dailyLossAbs = Some (daily_loss_abs (fa_dailyRealized f)), lo_equity = Some (ma_equity (zs_account z)),
      lo_balance = Some (ma_balance (zs_account z)), lo_emergencyStop = stop_engaged engine,
      lo_liveTradingArmed = Some (armed engine), lo_liveTradingSupported = Some True\<rparr>"

definition live_stage ::
  "app_config \<Rightarrow> signal_input \<Rightarrow> readings \<Rightarrow> admission \<Rightarrow> sized \<Rightarrow> risk_facts \<Rightarrow> order_plan \<Rightarrow> order_plan stage" where
  "live_stage cfg x rd gs z f o' =
     (if \<not> is_live cfg then Done (Inr o')
      else let pid = op_positionId o'; iid = it_id (op_intent o');
               refused = refusal ''RISK_BLOCKED'' (Some (op_requested o'))
      in catch
           (bind (ask (Inr (rd_engineNow rd))) (\<lambda>engine.
              case resolveLiveExecutionPolicy (xc_mt5 cfg) of
                Inl _ \<Rightarrow> Throw program_error
              | Inr pol \<Rightarrow>
                  let v = evaluateLiveOrderPolicy pol (live_order_of x gs z f engine o');
                      code = or_default (ov_code v) LIVE_POLICY_REJECTED
                  in if ov_allowed v then Done (Inr o')
                     else reject_reserved rd pid iid
                            (if code = LIVE_TRADING_DISARMED then LIVE_TRADING_DISARMED else LIVE_ORDER_BLOCKED) refused))
           (\<lambda>_. bind (fail_closed rd pid iid LIVE_POLICY_REJECTED) (\<lambda>_. Done (Inl refused))))"

subsection \<open>Submitting\<close>

definition request_of :: "signal_input \<Rightarrow> instrument \<Rightarrow> order_plan \<Rightarrow> order_request" where
  "request_of x inst o' =
     \<lparr>oq_idempotencyKey = executionIntentIdempotencyKey (xi_signalId x), oq_symbol = op_brokerSymbol o',
      oq_direction = op_direction o', oq_volume = op_volume o', oq_stopLoss = op_stopLoss o',
      oq_takeProfit = Some (op_takeProfit o'), oq_quote = op_quote o', oq_instrument = inst\<rparr>"

text \<open>An answer that may mean the order was filled: the intent is marked, the broker is asked once, and nothing is
  sent again.\<close>

definition ambiguous_stage ::
  "app_config \<Rightarrow> (string \<Rightarrow> string) \<Rightarrow> readings \<Rightarrow> nat \<Rightarrow> order_plan \<Rightarrow> string list \<Rightarrow> 'a stage" where
  "ambiguous_stage cfg orderComment rd n o' reasons =
     bind (lift (markExecutionIntentAmbiguous (it_id (op_intent o')) (case reasons of r # _ \<Rightarrow> Some r | [] \<Rightarrow> None) (Some [])))
       (\<lambda>_.
     bind (recover_from_broker cfg orderComment (op_intent o') (op_positionId o') (rd_adopt rd n) (rd_now rd Recovering)) (\<lambda>r.
       case r of
         Some a \<Rightarrow>
           if ot_accepted a then bind recordPositionEvent (\<lambda>_. Done (Inl (opened (Some (op_requested o')) a)))
           else Done (Inl (refusal ''EXECUTION_AMBIGUOUS'' (Some (op_requested o'))))
       | None \<Rightarrow> Done (Inl (refusal ''EXECUTION_AMBIGUOUS'' (Some (op_requested o'))))))"

definition rejected_code :: "string list \<Rightarrow> string" where
  "rejected_code reasons = or_default (find isAutonomousDecisionCode reasons) ''EXECUTION_REJECTED''"

definition filled :: "open_result \<Rightarrow> bool" where
  "filled r \<longleftrightarrow> ot_accepted r \<and> ot_position r \<noteq> None"

definition may_resubmit :: "nat \<Rightarrow> string list \<Rightarrow> bool" where
  "may_resubmit n reasons \<longleftrightarrow>
     fst (decideInvalidStopsResubmit reasons False (int n) (Some MT5_INVALID_STOPS_MAX_RESUBMITS))"

text \<open>The order is sent until it is answered: at most once again, when the broker refused its stops.\<close>

function submit_loop ::
  "app_config \<Rightarrow> (string \<Rightarrow> string) \<Rightarrow> signal_input \<Rightarrow> readings \<Rightarrow> admission \<Rightarrow> instrument \<Rightarrow> sized \<Rightarrow> nat \<Rightarrow> order_plan \<Rightarrow>
   (order_plan \<times> open_result) stage" where
  "submit_loop cfg orderComment x rd gs inst z n o' =
     bind (lift (markExecutionIntentSubmitted (it_id (op_intent o')) (rd_now rd (Submitting n)))) (\<lambda>_.
     bind (openMarketPosition (xc_adapter cfg) (xc_environment cfg) orderComment (request_of x inst o') (rd_open rd n)) (\<lambda>out.
       if (case out of Inr r \<Rightarrow> filled r | Inl _ \<Rightarrow> False)
       then Done (Inr (o', projr out))
       else let reasons = (case out of Inl rs \<Rightarrow> rs | Inr _ \<Rightarrow> [])
       in if classifyOpenMarketFailure reasons = AMBIGUOUS_FAILURE
          then ambiguous_stage cfg orderComment rd n o' reasons
          else bind (tryAdoptOpenByIdempotency (xc_adapter cfg) orderComment (executionIntentIdempotencyKey (xi_signalId x))
                       (rd_adopt rd n)) (\<lambda>adopted.
            if some_and adopted filled then Done (Inr (o', the adopted))
            else if \<not> may_resubmit n reasons
            then reject_reserved rd (op_positionId o') (it_id (op_intent o')) (rejected_code reasons)
                   (refusal (rejected_code reasons) (Some (op_requested o')))
            else proceed (refresh_stage cfg x rd gs inst z (Retry (n + 1)) o')
                   (\<lambda>o2. submit_loop cfg orderComment x rd gs inst z (n + 1) o2))))"
  by pat_completeness auto

lemma may_resubmit_bound: "may_resubmit n reasons \<Longrightarrow> n < 1"
  by (auto simp: may_resubmit_def decideInvalidStopsResubmit_def MT5_INVALID_STOPS_MAX_RESUBMITS_def split: if_splits)

termination submit_loop
  by (relation "measure (\<lambda>(cfg, oc, x, rd, gs, inst, z, n, o'). 1 - n)") (auto dest: may_resubmit_bound)

declare submit_loop.simps [simp del]

subsection \<open>The whole\<close>

definition persist_stage :: "signal_input \<Rightarrow> readings \<Rightarrow> order_plan \<times> open_result \<Rightarrow> exec_result stage" where
  "persist_stage x rd answer =
     (case answer of (o', r) \<Rightarrow>
        bind (lift (persistPositionOpenFromBrokerResult (op_positionId o') (xi_signalId x) (it_id (op_intent o')) r
                (rd_now rd Answered))) (\<lambda>_.
        bind recordPositionEvent (\<lambda>_. Done (Inr (opened (Some (op_requested o')) r)))))"

definition order_stages ::
  "app_config \<Rightarrow> (string \<Rightarrow> int) \<Rightarrow> (string \<Rightarrow> string) \<Rightarrow> string \<Rightarrow> signal_input \<Rightarrow> readings \<Rightarrow> admission \<Rightarrow> instrument \<Rightarrow>
   sized \<Rightarrow> exec_result stage" where
  "order_stages cfg hashtext orderComment u x rd gs inst z =
     bind (lift (attempt (update_signal_row (xi_signalId x) (write_sized z)))) (\<lambda>_.
     proceed (duplicate_stage cfg orderComment x rd) (\<lambda>du.
     proceed (risk_stage cfg u x rd gs inst z) (\<lambda>f.
     proceed (plan_stage cfg hashtext orderComment u x rd gs inst z du) (\<lambda>o1.
     proceed (live_stage cfg x rd gs z f o1) (\<lambda>o2.
     proceed (submit_loop cfg orderComment x rd gs inst z 0 o2) (persist_stage x rd))))))"

definition executeCfdSignalInner ::
  "app_config \<Rightarrow> (string \<Rightarrow> int) \<Rightarrow> (string \<Rightarrow> string) \<Rightarrow> string \<Rightarrow> signal_input \<Rightarrow> readings \<Rightarrow> exec_result stage" where
  "executeCfdSignalInner cfg hashtext orderComment u x rd =
     proceed (entry_stage cfg u x rd) (\<lambda>gs.
     proceed (instrument_stage cfg u rd) (\<lambda>inst.
     proceed (proposal_stage x gs inst) (\<lambda>p.
     proceed (preflight_stage cfg u rd inst p) (\<lambda>ap.
     proceed (sizing_stage cfg x rd gs inst ap) (\<lambda>z.
       order_stages cfg hashtext orderComment u x rd gs inst z)))))"

text \<open>An exception becomes the decision code of the error.\<close>

definition executeCfdSignal ::
  "app_config \<Rightarrow> (string \<Rightarrow> int) \<Rightarrow> (string \<Rightarrow> string) \<Rightarrow> string \<Rightarrow> signal_input \<Rightarrow> readings \<Rightarrow> (world, exec_result) prog" where
  "executeCfdSignal cfg hashtext orderComment u x rd =
     catch (bind (executeCfdSignalInner cfg hashtext orderComment u x rd)
              (\<lambda>r. Done (case r of Inl y \<Rightarrow> y | Inr y \<Rightarrow> y)))
       (\<lambda>e. Done (refusal (toAutonomousMt5DecisionCode (mt5ErrorCodeFromUnknown e)) None))"

end
