(* ===== verification/Mt5Stages.thy ===== *)
theory Mt5Stages
  imports Mt5Execution RecoverySystem
begin

text \<open>
  The contract between the execution of a signal and what surrounds it.  The stages up to the risk manager are made of
  reads, of changes of the adapter that touch neither the tables nor the orders, and of updates of the signal; the later
  ones, but for the submission, add eight operations on the tables.  The locales \<open>reading_steps\<close> and
  \<open>execution_steps\<close> ask of an invariant and a guarantee that these keep them; their lemmas say that then every stage
  does.
\<close>

subsection \<open>Database calls of the worker\<close>

lemma upholds_lift:
  assumes "upholds I R G P p"
    and "\<And>w. I' w \<Longrightarrow> I (w_db w)" and "\<And>w w'. R' w w' \<Longrightarrow> R (w_db w) (w_db w')"
    and "\<And>w d. I' w \<Longrightarrow> I d \<Longrightarrow> G (w_db w) d \<Longrightarrow> I' (w\<lparr>w_db := d\<rparr>) \<and> G' w (w\<lparr>w_db := d\<rparr>)"
  shows "upholds I' R' G' (\<lambda>w. P (w_db w)) (lift p)"
  using assms(1)
proof induction
  case (up_done P x)
  show ?case by (simp add: upholds.up_done)
next
  case (up_throw P e)
  show ?case by (simp add: upholds.up_throw)
next
  case (up_atomic P f)
  show ?case unfolding lift.simps
  proof (rule upholds.up_atomic)
    fix w w' q
    assume w: "I' w" "P (w_db w)"
      "map_option (map_prod (\<lambda>d. w\<lparr>w_db := d\<rparr>) id) (map_option (map_prod id lift) (f (w_db w))) = Some (w', q)"
    then obtain d p where f: "f (w_db w) = Some (d, p)" "w' = w\<lparr>w_db := d\<rparr>" "q = lift p" by auto
    have "I d \<and> G (w_db w) d \<and> (\<exists>Q. stable I R Q \<and> Q d \<and> upholds I' R' G' (\<lambda>w. Q (w_db w)) (lift p))"
      using up_atomic.IH [OF assms(2) [OF w(1)] w(2) f(1)] by blast
    moreover have "stable I' R' (\<lambda>w. Q (w_db w))" if "stable I R Q" for Q
      using that assms(2,3) unfolding stable_def by blast
    ultimately show "I' w' \<and> G' w w' \<and> (\<exists>Q. stable I' R' Q \<and> Q w' \<and> upholds I' R' G' Q q)"
      using assms(4) [OF w(1)] unfolding f(2,3) by fastforce
  qed
qed

subsection \<open>The contract\<close>

locale reading_steps =
  fixes I :: "world \<Rightarrow> bool" and R :: "world \<Rightarrow> world \<Rightarrow> bool" and G :: "world \<Rightarrow> world \<Rightarrow> bool"
  assumes adapter_change: "I w \<Longrightarrow> w_db w' = w_db w \<Longrightarrow> w_orders w' = w_orders w \<Longrightarrow> I w' \<and> G w w'"
    and signal: "upholds I R G (\<lambda>_. True) (lift (attempt (update_signal_row sid f)))"
begin

abbreviation ok :: "(world, 'a) prog \<Rightarrow> bool" where
  "ok p \<equiv> upholds I R G (\<lambda>_. True) p"

lemma ok_pure [simp, intro]: "ok (Done x)" "ok (Throw e)"
  by (rule up_done, rule up_throw)

lemma ok_bind [intro]: "ok p \<Longrightarrow> (\<And>x. ok (k x)) \<Longrightarrow> ok (bind p k)"
  by (rule upholds_bind)

lemma ok_proceed [intro]: "ok p \<Longrightarrow> (\<And>x. ok (k x)) \<Longrightarrow> ok (proceed p k)"
  unfolding proceed_def by (auto intro!: ok_bind split: sum.split)

lemma ok_query [simp, intro]: "ok (query g)"
  by (rule upholds_query) (use adapter_change in blast)

lemma ok_ask [simp, intro]: "ok (ask r)"
  by (rule ask_ok) (use adapter_change in blast)

lemma ok_event [simp, intro]: "ok recordPositionEvent"
  unfolding recordPositionEvent_def by (rule ok_ask)

lemma ok_diverge [simp, intro]: "ok diverge"
  by (rule diverge_ok)

lemma ok_command: "(\<And>w. w_db (fst (g w)) = w_db w \<and> w_orders (fst (g w)) = w_orders w) \<Longrightarrow> ok (command g)"
  by (rule upholds_command) (use adapter_change in blast)

lemma ok_lift_query [simp, intro]: "ok (lift (query g))"
  unfolding query_def lift.simps
  by (rule up_atomic) (use adapter_change in \<open>auto intro!: exI [of _ "\<lambda>_. True"] up_done\<close>)

lemma ok_adapter [simp, intro]:
  "ok (tryAdoptOpenByIdempotency cfg oc' key r)" "ok (getAccount cfg env a)" "ok (obtain_adapter xcfg u rd)"
  "ok (getInstrumentMetadata ccy i)" "ok (getLiveSymbol i)" "ok (getQuote cfg now q)"
  "ok (getOrConnectMt5Adapter cfg env ping a)" "ok (assertEnvironmentHedging cfg env)" "ok disconnect"
proof -
  show connected: "ok (getOrConnectMt5Adapter cfg env ping a)" for cfg env ping a
    unfolding getOrConnectMt5Adapter_def connect_def disconnect_def fetchAccount_def put_connection_def set_connected_def
    by (auto intro!: ok_bind ok_command split: reply.split sum.split bool.split)
  then show "ok (obtain_adapter xcfg u rd)"
    unfolding obtain_adapter_def by (auto intro!: ok_bind ok_command)
  show "ok disconnect" unfolding disconnect_def put_connection_def by (auto intro!: ok_command)
qed (auto intro!: ok_bind ok_command
    simp: tryAdoptOpenByIdempotency_def getAccount_def fetchAccount_def getInstrumentMetadata_def getLiveSymbol_def
      getQuote_def remember_open_def assertEnvironmentHedging_def
    split: reply.splits option.splits sum.split)

subsection \<open>The stages\<close>

lemma ok_entry: "ok (entry_stage cfg u x rd)"
  unfolding entry_stage_def gate_stage_def loadMapping_def stop_with_def Let_def
  by (auto intro!: ok_bind split: sum.split option.split)

lemma ok_instrument: "ok (instrument_stage cfg u rd)"
  unfolding instrument_stage_def stop_with_def by (auto intro!: ok_bind split: option.split)

lemma ok_proposal: "ok (proposal_stage x gs inst)"
  unfolding proposal_stage_def stop_with_def Let_def by (auto intro!: ok_bind signal split: option.split)

lemma ok_preflight: "ok (preflight_stage cfg u rd inst p)"
  unfolding preflight_stage_def stop_with_def by (auto intro!: ok_bind split: option.split)

lemma ok_sizing: "ok (sizing_stage cfg x rd gs inst ap)"
  unfolding sizing_stage_def stop_with_def Let_def by (auto intro!: ok_bind split: size_outcome.split)

lemma ok_risk: "ok (risk_stage cfg u x rd gs inst z)"
  unfolding risk_stage_def gather_risk_def stop_with_def Let_def
  by (auto intro!: ok_bind split: prod.split sum.split)

end

locale execution_steps = reading_steps +
  fixes h :: "string \<Rightarrow> int" and oc :: "string \<Rightarrow> string" and t :: nat and cap :: "string \<Rightarrow> nat"
  assumes recover: "upholds I R G (\<lambda>_. True) (lift (tryRecoverExecutionIntentFromBroker i pid a now))"
    and fail_close: "upholds I R G (\<lambda>_. True) (lift (failClosedPendingExecution pid iid c m now))"
    and refresh: "upholds I R G (\<lambda>_. True) (lift (refreshPendingExecutionParams pid iid sid r))"
    and create: "Intents.pi_maxConcurrentPositions inp \<le> int (cap (Intents.pi_userId inp)) \<Longrightarrow>
      upholds I R G (\<lambda>_. True) (lift (createPendingPositionWithExecutionIntent h oc t pid iid now inp))"
    and ambiguous: "upholds I R G (\<lambda>_. True) (lift (markExecutionIntentAmbiguous iid code msg))"
    and persist: "upholds I R G (\<lambda>_. True) (lift (persistPositionOpenFromBrokerResult pid sid iid res now))"
    and submitted: "upholds I R G (\<lambda>_. True) (lift (markExecutionIntentSubmitted iid now))"
begin

lemma ok_recover: "ok (recover_from_broker cfg oc' i pid r now)"
  unfolding recover_from_broker_def by (auto intro!: ok_bind recover)

lemma ok_duplicate: "ok (duplicate_stage cfg oc' x rd)"
  unfolding duplicate_stage_def
  by (auto intro!: ok_bind ok_recover split: option.split duplicate_decision.split)

lemma ok_reject: "ok (reject_reserved rd pid iid code res)" "ok (fail_closed rd pid iid code)"
  unfolding reject_reserved_def fail_closed_def by (auto intro!: ok_bind fail_close)

lemma ok_refresh: "ok (refresh_stage cfg x rd gs inst z pt o')"
  unfolding refresh_stage_def refresh_sized_def Let_def
  by (auto intro!: ok_bind ok_reject refresh split: option.split size_outcome.split)

lemma ok_resume: "ok (resume_stage cfg x rd gs inst z p i)"
  unfolding resume_stage_def by (auto intro!: ok_bind ok_reject split: option.split sum.split)

lemma ok_create:
  assumes "rd_thread rd = t" and "gs_maxConcurrent gs \<le> int (cap u)"
  shows "ok (lift (createPendingPositionWithExecutionIntent h oc (rd_thread rd) pid iid now (pending_of u x gs z)))"
  unfolding assms(1) by (rule create) (simp add: pending_of_def Intents.pending_input.make_def assms(2))

lemma ok_plan:
  assumes "rd_thread rd = t" and "gs_maxConcurrent gs \<le> int (cap u)"
  shows "ok (plan_stage cfg h oc u x rd gs inst z du)"
  unfolding plan_stage_def reserve_stage_def stop_with_def
  by (auto intro!: ok_bind ok_create [OF assms] ok_refresh ok_resume split: option.split bool.split create_result.split)

lemma ok_live: "ok (live_stage cfg x rd gs z f o')"
  unfolding live_stage_def Let_def by (auto intro!: upholds_catch ok_bind ok_reject split: sum.split)

lemma ok_ambiguous: "ok (ambiguous_stage cfg oc' rd n o' reasons)"
  unfolding ambiguous_stage_def by (auto intro!: ok_bind ok_recover ambiguous split: option.split)

lemma ok_persist: "ok (persist_stage x rd answer)"
  unfolding persist_stage_def by (auto intro!: ok_bind persist split: prod.split)

end

text \<open>The capacity that an execution reserves under.\<close>

definition reserved_cap :: "app_config \<Rightarrow> readings \<Rightarrow> int" where
  "reserved_cap cfg rd =
     resolveMt5EffectiveMaxConcurrentPositions (Option.bind (rd_profile rd) pf_maxConcurrentPositions)
       (xc_maxConcurrentPositions cfg)"

lemma yields_ask: "yields (\<lambda>y. r = Inr y) (ask r)"
  by (auto simp: ask_def yields_Atomic split: sum.split)

lemma admitted_cap: "yields (\<lambda>r. \<forall>gs. r = Inr gs \<longrightarrow> gs_maxConcurrent gs = reserved_cap cfg rd) (entry_stage cfg u x rd)"
proof -
  let ?Q = "\<lambda>r. \<forall>gs. r = Inr gs \<longrightarrow> gs_maxConcurrent gs = reserved_cap cfg rd"
  have "yields ?Q (gate_stage cfg u x rd)"
    unfolding gate_stage_def
    by (rule yields_bind [OF yields_True], rule yields_bind [OF yields_ask],
        (rule yields_bind [OF yields_True])+)
      (auto simp: Let_def stop_with_def reserved_cap_def split: option.split)
  then show ?thesis
    unfolding entry_stage_def
    by (auto simp: stop_with_def split: sum.split option.split intro!: yields_bind [OF yields_True])
qed

end
