(* ===== verification/Mt5ExecutionRun.thy ===== *)
theory Mt5ExecutionRun
  imports Mt5Execution Mt5Orders IntentSystem
begin

text \<open>
  A concrete execution, stage by stage: a signal that passes every gate, is sized at three lots, reserved, sent, filled
  and stored.
\<close>

subsection \<open>The input\<close>

definition run_snapshot :: snapshot where
  "run_snapshot =
     \<lparr>ft_symbol = ''R_10'', ft_interval = M1, ft_timestamp = 0, ft_close = 101, ft_emaFast = None, ft_emaSlow = None,
      ft_emaLong = None, ft_emaFastSlope = None, ft_emaSlowSlope = None, ft_rsi = None, ft_atr = Some 2, ft_atrPercent = None,
      ft_adx = None, ft_macd = None, ft_macdSignal = None, ft_macdHistogram = None, ft_bollingerUpper = None,
      ft_bollingerMiddle = None, ft_bollingerLower = None, ft_bollingerWidth = None, ft_priceDistanceFromEma = None,
      ft_recentReturn = None, ft_higherHighCount = 0, ft_lowerLowCount = 0, ft_donchianHigh = None, ft_donchianLow = None,
      ft_trendDirection = TrendUp, ft_volatilityPercentile = None\<rparr>"

definition run_signal :: signal_input where
  "run_signal =
     \<lparr>xi_signalId = ''s'', xi_symbol = ''R_10'', xi_strategyId = ''ema-pullback-v1'', xi_interval = ''5m'', xi_action = VBUY,
      xi_metadata = [''pullbackLow'' \<mapsto> Fin 92, ''pullbackHigh'' \<mapsto> Fin 101], xi_close = 101, xi_features = run_snapshot,
      xi_candles = []\<rparr>"

definition run_mt5 :: mt5_config where
  "run_mt5 = demo_live_config\<lparr>mc_EXECUTION_MODE := ''broker_demo_mt5'', mc_REAL_MONEY_ENABLED := False,
     mc_LIVE_MT5_ENABLED := False, mc_SYMBOL_ALLOWLIST := Some ''R_10'', mc_ENGINE_MAX_VOLUME := Some 5,
     mc_EXPECTED_ENVIRONMENT := Some ''demo''\<rparr>"

definition run_app :: app_config where
  "run_app =
     \<lparr>xc_mt5 = run_mt5, xc_maxConcurrentPositions = 1, xc_maxVolume = 5, xc_maxRiskPercent = 5,
      xc_demoXauMaxRiskPercent = None, xc_maxQuoteAgeMs = 1000, xc_lossCooldownMinutes = 60, xc_demoTradingEnabled = True,
      xc_adapter = test_config, xc_environment = ''demo''\<rparr>"

definition run_quote :: market_quote where "run_quote = \<lparr>mq_bid = 100, mq_ask = 101, mq_timestamp = 0\<rparr>"

definition run_profile :: risk_profile where
  "run_profile = \<lparr>pf_volumeOverrideLots = None, pf_maxConcurrentPositions = None, pf_stopLossDistanceOverride = None,
     pf_riskPerTradePercent = Some 3, pf_maxTotalOpenRiskPercent = Some 10, pf_minRiskRewardRatio = Some 1, pf_minCooldownSeconds = 0,
     pf_maxDailyLoss = 5, pf_maxDailyTrades = 10, pf_maxConsecutiveLosses = 3\<rparr>"

definition run_mapping :: symbol_mapping where
  "run_mapping = \<lparr>sm_internalSymbol = ''R_10'', sm_brokerSymbol = ''V10'', sm_verified = True, sm_minVolume = None\<rparr>"

definition run_readings :: readings where
  "run_readings =
     \<lparr>rd_now = (\<lambda>_. 5), rd_circuit = new_circuit None None, rd_mappings = (\<lambda>_. Some run_mapping),
      rd_profile = Some run_profile, rd_lifecycle = None, rd_engine = None, rd_engineNow = None, rd_ping = Answer (),
      rd_connect = Answer test_account, rd_account = Answer test_account, rd_instrument = Answer test_symbol,
      rd_quote = (\<lambda>_. Answer run_quote), rd_symbol = (\<lambda>_. Answer test_symbol), rd_frozenSymbol = Answer test_symbol,
      rd_open = (\<lambda>_. test_replies), rd_adopt = (\<lambda>_. Answer []), rd_recover = Answer [], rd_thread = 0,
      rd_positionId = ''p'', rd_intentId = ''i''\<rparr>"

definition run_world :: world where
  "run_world = (idle_world empty_db)\<lparr>w_runtime := (\<lambda>_. \<lparr>rt_lastReconcileOkAt = Some 0, rt_lastReconcileError = None,
     rt_lastCreatedExpirySweepAt = None, rt_hasAdapter = True\<rparr>)\<rparr>"

subsection \<open>What the stages answer\<close>

definition run_gs :: admission where
  "run_gs = \<lparr>gs_profile = Some run_profile, gs_maxConcurrent = 1, gs_ownedCount = 0, gs_lifecycle = Some ''EXPERIMENTAL'',
     gs_mapping = Some run_mapping, gs_brokerSymbol = ''V10''\<rparr>"

definition run_instrument :: instrument where
  "run_instrument =
     \<lparr>inst_symbol = ''V10'', enabled = True, verified = True, contractSize = 1, volumeStep = 1, minVolume = 1,
      maxVolume = 10, tickSize = Fin (1 / 100), tickValue = Fin (1 / 100), marginRate = Fin (1 / 100), spreadBps = Some 0,
      slippageBps = Some 0, pricePrecision = 2, currency = ''USD''\<rparr>"

definition run_proposal :: proposal where
  "run_proposal =
     \<lparr>sp_direction = BUY, sp_entryPrice = 101, sp_stopLoss = Fin (183 / 2), sp_takeProfit = Some 120,
      sp_stopDistance = Fin (19 / 2), sp_targetDistance = Some 19, sp_riskRewardRatio = Some 2, sp_stopMethod = StructureStop,
      sp_targetMethod = FixedR\<rparr>"

definition run_adapted :: adapted where
  "run_adapted =
     \<lparr>ap_direction = BUY, ap_intendedR = 2, ap_stopLoss = Fin (183 / 2), ap_takeProfit = 120, ap_stopDistance = Fin (19 / 2),
      ap_targetDistance = 19, ap_brokerAdjusted = False, ap_quoted = run_quote\<rparr>"

definition run_limits :: cfd_limits where
  "run_limits = \<lparr>riskPerTradePercent = 3, maxTotalOpenRiskPercent = 10, maxConcurrentPositions = 1, minRiskRewardRatio = 1\<rparr>"

definition run_sized :: sized where
  "run_sized = adapted.extend run_adapted
     (sized.fields test_account 3 run_limits (Some 2) 3 (Fin (60 / 19)) (Fin (57 / 2)))"

lemma exec_lift_query [simp]: "exec (lift (query g)) w = Some (w, Inr (g (w_db w)))"
  by (simp add: query_def)

lemma run_fields:
  "xi_signalId run_signal = ''s''" "xi_symbol run_signal = ''R_10''" "xi_strategyId run_signal = ''ema-pullback-v1''"
  "xi_action run_signal = VBUY" "xi_close run_signal = 101" "xc_mt5 run_app = run_mt5" "xc_adapter run_app = test_config"
  "xc_environment run_app = ''demo''" "xc_maxConcurrentPositions run_app = 1" "xc_maxQuoteAgeMs run_app = 1000"
  "rd_now run_readings t = 5" "rd_circuit run_readings = new_circuit None None" "rd_mappings run_readings m = Some run_mapping"
  "rd_profile run_readings = Some run_profile" "rd_lifecycle run_readings = None" "rd_engine run_readings = None"
  "rd_account run_readings = Answer test_account" "rd_instrument run_readings = Answer test_symbol"
  "rd_quote run_readings p = Answer run_quote" "rd_symbol run_readings p = Answer test_symbol"
  "rd_open run_readings n = test_replies" "rd_adopt run_readings n = Answer []" "rd_thread run_readings = 0"
  "rd_positionId run_readings = ''p''" "rd_intentId run_readings = ''i''" "ma_currency test_account = ''USD''"
  "gs_profile run_gs = Some run_profile" "gs_maxConcurrent run_gs = 1" "pf_maxConcurrentPositions run_profile = None"
  "pf_stopLossDistanceOverride run_profile = None" "gs_brokerSymbol run_gs = ''V10''"
  by (simp_all add: run_signal_def run_app_def run_readings_def run_gs_def run_profile_def test_account_def)

lemma run_entry:
  assumes "countMt5ConsumedCapacitySlots ''u'' (w_db w) = 0" and "find_position_by_key ''signal:s'' (w_db w) = None"
    and "w_runtime w ''u'' = w_runtime run_world ''u''"
  shows "exec (entry_stage run_app ''u'' run_signal run_readings) w = Some (w, Inr (Inr run_gs))"
proof -
  have "assertCfdExecutionReachable run_mt5 = Inr ()" "isCfdCapableStrategy ''ema-pullback-v1''"
    "executionBlockIfUnhealthy (new_circuit None None) (w_runtime run_world ''u'') 5 = None"
    "rs_brokerSymbol (resolveBrokerSymbolMapping ''R_10'' (Some run_mapping)) = Some ''V10''"
    "ga_allowed (gateMt5EngineSubmission (submission_of run_app run_signal 0 (Some ''EXPERIMENTAL'') (Some run_mapping) 1 None None))"
    "resolveMt5EffectiveMaxConcurrentPositions None 1 = 1"
    "executionIntentIdempotencyKey ''s'' = ''signal:s''" "loadLifecycle None = ''EXPERIMENTAL''"
    by code_simp+
  then show ?thesis
    using assms by (simp add: entry_stage_def gate_stage_def loadMapping_def ask_def run_fields Let_def holds_slot_def)
      (simp add: run_gs_def)
qed

lemma run_instrument:
  assumes "rt_hasAdapter (w_runtime w ''u'')" and "w_account w = Some test_account"
  shows "exec (instrument_stage run_app ''u'' run_readings) w = Some (w, Inr (Inr run_instrument))"
proof -
  have "mp_instrument (mapMt5SymbolToInstrument test_symbol ''USD'') = run_instrument" by code_simp
  then show ?thesis
    using assms by (simp add: instrument_stage_def obtain_adapter_def getInstrumentMetadata_def optional_reply_def ask_def
      run_fields) (simp add: run_instrument_def)
qed

lemma run_proposal:
  "exec (proposal_stage run_signal run_gs run_instrument) w =
     Some (case update_signal_row ''s'' (write_proposal run_proposal) (w_db w) of
         Inr (d, _) \<Rightarrow> (w\<lparr>w_db := d\<rparr>, Inr (Inr run_proposal)) | Inl e \<Rightarrow> (w, Inl e))"
proof -
  have "propose_entry run_signal run_instrument = Some run_proposal" by code_simp
  moreover have "override_stop 101 None run_proposal = run_proposal" by code_simp
  ultimately show ?thesis by (simp add: proposal_stage_def attempt_def run_fields split: sum.split)
qed

lemma run_preflight:
  assumes "rt_hasAdapter (w_runtime w ''u'')"
  shows "exec (preflight_stage run_app ''u'' run_readings run_instrument run_proposal) w = Some (w, Inr (Inr run_adapted))"
proof -
  have q: "isQuoteFresh (Some (mq_timestamp run_quote)) (Fin (of_int 5)) (dc_maxQuoteAgeMs test_config)" by code_simp
  obtain a where a: "adaptMt5BrokerStops (stops_at (sp_direction run_proposal) (sp_stopLoss run_proposal)
      (or_default (sp_takeProfit run_proposal) NaN) run_quote run_instrument (Some test_symbol) (intended_R run_proposal)) = Some a"
    "adapted_of run_proposal run_quote a = Some run_adapted"
  proof -
    have "Option.bind (adaptMt5BrokerStops (stops_at (sp_direction run_proposal) (sp_stopLoss run_proposal)
      (or_default (sp_takeProfit run_proposal) NaN) run_quote run_instrument (Some test_symbol) (intended_R run_proposal)))
      (adapted_of run_proposal run_quote) = Some run_adapted" by code_simp
    then show ?thesis using that by (auto split: bind_splits)
  qed
  show ?thesis
    using assms a q by (simp add: preflight_stage_def obtain_adapter_def getQuote_def getLiveSymbol_def optional_reply_def ask_def
      run_fields)
qed

lemma run_sizing:
  "exec (sizing_stage run_app run_signal run_readings run_gs run_instrument run_adapted) w =
     Some (w\<lparr>w_account := Some test_account\<rparr>, Inr (Inr run_sized))"
proof -
  have p: "risk_percent run_app run_signal (Some run_profile) = 3" "limits_of 3 run_gs = run_limits"
    "fill_price (ap_direction run_adapted) (ap_quoted run_adapted) = 101"
    "assertAccountEnvironment test_config ''demo'' test_account = Inr ()" by code_simp+
  moreover have "validate_stops (ap_direction run_adapted) 101 (ap_stopLoss run_adapted) (Some (ap_takeProfit run_adapted)) run_limits None
     = \<lparr>sv_valid = True, sv_stopDistance = Fin (19 / 2), sv_targetDistance = Some 19, sv_riskReward = Some 2, sv_reasons = []\<rparr>"
    "size_order preflight_volume_code run_app (Some run_profile) test_account run_limits (ap_direction run_adapted) 101
       (ap_stopLoss run_adapted) (ap_brokerAdjusted run_adapted) run_instrument = Sized 3 (Fin (60 / 19)) (Fin (57 / 2))"
    by code_simp+
  ultimately show ?thesis
    by (simp add: sizing_stage_def getAccount_def fetchAccount_def ask_def run_fields Let_def run_sized_def)
qed

subsection \<open>The order\<close>

lemma exec_lift:
  "exec (lift p) w = map_option (map_prod (\<lambda>d. w\<lparr>w_db := d\<rparr>) id) (exec p (w_db w))"
proof (induction p arbitrary: w rule: prog_call_induct)
  case (Atomic f)
  then show ?case by (auto simp: option.map_comp split: option.split)
qed simp_all

text \<open>The tables with one signal, and with the rows of its reservation too.\<close>

definition new_rows :: "db \<Rightarrow> bool" where
  "new_rows d \<longleftrightarrow> db_positions d = [] \<and> db_intents d = [] \<and> db_locks d = (\<lambda>_. None) \<and>
     (\<exists>s. db_signals d = [s] \<and> sg_id s = ''s'')"

definition reserved_rows :: "string \<Rightarrow> db \<Rightarrow> bool" where
  "reserved_rows state d \<longleftrightarrow>
     (\<exists>p t s. db_positions d = [p] \<and> db_intents d = [t] \<and> db_signals d = [s] \<and> sg_id s = ''s'' \<and> ps_id p = ''p'' \<and>
        ps_status p = ''PENDING'' \<and> it_id t = ''i'' \<and> it_state t = state)"

definition run_pending :: Intents.pending_input where
  "run_pending = pending_of ''u'' run_signal run_gs run_sized"

definition run_intent :: intent_row where
  "run_intent = createExecutionIntentRow (\<lambda>k. k) ''i'' ''p'' 5 run_pending"

lemma run_created:
  assumes "new_rows d"
  shows "\<exists>d'. exec (createPendingPositionWithExecutionIntent (\<lambda>_. 0) (\<lambda>k. k) 0 ''p'' ''i'' 5 run_pending) d =
      Some (d', Inr (Create_ok (pending_position ''p'' run_pending) run_intent 0 1)) \<and> reserved_rows ''CREATED'' d'"
proof -
  have p: "pi_maxConcurrentPositions run_pending = 1" "pi_userId run_pending = ''u''" by code_simp+
  show ?thesis
    using assms p
    by (auto simp: createPendingPositionWithExecutionIntent_def exec_transaction new_rows_def
        find_position_by_key_def countMt5ConsumedCapacitySlots_def decideCapacityReservation_def
        insert_both_def insert_position_def insert_intent_def findExecutionIntentBySignal_def reserved_rows_def run_intent_def)
      (simp_all add: pending_position_def createExecutionIntentRow_def Let_def)
qed

lemma run_refreshed:
  assumes "reserved_rows state d"
  shows "\<exists>d'. exec (refreshPendingExecutionParams ''p'' ''i'' ''s'' r) d = Some (d', Inr ()) \<and> reserved_rows state d'"
  using assms
  by (auto simp: refreshPendingExecutionParams_def refresh_rows_def attempt_def reserved_rows_def update_position_row_def
      update_intent_row_def update_signal_row_def find_position_def find_intent_def)

lemma run_marked:
  assumes "reserved_rows ''CREATED'' d"
  shows "\<exists>d' t. exec (markExecutionIntentSubmitted ''i'' now) d = Some (d', Inr t) \<and> reserved_rows ''SUBMITTED'' d'"
proof -
  have "canTransitionExecutionIntentState ''CREATED'' ''SUBMITTED''" by code_simp
  then show ?thesis using assms
    by (auto simp: markExecutionIntentSubmitted_def transition_intent_def attempt_def reserved_rows_def
        update_intent_row_def find_intent_def)
qed

lemma run_persisted:
  assumes "reserved_rows ''SUBMITTED'' d" and "ot_accepted r" and "ot_position r = Some fill"
  shows "\<exists>d'. exec (persistPositionOpenFromBrokerResult ''p'' ''s'' ''i'' r now) d = Some (d', Inr ())"
proof -
  have "canTransitionExecutionIntentState ''SUBMITTED'' ''BROKER_CONFIRMED''"
    "canTransitionExecutionIntentState ''BROKER_CONFIRMED'' ''PERSISTED''" by code_simp+
  moreover have "\<not> broker_id_clash [p]" for p
    by (cases "ps_brokerPositionId p") (simp_all add: broker_id_clash_def map_filter_simps)
  ultimately show ?thesis using assms
    by (auto simp: persistPositionOpenFromBrokerResult_def update_positions_def attempt_def reserved_rows_def Let_def
        update_signal_row_def find_position_def find_intent_def markExecutionIntentBrokerConfirmed_def
        markExecutionIntentPersisted_def transition_intent_def update_intent_row_def)
qed

definition run_plan :: order_plan where
  "run_plan =
     \<lparr>op_positionId = ''p'', op_intent = run_intent, op_direction = BUY, op_brokerSymbol = ''V10'', op_volume = 3,
      op_requested = Fin (60 / 19), op_stopLoss = Fin (183 / 2), op_takeProfit = 120, op_riskPercent = 3, op_quote = run_quote\<rparr>"

definition run_request :: order_request where
  "run_request = request_of run_signal run_instrument run_plan"

definition run_order :: bridge_order where
  "run_order =
     \<lparr>bo_symbol = ''V10'', bo_direction = BUY, bo_volume = 3, bo_stopLoss = Fin (183 / 2), bo_takeProfit = 120,
      bo_comment = ''signal:s'', bo_magic = 7, bo_idempotencyKey = ''signal:s'', bo_fillingMode = FOK\<rparr>"

lemma plan_fields:
  "op_positionId run_plan = ''p''" "op_intent run_plan = run_intent" "it_id run_intent = ''i''" "op_direction run_plan = BUY"
  "op_quote run_plan = run_quote" "op_stopLoss run_plan = Fin (183 / 2)" "op_takeProfit run_plan = 120"
  "op_requested run_plan = Fin (60 / 19)" "ap_intendedR run_sized = 2" "ap_direction run_sized = BUY" "zs_volume run_sized = 3"
  "zs_requested run_sized = Fin (60 / 19)" "ap_stopLoss run_sized = Fin (183 / 2)" "ap_takeProfit run_sized = 120"
  "zs_limits run_sized = run_limits" "zs_account run_sized = test_account" "ap_quoted run_sized = run_quote"
  "riskPerTradePercent run_limits = 3"
  by (simp_all add: run_plan_def run_intent_def createExecutionIntentRow_def Let_def run_sized_def run_adapted_def
      adapted.extend_def sized.fields_def run_limits_def)

lemma run_refresh_stage:
  assumes "reserved_rows ''CREATED'' (w_db w)"
  shows "\<exists>d. exec (refresh_stage run_app run_signal run_readings run_gs run_instrument run_sized Final run_plan) w =
      Some (w\<lparr>w_db := d\<rparr>, Inr (Inr run_plan)) \<and> reserved_rows ''CREATED'' d"
proof -
  have q: "isQuoteFresh (Some (mq_timestamp run_quote)) (Fin (of_int 5)) (dc_maxQuoteAgeMs test_config)"
    "fill_price BUY run_quote = 101" by code_simp+
  obtain fin where fin: "finalizeMt5StopsForSubmit (stops_at BUY (Fin (183 / 2)) 120 run_quote run_instrument (Some test_symbol) 2) 2 = Some fin"
    "fr_ok fin" "fr_stopLoss fin = Some (Fin (183 / 2))" "fr_takeProfit fin = Some 120" "ar_brokerAdjusted (fr_adaptation fin) = False"
  proof -
    have "case finalizeMt5StopsForSubmit (stops_at BUY (Fin (183 / 2)) 120 run_quote run_instrument (Some test_symbol) 2) 2 of
        None \<Rightarrow> False | Some fin \<Rightarrow> fr_ok fin \<and> fr_stopLoss fin = Some (Fin (183 / 2)) \<and> fr_takeProfit fin = Some 120 \<and>
          \<not> ar_brokerAdjusted (fr_adaptation fin)" by code_simp
    then show ?thesis using that by (auto split: option.splits)
  qed
  have s: "sv_valid (validate_stops BUY 101 (Fin (183 / 2)) (Some 120) run_limits None)"
    "size_order refreshed_volume_code run_app (Some run_profile) test_account run_limits BUY 101 (Fin (183 / 2)) False run_instrument =
       Sized 3 (Fin (60 / 19)) (Fin (57 / 2))" by code_simp+
  have plan: "refreshed_plan run_plan run_quote (Fin (183 / 2)) 120 3 (Fin (60 / 19)) = run_plan"
    by (simp add: refreshed_plan_def run_plan_def)
  obtain d where d: "exec (refreshPendingExecutionParams ''p'' ''i'' ''s'' (refresh_of run_sized run_plan fin (Fin (57 / 2)))) (w_db w) = Some (d, Inr ())"
    "reserved_rows ''CREATED'' d" using run_refreshed [OF assms] by blast
  then show ?thesis
    using q fin s plan
    by (intro exI [of _ d]) (simp add: refresh_stage_def refresh_sized_def getQuote_def getLiveSymbol_def optional_reply_def ask_def run_fields
        plan_fields exec_lift Let_def)
qed

lemma run_open:
  assumes "w_account w = Some test_account" and "w_connected w" and "w_completedOpens w ''signal:s'' = None"
    and "''signal:s'' \<notin> w_inFlightOpens w"
  shows "\<exists>w'. exec (openMarketPosition test_config ''demo'' (\<lambda>k. k) run_request test_replies) w =
      Some (w', Inr (Inr (filled_result test_fill))) \<and> w_orders w' = w_orders w @ [run_order] \<and> w_db w' = w_db w"
proof -
  have "iv_valid (validateInstrumentMetadata run_instrument)"
    "isQuoteFresh (Some (mq_timestamp run_quote)) (Fin (of_int (or_now test_replies))) (dc_maxQuoteAgeMs test_config)"
    "normalizeLotsToMt5Step 3 (volume_spec_of run_instrument) = Inr \<lparr>nv_lots = Fin 3, nv_mt5Volume = Fin 3, nv_steppedDown = False\<rparr>"
    "plan_order test_config (\<lambda>k. k) (ma_equity test_account) run_request test_symbol (Fin 3) = Inr run_order"
    by code_simp+
  moreover have "oq_idempotencyKey run_request = ''signal:s''" "oq_instrument run_request = run_instrument"
    "oq_direction run_request = BUY" "oq_quote run_request = run_quote" "oq_volume run_request = 3"
    "bo_idempotencyKey run_order = ''signal:s''"
    by (simp_all add: run_request_def request_of_def run_plan_def run_fields executionIntentIdempotencyKey_def run_order_def)
  ultimately show ?thesis using assms
    by (simp add: openMarketPosition_def assertEnvironmentHedging_def test_hedging test_fields test_checks(3) open_checked_def ask_def
        submit_order_def send_order_def receive_answer_def tryAdoptOpenByIdempotency_def findMt5PositionByIdempotency_def
        remember_open_def landed_def Let_def)
qed

lemma run_submit:
  assumes "reserved_rows ''CREATED'' (w_db w)" and "w_account w = Some test_account" and "w_connected w"
    and "w_completedOpens w ''signal:s'' = None" and "''signal:s'' \<notin> w_inFlightOpens w"
  shows "\<exists>w'. exec (submit_loop run_app (\<lambda>k. k) run_signal run_readings run_gs run_instrument run_sized 0 run_plan) w =
      Some (w', Inr (Inr (run_plan, filled_result test_fill))) \<and> w_orders w' = w_orders w @ [run_order] \<and>
      reserved_rows ''SUBMITTED'' (w_db w')"
proof -
  obtain d t where d: "exec (markExecutionIntentSubmitted ''i'' 5) (w_db w) = Some (d, Inr t)" "reserved_rows ''SUBMITTED'' d"
    using run_marked [OF assms(1)] by blast
  obtain w' where "exec (openMarketPosition test_config ''demo'' (\<lambda>k. k) run_request test_replies) (w\<lparr>w_db := d\<rparr>) =
      Some (w', Inr (Inr (filled_result test_fill)))" "w_orders w' = w_orders w @ [run_order]" "w_db w' = d"
    using run_open [of "w\<lparr>w_db := d\<rparr>"] assms by auto
  moreover have "filled (filled_result test_fill)" by (simp add: filled_def filled_result_def)
  ultimately show ?thesis using d
    by (simp add: submit_loop.simps [of _ _ _ _ _ _ _ 0] run_fields plan_fields exec_lift run_request_def)
qed

text \<open>The stages after the sizing.\<close>

lemma run_stages:
  assumes "new_rows (w_db w)" and "w_account w = Some test_account" and "w_connected w"
    and "w_completedOpens w ''signal:s'' = None" and "''signal:s'' \<notin> w_inFlightOpens w"
  shows "\<exists>w' r. exec (order_stages run_app (\<lambda>_. 0) (\<lambda>k. k) ''u'' run_signal run_readings run_gs run_instrument run_sized) w =
      Some (w', Inr (Inr r)) \<and> w_orders w' = w_orders w @ [run_order]"
proof -
  obtain d where d: "update_signal_row ''s'' (write_sized run_sized) (w_db w) = Inr (d, ())" "new_rows d"
    using assms(1) by (auto simp: new_rows_def update_signal_row_def write_sized_def)
  define v where "v = w\<lparr>w_db := d\<rparr>"
  have rows: "db_positions d = []" "db_intents d = []" using d(2) by (simp_all add: new_rows_def)
  have k: "executionIntentIdempotencyKey ''s'' = ''signal:s''" by code_simp
  have du: "exec (duplicate_stage run_app (\<lambda>k. k) run_signal run_readings) v =
      Some (v, Inr (Inr \<lparr>du_position = None, du_intent = None, du_resume = False\<rparr>))"
    using rows by (simp add: duplicate_stage_def run_fields k v_def find_position_by_key_def findExecutionIntentBySignal_def
        shouldBlockDuplicateExecution_def)
  have live: "\<not> is_live run_app" by (simp add: is_live_def run_app_def run_mt5_def)
  obtain f det where f: "exec (gather_risk ''u'' 5) v = Some (v, Inr f)"
    "cfd_risk_evaluate (risk_question run_app run_gs None run_instrument run_sized f 5) = Inr det"
  proof -
    let ?f = "\<lparr>fa_openCount = 0, fa_totalOpenRisk = 0, fa_closedTodayCount = 0, fa_dailyRealized = 0, fa_losses = 0,
      fa_lastLossClosedAt = None, fa_lastTradeAt = None\<rparr>"
    have "cfd_risk_evaluate (risk_question run_app run_gs None run_instrument run_sized ?f 5) = Inr None"
      using live by (simp add: cfd_risk_evaluate_def risk_question_def run_fields plan_fields proposed_risk_def stop_engaged_def
        evaluateConsecutiveLossCooldown_def cfd_cooldown_ms_def consecutiveLossCooldownMsFromMinutes_def
        seconds_between_def Let_def run_limits_def run_profile_def test_account_def run_sized_def run_app_def
        adapted.extend_def sized.fields_def)
    moreover have "exec (gather_risk ''u'' 5) v = Some (v, Inr ?f)"
      using rows by (simp add: gather_risk_def positions_with_def closed_today_def recent_closed_def last_trade_def sum_numbers_def
          computeConsecutiveLossStreak_def v_def)
    ultimately show ?thesis using that by blast
  qed
  have risk: "exec (risk_stage run_app ''u'' run_signal run_readings run_gs run_instrument run_sized) v = Some (v, Inr (Inr f))"
    using f live by (simp add: risk_stage_def run_fields ask_def Let_def)
  obtain d1 where d1: "exec (createPendingPositionWithExecutionIntent (\<lambda>_. 0) (\<lambda>k. k) 0 ''p'' ''i'' 5 run_pending) d =
      Some (d1, Inr (Create_ok (pending_position ''p'' run_pending) run_intent 0 1))" "reserved_rows ''CREATED'' d1"
    using run_created [OF d(2)] by blast
  obtain d2 where d2: "exec (refresh_stage run_app run_signal run_readings run_gs run_instrument run_sized Final run_plan)
      (v\<lparr>w_db := d1\<rparr>) = Some (v\<lparr>w_db := d2\<rparr>, Inr (Inr run_plan))" "reserved_rows ''CREATED'' d2"
    using run_refresh_stage [of "v\<lparr>w_db := d1\<rparr>"] d1(2) by auto
  have first: "\<lparr>op_positionId = ps_id (pending_position ''p'' run_pending), op_intent = run_intent, op_direction = BUY,
      op_brokerSymbol = ''V10'', op_volume = 3, op_requested = Fin (60 / 19), op_stopLoss = Fin (183 / 2), op_takeProfit = 120,
      op_riskPercent = 3, op_quote = run_quote\<rparr> = run_plan"
    by (simp add: run_plan_def pending_position_def)
  have "exec (plan_stage run_app (\<lambda>_. 0) (\<lambda>k. k) ''u'' run_signal run_readings run_gs run_instrument run_sized
      \<lparr>du_position = None, du_intent = None, du_resume = False\<rparr>) v = Some (v\<lparr>w_db := d2\<rparr>, Inr (Inr run_plan))"
    using d1 d2 by (simp add: plan_stage_def reserve_stage_def run_fields plan_fields run_pending_def [symmetric] exec_lift v_def
        recordPositionEvent_def ask_def first [simplified])
  moreover have "exec (live_stage run_app run_signal run_readings run_gs run_sized f run_plan) (v\<lparr>w_db := d2\<rparr>) =
      Some (v\<lparr>w_db := d2\<rparr>, Inr (Inr run_plan))" using live by (simp add: live_stage_def)
  moreover obtain w1 where w1: "exec (submit_loop run_app (\<lambda>k. k) run_signal run_readings run_gs run_instrument run_sized 0 run_plan)
      (v\<lparr>w_db := d2\<rparr>) = Some (w1, Inr (Inr (run_plan, filled_result test_fill)))" "w_orders w1 = w_orders w @ [run_order]"
      "reserved_rows ''SUBMITTED'' (w_db w1)"
    using run_submit [of "v\<lparr>w_db := d2\<rparr>"] d2(2) assms by (auto simp: v_def)
  moreover obtain d3 where "exec (persistPositionOpenFromBrokerResult ''p'' ''s'' ''i'' (filled_result test_fill) 5) (w_db w1) = Some (d3, Inr ())"
    using run_persisted [OF w1(3), of "filled_result test_fill"] by (auto simp: filled_result_def)
  ultimately show ?thesis
    using d(1) du risk by (simp add: order_stages_def attempt_def proceed_def exec_lift run_fields plan_fields persist_stage_def
        recordPositionEvent_def ask_def v_def [symmetric])
qed

text \<open>The whole execution sends the order.\<close>

lemma run_execution:
  "\<exists>w r. exec (executeCfdSignal run_app (\<lambda>_. 0) (\<lambda>k. k) ''u'' run_signal run_readings) run_world = Some (w, Inr r) \<and>
     w_orders w = [run_order]"
proof -
  have w: "w_account run_world = Some test_account" "rt_hasAdapter (w_runtime run_world ''u'')" "w_db run_world = empty_db"
    "w_orders run_world = []" "w_connected run_world" "w_completedOpens run_world ''signal:s'' = None"
    "''signal:s'' \<notin> w_inFlightOpens run_world"
    by (simp_all add: run_world_def idle_world_def)
  obtain d where d: "update_signal_row ''s'' (write_proposal run_proposal) empty_db = Inr (d, ())" "new_rows d"
    by (auto simp: new_rows_def update_signal_row_def write_proposal_def empty_db_def demo_signal_def)
  define v where "v = run_world\<lparr>w_db := d, w_account := Some test_account\<rparr>"
  have same: "run_world\<lparr>w_db := d\<rparr> = v" "v\<lparr>w_account := Some test_account\<rparr> = v"
    using w(1) by (simp_all add: v_def run_world_def idle_world_def)
  obtain w' r where r: "exec (order_stages run_app (\<lambda>_. 0) (\<lambda>k. k) ''u'' run_signal run_readings run_gs run_instrument run_sized) v =
      Some (w', Inr (Inr r))" "w_orders w' = [run_order]"
    using run_stages [of v] d(2) w by (auto simp: v_def)
  have "exec (entry_stage run_app ''u'' run_signal run_readings) run_world = Some (run_world, Inr (Inr run_gs))"
    by (rule run_entry) (simp_all add: w empty_db_def countMt5ConsumedCapacitySlots_def find_position_by_key_def)
  moreover have "exec (preflight_stage run_app ''u'' run_readings run_instrument run_proposal) v = Some (v, Inr (Inr run_adapted))"
    by (rule run_preflight) (simp add: v_def w)
  ultimately show ?thesis
    using r d(1) w run_instrument [of run_world] run_sizing [of v]
    by (simp add: executeCfdSignal_def executeCfdSignalInner_def proceed_def run_proposal same)
qed

end
