(* ===== verification/Mt5ExecutionFacts.thy ===== *)
theory Mt5ExecutionFacts
  imports Mt5Stages Mt5ExecutionRun
begin

text \<open>
  What one execution of a signal on MetaTrader 5 does: which gates an order has passed, how many orders it sends, and
  that in the live mode it never gets past the first gate.
\<close>

subsection \<open>Programs that change nothing\<close>

abbreviation still :: "(world, 'a) prog \<Rightarrow> bool" where
  "still p \<equiv> upholds (\<lambda>_. True) any_step (=) (\<lambda>_. True) p"

lemma still_calls [simp, intro]:
  "still (query g)" "still (ask r)" "still (lift (query f))" "still (Done x)" "still (Throw e)" "still recordPositionEvent"
proof -
  show "still (query g)" by (rule upholds_query) simp
  show "still (ask r)"
    unfolding ask_def by (rule up_atomic) (auto intro!: exI [of _ "\<lambda>_. True"] up_done up_throw split: sum.splits)
  then show "still recordPositionEvent" unfolding recordPositionEvent_def
    unfolding ask_def by (intro up_atomic) (auto intro!: exI [of _ "\<lambda>_. True"] up_done up_throw split: sum.splits)
  show "still (lift (query f))"
    unfolding query_def lift.simps by (rule up_atomic) (auto intro!: exI [of _ "\<lambda>_. True"] up_done)
qed (rule up_done, rule up_throw)

lemma still_bind [intro]: "still p \<Longrightarrow> (\<And>x. still (k x)) \<Longrightarrow> still (bind p k)"
  by (rule upholds_bind)

lemma still_exec:
  assumes "still p" and "exec p w = Some (w', r)"
  shows "w' = w"
proof -
  have "True \<and> w = w'"
    by (rule upholds_exec [where T = "(=)", OF assms(1) _ _ assms(2)]) simp_all
  then show ?thesis by simp
qed

lemma still_entry: "still (entry_stage cfg u x rd)"
  unfolding entry_stage_def gate_stage_def loadMapping_def stop_with_def Let_def
  by (auto intro!: still_bind split: sum.split option.split)

subsection \<open>The live mode\<close>

text \<open>The first question of an execution to the submission gate leaves the armed flag out, and the live gate takes
  what is left out for disarmed.\<close>

lemma live_gate_closed:
  assumes "mc_EXECUTION_MODE (sb_config inp) = ''broker_real_mt5''" and "sb_liveTradingArmed inp = None"
  shows "\<not> ga_allowed (gateMt5EngineSubmission inp)"
  using assms by (simp add: gateMt5EngineSubmission_def gateLiveMt5EngineSubmission_def Let_def resolveLiveTradingArmState_def
      blocked_def)

lemma live_entry_stops:
  assumes "is_live cfg"
  shows "yields (\<lambda>r. \<exists>y. r = Inl y \<and> \<not> xr_opened y) (entry_stage cfg u x rd)"
proof -
  have closed: "\<not> ga_allowed (gateMt5EngineSubmission (submission_of cfg x n lc m e None None))" for n lc m e
    by (rule live_gate_closed) (use assms in \<open>simp_all add: submission_of_def is_live_def\<close>)
  have "yields (\<lambda>r. \<exists>y. r = Inl y \<and> \<not> xr_opened y) (gate_stage cfg u x rd)"
    unfolding gate_stage_def
    by (rule yields_bind [OF yields_True])+ (simp add: Let_def closed stop_with_def refusal_def)
  then show ?thesis
    unfolding entry_stage_def
    by (auto simp: stop_with_def refusal_def split: sum.split option.split intro!: yields_bind [OF yields_True])
qed

lemma yields_proceed:
  assumes "yields (\<lambda>r. \<exists>y. r = Inl y \<and> Q y) p"
  shows "yields (\<lambda>r. \<exists>y. r = Inl y \<and> Q y) (proceed p k)"
  unfolding proceed_def by (rule yields_bind [OF assms]) auto

lemma still_proceed:
  assumes "still p" and "yields (\<lambda>r. \<exists>y. r = Inl y) p"
  shows "still (proceed p k)"
  unfolding proceed_def by (rule upholds_yields [OF assms]) (auto intro: up_done)

lemma live_execution_still:
  assumes "is_live cfg"
  shows "still (executeCfdSignal cfg h oc u x rd)"
proof -
  have "yields (\<lambda>r. \<exists>y. r = Inl y) (entry_stage cfg u x rd)"
    by (rule yields_mono [OF live_entry_stops [OF assms]]) auto
  then have "still (executeCfdSignalInner cfg h oc u x rd)"
    unfolding executeCfdSignalInner_def by (rule still_proceed [OF still_entry])
  then show ?thesis
    unfolding executeCfdSignal_def by (intro upholds_catch upholds_bind) (auto intro: up_done)
qed

lemma yields_catch:
  assumes "yields Q p" and "\<And>e. yields Q (handler e)"
  shows "yields Q (catch p handler)"
  using assms(1) by (induction p rule: prog_call_induct) (auto simp: yields_Atomic assms(2))

lemma live_answers:
  assumes "is_live cfg"
  shows "yields (\<lambda>r. \<not> xr_opened r) (executeCfdSignal cfg h oc u x rd)"
proof -
  have "yields (\<lambda>r. \<exists>y. r = Inl y \<and> \<not> xr_opened y) (executeCfdSignalInner cfg h oc u x rd)"
    unfolding executeCfdSignalInner_def by (rule yields_proceed [OF live_entry_stops [OF assms]])
  then show ?thesis
    unfolding executeCfdSignal_def by (intro yields_catch yields_bind, assumption) (auto simp: refusal_def)
qed

text \<open>Executions in the live mode, as many as one likes, served at once.\<close>

datatype execution = Execute app_config string signal_input readings

primrec serve_execution :: "(string \<Rightarrow> int) \<Rightarrow> (string \<Rightarrow> string) \<Rightarrow> nat \<Rightarrow> execution \<Rightarrow> (world, unit) prog" where
  "serve_execution h oc t (Execute cfg u x rd) = discard (executeCfdSignal cfg h oc u x (rd\<lparr>rd_thread := t\<rparr>))"

primrec live_execution :: "execution \<Rightarrow> bool" where
  "live_execution (Execute cfg u x rd) = is_live cfg"

interpretation live: guarded_system "serve_execution h oc" "{e. live_execution e}" "\<lambda>_. True" "\<lambda>_. any_step" "\<lambda>_. (=)" "(=)"
  for h oc
proof
  show "still (serve_execution h oc t e)" if "e \<in> {e. live_execution e}" for e t
    using that by (cases e) (auto simp: discard_def live_execution_still)
qed simp_all

text \<open>C8: the armed live engine never submits.  In the mode \<open>broker_real_mt5\<close> every execution stops at its first
  submission gate, which is not told that the operator has armed live trading: whatever the configuration, the armed
  flag and the market, and however many executions run at once, the world stays as it was, and an execution run alone
  answers that nothing was opened.\<close>

theorem armed_live_engine_never_submits:
  assumes "\<forall>e \<in> es. live_execution e" and "sys_reach (serve_execution h oc) es (w, []) (w', ps)"
    and "mc_EXECUTION_MODE (xc_mt5 cfg) = ''broker_real_mt5''"
  shows "w' = w \<and> (\<forall>v v' r. exec (executeCfdSignal cfg h oc u x rd) v = Some (v', Inr r) \<longrightarrow> v' = v \<and> \<not> xr_opened r)"
proof
  have "sys_reach (serve_execution h oc) {e. live_execution e} (w, []) (w', ps)"
    using assms(2)
  proof (induction rule: rtranclp_induct)
    case (step c d)
    have "sys_step (serve_execution h oc) {e. live_execution e} c d"
      using step(2) by (induction rule: sys_step.induct) (use assms(1) in \<open>auto intro: sys_step.intros\<close>)
    then show ?case using step.IH by simp
  qed simp
  then show "w' = w" using live.reach_trace [OF _ rtranclp.rtrancl_refl] by blast
  have l: "is_live cfg" using assms(3) by (simp add: is_live_def)
  show "\<forall>v v' r. exec (executeCfdSignal cfg h oc u x rd) v = Some (v', Inr r) \<longrightarrow> v' = v \<and> \<not> xr_opened r"
  proof (intro allI impI)
    fix v v' r assume r: "exec (executeCfdSignal cfg h oc u x rd) v = Some (v', Inr r)"
    have "v' = v" by (rule still_exec [OF live_execution_still [OF l] r])
    moreover have "\<not> xr_opened r"
      by (rule yields_exec [OF _ r]) (rule live_answers [OF l])
    ultimately show "v' = v \<and> \<not> xr_opened r" by simp
  qed
qed

text \<open>The armed configuration whose order the gate lets pass when it is told of the arming.\<close>

definition live_app :: app_config where
  "live_app =
     \<lparr>xc_mt5 = demo_live_config, xc_maxConcurrentPositions = 1, xc_maxVolume = 1, xc_maxRiskPercent = 1,
      xc_demoXauMaxRiskPercent = None, xc_maxQuoteAgeMs = 1000, xc_lossCooldownMinutes = 60, xc_demoTradingEnabled = True,
      xc_adapter = test_config, xc_environment = ''live''\<rparr>"

theorem armed_live_engine_never_submits_witness:
  "fst (run (sched_step (serve_execution (\<lambda>_. 0) (\<lambda>k. k))) (run_world, [])
      (Accept (Execute live_app ''u'' run_signal run_readings) # List.map Perform [0, 0, 0, 0, 0, 0, 0])) = run_world \<and>
   ga_allowed (gateMt5EngineSubmission demo_submission) \<and> sb_config demo_submission = xc_mt5 live_app"
proof -
  let ?e = "Execute live_app ''u'' run_signal run_readings"
  let ?r = "run (sched_step (serve_execution (\<lambda>_. 0) (\<lambda>k. k))) (run_world, []) (Accept ?e # List.map Perform [0, 0, 0, 0, 0, 0, 0])"
  obtain w' ps where r: "?r = (w', ps)" by (cases ?r) auto
  have "sys_reach (serve_execution (\<lambda>_. 0) (\<lambda>k. k)) {?e} (run_world, []) ?r" by (rule sched_reach) auto
  moreover have l: "mc_EXECUTION_MODE (xc_mt5 live_app) = ''broker_real_mt5''" by (simp add: live_app_def demo_live_config_def)
  moreover from l have "\<forall>e \<in> {?e}. live_execution e" by (simp add: is_live_def)
  ultimately have "fst ?r = run_world"
    using armed_live_engine_never_submits [of "{?e}" "\<lambda>_. 0" "\<lambda>k. k" run_world w' ps live_app] unfolding r by simp
  moreover have "ga_allowed (gateMt5EngineSubmission demo_submission)" by code_simp
  ultimately show ?thesis by (simp add: demo_submission_def live_app_def)
qed

subsection \<open>Orders sent by one execution\<close>

text \<open>A program that sends no order, and one that moreover leaves positions and intents alone.\<close>

abbreviation sendless :: "(world, 'a) prog \<Rightarrow> bool" where
  "sendless p \<equiv> upholds (\<lambda>_. True) any_step (\<lambda>w w'. w_orders w' = w_orders w) (\<lambda>_. True) p"

definition rows_kept :: "world \<Rightarrow> world \<Rightarrow> bool" where
  "rows_kept w w' \<longleftrightarrow> db_positions (w_db w') = db_positions (w_db w) \<and> db_intents (w_db w') = db_intents (w_db w) \<and>
     w_orders w' = w_orders w"

abbreviation rowless :: "(world, 'a) prog \<Rightarrow> bool" where
  "rowless p \<equiv> upholds (\<lambda>_. True) any_step rows_kept (\<lambda>_. True) p"

lemma sendless_lift: "sendless (lift p)"
proof (induction p rule: prog_call_induct)
  case (Atomic f)
  show ?case unfolding lift.simps
    by (rule up_atomic) (use Atomic in \<open>auto intro!: exI [of _ "\<lambda>_. True"]\<close>)
qed (auto intro: up_done up_throw)

interpretation reading: reading_steps "\<lambda>_. True" any_step rows_kept
proof
  show "rowless (lift (attempt (update_signal_row sid f)))" for sid f
    unfolding attempt_def lift.simps
    by (rule up_atomic)
      (auto simp: update_signal_row_def rows_kept_def split: sum.splits if_splits
        intro!: exI [of _ "\<lambda>_. True"] up_done up_throw)
qed (simp add: rows_kept_def)

interpretation sending: execution_steps "\<lambda>_. True" any_step "\<lambda>w w'. w_orders w' = w_orders w" h oc t cap
  for h oc t cap
  by unfold_locales (simp_all add: sendless_lift)

lemma sendless_exec:
  assumes "sendless p" and "exec p w = Some (w', r)"
  shows "w_orders w' = w_orders w"
proof -
  have "True \<and> w_orders w' = w_orders w"
    by (rule upholds_exec [where T = "\<lambda>w w'. w_orders w' = w_orders w", OF assms(1) _ _ assms(2)]) simp_all
  then show ?thesis by simp
qed

lemma rowless_exec:
  assumes "rowless p" and "exec p w = Some (w', r)"
  shows "rows_kept w w'"
proof -
  have "True \<and> rows_kept w w'"
    by (rule upholds_exec [where T = rows_kept, OF assms(1) _ _ assms(2)]) (simp_all add: rows_kept_def)
  then show ?thesis by simp
qed

text \<open>What follows a stage runs only when the stage goes on.\<close>

lemma exec_proceed:
  "exec (proceed p k) w = Some (w', r) \<longleftrightarrow>
     (\<exists>e. exec p w = Some (w', Inl e) \<and> r = Inl e) \<or> (\<exists>x. exec p w = Some (w', Inr (Inl x)) \<and> r = Inr (Inl x)) \<or>
     (\<exists>y v. exec p w = Some (v, Inr (Inr y)) \<and> exec (k y) v = Some (w', r))"
  by (auto simp: proceed_def split: option.splits sum.splits)

lemma sent_after:
  assumes "exec (proceed p k) w = Some (w', r)" and "w_orders w' \<noteq> w_orders w" and "sendless p"
  obtains y v where "exec p w = Some (v, Inr (Inr y))" and "exec (k y) v = Some (w', r)" and "w_orders w' \<noteq> w_orders v"
  using assms sendless_exec [OF assms(3)] unfolding exec_proceed by metis

lemma sent_later:
  assumes "exec (proceed p k) w = Some (w', r)" and "w_orders w' \<noteq> w_orders w" and "rowless p"
  obtains y v where "exec p w = Some (v, Inr (Inr y))" and "exec (k y) v = Some (w', r)" and "w_orders w' \<noteq> w_orders v"
    and "rows_kept w v"
proof -
  have "\<exists>y v. exec p w = Some (v, Inr (Inr y)) \<and> exec (k y) v = Some (w', r)"
    using assms(1,2) rowless_exec [OF assms(3)] unfolding exec_proceed rows_kept_def by blast
  then obtain y v where y: "exec p w = Some (v, Inr (Inr y))" "exec (k y) v = Some (w', r)" by blast
  moreover have "rows_kept w v" by (rule rowless_exec [OF assms(3) y(1)])
  moreover have "w_orders w' \<noteq> w_orders v" using assms(2) calculation(3) by (simp add: rows_kept_def)
  ultimately show ?thesis using that by blast
qed

text \<open>One call to the bridge, and its refusals after the order was sent.\<close>

definition refused_reasons :: "open_fill reply \<Rightarrow> string list" where
  "refused_reasons r = (case r of Failure _ code message needsReconcile \<Rightarrow>
       if needsReconcile \<or> code = Some ''MT5_EA_TIMEOUT'' then []
       else filter (\<lambda>s. s \<noteq> []) [or_default code ''ORDER_REJECTED'', or_default message []]
     | Answer _ \<Rightarrow> [])"

lemma receive_refused:
  assumes "exec (receive_answer cfg oc key rp) w = Some (w', Inr (Inl rs))"
  shows "AMBIGUOUS_TIMEOUT_QUERY_BEFORE_RESUBMIT \<in> set rs \<or> rs = refused_reasons (or_answer rp)"
  using assms unfolding receive_answer_def
  by (auto simp: refused_reasons_def AMBIGUOUS_TIMEOUT_QUERY_BEFORE_RESUBMIT_def
      split: reply.splits option.splits sum.splits if_splits)

lemma submit_refused:
  assumes "exec (submit_order cfg oc b rp) w = Some (w', Inr (Inl rs))" and "w_orders w' \<noteq> w_orders w"
  shows "AMBIGUOUS_TIMEOUT_QUERY_BEFORE_RESUBMIT \<in> set rs \<or> rs = refused_reasons (or_answer rp)"
  using assms unfolding submit_order_def send_order_def Let_def
  by (auto split: option.splits sum.splits if_splits dest!: exec_adopt dest: receive_refused)

lemma open_sends:
  assumes "exec (openMarketPosition cfg env oc req rp) w = Some (w', x)" and "w_orders w' \<noteq> w_orders w"
  shows "\<exists>b. w_orders w' = w_orders w @ [b] \<and> bo_idempotencyKey b = oq_idempotencyKey req \<and>
    (\<forall>rs. x = Inr (Inl rs) \<longrightarrow>
       AMBIGUOUS_TIMEOUT_QUERY_BEFORE_RESUBMIT \<in> set rs \<or> rs = refused_reasons (or_answer rp))"
proof -
  obtain equity sy lots b where b: "plan_order cfg oc equity req sy lots = Inr b"
    "exec (submit_order cfg oc b rp) w = Some (w', x)"
    using assms
    by (auto simp: openMarketPosition_def assertEnvironmentHedging_def open_checked_def Let_def ask_def
        split: reply.splits option.splits sum.splits if_splits)
  have key: "bo_idempotencyKey b = oq_idempotencyKey req" using planned_risk [OF b(1)] by blast
  moreover have "w_orders w' = w_orders w @ [b]" using exec_submit [OF b(2) key] assms(2) by blast
  moreover have "AMBIGUOUS_TIMEOUT_QUERY_BEFORE_RESUBMIT \<in> set rs \<or> rs = refused_reasons (or_answer rp)"
    if "x = Inr (Inl rs)" for rs
    by (rule submit_refused [OF b(2) [unfolded that] assms(2)])
  ultimately show ?thesis by blast
qed

lemma confirmed_reasons: "isConfirmedInvalidStopsRejection rs \<Longrightarrow> rs \<noteq> []"
  by (auto simp: isConfirmedInvalidStopsRejection_def split: if_splits)

lemma resubmit_confirmed:
  assumes "may_resubmit n rs"
  shows "isConfirmedInvalidStopsRejection rs" and "rs \<noteq> []" and "AMBIGUOUS_TIMEOUT_QUERY_BEFORE_RESUBMIT \<notin> set rs"
proof -
  show c: "isConfirmedInvalidStopsRejection rs"
    using assms by (auto simp: may_resubmit_def decideInvalidStopsResubmit_def split: if_splits)
  then show "rs \<noteq> []" by (rule confirmed_reasons)
  show "AMBIGUOUS_TIMEOUT_QUERY_BEFORE_RESUBMIT \<notin> set rs"
    using c by (auto simp: isConfirmedInvalidStopsRejection_def list_ex_iff AMBIGUOUS_CODES_def
        AMBIGUOUS_TIMEOUT_QUERY_BEFORE_RESUBMIT_def split: if_splits)
qed

text \<open>One round of the loop: it ends, or the broker refused the stops and the next round runs.\<close>

lemma submit_round:
  assumes "exec (submit_loop cfg oc x rd gs inst z n o1) w = Some (w', r)"
  shows "\<exists>new. length new \<le> 1 \<and> (\<forall>b \<in> set new. bo_idempotencyKey b = executionIntentIdempotencyKey (xi_signalId x)) \<and>
    (w_orders w' = w_orders w @ new \<or>
     (\<exists>v o2. w_orders v = w_orders w @ new \<and> exec (submit_loop cfg oc x rd gs inst z (n + 1) o2) v = Some (w', r) \<and> n < 1 \<and>
        (new \<noteq> [] \<longrightarrow> isConfirmedInvalidStopsRejection (refused_reasons (or_answer (rd_open rd n))))))"
proof -
  let ?key = "executionIntentIdempotencyKey (xi_signalId x)"
  let ?open = "openMarketPosition (xc_adapter cfg) (xc_environment cfg) oc (request_of x inst o1) (rd_open rd n)"
  let ?mark = "lift (markExecutionIntentSubmitted (it_id (op_intent o1)) (rd_now rd (Submitting n))) :: (world, intent_row) prog"
  obtain v1 a where v1: "exec ?mark w = Some (v1, a)"
    using assms unfolding submit_loop.simps [of cfg oc x rd gs inst z n o1] by (auto split: option.splits)
  have o1: "w_orders v1 = w_orders w" by (rule sendless_exec [OF sendless_lift v1])
  show ?thesis
  proof (cases a)
    case (Inl e)
    then have "w_orders w' = w_orders w @ []"
      using assms v1 o1 unfolding submit_loop.simps [of cfg oc x rd gs inst z n o1] by simp
    then show ?thesis by (intro exI [of _ "[]"]) simp
  next
    case (Inr _)
    then obtain v2 out where v2: "exec ?open v1 = Some (v2, out)"
      using assms v1 unfolding submit_loop.simps [of cfg oc x rd gs inst z n o1] by (auto split: option.splits)
    define new where "new = drop (length (w_orders w)) (w_orders v2)"
    have new: "w_orders v2 = w_orders w @ new" "length new \<le> 1" "\<forall>b \<in> set new. bo_idempotencyKey b = ?key"
      "new \<noteq> [] \<Longrightarrow> \<forall>rs. out = Inr (Inl rs) \<longrightarrow>
         AMBIGUOUS_TIMEOUT_QUERY_BEFORE_RESUBMIT \<in> set rs \<or> rs = refused_reasons (or_answer (rd_open rd n))"
      using open_sends [OF v2] o1 by (cases "w_orders v2 = w_orders v1"; auto simp: new_def request_of_def)+
    have stop: ?thesis if "w_orders w' = w_orders v2"
      using that new(1-3) by (intro exI [of _ new]) simp
    note loop = assms [unfolded submit_loop.simps [of cfg oc x rd gs inst z n o1]]
    show ?thesis
    proof (cases out)
      case (Inl e)
      then show ?thesis using loop v1 v2 Inr stop by simp
    next
      case o: (Inr answer)
      let ?rs = "case answer of Inl rs \<Rightarrow> rs | Inr _ \<Rightarrow> []"
      consider (fill) "case answer of Inr q \<Rightarrow> filled q | Inl _ \<Rightarrow> False"
        | (ambiguous) "\<not> (case answer of Inr q \<Rightarrow> filled q | Inl _ \<Rightarrow> False)" "classifyOpenMarketFailure ?rs = AMBIGUOUS_FAILURE"
        | (refused) "\<not> (case answer of Inr q \<Rightarrow> filled q | Inl _ \<Rightarrow> False)" "classifyOpenMarketFailure ?rs \<noteq> AMBIGUOUS_FAILURE"
        by blast
      then show ?thesis
      proof cases
        case fill
        then show ?thesis using loop v1 v2 Inr o stop by simp
      next
        case ambiguous
        then have "exec (ambiguous_stage cfg oc rd n o1 ?rs :: (order_plan \<times> open_result) stage) v2 = Some (w', r)"
          using loop v1 v2 Inr o by simp
        then show ?thesis by (rule stop [OF sendless_exec [OF sending.ok_ambiguous]])
      next
        case refused
        let ?adopt = "tryAdoptOpenByIdempotency (xc_adapter cfg) oc (executionIntentIdempotencyKey (xi_signalId x)) (rd_adopt rd n)"
        obtain v3 ad where v3: "exec ?adopt v2 = Some (v3, ad)"
          using loop v1 v2 Inr o refused by (auto simp: Let_def split: option.splits)
        have o3: "w_orders v3 = w_orders v2" by (rule sendless_exec [OF sending.ok_adapter(1) v3])
        show ?thesis
        proof (cases "may_resubmit n ?rs \<and> (\<exists>y. ad = Inr y \<and> \<not> some_and y filled)")
          case False
          then have "w_orders w' = w_orders v3"
            using loop v1 v2 v3 Inr o refused sendless_exec [OF sending.ok_reject(1)]
            by (auto simp: Let_def split: sum.splits if_splits)
          then show ?thesis using stop o3 by simp
        next
          case True
          then have "exec (proceed (refresh_stage cfg x rd gs inst z (Retry (n + 1)) o1)
              (\<lambda>o2. submit_loop cfg oc x rd gs inst z (n + 1) o2)) v3 = Some (w', r)"
            using loop v1 v2 v3 Inr o refused by (auto simp: Let_def)
          moreover have "n < 1" using True may_resubmit_bound by blast
          moreover have "isConfirmedInvalidStopsRejection (refused_reasons (or_answer (rd_open rd n)))" if "new \<noteq> []"
            using True new(4) [OF that] o resubmit_confirmed by (cases answer) auto
          ultimately show ?thesis
            using stop new sendless_exec [OF sending.ok_refresh] o3 unfolding exec_proceed by metis
        qed
      qed
    qed
  qed
qed

lemma submit_rounds:
  assumes "exec (submit_loop cfg oc x rd gs inst z 0 o1) w = Some (w', r)"
  shows "\<exists>new. w_orders w' = w_orders w @ new \<and> length new \<le> 2 \<and>
    (\<forall>b \<in> set new. bo_idempotencyKey b = executionIntentIdempotencyKey (xi_signalId x)) \<and>
    (length new = 2 \<longrightarrow> isConfirmedInvalidStopsRejection (refused_reasons (or_answer (rd_open rd 0))))"
proof -
  have last: "\<exists>new. w_orders w' = w_orders v @ new \<and> length new \<le> 1 \<and>
      (\<forall>b \<in> set new. bo_idempotencyKey b = executionIntentIdempotencyKey (xi_signalId x))"
    if "exec (submit_loop cfg oc x rd gs inst z 1 o2) v = Some (w', r)" for v o2
    using submit_round [OF that] by auto
  obtain new where new: "length new \<le> 1" "\<forall>b \<in> set new. bo_idempotencyKey b = executionIntentIdempotencyKey (xi_signalId x)"
    and e: "w_orders w' = w_orders w @ new \<or>
     (\<exists>v o2. w_orders v = w_orders w @ new \<and> exec (submit_loop cfg oc x rd gs inst z 1 o2) v = Some (w', r) \<and>
        (new \<noteq> [] \<longrightarrow> isConfirmedInvalidStopsRejection (refused_reasons (or_answer (rd_open rd 0)))))"
    using submit_round [OF assms] by auto
  from e show ?thesis
  proof
    assume "w_orders w' = w_orders w @ new"
    then show ?thesis using new by (intro exI [of _ new]) auto
  next
    assume "\<exists>v o2. w_orders v = w_orders w @ new \<and> exec (submit_loop cfg oc x rd gs inst z 1 o2) v = Some (w', r) \<and>
        (new \<noteq> [] \<longrightarrow> isConfirmedInvalidStopsRejection (refused_reasons (or_answer (rd_open rd 0))))"
    then obtain v o2 where n: "w_orders v = w_orders w @ new" "exec (submit_loop cfg oc x rd gs inst z 1 o2) v = Some (w', r)"
      "new \<noteq> [] \<longrightarrow> isConfirmedInvalidStopsRejection (refused_reasons (or_answer (rd_open rd 0)))"
      by blast
    moreover obtain new2 where "w_orders w' = w_orders v @ new2" "length new2 \<le> 1"
      "\<forall>b \<in> set new2. bo_idempotencyKey b = executionIntentIdempotencyKey (xi_signalId x)"
      using last [OF n(2)] by blast
    ultimately show ?thesis using new by (intro exI [of _ "new @ new2"]) auto
  qed
qed

subsection \<open>Which stages an order has passed\<close>

lemma execution_inner:
  "exec (executeCfdSignal cfg h oc u x rd) w = Some (w', r) \<Longrightarrow>
     \<exists>q. exec (executeCfdSignalInner cfg h oc u x rd) w = Some (w', q)"
  by (auto simp: executeCfdSignal_def split: option.splits sum.splits)

text \<open>The risk facts are read from the positions.\<close>

definition risk_facts_of :: "string \<Rightarrow> int \<Rightarrow> db \<Rightarrow> risk_facts" where
  "risk_facts_of u now d =
     (let (losses, lastLoss) = computeConsecutiveLossStreak
            (List.map (\<lambda>p. \<lparr>realizedPnl = ps_realizedPnl p, closedAt = ps_closedAt p\<rparr>) (recent_closed u d))
      in \<lparr>fa_openCount = length (positions_with u ''OPEN'' d),
          fa_totalOpenRisk = sum_numbers (List.map ps_riskAmount (positions_with u ''OPEN'' d)),
          fa_closedTodayCount = length (closed_today u now d),
          fa_dailyRealized = sum_numbers (List.map ps_realizedPnl (closed_today u now d)),
          fa_losses = losses, fa_lastLossClosedAt = lastLoss,
          fa_lastTradeAt = Option.bind (last_trade u d) ps_openedAt\<rparr>)"

lemma risk_passed:
  assumes "exec (risk_stage cfg u x rd gs inst z) w = Some (v, Inr (Inr f))"
  shows "f = risk_facts_of u (rd_now rd Risking) (w_db w) \<and>
    (\<exists>det. cfd_risk_evaluate (risk_question cfg gs (rd_engine rd) inst z f (rd_now rd Risking)) = Inr det)"
  using assms
  by (auto simp: risk_stage_def gather_risk_def risk_facts_of_def ask_def stop_with_def Let_def
      split: prod.splits if_splits sum.splits)

lemma duplicate_passed:
  assumes "exec (duplicate_stage cfg oc x rd) w = Some (v, Inr (Inr du))"
  shows "v = w \<and> (\<forall>reason. shouldBlockDuplicateExecution (findExecutionIntentBySignal (xi_signalId x) (w_db w))
      (find_position_by_key (executionIntentIdempotencyKey (xi_signalId x)) (w_db w)) \<noteq> Block_duplicate reason)"
  using assms
  by (auto simp: duplicate_stage_def split: duplicate_decision.splits option.splits sum.splits if_splits)

lemma entry_passed:
  assumes "exec (entry_stage cfg u x rd) w = Some (v, Inr (Inr gs))"
  shows "isCfdCapableStrategy (xi_strategyId x) \<and> xi_action x \<noteq> VHOLD \<and>
    executionBlockIfUnhealthy (rd_circuit rd) (w_runtime w u) (rd_now rd Health) = None \<and>
    gs_profile gs = rd_profile rd \<and> gs_lifecycle gs = Some (loadLifecycle (rd_lifecycle rd)) \<and>
    gs_maxConcurrent gs = reserved_cap cfg rd \<and>
    gs_ownedCount gs = (if holds_slot (find_position_by_key (executionIntentIdempotencyKey (xi_signalId x)) (w_db w))
       then countMt5ConsumedCapacitySlots u (w_db w) - 1 else countMt5ConsumedCapacitySlots u (w_db w)) \<and>
    ga_allowed (gateMt5EngineSubmission (submission_of cfg x (gs_ownedCount gs) (gs_lifecycle gs) (gs_mapping gs)
       (gs_maxConcurrent gs) None None))"
  using assms
  by (auto simp: entry_stage_def gate_stage_def loadMapping_def ask_def stop_with_def reserved_cap_def Let_def
      split: sum.splits option.splits if_splits)

text \<open>What the entry and the risk manager have checked, in the demo mode.\<close>

lemma entry_checked:
  assumes "exec (entry_stage cfg u x rd) w = Some (v, Inr (Inr gs))"
  shows "mc_EXECUTION_MODE (xc_mt5 cfg) = ''broker_demo_mt5''" "mc_ENGINE_ENABLED (xc_mt5 cfg)"
    "xi_symbol x \<in> set (parseCsvAllowlist (mc_SYMBOL_ALLOWLIST (xc_mt5 cfg)))"
    "xi_strategyId x \<in> set (parseCsvAllowlist (mc_STRATEGY_ALLOWLIST (xc_mt5 cfg)))"
    "rd_lifecycle rd \<notin> {Some ''SUSPENDED'', Some ''REJECTED''}"
    "int (countMt5ConsumedCapacitySlots u (w_db w)) \<le>
       (if holds_slot (find_position_by_key (executionIntentIdempotencyKey (xi_signalId x)) (w_db w)) then reserved_cap cfg rd
        else reserved_cap cfg rd - 1)"
proof -
  note e = entry_passed [OF assms]
  let ?g = "submission_of cfg x (gs_ownedCount gs) (gs_lifecycle gs) (gs_mapping gs) (gs_maxConcurrent gs) None None"
  have g: "ga_allowed (gateMt5EngineSubmission ?g)" using e by blast
  then have "mc_EXECUTION_MODE (xc_mt5 cfg) \<noteq> ''broker_real_mt5''"
    using live_gate_closed [of ?g] by (auto simp: submission_of_def)
  with g have a: "mc_EXECUTION_MODE (xc_mt5 cfg) = ''broker_demo_mt5''" "mc_ENGINE_ENABLED (xc_mt5 cfg)"
    "xi_symbol x \<in> set (parseCsvAllowlist (mc_SYMBOL_ALLOWLIST (xc_mt5 cfg)))"
    "xi_strategyId x \<in> set (parseCsvAllowlist (mc_STRATEGY_ALLOWLIST (xc_mt5 cfg)))"
    and l: "\<not> lifecycle_blocked (gs_lifecycle gs)" and n: "int (gs_ownedCount gs) < gs_maxConcurrent gs"
    by (simp_all add: gateMt5EngineSubmission_def submission_of_def Let_def not_le split: if_splits)
  show "mc_EXECUTION_MODE (xc_mt5 cfg) = ''broker_demo_mt5''" "mc_ENGINE_ENABLED (xc_mt5 cfg)"
    "xi_symbol x \<in> set (parseCsvAllowlist (mc_SYMBOL_ALLOWLIST (xc_mt5 cfg)))"
    "xi_strategyId x \<in> set (parseCsvAllowlist (mc_STRATEGY_ALLOWLIST (xc_mt5 cfg)))" by (fact a)+
  show "rd_lifecycle rd \<notin> {Some ''SUSPENDED'', Some ''REJECTED''}"
    using l e by (auto simp: lifecycle_blocked_def BLOCKED_LIFECYCLES_def loadLifecycle_def)
  show "int (countMt5ConsumedCapacitySlots u (w_db w)) \<le>
       (if holds_slot (find_position_by_key (executionIntentIdempotencyKey (xi_signalId x)) (w_db w)) then reserved_cap cfg rd
        else reserved_cap cfg rd - 1)"
    using n e by (auto split: if_splits)
qed

lemma healthy_entry:
  "executionBlockIfUnhealthy c rt now = None \<longleftrightarrow>
     circuitState (Circuit.snapshot c) \<noteq> OPEN \<and> (\<exists>t. rt_lastReconcileOkAt rt = Some t \<and> now - t < 60000)"
  by (cases "rt_lastReconcileOkAt rt") (simp_all add: executionBlockIfUnhealthy_def RECONCILE_STALE_MS_def)

lemma risk_checked:
  assumes "cfd_risk_evaluate (risk_question cfg gs engine inst z f now) = Inr det" and "\<not> is_live cfg"
  shows "xc_demoTradingEnabled cfg" "\<not> stop_engaged engine"
    "\<not> (case gs_profile gs of Some q \<Rightarrow> pf_maxDailyTrades q | None \<Rightarrow> 10) \<le> Fin (of_nat (fa_closedTodayCount f + fa_openCount f))"
    "\<not> fa_dailyRealized f \<le> - (case gs_profile gs of Some q \<Rightarrow> pf_maxDailyLoss q | None \<Rightarrow> 5)"
proof -
  let ?q = "risk_question cfg gs engine inst z f now"
  have "cr_tradingEnabled ?q" "\<not> cr_emergencyStop ?q" "\<not> cr_maxDailyTrades ?q \<le> cr_dailyTradeCount ?q"
    "\<not> cr_dailyRealizedLoss ?q \<le> - cr_maxDailyLoss ?q"
    using assms(1) by (simp_all only: cfd_risk_evaluate_def Let_def split: if_splits) simp_all
  then show "xc_demoTradingEnabled cfg" "\<not> stop_engaged engine"
    "\<not> (case gs_profile gs of Some q \<Rightarrow> pf_maxDailyTrades q | None \<Rightarrow> 10) \<le> Fin (of_nat (fa_closedTodayCount f + fa_openCount f))"
    "\<not> fa_dailyRealized f \<le> - (case gs_profile gs of Some q \<Rightarrow> pf_maxDailyLoss q | None \<Rightarrow> 5)"
    using assms(2) by (simp_all add: risk_question_def Let_def cong: option.case_cong)
qed

text \<open>The way of an order: the answers of the stages before it.\<close>

lemma rows_kept_trans: "rows_kept w v \<Longrightarrow> rows_kept v v' \<Longrightarrow> rows_kept w v'"
  by (simp add: rows_kept_def)

lemma sized_stages:
  assumes "exec (executeCfdSignalInner cfg h oc u x rd) w = Some (w', r)" and "w_orders w' \<noteq> w_orders w"
  obtains gs inst z v where "exec (entry_stage cfg u x rd) w = Some (w, Inr (Inr gs))" and "rows_kept w v"
    and "exec (order_stages cfg h oc u x rd gs inst z) v = Some (w', r)" and "w_orders w' \<noteq> w_orders v"
proof -
  obtain gs v0 where gs: "exec (entry_stage cfg u x rd) w = Some (v0, Inr (Inr gs))" "w_orders w' \<noteq> w_orders v0"
    and e0: "exec (proceed (instrument_stage cfg u rd) (\<lambda>inst. proceed (proposal_stage x gs inst) (\<lambda>p.
      proceed (preflight_stage cfg u rd inst p) (\<lambda>ap. proceed (sizing_stage cfg x rd gs inst ap) (\<lambda>z.
      order_stages cfg h oc u x rd gs inst z))))) v0 = Some (w', r)"
    by (rule sent_later [OF assms(1) [unfolded executeCfdSignalInner_def] assms(2) reading.ok_entry])
  have v0: "v0 = w" by (rule still_exec [OF still_entry gs(1)])
  obtain inst v1 where v1: "w_orders w' \<noteq> w_orders v1" "rows_kept v0 v1"
    and e1: "exec (proceed (proposal_stage x gs inst) (\<lambda>p. proceed (preflight_stage cfg u rd inst p) (\<lambda>ap.
      proceed (sizing_stage cfg x rd gs inst ap) (\<lambda>z. order_stages cfg h oc u x rd gs inst z)))) v1 = Some (w', r)"
    by (rule sent_later [OF e0 gs(2) reading.ok_instrument])
  obtain p v2 where v2: "w_orders w' \<noteq> w_orders v2" "rows_kept v1 v2"
    and e2: "exec (proceed (preflight_stage cfg u rd inst p) (\<lambda>ap. proceed (sizing_stage cfg x rd gs inst ap) (\<lambda>z.
      order_stages cfg h oc u x rd gs inst z))) v2 = Some (w', r)"
    by (rule sent_later [OF e1 v1(1) reading.ok_proposal])
  obtain ap v3 where v3: "w_orders w' \<noteq> w_orders v3" "rows_kept v2 v3"
    and e3: "exec (proceed (sizing_stage cfg x rd gs inst ap) (\<lambda>z. order_stages cfg h oc u x rd gs inst z)) v3 = Some (w', r)"
    by (rule sent_later [OF e2 v2(1) reading.ok_preflight])
  obtain z v4 where v4: "w_orders w' \<noteq> w_orders v4" "rows_kept v3 v4"
    and e4: "exec (order_stages cfg h oc u x rd gs inst z) v4 = Some (w', r)"
    by (rule sent_later [OF e3 v3(1) reading.ok_sizing])
  have "rows_kept w v4" using v1(2) v2(2) v3(2) v4(2) v0 rows_kept_trans by blast
  then show ?thesis by (rule that [OF gs(1) [unfolded v0] _ e4 v4(1)])
qed

lemma sending_stages:
  assumes "exec (executeCfdSignal cfg h oc u x rd) w = Some (w', r)" and "w_orders w' \<noteq> w_orders w"
  obtains gs inst z v1 v2 v3 v4 v5 du f o2 q where "exec (entry_stage cfg u x rd) w = Some (w, Inr (Inr gs))"
    and "rows_kept w v1" and "exec (duplicate_stage cfg oc x rd) v1 = Some (v2, Inr (Inr du))"
    and "exec (risk_stage cfg u x rd gs inst z) v2 = Some (v3, Inr (Inr f))"
    and "w_orders v4 = w_orders w" and "exec (submit_loop cfg oc x rd gs inst z 0 o2) v4 = Some (v5, q)"
    and "w_orders w' = w_orders v5"
proof -
  obtain r0 where "exec (executeCfdSignalInner cfg h oc u x rd) w = Some (w', r0)" using execution_inner [OF assms(1)] by blast
  then obtain gs inst z v0 where gs: "exec (entry_stage cfg u x rd) w = Some (w, Inr (Inr gs))" "rows_kept w v0"
    and e: "exec (order_stages cfg h oc u x rd gs inst z) v0 = Some (w', r0)" and n: "w_orders w' \<noteq> w_orders v0"
    by (rule sized_stages [OF _ assms(2)])
  let ?sign = "lift (attempt (update_signal_row (xi_signalId x) (write_sized z))) :: (world, unit) prog"
  obtain v1 a where v1: "exec ?sign v0 = Some (v1, a)" using e by (auto simp: order_stages_def split: option.splits)
  have k: "rows_kept v0 v1" by (rule rowless_exec [OF reading.signal v1])
  have n1: "w_orders w' \<noteq> w_orders v1" using k n by (simp add: rows_kept_def)
  have e1: "exec (proceed (duplicate_stage cfg oc x rd) (\<lambda>du. proceed (risk_stage cfg u x rd gs inst z) (\<lambda>f.
      proceed (plan_stage cfg h oc u x rd gs inst z du) (\<lambda>o1. proceed (live_stage cfg x rd gs z f o1) (\<lambda>o2.
      proceed (submit_loop cfg oc x rd gs inst z 0 o2) (persist_stage x rd)))))) v1 = Some (w', r0)"
    using e v1 n1 by (auto simp: order_stages_def split: sum.splits)
  obtain du v2 where du: "exec (duplicate_stage cfg oc x rd) v1 = Some (v2, Inr (Inr du))" "w_orders w' \<noteq> w_orders v2"
    and e2: "exec (proceed (risk_stage cfg u x rd gs inst z) (\<lambda>f.
      proceed (plan_stage cfg h oc u x rd gs inst z du) (\<lambda>o1. proceed (live_stage cfg x rd gs z f o1) (\<lambda>o2.
      proceed (submit_loop cfg oc x rd gs inst z 0 o2) (persist_stage x rd))))) v2 = Some (w', r0)"
    by (rule sent_after [OF e1 n1 sending.ok_duplicate])
  obtain f v3 where f: "exec (risk_stage cfg u x rd gs inst z) v2 = Some (v3, Inr (Inr f))" "w_orders w' \<noteq> w_orders v3"
    and e3: "exec (proceed (plan_stage cfg h oc u x rd gs inst z du) (\<lambda>o1. proceed (live_stage cfg x rd gs z f o1) (\<lambda>o2.
      proceed (submit_loop cfg oc x rd gs inst z 0 o2) (persist_stage x rd)))) v3 = Some (w', r0)"
    by (rule sent_after [OF e2 du(2) sending.ok_risk])
  obtain o1 v where p: "exec (plan_stage cfg h oc u x rd gs inst z du) v3 = Some (v, Inr (Inr o1))" "w_orders w' \<noteq> w_orders v"
    and e4: "exec (proceed (live_stage cfg x rd gs z f o1) (\<lambda>o2.
      proceed (submit_loop cfg oc x rd gs inst z 0 o2) (persist_stage x rd))) v = Some (w', r0)"
    by (rule sent_after [OF e3 f(2) sending.ok_plan [OF refl, where cap = "\<lambda>_. nat (gs_maxConcurrent gs)"]]) auto
  obtain o2 v4 where l: "exec (live_stage cfg x rd gs z f o1) v = Some (v4, Inr (Inr o2))" "w_orders w' \<noteq> w_orders v4"
    and e5: "exec (proceed (submit_loop cfg oc x rd gs inst z 0 o2) (persist_stage x rd)) v4 = Some (w', r0)"
    by (rule sent_after [OF e4 p(2) sending.ok_live])
  obtain v5 q where sub: "exec (submit_loop cfg oc x rd gs inst z 0 o2) v4 = Some (v5, q)" "w_orders w' = w_orders v5"
    using e5 sendless_exec [OF sending.ok_persist] unfolding exec_proceed by metis
  have "w_orders v4 = w_orders w"
    using k gs(2) sendless_exec [OF sending.ok_duplicate du(1)] sendless_exec [OF sending.ok_risk f(1)]
      sendless_exec [OF sending.ok_live l(1)]
      sendless_exec [OF sending.ok_plan [OF refl, where cap = "\<lambda>_. nat (gs_maxConcurrent gs)"] p(1)]
    by (simp add: rows_kept_def)
  with rows_kept_trans [OF gs(2) k] show ?thesis
    by (intro that [OF gs(1) _ du(1) f(1) _ sub])
qed

subsection \<open>Properties of one execution\<close>

text \<open>C6: an execution sends at most two orders, all under the key of its signal, and the second only when the broker
  refused the first for its stops: the answer to the first was a refusal that confirms invalid stops, and no answer
  that leaves open whether the order was filled.\<close>

theorem execution_sends_two_orders_at_most:
  assumes "exec (executeCfdSignal cfg h oc u x rd) w = Some (w', r)"
  shows "\<exists>new. w_orders w' = w_orders w @ new \<and> length new \<le> 2 \<and>
    (\<forall>b \<in> set new. bo_idempotencyKey b = executionIntentIdempotencyKey (xi_signalId x)) \<and>
    (length new = 2 \<longrightarrow>
       (\<exists>ok code message. or_answer (rd_open rd 0) = Failure ok code message False \<and>
          isConfirmedInvalidStopsRejection (filter (\<lambda>s. s \<noteq> []) [or_default code ''ORDER_REJECTED'', or_default message []])))"
proof (cases "w_orders w' = w_orders w")
  case True
  then show ?thesis by (intro exI [of _ "[]"]) simp
next
  case False
  then obtain gs inst z v4 v5 o2 q where st: "w_orders v4 = w_orders w"
    "exec (submit_loop cfg oc x rd gs inst z 0 o2) v4 = Some (v5, q)" "w_orders w' = w_orders v5"
    by (rule sending_stages [OF assms])
  have "\<exists>ok code message. or_answer (rd_open rd 0) = Failure ok code message False \<and>
      isConfirmedInvalidStopsRejection (filter (\<lambda>s. s \<noteq> []) [or_default code ''ORDER_REJECTED'', or_default message []])"
    if "isConfirmedInvalidStopsRejection (refused_reasons (or_answer (rd_open rd 0)))"
    using that confirmed_reasons [OF that] by (cases "or_answer (rd_open rd 0)") (simp_all add: refused_reasons_def split: if_splits)
  then show ?thesis using submit_rounds [OF st(2)] unfolding st(1,3) by blast
qed

text \<open>The run of the concrete execution sends its order.\<close>

theorem execution_sends_two_orders_at_most_witness:
  "\<exists>w' r new. exec (executeCfdSignal run_app (\<lambda>_. 0) (\<lambda>k. k) ''u'' run_signal run_readings) run_world = Some (w', r) \<and>
     w_orders w' = w_orders run_world @ new \<and> length new \<le> 2 \<and> w_orders w' = [run_order]"
proof -
  obtain w' r where w: "exec (executeCfdSignal run_app (\<lambda>_. 0) (\<lambda>k. k) ''u'' run_signal run_readings) run_world = Some (w', Inr r)"
    "w_orders w' = [run_order]" using run_execution by blast
  from execution_sends_two_orders_at_most [OF w(1)] w show ?thesis by blast
qed



subsection \<open>An order for a rejected intent\<close>

text \<open>Opening leaves the tables alone.\<close>

lemma open_keeps_tables:
  assumes "exec (openMarketPosition cfg env oc req rp) w = Some (w', x)"
  shows "w_db w' = w_db w"
proof -
  have adopt: "w_db v' = w_db v" if "exec (tryAdoptOpenByIdempotency cfg oc key r) v = Some (v', y)" for key r v v' y
    using that unfolding tryAdoptOpenByIdempotency_def by (auto simp: remember_open_def split: reply.splits option.splits)
  have receive: "w_db v' = w_db v" if "exec (receive_answer cfg oc key rp) v = Some (v', y)" for key v v' y
    using that unfolding receive_answer_def
    by (auto simp: landed_def remember_open_def split: reply.splits option.splits sum.splits if_splits dest!: adopt)
  have submit: "w_db v' = w_db v" if "exec (submit_order cfg oc b rp) v = Some (v', y)" for b v v' y
    using that unfolding submit_order_def send_order_def Let_def
    by (auto split: option.splits sum.splits if_splits dest!: adopt receive)
  show ?thesis
    using assms
    by (auto simp: openMarketPosition_def assertEnvironmentHedging_def open_checked_def Let_def ask_def
        split: reply.splits option.splits sum.splits if_splits dest: submit)
qed

lemma rejected_stays:
  assumes "find_intent iid d = Some i" and "it_state i = ''REJECTED''"
  shows "exec (markExecutionIntentSubmitted iid now) d = Some (d, Inr i)"
proof -
  have "\<not> canTransitionExecutionIntentState ''REJECTED'' ''SUBMITTED''" by code_simp
  then show ?thesis using assms by (simp add: markExecutionIntentSubmitted_def transition_intent_def)
qed

text \<open>C9: a rejected intent is still ordered.  The loop ignores what marking the intent answers: if another job (the
  sweep of stale intents, failing closed) has rejected intent and position after they were reserved, the mark changes
  nothing, the order is sent all the same, and when the broker fills it the result says opened while the tables keep the
  position rejected.\<close>

theorem rejected_intent_is_still_ordered:
  assumes "find_intent (it_id (op_intent o1)) (w_db w) = Some i" and "it_state i = ''REJECTED''"
    and "\<forall>p \<in> set (db_positions (w_db w)). ps_id p = op_positionId o1 \<longrightarrow> ps_status p = ''REJECTED''"
    and "\<not> broker_id_clash (db_positions (w_db w))"
    and "exec (openMarketPosition (xc_adapter cfg) (xc_environment cfg) oc (request_of x inst o1) (rd_open rd 0)) w = Some (w', Inr (Inr r))"
    and "filled r"
  shows "\<exists>y. exec (proceed (submit_loop cfg oc x rd gs inst z 0 o1) (persist_stage x rd)) w = Some (w', Inr (Inr y)) \<and>
    xr_opened y \<and> w_db w' = w_db w"
proof -
  have "exec (submit_loop cfg oc x rd gs inst z 0 o1) w = Some (w', Inr (Inr (o1, r)))"
    using assms(5,6) rejected_stays [OF assms(1,2)]
    by (simp add: submit_loop.simps [of _ _ _ _ _ _ _ 0] exec_lift)
  moreover have db: "w_db w' = w_db w" by (rule open_keeps_tables [OF assms(5)])
  moreover have "List.map (\<lambda>p. if ps_id p = op_positionId o1 \<and> ps_status p \<in> {''PENDING'', ''OPEN_REQUESTED'', ''OPEN''} then f p else p)
      (db_positions (w_db w)) = db_positions (w_db w)" for f
    by (rule map_idI) (use assms(3) in auto)
  moreover have "filter (\<lambda>p. ps_id p = op_positionId o1 \<and> ps_status p \<in> {''PENDING'', ''OPEN_REQUESTED'', ''OPEN''})
      (db_positions (w_db w)) = []" using assms(3) by (auto simp: filter_empty_conv)
  moreover obtain fill where "ot_position r = Some fill" "ot_accepted r" using assms(6) by (auto simp: filled_def)
  ultimately show ?thesis
    using assms(4)
    by (auto simp: proceed_def persist_stage_def exec_lift persistPositionOpenFromBrokerResult_def update_positions_def
        attempt_def Let_def recordPositionEvent_def ask_def opened_def)
qed

text \<open>The concrete order, after its rows were rejected.\<close>

definition rejected_world :: world where
  "rejected_world = run_world\<lparr>w_db := empty_db\<lparr>db_positions := [(pending_position ''p'' run_pending)\<lparr>ps_status := ''REJECTED''\<rparr>],
     db_intents := [run_intent\<lparr>it_state := ''REJECTED''\<rparr>]\<rparr>\<rparr>"

theorem rejected_intent_is_still_ordered_witness:
  "\<exists>w' y. exec (proceed (submit_loop run_app (\<lambda>k. k) run_signal run_readings run_gs run_instrument run_sized 0 run_plan)
      (persist_stage run_signal run_readings)) rejected_world = Some (w', Inr (Inr y)) \<and> xr_opened y \<and>
     w_orders w' = [run_order] \<and> List.map ps_status (db_positions (w_db w')) = [''REJECTED'']"
proof -
  obtain w' where w: "exec (openMarketPosition test_config ''demo'' (\<lambda>k. k) run_request test_replies) rejected_world =
      Some (w', Inr (Inr (filled_result test_fill)))" "w_orders w' = [run_order]"
    using run_open [of rejected_world] by (auto simp: rejected_world_def run_world_def idle_world_def)
  have "find_intent (it_id (op_intent run_plan)) (w_db rejected_world) = Some (run_intent\<lparr>it_state := ''REJECTED''\<rparr>)"
    "\<not> broker_id_clash (db_positions (w_db rejected_world))" "filled (filled_result test_fill)"
    and p: "db_positions (w_db rejected_world) = [(pending_position ''p'' run_pending)\<lparr>ps_status := ''REJECTED''\<rparr>]"
    by (simp_all add: rejected_world_def find_intent_def plan_fields filled_def filled_result_def broker_id_clash_def
        map_filter_simps pending_position_def)
  from rejected_intent_is_still_ordered [OF this(1) _ _ this(2), of run_app "\<lambda>k. k" run_signal run_instrument run_readings w'
      "filled_result test_fill" run_gs run_sized] this w
  show ?thesis by (auto simp: run_fields run_request_def)
qed

end
