(* ===== verification/Mt5System.thy ===== *)
theory Mt5System
  imports Mt5ExecutionFacts TxContracts
begin

text \<open>
  The worker: executions of signals, the jobs of recovery and closing, and the calls of the adapter, served at once on one
  world.  Whatever the interleaving, the capacity of a user is kept, and every order on the bridge has an intent in the
  tables that left the state \<open>CREATED\<close> before the order was sent; so an intent that a restart finds created was
  never sent.
\<close>

subsection \<open>Intents that are found, and orders that are recorded\<close>

definition intent_found :: "string \<Rightarrow> string \<Rightarrow> db \<Rightarrow> bool" where
  "intent_found sid iid d \<longleftrightarrow> some_and (find_intent iid d) (\<lambda>t. it_signalId t = sid)"

definition recorded :: "string \<Rightarrow> db \<Rightarrow> bool" where
  "recorded key d \<longleftrightarrow>
     (\<exists>t \<in> set (db_intents d). executionIntentIdempotencyKey (it_signalId t) = key \<and> it_state t \<noteq> ''CREATED'')"

lemma intent_found_evolves:
  assumes "intent_found sid iid d" and "evolves d e"
  shows "intent_found sid iid e"
proof -
  obtain t where t: "find_intent iid d = Some t" "it_signalId t = sid"
    using assms(1) by (cases "find_intent iid d") (auto simp: intent_found_def)
  have "\<exists>y. find (\<lambda>t. it_id t = iid) (db_intents e) = Some y \<and> intent_evolves t y"
    by (rule find_evolves [OF _ _ t(1) [unfolded find_intent_def], where R = intent_evolves])
      (use assms(2) in \<open>simp_all add: evolves_def intent_evolves_def [abs_def]\<close>)
  then show ?thesis using t(2) by (auto simp: intent_found_def find_intent_def intent_evolves_def)
qed

lemma recorded_evolves:
  assumes "recorded key d" and "evolves d e"
  shows "recorded key e"
proof -
  obtain i where i: "i < length (db_intents d)"
    "executionIntentIdempotencyKey (it_signalId (db_intents d ! i)) = key" "it_state (db_intents d ! i) \<noteq> ''CREATED''"
    using assms(1) by (auto simp: recorded_def in_set_conv_nth)
  then have "intent_evolves (db_intents d ! i) (db_intents e ! i)" "i < length (db_intents e)"
    using assms(2) by (auto simp: evolves_def rows_evolve_def)
  then show ?thesis using i unfolding recorded_def intent_evolves_def by (intro bexI [of _ "db_intents e ! i"]) auto
qed

lemma found_row:
  assumes "distinct_intents d" and "t \<in> set (db_intents d)"
  shows "find_intent (it_id t) d = Some t"
proof -
  have "\<exists>y. find (\<lambda>x. it_id x = it_id t) (db_intents d) = Some y" using assms(2) by (auto simp: find_None_iff simp flip: not_None_eq)
  then obtain y where y: "find (\<lambda>x. it_id x = it_id t) (db_intents d) = Some y" by blast
  then have "y \<in> set (db_intents d)" "it_id y = it_id t" by (auto simp: find_Some_iff)
  then have "y = t" using assms by (auto simp: distinct_intents_def distinct_map inj_on_def)
  then show ?thesis using y by (simp add: find_intent_def)
qed

lemma signal_found:
  assumes "distinct_intents d" and "findExecutionIntentBySignal sid d = Some t"
  shows "intent_found sid (it_id t) d"
proof -
  have "t \<in> set (db_intents d)" "it_signalId t = sid"
    using assms(2) by (auto simp: findExecutionIntentBySignal_def find_Some_iff)
  then show ?thesis using found_row [OF assms(1)] by (simp add: intent_found_def)
qed

lemma found_recorded:
  "find_intent iid d = Some t \<Longrightarrow> it_state t \<noteq> ''CREATED'' \<Longrightarrow> recorded (executionIntentIdempotencyKey (it_signalId t)) d"
  unfolding find_intent_def recorded_def by (drule find_SomeD) blast

subsection \<open>What the operations on the tables answer\<close>

text \<open>Contracts about the rows alone, under any guarantee.\<close>

abbreviation answers :: "(db \<Rightarrow> bool) \<Rightarrow> (db, 'a) prog \<Rightarrow> ('a \<Rightarrow> db \<Rightarrow> bool) \<Rightarrow> bool" where
  "answers P p D \<equiv> ensures distinct_intents evolves any_step P p D"

lemma stable_found [simp]: "stable I evolves (intent_found sid iid)" "stable I evolves (\<lambda>d. x = Some t \<longrightarrow> intent_found sid iid d)"
  "stable I evolves (recorded key)" "stable I evolves (\<lambda>d. c \<longrightarrow> recorded key d)"
  unfolding stable_def using intent_found_evolves recorded_evolves by blast+

lemma answers_query:
  assumes "\<And>x. stable distinct_intents evolves (Q x)" and "\<And>s. distinct_intents s \<Longrightarrow> P s \<Longrightarrow> Q (g s) s"
    and "\<And>x. answers (Q x) (k x) D"
  shows "answers P (bind (query g) k) D"
  by (rule ensures_query [where Q = Q]) (use assms in auto)

lemma answers_any_query: "(\<And>x. answers P (k x) D) \<Longrightarrow> stable distinct_intents evolves P \<Longrightarrow> answers P (bind (query g) k) D"
  by (rule answers_query [where Q = "\<lambda>_. P"]) auto

lemma answers_attempt:
  assumes "\<And>x. stable distinct_intents evolves (D x)"
    and "\<And>d e x. distinct_intents d \<Longrightarrow> P d \<Longrightarrow> g d = Inr (e, x) \<Longrightarrow> distinct_intents e \<and> D x e"
  shows "answers P (attempt g) D"
  unfolding attempt_def
proof (rule en_atomic)
  fix s s' and p :: "(db, 'a) prog"
  assume s: "distinct_intents s" "P s" "(case g s of Inl e \<Rightarrow> Some (s, Throw e) | Inr (s', x) \<Rightarrow> Some (s', Done x)) = Some (s', p)"
  show "distinct_intents s' \<and> True \<and> (\<exists>Q. stable distinct_intents evolves Q \<and> Q s' \<and> answers Q p D)"
  proof (cases "g s")
    case (Inl e)
    then show ?thesis using s by (auto intro!: exI [of _ "\<lambda>_. True"] en_throw)
  next
    case (Inr r)
    then obtain x where "g s = Inr (s', x)" "p = Done x" using s(3) by (auto split: prod.splits)
    then show ?thesis using s assms by (auto intro!: exI [of _ "D x"] en_done)
  qed
qed

lemma update_first_found: "find q xs = Some t \<Longrightarrow> f t \<in> set (update_first q f xs)"
  by (induction xs) (auto split: if_splits)

lemma submitted_records:
  "answers (intent_found sid iid) (markExecutionIntentSubmitted iid now)
     (\<lambda>_. recorded (executionIntentIdempotencyKey sid))"
  unfolding markExecutionIntentSubmitted_def transition_intent_def
proof (rule answers_query [where Q = "\<lambda>(r :: intent_row option) d. intent_found sid iid d \<and>
    (some_and r (\<lambda>t. it_state t \<noteq> ''CREATED'') \<longrightarrow> recorded (executionIntentIdempotencyKey sid) d)"])
  show "stable distinct_intents evolves (\<lambda>d. intent_found sid iid d \<and>
    (some_and r (\<lambda>t. it_state t \<noteq> ''CREATED'') \<longrightarrow> recorded (executionIntentIdempotencyKey sid) d))" for r :: "intent_row option"
    unfolding stable_def using intent_found_evolves recorded_evolves by blast
  show "intent_found sid iid d \<and> (some_and (find_intent iid d) (\<lambda>t. it_state t \<noteq> ''CREATED'') \<longrightarrow>
      recorded (executionIntentIdempotencyKey sid) d)" if "intent_found sid iid d" for d
    using that found_recorded by (cases "find_intent iid d") (auto simp: intent_found_def)
next
  fix r :: "intent_row option"
  let ?Q = "\<lambda>d. intent_found sid iid d \<and> (some_and r (\<lambda>t. it_state t \<noteq> ''CREATED'') \<longrightarrow>
      recorded (executionIntentIdempotencyKey sid) d)"
  let ?f = "\<lambda>t. t\<lparr>it_state := ''SUBMITTED'', it_submittedAt := Some now\<rparr>"
  have created: "canTransitionExecutionIntentState ''CREATED'' ''SUBMITTED''" by code_simp
  have "answers ?Q (attempt (update_intent_row iid ?f)) (\<lambda>_. recorded (executionIntentIdempotencyKey sid))"
  proof (rule answers_attempt, simp)
    fix d e x assume d: "distinct_intents d" "?Q d" "update_intent_row iid ?f d = Inr (e, x)"
    obtain t where t: "find_intent iid d = Some t" "it_signalId t = sid"
      using d(2) by (cases "find_intent iid d") (auto simp: intent_found_def)
    have e: "e = d\<lparr>db_intents := update_first (\<lambda>t. it_id t = iid) ?f (db_intents d)\<rparr>"
      using d(3) t(1) by (simp add: update_intent_row_def)
    have "distinct_intents e"
      by (rule distinct_intents_kept [OF _ _ d(1)]) (simp_all add: e rows_evolve_update_first intent_evolves_def)
    moreover have "?f t \<in> set (db_intents e)"
      unfolding e using update_first_found [OF t(1) [unfolded find_intent_def]] by simp
    ultimately show "distinct_intents e \<and> recorded (executionIntentIdempotencyKey sid) e"
      using t(2) by (auto simp: recorded_def intro!: bexI [of _ "?f t"])
  qed
  then show "answers ?Q (case r of None \<Rightarrow> Throw Intent_not_found
     | Some current \<Rightarrow> if \<not> canTransitionExecutionIntentState (it_state current) ''SUBMITTED'' then Done current
         else if it_state current = ''SUBMITTED'' then Done current else attempt (update_intent_row iid ?f))
       (\<lambda>_. recorded (executionIntentIdempotencyKey sid))"
    using created by (auto split: option.split intro: en_throw en_done)
qed

text \<open>The reservation answers an intent of the signal that the tables hold.\<close>

definition tx_found :: "string \<Rightarrow> tx_outcome \<Rightarrow> db \<Rightarrow> bool" where
  "tx_found sid r d \<longleftrightarrow>
     (case r of Tx_blocked _ \<Rightarrow> True | Tx_existing _ i _ \<Rightarrow> intent_found sid (it_id i) d
      | Tx_created _ i _ \<Rightarrow> intent_found sid (it_id i) d)"

definition create_found :: "string \<Rightarrow> create_result \<Rightarrow> db \<Rightarrow> bool" where
  "create_found sid r d \<longleftrightarrow> (case r of Create_blocked _ _ \<Rightarrow> True | Create_ok _ i _ _ \<Rightarrow> intent_found sid (it_id i) d)"

lemma stable_answers [simp]: "stable I evolves (tx_found sid r)" "stable I evolves (create_found sid c)"
  unfolding stable_def tx_found_def create_found_def
  by (auto intro: intent_found_evolves split: tx_outcome.splits create_result.splits)

lemma found_release [simp]: "intent_found sid iid (release k d) = intent_found sid iid d" "distinct_intents (release k d) = distinct_intents d"
  by (simp_all add: intent_found_def find_intent_def distinct_intents_def)

lemma answers_end: "answers (tx_found sid x) (end_transaction k x) (tx_found sid)"
  unfolding end_transaction_def command_def
  by (rule en_atomic) (auto intro!: exI [of _ "tx_found sid x"] en_done simp: tx_found_def split: tx_outcome.splits)

lemma answers_commit:
  assumes "it_signalId i = sid"
  shows "answers P (insert_and_commit k p i n) (tx_found sid)"
  unfolding insert_and_commit_def
proof (rule en_atomic)
  fix d e and q :: "(db, tx_outcome) prog"
  assume d: "distinct_intents d" "P d" "(case insert_both p i d of Inl e \<Rightarrow> Some (release k d, Throw e)
       | Inr d' \<Rightarrow> Some (release k d', Done (Tx_created p i n))) = Some (e, q)"
  show "distinct_intents e \<and> True \<and> (\<exists>Q. stable distinct_intents evolves Q \<and> Q e \<and> answers Q q (tx_found sid))"
  proof (cases "insert_both p i d")
    case (Inl x)
    then show ?thesis using d by (auto intro!: exI [of _ "\<lambda>_. True"] en_throw)
  next
    case (Inr d')
    have e: "e = release k d'" "q = Done (Tx_created p i n)" using d(3) Inr by auto
    have i: "db_intents e = db_intents d @ [i]" "\<forall>t \<in> set (db_intents d). it_id t \<noteq> it_id i \<and> it_signalId t \<noteq> it_signalId i"
      using insert_both_rows [OF Inr] by (simp_all add: e)
    then have "distinct_intents e" using d(1) by (auto simp: distinct_intents_def)
    moreover from this have "tx_found sid (Tx_created p i n) e"
      using found_row [of e i] i(1) assms by (simp add: tx_found_def intent_found_def)
    ultimately show ?thesis
      by (auto simp: e(2) intro!: exI [of _ "tx_found sid (Tx_created p i n)"] en_done)
  qed
qed

text \<open>Asking for the intent of a signal.\<close>

definition holds_found :: "string \<Rightarrow> intent_row option \<Rightarrow> db \<Rightarrow> bool" where
  "holds_found sid x d \<longleftrightarrow> (\<forall>t. x = Some t \<longrightarrow> intent_found sid (it_id t) d)"

lemma holds_found_simps [simp]:
  "holds_found sid (Some t) = intent_found sid (it_id t)" "holds_found sid None = (\<lambda>_. True)"
  by (auto simp: holds_found_def fun_eq_iff)

lemma stable_holds_found [simp]: "stable I evolves (holds_found sid x)"
  by (cases x) simp_all

lemma answers_signal:
  assumes "\<And>x. answers (holds_found sid x) (k x) D"
  shows "answers P (bind (query (findExecutionIntentBySignal sid)) k) D"
proof (rule answers_query [where Q = "holds_found sid"])
qed (use assms signal_found in \<open>auto simp: holds_found_def\<close>)

lemma answers_transaction:
  assumes "pi_signalId inp = sid" and "it_signalId i = sid"
  shows "answers P (create_transaction k t inp p i) (tx_found sid)"
  unfolding create_transaction_def acquire_def bind.simps
proof (rule en_atomic)
  let ?body = "bind (query (find_position_by_key (executionIntentIdempotencyKey (pi_signalId inp)))) (\<lambda>existingPosition.
     bind (query (findExecutionIntentBySignal (pi_signalId inp))) (\<lambda>existingIntent.
       case (existingPosition, existingIntent) of
         (Some ep, Some ei) \<Rightarrow>
           bind (query (countMt5ConsumedCapacitySlots (pi_userId inp)))
             (\<lambda>consumed. end_transaction k (Tx_existing ep ei consumed))
       | _ \<Rightarrow> reserve_slot k inp p i))"
  have reserve: "answers Q (reserve_slot k inp p i) (tx_found sid)" if "stable distinct_intents evolves Q" for Q
    unfolding reserve_slot_def
    by (rule answers_any_query [OF _ that])
      (auto intro: answers_commit [OF assms(2)] ensures_weaken [OF answers_end] simp: tx_found_def)
  have body: "answers (\<lambda>_. True) ?body (tx_found sid)"
    unfolding assms(1)
    by (rule answers_any_query, rule answers_signal)
      (auto split: option.split intro!: reserve answers_any_query ensures_weaken [OF answers_end] simp: tx_found_def)
  fix d e and q :: "(db, tx_outcome) prog"
  assume d: "distinct_intents d" "map_option (map_prod id (\<lambda>p. bind p (\<lambda>_. ?body)))
      (if db_locks d k = None then Some (d\<lparr>db_locks := (db_locks d)(k := Some t)\<rparr>, Done ()) else None) = Some (e, q)"
  then have "distinct_intents e" "q = ?body" by (auto simp: distinct_intents_def split: if_splits)
  then show "distinct_intents e \<and> True \<and> (\<exists>Q. stable distinct_intents evolves Q \<and> Q e \<and> answers Q q (tx_found sid))"
    using body by (auto intro!: exI [of _ "\<lambda>_. True"])
qed

lemma created_found:
  "answers P (createPendingPositionWithExecutionIntent h oc t pid iid now inp) (create_found (pi_signalId inp))"
  unfolding createPendingPositionWithExecutionIntent_def
proof (rule ensures_catch, rule ensures_bind [OF answers_transaction [OF refl]])
  show "it_signalId (createExecutionIntentRow oc iid pid now inp) = pi_signalId inp"
    by (simp add: createExecutionIntentRow_def Let_def)
  show "answers (tx_found (pi_signalId inp) x) (Done (create_answer x)) (create_found (pi_signalId inp))" for x
    by (rule en_done) (cases x; simp add: tx_found_def create_found_def)
  show "answers (\<lambda>_. True) (create_recovered inp e) (create_found (pi_signalId inp))" for e
    unfolding create_recovered_def
    by (cases "e = Unique_violation")
      (auto split: option.split intro!: en_throw en_done answers_any_query answers_signal simp: create_found_def)
qed

subsection \<open>The invariant of the worker\<close>

text \<open>Capacity and distinct intents; every order recorded; and, while an execution runs, the intents \<open>S\<close> of its
  signal found and, once \<open>b\<close>, the signal recorded.\<close>

definition worker_inv :: "(string \<Rightarrow> nat) \<Rightarrow> string set \<Rightarrow> string \<Rightarrow> bool \<Rightarrow> world \<Rightarrow> bool" where
  "worker_inv cap S sid b w \<longleftrightarrow>
     system_inv cap (w_db w) \<and> distinct_intents (w_db w) \<and> (\<forall>o' \<in> set (w_orders w). recorded (bo_idempotencyKey o') (w_db w)) \<and>
     (\<forall>iid \<in> S. intent_found sid iid (w_db w)) \<and> (b \<longrightarrow> recorded (executionIntentIdempotencyKey sid) (w_db w))"

definition worker_rely :: "(string \<Rightarrow> int) \<Rightarrow> nat \<Rightarrow> world \<Rightarrow> world \<Rightarrow> bool" where
  "worker_rely h t w w' \<longleftrightarrow> thread_rely h t (w_db w) (w_db w') \<and> evolves (w_db w) (w_db w')"

definition worker_guar :: "(string \<Rightarrow> int) \<Rightarrow> nat \<Rightarrow> world \<Rightarrow> world \<Rightarrow> bool" where
  "worker_guar h t w w' \<longleftrightarrow> thread_guar h t (w_db w) (w_db w')"

lemma worker_db:
  assumes "worker_inv cap S sid b w" and "system_inv cap d" and "thread_guar h t (w_db w) d"
  shows "worker_inv cap S sid b (w\<lparr>w_db := d\<rparr>) \<and> worker_guar h t w (w\<lparr>w_db := d\<rparr>)"
proof -
  have "evolves (w_db w) d" using assms(3) by (simp add: thread_guar_def)
  then show ?thesis
    using assms recorded_evolves intent_found_evolves
    by (auto simp: worker_inv_def worker_guar_def evolves_def)
qed

lemma worker_lift:
  assumes "upholds (system_inv cap) (thread_rely h t) (thread_guar h t) (\<lambda>_. True) p"
  shows "upholds (worker_inv cap S sid b) (worker_rely h t) (worker_guar h t) (\<lambda>_. True) (lift p)"
proof -
  have "upholds (worker_inv cap S sid b) (worker_rely h t) (worker_guar h t) (\<lambda>w. True) (lift p)"
  proof (rule upholds_lift [OF assms])
    show "worker_inv cap S sid b (w\<lparr>w_db := d\<rparr>) \<and> worker_guar h t w (w\<lparr>w_db := d\<rparr>)"
      if "worker_inv cap S sid b w" "system_inv cap d" "thread_guar h t (w_db w) d" for w d
      by (rule worker_db [OF that])
  qed (simp_all add: worker_inv_def worker_rely_def)
  then show ?thesis .
qed

interpretation worker: execution_steps "worker_inv cap S sid b" "worker_rely h t" "worker_guar h t" h oc t cap
  for cap S sid b h t oc
proof
  show "worker_inv cap S sid b w' \<and> worker_guar h t w w'"
    if "worker_inv cap S sid b w" "w_db w' = w_db w" "w_orders w' = w_orders w" for w w'
    using that by (simp add: worker_inv_def worker_guar_def)
qed (auto intro!: worker_lift update_signal_ok recover_ok fail_closed_ok refresh_ok create_ok mark_ok persist_ok)

lemma ensures_lift:
  assumes "ensures I R G P p D"
    and "\<And>w. I' w \<Longrightarrow> I (w_db w)" and "\<And>w w'. R' w w' \<Longrightarrow> R (w_db w) (w_db w')"
    and "\<And>w d. I' w \<Longrightarrow> I d \<Longrightarrow> G (w_db w) d \<Longrightarrow> I' (w\<lparr>w_db := d\<rparr>) \<and> G' w (w\<lparr>w_db := d\<rparr>)"
  shows "ensures I' R' G' (\<lambda>w. P (w_db w)) (lift p) (\<lambda>x w. D x (w_db w))"
  using assms(1)
proof (induction rule: ensures.induct)
  case (en_done P D x)
  then show ?case using assms(2) by (auto intro: ensures.en_done)
next
  case (en_throw P e D)
  show ?case by (simp add: ensures.en_throw)
next
  case (en_atomic P f D)
  show ?case unfolding lift.simps
  proof (rule ensures.en_atomic)
    fix w w' q
    assume w: "I' w" "P (w_db w)"
      "map_option (map_prod (\<lambda>d. w\<lparr>w_db := d\<rparr>) id) (map_option (map_prod id lift) (f (w_db w))) = Some (w', q)"
    then obtain d p where f: "f (w_db w) = Some (d, p)" "w' = w\<lparr>w_db := d\<rparr>" "q = lift p" by auto
    have "I d \<and> G (w_db w) d \<and> (\<exists>Q. stable I R Q \<and> Q d \<and> ensures I' R' G' (\<lambda>w. Q (w_db w)) (lift p) (\<lambda>x w. D x (w_db w)))"
      using en_atomic.IH [OF assms(2) [OF w(1)] w(2) f(1)] by blast
    moreover have "stable I' R' (\<lambda>w. Q (w_db w))" if "stable I R Q" for Q
      using that assms(2,3) unfolding stable_def by blast
    ultimately show "I' w' \<and> G' w w' \<and> (\<exists>Q. stable I' R' Q \<and> Q w' \<and> ensures I' R' G' Q q (\<lambda>x w. D x (w_db w)))"
      using assms(4) [OF w(1)] unfolding f(2,3) by fastforce
  qed
qed

lemma worker_answers:
  assumes "upholds (system_inv cap) (thread_rely h t) (thread_guar h t) (\<lambda>_. True) p" and "answers P p D"
  shows "ensures (worker_inv cap S sid b) (worker_rely h t) (worker_guar h t) (\<lambda>w. P (w_db w)) (lift p) (\<lambda>x w. D x (w_db w))"
proof -
  let ?I = "\<lambda>d. system_inv cap d \<and> distinct_intents d" and ?R = "\<lambda>d e. thread_rely h t d e \<and> evolves d e"
  have "upholds ?I ?R (thread_guar h t) (\<lambda>_. True) p"
    by (rule upholds_stronger [OF assms(1)]) (auto simp: thread_guar_def evolves_def)
  then have "ensures ?I ?R (thread_guar h t) (\<lambda>d. True \<and> P d) p D"
    by (rule ensures_from [OF _ assms(2)]) simp_all
  then have "ensures (worker_inv cap S sid b) (worker_rely h t) (worker_guar h t) (\<lambda>w. True \<and> P (w_db w)) (lift p) (\<lambda>x w. D x (w_db w))"
  proof (rule ensures_lift)
    show "worker_inv cap S sid b (w\<lparr>w_db := d\<rparr>) \<and> worker_guar h t w (w\<lparr>w_db := d\<rparr>)"
      if "worker_inv cap S sid b w" "?I d" "thread_guar h t (w_db w) d" for w d
      by (rule worker_db [OF that(1) conjunct1 [OF that(2)] that(3)])
  qed (simp_all add: worker_inv_def worker_rely_def)
  then show ?thesis by simp
qed

abbreviation worker_ok where
  "worker_ok cap S sid b h t p \<equiv> upholds (worker_inv cap S sid b) (worker_rely h t) (worker_guar h t) (\<lambda>_. True) p"

subsection \<open>The calls of the adapter\<close>

lemma worker_receive: "worker_ok cap S sid b h t (receive_answer cfg oc' key rp)"
  unfolding receive_answer_def
  by (cases "or_answer rp"; simp)
    (auto intro!: worker.ok_bind worker.ok_command simp: landed_def remember_open_def split: option.split)

lemma worker_send:
  assumes "bo_idempotencyKey o' = executionIntentIdempotencyKey sid"
  shows "worker_ok cap S sid True h t (send_order o')"
  unfolding send_order_def
  by (rule upholds_command) (use assms in \<open>auto simp: worker_inv_def worker_guar_def\<close>)

lemma worker_submit:
  assumes "bo_idempotencyKey o' = executionIntentIdempotencyKey sid"
  shows "worker_ok cap S sid True h t (submit_order cfg oc' o' rp)"
  unfolding submit_order_def Let_def
  by (intro worker.ok_bind worker.ok_query worker.ok_adapter(1))
    (auto split: option.split intro!: worker.ok_bind worker_send [OF assms] worker_receive)

lemma worker_checked:
  assumes "oq_idempotencyKey req = executionIntentIdempotencyKey sid"
  shows "worker_ok cap S sid True h t (open_checked cfg oc' req rp sy)"
proof -
  have "bo_idempotencyKey o' = executionIntentIdempotencyKey sid" if "plan_order cfg oc' equity req sy lots = Inr o'" for equity lots o'
    using planned_risk [OF that] assms by auto
  then show ?thesis
    unfolding open_checked_def
    by (auto split: option.split sum.split intro!: worker.ok_bind worker.ok_query worker_submit)
qed

lemma worker_open:
  assumes "oq_idempotencyKey req = executionIntentIdempotencyKey sid"
  shows "worker_ok cap S sid True h t (openMarketPosition cfg env oc' req rp)"
  unfolding openMarketPosition_def Let_def
  by (intro worker.ok_bind worker.ok_adapter(8) worker.ok_query)
    (auto split: option.split reply.split intro!: worker.ok_bind worker.ok_ask worker_checked [OF assms])

subsection \<open>Executions\<close>

lemma worker_stronger:
  assumes "worker_ok cap S sid b h t p" and "S \<subseteq> S'" and "b \<longrightarrow> b'"
  shows "worker_ok cap S' sid b' h t p"
proof (rule upholds_stronger [OF assms(1)])
  show "worker_inv cap S' sid b' w' \<and> worker_guar h t w w'"
    if "worker_inv cap S' sid b' w" "worker_inv cap S sid b w'" "worker_guar h t w w'" for w w'
  proof -
    have "evolves (w_db w) (w_db w')" using that(3) by (simp add: worker_guar_def thread_guar_def)
    then show ?thesis using that intent_found_evolves recorded_evolves unfolding worker_inv_def by blast
  qed
qed (use assms(2,3) in \<open>auto simp: worker_inv_def\<close>)

lemma worker_found:
  assumes "worker_ok cap (insert iid S) sid b h t p"
  shows "upholds (worker_inv cap S sid b) (worker_rely h t) (worker_guar h t) (\<lambda>w. intent_found sid iid (w_db w)) p"
proof -
  have "upholds (worker_inv cap S sid b) (worker_rely h t) (worker_guar h t) (\<lambda>w. True \<and> intent_found sid iid (w_db w)) p"
  proof (rule upholds_under)
    have "worker_inv cap (insert iid S) sid b = (\<lambda>w. worker_inv cap S sid b w \<and> intent_found sid iid (w_db w))"
      by (auto simp: worker_inv_def fun_eq_iff)
    then show "upholds (\<lambda>w. worker_inv cap S sid b w \<and> intent_found sid iid (w_db w)) (worker_rely h t) (worker_guar h t) (\<lambda>_. True) p"
      using assms by simp
  qed (auto simp: stable_def worker_rely_def intro: intent_found_evolves)
  then show ?thesis by simp
qed

lemma worker_recorded:
  assumes "worker_ok cap S sid True h t p"
  shows "upholds (worker_inv cap S sid False) (worker_rely h t) (worker_guar h t)
    (\<lambda>w. recorded (executionIntentIdempotencyKey sid) (w_db w)) p"
proof -
  let ?C = "\<lambda>w. recorded (executionIntentIdempotencyKey sid) (w_db w)"
  have "upholds (worker_inv cap S sid False) (worker_rely h t) (worker_guar h t) (\<lambda>w. True \<and> ?C w) p"
  proof (rule upholds_under)
    have "worker_inv cap S sid True = (\<lambda>w. worker_inv cap S sid False w \<and> ?C w)"
      by (auto simp: worker_inv_def fun_eq_iff)
    then show "upholds (\<lambda>w. worker_inv cap S sid False w \<and> ?C w) (worker_rely h t) (worker_guar h t) (\<lambda>_. True) p"
      using assms by simp
  qed (auto simp: stable_def worker_rely_def intro: recorded_evolves)
  then show ?thesis by simp
qed

text \<open>Refreshing keeps the intent of the plan.\<close>

abbreviation of_intent :: "intent_row \<Rightarrow> exec_result + order_plan \<Rightarrow> bool" where
  "of_intent i r \<equiv> \<forall>p. r = Inr p \<longrightarrow> op_intent p = i"

lemma yields_reject: "yields (\<lambda>r. \<exists>y. r = Inl y) (reject_reserved rd pid iid code res)"
  unfolding reject_reserved_def by (intro yields_bind [OF yields_True]) simp

lemma of_intent_reject: "yields (of_intent i) (reject_reserved rd pid iid code res)"
  by (rule yields_mono [OF yields_reject]) auto

lemma of_intent_refresh: "yields (of_intent (op_intent o')) (refresh_stage cfg x rd gs inst z pt o')"
  unfolding refresh_stage_def refresh_sized_def Let_def refreshed_plan_def
  by (intro yields_bind [OF yields_True])
    (auto split: option.split size_outcome.split intro!: yields_bind [OF yields_True] of_intent_reject simp: diverge_def yields_Atomic)

lemma of_intent_resume: "yields (of_intent i) (resume_stage cfg x rd gs inst z p i)"
  unfolding resume_stage_def
  by (auto split: sum.split option.split intro!: yields_bind [OF yields_True] of_intent_reject simp: diverge_def yields_Atomic)

lemma of_intent_live: "yields (of_intent (op_intent o')) (live_stage cfg x rd gs z f o')"
  unfolding live_stage_def Let_def fail_closed_def
  by (auto split: sum.split intro!: yields_catch yields_bind [OF yields_True] of_intent_reject)

lemma worker_yields:
  assumes "worker_ok cap S sid b h t p" and "yields Q p" and "\<And>y. Q (Inr y) \<Longrightarrow> worker_ok cap S sid b h t (k y)"
  shows "worker_ok cap S sid b h t (proceed p k)"
  unfolding proceed_def
  by (rule upholds_yields [OF assms(1,2)]) (auto split: sum.split intro: assms(3))

text \<open>The submission: the intent is marked, and only then the order goes out.\<close>

lemma worker_round:
  assumes "\<And>reasons o2. may_resubmit n reasons \<Longrightarrow> op_intent o2 = op_intent o1 \<Longrightarrow>
      worker_ok cap {it_id (op_intent o1)} (xi_signalId x) True h t (submit_loop cfg oc x rd gs inst z (n + 1) o2)"
  shows "worker_ok cap {it_id (op_intent o1)} (xi_signalId x) False h t (submit_loop cfg oc x rd gs inst z n o1)"
proof -
  let ?iid = "it_id (op_intent o1)" and ?sid = "xi_signalId x"
  let ?inv = "worker_inv cap {?iid} ?sid False"
  have mark: "ensures ?inv (worker_rely h t) (worker_guar h t) (\<lambda>_. True)
      (lift (markExecutionIntentSubmitted ?iid (rd_now rd (Submitting n))))
      (\<lambda>_ w. recorded (executionIntentIdempotencyKey ?sid) (w_db w))"
    by (rule ensures_weaken [OF worker_answers [OF mark_ok(1) submitted_records]]) (simp add: worker_inv_def)
  have req: "oq_idempotencyKey (request_of x inst o1) = executionIntentIdempotencyKey ?sid"
    by (simp add: request_of_def)
  have again: "worker_ok cap {?iid} ?sid True h t (proceed (refresh_stage cfg x rd gs inst z (Retry (n + 1)) o1)
      (\<lambda>o2. submit_loop cfg oc x rd gs inst z (n + 1) o2))" if "may_resubmit n reasons" for reasons
    by (rule worker_yields [OF worker.ok_refresh of_intent_refresh]) (use assms [OF that] in simp)
  show ?thesis
    unfolding submit_loop.simps [of cfg oc x rd gs inst z n o1]
  proof (rule upholds_after [OF mark], rule worker_recorded, rule worker.ok_bind [OF worker_open [OF req]])
    fix out
    show "worker_ok cap {?iid} ?sid True h t
       (if case out of Inl x \<Rightarrow> False | Inr r \<Rightarrow> filled r then Done (Inr (o1, projr out))
        else let reasons = case out of Inl rs \<Rightarrow> rs | Inr x \<Rightarrow> []
             in if classifyOpenMarketFailure reasons = AMBIGUOUS_FAILURE then ambiguous_stage cfg oc rd n o1 reasons
                else bind (tryAdoptOpenByIdempotency (xc_adapter cfg) oc (executionIntentIdempotencyKey ?sid) (rd_adopt rd n))
                       (\<lambda>adopted. if some_and adopted filled then Done (Inr (o1, the adopted))
                           else if \<not> may_resubmit n reasons
                                then reject_reserved rd (op_positionId o1) ?iid (rejected_code reasons)
                                       (refusal (rejected_code reasons) (Some (op_requested o1)))
                                else proceed (refresh_stage cfg x rd gs inst z (Retry (n + 1)) o1)
                                      (submit_loop cfg oc x rd gs inst z (n + 1))))"
      unfolding Let_def
      using again by (auto intro!: worker.ok_bind worker.ok_ambiguous worker.ok_reject)
  qed
qed

lemma worker_submit_loop:
  "worker_ok cap {it_id (op_intent o1)} (xi_signalId x) False h t (submit_loop cfg oc x rd gs inst z 0 o1)"
proof (rule worker_round)
  fix o2 :: order_plan and reasons assume o2: "op_intent o2 = op_intent o1"
  have "worker_ok cap {it_id (op_intent o2)} (xi_signalId x) False h t (submit_loop cfg oc x rd gs inst z 1 o2)"
    by (rule worker_round) (use may_resubmit_bound in blast)
  then show "worker_ok cap {it_id (op_intent o1)} (xi_signalId x) True h t (submit_loop cfg oc x rd gs inst z (0 + 1) o2)"
    using o2 by (auto intro: worker_stronger)
qed

text \<open>The duplicate guard and the reservation answer intents of the signal that the tables hold.\<close>

definition guarded_set :: "guarded_rows \<Rightarrow> string set" where
  "guarded_set du = (case du_intent du of Some i \<Rightarrow> {it_id i} | None \<Rightarrow> {})"

lemma ensures_yields:
  assumes "upholds I R G P p" and "yields Q p" and "\<And>x s. Q x \<Longrightarrow> D x s"
  shows "ensures I R G P p D"
proof -
  have "ensures I R G (\<lambda>s. P s \<and> True) p (\<lambda>x s. Q x \<and> True)"
    using assms(1,2) by (rule upholds_ensures) simp_all
  then show ?thesis by (auto intro: ensures_post simp: assms(3))
qed

lemma answers_signal_query: "answers P (query (findExecutionIntentBySignal sid)) (holds_found sid)"
proof -
  have "answers P (bind (query (findExecutionIntentBySignal sid)) Done) (holds_found sid)"
    by (rule answers_signal, rule en_done)
  then show ?thesis by (simp add: query_def)
qed

definition rows_found :: "string \<Rightarrow> exec_result + guarded_rows \<Rightarrow> world \<Rightarrow> bool" where
  "rows_found sid r w \<longleftrightarrow> (case r of Inl _ \<Rightarrow> True | Inr du \<Rightarrow> \<forall>iid \<in> guarded_set du. intent_found sid iid (w_db w))"

lemma worker_duplicate:
  "ensures (worker_inv cap S (xi_signalId x) False) (worker_rely h t) (worker_guar h t) (\<lambda>_. True)
     (duplicate_stage cfg oc x rd) (rows_found (xi_signalId x))"
proof -
  have block: "ensures (worker_inv cap S sid False) (worker_rely h t) (worker_guar h t) P p (rows_found sid)"
    if "worker_ok cap S sid False h t p" "yields (\<lambda>r. \<exists>y. r = Inl y) p" for P sid and p :: "guarded_rows stage"
    by (rule ensures_yields [OF upholds_weaken [OF that(1)] that(2)]) (auto simp: rows_found_def)
  show ?thesis
    unfolding duplicate_stage_def
    by (rule ensures_bind [OF upholds_simple [OF worker.ok_lift_query]],
        rule ensures_bind [OF ensures_weaken [OF worker_answers [OF query_ok answers_signal_query]]], simp)
      (auto split: duplicate_decision.split option.split intro!: en_done block worker.ok_bind worker.ok_recover
          yields_bind [OF yields_True] simp: rows_found_def guarded_set_def)
qed

lemma bind_assoc: "bind (bind p f) k = bind p (\<lambda>x. bind (f x) k)"
  by (induction p rule: prog_call_induct) (auto simp: fun_eq_iff option.map_comp intro!: option.map_cong)

lemma worker_plan:
  assumes "rd_thread rd = t" and "gs_maxConcurrent gs \<le> int (cap u)"
    and "\<And>o1. worker_ok cap {it_id (op_intent o1)} (xi_signalId x) False h t (k o1)"
  shows "worker_ok cap (guarded_set du) (xi_signalId x) False h t (proceed (plan_stage cfg h oc u x rd gs inst z du) k)"
proof -
  have "worker_ok cap S (xi_signalId x) False h t (proceed (reserve_stage cfg h oc u x rd gs inst z) k)" for S
  proof -
    let ?create = "createPendingPositionWithExecutionIntent h oc t (rd_positionId rd) (rd_intentId rd) (rd_now rd Creating) (pending_of u x gs z)"
    have p: "pi_signalId (pending_of u x gs z) = xi_signalId x" "pi_userId (pending_of u x gs z) = u"
      "pi_maxConcurrentPositions (pending_of u x gs z) = gs_maxConcurrent gs"
      by (simp_all add: pending_of_def Intents.pending_input.make_def)
    have c: "ensures (worker_inv cap S (xi_signalId x) False) (worker_rely h t) (worker_guar h t) (\<lambda>_. True) (lift ?create)
        (\<lambda>r w. create_found (xi_signalId x) r (w_db w))"
      using worker_answers [OF create_ok created_found, of "pending_of u x gs z"] p assms(2) by simp
    have "worker_ok cap (insert (it_id i) S) (xi_signalId x) False h t
        (proceed (bind recordPositionEvent (\<lambda>_. refresh_stage cfg x rd gs inst z Final o1)) k)" if "op_intent o1 = i" for i o1
    proof (rule worker_yields [where Q = "of_intent i"])
      show "yields (of_intent i) (bind recordPositionEvent (\<lambda>_. refresh_stage cfg x rd gs inst z Final o1))"
        using of_intent_refresh [of o1] that by (intro yields_bind [OF yields_True]) simp
      show "worker_ok cap (insert (it_id i) S) (xi_signalId x) False h t (k y)" if "of_intent i (Inr y)" for y
        using worker_stronger [OF assms(3) [of y]] that by simp
    qed (intro worker.ok_bind worker.ok_event worker.ok_refresh)
    note resumed = worker_found [OF this]
    show ?thesis
      unfolding reserve_stage_def proceed_def bind_assoc assms(1)
    proof (rule upholds_after [OF c])
      show "upholds (worker_inv cap S (xi_signalId x) False) (worker_rely h t) (worker_guar h t)
         (\<lambda>w. create_found (xi_signalId x) created (w_db w))
         (bind (case created of Create_blocked _ _ \<Rightarrow> stop_with ''MAX_CONCURRENT_POSITIONS''
            | Create_ok p i _ _ \<Rightarrow> bind recordPositionEvent (\<lambda>_. refresh_stage cfg x rd gs inst z Final
               \<lparr>op_positionId = ps_id p, op_intent = i, op_direction = ap_direction z,
                op_brokerSymbol = gs_brokerSymbol gs, op_volume = zs_volume z, op_requested = zs_requested z,
                op_stopLoss = ap_stopLoss z, op_takeProfit = ap_takeProfit z,
                op_riskPercent = riskPerTradePercent (zs_limits z), op_quote = ap_quoted z\<rparr>))
           (case_sum (\<lambda>x. Done (Inl x)) k))" for created
        by (cases created) (auto simp: create_found_def stop_with_def intro: up_done intro!: resumed [unfolded proceed_def])
    qed
  qed
  note reserve = this
  show ?thesis
  proof (cases "\<exists>p i. du_resume du \<and> du_position du = Some p \<and> du_intent du = Some i")
    case True
    then obtain p i where du: "du_resume du" "du_position du = Some p" "du_intent du = Some i" by blast
    then have "plan_stage cfg h oc u x rd gs inst z du = resume_stage cfg x rd gs inst z p i" "guarded_set du = {it_id i}"
      by (simp_all add: plan_stage_def guarded_set_def)
    moreover have "worker_ok cap {it_id i} (xi_signalId x) False h t (proceed (resume_stage cfg x rd gs inst z p i) k)"
    proof (rule worker_yields [OF worker.ok_resume of_intent_resume])
      show "worker_ok cap {it_id i} (xi_signalId x) False h t (k y)" if "of_intent i (Inr y)" for y
        using assms(3) [of y] that by simp
    qed
    ultimately show ?thesis by simp
  next
    case False
    then have "plan_stage cfg h oc u x rd gs inst z du = reserve_stage cfg h oc u x rd gs inst z"
      by (auto simp: plan_stage_def split: option.split bool.split)
    then show ?thesis using reserve by simp
  qed
qed

lemma worker_order_stages:
  assumes "rd_thread rd = t" and "gs_maxConcurrent gs \<le> int (cap u)"
  shows "worker_ok cap {} (xi_signalId x) False h t (order_stages cfg h oc u x rd gs inst z)"
proof -
  let ?sid = "xi_signalId x"
  have live: "worker_ok cap {it_id (op_intent o1)} ?sid False h t (proceed (live_stage cfg x rd gs z f o1) (\<lambda>o2.
      proceed (submit_loop cfg oc x rd gs inst z 0 o2) (persist_stage x rd)))" for f o1
  proof (rule worker_yields [OF worker.ok_live of_intent_live])
    show "worker_ok cap {it_id (op_intent o1)} ?sid False h t (proceed (submit_loop cfg oc x rd gs inst z 0 o2) (persist_stage x rd))"
      if "of_intent (op_intent o1) (Inr o2)" for o2
      using worker_submit_loop [of cap o2 x] that by (intro worker.ok_proceed worker.ok_persist) simp
  qed
  have guarded: "worker_ok cap (guarded_set du) ?sid False h t (proceed (risk_stage cfg u x rd gs inst z) (\<lambda>f.
      proceed (plan_stage cfg h oc u x rd gs inst z du) (\<lambda>o1. proceed (live_stage cfg x rd gs z f o1) (\<lambda>o2.
      proceed (submit_loop cfg oc x rd gs inst z 0 o2) (persist_stage x rd)))))" for du
    by (rule worker.ok_proceed [OF worker.ok_risk], rule worker_plan, rule assms(1), rule assms(2), rule live)
  have found: "upholds (worker_inv cap {} ?sid False) (worker_rely h t) (worker_guar h t)
      (rows_found ?sid (Inr du)) p" if "worker_ok cap (guarded_set du) ?sid False h t p" for du and p :: "exec_result stage"
  proof (cases "du_intent du")
    case None
    then have "worker_ok cap {} ?sid False h t p" using that by (simp add: guarded_set_def)
    then show ?thesis by (rule upholds_weaken) simp
  next
    case (Some i)
    then have "rows_found ?sid (Inr du) = (\<lambda>w. intent_found ?sid (it_id i) (w_db w))"
      by (simp add: rows_found_def guarded_set_def fun_eq_iff)
    then show ?thesis using worker_found [of cap "it_id i" "{}" ?sid False h t p] that Some by (simp add: guarded_set_def)
  qed
  show ?thesis
    unfolding order_stages_def
  proof (rule worker.ok_bind [OF worker.signal])
    show "worker_ok cap {} ?sid False h t (proceed (duplicate_stage cfg oc x rd) (\<lambda>du.
      proceed (risk_stage cfg u x rd gs inst z) (\<lambda>f. proceed (plan_stage cfg h oc u x rd gs inst z du) (\<lambda>o1.
      proceed (live_stage cfg x rd gs z f o1) (\<lambda>o2. proceed (submit_loop cfg oc x rd gs inst z 0 o2) (persist_stage x rd))))))"
      unfolding proceed_def [of "duplicate_stage cfg oc x rd"]
      by (rule upholds_after [OF worker_duplicate]) (auto split: sum.split intro: up_done found guarded)
  qed
qed

lemma worker_execution:
  assumes "rd_thread rd = t" and "reserved_cap cfg rd \<le> int (cap u)"
  shows "worker_ok cap {} (xi_signalId x) False h t (executeCfdSignal cfg h oc u x rd)"
proof -
  have "worker_ok cap {} (xi_signalId x) False h t (executeCfdSignalInner cfg h oc u x rd)"
    unfolding executeCfdSignalInner_def
    by (rule worker_yields [OF worker.ok_entry admitted_cap])
      (intro worker.ok_proceed worker.ok_instrument worker.ok_proposal worker.ok_preflight worker.ok_sizing
        worker_order_stages [OF assms(1)], use assms(2) in simp)
  then show ?thesis
    unfolding executeCfdSignal_def by (intro upholds_catch upholds_bind) (auto intro: up_done)
qed

subsection \<open>The system\<close>

datatype work = Execution execution | Background job | Adapter_call mt5_call

fun serve_work :: "(string \<Rightarrow> int) \<Rightarrow> (string \<Rightarrow> string) \<Rightarrow> nat \<Rightarrow> work \<Rightarrow> (world, unit) prog" where
  "serve_work h oc t (Execution e) = serve_execution h oc t e"
| "serve_work h oc t (Background j) = lift (serve_job h oc t j)"
| "serve_work h oc t (Adapter_call c) = serve_call t c"

text \<open>Executions and jobs that reserve within the capacity of their user; calls of the adapter that do not open.\<close>

fun admissible :: "(string \<Rightarrow> nat) \<Rightarrow> work \<Rightarrow> bool" where
  "admissible cap (Execution (Execute cfg u x rd)) = (reserved_cap cfg rd \<le> int (cap u))"
| "admissible cap (Background j) = capped_job cap j"
| "admissible cap (Adapter_call (Call_open _ _ _ _ _)) = False"
| "admissible cap (Adapter_call _) = True"

lemma worker_calls:
  "worker_ok cap S sid b h t (modifyPosition cfg env m mr)" "worker_ok cap S sid b h t (closePosition cfg env ident r)"
  "worker_ok cap S sid b h t (preflightTestTrade cfg env dir sl tp lots sy q now)"
  unfolding modifyPosition_def getOpenPositions_def send_modify_def closePosition_def preflightTestTrade_def
  by (intro worker.ok_bind worker.ok_adapter(8);
      auto intro!: worker.ok_bind worker.ok_command worker.ok_adapter worker.ok_ask split: option.split reply.split sum.split)+

lemma worker_inv_any: "worker_inv cap {} sid False = worker_inv cap {} sid' False"
  by (simp add: worker_inv_def fun_eq_iff)

lemma worker_serves:
  assumes "admissible cap r"
  shows "worker_ok cap {} [] False h t (serve_work h oc t r)"
proof (cases r)
  case (Execution e)
  then obtain cfg u x rd where e: "r = Execution (Execute cfg u x rd)" by (cases e) auto
  have "worker_ok cap {} (xi_signalId x) False h t (executeCfdSignal cfg h oc u x (rd\<lparr>rd_thread := t\<rparr>))"
    by (rule worker_execution) (use assms in \<open>simp_all add: e reserved_cap_def\<close>)
  then show ?thesis
    unfolding e using worker_inv_any [of cap "xi_signalId x" "[]"] by (auto simp: discard_def intro!: worker.ok_bind)
next
  case (Background j)
  then show ?thesis using assms by (auto intro: worker_lift [OF job_ok])
next
  case (Adapter_call c)
  then show ?thesis using assms
    by (cases c) (auto simp: discard_def intro!: worker.ok_bind worker_calls worker.ok_adapter)
qed

interpretation whole_worker: guarded_system "serve_work h oc" "{r. admissible cap r}" "worker_inv cap {} [] False"
    "worker_rely h" "worker_guar h" "\<lambda>w w'. evolves (w_db w) (w_db w')"
  for h oc cap
proof
  show "worker_ok cap {} [] False h t (serve_work h oc t r)" if "r \<in> {r. admissible cap r}" for r t
    using that worker_serves by simp
qed (auto simp: worker_guar_def worker_rely_def thread_guar_def intro: evolves_trans thread_guar_rely [unfolded thread_guar_def])

subsection \<open>Properties\<close>


text \<open>C1: an order is recorded before it is sent.  Under every interleaving, each order on the bridge carries the key of
  a signal whose intent is in the tables and has left the state \<open>CREATED\<close>; hence no order on the bridge belongs to
  an intent that is still created, which is what lets a restart reject or resend a created intent.\<close>

theorem orders_are_recorded_first:
  assumes "\<forall>u. countMt5ConsumedCapacitySlots u (w_db w) \<le> cap u" and "known_states (w_db w)"
    and "distinct_intents (w_db w)" and "w_orders w = []"
    and "sys_reach (serve_work h oc) {r. admissible cap r} (w, []) (w', ps)" and "b \<in> set (w_orders w')"
  shows "(\<exists>t \<in> set (db_intents (w_db w')). bo_idempotencyKey b = executionIntentIdempotencyKey (it_signalId t) \<and>
      it_state t \<noteq> ''CREATED'') \<and>
    (\<forall>t \<in> set (db_intents (w_db w')). it_state t = ''CREATED'' \<longrightarrow>
      bo_idempotencyKey b \<noteq> executionIntentIdempotencyKey (it_signalId t))"
proof -
  have "worker_inv cap {} [] False w" using assms(1-4) by (simp add: worker_inv_def system_inv_def)
  then have inv: "worker_inv cap {} [] False w'" by (rule whole_worker.reach_inv [OF _ assms(5)])
  then obtain t where t: "t \<in> set (db_intents (w_db w'))" "bo_idempotencyKey b = executionIntentIdempotencyKey (it_signalId t)"
    "it_state t \<noteq> ''CREATED''"
    using assms(6) by (auto simp: worker_inv_def recorded_def)
  have "v = t" if "v \<in> set (db_intents (w_db w'))" "it_signalId v = it_signalId t" for v
    using inv that t(1) by (auto simp: worker_inv_def distinct_intents_def distinct_map inj_on_def)
  then show ?thesis using t by (auto simp: executionIntentIdempotencyKey_def)
qed

text \<open>The concrete execution, served by the worker.\<close>

lemma run_worker:
  "\<exists>w p. sys_reach (serve_work (\<lambda>_. 0) (\<lambda>k. k)) {r. admissible (\<lambda>_. 1) r} (run_world, []) (w, [p]) \<and> w_orders w = [run_order]"
proof -
  obtain w r where w: "exec (executeCfdSignal run_app (\<lambda>_. 0) (\<lambda>k. k) ''u'' run_signal run_readings) run_world = Some (w, Inr r)"
    "w_orders w = [run_order]" using run_execution by blast
  have "run_readings\<lparr>rd_thread := 0\<rparr> = run_readings" by (simp add: run_readings_def)
  then have "exec (serve_work (\<lambda>_. 0) (\<lambda>k. k) 0 (Execution (Execute run_app ''u'' run_signal run_readings))) run_world = Some (w, Inr ())"
    using w(1) by (simp add: discard_def)
  moreover have "reserved_cap run_app run_readings = 1"
    by (simp add: reserved_cap_def run_fields resolveMt5EffectiveMaxConcurrentPositions_def)
  ultimately show ?thesis
    using exec_reach [of "Execution (Execute run_app ''u'' run_signal run_readings)" "{r. admissible (\<lambda>_. 1) r}"] w(2) by fastforce
qed

lemma run_start:
  "\<forall>u. countMt5ConsumedCapacitySlots u (w_db run_world) \<le> 1" "known_states (w_db run_world)"
  "distinct_intents (w_db run_world)" "w_orders run_world = []"
  by (simp_all add: run_world_def idle_world_def empty_db_def countMt5ConsumedCapacitySlots_def known_states_def distinct_intents_def)


theorem orders_are_recorded_first_witness:
  "\<exists>w p t. sys_reach (serve_work (\<lambda>_. 0) (\<lambda>k. k)) {r. admissible (\<lambda>_. 1) r} (run_world, []) (w, [p]) \<and> w_orders w = [run_order] \<and>
     t \<in> set (db_intents (w_db w)) \<and> it_signalId t = ''s'' \<and> it_state t \<noteq> ''CREATED''"
proof -
  obtain w p where w: "sys_reach (serve_work (\<lambda>_. 0) (\<lambda>k. k)) {r. admissible (\<lambda>_. 1) r} (run_world, []) (w, [p])" "w_orders w = [run_order]"
    using run_worker by blast
  have "run_order \<in> set (w_orders w)" using w(2) by simp
  from orders_are_recorded_first [OF run_start w(1) this] obtain t where t: "t \<in> set (db_intents (w_db w))"
    "bo_idempotencyKey run_order = executionIntentIdempotencyKey (it_signalId t)" "it_state t \<noteq> ''CREATED''" by blast
  then have "it_signalId t = ''s''" by (simp add: executionIntentIdempotencyKey_def run_order_def)
  with w t show ?thesis by blast
qed

end
