(* ===== verification/Spec2Isabelle.thy ===== *)
theory Spec2Isabelle
  imports Prelude Circuit CfdMath Sizing ProfitLock Clock Risk Simulator Candles Research MailboxId MailboxHeap MailboxCleanup
    Watchdog ExecIntegrity TxProgram TxContracts Intents IntentSystem StopLevels BrokerStops PaperBroker
    EngineVolume LivePolicy Rollout Lifecycle Selector Recovery RecoverySystem Indicators Features Regime
    Strategies CfdProposals Metrics CfdBacktest
    Mt5Adapter Mt5Orders Mt5Execution Mt5Stages Mt5ExecutionRun Mt5ExecutionFacts Mt5System
begin

text \<open>
  A verification development of RegimeX, a trading engine that classifies the regime of a market from its candles,
  selects a strategy for it, sizes a position, and submits the order to MetaTrader 5 or to a simulated venue.  The
  TypeScript sources are under \<^verbatim>\<open>src/packages\<close> and \<^verbatim>\<open>src/apps\<close>; paths below are relative to them, and \<open>TE\<close>
  stands for \<^verbatim>\<open>packages/trading-engine/src\<close>.

  \<^bold>\<open>How the parts interact.\<close>  Ticks become candles (\<open>Candles\<close>), candles become feature snapshots (\<open>Indicators\<close>,
  \<open>Features\<close>), a snapshot becomes a regime (\<open>Regime\<close>), a regime and the evidence of past trades select a strategy
  (\<open>Selector\<close>, \<open>Lifecycle\<close>), the strategy decides (\<open>Strategies\<close>), the decision becomes a stop and a target
  (\<open>CfdProposals\<close>), which are validated and sized (\<open>Sizing\<close>, \<open>Risk\<close>).  From here the same proposal goes three ways: to the
  backtest (\<open>Simulator\<close>, \<open>CfdBacktest\<close>, \<open>Metrics\<close>), to the simulated venue (\<open>PaperBroker\<close>), or to MetaTrader, through the
  execution of the worker (\<open>Mt5Execution\<close>) with its gates (\<open>LivePolicy\<close>, \<open>Rollout\<close>), the execution intents of the worker's database (\<open>Intents\<close>, \<open>Recovery\<close>), the adaptation
  to the broker's stop levels and volumes (\<open>StopLevels\<close>, \<open>BrokerStops\<close>, \<open>EngineVolume\<close>), the adapter of the broker (\<open>Mt5Adapter\<close>) and a file mailbox guarded by a
  circuit breaker and a quote watchdog (\<open>Circuit\<close>, \<open>Mailbox*\<close>, \<open>Watchdog\<close>).

  \<^bold>\<open>Conventions.\<close>  \<open>Prelude\<close> holds them.  A \<open>number\<close> of the source is a \<open>jsnum\<close>: an exact rational \<open>Fin a\<close>, one of
  the two infinities, or \<open>NaN\<close>, with the comparisons and the arithmetic of the language on the special values, so a guard that a
  NaN slips through slips through in the model.  The rounding of binary floating point is not modelled; \<open>toFixed\<close> and the
  rounding to cents are.  \<open>null\<close> and \<open>undefined\<close> are \<open>None\<close>, \<open>??\<close> is \<open>or_default\<close>; a thrown error is the left of a sum, an early
  return a branch.  Interfaces and classes are records, unions of strings are datatypes, maps are HOL maps, lists keep
  the order of arrays.  Texts of reasons and errors are constructors without the figures printed into them.  Clock
  readings, generated identifiers, the square root and answers of the broker are arguments.

  \<^bold>\<open>Theories.\<close>
  \<^item> \<open>CfdMath\<close> (\<^verbatim>\<open>packages/shared/src/utils/money.ts\<close>, \<^verbatim>\<open>types/instrument.ts\<close>, \<^verbatim>\<open>TE/execution/cfdMath.ts\<close>): cents,
    instrument metadata, profit, loss at stop, fills, volumes.  Bounds of the rounding; an unmoved market never pays.
  \<^item> \<open>Sizing\<close> (\<^verbatim>\<open>execution/positionSizing.ts\<close>, \<^verbatim>\<open>stopTargetValidator.ts\<close>), \<open>Risk\<close> (\<^verbatim>\<open>risk/*.ts\<close>), \<open>ProfitLock\<close>
    (\<^verbatim>\<open>execution/r10ProfitLock.ts\<close> and its reconciliation in the worker): volumes within budget and limits, what an approval
    implies, the stop that only ever tightens.
  \<^item> \<open>Clock\<close>, \<open>Candles\<close> (\<^verbatim>\<open>candles/aggregator.ts\<close>, \<^verbatim>\<open>candleIntegrity.ts\<close>): the aggregator is the bucket summary of
    the accepted ticks.
  \<^item> \<open>Indicators\<close> (\<^verbatim>\<open>packages/indicators\<close>), \<open>Features\<close>, \<open>Regime\<close>: a locale \<open>indicator\<close> of causal series gives, through its
    interpretations, that no snapshot looks ahead; running sums are window means; oscillators and scores are in range;
    what a regime says about the snapshot.
  \<^item> \<open>Lifecycle\<close>, \<open>Selector\<close>, \<open>Research\<close> (\<^verbatim>\<open>research/*.ts\<close>, \<^verbatim>\<open>selection/*.ts\<close>, \<^verbatim>\<open>optimize/walkForward.ts\<close>): the ladder of
    evidence, eligibility of what is selected, guards against leakage.
  \<^item> \<open>Strategies\<close>, \<open>CfdProposals\<close> (\<^verbatim>\<open>strategies/*.ts\<close>): the contract \<open>signal_rule\<close> every strategy owes its callers
    and its interpretations; which setups exclude one another; on which side stops and targets lie.
  \<^item> \<open>Simulator\<close>, \<open>Metrics\<close>, \<open>CfdBacktest\<close> (\<^verbatim>\<open>backtest/*.ts\<close>, \<^verbatim>\<open>ensemble/ensemble.ts\<close>): the bar simulator, summaries
    that balance to the cent, and the backtest as a whole: no look-ahead, sound trades, cooldowns.
  \<^item> \<open>PaperBroker\<close> (\<^verbatim>\<open>broker/paperCFDBroker.ts\<close>, \<^verbatim>\<open>execution/positionManager.ts\<close>): the venue refines an abstract ledger.
  \<^item> \<open>Circuit\<close>, \<open>MailboxId\<close>, \<open>MailboxHeap\<close>, \<open>MailboxCleanup\<close>, \<open>Watchdog\<close>, \<open>StopLevels\<close>, \<open>BrokerStops\<close>,
    \<open>EngineVolume\<close>, \<open>LivePolicy\<close>, \<open>Rollout\<close>, \<open>ExecIntegrity\<close> (\<^verbatim>\<open>broker/mt5/*.ts\<close>): the decisions around the MetaTrader bridge.
  \<^item> \<open>TxProgram\<close>, \<open>TxContracts\<close>, \<open>Intents\<close>, \<open>IntentSystem\<close>, \<open>Recovery\<close>, \<open>RecoverySystem\<close> (\<^verbatim>\<open>apps/worker/src/cfd/mt5*.ts\<close>):
    database code as trees of atomic calls that several workers interleave.  The locale \<open>guarded_system\<close> turns an
    invariant of single calls into one of all interleavings; its interpretations give what recovery never does.
  \<^item> \<open>Mt5Adapter\<close>, \<open>Mt5Orders\<close> (\<^verbatim>\<open>TE/broker/derivMt5Broker.ts\<close>, \<^verbatim>\<open>mt5AdapterFactory.ts\<close>): the adapter as calls on the
    \<open>world\<close> of one worker process (tables, adapter state, what was sent), and what every order on the bridge satisfies.
  \<^item> \<open>Mt5Execution\<close> (\<open>executeCfdSignal\<close> of \<^verbatim>\<open>apps/worker/src/cfd/mt5CfdRuntime.ts\<close>): the execution of a signal, stage by
    stage.  \<open>Mt5Stages\<close> states as locales what an invariant must survive for every stage to keep it;
    \<open>Mt5ExecutionRun\<close> evaluates a concrete execution; \<open>Mt5ExecutionFacts\<close> shows what one execution does, and
    \<open>Mt5System\<close> what all work of the worker keeps under every interleaving.

  \<^bold>\<open>What the lemmas show.\<close>  Each theory ends with its properties, most important first in the manifest: invariants of every
  reachable state (venue, intents, capacity, orders on the bridge), refinement of the ledger, safety of the order path (sides of stops, budgets, gates, environments),
  absence of look-ahead (features, resampling, backtest), equivalence of optimised routines with references (heap selection,
  running sums, aggregation, the ratchet), termination of the unbounded loops, and concrete schedules in which the code breaks
  its own documentation (two orders for one key, an order for a rejected intent, an armed engine that never submits).

  \<^bold>\<open>Bounds and fuel.\<close>  Nothing is bounded by fuel.  The loops of \<open>BrokerStops\<close> that push a stop outward by ticks may run
  forever in the source (a tick of zero or NaN); they are \<open>partial_function (option)\<close>, and \<open>finalize_returns\<close> proves that they
  return on a tick grid.  All other loops are structural recursion or folds.  Periods and lookbacks of indicators are natural numbers.  The
  square root of the standard deviation is an argument of the features; no property needs more of it than that it is a function.

  \<^bold>\<open>Not modelled.\<close>  Network and file I/O (bridge client, WebSocket adapters, mailbox transport, notifications), the HTTP routes, the
  user interface, environment parsing and encryption, the gold and trend-structure research strategies, and the offline reports and
  replays under \<^verbatim>\<open>TE/research\<close>: glue around the modelled decisions, or code no order depends on.  The worker's engine session
  is callbacks and timers over the modelled parts; its own bookkeeping, and the paper and reconciliation halves of the
  CFD runtimes, are not modelled.  Left out of modelled
  parts are texts, telemetry, and records that copy values for display; each theory's opening says which.
\<close>

end
